(* ===== verification/Prelude.thy ===== *)
theory Prelude
  imports Main "HOL-Library.Word" "HOL-Library.AList" "HOL-Library.Sublist"
begin

text \<open>
  Shared vocabulary of the development: machine integer types, the outcome type of a Rust
  function that may return \<open>Ok\<close>, return \<open>Err\<close> or panic, the string routines of the Rust
  standard library that the sources call (\<open>split\<close>, \<open>splitn\<close>, \<open>join\<close>, \<open>Vec::resize\<close>,
  \<open>starts_with\<close>), the bounded queue behind a \<open>tokio::sync::mpsc\<close> channel, and the lemmas
  about them that the component theories use through the collections declared here.
\<close>

named_theorems str_simps \<open>splitting and joining strings\<close>
named_theorems alist_simps \<open>association lists as finite maps\<close>

type_synonym u32 = "32 word"
type_synonym u64 = "64 word"
type_synonym byte = "8 word"

section \<open>Outcomes\<close>

text \<open>
  A call of a function with return type \<open>Result<T, E>\<close> either returns or unwinds. \<open>Panic\<close>
  covers \<open>unwrap\<close> and \<open>expect\<close> on the wrong variant, an index out of range and an explicit
  \<open>panic!\<close>.
\<close>

datatype ('e, 'a) exec = Ok 'a | Err 'e | Panic

fun unwrap_exec :: "('e, 'a) exec \<Rightarrow> ('f, 'a) exec" where
  "unwrap_exec (Ok x) = Ok x"
| "unwrap_exec (Err e) = Panic"
| "unwrap_exec Panic = Panic"

fun bind_exec :: "('e, 'a) exec \<Rightarrow> ('a \<Rightarrow> ('e, 'b) exec) \<Rightarrow> ('e, 'b) exec" where
  "bind_exec (Ok x) f = f x"
| "bind_exec (Err e) f = Err e"
| "bind_exec Panic f = Panic"

fun is_ok :: "('e, 'a) exec \<Rightarrow> bool" where
  "is_ok (Ok x) = True"
| "is_ok (Err e) = False"
| "is_ok Panic = False"

lemma bind_exec_Ok_iff: "bind_exec r f = Ok y \<longleftrightarrow> (\<exists>x. r = Ok x \<and> f x = Ok y)"
  by (cases r) auto

lemma unwrap_exec_Ok_iff [simp]: "unwrap_exec r = Ok y \<longleftrightarrow> r = Ok y"
  by (cases r) auto

section \<open>Strings\<close>

text \<open>\<open>str::split(c)\<close>: all pieces between occurrences of \<open>c\<close>; the empty string has one piece.\<close>

fun split_on :: "char \<Rightarrow> string \<Rightarrow> string list" where
  "split_on c [] = [[]]"
| "split_on c (x # xs) =
     (if x = c then [] # split_on c xs
      else (case split_on c xs of [] \<Rightarrow> [[x]] | y # ys \<Rightarrow> (x # y) # ys))"

text \<open>\<open>str::split_once(c)\<close>: the text before and after the first occurrence of \<open>c\<close>.\<close>

fun split_once :: "char \<Rightarrow> string \<Rightarrow> (string \<times> string) option" where
  "split_once c [] = None"
| "split_once c (x # xs) =
     (if x = c then Some ([], xs)
      else map_option (\<lambda>(a, b). (x # a, b)) (split_once c xs))"

text \<open>\<open>str::splitn(n, c)\<close>: at most \<open>n\<close> pieces, the last one unsplit.\<close>

fun splitn :: "nat \<Rightarrow> char \<Rightarrow> string \<Rightarrow> string list" where
  "splitn 0 c s = []"
| "splitn (Suc 0) c s = [s]"
| "splitn (Suc (Suc n)) c s =
     (case split_once c s of None \<Rightarrow> [s] | Some (a, b) \<Rightarrow> a # splitn (Suc n) c b)"

text \<open>\<open>[&str]::join(sep)\<close> for a one-character separator.\<close>

fun join_with :: "char \<Rightarrow> string list \<Rightarrow> string" where
  "join_with c [] = []"
| "join_with c [x] = x"
| "join_with c (x # y # ys) = x @ c # join_with c (y # ys)"

text \<open>\<open>Vec::resize(n, d)\<close>: truncates or pads to length \<open>n\<close>.\<close>

definition resize :: "nat \<Rightarrow> 'a \<Rightarrow> 'a list \<Rightarrow> 'a list" where
  "resize n d xs = take n xs @ replicate (n - length xs) d"

abbreviation starts_with :: "string \<Rightarrow> string \<Rightarrow> bool" where
  "starts_with s p \<equiv> prefix p s"

lemma length_resize [simp]: "length (resize n d xs) = n"
  by (simp add: resize_def)

lemma split_on_ne [simp]: "split_on c s \<noteq> []"
  by (induction s) (auto split: list.splits)

lemma split_on_free [str_simps]: "c \<notin> set s \<Longrightarrow> split_on c s = [s]"
  by (induction s) auto

lemma split_on_append [str_simps]:
  "c \<notin> set a \<Longrightarrow> split_on c (a @ c # b) = a # split_on c b"
  by (induction a) auto

lemma split_once_free [str_simps]: "c \<notin> set s \<Longrightarrow> split_once c s = None"
  by (induction s) auto

lemma split_once_append [str_simps]:
  "c \<notin> set a \<Longrightarrow> split_once c (a @ c # b) = Some (a, b)"
  by (induction a) auto

lemma split_once_SomeD:
  "split_once c s = Some (a, b) \<Longrightarrow> s = a @ c # b \<and> c \<notin> set a"
  by (induction s arbitrary: a) (auto split: if_splits)

lemma split_on_join:
  "xs \<noteq> [] \<Longrightarrow> \<forall>x \<in> set xs. c \<notin> set x \<Longrightarrow> split_on c (join_with c xs) = xs"
  by (induction c xs rule: join_with.induct) (auto simp: str_simps)

lemma join_split_on: "join_with c (split_on c s) = s"
proof (induction s)
  case (Cons x s)
  obtain y ys where "split_on c s = y # ys" by (cases "split_on c s") auto
  with Cons show ?case by (cases ys) auto
qed simp

lemma split_on_mem_free: "x \<in> set (split_on c s) \<Longrightarrow> c \<notin> set x"
  by (induction s arbitrary: x) (auto split: if_splits list.splits)

lemma count_join_free:
  "\<forall>x \<in> set xs. c \<notin> set x \<Longrightarrow> count_list (join_with c xs) c = length xs - 1"
  by (induction c xs rule: join_with.induct) auto

section \<open>Decimal numbers\<close>

definition digit_char :: "nat \<Rightarrow> char" where
  "digit_char d = char_of (48 + d)"

definition char_digit :: "char \<Rightarrow> nat option" where
  "char_digit c =
     (let n = (of_char c :: nat) in if 48 \<le> n \<and> n \<le> 57 then Some (n - 48) else None)"

text \<open>\<open>to_string\<close> of an unsigned integer, and the digit loop of its \<open>parse\<close>.\<close>

fun show_nat :: "nat \<Rightarrow> string" where
  "show_nat n = (if n < 10 then [digit_char n] else show_nat (n div 10) @ [digit_char (n mod 10)])"

declare show_nat.simps [simp del]

fun read_digits :: "nat \<Rightarrow> string \<Rightarrow> nat option" where
  "read_digits acc [] = Some acc"
| "read_digits acc (c # cs) =
     (case char_digit c of None \<Rightarrow> None | Some d \<Rightarrow> read_digits (10 * acc + d) cs)"

lemma char_digit_digit_char [simp]: "d < 10 \<Longrightarrow> char_digit (digit_char d) = Some d"
  by (simp add: char_digit_def digit_char_def)

lemma read_digits_append:
  "read_digits acc (xs @ ys) =
     (case read_digits acc xs of None \<Rightarrow> None | Some a \<Rightarrow> read_digits a ys)"
  by (induction acc xs rule: read_digits.induct) (auto split: option.splits)

lemma read_digits_show_nat: "read_digits 0 (show_nat n) = Some n"
proof (induction n rule: show_nat.induct)
  case (1 n)
  then show ?case
    by (subst show_nat.simps) (simp add: read_digits_append)
qed

lemma show_nat_ne [simp]: "show_nat n \<noteq> []"
  by (subst show_nat.simps) simp

lemma show_nat_digits: "c \<in> set (show_nat n) \<Longrightarrow> \<exists>d < 10. c = digit_char d"
proof (induction n rule: show_nat.induct)
  case (1 n)
  then show ?case
    by (subst (asm) (2) show_nat.simps) (auto split: if_splits intro: exI [of _ "n mod 10"])
qed

section \<open>Association lists as finite maps\<close>

text \<open>
  A \<open>DashMap\<close> or \<open>HashMap\<close> is an association list with distinct keys. Its order stands for
  the unspecified iteration order of the hash table: theorems quantify over all orders.
\<close>

lemma map_of_update [alist_simps]: "map_of (AList.update k v al) = (map_of al)(k \<mapsto> v)"
  by (rule update_conv')

lemma map_of_delete [alist_simps]: "map_of (AList.delete k al) = (map_of al)(k := None)"
  by (rule delete_conv')

lemma distinct_keys_update [alist_simps]:
  "distinct (map fst al) \<Longrightarrow> distinct (map fst (AList.update k v al))"
  by (rule distinct_update)

lemma distinct_keys_delete [alist_simps]:
  "distinct (map fst al) \<Longrightarrow> distinct (map fst (AList.delete k al))"
  by (rule distinct_delete)

lemma set_update_subset: "set (AList.update k v al) \<subseteq> insert (k, v) (set al)"
  by (induction al) auto

section \<open>Bounded channels\<close>

text \<open>
  The documented behaviour of \<open>tokio::sync::mpsc\<close>: a sender shares a bounded FIFO queue with
  one receiver; \<open>try_send\<close> fails with \<open>Full\<close> when the queue is at capacity and with
  \<open>Closed\<close> when the receiver is gone.
\<close>

record 'm chan =
  cap :: nat
  queue :: "'m list"
  rx_open :: bool

datatype try_send_error = Full | Closed

definition new_chan :: "nat \<Rightarrow> 'm chan" where
  "new_chan n = \<lparr>cap = n, queue = [], rx_open = True\<rparr>"

definition try_send :: "'m chan \<Rightarrow> 'm \<Rightarrow> (try_send_error, 'm chan) exec" where
  "try_send ch m =
     (if \<not> rx_open ch then Err Closed
      else if cap ch \<le> length (queue ch) then Err Full
      else Ok (ch\<lparr>queue := queue ch @ [m]\<rparr>))"

definition chan_inv :: "'m chan \<Rightarrow> bool" where
  "chan_inv ch \<longleftrightarrow> length (queue ch) \<le> cap ch"

lemma chan_inv_new [simp]: "chan_inv (new_chan n)"
  by (simp add: chan_inv_def new_chan_def)

lemma chan_inv_try_send: "chan_inv ch \<Longrightarrow> try_send ch m = Ok ch' \<Longrightarrow> chan_inv ch'"
  by (auto simp: chan_inv_def try_send_def split: if_splits)

lemma try_send_Ok_iff:
  "try_send ch m = Ok ch' \<longleftrightarrow>
     rx_open ch \<and> length (queue ch) < cap ch \<and> ch' = ch\<lparr>queue := queue ch @ [m]\<rparr>"
  by (auto simp: try_send_def)

text \<open>
  The asynchronous \<open>send\<close>: \<open>None\<close> while it waits for room, an error when the receiver is gone.
\<close>

definition send_async :: "'m chan \<Rightarrow> 'm \<Rightarrow> (unit, 'm chan) exec option" where
  "send_async ch m =
     (case try_send ch m of Ok ch' \<Rightarrow> Some (Ok ch') | Err Full \<Rightarrow> None | _ \<Rightarrow> Some (Err ()))"

lemma send_async_Ok_iff:
  "send_async ch m = Some (Ok ch') \<longleftrightarrow>
     rx_open ch \<and> length (queue ch) < cap ch \<and> ch' = ch\<lparr>queue := queue ch @ [m]\<rparr>"
  by (auto simp: send_async_def try_send_def)

lemma send_async_cases:
  "send_async ch m =
     (if \<not> rx_open ch then Some (Err ())
      else if cap ch \<le> length (queue ch) then None else Some (Ok (ch\<lparr>queue := queue ch @ [m]\<rparr>)))"
  by (simp add: send_async_def try_send_def)

end
