(* ===== verification/Swbus_Proto.thy ===== *)
theory Swbus_Proto
  imports Prelude
begin

text \<open>
  The wire data of the switch bus (\<open>crates/swbus-proto\<close>): service paths with their printing,
  parsing and prefix routines, the message types of \<open>swbus.proto\<close>, error codes and the error
  type with its constructor contracts, responses and the message id generator.

  The lemmas show: printing and parsing are inverse on well-formed paths, for the display form and
  for the longest-path form; the four routing prefixes are injective and live in disjoint key
  spaces; \<open>join\<close> keeps the fields before the first non-empty one; ids are pairwise distinct for
  \<open>2\<^sup>6\<^sup>4\<close> consecutive calls.
\<close>

section \<open>Service paths\<close>

record service_path =
  region_id :: string
  cluster_id :: string
  node_id :: string
  service_type :: string
  service_id :: string
  resource_type :: string
  resource_id :: string

datatype route_scope = ScopeClient | ScopeLocal | ScopeCluster | ScopeRegion | ScopeGlobal

datatype connection_type = ConnClient | ConnLocal | ConnCluster | ConnRegion | ConnGlobal

fun scope_num :: "route_scope \<Rightarrow> nat" where
  "scope_num ScopeClient = 0"
| "scope_num ScopeLocal = 1"
| "scope_num ScopeCluster = 2"
| "scope_num ScopeRegion = 3"
| "scope_num ScopeGlobal = 4"

fun conn_type_num :: "connection_type \<Rightarrow> nat" where
  "conn_type_num ConnClient = 0"
| "conn_type_num ConnLocal = 1"
| "conn_type_num ConnCluster = 2"
| "conn_type_num ConnRegion = 3"
| "conn_type_num ConnGlobal = 4"

text \<open>The derived order of the enumeration is the order of its discriminants.\<close>

instantiation route_scope :: linorder
begin

definition less_eq_route_scope :: "route_scope \<Rightarrow> route_scope \<Rightarrow> bool" where
  "less_eq_route_scope a b = (scope_num a \<le> scope_num b)"

definition less_route_scope :: "route_scope \<Rightarrow> route_scope \<Rightarrow> bool" where
  "less_route_scope a b = (scope_num a < scope_num b)"

instance
proof
  fix x y z :: route_scope
  show "(x < y) = (x \<le> y \<and> \<not> y \<le> x)"
    by (auto simp: less_eq_route_scope_def less_route_scope_def)
  show "x \<le> x"
    by (simp add: less_eq_route_scope_def)
  show "x \<le> y \<Longrightarrow> y \<le> z \<Longrightarrow> x \<le> z"
    by (simp add: less_eq_route_scope_def)
  show "x \<le> y \<Longrightarrow> y \<le> x \<Longrightarrow> x = y"
    by (cases x; cases y; simp add: less_eq_route_scope_def)
  show "x \<le> y \<or> y \<le> x"
    by (auto simp: less_eq_route_scope_def)
qed

end

definition with_region ::
    "string \<Rightarrow> string \<Rightarrow> string \<Rightarrow> string \<Rightarrow> string \<Rightarrow> service_path" where
  "with_region r st si rt ri =
     \<lparr>region_id = r, cluster_id = [], node_id = [], service_type = st, service_id = si,
      resource_type = rt, resource_id = ri\<rparr>"

definition with_cluster ::
    "string \<Rightarrow> string \<Rightarrow> string \<Rightarrow> string \<Rightarrow> string \<Rightarrow> string \<Rightarrow> service_path" where
  "with_cluster r c st si rt ri =
     \<lparr>region_id = r, cluster_id = c, node_id = [], service_type = st, service_id = si,
      resource_type = rt, resource_id = ri\<rparr>"

definition with_node ::
    "string \<Rightarrow> string \<Rightarrow> string \<Rightarrow> string \<Rightarrow> string \<Rightarrow> string \<Rightarrow> string \<Rightarrow> service_path" where
  "with_node r c n st si rt ri =
     \<lparr>region_id = r, cluster_id = c, node_id = n, service_type = st, service_id = si,
      resource_type = rt, resource_id = ri\<rparr>"

text \<open>
  \<open>from_string\<close> returns \<open>Result<Self>\<close> but has no error branch. The indexing of \<open>parts\<close> and
  \<open>loc_parts\<close> is in range because both have just been resized.
\<close>

definition from_string :: "string \<Rightarrow> ('e, service_path) exec" where
  "from_string s =
     (let parts = resize 5 [] (split_on CHR ''/'' s);
          loc_parts = resize 3 [] (splitn 3 CHR ''.'' (parts ! 0))
      in Ok \<lparr>region_id = loc_parts ! 0, cluster_id = loc_parts ! 1, node_id = loc_parts ! 2,
             service_type = parts ! 1, service_id = parts ! 2,
             resource_type = parts ! 3, resource_id = parts ! 4\<rparr>)"

definition to_regional_prefix :: "service_path \<Rightarrow> string" where
  "to_regional_prefix sp = region_id sp"

definition to_cluster_prefix :: "service_path \<Rightarrow> string" where
  "to_cluster_prefix sp = region_id sp @ ''.'' @ cluster_id sp"

definition to_node_prefix :: "service_path \<Rightarrow> string" where
  "to_node_prefix sp = region_id sp @ ''.'' @ cluster_id sp @ ''.'' @ node_id sp"

definition to_service_prefix :: "service_path \<Rightarrow> string" where
  "to_service_prefix sp =
     region_id sp @ ''.'' @ cluster_id sp @ ''.'' @ node_id sp
       @ ''/'' @ service_type sp @ ''/'' @ service_id sp"

definition to_swbusd_service_path :: "service_path \<Rightarrow> service_path" where
  "to_swbusd_service_path sp =
     sp\<lparr>service_type := [], service_id := [], resource_type := [], resource_id := []\<rparr>"

definition to_longest_path :: "service_path \<Rightarrow> string" where
  "to_longest_path sp =
     (let loc_str = join_with CHR ''.''
            (takeWhile (\<lambda>x. x \<noteq> []) [region_id sp, cluster_id sp, node_id sp]);
          rsc_str = join_with CHR ''/''
            (takeWhile (\<lambda>x. x \<noteq> [])
               [service_type sp, service_id sp, resource_type sp, resource_id sp])
      in if rsc_str = [] then loc_str else loc_str @ ''/'' @ rsc_str)"

text \<open>The \<open>Display\<close> instance; \<open>to_string()\<close> in the sources.\<close>

definition sp_display :: "service_path \<Rightarrow> string" where
  "sp_display sp =
     (let rsc = ''/'' @ service_type sp @ ''/'' @ service_id sp @ ''/'' @ resource_type sp
                  @ ''/'' @ resource_id sp
      in if node_id sp \<noteq> [] then
           region_id sp @ ''.'' @ cluster_id sp @ ''.'' @ node_id sp @ rsc
         else if cluster_id sp \<noteq> [] then region_id sp @ ''.'' @ cluster_id sp @ rsc
         else region_id sp @ rsc)"

definition sp_route_scope :: "service_path \<Rightarrow> route_scope" where
  "sp_route_scope sp =
     (if cluster_id sp = [] then ScopeGlobal
      else if node_id sp = [] then ScopeRegion
      else if service_id sp = [] then ScopeCluster
      else ScopeClient)"

text \<open>The fields of a path in declaration order, and back.\<close>

definition sp_fields :: "service_path \<Rightarrow> string list" where
  "sp_fields sp = [region_id sp, cluster_id sp, node_id sp, service_type sp, service_id sp,
     resource_type sp, resource_id sp]"

definition sp_of_fields :: "string list \<Rightarrow> service_path" where
  "sp_of_fields fs = \<lparr>region_id = fs ! 0, cluster_id = fs ! 1, node_id = fs ! 2,
     service_type = fs ! 3, service_id = fs ! 4, resource_type = fs ! 5, resource_id = fs ! 6\<rparr>"

text \<open>
  \<open>join\<close> zips the fields of both paths, skips the pairs whose right side is empty up to the
  first non-empty one and overwrites the rest.
\<close>

definition sp_join :: "service_path \<Rightarrow> service_path \<Rightarrow> service_path" where
  "sp_join self other =
     (let ps = zip (sp_fields self) (sp_fields other)
      in sp_of_fields
           (map fst (takeWhile (\<lambda>(_, b). b = []) ps) @ map snd (dropWhile (\<lambda>(_, b). b = []) ps)))"

section \<open>Error codes and errors\<close>

datatype swbus_error_code =
    UnknownError | CodeOk | ConnectionErrorMin | ConnectionErr | Timeout | ConnectionErrorMax
  | InputErrorMin | InvalidArgs | InvalidDestination | InvalidSource | InvalidHeader
  | InvalidPayload | InputErrorMax | RouteErrorMin | NoRoute | QueueFull | Unreachable
  | ServiceNotFound | ResourceNotFound | RouteErrorMax | InternalErrorMin | Fail
  | InternalErrorMax

fun code_num :: "swbus_error_code \<Rightarrow> int" where
  "code_num UnknownError = 0"
| "code_num CodeOk = 1"
| "code_num ConnectionErrorMin = 100"
| "code_num ConnectionErr = 101"
| "code_num Timeout = 102"
| "code_num ConnectionErrorMax = 199"
| "code_num InputErrorMin = 200"
| "code_num InvalidArgs = 201"
| "code_num InvalidDestination = 202"
| "code_num InvalidSource = 203"
| "code_num InvalidHeader = 210"
| "code_num InvalidPayload = 211"
| "code_num InputErrorMax = 299"
| "code_num RouteErrorMin = 300"
| "code_num NoRoute = 301"
| "code_num QueueFull = 302"
| "code_num Unreachable = 303"
| "code_num ServiceNotFound = 370"
| "code_num ResourceNotFound = 380"
| "code_num RouteErrorMax = 399"
| "code_num InternalErrorMin = 900"
| "code_num Fail = 901"
| "code_num InternalErrorMax = 999"

definition all_codes :: "swbus_error_code list" where
  "all_codes = [UnknownError, CodeOk, ConnectionErrorMin, ConnectionErr, Timeout,
     ConnectionErrorMax, InputErrorMin, InvalidArgs, InvalidDestination, InvalidSource,
     InvalidHeader, InvalidPayload, InputErrorMax, RouteErrorMin, NoRoute, QueueFull,
     Unreachable, ServiceNotFound, ResourceNotFound, RouteErrorMax, InternalErrorMin, Fail,
     InternalErrorMax]"

text \<open>\<open>SwbusErrorCode::try_from(i32)\<close>.\<close>

definition code_of_num :: "int \<Rightarrow> swbus_error_code option" where
  "code_of_num n = find (\<lambda>c. code_num c = n) all_codes"

text \<open>The text of an error: a string of the sources, or the display text of a channel error.\<close>

datatype detail = Text string | SendText try_send_error

datatype swbus_error =
    ConnectionError swbus_error_code detail
  | InputError swbus_error_code detail
  | RouteError swbus_error_code detail
  | InternalError swbus_error_code detail

text \<open>
  The constructors carry \<open>requires\<close> contracts of the \<open>contracts\<close> crate: a code outside the
  class's open interval panics.
\<close>

definition mk_connection :: "swbus_error_code \<Rightarrow> detail \<Rightarrow> ('e, swbus_error) exec" where
  "mk_connection code d =
     (if code_num ConnectionErrorMin < code_num code \<and> code_num code < code_num ConnectionErrorMax
      then Ok (ConnectionError code d) else Panic)"

definition mk_input :: "swbus_error_code \<Rightarrow> detail \<Rightarrow> ('e, swbus_error) exec" where
  "mk_input code d =
     (if code_num InputErrorMin < code_num code \<and> code_num code < code_num InputErrorMax
      then Ok (InputError code d) else Panic)"

definition mk_route :: "swbus_error_code \<Rightarrow> detail \<Rightarrow> ('e, swbus_error) exec" where
  "mk_route code d =
     (if code_num RouteErrorMin < code_num code \<and> code_num code < code_num RouteErrorMax
      then Ok (RouteError code d) else Panic)"

definition mk_internal :: "swbus_error_code \<Rightarrow> detail \<Rightarrow> ('e, swbus_error) exec" where
  "mk_internal code d =
     (if code_num InternalErrorMin < code_num code \<and> code_num code < code_num InternalErrorMax
      then Ok (InternalError code d) else Panic)"

type_synonym 'a result = "(swbus_error, 'a) exec"

text \<open>\<open>return Err(SwbusError::input(code, detail))\<close>: the contract is checked first.\<close>

definition err_of :: "(swbus_error, swbus_error) exec \<Rightarrow> 'a result" where
  "err_of e = (case e of Ok x \<Rightarrow> Err x | _ \<Rightarrow> Panic)"

section \<open>Messages\<close>

record swbus_message_header =
  version :: u32
  msg_id :: u64
  flag :: u32
  ttl :: u32
  source :: "service_path option"
  destination :: "service_path option"

record route_query_result_entry =
  rq_service_path :: "service_path option"
  rq_hop_count :: u32
  nh_id :: string
  nh_service_path :: "service_path option"
  nh_scope :: nat

datatype response_body =
    RouteQueryResult "route_query_result_entry list"
  | ManagementQueryResult string

record request_response =
  request_id :: u64
  error_code :: int
  error_message :: string
  resp_body :: "response_body option"

datatype body =
    Response request_response
  | RegistrationQueryRequest
  | RegistrationQueryResponse
  | PingRequest
  | TraceRouteRequest
  | ManagementRequest int "(string \<times> string) list"
  | DataRequest "byte list"

record swbus_message =
  header :: "swbus_message_header option"
  body :: "body option"

definition new_header :: "service_path \<Rightarrow> service_path \<Rightarrow> u64 \<Rightarrow> swbus_message_header" where
  "new_header src dst i =
     \<lparr>version = 1, msg_id = i, flag = 0, ttl = 64, source = Some src, destination = Some dst\<rparr>"

definition response_ok :: "u64 \<Rightarrow> request_response" where
  "response_ok rid =
     \<lparr>request_id = rid, error_code = code_num CodeOk, error_message = [], resp_body = None\<rparr>"

definition infra_error :: "u64 \<Rightarrow> swbus_error_code \<Rightarrow> string \<Rightarrow> request_response" where
  "infra_error rid code text =
     \<lparr>request_id = rid, error_code = code_num code, error_message = text, resp_body = None\<rparr>"

definition new_message :: "swbus_message_header \<Rightarrow> body \<Rightarrow> swbus_message" where
  "new_message h b = \<lparr>header = Some h, body = Some b\<rparr>"

text \<open>
  \<open>SwbusMessage::new_response\<close>. It panics when the request has no header, when it has no source
  (the response's destination), and when no explicit source is given and it has no destination.
\<close>

definition new_response ::
    "swbus_message \<Rightarrow> service_path option \<Rightarrow> swbus_error_code \<Rightarrow> string \<Rightarrow> u64
       \<Rightarrow> response_body option \<Rightarrow> swbus_message result" where
  "new_response request src code text rid rbody =
     (case header request of
        None \<Rightarrow> Panic
      | Some h \<Rightarrow>
          (let rr = (if code = CodeOk then response_ok (msg_id h)
                     else infra_error (msg_id h) code text);
               rr' = (if rbody \<noteq> None then rr\<lparr>resp_body := rbody\<rparr> else rr);
               src_sp = (case src of Some sp \<Rightarrow> Some sp | None \<Rightarrow> destination h)
           in case src_sp of
                None \<Rightarrow> Panic
              | Some s \<Rightarrow>
                  (case source h of
                     None \<Rightarrow> Panic
                   | Some d \<Rightarrow> Ok (new_message (new_header s d rid) (Response rr')))))"

section \<open>Message ids\<close>

text \<open>
  \<open>AtomicU64::fetch_add(1)\<close> wraps. The generator starts at the epoch time in nanoseconds, which
  is an argument here.
\<close>

record message_id_generator =
  next_id :: u64

definition new_id_generator :: "u64 \<Rightarrow> message_id_generator" where
  "new_id_generator startup_epoch_nanos = \<lparr>next_id = startup_epoch_nanos\<rparr>"

definition generate :: "message_id_generator \<Rightarrow> u64 \<times> message_id_generator" where
  "generate g = (next_id g, g\<lparr>next_id := next_id g + 1\<rparr>)"

section \<open>Ordering of route query results\<close>

text \<open>
  \<open>PartialOrd for RouteQueryResultEntry\<close>: by service path, then hop count. The derived order of
  \<open>ServicePath\<close> is lexicographic over the fields, each a byte-wise lexicographic comparison; an
  absent path is smaller than every path.
\<close>

fun lex_le :: "('a \<Rightarrow> nat) \<Rightarrow> 'a list \<Rightarrow> 'a list \<Rightarrow> bool" where
  "lex_le f [] ys = True"
| "lex_le f (x # xs) [] = False"
| "lex_le f (x # xs) (y # ys) = (f x < f y \<or> (f x = f y \<and> lex_le f xs ys))"

definition str_le :: "string \<Rightarrow> string \<Rightarrow> bool" where
  "str_le = lex_le of_char"

fun fields_le :: "string list \<Rightarrow> string list \<Rightarrow> bool" where
  "fields_le [] ys = True"
| "fields_le (x # xs) [] = False"
| "fields_le (x # xs) (y # ys) = (if x = y then fields_le xs ys else str_le x y)"

definition sp_opt_le :: "service_path option \<Rightarrow> service_path option \<Rightarrow> bool" where
  "sp_opt_le a b =
     (case (a, b) of
        (None, _) \<Rightarrow> True
      | (Some _, None) \<Rightarrow> False
      | (Some x, Some y) \<Rightarrow> fields_le (sp_fields x) (sp_fields y))"

definition entry_le :: "route_query_result_entry \<Rightarrow> route_query_result_entry \<Rightarrow> bool" where
  "entry_le a b =
     (if rq_service_path a = rq_service_path b then rq_hop_count a \<le> rq_hop_count b
      else sp_opt_le (rq_service_path a) (rq_service_path b))"

text \<open>\<open>sorted_vec_serializer\<close> sorts a clone of the vector by this order (a stable sort).\<close>

fun insort_entry ::
    "route_query_result_entry \<Rightarrow> route_query_result_entry list \<Rightarrow> route_query_result_entry list" where
  "insort_entry x [] = [x]"
| "insort_entry x (y # ys) = (if entry_le x y then x # y # ys else y # insort_entry x ys)"

definition sorted_entries :: "route_query_result_entry list \<Rightarrow> route_query_result_entry list" where
  "sorted_entries es = foldr insort_entry es []"

section \<open>Printing and parsing of service paths\<close>

text \<open>
  A path is clean when printing it is unambiguous: no field holds a slash, and region and cluster
  hold no dot (the node may: it is an IP address, and \<open>splitn(3, '.')\<close> keeps its dots).
\<close>

definition sp_clean :: "service_path \<Rightarrow> bool" where
  "sp_clean sp \<longleftrightarrow>
     (\<forall>f \<in> set (sp_fields sp). CHR ''/'' \<notin> set f)
     \<and> CHR ''.'' \<notin> set (region_id sp) \<and> CHR ''.'' \<notin> set (cluster_id sp)"

text \<open>A list of fields has no gap when nothing follows the first empty one.\<close>

fun gapless :: "string list \<Rightarrow> bool" where
  "gapless [] = True"
| "gapless (x # xs) = (if x = [] then \<forall>y \<in> set xs. y = [] else gapless xs)"

definition sp_gapless :: "service_path \<Rightarrow> bool" where
  "sp_gapless sp \<longleftrightarrow>
     gapless [region_id sp, cluster_id sp, node_id sp]
     \<and> gapless [service_type sp, service_id sp, resource_type sp, resource_id sp]"

lemma sp_clean_fields [simp]:
  assumes "sp_clean sp"
  shows "CHR ''/'' \<notin> set (region_id sp)" "CHR ''/'' \<notin> set (cluster_id sp)"
    "CHR ''/'' \<notin> set (node_id sp)" "CHR ''/'' \<notin> set (service_type sp)"
    "CHR ''/'' \<notin> set (service_id sp)" "CHR ''/'' \<notin> set (resource_type sp)"
    "CHR ''/'' \<notin> set (resource_id sp)" "CHR ''.'' \<notin> set (region_id sp)"
    "CHR ''.'' \<notin> set (cluster_id sp)"
  using assms by (simp_all add: sp_clean_def sp_fields_def)

lemma sp_fields_inverse [simp]: "sp_of_fields (sp_fields sp) = sp"
  by (simp add: sp_of_fields_def sp_fields_def)

lemma sp_of_fields_inverse: "length fs = 7 \<Longrightarrow> sp_fields (sp_of_fields fs) = fs"
  by (auto simp: sp_of_fields_def sp_fields_def eval_nat_numeral length_Suc_conv)

lemma resize_Cons [simp]: "resize (Suc n) d (x # xs) = x # resize n d xs"
  by (simp add: resize_def)

lemma resize_Nil [simp]: "resize n d [] = replicate n d"
  by (simp add: resize_def)

text \<open>The locator of a display string: what \<open>splitn(3, '.')\<close> and \<open>resize(3)\<close> make of it.\<close>

lemma loc_parts_region:
  "CHR ''.'' \<notin> set r \<Longrightarrow> resize 3 [] (splitn 3 CHR ''.'' r) = [r, [], []]"
  by (simp add: eval_nat_numeral str_simps)

lemma loc_parts_cluster:
  "CHR ''.'' \<notin> set r \<Longrightarrow> CHR ''.'' \<notin> set c
    \<Longrightarrow> resize 3 [] (splitn 3 CHR ''.'' (r @ CHR ''.'' # c)) = [r, c, []]"
  by (simp add: eval_nat_numeral str_simps)

lemma loc_parts_node:
  "CHR ''.'' \<notin> set r \<Longrightarrow> CHR ''.'' \<notin> set c
    \<Longrightarrow> resize 3 [] (splitn 3 CHR ''.'' (r @ CHR ''.'' # c @ CHR ''.'' # n)) = [r, c, n]"
  by (simp add: eval_nat_numeral str_simps)

lemmas loc_parts = loc_parts_region loc_parts_cluster loc_parts_node

lemma from_string_slashes:
  assumes "ps \<noteq> []" "\<forall>x \<in> set ps. CHR ''/'' \<notin> set x"
    and "resize 3 [] (splitn 3 CHR ''.'' (hd ps)) = [r, c, n]"
    and "resize 5 [] ps = [hd ps, st, si, rt, ri]"
  shows "from_string (join_with CHR ''/'' ps) =
    Ok \<lparr>region_id = r, cluster_id = c, node_id = n, service_type = st, service_id = si,
        resource_type = rt, resource_id = ri\<rparr>"
  using assms by (simp add: from_string_def split_on_join)

lemma from_string_display:
  assumes "sp_clean sp"
  shows "from_string (sp_display sp) = Ok sp"
proof -
  define loc where "loc = (if node_id sp \<noteq> [] then
        region_id sp @ CHR ''.'' # cluster_id sp @ CHR ''.'' # node_id sp
      else if cluster_id sp \<noteq> [] then region_id sp @ CHR ''.'' # cluster_id sp
      else region_id sp)"
  let ?ps = "[loc, service_type sp, service_id sp, resource_type sp, resource_id sp]"
  have "CHR ''/'' \<notin> set loc"
    and "resize 3 [] (splitn 3 CHR ''.'' loc) = [region_id sp, cluster_id sp, node_id sp]"
    using assms by (simp_all add: loc_def loc_parts)
  then have "from_string (join_with CHR ''/'' ?ps) = Ok sp"
    using assms
    by (subst from_string_slashes [where r = "region_id sp" and c = "cluster_id sp"
          and n = "node_id sp"]) (auto simp: resize_def)
  moreover have "sp_display sp = join_with CHR ''/'' ?ps"
    by (simp add: sp_display_def loc_def)
  ultimately show ?thesis by simp
qed

lemma join_loc_gapless:
  assumes "sp_clean sp" "gapless [region_id sp, cluster_id sp, node_id sp]"
  shows "resize 3 [] (splitn 3 CHR ''.''
      (join_with CHR ''.'' (takeWhile (\<lambda>x. x \<noteq> []) [region_id sp, cluster_id sp, node_id sp])))
    = [region_id sp, cluster_id sp, node_id sp]"
proof -
  have [simp]: "resize 3 [] (splitn 3 CHR ''.'' []) = [[], [], []]"
    by (simp add: loc_parts)
  show ?thesis
    using assms
    by (cases "region_id sp = []"; cases "cluster_id sp = []"; cases "node_id sp = []")
      (simp_all add: loc_parts)
qed

lemma join_slash_free:
  assumes "sp_clean sp"
  shows "CHR ''/'' \<notin> set (join_with CHR ''.''
      (takeWhile (\<lambda>x. x \<noteq> []) [region_id sp, cluster_id sp, node_id sp]))"
  using assms by auto

lemma resize_gapless:
  "gapless xs \<Longrightarrow> length xs = n \<Longrightarrow> resize n [] (takeWhile (\<lambda>x. x \<noteq> []) xs) = xs"
proof (induction xs arbitrary: n)
  case (Cons x xs)
  show ?case
  proof (cases "x = []")
    case True
    with Cons.prems show ?thesis
      by (auto simp: resize_def intro!: replicate_eqI [symmetric])
  qed (use Cons in auto)
qed (simp add: resize_def)

lemma from_string_longest_path:
  assumes "sp_clean sp" "sp_gapless sp"
  shows "from_string (to_longest_path sp) = Ok sp"
proof -
  define loc where
    "loc = join_with CHR ''.'' (takeWhile (\<lambda>x. x \<noteq> []) [region_id sp, cluster_id sp, node_id sp])"
  define rs where
    "rs = takeWhile (\<lambda>x. x \<noteq> []) [service_type sp, service_id sp, resource_type sp, resource_id sp]"
  have rs: "resize 4 [] rs = [service_type sp, service_id sp, resource_type sp, resource_id sp]"
    using assms(2) unfolding rs_def sp_gapless_def
    by (elim conjE) (erule resize_gapless, simp)
  have free: "\<forall>x \<in> set (loc # rs). CHR ''/'' \<notin> set x"
    using join_slash_free [OF assms(1)] assms(1)
    by (simp add: loc_def rs_def) auto
  have five: "resize 5 [] (loc # rs) =
      [loc, service_type sp, service_id sp, resource_type sp, resource_id sp]"
    using rs resize_Cons [of 4 "[]" loc rs] by simp
  have three: "resize 3 [] (splitn 3 CHR ''.'' loc) = [region_id sp, cluster_id sp, node_id sp]"
    using assms unfolding loc_def sp_gapless_def by (elim conjE) (rule join_loc_gapless)
  have "from_string (join_with CHR ''/'' (loc # rs)) = Ok sp"
    using free five three
    by (subst from_string_slashes [where r = "region_id sp" and c = "cluster_id sp"
          and n = "node_id sp"]) auto
  moreover have "to_longest_path sp = join_with CHR ''/'' (loc # rs)"
    by (auto simp: to_longest_path_def loc_def rs_def Let_def)
  ultimately show ?thesis by simp
qed

section \<open>Routing prefixes\<close>

lemma append_sep_cancel:
  fixes c :: char
  assumes "c \<notin> set a" "c \<notin> set a'"
  shows "a @ c # b = a' @ c # b' \<longleftrightarrow> a = a' \<and> b = b'"
  using split_once_append [OF assms(1), of b] split_once_append [OF assms(2), of b']
  by (metis option.inject prod.inject)

lemma to_node_prefix_inject:
  assumes "sp_clean a" "sp_clean b"
  shows "to_node_prefix a = to_node_prefix b \<longleftrightarrow>
    region_id a = region_id b \<and> cluster_id a = cluster_id b \<and> node_id a = node_id b"
  using assms by (auto simp: to_node_prefix_def append_sep_cancel)

lemma to_cluster_prefix_inject:
  assumes "sp_clean a" "sp_clean b"
  shows "to_cluster_prefix a = to_cluster_prefix b \<longleftrightarrow>
    region_id a = region_id b \<and> cluster_id a = cluster_id b"
  using assms by (auto simp: to_cluster_prefix_def append_sep_cancel)

lemma service_prefix_eq:
  "to_service_prefix sp = to_node_prefix sp @ CHR ''/'' # service_type sp @ CHR ''/'' # service_id sp"
  by (simp add: to_service_prefix_def to_node_prefix_def)

lemma node_prefix_slash_free: "sp_clean sp \<Longrightarrow> CHR ''/'' \<notin> set (to_node_prefix sp)"
  by (simp add: to_node_prefix_def)

lemma to_service_prefix_inject:
  assumes "sp_clean a" "sp_clean b"
  shows "to_service_prefix a = to_service_prefix b \<longleftrightarrow>
    region_id a = region_id b \<and> cluster_id a = cluster_id b \<and> node_id a = node_id b
    \<and> service_type a = service_type b \<and> service_id a = service_id b"
  using assms
  by (simp add: service_prefix_eq append_sep_cancel node_prefix_slash_free to_node_prefix_inject)

text \<open>
  The key spaces of the stages are disjoint: slashes tell the service prefix from the others and
  from the display form, dots tell the remaining three apart.
\<close>

definition slashes :: "string \<Rightarrow> nat" where
  "slashes s = count_list s CHR ''/''"

definition dots :: "string \<Rightarrow> nat" where
  "dots s = count_list s CHR ''.''"

lemma slashes_keys:
  assumes "sp_clean sp"
  shows "slashes (to_service_prefix sp) = 2" "slashes (to_node_prefix sp) = 0"
    "slashes (to_cluster_prefix sp) = 0" "slashes (to_regional_prefix sp) = 0"
    "slashes (sp_display sp) = 4"
  using assms
  by (auto simp: slashes_def to_service_prefix_def to_node_prefix_def to_cluster_prefix_def
      to_regional_prefix_def sp_display_def Let_def count_notin)

lemma dots_keys:
  assumes "sp_clean sp"
  shows "dots (to_regional_prefix sp) = 0" "dots (to_cluster_prefix sp) = 1"
    "2 \<le> dots (to_node_prefix sp)"
  using assms
  by (auto simp: dots_def to_node_prefix_def to_cluster_prefix_def to_regional_prefix_def
      count_notin)

lemma stage_keys_distinct:
  assumes "sp_clean a" "sp_clean b"
  shows "to_service_prefix a \<noteq> to_node_prefix b" "to_service_prefix a \<noteq> to_cluster_prefix b"
    "to_service_prefix a \<noteq> to_regional_prefix b" "to_node_prefix a \<noteq> to_cluster_prefix b"
    "to_node_prefix a \<noteq> to_regional_prefix b" "to_cluster_prefix a \<noteq> to_regional_prefix b"
  using slashes_keys [OF assms(1)] slashes_keys [OF assms(2)]
    dots_keys [OF assms(1)] dots_keys [OF assms(2)]
  by (metis zero_neq_numeral, metis zero_neq_numeral, metis zero_neq_numeral,
      metis one_add_one le_add2 add_le_same_cancel1 not_one_le_zero,
      metis not_numeral_le_zero, metis zero_neq_one)

lemma display_not_stage_key:
  assumes "sp_clean a" "sp_clean b"
  shows "sp_display a \<notin> {to_service_prefix b, to_node_prefix b, to_cluster_prefix b, to_regional_prefix b}"
  using slashes_keys [OF assms(1)] slashes_keys [OF assms(2)]
  by (metis insertE empty_iff numeral_eq_iff semiring_norm(85,87) zero_neq_numeral)

section \<open>Joining paths\<close>

lemma sp_join_fields:
  assumes "sp_fields self = a @ b" "sp_fields other = c @ x # d" "length a = length c"
    and "\<forall>y \<in> set c. y = []" "x \<noteq> []"
  shows "sp_fields (sp_join self other) = a @ x # d"
proof -
  have len: "length (sp_fields self) = 7" "length (sp_fields other) = 7"
    by (simp_all add: sp_fields_def)
  obtain b0 bs where b: "b = b0 # bs" "length bs = length d"
    using len assms by (cases b) auto
  let ?ps = "zip (sp_fields self) (sp_fields other)"
  have z: "?ps = zip a c @ (b0, x) # zip bs d"
    using assms b by simp
  have c: "\<forall>p \<in> set (zip a c). case p of (_, y) \<Rightarrow> y = []"
    using assms(4) by (auto dest: set_zip_rightD)
  have "takeWhile (\<lambda>(_, y). y = []) ?ps = zip a c"
    "dropWhile (\<lambda>(_, y). y = []) ?ps = (b0, x) # zip bs d"
    unfolding z using c assms(5) by (simp_all add: takeWhile_append2 dropWhile_append2)
  then show ?thesis
    using assms b len by (simp add: sp_join_def sp_of_fields_inverse)
qed

section \<open>Distinct message ids\<close>

text \<open>
  The contract of a component that hands out message ids: an id is the current counter value, and
  drawing one advances the counter by one, modulo \<open>2\<^sup>6\<^sup>4\<close>.
\<close>

primrec draw :: "('s \<Rightarrow> u64 \<times> 's) \<Rightarrow> nat \<Rightarrow> 's \<Rightarrow> u64 list" where
  "draw g 0 s = []"
| "draw g (Suc n) s = fst (g s) # draw g n (snd (g s))"

locale id_source =
  fixes gen :: "'s \<Rightarrow> u64 \<times> 's"
    and cur :: "'s \<Rightarrow> u64"
  assumes gen_fst: "fst (gen s) = cur s"
    and gen_snd: "cur (snd (gen s)) = cur s + 1"
begin

lemma draw_nth: "i < n \<Longrightarrow> draw gen n s ! i = cur s + of_nat i"
  by (induction n arbitrary: s i) (auto simp: gen_fst gen_snd nth_Cons split: nat.splits)

lemma length_draw: "length (draw gen n s) = n"
  by (induction n arbitrary: s) auto

lemma draw_distinct:
  assumes "n \<le> 2 ^ 64"
  shows "distinct (draw gen n s)"
proof -
  have "i = j" if "i < n" "j < n" "draw gen n s ! i = draw gen n s ! j" for i j
  proof -
    have "(of_nat i :: u64) = of_nat j"
      using that by (simp add: draw_nth)
    then have "i mod 2 ^ 64 = j mod 2 ^ 64"
      by (simp add: unat_of_nat [where 'a = 64, symmetric, simplified])
    then show ?thesis
      using that assms by simp
  qed
  then show ?thesis
    by (auto simp: distinct_conv_nth length_draw)
qed

end

interpretation id_gen: id_source generate next_id
  by unfold_locales (simp_all add: generate_def)

section \<open>Responses\<close>

lemma new_response_Ok_iff:
  "new_response req src code text rid rb = Ok m \<longleftrightarrow>
    (\<exists>h s d. header req = Some h \<and> source h = Some d
       \<and> (case src of Some sp \<Rightarrow> s = sp | None \<Rightarrow> destination h = Some s)
       \<and> m = new_message (new_header s d rid) (Response
            \<lparr>request_id = msg_id h, error_code = code_num code,
             error_message = (if code = CodeOk then [] else text), resp_body = rb\<rparr>))"
  by (auto simp: new_response_def response_ok_def infra_error_def Let_def split: option.splits)

lemma new_response_not_Err: "new_response req src code text rid rb \<noteq> Err e"
  by (auto simp: new_response_def Let_def split: option.splits)

section \<open>Properties\<close>

lemma set_resize: "x \<in> set (resize n [] xs) \<Longrightarrow> x \<in> set xs \<or> x = []"
  by (auto simp: resize_def dest: in_set_takeD)

lemma split_once_NoneD: "split_once c s = None \<Longrightarrow> c \<notin> set s"
  by (induction s) (auto split: if_splits)

lemma splitn3_parts:
  assumes "resize 3 [] (splitn 3 c s) = [x, y, z]"
  shows "c \<notin> set x" "c \<notin> set y" "set x \<union> set y \<union> set z \<subseteq> set s"
proof -
  have "splitn 3 c s = (case split_once c s of None \<Rightarrow> [s]
      | Some (a, b) \<Rightarrow> a # (case split_once c b of None \<Rightarrow> [b] | Some (d, e) \<Rightarrow> [d, e]))"
    by (simp add: eval_nat_numeral split: option.splits)
  with assms show "c \<notin> set x" "c \<notin> set y" "set x \<union> set y \<union> set z \<subseteq> set s"
    by (auto simp: resize_def eval_nat_numeral dest!: split_once_SomeD dest: split_once_NoneD split: option.splits prod.splits)
qed

lemma length3: "length xs = 3 \<Longrightarrow> \<exists>x y z. xs = [x, y, z]"
  by (auto simp: eval_nat_numeral length_Suc_conv)

lemma from_string_clean:
  assumes "from_string s = Ok sp"
  shows "sp_clean sp"
proof -
  let ?p = "resize 5 [] (split_on CHR ''/'' s)"
  have p: "CHR ''/'' \<notin> set (?p ! i)" if "i < 5" for i
    using that set_resize [of "?p ! i" 5 "split_on CHR ''/'' s"] split_on_mem_free by fastforce
  obtain x y z where l: "resize 3 [] (splitn 3 CHR ''.'' (?p ! 0)) = [x, y, z]"
    using length3 [OF length_resize, of "[]" "splitn 3 CHR ''.'' (?p ! 0)"] by metis
  have "sp = \<lparr>region_id = x, cluster_id = y, node_id = z, service_type = ?p ! 1, service_id = ?p ! 2,
      resource_type = ?p ! 3, resource_id = ?p ! 4\<rparr>"
    using assms l by (simp add: from_string_def Let_def)
  moreover have "CHR ''/'' \<notin> set x \<union> set y \<union> set z" using p [of 0] splitn3_parts(3) [OF l] by auto
  ultimately show ?thesis
    using p [of 1] p [of 2] p [of 3] p [of 4] splitn3_parts(1,2) [OF l] by (simp add: sp_clean_def sp_fields_def)
qed

text \<open>The part of a list of fields before its first gap.\<close>

lemma fields_without_gap:
  "\<exists>b' c'. gapless [a, b', c'] \<and> takeWhile (\<lambda>x. x \<noteq> []) [a, b', c'] = takeWhile (\<lambda>x. x \<noteq> []) [a, b, c] \<and>
     set b' \<subseteq> set b \<and> set c' \<subseteq> set c"
  "\<exists>b' c' d'. gapless [a, b', c', d'] \<and> takeWhile (\<lambda>x. x \<noteq> []) [a, b', c', d'] = takeWhile (\<lambda>x. x \<noteq> []) [a, b, c, d] \<and>
     set b' \<subseteq> set b \<and> set c' \<subseteq> set c \<and> set d' \<subseteq> set d"
proof -
  show "\<exists>b' c'. gapless [a, b', c'] \<and> takeWhile (\<lambda>x. x \<noteq> []) [a, b', c'] = takeWhile (\<lambda>x. x \<noteq> []) [a, b, c] \<and>
     set b' \<subseteq> set b \<and> set c' \<subseteq> set c"
    by (rule exI [of _ "if a = [] then [] else b"], rule exI [of _ "if a = [] \<or> b = [] then [] else c"])
      (cases "a = []"; cases "b = []"; simp)
  show "\<exists>b' c' d'. gapless [a, b', c', d'] \<and> takeWhile (\<lambda>x. x \<noteq> []) [a, b', c', d'] = takeWhile (\<lambda>x. x \<noteq> []) [a, b, c, d] \<and>
     set b' \<subseteq> set b \<and> set c' \<subseteq> set c \<and> set d' \<subseteq> set d"
    by (rule exI [of _ "if a = [] then [] else b"], rule exI [of _ "if a = [] \<or> b = [] then [] else c"],
        rule exI [of _ "if a = [] \<or> b = [] \<or> c = [] then [] else d"])
      (cases "a = []"; cases "b = []"; cases "c = []"; simp)
qed

lemma longest_path_gapless:
  assumes "from_string (to_longest_path sp) = Ok sp"
  shows "sp_gapless sp"
proof -
  note clean = from_string_clean [OF assms]
  obtain c n where l: "gapless [region_id sp, c, n]"
    "takeWhile (\<lambda>x. x \<noteq> []) [region_id sp, c, n] = takeWhile (\<lambda>x. x \<noteq> []) [region_id sp, cluster_id sp, node_id sp]"
    "set c \<subseteq> set (cluster_id sp)" "set n \<subseteq> set (node_id sp)" using fields_without_gap(1) by blast
  obtain i u v where r: "gapless [service_type sp, i, u, v]"
    "takeWhile (\<lambda>x. x \<noteq> []) [service_type sp, i, u, v] =
     takeWhile (\<lambda>x. x \<noteq> []) [service_type sp, service_id sp, resource_type sp, resource_id sp]"
    "set i \<subseteq> set (service_id sp)" "set u \<subseteq> set (resource_type sp)" "set v \<subseteq> set (resource_id sp)"
    using fields_without_gap(2) by blast
  let ?sp = "\<lparr>region_id = region_id sp, cluster_id = c, node_id = n, service_type = service_type sp, service_id = i,
    resource_type = u, resource_id = v\<rparr>"
  have "sp_clean ?sp" using sp_clean_fields [OF clean] l(3,4) r(3-5) unfolding sp_clean_def sp_fields_def by auto
  moreover have g: "sp_gapless ?sp" unfolding sp_gapless_def service_path.simps using l(1) r(1) by blast
  ultimately have "from_string (to_longest_path ?sp) = Ok ?sp" by (rule from_string_longest_path)
  moreover have "to_longest_path ?sp = to_longest_path sp"
    unfolding to_longest_path_def service_path.simps l(2) r(2) ..
  ultimately have "?sp = sp" using assms by (metis exec.inject(1))
  with g show ?thesis by simp
qed

text \<open>
  (C32) Which text forms of a service path can be read back: parsing the display form of a path gives the path again exactly
  when no field holds a slash and region and cluster hold no dot; parsing its longest-path form does exactly when, besides,
  no empty field of the location or of the service and resource precedes a set one.
\<close>

theorem service_path_text_roundtrip:
  "((from_string (sp_display sp) :: service_path result) = Ok sp \<longleftrightarrow> sp_clean sp) \<and>
   ((from_string (to_longest_path sp) :: service_path result) = Ok sp \<longleftrightarrow> sp_clean sp \<and> sp_gapless sp)"
  using from_string_display [of sp] from_string_longest_path [of sp] from_string_clean longest_path_gapless by blast

definition sample_sp :: service_path where
  "sample_sp = \<lparr>region_id = ''region-a'', cluster_id = ''cluster-a'', node_id = ''10.0.0.1'',
     service_type = ''hamgrd'', service_id = ''dpu3'', resource_type = ''hascope'', resource_id = ''dpu''\<rparr>"

lemma sample_sp_clean: "sp_clean sample_sp" "sp_gapless sample_sp"
  by (simp_all add: sp_clean_def sp_gapless_def sp_fields_def sample_sp_def)

text \<open>
  The route keys of a path determine what they stand for: two paths have the same service, node,
  cluster or regional key exactly when they agree on the fields of that stage, and keys of different
  stages never coincide.
\<close>

theorem route_keys_unambiguous:
  assumes "sp_clean a" "sp_clean b"
  shows "(to_service_prefix a = to_service_prefix b \<longleftrightarrow>
        region_id a = region_id b \<and> cluster_id a = cluster_id b \<and> node_id a = node_id b
        \<and> service_type a = service_type b \<and> service_id a = service_id b)
    \<and> (to_node_prefix a = to_node_prefix b \<longleftrightarrow>
        region_id a = region_id b \<and> cluster_id a = cluster_id b \<and> node_id a = node_id b)
    \<and> (to_cluster_prefix a = to_cluster_prefix b \<longleftrightarrow> region_id a = region_id b \<and> cluster_id a = cluster_id b)
    \<and> (to_regional_prefix a = to_regional_prefix b \<longleftrightarrow> region_id a = region_id b)
    \<and> to_service_prefix a \<notin> {to_node_prefix b, to_cluster_prefix b, to_regional_prefix b}
    \<and> to_node_prefix a \<notin> {to_cluster_prefix b, to_regional_prefix b}
    \<and> to_cluster_prefix a \<noteq> to_regional_prefix b"
  using stage_keys_distinct [OF assms] to_service_prefix_inject [OF assms] to_node_prefix_inject [OF assms]
    to_cluster_prefix_inject [OF assms]
  by (simp add: to_regional_prefix_def)

theorem route_keys_unambiguous_witness:
  "to_node_prefix sample_sp \<noteq> to_node_prefix (sample_sp\<lparr>cluster_id := ''b''\<rparr>)
   \<and> to_node_prefix sample_sp = to_node_prefix (sample_sp\<lparr>service_id := ''0''\<rparr>)"
proof -
  have c: "sp_clean (sample_sp\<lparr>cluster_id := ''b''\<rparr>)" "sp_clean (sample_sp\<lparr>service_id := ''0''\<rparr>)"
    by (simp_all add: sp_clean_def sp_fields_def sample_sp_def)
  show ?thesis
    using route_keys_unambiguous [OF sample_sp_clean(1) c(1)] route_keys_unambiguous [OF sample_sp_clean(1) c(2)]
    by (auto simp: sample_sp_def)
qed

text \<open>
  (C33) A generator of message ids repeats no id within \<open>2\<^sup>6\<^sup>4\<close> messages, whatever its start value:
  the ids drawn one after the other are pairwise different, also across the wrap-around.
\<close>

theorem message_ids_distinct:
  assumes "n \<le> 2 ^ 64"
  shows "distinct (draw generate n g)"
  using assms by (rule id_gen.draw_distinct)

theorem message_ids_distinct_witness:
  "distinct (draw generate 3 (new_id_generator (- 1))) \<and> draw generate 3 (new_id_generator (- 1)) = [- 1, 0, 1]"
  using message_ids_distinct [of 3 "new_id_generator (- 1)"]
  by (simp add: numeral_3_eq_3 generate_def new_id_generator_def)

end
