(* ===== verification/Swbus_Mux.thy ===== *)
theory Swbus_Mux
  imports Swbus_Proto
begin

text \<open>
  The message switch of \<open>swbusd\<close> (\<open>crates/swbus-core/src/mux\<close>): connection descriptors
  (\<open>conn_info.rs\<close>), the sending side of a connection (\<open>conn_proxy.rs\<close>), next hops with local
  message processing (\<open>nexthop.rs\<close>) and the multiplexer with its route table
  (\<open>multiplexer.rs\<close>).

  \<open>route_message\<close> calls itself on the responses it creates, so it is a
  \<^theory_text>\<open>partial_function\<close>: the value \<open>None\<close> means that the call does not return. A \<open>DashMap\<close>
  is an association list and a \<open>DashSet\<close> a list without duplicates, in the unspecified iteration
  order. The channels of the connections are part of the state.
\<close>

section \<open>Connections\<close>

datatype swbus_conn_mode = ModeClient | ModeServer

text \<open>\<open>std::net::SocketAddr\<close>, with the address as the text its \<open>Display\<close> gives.\<close>

record socket_addr =
  sock_ip :: string
  sock_port :: "16 word"

record conn_info =
  conn_id :: string
  conn_mode :: swbus_conn_mode
  remote_addr :: socket_addr
  connection_type :: connection_type
  local_service_path :: "service_path option"
  remote_service_path :: service_path

definition new_client ::
    "connection_type \<Rightarrow> socket_addr \<Rightarrow> service_path \<Rightarrow> service_path \<Rightarrow> conn_info" where
  "new_client ct addr remote_sp local_sp =
     \<lparr>conn_id = ''swbs-to://'' @ sock_ip addr @ '':'' @ show_nat (unat (sock_port addr)),
      conn_mode = ModeClient, remote_addr = addr, connection_type = ct,
      local_service_path = Some local_sp, remote_service_path = remote_sp\<rparr>"

definition new_server :: "connection_type \<Rightarrow> socket_addr \<Rightarrow> service_path \<Rightarrow> conn_info" where
  "new_server ct addr remote_sp =
     \<lparr>conn_id = ''swbs-from://'' @ sock_ip addr @ '':'' @ show_nat (unat (sock_port addr)),
      conn_mode = ModeServer, remote_addr = addr, connection_type = ct,
      local_service_path = None, remote_service_path = remote_sp\<rparr>"

section \<open>State of the multiplexer\<close>

datatype next_hop_type = NhLocal | NhRemote

text \<open>The proxy of a connection is a sender handle; handles name channels of the state.\<close>

record next_hop =
  nh_type :: next_hop_type
  nh_conn_info :: "conn_info option"
  conn_proxy :: "nat option"
  hop_count :: u32

record route_config =
  rc_key :: service_path
  rc_scope :: route_scope

record mux =
  routes :: "(string \<times> next_hop) list"
  id_generator :: message_id_generator
  my_routes :: "route_config list"
  chans :: "nat \<rightharpoonup> swbus_message chan"

definition new_mux :: "u64 \<Rightarrow> mux" where
  "new_mux t = \<lparr>routes = [], id_generator = new_id_generator t, my_routes = [], chans = Map.empty\<rparr>"

definition generate_message_id :: "mux \<Rightarrow> u64 \<times> mux" where
  "generate_message_id s =
     (let (i, g) = generate (id_generator s) in (i, s\<lparr>id_generator := g\<rparr>))"

text \<open>\<open>SwbusConnProxy::try_queue\<close>.\<close>

definition try_queue :: "mux \<Rightarrow> nat \<Rightarrow> swbus_message \<Rightarrow> mux \<times> unit result" where
  "try_queue s c m =
     (case (case chans s c of None \<Rightarrow> Err Closed | Some ch \<Rightarrow> try_send ch m) of
        Ok ch' \<Rightarrow> (s\<lparr>chans := (chans s)(c \<mapsto> ch')\<rparr>, Ok ())
      | Err Full \<Rightarrow> (s, err_of (mk_route QueueFull (SendText Full)))
      | Err Closed \<Rightarrow> (s, err_of (mk_route NoRoute (SendText Closed)))
      | Panic \<Rightarrow> (s, Panic))"

definition new_remote :: "conn_info \<Rightarrow> nat \<Rightarrow> u32 \<Rightarrow> next_hop" where
  "new_remote ci proxy hops =
     \<lparr>nh_type = NhRemote, nh_conn_info = Some ci, conn_proxy = Some proxy, hop_count = hops\<rparr>"

definition new_local :: next_hop where
  "new_local = \<lparr>nh_type = NhLocal, nh_conn_info = None, conn_proxy = None, hop_count = 0\<rparr>"

section \<open>The route table\<close>

text \<open>The \<open>match\<close> on the connection type that \<open>register\<close> and \<open>unregister\<close> share.\<close>

definition route_key :: "conn_info \<Rightarrow> string" where
  "route_key ci =
     (case connection_type ci of
        ConnGlobal \<Rightarrow> to_regional_prefix (remote_service_path ci)
      | ConnRegion \<Rightarrow> to_cluster_prefix (remote_service_path ci)
      | ConnCluster \<Rightarrow> to_node_prefix (remote_service_path ci)
      | ConnLocal \<Rightarrow> to_service_prefix (remote_service_path ci)
      | ConnClient \<Rightarrow> sp_display (remote_service_path ci))"

definition update_route :: "mux \<Rightarrow> string \<Rightarrow> next_hop \<Rightarrow> mux" where
  "update_route s k nh =
     (case map_of (routes s) k of
        Some e \<Rightarrow>
          if hop_count nh < hop_count e then s\<lparr>routes := AList.update k nh (routes s)\<rparr> else s
      | None \<Rightarrow> s\<lparr>routes := AList.update k nh (routes s)\<rparr>)"

definition register :: "mux \<Rightarrow> conn_info \<Rightarrow> nat \<Rightarrow> mux" where
  "register s ci proxy = update_route s (route_key ci) (new_remote ci proxy 1)"

definition unregister :: "mux \<Rightarrow> conn_info \<Rightarrow> mux" where
  "unregister s ci = s\<lparr>routes := AList.delete (route_key ci) (routes s)\<rparr>"

fun set_my_routes :: "mux \<Rightarrow> route_config list \<Rightarrow> mux" where
  "set_my_routes s [] = s"
| "set_my_routes s (r # rs) =
     (let s1 = (if rc_scope r = ScopeCluster
                then update_route s (to_node_prefix (rc_key r)) new_local else s)
      in set_my_routes (s1\<lparr>my_routes := List.insert r (my_routes s1)\<rparr>) rs)"

definition get_my_service_path :: "mux \<Rightarrow> service_path result" where
  "get_my_service_path s = (case my_routes s of [] \<Rightarrow> Panic | r # _ \<Rightarrow> Ok (rc_key r))"

text \<open>
  \<open>export_routes\<close>. A remote next hop without connection info would panic. \<open>from_string\<close> has no error case, so the \<open>unwrap\<close> in
  the filter never panics and the last branch of \<open>export_filter\<close> is never taken.
\<close>

definition export_filter :: "route_scope option \<Rightarrow> string \<times> next_hop \<Rightarrow> bool" where
  "export_filter scope e =
     (if nh_type (snd e) \<noteq> NhRemote then False
      else case (from_string (fst e) :: service_path result) of
        Ok sp \<Rightarrow>
          (case scope of
             Some sc \<Rightarrow> sc \<le> sp_route_scope sp \<and> ScopeCluster \<le> sp_route_scope sp
           | None \<Rightarrow> True)
      | _ \<Rightarrow> False)"

definition export_entry :: "string \<times> next_hop \<Rightarrow> route_query_result_entry result" where
  "export_entry e =
     (case (from_string (fst e) :: service_path result) of
        Ok sp \<Rightarrow>
          (case nh_conn_info (snd e) of
             Some ci \<Rightarrow> Ok \<lparr>rq_service_path = Some sp, rq_hop_count = hop_count (snd e),
                           nh_id = conn_id ci, nh_service_path = Some (remote_service_path ci),
                           nh_scope = conn_type_num (connection_type ci)\<rparr>
           | None \<Rightarrow> Panic)
      | Err x \<Rightarrow> Panic
      | Panic \<Rightarrow> Panic)"

fun export_entries :: "(string \<times> next_hop) list \<Rightarrow> route_query_result_entry list result" where
  "export_entries [] = Ok []"
| "export_entries (e # es) =
     bind_exec (export_entry e) (\<lambda>x. bind_exec (export_entries es) (\<lambda>xs. Ok (x # xs)))"

definition export_routes :: "mux \<Rightarrow> route_scope option \<Rightarrow> route_query_result_entry list result" where
  "export_routes s scope = export_entries (filter (export_filter scope) (routes s))"

section \<open>Next hops\<close>

text \<open>
  A response is created after an id has been drawn for it. \<open>respond\<close> is this common tail of the
  handlers: it draws the id and calls \<open>new_response\<close>.
\<close>

definition respond ::
    "mux \<Rightarrow> swbus_message \<Rightarrow> service_path option \<Rightarrow> swbus_error_code \<Rightarrow> string
       \<Rightarrow> response_body option \<Rightarrow> mux \<times> swbus_message result" where
  "respond s m src code text rb =
     (let (i, s1) = generate_message_id s in (s1, new_response m src code text i rb))"

definition process_ping_request :: "mux \<Rightarrow> swbus_message \<Rightarrow> mux \<times> swbus_message result" where
  "process_ping_request s m = respond s m None CodeOk [] None"

datatype management_request_type = SwbusdGetRoutes | HamgrdGetActorState

definition management_request_type_of :: "int \<Rightarrow> management_request_type option" where
  "management_request_type_of n =
     (if n = 0 then Some SwbusdGetRoutes else if n = 1 then Some HamgrdGetActorState else None)"

text \<open>The text of the error ends with the debug form of the request, which is left out.\<close>

definition process_mgmt_request ::
    "mux \<Rightarrow> swbus_message \<Rightarrow> int \<Rightarrow> mux \<times> swbus_message result" where
  "process_mgmt_request s m req =
     (case management_request_type_of req of
        Some SwbusdGetRoutes \<Rightarrow>
          (case export_routes s None of
             Ok es \<Rightarrow> respond s m None CodeOk [] (Some (RouteQueryResult es))
           | Err e \<Rightarrow> (s, Panic)
           | Panic \<Rightarrow> (s, Panic))
      | _ \<Rightarrow> (s, err_of (mk_input InvalidArgs (Text ''Invalid management request''))))"

text \<open>Both handlers are called with \<open>.unwrap()\<close>; the result is wrapped in \<open>Some\<close>.\<close>

definition as_response :: "mux \<times> swbus_message result \<Rightarrow> mux \<times> swbus_message option result" where
  "as_response p = (fst p, bind_exec (snd p) (\<lambda>r. Ok (Some r)))"

definition process_local_message ::
    "mux \<Rightarrow> swbus_message \<Rightarrow> mux \<times> swbus_message option result" where
  "process_local_message s m =
     (case header m of
        None \<Rightarrow> (s, Panic)
      | Some h \<Rightarrow>
          (case destination h of
             None \<Rightarrow> (s, Panic)
           | Some dest \<Rightarrow>
               if service_type dest \<noteq> [] then
                 as_response (respond s m None NoRoute ''Route not found'' None)
               else (case body m of
                   Some PingRequest \<Rightarrow>
                     as_response (apsnd unwrap_exec (process_ping_request s m))
                 | Some (ManagementRequest req args) \<Rightarrow>
                     as_response (apsnd unwrap_exec (process_mgmt_request s m req))
                 | _ \<Rightarrow> (s, Ok None))))"

text \<open>
  \<open>header.ttl -= 1\<close> on a \<open>u32\<close> wraps in a release build (\<open>make build-release\<close>).
\<close>

definition queue_message ::
    "next_hop \<Rightarrow> mux \<Rightarrow> swbus_message \<Rightarrow> mux \<times> swbus_message option result" where
  "queue_message nh s m =
     (case nh_type nh of
        NhLocal \<Rightarrow> process_local_message s m
      | NhRemote \<Rightarrow>
          (case header m of
             None \<Rightarrow> (s, Panic)
           | Some h \<Rightarrow>
               (let h' = h\<lparr>ttl := ttl h - 1\<rparr>; m' = m\<lparr>header := Some h'\<rparr>
                in if ttl h' = 0 then
                     (case get_my_service_path s of
                        Ok my \<Rightarrow> as_response (respond s m' (Some my) Unreachable ''TTL expired'' None)
                      | _ \<Rightarrow> (s, Panic))
                   else (case conn_proxy nh of
                       None \<Rightarrow> (s, Panic)
                     | Some c \<Rightarrow> apsnd (\<lambda>r. bind_exec r (\<lambda>_. Ok None)) (try_queue s c m')))))"

section \<open>Routing\<close>

definition stage_keys :: "service_path \<Rightarrow> string list" where
  "stage_keys dest =
     [to_service_prefix dest, to_node_prefix dest, to_cluster_prefix dest, to_regional_prefix dest]"

fun find_route :: "(string \<times> next_hop) list \<Rightarrow> string list \<Rightarrow> next_hop option" where
  "find_route rt [] = None"
| "find_route rt (k # ks) = (case map_of rt k of Some nh \<Rightarrow> Some nh | None \<Rightarrow> find_route rt ks)"

definition no_route_response :: "mux \<Rightarrow> swbus_message \<Rightarrow> mux \<times> swbus_message result" where
  "no_route_response s m =
     (case get_my_service_path s of
        Ok my \<Rightarrow> respond s m (Some my) NoRoute ''Route not found'' None
      | _ \<Rightarrow> (s, Panic))"

text \<open>
  \<open>route_message\<close>. The fields of its tracing span and debug event unwrap header and destination; they are evaluated only
  when debug tracing is on and are not part of the model, in which a missing header or destination is the error that the code
  below them returns. The function is one step: nothing it awaits suspends (\<open>try_queue\<close> does not wait), and changes
  that a task on another thread makes to the route table between two of its lookups are not modelled.
\<close>

partial_function (option) route_message ::
    "mux \<Rightarrow> swbus_message \<Rightarrow> (mux \<times> unit result) option" where
  "route_message s m =
     (case header m of
        None \<Rightarrow> Some (s, err_of (mk_input InvalidHeader (Text ''missing message header'')))
      | Some h \<Rightarrow>
          (case destination h of
             None \<Rightarrow> Some (s, err_of (mk_input InvalidDestination (Text ''missing message destination'')))
           | Some dest \<Rightarrow>
               (case find_route (routes s) (stage_keys dest) of
                  Some nh \<Rightarrow>
                    (case snd (queue_message nh s m) of
                       Ok (Some resp) \<Rightarrow>
                         Option.bind (route_message (fst (queue_message nh s m)) resp)
                           (\<lambda>p. Some (fst p, unwrap_exec (snd p)))
                     | Ok None \<Rightarrow> Some (fst (queue_message nh s m), Ok ())
                     | Err e \<Rightarrow> Some (fst (queue_message nh s m), Panic)
                     | Panic \<Rightarrow> Some (fst (queue_message nh s m), Panic))
                | None \<Rightarrow>
                    (case snd (no_route_response s m) of
                       Ok resp \<Rightarrow>
                         Option.bind (route_message (fst (no_route_response s m)) resp)
                           (\<lambda>p. Some (fst p, unwrap_exec (snd p)))
                     | Err e \<Rightarrow> Some (fst (no_route_response s m), Panic)
                     | Panic \<Rightarrow> Some (fst (no_route_response s m), Panic)))))"

section \<open>The route table keeps the best offer per key\<close>

text \<open>
  The contract of a route table towards its users: an offered next hop replaces the entry of its
  key only when it is strictly nearer, a withdrawal removes the entry of its key, and no other key
  is touched.
\<close>

fun better :: "next_hop option \<Rightarrow> next_hop \<Rightarrow> next_hop" where
  "better None nh = nh"
| "better (Some e) nh = (if hop_count nh < hop_count e then nh else e)"

locale route_table =
  fixes lookup :: "'s \<Rightarrow> string \<Rightarrow> next_hop option"
    and offer :: "'s \<Rightarrow> string \<Rightarrow> next_hop \<Rightarrow> 's"
    and withdraw :: "'s \<Rightarrow> string \<Rightarrow> 's"
  assumes lookup_offer: "lookup (offer s k nh) = (lookup s)(k \<mapsto> better (lookup s k) nh)"
    and lookup_withdraw: "lookup (withdraw s k) = (lookup s)(k := None)"
begin

definition offer_all :: "'s \<Rightarrow> (string \<times> next_hop) list \<Rightarrow> 's" where
  "offer_all s xs = foldl (\<lambda>s (k, nh). offer s k nh) s xs"

lemma offer_all_keeps: "lookup s k = Some e \<Longrightarrow>
    \<exists>e'. lookup (offer_all s xs) k = Some e' \<and> hop_count e' \<le> hop_count e"
proof (induction xs arbitrary: s e)
  case (Cons x xs)
  obtain k' nh where x: "x = (k', nh)" by (cases x)
  have "\<exists>e1. lookup (offer s k' nh) k = Some e1 \<and> hop_count e1 \<le> hop_count e"
    using Cons.prems by (auto simp: lookup_offer)
  then obtain e1 where "lookup (offer s k' nh) k = Some e1" "hop_count e1 \<le> hop_count e"
    by blast
  with Cons.IH [of "offer s k' nh" e1] show ?case
    unfolding x offer_all_def by (auto intro: order_trans)
qed (simp add: offer_all_def)

lemma offer_all_nearest:
  assumes "(k, nh) \<in> set xs"
  shows "\<exists>e. lookup (offer_all s xs) k = Some e \<and> hop_count e \<le> hop_count nh"
proof -
  obtain as bs where xs: "xs = as @ (k, nh) # bs"
    using assms by (metis in_set_conv_decomp)
  let ?s = "offer (offer_all s as) k nh"
  have "\<exists>e. lookup ?s k = Some e \<and> hop_count e \<le> hop_count nh"
    by (cases "lookup (offer_all s as) k") (auto simp: lookup_offer)
  moreover have "offer_all s xs = offer_all ?s bs"
    by (simp add: xs offer_all_def)
  ultimately show ?thesis
    using offer_all_keeps [of ?s k _ bs] by (fastforce intro: order_trans)
qed

lemma offer_all_origin:
  "lookup (offer_all s xs) k = Some e \<Longrightarrow> lookup s k = Some e \<or> (k, e) \<in> set xs"
proof (induction xs arbitrary: s)
  case (Cons x xs)
  obtain k' nh where x: "x = (k', nh)" by (cases x)
  have "lookup (offer s k' nh) k = Some e \<or> (k, e) \<in> set xs"
    using Cons.IH [of "offer s k' nh"] Cons.prems by (simp add: x offer_all_def)
  then show ?case
    by (cases "lookup s k'") (auto simp: x lookup_offer split: if_splits)
qed (simp add: offer_all_def)

lemma withdraw_then_offer:
  "lookup (offer (withdraw s k) k nh) k = Some nh"
  by (simp add: lookup_offer lookup_withdraw)

end

definition remove_route :: "mux \<Rightarrow> string \<Rightarrow> mux" where
  "remove_route s k = s\<lparr>routes := AList.delete k (routes s)\<rparr>"

interpretation mux_table: route_table "\<lambda>s. map_of (routes s)" update_route remove_route
  by unfold_locales
    (auto simp: update_route_def remove_route_def alist_simps fun_eq_iff split: option.splits)

interpretation mux_ids: id_source generate_message_id "\<lambda>s. next_id (id_generator s)"
  by unfold_locales (simp_all add: generate_message_id_def generate_def)

lemma unregister_eq: "unregister s ci = remove_route s (route_key ci)"
  by (simp add: unregister_def remove_route_def)

lemma mux_frame [simp]:
  "my_routes (update_route s k nh) = my_routes s"
  "chans (update_route s k nh) = chans s"
  "id_generator (update_route s k nh) = id_generator s"
  "my_routes (remove_route s k) = my_routes s" "chans (remove_route s k) = chans s"
  by (auto simp: update_route_def remove_route_def split: option.splits)

lemma routes_distinct_update:
  "distinct (map fst (routes s)) \<Longrightarrow> distinct (map fst (routes (update_route s k nh)))"
  by (auto simp: update_route_def alist_simps split: option.splits)

lemma set_my_routes_frame [simp]:
  "chans (set_my_routes s rs) = chans s"
  "set (my_routes (set_my_routes s rs)) = set (my_routes s) \<union> set rs"
  by (induction s rs rule: set_my_routes.induct) (auto simp: Let_def)

section \<open>Which route a message takes\<close>

lemma find_route_Some_iff:
  "find_route rt ks = Some nh \<longleftrightarrow>
    (\<exists>i < length ks. map_of rt (ks ! i) = Some nh \<and> (\<forall>j < i. map_of rt (ks ! j) = None))"
proof (induction ks)
  case (Cons k ks)
  show ?case
  proof (cases "map_of rt k")
    case None
    have "(\<exists>i < length (k # ks). map_of rt ((k # ks) ! i) = Some nh
        \<and> (\<forall>j < i. map_of rt ((k # ks) ! j) = None)) \<longleftrightarrow>
      (\<exists>i < length ks. map_of rt (ks ! i) = Some nh \<and> (\<forall>j < i. map_of rt (ks ! j) = None))"
      using None by (simp add: Ex_less_Suc2 All_less_Suc2)
    with None Cons show ?thesis by simp
  next
    case (Some e)
    then show ?thesis
      by (auto simp: Ex_less_Suc2 All_less_Suc2)
  qed
qed simp

lemma find_route_None_iff: "find_route rt ks = None \<longleftrightarrow> (\<forall>k \<in> set ks. map_of rt k = None)"
  by (induction ks) (auto split: option.splits)

lemma find_route_delete_other:
  "k \<notin> set ks \<Longrightarrow> find_route (AList.delete k rt) ks = find_route rt ks"
  by (induction ks) (auto simp: alist_simps split: option.splits)

lemma find_route_update_other:
  "k \<notin> set ks \<Longrightarrow> find_route (AList.update k nh rt) ks = find_route rt ks"
  by (induction ks) (auto simp: alist_simps split: option.splits)

text \<open>Routing changes neither the route table nor the own routes.\<close>

definition same_tables :: "mux \<Rightarrow> mux \<Rightarrow> bool" where
  "same_tables s t \<longleftrightarrow> routes t = routes s \<and> my_routes t = my_routes s"

lemma same_tables_refl [simp]: "same_tables s s"
  by (simp add: same_tables_def)

lemma same_tables_trans: "same_tables s t \<Longrightarrow> same_tables t u \<Longrightarrow> same_tables s u"
  by (simp add: same_tables_def)

lemma respond_fst: "fst (respond s m src c t rb) = snd (generate_message_id s)"
  by (simp add: respond_def split: prod.split)

lemma same_tables_generate [simp]: "same_tables s (snd (generate_message_id s))"
  by (simp add: same_tables_def generate_message_id_def generate_def)

lemma same_tables_try_queue [simp]: "same_tables s (fst (try_queue s c m))"
  by (auto simp: try_queue_def same_tables_def split: exec.splits option.splits try_send_error.splits)

lemma same_tables_queue [simp]: "same_tables s (fst (queue_message nh s m))"
  by (auto simp: queue_message_def process_local_message_def as_response_def respond_fst
      process_ping_request_def process_mgmt_request_def Let_def
      split: next_hop_type.splits option.splits exec.splits body.splits
        management_request_type.splits)

lemma same_tables_no_route [simp]: "same_tables s (fst (no_route_response s m))"
  by (auto simp: no_route_response_def respond_fst split: exec.splits)

section \<open>When routing returns\<close>

text \<open>
  A destination is a dead local service when its best route is the local next hop although it
  names a service: \<open>process_local_message\<close> answers such a message with \<open>NoRoute\<close>, with source
  and destination swapped.
\<close>

definition dead_local :: "mux \<Rightarrow> service_path \<Rightarrow> bool" where
  "dead_local s sp =
     (case find_route (routes s) (stage_keys sp) of
        Some nh \<Rightarrow> nh_type nh = NhLocal \<and> service_type sp \<noteq> []
      | None \<Rightarrow> False)"

definition bounces :: "mux \<Rightarrow> swbus_message \<Rightarrow> bool" where
  "bounces s m =
     (case header m of
        None \<Rightarrow> False
      | Some h \<Rightarrow>
          (case (source h, destination h) of
             (Some b, Some a) \<Rightarrow> dead_local s a \<and> dead_local s b
           | _ \<Rightarrow> False))"

text \<open>The own path drops stray responses: its route is the local next hop and it names no service.\<close>

definition drops_own :: "mux \<Rightarrow> bool" where
  "drops_own s =
     (case my_routes s of
        [] \<Rightarrow> False
      | r # _ \<Rightarrow>
          service_type (rc_key r) = []
          \<and> (case find_route (routes s) (stage_keys (rc_key r)) of
               Some nh \<Rightarrow> nh_type nh = NhLocal
             | None \<Rightarrow> False))"

lemma same_tables_cong:
  assumes "same_tables s t"
  shows "dead_local t sp = dead_local s sp" "bounces t m = bounces s m" "drops_own t = drops_own s"
    "get_my_service_path t = get_my_service_path s"
  using assms
  by (auto simp: same_tables_def dead_local_def bounces_def drops_own_def get_my_service_path_def
      split: option.splits list.splits)

text \<open>A response created here: fresh header, TTL 64.\<close>

definition is_response :: "swbus_message \<Rightarrow> service_path \<Rightarrow> service_path \<Rightarrow> bool" where
  "is_response m x b \<longleftrightarrow>
     (\<exists>i rr. m = new_message (new_header x b i) (Response rr))"

lemma is_responseI [simp]: "is_response (new_message (new_header x b i) (Response rr)) x b"
  by (auto simp: is_response_def)

lemma respond_Ok:
  assumes "header m = Some h" "source h = Some b"
    and "src = Some x \<or> (src = None \<and> destination h = Some x)"
  shows "\<exists>r. respond s m src c t rb = (snd (generate_message_id s), Ok r) \<and> is_response r x b"
  using assms
  by (auto simp: respond_def new_response_def Let_def split: prod.split)

lemma respond_no_source:
  assumes "header m = Some h" "source h = None"
  shows "respond s m src c t rb = (snd (generate_message_id s), Panic)"
  using assms
  by (auto simp: respond_def new_response_def Let_def split: prod.split option.split)

lemma queue_dead_local:
  assumes "header m = Some h" "source h = Some b" "destination h = Some a"
    and "nh_type nh = NhLocal" "service_type a \<noteq> []"
  shows "\<exists>r. queue_message nh s m = (snd (generate_message_id s), Ok (Some r)) \<and> is_response r a b"
  using respond_Ok [OF assms(1,2), of None a s NoRoute "''Route not found''" None] assms
  by (auto simp: queue_message_def process_local_message_def as_response_def)

lemma bounces_response:
  assumes "is_response r a b"
  shows "bounces s r \<longleftrightarrow> dead_local s a \<and> dead_local s b"
  using assms by (auto simp: is_response_def bounces_def new_message_def new_header_def)

text \<open>Two dead local services never stop answering each other.\<close>

lemma bounces_diverges:
  assumes "bounces s m"
  shows "route_message s m = None"
proof (rule ccontr)
  assume "route_message s m \<noteq> None"
  then obtain r where "route_message s m = Some r" by auto
  then have "\<not> bounces s m"
  proof (rule route_message.raw_induct [where P = "\<lambda>s m r. \<not> bounces s m", rotated])
    fix f :: "mux \<Rightarrow> swbus_message \<Rightarrow> (mux \<times> unit result) option" and s m r
    assume IH: "\<And>s m r. f s m = Some r \<Longrightarrow> \<not> bounces s m"
      and eq: "(case header m of
        None \<Rightarrow> Some (s, err_of (mk_input InvalidHeader (Text ''missing message header'')))
      | Some h \<Rightarrow>
          (case destination h of
             None \<Rightarrow> Some (s, err_of (mk_input InvalidDestination (Text ''missing message destination'')))
           | Some dest \<Rightarrow>
               (case find_route (routes s) (stage_keys dest) of
                  Some nh \<Rightarrow>
                    (case snd (queue_message nh s m) of
                       Ok (Some resp) \<Rightarrow>
                         Option.bind (f (fst (queue_message nh s m)) resp)
                           (\<lambda>p. Some (fst p, unwrap_exec (snd p)))
                     | Ok None \<Rightarrow> Some (fst (queue_message nh s m), Ok ())
                     | Err e \<Rightarrow> Some (fst (queue_message nh s m), Panic)
                     | Panic \<Rightarrow> Some (fst (queue_message nh s m), Panic))
                | None \<Rightarrow>
                    (case snd (no_route_response s m) of
                       Ok resp \<Rightarrow>
                         Option.bind (f (fst (no_route_response s m)) resp)
                           (\<lambda>p. Some (fst p, unwrap_exec (snd p)))
                     | Err e \<Rightarrow> Some (fst (no_route_response s m), Panic)
                     | Panic \<Rightarrow> Some (fst (no_route_response s m), Panic))))) = Some r"
    show "\<not> bounces s m"
    proof
      assume "bounces s m"
      then obtain h a b nh where h: "header m = Some h" "source h = Some b" "destination h = Some a"
        and dead: "dead_local s a" "dead_local s b"
        and nh: "find_route (routes s) (stage_keys a) = Some nh" "nh_type nh = NhLocal"
          "service_type a \<noteq> []"
        by (auto simp: bounces_def dead_local_def split: option.splits)
      obtain q where q: "queue_message nh s m = (snd (generate_message_id s), Ok (Some q))"
        "is_response q a b"
        using queue_dead_local [OF h nh(2,3)] by blast
      have "\<not> bounces (snd (generate_message_id s)) q"
        using eq h nh q IH by (auto simp: bind_eq_Some_conv)
      then show False
        using dead q(2) by (simp add: bounces_response same_tables_cong [OF same_tables_generate])
    qed
  qed
  with assms show False by contradiction
qed

lemma returns_forwarded:
  assumes "header m = Some h" "destination h = Some a" "ttl h - 1 \<noteq> 0"
    and "find_route (routes s) (stage_keys a) = Some nh" "nh_type nh = NhRemote"
  shows "route_message s m \<noteq> None"
  using assms
  by (subst route_message.simps)
    (auto simp: queue_message_def Let_def bind_exec_Ok_iff
      split: option.splits exec.splits)

lemma response_header:
  assumes "is_response r x b"
  shows "\<exists>h rr. header r = Some h \<and> source h = Some x \<and> destination h = Some b \<and> ttl h - 1 = 63
    \<and> body r = Some (Response rr)"
  using assms by (auto simp: is_response_def new_message_def new_header_def)

lemma returns_own:
  assumes "is_response r x my" "get_my_service_path s = Ok my" "drops_own s"
  shows "route_message s r = Some (s, Ok ())"
proof -
  obtain h rr where "header r = Some h" "destination h = Some my" "body r = Some (Response rr)"
    using response_header [OF assms(1)] by blast
  then show ?thesis
    using assms(2,3)
    by (subst route_message.simps)
      (auto simp: drops_own_def get_my_service_path_def queue_message_def
        process_local_message_def split: option.splits list.splits)
qed

lemma drops_own_path: "drops_own s \<Longrightarrow> \<exists>my. get_my_service_path s = Ok my"
  by (auto simp: drops_own_def get_my_service_path_def split: list.splits)

text \<open>
  A response either leaves through a connection, is dropped, or makes a second response to its own
  source. \<open>second_ok\<close> says that this second response returns.
\<close>

lemma returns_response:
  assumes r: "is_response r x b" and own: "drops_own s" and my: "get_my_service_path s = Ok my"
    and second: "\<And>t q y. same_tables s t \<Longrightarrow> is_response q y x \<Longrightarrow> y = my \<or> y = b \<and> dead_local s b
      \<Longrightarrow> route_message t q \<noteq> None"
  shows "route_message s r \<noteq> None"
proof -
  obtain h rr where h: "header r = Some h" "source h = Some x" "destination h = Some b"
      "ttl h - 1 = 63" and b: "body r = Some (Response rr)"
    using response_header [OF r] by blast
  let ?t = "snd (generate_message_id s)"
  show ?thesis
  proof (cases "find_route (routes s) (stage_keys b)")
    case None
    obtain q where q: "no_route_response s r = (?t, Ok q)" "is_response q my x"
      using respond_Ok [OF h(1,2), of "Some my" my s NoRoute "''Route not found''" None] my
      by (auto simp: no_route_response_def)
    then have "route_message ?t q \<noteq> None" using second by simp
    with None h q show ?thesis by (subst route_message.simps) auto
  next
    case (Some nh)
    show ?thesis
    proof (cases "nh_type nh")
      case NhRemote
      with Some h show ?thesis by (intro returns_forwarded) auto
    next
      case NhLocal
      show ?thesis
      proof (cases "service_type b = []")
        case True
        with Some NhLocal h b show ?thesis
          by (subst route_message.simps)
            (auto simp: queue_message_def process_local_message_def)
      next
        case False
        obtain q where q: "queue_message nh s r = (?t, Ok (Some q))" "is_response q b x"
          using queue_dead_local [OF h(1,2,3) NhLocal False] by blast
        have "dead_local s b" using Some NhLocal False by (simp add: dead_local_def)
        then have "route_message ?t q \<noteq> None" using q second by simp
        with Some h q show ?thesis by (subst route_message.simps) auto
      qed
    qed
  qed
qed

lemma returns_response_own:
  assumes "is_response r my b" "drops_own s" "get_my_service_path s = Ok my"
  shows "route_message s r \<noteq> None"
proof (rule returns_response [OF assms])
  fix t q y
  assume "same_tables s t" "is_response q y my"
  with assms(2,3) show "route_message t q \<noteq> None"
    using returns_own [of q y my t] by (simp add: same_tables_cong)
qed

lemma returns_response_local:
  assumes r: "is_response r x b" and own: "drops_own s" and my: "get_my_service_path s = Ok my"
    and ndead: "\<not> (dead_local s x \<and> dead_local s b)"
  shows "route_message s r \<noteq> None"
proof (rule returns_response [OF r own my])
  fix t q y
  assume t: "same_tables s t" and q: "is_response q y x" and y: "y = my \<or> y = b \<and> dead_local s b"
  have own_t: "drops_own t" and my_t: "get_my_service_path t = Ok my"
    using own my t by (simp_all add: same_tables_cong)
  show "route_message t q \<noteq> None"
  proof (cases "y = my")
    case True
    with q own_t my_t show ?thesis using returns_response_own [of q my x t] by simp
  next
    case False
    with y ndead have nx: "\<not> dead_local s x" by simp
    show ?thesis
    proof (rule returns_response [OF q own_t my_t])
      fix u q' y'
      assume u: "same_tables t u" and q': "is_response q' y' y"
        and "y' = my \<or> y' = x \<and> dead_local t x"
      with nx t have "y' = my" by (simp add: same_tables_cong)
      moreover have "drops_own u" "get_my_service_path u = Ok my"
        using own_t my_t u by (simp_all add: same_tables_cong)
      ultimately show "route_message u q' \<noteq> None"
        using q' returns_response_own [of q' my y u] by simp
    qed
  qed
qed

lemma respond_shape:
  assumes "snd (respond s m src c t rb) = Ok r" "header m = Some h"
  shows "\<exists>x b. source h = Some b \<and> is_response r x b \<and> (case src of Some y \<Rightarrow> x = y | None \<Rightarrow> destination h = Some x)"
  using assms by (cases src) (auto simp: respond_def new_response_Ok_iff split: prod.splits)

lemma process_local_shape:
  assumes "header m = Some h" "destination h = Some a"
    and "snd (process_local_message s m) = Ok (Some r)"
  shows "\<exists>c t rb. snd (respond s m None c t rb) = Ok r"
  using assms
  by (auto simp: process_local_message_def as_response_def process_ping_request_def
      process_mgmt_request_def bind_exec_Ok_iff err_of_def
      split: option.splits exec.splits body.splits if_splits management_request_type.splits)

lemma queue_shape:
  assumes h: "header m = Some h" "destination h = Some a"
    and r: "snd (queue_message nh s m) = Ok (Some r)"
  shows "\<exists>x b. source h = Some b \<and> is_response r x b \<and> (x = a \<or> get_my_service_path s = Ok x)"
proof (cases "nh_type nh")
  case NhLocal
  with r have "snd (process_local_message s m) = Ok (Some r)"
    by (simp add: queue_message_def)
  then obtain c t rb where "snd (respond s m None c t rb) = Ok r"
    using process_local_shape [OF h] by blast
  from respond_shape [OF this h(1)] h(2) show ?thesis by auto
next
  case NhRemote
  let ?m = "m\<lparr>header := Some (h\<lparr>ttl := ttl h - 1\<rparr>)\<rparr>"
  obtain my where my: "get_my_service_path s = Ok my"
    and "snd (respond s ?m (Some my) Unreachable ''TTL expired'' None) = Ok r"
    using r NhRemote h
    by (auto simp: queue_message_def as_response_def Let_def bind_exec_Ok_iff
        split: option.splits exec.splits if_splits)
  from respond_shape [OF this(2)] my show ?thesis by auto
qed

lemma no_route_shape:
  assumes "header m = Some h" "snd (no_route_response s m) = Ok r"
  shows "\<exists>x b. source h = Some b \<and> is_response r x b \<and> get_my_service_path s = Ok x"
  using assms
  by (auto simp: no_route_response_def respond_def new_response_Ok_iff
      split: exec.splits prod.splits)

text \<open>
  (C2) Routing on a node whose own path drops stray responses returns for every message, except
  when source and destination both name local services without a route: then the two no-route
  responses chase each other forever.
\<close>

theorem route_message_returns_iff:
  assumes "drops_own s"
  shows "route_message s m = None \<longleftrightarrow> bounces s m"
proof
  show "bounces s m \<Longrightarrow> route_message s m = None" by (rule bounces_diverges)
next
  obtain my where my: "get_my_service_path s = Ok my"
    using drops_own_path [OF assms] by blast
  show "bounces s m" if none: "route_message s m = None"
  proof (rule ccontr)
    assume nb: "\<not> bounces s m"
    have ret: "route_message t r \<noteq> None" if "same_tables s t" "is_response r x b"
      "x = my \<or> \<not> (dead_local s x \<and> dead_local s b)" for t r x b
      using that assms my returns_response_own [of r my b t] returns_response_local [of r x b t my]
      by (auto simp: same_tables_cong)
    have nd: "\<not> (dead_local s a \<and> dead_local s b)"
      if "header m = Some h" "destination h = Some a" "source h = Some b" for h a b
      using nb that by (simp add: bounces_def)
    have q: "route_message (fst (queue_message nh s m)) r \<noteq> None"
      if "header m = Some h" "destination h = Some a" "snd (queue_message nh s m) = Ok (Some r)"
      for h a nh r
      using queue_shape [OF that] ret [OF same_tables_queue] nd [OF that(1,2)] my by fastforce
    have n: "route_message (fst (no_route_response s m)) r \<noteq> None"
      if "header m = Some h" "snd (no_route_response s m) = Ok r" for h r
      using no_route_shape [OF that] ret [OF same_tables_no_route] my by fastforce
    show False
      using none unfolding route_message.simps [of s m]
      by (auto simp: bind_eq_None_conv split: option.splits exec.splits dest: q n)
  qed
qed

section \<open>A concrete node\<close>

text \<open>
  One node \<open>a.b.n1\<close> with a connection (channel 7) to node \<open>a.b.n2\<close>; used to instantiate the
  theorems.
\<close>

definition demo_sp :: "string \<Rightarrow> service_path" where
  "demo_sp n = with_node ''a'' ''b'' n [] [] [] []"

definition demo_svc :: "string \<Rightarrow> string \<Rightarrow> service_path" where
  "demo_svc n svc = with_node ''a'' ''b'' n svc ''0'' [] []"

definition demo_conn :: conn_info where
  "demo_conn = new_client ConnCluster \<lparr>sock_ip = ''10.0.0.2'', sock_port = 8080\<rparr>
     (demo_sp ''n2'') (demo_sp ''n1'')"

definition demo_mux :: "nat \<Rightarrow> mux" where
  "demo_mux n = register
     ((set_my_routes (new_mux 100) [\<lparr>rc_key = demo_sp ''n1'', rc_scope = ScopeCluster\<rparr>])
        \<lparr>chans := [7 \<mapsto> new_chan n]\<rparr>) demo_conn 7"

definition demo_msg :: "service_path \<Rightarrow> service_path \<Rightarrow> u32 \<Rightarrow> body \<Rightarrow> swbus_message" where
  "demo_msg src dst t b = new_message ((new_header src dst 5)\<lparr>ttl := t\<rparr>) b"

lemmas demo_defs = demo_sp_def demo_svc_def demo_conn_def demo_mux_def demo_msg_def with_node_def
  new_client_def new_mux_def new_id_generator_def register_def update_route_def new_local_def
  new_remote_def route_key_def new_chan_def new_message_def new_header_def stage_keys_def
  to_service_prefix_def to_node_prefix_def to_cluster_prefix_def to_regional_prefix_def

lemma demo_drops_own: "drops_own (demo_mux n)"
  by (simp add: drops_own_def demo_defs)

theorem route_message_returns_iff_witness:
  "drops_own (demo_mux 16)
   \<and> route_message (demo_mux 16)
       (demo_msg (demo_svc ''n1'' ''x'') (demo_svc ''n1'' ''y'') 9 PingRequest) = None
   \<and> route_message (demo_mux 16)
       (demo_msg (demo_svc ''n2'' ''x'') (demo_svc ''n1'' ''y'') 9 PingRequest) \<noteq> None"
  using route_message_returns_iff [OF demo_drops_own [of 16]] demo_drops_own [of 16]
  by (simp add: bounces_def dead_local_def demo_defs)

section \<open>What routing does to a message\<close>

lemma route_forward_step:
  assumes "header m = Some h" "destination h = Some dest"
    and "find_route (routes s) (stage_keys dest) = Some nh" "nh_type nh = NhRemote"
    and "conn_proxy nh = Some c" "chans s c = Some ch" "rx_open ch" "length (queue ch) < cap ch"
    and "ttl h \<noteq> 1"
  shows "route_message s m = Some
    (s\<lparr>chans := (chans s)(c \<mapsto> ch\<lparr>queue := queue ch @ [m\<lparr>header := Some (h\<lparr>ttl := ttl h - 1\<rparr>)\<rparr>]\<rparr>)\<rparr>,
     Ok ())"
  using assms
  by (subst route_message.simps) (simp add: queue_message_def try_queue_def try_send_def Let_def)

text \<open>
  (C1) A message whose best route is a connection with room in its queue, and whose TTL is not 1, is
  appended to the queue of exactly that connection with its TTL decremented (modulo \<open>2\<^sup>3\<^sup>2\<close>); every
  other channel, the route table and the id counter stay as they are, and the call succeeds.
\<close>

theorem route_message_forwards:
  assumes "header m = Some h" "destination h = Some dest"
    and "find_route (routes s) (stage_keys dest) = Some nh" "nh_type nh = NhRemote"
    and "conn_proxy nh = Some c" "chans s c = Some ch" "rx_open ch" "length (queue ch) < cap ch"
    and "ttl h \<noteq> 1"
  shows "\<exists>s'. route_message s m = Some (s', Ok ())
    \<and> chans s' c = Some (ch\<lparr>queue := queue ch @ [m\<lparr>header := Some (h\<lparr>ttl := ttl h - 1\<rparr>)\<rparr>]\<rparr>)
    \<and> (\<forall>d. d \<noteq> c \<longrightarrow> chans s' d = chans s d) \<and> same_tables s s' \<and> id_generator s' = id_generator s"
  using route_forward_step [OF assms] by (simp add: same_tables_def)

theorem route_message_forwards_witness:
  "(let m = demo_msg (demo_svc ''n1'' ''x'') (demo_svc ''n2'' ''y'') 9 PingRequest
    in \<exists>s'. route_message (demo_mux 16) m = Some (s', Ok ())
         \<and> (case chans s' 7 of Some ch \<Rightarrow> queue ch =
              [demo_msg (demo_svc ''n1'' ''x'') (demo_svc ''n2'' ''y'') 8 PingRequest] | None \<Rightarrow> False))"
  using route_message_forwards [of "demo_msg (demo_svc ''n1'' ''x'') (demo_svc ''n2'' ''y'') 9 PingRequest"
      "(new_header (demo_svc ''n1'' ''x'') (demo_svc ''n2'' ''y'') 5)\<lparr>ttl := 9\<rparr>"
      "demo_svc ''n2'' ''y''" "demo_mux 16" "new_remote demo_conn 7 1" 7 "new_chan 16"]
  by (auto simp: demo_defs)

text \<open>
  (C39) A message that would leave with TTL 0 is not forwarded: its source is sent an \<open>Unreachable\<close>
  response (code 303, text "TTL expired") from the node's own path, which carries the id of the
  request and leaves over the source's connection, when that has room, with TTL 63.
\<close>

theorem route_message_ttl_expired:
  assumes "header m = Some h" "destination h = Some dest" "source h = Some src" "ttl h = 1"
    and "find_route (routes s) (stage_keys dest) = Some nh" "nh_type nh = NhRemote"
    and "get_my_service_path s = Ok my"
    and "find_route (routes s) (stage_keys src) = Some nh'" "nh_type nh' = NhRemote"
    and "conn_proxy nh' = Some c" "chans s c = Some ch" "rx_open ch" "length (queue ch) < cap ch"
  shows "\<exists>s' resp. route_message s m = Some (s', Ok ())
    \<and> chans s' = (chans s)(c \<mapsto> ch\<lparr>queue := queue ch @ [resp]\<rparr>)
    \<and> resp = new_message ((new_header my src (next_id (id_generator s)))\<lparr>ttl := 63\<rparr>)
        (Response \<lparr>request_id = msg_id h, error_code = 303, error_message = ''TTL expired'',
                   resp_body = None\<rparr>)"
proof -
  let ?i = "next_id (id_generator s)"
  let ?s = "s\<lparr>id_generator := (id_generator s)\<lparr>next_id := ?i + 1\<rparr>\<rparr>"
  let ?r = "new_message (new_header my src ?i) (Response \<lparr>request_id = msg_id h,
      error_code = 303, error_message = ''TTL expired'', resp_body = None\<rparr>)"
  have q: "queue_message nh s m = (?s, Ok (Some ?r))"
    using assms(1-7)
    by (simp add: queue_message_def as_response_def respond_def generate_message_id_def
        generate_def new_response_def infra_error_def Let_def)
  have "route_message ?s ?r = Some
    (?s\<lparr>chans := (chans s)(c \<mapsto> ch\<lparr>queue := queue ch
       @ [?r\<lparr>header := Some ((new_header my src ?i)\<lparr>ttl := 63\<rparr>)\<rparr>]\<rparr>)\<rparr>, Ok ())"
    using route_forward_step [of ?r "new_header my src ?i" src ?s nh' c ch] assms(8-13)
    by (simp add: new_message_def new_header_def)
  with q assms(1,2,5) show ?thesis
    by (subst route_message.simps) (simp add: new_message_def)
qed

theorem route_message_ttl_expired_witness:
  "(let m = demo_msg (demo_svc ''n2'' ''x'') (demo_svc ''n2'' ''y'') 1 PingRequest
    in \<exists>s'. route_message (demo_mux 16) m = Some (s', Ok ()))"
  using route_message_ttl_expired [of "demo_msg (demo_svc ''n2'' ''x'') (demo_svc ''n2'' ''y'') 1 PingRequest"
      "(new_header (demo_svc ''n2'' ''x'') (demo_svc ''n2'' ''y'') 5)\<lparr>ttl := 1\<rparr>"
      "demo_svc ''n2'' ''y''" "demo_svc ''n2'' ''x''" "demo_mux 16" "new_remote demo_conn 7 1"
      "demo_sp ''n1''" "new_remote demo_conn 7 1" 7 "new_chan 16"]
  by (auto simp: demo_defs get_my_service_path_def)

text \<open>
  A full or closed queue of the next hop is not reported: \<open>route_message\<close> unwraps the error of
  \<open>queue_message\<close>, so the connection worker that routes the message panics, and no state changes.
\<close>

theorem route_message_queue_error_panics:
  assumes "header m = Some h" "destination h = Some dest" "ttl h \<noteq> 1"
    and "find_route (routes s) (stage_keys dest) = Some nh" "nh_type nh = NhRemote"
    and "conn_proxy nh = Some c" "chans s c = Some ch" "\<not> rx_open ch \<or> cap ch \<le> length (queue ch)"
  shows "route_message s m = Some (s, Panic)"
  using assms
  by (subst route_message.simps)
    (auto simp: queue_message_def try_queue_def try_send_def Let_def err_of_def mk_route_def)

theorem route_message_queue_error_panics_witness:
  "route_message (demo_mux 0) (demo_msg (demo_svc ''n1'' ''x'') (demo_svc ''n2'' ''y'') 9 PingRequest)
   = Some (demo_mux 0, Panic)"
  using route_message_queue_error_panics [of "demo_msg (demo_svc ''n1'' ''x'') (demo_svc ''n2'' ''y'') 9 PingRequest"
      "(new_header (demo_svc ''n1'' ''x'') (demo_svc ''n2'' ''y'') 5)\<lparr>ttl := 9\<rparr>"
      "demo_svc ''n2'' ''y''" "demo_mux 0" "new_remote demo_conn 7 1" 7 "new_chan 0"]
  by (auto simp: demo_defs)

text \<open>
  A management request other than \<open>SwbusdGetRoutes\<close> that is addressed to the node itself panics
  the worker that routes it: the input error of \<open>process_mgmt_request\<close> is unwrapped.
\<close>

theorem route_message_bad_management_request_panics:
  assumes "header m = Some h" "destination h = Some dest" "service_type dest = []"
    and "find_route (routes s) (stage_keys dest) = Some nh" "nh_type nh = NhLocal"
    and "body m = Some (ManagementRequest req args)" "req \<noteq> 0"
  shows "route_message s m = Some (s, Panic)"
  using assms
  by (subst route_message.simps)
    (auto simp: queue_message_def process_local_message_def process_mgmt_request_def as_response_def
      management_request_type_of_def err_of_def mk_input_def)

theorem route_message_bad_management_request_panics_witness:
  "route_message (demo_mux 16) (demo_msg (demo_sp ''n2'') (demo_sp ''n1'') 9 (ManagementRequest 1 []))
   = Some (demo_mux 16, Panic)"
  using route_message_bad_management_request_panics [of
      "demo_msg (demo_sp ''n2'') (demo_sp ''n1'') 9 (ManagementRequest 1 [])"
      "(new_header (demo_sp ''n2'') (demo_sp ''n1'') 5)\<lparr>ttl := 9\<rparr>" "demo_sp ''n1''" "demo_mux 16"
      new_local 1 "[]"]
  by (auto simp: demo_defs)

section \<open>Properties of the route table\<close>

text \<open>
  After any sequence of route updates, the entry of a key is one that was offered for this key
  (or was there before), and no offer for the key had a smaller hop count; every key that was
  offered has an entry.
\<close>

theorem update_routes_nearest:
  "((k, nh) \<in> set xs \<longrightarrow>
      (\<exists>e. map_of (routes (foldl (\<lambda>s (k, nh). update_route s k nh) s xs)) k = Some e
         \<and> hop_count e \<le> hop_count nh))
   \<and> (map_of (routes (foldl (\<lambda>s (k, nh). update_route s k nh) s xs)) k = Some e \<longrightarrow>
      map_of (routes s) k = Some e \<or> (k, e) \<in> set xs)"
  using mux_table.offer_all_nearest [of k nh xs s] mux_table.offer_all_origin [of s xs k e]
  unfolding mux_table.offer_all_def by blast

theorem update_routes_nearest_witness:
  "\<exists>e. map_of (routes (foldl (\<lambda>s (k, nh). update_route s k nh) (new_mux 0)
      [(''k'', new_remote demo_conn 1 3), (''k'', new_remote demo_conn 2 1)])) ''k'' = Some e
    \<and> hop_count e \<le> 1"
  using update_routes_nearest [of "''k''" "new_remote demo_conn 2 1"
      "[(''k'', new_remote demo_conn 1 3), (''k'', new_remote demo_conn 2 1)]" "new_mux 0"]
  by (simp add: new_remote_def)

text \<open>
  Registering a connection of type \<open>Client\<close> has no effect on routing: its key is the full
  display form of the path, and no lookup uses that form.
\<close>

theorem register_client_never_routed:
  assumes "connection_type ci = ConnClient" "sp_clean (remote_service_path ci)" "sp_clean dest"
  shows "find_route (routes (register s ci p)) (stage_keys dest) = find_route (routes s) (stage_keys dest)"
  using display_not_stage_key [OF assms(2,3)] assms(1)
  by (auto simp: register_def update_route_def route_key_def stage_keys_def
      find_route_update_other simp del: find_route.simps split: option.splits)

theorem register_client_never_routed_witness:
  "find_route (routes (register (demo_mux 16) (demo_conn\<lparr>connection_type := ConnClient\<rparr>) 9))
     (stage_keys (demo_sp ''n2'')) = find_route (routes (demo_mux 16)) (stage_keys (demo_sp ''n2''))"
  using register_client_never_routed [of "demo_conn\<lparr>connection_type := ConnClient\<rparr>" "demo_sp ''n2''"
      "demo_mux 16" 9]
  by (simp add: demo_conn_def new_client_def sp_clean_def sp_fields_def demo_sp_def with_node_def)

definition all_local :: "mux \<Rightarrow> bool" where
  "all_local s \<longleftrightarrow>
     (\<forall>nh \<in> snd ` set (routes s). nh_type nh = NhLocal)
     \<and> (\<forall>r \<in> set (my_routes s). map_of (routes s) (to_node_prefix (rc_key r)) \<noteq> None)"

lemma all_local_step:
  assumes "all_local s"
  shows "all_local ((update_route s (to_node_prefix (rc_key r)) new_local)
    \<lparr>my_routes := List.insert r (my_routes s)\<rparr>)"
  using assms set_update_subset [of "to_node_prefix (rc_key r)" new_local "routes s"]
  by (auto simp: all_local_def update_route_def alist_simps new_local_def split: option.splits)

lemma all_local_set_my_routes:
  "all_local s \<Longrightarrow> \<forall>r \<in> set rs. rc_scope r = ScopeCluster \<Longrightarrow> all_local (set_my_routes s rs)"
  by (induction s rs rule: set_my_routes.induct) (auto simp: Let_def all_local_step)

text \<open>
  The routes that a daemon is started with make it drop stray responses to itself: after
  \<open>set_my_routes\<close> on a fresh multiplexer, with node-scope keys that name no service, the route of
  the own path is the local next hop.
\<close>

theorem set_my_routes_drops_own:
  assumes "rs \<noteq> []" "\<forall>r \<in> set rs. rc_scope r = ScopeCluster \<and> service_type (rc_key r) = []"
  shows "drops_own (set_my_routes (new_mux t) rs)"
proof -
  let ?s = "set_my_routes (new_mux t) rs"
  have al: "all_local ?s"
    using assms(2) by (intro all_local_set_my_routes) (auto simp: all_local_def new_mux_def)
  have mr: "set (my_routes ?s) = set rs"
    by (simp add: new_mux_def)
  then obtain r rest where r: "my_routes ?s = r # rest" "r \<in> set rs"
    using assms(1) by (cases "my_routes ?s") auto
  then obtain nh where nh: "find_route (routes ?s) (stage_keys (rc_key r)) = Some nh"
    using al by (cases "find_route (routes ?s) (stage_keys (rc_key r))")
      (auto simp: all_local_def find_route_None_iff stage_keys_def simp del: find_route.simps)
  then have "nh_type nh = NhLocal"
    using al by (auto simp: all_local_def find_route_Some_iff dest!: map_of_SomeD)
  with r nh assms(2) show ?thesis by (simp add: drops_own_def)
qed

theorem set_my_routes_drops_own_witness:
  "drops_own (set_my_routes (new_mux 0) [\<lparr>rc_key = demo_sp ''n1'', rc_scope = ScopeCluster\<rparr>])"
  by (rule set_my_routes_drops_own) (simp_all add: demo_sp_def with_node_def)

end
