(* ===== verification/Swbus_Edge.thy ===== *)
theory Swbus_Edge
  imports Swbus_Mux
begin

text \<open>
  The client side of the bus (\<open>crates/swbus-edge\<close>): the route map with private routes
  (\<open>route_map.rs\<close>), handler proxies (\<open>message_handler_proxy.rs\<close>), the message router
  (\<open>message_router.rs\<close>), the connection to \<open>swbusd\<close> (\<open>core_client.rs\<close>), the runtime
  (\<open>edge_runtime.rs\<close>) and the simplified client that actors use (\<open>simple_client.rs\<close>).

  An operation that awaits room in a queue has an \<open>option\<close> result: \<open>None\<close> while it waits.
\<close>

section \<open>Route map\<close>

datatype privacy = Public | Private

type_synonym handler_routes = "(service_path \<times> nat \<times> privacy) list"

definition route_map_insert :: "handler_routes \<Rightarrow> service_path \<Rightarrow> nat \<Rightarrow> privacy \<Rightarrow> handler_routes" where
  "route_map_insert rm sp hdl pr = AList.update sp (hdl, pr) rm"

definition route_map_get :: "handler_routes \<Rightarrow> service_path \<Rightarrow> privacy \<Rightarrow> nat option" where
  "route_map_get rm sp msg_privacy =
     Option.bind (map_of rm sp) (\<lambda>(hdl, route_privacy).
       if route_privacy = Private \<and> msg_privacy = Public then None else Some hdl)"

section \<open>The edge runtime\<close>

text \<open>
  Handlers are named by the handle of their channel. \<open>swbusd_tx\<close> is the queue towards \<open>swbusd\<close>,
  \<open>None\<close> while there is no connection.
\<close>

record edge =
  base_sp :: service_path
  eroutes :: handler_routes
  local_msgs :: "swbus_message chan"
  remote_msgs :: "swbus_message chan"
  handler_chans :: "nat \<rightharpoonup> swbus_message chan"
  swbusd_tx :: "swbus_message chan option"

definition swbus_recv_queue_size :: nat where
  "swbus_recv_queue_size = 10000"

definition new_edge :: "service_path \<Rightarrow> edge" where
  "new_edge sp = \<lparr>base_sp = sp, eroutes = [], local_msgs = new_chan swbus_recv_queue_size,
     remote_msgs = new_chan swbus_recv_queue_size, handler_chans = Map.empty, swbusd_tx = None\<rparr>"

definition new_sp :: "edge \<Rightarrow> string \<Rightarrow> string \<Rightarrow> service_path" where
  "new_sp e rt ri = (base_sp e)\<lparr>resource_type := rt, resource_id := ri\<rparr>"

definition add_handler :: "edge \<Rightarrow> service_path \<Rightarrow> nat \<Rightarrow> edge" where
  "add_handler e sp hdl = e\<lparr>eroutes := route_map_insert (eroutes e) sp hdl Public\<rparr>"

definition add_private_handler :: "edge \<Rightarrow> service_path \<Rightarrow> nat \<Rightarrow> edge" where
  "add_private_handler e sp hdl = e\<lparr>eroutes := route_map_insert (eroutes e) sp hdl Private\<rparr>"

definition edge_send :: "edge \<Rightarrow> swbus_message \<Rightarrow> (edge \<times> unit result) option" where
  "edge_send e m =
     (case send_async (local_msgs e) m of
        None \<Rightarrow> None
      | Some (Ok ch) \<Rightarrow> Some (e\<lparr>local_msgs := ch\<rparr>, Ok ())
      | Some _ \<Rightarrow> Some (e, err_of (mk_connection ConnectionErr (Text ''Message router channel is broken''))))"

definition swbusd_connected :: "edge \<Rightarrow> bool" where
  "swbusd_connected e = (swbusd_tx e \<noteq> None)"

section \<open>The core client\<close>

definition core_send :: "edge \<Rightarrow> swbus_message \<Rightarrow> (edge \<times> unit result) option" where
  "core_send e m =
     (case swbusd_tx e of
        None \<Rightarrow> Some (e, err_of (mk_connection ConnectionErr (Text ''Not connected to swbusd'')))
      | Some tx \<Rightarrow>
          (case send_async tx m of
             None \<Rightarrow> None
           | Some (Ok tx') \<Rightarrow> Some (e\<lparr>swbusd_tx := Some tx'\<rparr>, Ok ())
           | Some _ \<Rightarrow> Some (e, err_of (mk_connection ConnectionErr (SendText Closed)))))"

text \<open>\<open>process_incoming_message\<close>: a queue that does not take the message runs into \<open>todo!\<close>.\<close>

definition process_incoming_message :: "edge \<Rightarrow> swbus_message \<Rightarrow> edge \<times> (unit, unit) exec" where
  "process_incoming_message e m =
     (case try_send (remote_msgs e) m of
        Ok ch \<Rightarrow> (e\<lparr>remote_msgs := ch\<rparr>, Ok ())
      | _ \<Rightarrow> (e, Panic))"

text \<open>
  The connect task: a successful \<open>connect\<close> installs a new queue of capacity 100; the end of the
  receive task, by a closed stream, an error or a panic, clears it.
\<close>

definition core_connected :: "edge \<Rightarrow> edge" where
  "core_connected e = e\<lparr>swbusd_tx := Some (new_chan 100)\<rparr>"

definition core_disconnected :: "edge \<Rightarrow> edge" where
  "core_disconnected e = e\<lparr>swbusd_tx := None\<rparr>"

text \<open>The metadata with which \<open>connect\<close> announces the runtime.\<close>

definition core_client_metadata :: "edge \<Rightarrow> string \<times> connection_type" where
  "core_client_metadata e = (to_service_prefix (base_sp e), ConnLocal)"

section \<open>The message router\<close>

definition proxy_send :: "edge \<Rightarrow> nat \<Rightarrow> swbus_message \<Rightarrow> (edge \<times> unit result) option" where
  "proxy_send e hdl m =
     (case (case handler_chans e hdl of None \<Rightarrow> Some (Err ()) | Some ch \<Rightarrow> send_async ch m) of
        None \<Rightarrow> None
      | Some (Ok ch) \<Rightarrow> Some (e\<lparr>handler_chans := (handler_chans e)(hdl \<mapsto> ch)\<rparr>, Ok ())
      | Some _ \<Rightarrow> Some (e, err_of (mk_connection ConnectionErr (Text ''Message handler channel is broken''))))"

text \<open>An error of the handler is logged and counts as routed.\<close>

definition try_route ::
    "edge \<Rightarrow> service_path \<Rightarrow> privacy \<Rightarrow> swbus_message \<Rightarrow> (edge \<times> bool) option" where
  "try_route e dest pr m =
     (case route_map_get (eroutes e) dest pr of
        Some hdl \<Rightarrow> map_option (\<lambda>p. (fst p, True)) (proxy_send e hdl m)
      | None \<Rightarrow> Some (e, False))"

definition edge_route_message :: "edge \<Rightarrow> swbus_message \<Rightarrow> privacy \<Rightarrow> edge option" where
  "edge_route_message e m pr =
     (case header m of
        None \<Rightarrow> Some e
      | Some h \<Rightarrow>
          (case destination h of
             None \<Rightarrow> Some e
           | Some dest \<Rightarrow>
               Option.bind (try_route e dest pr m) (\<lambda>(e1, done).
                 if done then Some e1
                 else (let p1 = dest\<lparr>resource_id := []\<rparr>
                       in Option.bind (try_route e1 p1 pr m) (\<lambda>(e2, done).
                         if done then Some e2
                         else (let p2 = p1\<lparr>resource_type := []\<rparr>
                               in Option.bind (try_route e2 p2 pr m) (\<lambda>(e3, done).
                                 if done then Some e3
                                 else map_option fst (core_send e3 m))))))))"

text \<open>
  The loop of the router task: it takes the next message of either queue; a message of the local
  queue may use private routes.
\<close>

definition route_next_local :: "edge \<Rightarrow> edge option" where
  "route_next_local e =
     (case queue (local_msgs e) of
        [] \<Rightarrow> None
      | m # ms \<Rightarrow> edge_route_message (e\<lparr>local_msgs := (local_msgs e)\<lparr>queue := ms\<rparr>\<rparr>) m Private)"

definition route_next_remote :: "edge \<Rightarrow> edge option" where
  "route_next_remote e =
     (case queue (remote_msgs e) of
        [] \<Rightarrow> None
      | m # ms \<Rightarrow> edge_route_message (e\<lparr>remote_msgs := (remote_msgs e)\<lparr>queue := ms\<rparr>\<rparr>) m Public)"

section \<open>The simple client\<close>

datatype message_body =
    MRequest "byte list"
  | MResponse u64 swbus_error_code string "string option"
  | MManagement management_request_type "(string \<times> string) list"

record incoming_message =
  im_id :: u64
  im_source :: service_path
  im_destination :: service_path
  im_body :: message_body

record outgoing_message =
  om_destination :: service_path
  om_body :: message_body

record simple_client =
  sc_source :: service_path
  sc_id_generator :: message_id_generator
  sc_sink :: bool
  sc_handler :: nat

definition new_simple_client ::
    "edge \<Rightarrow> service_path \<Rightarrow> bool \<Rightarrow> bool \<Rightarrow> u64 \<Rightarrow> nat \<Rightarrow> edge \<times> simple_client" where
  "new_simple_client e src public sink t hdl =
     (let e1 = e\<lparr>handler_chans := (handler_chans e)(hdl \<mapsto> new_chan swbus_recv_queue_size)\<rparr>
      in (if public then add_handler e1 src hdl else add_private_handler e1 src hdl,
          \<lparr>sc_source = src, sc_id_generator = new_id_generator t, sc_sink = sink, sc_handler = hdl\<rparr>))"

datatype handle_received = PassToActor incoming_message | Respond swbus_message | Ignore

definition client_generate :: "simple_client \<Rightarrow> u64 \<times> simple_client" where
  "client_generate c =
     (let (i, g) = generate (sc_id_generator c) in (i, c\<lparr>sc_id_generator := g\<rparr>))"

definition client_respond ::
    "simple_client \<Rightarrow> service_path \<Rightarrow> service_path \<Rightarrow> request_response \<Rightarrow> simple_client \<times> handle_received" where
  "client_respond c src dst rr =
     (let (i, c1) = client_generate c in (c1, Respond (new_message (new_header src dst i) (Response rr))))"

text \<open>\<open>collect\<close> into a \<open>HashMap\<close>: later arguments of the same name win.\<close>

definition collect_map :: "('k \<times> 'v) list \<Rightarrow> ('k \<times> 'v) list" where
  "collect_map xs = foldl (\<lambda>m (k, v). AList.update k v m) [] xs"

definition handle_received_message ::
    "simple_client \<Rightarrow> swbus_message \<Rightarrow> simple_client \<times> (unit, handle_received) exec" where
  "handle_received_message c m =
     (case header m of
        None \<Rightarrow> (c, Panic)
      | Some h \<Rightarrow>
          (case (source h, destination h, body m) of
             (Some src, Some dst, Some b) \<Rightarrow>
               if sc_sink c \<and> dst \<noteq> sc_source c then
                 apsnd Ok (client_respond c (sc_source c) src (infra_error (msg_id h) NoRoute ''Route not found''))
               else
                 (case b of
                    DataRequest payload \<Rightarrow>
                      (c, Ok (PassToActor \<lparr>im_id = msg_id h, im_source = src, im_destination = dst,
                                          im_body = MRequest payload\<rparr>))
                  | Response rr \<Rightarrow>
                      (c, Ok (PassToActor \<lparr>im_id = msg_id h, im_source = src, im_destination = dst,
                         im_body = MResponse (request_id rr)
                           (case code_of_num (error_code rr) of Some ec \<Rightarrow> ec | None \<Rightarrow> UnknownError)
                           (error_message rr) None\<rparr>))
                  | PingRequest \<Rightarrow> apsnd Ok (client_respond c dst src (response_ok (msg_id h)))
                  | TraceRouteRequest \<Rightarrow> apsnd Ok (client_respond c dst src (response_ok (msg_id h)))
                  | ManagementRequest req args \<Rightarrow>
                      (case management_request_type_of req of
                         None \<Rightarrow> (c, Ok Ignore)
                       | Some ty \<Rightarrow>
                           (c, Ok (PassToActor \<lparr>im_id = msg_id h, im_source = src, im_destination = dst,
                                               im_body = MManagement ty (collect_map args)\<rparr>)))
                  | _ \<Rightarrow> (c, Ok Ignore))
           | _ \<Rightarrow> (c, Panic)))"

text \<open>
  \<open>recv\<close> on the messages that are queued for the client. It returns the messages it sent, and
  \<open>None\<close> in the last place when the queue is used up and it waits for more.
\<close>

fun recv ::
    "simple_client \<Rightarrow> swbus_message list \<Rightarrow> swbus_message list
       \<Rightarrow> (unit, simple_client \<times> swbus_message list \<times> swbus_message list \<times> incoming_message option) exec" where
  "recv c [] sent = Ok (c, [], sent, None)"
| "recv c (m # ms) sent =
     (case snd (handle_received_message c m) of
        Ok (PassToActor im) \<Rightarrow> Ok (fst (handle_received_message c m), ms, sent, Some im)
      | Ok (Respond r) \<Rightarrow> recv (fst (handle_received_message c m)) ms (sent @ [r])
      | Ok Ignore \<Rightarrow> recv (fst (handle_received_message c m)) ms sent
      | _ \<Rightarrow> Panic)"

definition outgoing_message_to_swbus_message ::
    "simple_client \<Rightarrow> outgoing_message \<Rightarrow> simple_client \<times> (unit, u64 \<times> swbus_message) exec" where
  "outgoing_message_to_swbus_message c om =
     (let (i, c1) = client_generate c;
          hdr = new_header (sc_source c) (om_destination om) i
      in case om_body om of
           MRequest payload \<Rightarrow> (c1, Ok (i, new_message hdr (DataRequest payload)))
         | MResponse rid code text rb \<Rightarrow>
             (c1, Ok (i, new_message hdr (Response \<lparr>request_id = rid, error_code = code_num code,
                error_message = text, resp_body = map_option ManagementQueryResult rb\<rparr>)))
         | MManagement _ _ \<Rightarrow> (c1, Panic))"

section \<open>Longest match over handlers\<close>

text \<open>The specification of the router's lookup: the first of three shortenings with a handler.\<close>

definition candidates :: "service_path \<Rightarrow> service_path list" where
  "candidates dest =
     [dest, dest\<lparr>resource_id := []\<rparr>, dest\<lparr>resource_type := [], resource_id := []\<rparr>]"

fun first_some :: "('a \<Rightarrow> 'b option) \<Rightarrow> 'a list \<Rightarrow> 'b option" where
  "first_some f [] = None"
| "first_some f (x # xs) = (case f x of Some y \<Rightarrow> Some y | None \<Rightarrow> first_some f xs)"

definition resolve ::
    "(service_path \<Rightarrow> privacy \<Rightarrow> nat option) \<Rightarrow> service_path \<Rightarrow> privacy \<Rightarrow> nat option" where
  "resolve get dest pr = first_some (\<lambda>sp. get sp pr) (candidates dest)"

lemma first_some_SomeD: "first_some f xs = Some y \<Longrightarrow> \<exists>x \<in> set xs. f x = Some y"
  by (induction xs) (auto split: option.splits)

lemma first_some_cong: "\<forall>x \<in> set xs. f x = g x \<Longrightarrow> first_some f xs = first_some g xs"
  by (induction xs) (simp_all split: option.splits)

text \<open>
  What the router relies on: a handler is found under the path it was inserted for, by messages
  whose privacy allows it, and local messages see at least what remote ones see.
\<close>

locale handler_map =
  fixes get :: "'m \<Rightarrow> service_path \<Rightarrow> privacy \<Rightarrow> nat option"
    and ins :: "'m \<Rightarrow> service_path \<Rightarrow> nat \<Rightarrow> privacy \<Rightarrow> 'm"
  assumes get_ins_same:
      "get (ins m sp hdl rp) sp mp = (if rp = Private \<and> mp = Public then None else Some hdl)"
    and get_ins_other: "sp \<noteq> sp' \<Longrightarrow> get (ins m sp hdl rp) sp' mp = get m sp' mp"
    and get_mono: "get m sp Public = Some hdl \<Longrightarrow> get m sp Private = Some hdl"
begin

lemma resolve_exact:
  "rp = Public \<or> mp = Private \<Longrightarrow> resolve (get (ins m sp hdl rp)) sp mp = Some hdl"
  by (auto simp: resolve_def candidates_def get_ins_same)

lemma resolve_other:
  "sp \<notin> set (candidates dest) \<Longrightarrow> resolve (get (ins m sp hdl rp)) dest mp = resolve (get m) dest mp"
  unfolding resolve_def by (rule first_some_cong) (metis get_ins_other)

lemma resolve_local_total:
  "resolve (get m) dest Public = Some hdl \<Longrightarrow> resolve (get m) dest Private \<noteq> None"
  by (auto simp: resolve_def candidates_def dest: get_mono split: option.splits)

end

interpretation rmap: handler_map route_map_get route_map_insert
  by unfold_locales
    (auto simp: route_map_get_def route_map_insert_def alist_simps bind_eq_Some_conv split: if_splits)

lemma try_route_get:
  "try_route e dest pr m =
     (case route_map_get (eroutes e) dest pr of
        Some hdl \<Rightarrow> map_option (\<lambda>p. (fst p, True)) (proxy_send e hdl m) | None \<Rightarrow> Some (e, False))"
  by (simp add: try_route_def)

lemma bind_routed: "Option.bind (map_option (\<lambda>p. (fst p, True)) x) (\<lambda>(e, d). if d then Some e else f e)
    = map_option fst x"
  by (cases x) auto

lemma edge_route_message_eq:
  assumes "header m = Some h" "destination h = Some dest"
  shows "edge_route_message e m pr =
    (case resolve (route_map_get (eroutes e)) dest pr of
       Some hdl \<Rightarrow> map_option fst (proxy_send e hdl m)
     | None \<Rightarrow> map_option fst (core_send e m))"
proof -
  have p2: "dest\<lparr>resource_id := [], resource_type := []\<rparr> = dest\<lparr>resource_type := [], resource_id := []\<rparr>"
    by simp
  show ?thesis
    using assms
    by (auto simp: edge_route_message_def resolve_def candidates_def try_route_get bind_routed Let_def p2
        split: option.splits)
qed

text \<open>
  The three forms of a destination, from the longest to the shortest, and when a message of a given privacy may use the route
  of one.
\<close>

definition dest_form :: "service_path \<Rightarrow> nat \<Rightarrow> service_path" where
  "dest_form dest k =
     (if k = 0 then dest else if k = 1 then dest\<lparr>resource_id := []\<rparr> else dest\<lparr>resource_type := [], resource_id := []\<rparr>)"

definition may_use :: "edge \<Rightarrow> privacy \<Rightarrow> service_path \<Rightarrow> nat \<Rightarrow> bool" where
  "may_use e pr sp hdl \<longleftrightarrow> (\<exists>rp. map_of (eroutes e) sp = Some (hdl, rp) \<and> (rp = Public \<or> pr = Private))"

definition chan_push :: "'m chan \<Rightarrow> 'm \<Rightarrow> 'm chan option" where
  "chan_push ch m = (if \<not> rx_open ch then Some ch else if length (queue ch) < cap ch then Some (ch\<lparr>queue := queue ch @ [m]\<rparr>) else None)"

lemma may_use_get: "may_use e pr sp hdl \<longleftrightarrow> route_map_get (eroutes e) sp pr = Some hdl"
  by (auto simp: may_use_def route_map_get_def bind_eq_Some_conv split: if_splits privacy.splits intro: privacy.exhaust)

lemma chan_same [simp]: "handler_chans e hdl = Some ch \<Longrightarrow> e\<lparr>handler_chans := (handler_chans e)(hdl \<mapsto> ch)\<rparr> = e"
  "swbusd_tx e = Some tx \<Longrightarrow> e\<lparr>swbusd_tx := Some tx\<rparr> = e"
  by (cases e, simp add: fun_upd_idem)+

lemma send_outcomes:
  "map_option fst (proxy_send e hdl m) = (case handler_chans e hdl of
     None \<Rightarrow> Some e | Some ch \<Rightarrow> map_option (\<lambda>x. e\<lparr>handler_chans := (handler_chans e)(hdl \<mapsto> x)\<rparr>) (chan_push ch m))"
  "map_option fst (core_send e m) = (case swbusd_tx e of
     None \<Rightarrow> Some e | Some tx \<Rightarrow> map_option (\<lambda>x. e\<lparr>swbusd_tx := Some x\<rparr>) (chan_push tx m))"
  by (auto simp: proxy_send_def core_send_def chan_push_def send_async_cases split: option.splits)

lemma resolve_forms:
  "resolve (route_map_get (eroutes e)) dest pr =
    (if \<exists>hdl. may_use e pr (dest_form dest 0) hdl then route_map_get (eroutes e) (dest_form dest 0) pr
     else if \<exists>hdl. may_use e pr (dest_form dest 1) hdl then route_map_get (eroutes e) (dest_form dest 1) pr
     else route_map_get (eroutes e) (dest_form dest 2) pr)"
  by (auto simp: resolve_def candidates_def dest_form_def may_use_get split: option.splits)

text \<open>
  (C22) The router sends a message to the handler of the longest of the three forms of its destination (full path, without
  resource id, without resource type and id) that has a route the message may use: any route for a local message, a public
  one for a message from outside. When there is none, the message goes to \<open>swbusd\<close>. In both cases the message is
  appended to the queue of the receiver; the router waits while the queue is full, and drops the message when the receiver is gone
  or there is no connection to \<open>swbusd\<close>. Nothing else of the runtime changes.
\<close>

theorem edge_route_message_longest_match:
  assumes "header m = Some h" "destination h = Some dest"
  shows "(\<forall>k < 3. \<forall>hdl. may_use e pr (dest_form dest k) hdl \<and> (\<forall>i < k. \<nexists>hdl. may_use e pr (dest_form dest i) hdl) \<longrightarrow>
      edge_route_message e m pr =
        (case handler_chans e hdl of
           None \<Rightarrow> Some e
         | Some ch \<Rightarrow> map_option (\<lambda>x. e\<lparr>handler_chans := (handler_chans e)(hdl \<mapsto> x)\<rparr>) (chan_push ch m))) \<and>
    ((\<forall>i < 3. \<nexists>hdl. may_use e pr (dest_form dest i) hdl) \<longrightarrow>
      edge_route_message e m pr =
        (case swbusd_tx e of
           None \<Rightarrow> Some e
         | Some tx \<Rightarrow> map_option (\<lambda>x. e\<lparr>swbusd_tx := Some x\<rparr>) (chan_push tx m)))"
proof (intro conjI allI impI)
  fix k hdl
  assume "k < 3" and u: "may_use e pr (dest_form dest k) hdl \<and> (\<forall>i < k. \<nexists>hdl. may_use e pr (dest_form dest i) hdl)"
  then have "k = 0 \<or> k = 1 \<or> k = 2" by auto
  then have "resolve (route_map_get (eroutes e)) dest pr = Some hdl"
    using u by (auto simp: resolve_forms may_use_get less_2_cases_iff)
  then show "edge_route_message e m pr = (case handler_chans e hdl of None \<Rightarrow> Some e
      | Some ch \<Rightarrow> map_option (\<lambda>x. e\<lparr>handler_chans := (handler_chans e)(hdl \<mapsto> x)\<rparr>) (chan_push ch m))"
    using edge_route_message_eq [OF assms] by (simp add: send_outcomes)
next
  assume n: "\<forall>i < 3. \<nexists>hdl. may_use e pr (dest_form dest i) hdl"
  have "i < 3 \<Longrightarrow> route_map_get (eroutes e) (dest_form dest i) pr = None" for i
    using n by (auto simp: may_use_get)
  then have "resolve (route_map_get (eroutes e)) dest pr = None" by (simp add: resolve_forms)
  then show "edge_route_message e m pr = (case swbusd_tx e of None \<Rightarrow> Some e
      | Some tx \<Rightarrow> map_option (\<lambda>x. e\<lparr>swbusd_tx := Some x\<rparr>) (chan_push tx m))"
    using edge_route_message_eq [OF assms] by (simp add: send_outcomes)
qed

section \<open>A concrete edge\<close>

text \<open>Two actors of the service \<open>hamgrd\<close> on node \<open>a.b.n1\<close>; the second one is private.\<close>

definition demo_actor :: "string \<Rightarrow> service_path" where
  "demo_actor i = (demo_svc ''n1'' ''hamgrd'')\<lparr>resource_type := ''actor'', resource_id := i\<rparr>"

definition demo_clients :: "edge \<times> simple_client \<times> simple_client" where
  "demo_clients =
     (let (e1, c1) = new_simple_client (new_edge (demo_svc ''n1'' ''hamgrd'')) (demo_actor ''x'') True False 10 1;
          (e2, c2) = new_simple_client e1 (demo_actor ''y'') False False 20 2
      in (e2, c1, c2))"

lemmas demo_edge_defs = demo_actor_def demo_clients_def new_simple_client_def new_edge_def
  add_handler_def add_private_handler_def route_map_insert_def new_id_generator_def
  swbus_recv_queue_size_def

theorem edge_route_message_longest_match_witness:
  "(let m = demo_msg (demo_sp ''n2'') (demo_actor ''x'') 9 PingRequest
    in edge_route_message (fst demo_clients) m Public
       = Some ((fst demo_clients)\<lparr>handler_chans := (handler_chans (fst demo_clients))(1 \<mapsto> (new_chan 10000)\<lparr>queue := [m]\<rparr>)\<rparr>))"
proof -
  let ?m = "demo_msg (demo_sp ''n2'') (demo_actor ''x'') 9 PingRequest"
  have m: "header ?m = Some ((new_header (demo_sp ''n2'') (demo_actor ''x'') 5)\<lparr>ttl := 9\<rparr>)"
    "destination ((new_header (demo_sp ''n2'') (demo_actor ''x'') 5)\<lparr>ttl := 9\<rparr>) = Some (demo_actor ''x'')"
    by (simp_all add: demo_msg_def new_message_def new_header_def)
  have "may_use (fst demo_clients) Public (dest_form (demo_actor ''x'') 0) 1"
    "handler_chans (fst demo_clients) 1 = Some (new_chan 10000)"
    by (simp_all add: may_use_def dest_form_def demo_edge_defs demo_svc_def with_node_def)
  then have "edge_route_message (fst demo_clients) ?m Public = (case handler_chans (fst demo_clients) 1 of
      None \<Rightarrow> Some (fst demo_clients)
    | Some ch \<Rightarrow> map_option (\<lambda>x. (fst demo_clients)\<lparr>handler_chans := (handler_chans (fst demo_clients))(1 \<mapsto> x)\<rparr>) (chan_push ch ?m))"
    using edge_route_message_longest_match [OF m, of "fst demo_clients" Public] by (metis not_less_zero zero_less_numeral)
  with \<open>handler_chans (fst demo_clients) 1 = Some (new_chan 10000)\<close> show ?thesis
    by (simp add: chan_push_def new_chan_def)
qed

section \<open>Private handlers\<close>

text \<open>
  A run of an edge runtime. \<open>T\<close> is a set of messages that no local client sends, \<open>P\<close> the handles
  of the channels that were made for private clients.
\<close>

inductive edge_run :: "swbus_message set \<Rightarrow> nat set \<Rightarrow> edge \<Rightarrow> bool" for T P where
  start: "edge_run T P (new_edge sp)"
| client: "edge_run T P e \<Longrightarrow> handler_chans e hdl = None \<Longrightarrow> public = (hdl \<notin> P) \<Longrightarrow>
    edge_run T P (fst (new_simple_client e src public sink t hdl))"
| send_local: "edge_run T P e \<Longrightarrow> m \<notin> T \<Longrightarrow> edge_send e m = Some (e', r) \<Longrightarrow> edge_run T P e'"
| incoming: "edge_run T P e \<Longrightarrow> edge_run T P (fst (process_incoming_message e m))"
| connected: "edge_run T P e \<Longrightarrow> edge_run T P (core_connected e)"
| disconnected: "edge_run T P e \<Longrightarrow> edge_run T P (core_disconnected e)"
| route_local: "edge_run T P e \<Longrightarrow> route_next_local e = Some e' \<Longrightarrow> edge_run T P e'"
| route_remote: "edge_run T P e \<Longrightarrow> route_next_remote e = Some e' \<Longrightarrow> edge_run T P e'"
| take: "edge_run T P e \<Longrightarrow> handler_chans e hdl = Some ch \<Longrightarrow>
    edge_run T P (e\<lparr>handler_chans := (handler_chans e)(hdl \<mapsto> ch\<lparr>queue := tl (queue ch)\<rparr>)\<rparr>)"
| drop_client: "edge_run T P e \<Longrightarrow> handler_chans e hdl = Some ch \<Longrightarrow>
    edge_run T P (e\<lparr>handler_chans := (handler_chans e)(hdl \<mapsto> ch\<lparr>rx_open := False\<rparr>)\<rparr>)"

definition clean_queue :: "swbus_message set \<Rightarrow> swbus_message chan \<Rightarrow> bool" where
  "clean_queue T ch \<longleftrightarrow> set (queue ch) \<inter> T = {}"

lemma clean_queue_append:
  "clean_queue T (ch\<lparr>queue := queue ch @ [m]\<rparr>) \<longleftrightarrow> clean_queue T ch \<and> m \<notin> T"
  by (auto simp: clean_queue_def)

lemma clean_queue_tl: "clean_queue T ch \<Longrightarrow> clean_queue T (ch\<lparr>queue := tl (queue ch)\<rparr>)"
  by (cases "queue ch") (auto simp: clean_queue_def)

definition secluded :: "swbus_message set \<Rightarrow> nat set \<Rightarrow> edge \<Rightarrow> bool" where
  "secluded T P e \<longleftrightarrow>
     clean_queue T (local_msgs e)
     \<and> (\<forall>hdl ch. hdl \<in> P \<longrightarrow> handler_chans e hdl = Some ch \<longrightarrow> clean_queue T ch)
     \<and> (\<forall>x \<in> set (eroutes e). snd (snd x) = Public \<longrightarrow> fst (snd x) \<notin> P)"

lemma secluded_handler:
  assumes "secluded T P e" "hdl \<in> P \<Longrightarrow> clean_queue T ch"
  shows "secluded T P (e\<lparr>handler_chans := (handler_chans e)(hdl \<mapsto> ch)\<rparr>)"
  using assms by (auto simp: secluded_def)

lemma secluded_proxy_send:
  assumes "secluded T P e" "m \<notin> T \<or> hdl \<notin> P" "proxy_send e hdl m = Some (e', r)"
  shows "secluded T P e'"
proof -
  have "clean_queue T (ch\<lparr>queue := queue ch @ [m]\<rparr>)"
    if "handler_chans e hdl = Some ch" "hdl \<in> P" for ch
    using assms(1,2) that by (auto simp: secluded_def clean_queue_def)
  then show ?thesis
    using assms
    by (auto simp: proxy_send_def send_async_cases split: option.splits if_splits
        intro!: secluded_handler)
qed

lemma secluded_core_send:
  "secluded T P e \<Longrightarrow> core_send e m = Some (e', r) \<Longrightarrow> secluded T P e'"
  by (auto simp: core_send_def secluded_def split: option.splits exec.splits)

lemma resolve_public_handler:
  assumes "secluded T P e" "resolve (route_map_get (eroutes e)) dest Public = Some hdl"
  shows "hdl \<notin> P"
proof -
  obtain sp where "route_map_get (eroutes e) sp Public = Some hdl"
    using first_some_SomeD assms(2) unfolding resolve_def by fast
  then have "(sp, hdl, Public) \<in> set (eroutes e)"
    by (auto simp: route_map_get_def bind_eq_Some_conv intro: privacy.exhaust split: if_splits
        dest!: map_of_SomeD) (metis privacy.exhaust)
  with assms(1) show ?thesis by (auto simp: secluded_def)
qed

lemma secluded_route:
  assumes "secluded T P e" "m \<notin> T \<or> pr = Public" "edge_route_message e m pr = Some e'"
  shows "secluded T P e'"
proof (cases "\<exists>h dest. header m = Some h \<and> destination h = Some dest")
  case True
  then obtain h dest where "header m = Some h" "destination h = Some dest" by blast
  note eq = edge_route_message_eq [OF this, of e pr]
  show ?thesis
    using assms eq resolve_public_handler [OF assms(1)]
    by (auto split: option.splits intro: secluded_core_send secluded_proxy_send)
next
  case False
  with assms show ?thesis by (auto simp: edge_route_message_def split: option.splits)
qed

lemma secluded_insert:
  assumes "secluded T P e" "pr = Public \<longrightarrow> hdl \<notin> P"
  shows "secluded T P (e\<lparr>eroutes := route_map_insert (eroutes e) sp hdl pr\<rparr>)"
  using assms set_update_subset [of sp "(hdl, pr)" "eroutes e"]
  by (auto simp: secluded_def route_map_insert_def)

lemma edge_run_secluded: "edge_run T P e \<Longrightarrow> secluded T P e"
proof (induction rule: edge_run.induct)
  case (client e hdl public src sink t)
  have "secluded T P (e\<lparr>handler_chans := (handler_chans e)(hdl \<mapsto> new_chan swbus_recv_queue_size)\<rparr>)"
    using client by (intro secluded_handler) (simp_all add: clean_queue_def new_chan_def)
  from secluded_insert [OF this, of Public hdl src] secluded_insert [OF this, of Private hdl src] client
  show ?case
    by (auto simp: new_simple_client_def Let_def add_handler_def add_private_handler_def)
next
  case (send_local e m e' r)
  then show ?case
    by (auto simp: edge_send_def send_async_cases secluded_def clean_queue_append split: if_splits)
next
  case (incoming e m)
  then show ?case
    by (auto simp: process_incoming_message_def secluded_def split: exec.splits)
next
  case (route_local e e')
  then obtain m ms where q: "queue (local_msgs e) = m # ms"
    and r: "edge_route_message (e\<lparr>local_msgs := (local_msgs e)\<lparr>queue := ms\<rparr>\<rparr>) m Private = Some e'"
    by (auto simp: route_next_local_def split: list.splits)
  have "secluded T P (e\<lparr>local_msgs := (local_msgs e)\<lparr>queue := ms\<rparr>\<rparr>)" "m \<notin> T"
    using route_local q by (auto simp: secluded_def clean_queue_def)
  then show ?case using r secluded_route by blast
next
  case (route_remote e e')
  then obtain m ms where r: "edge_route_message (e\<lparr>remote_msgs := (remote_msgs e)\<lparr>queue := ms\<rparr>\<rparr>) m Public = Some e'"
    by (auto simp: route_next_remote_def split: list.splits)
  have "secluded T P (e\<lparr>remote_msgs := (remote_msgs e)\<lparr>queue := ms\<rparr>\<rparr>)"
    using route_remote by (simp add: secluded_def)
  then show ?case using r secluded_route by blast
next
  case (take e hdl ch)
  then show ?case
    by (intro secluded_handler) (auto simp: secluded_def clean_queue_tl)
next
  case (drop_client e hdl ch)
  then show ?case
    by (intro secluded_handler) (auto simp: secluded_def clean_queue_def)
qed (auto simp: secluded_def clean_queue_def new_edge_def new_chan_def core_connected_def core_disconnected_def)

text \<open>
  (C21) A private handler only ever receives what local clients sent: in every run of the runtime, no
  message that arrived from \<open>swbusd\<close> (and that no local client sends) is queued for a client that was
  registered as private.
\<close>

theorem private_handler_secluded:
  assumes "edge_run T P e" "hdl \<in> P" "handler_chans e hdl = Some ch"
  shows "set (queue ch) \<inter> T = {}"
  using edge_run_secluded [OF assms(1)] assms(2,3) by (simp add: secluded_def clean_queue_def)

lemma demo_edge_run: "edge_run T {2} (fst demo_clients)"
proof -
  let ?e0 = "new_edge (demo_svc ''n1'' ''hamgrd'')"
  let ?e1 = "fst (new_simple_client ?e0 (demo_actor ''x'') True False 10 1)"
  have "edge_run T {2} ?e1" by (rule client [OF start]) (simp_all add: new_edge_def)
  then have "edge_run T {2} (fst (new_simple_client ?e1 (demo_actor ''y'') False False 20 2))"
    by (rule client) (simp_all add: demo_edge_defs)
  then show ?thesis by (simp add: demo_clients_def new_simple_client_def Let_def)
qed

theorem private_handler_secluded_witness:
  "(let m = demo_msg (demo_sp ''n2'') (demo_actor ''y'') 9 PingRequest;
        e = fst (process_incoming_message (fst demo_clients) m)
    in edge_run {m} {2} e \<and> (\<exists>ch. handler_chans e 2 = Some ch \<and> set (queue ch) \<inter> {m} = {}))"
proof -
  let ?m = "demo_msg (demo_sp ''n2'') (demo_actor ''y'') 9 PingRequest"
  let ?e = "fst (process_incoming_message (fst demo_clients) ?m)"
  have r: "edge_run {?m} {2} ?e" by (rule incoming [OF demo_edge_run])
  moreover have "\<exists>ch. handler_chans ?e 2 = Some ch"
    by (simp add: process_incoming_message_def demo_edge_defs split: exec.splits)
  ultimately show ?thesis
    using private_handler_secluded [OF r] by (fastforce simp: Let_def)
qed

section \<open>What clients exchange\<close>

text \<open>A response body does not survive: \<open>handle_received_message\<close> always passes \<open>None\<close>.\<close>

fun received_body :: "message_body \<Rightarrow> message_body" where
  "received_body (MResponse rid code text rb) = MResponse rid code text None"
| "received_body b = b"

fun sendable :: "message_body \<Rightarrow> bool" where
  "sendable (MManagement ty args) = False"
| "sendable b = True"

lemma code_of_num_code_num [simp]: "code_of_num (code_num c) = Some c"
  by (cases c) (simp_all add: code_of_num_def all_codes_def)

lemma outgoing_received:
  assumes "sendable (om_body om)" "sc_sink d \<longrightarrow> om_destination om = sc_source d"
  shows "\<exists>m. outgoing_message_to_swbus_message c om
      = (snd (client_generate c), Ok (next_id (sc_id_generator c), m))
    \<and> header m = Some (new_header (sc_source c) (om_destination om) (next_id (sc_id_generator c)))
    \<and> handle_received_message d m = (d, Ok (PassToActor
        \<lparr>im_id = next_id (sc_id_generator c), im_source = sc_source c,
         im_destination = om_destination om, im_body = received_body (om_body om)\<rparr>))"
  using assms
  by (cases "om_body om")
    (auto simp: outgoing_message_to_swbus_message_def handle_received_message_def
      client_generate_def generate_def new_message_def new_header_def)

lemma routed_to_new_client:
  assumes "header m = Some h" "destination h = Some dst" "new_simple_client e dst public sink t hdl = (e1, d)"
    and "queue (local_msgs e1) = []" "rx_open (local_msgs e1)" "0 < cap (local_msgs e1)"
  shows "\<exists>e2 e3 ch. edge_send e1 m = Some (e2, Ok ()) \<and> route_next_local e2 = Some e3
    \<and> handler_chans e3 hdl = Some ch \<and> queue ch = [m]"
proof -
  have d: "handler_chans e1 hdl = Some (new_chan swbus_recv_queue_size)"
    and e1: "\<exists>pr. eroutes e1 = route_map_insert (eroutes e) dst hdl pr"
    using assms(3) by (auto simp: new_simple_client_def Let_def add_handler_def add_private_handler_def)
  let ?e2 = "e1\<lparr>local_msgs := (local_msgs e1)\<lparr>queue := [m]\<rparr>\<rparr>"
  have s: "edge_send e1 m = Some (?e2, Ok ())"
    using assms(4-6) by (simp add: edge_send_def send_async_cases)
  have "route_next_local ?e2 = edge_route_message (e1\<lparr>local_msgs := (local_msgs e1)\<lparr>queue := []\<rparr>\<rparr>) m Private"
    by (simp add: route_next_local_def)
  also have "\<dots> = map_option fst (proxy_send (e1\<lparr>local_msgs := (local_msgs e1)\<lparr>queue := []\<rparr>\<rparr>) hdl m)"
    using edge_route_message_eq [OF assms(1,2)] e1 by (auto simp: rmap.resolve_exact)
  finally show ?thesis
    using s d by (auto simp: proxy_send_def send_async_cases new_chan_def swbus_recv_queue_size_def)
qed

text \<open>
  What one client sends, another client of the same runtime receives: the request or response
  of a client, routed locally, is appended to the queue of the client registered (publicly or
  privately) for the destination, and that client's \<open>handle_received_message\<close> gives the actor the
  sender's path, the id that was returned to the sender and the same body, except that a response
  body is lost.
\<close>

theorem local_message_received:
  assumes "sendable b" "new_simple_client e dst public sink t hdl = (e1, d)"
    and "queue (local_msgs e1) = []" "rx_open (local_msgs e1)" "0 < cap (local_msgs e1)"
  shows "\<exists>m e2 e3 ch. outgoing_message_to_swbus_message c \<lparr>om_destination = dst, om_body = b\<rparr>
      = (snd (client_generate c), Ok (next_id (sc_id_generator c), m))
    \<and> edge_send e1 m = Some (e2, Ok ()) \<and> route_next_local e2 = Some e3
    \<and> handler_chans e3 hdl = Some ch \<and> queue ch = [m]
    \<and> handle_received_message d m = (d, Ok (PassToActor
        \<lparr>im_id = next_id (sc_id_generator c), im_source = sc_source c, im_destination = dst,
         im_body = received_body b\<rparr>))"
proof -
  have d: "sc_source d = dst" using assms(2) by (auto simp: new_simple_client_def Let_def)
  obtain m where m: "outgoing_message_to_swbus_message c \<lparr>om_destination = dst, om_body = b\<rparr>
      = (snd (client_generate c), Ok (next_id (sc_id_generator c), m))"
    "header m = Some (new_header (sc_source c) dst (next_id (sc_id_generator c)))"
    "handle_received_message d m = (d, Ok (PassToActor
        \<lparr>im_id = next_id (sc_id_generator c), im_source = sc_source c, im_destination = dst,
         im_body = received_body b\<rparr>))"
    using outgoing_received [of "\<lparr>om_destination = dst, om_body = b\<rparr>" d c] assms(1) d by auto
  have "destination (new_header (sc_source c) dst (next_id (sc_id_generator c))) = Some dst"
    by (simp add: new_header_def)
  from routed_to_new_client [OF m(2) this assms(2-5)] m(1,3) show ?thesis by blast
qed

theorem local_message_received_witness:
  "\<exists>m e1 e2 ch. edge_send (fst demo_clients) m = Some (e1, Ok ()) \<and> route_next_local e1 = Some e2
    \<and> handler_chans e2 2 = Some ch \<and> queue ch = [m]"
proof -
  let ?e = "fst (new_simple_client (new_edge (demo_svc ''n1'' ''hamgrd'')) (demo_actor ''x'') True False 10 1)"
  have n: "new_simple_client ?e (demo_actor ''y'') False False 20 2 = (fst demo_clients, snd (snd demo_clients))"
    by (simp add: demo_clients_def new_simple_client_def Let_def)
  have q: "queue (local_msgs (fst demo_clients)) = []" "rx_open (local_msgs (fst demo_clients))"
    "0 < cap (local_msgs (fst demo_clients))"
    by (simp_all add: demo_edge_defs new_chan_def)
  show ?thesis
    using local_message_received [OF _ n q, of "MRequest [1]" "fst (snd demo_clients)"] by fastforce
qed

definition probe :: "service_path \<Rightarrow> service_path \<times> u64 \<times> bool \<Rightarrow> swbus_message" where
  "probe dst p = new_message (new_header (fst p) dst (fst (snd p)))
     (if snd (snd p) then PingRequest else TraceRouteRequest)"

text \<open>
  A client answers probes by itself: a run of ping and trace route requests to it is consumed
  by \<open>recv\<close> without waking the actor, with one \<open>Ok\<close> response per request, in order, from the
  probed path to the prober, carrying the request's id, and with consecutive response ids.
\<close>

theorem recv_answers_probes:
  assumes "sc_source c = dst"
  shows "recv c (map (probe dst) ps) sent = Ok
    (c\<lparr>sc_id_generator := \<lparr>next_id = next_id (sc_id_generator c) + of_nat (length ps)\<rparr>\<rparr>, [],
     sent @ map (\<lambda>(j, src, i, ping). new_message
         (new_header dst src (next_id (sc_id_generator c) + of_nat j)) (Response (response_ok i)))
       (enumerate 0 ps), None)"
  using assms
proof (induction ps arbitrary: c sent)
  case (Cons p ps)
  let ?i = "next_id (sc_id_generator c)"
  let ?c = "c\<lparr>sc_id_generator := (sc_id_generator c)\<lparr>next_id := ?i + 1\<rparr>\<rparr>"
  have h: "handle_received_message c (probe dst p) =
      (?c, Ok (Respond (new_message (new_header dst (fst p) ?i) (Response (response_ok (fst (snd p)))))))"
    using Cons.prems
    by (simp add: handle_received_message_def probe_def new_message_def new_header_def
        client_respond_def client_generate_def generate_def)
  have en: "enumerate (Suc 0) ps = map (\<lambda>(j, x). (Suc j, x)) (enumerate 0 ps)"
    by (auto simp: enumerate_Suc_eq)
  show ?case
    using Cons.IH [of ?c] Cons.prems h
    by (cases p) (simp add: en add.assoc case_prod_beta)
qed simp

theorem recv_answers_probes_witness:
  "sc_source (fst (snd demo_clients)) = demo_actor ''x''
   \<and> (\<exists>c rs. recv (fst (snd demo_clients))
          (map (probe (demo_actor ''x'')) [(demo_sp ''n2'', 5, True), (demo_sp ''n3'', 6, False)]) []
        = Ok (c, [], rs, None) \<and> length rs = 2)"
proof -
  have "sc_source (fst (snd demo_clients)) = demo_actor ''x''"
    by (simp add: demo_edge_defs)
  with recv_answers_probes [OF this, of "[(demo_sp ''n2'', 5, True), (demo_sp ''n3'', 6, False)]" "[]"]
  show ?thesis by auto
qed

text \<open>
  Received messages outrun the router only until the queue of 10000 is full: then the receive task
  dies in \<open>todo!\<close> instead of answering with \<open>QueueFull\<close>.
\<close>

lemma incoming_queue_full_panics:
  assumes "cap (remote_msgs e) \<le> length (queue (remote_msgs e))"
  shows "process_incoming_message e m = (e, Panic)"
  using assms by (simp add: process_incoming_message_def try_send_def)

end
