(* ===== verification/Swbus_Actor.thy ===== *)
theory Swbus_Actor
  imports Swbus_Edge
begin

text \<open>
  The actor framework (\<open>crates/swbus-actor\<close>): actor messages, the three state tables
  (\<open>incoming.rs\<close>, \<open>internal.rs\<close>, \<open>outgoing.rs\<close>) and the driver that runs an actor (\<open>driver.rs\<close>).

  The state of one actor is a record. What it hands to the outside is recorded in order: \<open>wire\<close>
  holds the messages given to the edge runtime, \<open>db_writes\<close> the calls of \<open>Table::set\<close>. The router
  task that takes messages from the edge runtime never ends, so sending only waits and has no error
  branch here. \<open>clock\<close> is the time in nanoseconds; it stands still during one callback.

  The byte format of an actor message belongs to \<open>serde_json\<close> and is a parameter \<open>codec\<close>.
\<close>

section \<open>Actor messages\<close>

text \<open>\<open>serde_json::Value\<close>; the programs only store integers in it, no floating point numbers.\<close>

datatype json = JNull | JBool bool | JNum int | JStr string | JArr "json list" | JObj "(string \<times> json) list"

record actor_message =
  am_key :: string
  am_data :: json

record codec =
  serialize :: "actor_message \<Rightarrow> byte list"
  deserialize :: "byte list \<Rightarrow> string + actor_message"

text \<open>Errors of handlers are \<open>anyhow::Error\<close> values, of which the programs only use the text.\<close>

type_synonym 'a outcome = "(string, 'a) exec"

type_synonym field_values = "(string \<times> string) list"

section \<open>State tables\<close>

record incoming_entry =
  in_msg :: actor_message
  in_source :: service_path
  in_request_id :: u64
  in_version :: u64
  in_created_time :: nat
  in_last_updated_time :: nat
  in_response :: string
  in_acked :: bool

record internal_entry =
  swss_table_name :: string
  swss_key :: string
  fvs :: field_values
  mutated :: bool
  backup_fvs :: field_values
  int_last_updated_time :: "nat option"

record unacked_message =
  um_actor_message :: actor_message
  um_swbus_message :: swbus_message
  um_time_sent :: nat

record sent_entry =
  se_msg :: actor_message
  se_id :: u64
  se_created_time :: nat
  se_last_updated_time :: nat
  se_last_sent_time :: nat
  se_version :: u64
  se_acked :: bool
  se_response :: "string option"
  se_response_source :: "service_path option"

record actor_state =
  clock :: nat
  internal :: "(string \<times> internal_entry) list"
  incoming :: "(string \<times> incoming_entry) list"
  unacked_messages :: "(u64 \<times> unacked_message) list"
  queued_messages :: "unacked_message list"
  sent_messages :: "(string \<times> sent_entry) list"
  client :: simple_client
  wire :: "swbus_message list"
  db_writes :: "(string \<times> string \<times> field_values) list"

definition new_state :: "nat \<Rightarrow> simple_client \<Rightarrow> actor_state" where
  "new_state t c = \<lparr>clock = t, internal = [], incoming = [], unacked_messages = [],
     queued_messages = [], sent_messages = [], client = c, wire = [], db_writes = []\<rparr>"

definition get_unix_time :: "actor_state \<Rightarrow> nat" where
  "get_unix_time st = clock st div 10 ^ 9"

text \<open>The \<open>Debug\<close> name of an error code, used in the response texts of the tables.\<close>

fun code_name :: "swbus_error_code \<Rightarrow> string" where
  "code_name UnknownError = ''UnknownError''"
| "code_name CodeOk = ''Ok''"
| "code_name ConnectionErrorMin = ''ConnectionErrorMin''"
| "code_name ConnectionErr = ''ConnectionError''"
| "code_name Timeout = ''Timeout''"
| "code_name ConnectionErrorMax = ''ConnectionErrorMax''"
| "code_name InputErrorMin = ''InputErrorMin''"
| "code_name InvalidArgs = ''InvalidArgs''"
| "code_name InvalidDestination = ''InvalidDestination''"
| "code_name InvalidSource = ''InvalidSource''"
| "code_name InvalidHeader = ''InvalidHeader''"
| "code_name InvalidPayload = ''InvalidPayload''"
| "code_name InputErrorMax = ''InputErrorMax''"
| "code_name RouteErrorMin = ''RouteErrorMin''"
| "code_name NoRoute = ''NoRoute''"
| "code_name QueueFull = ''QueueFull''"
| "code_name Unreachable = ''Unreachable''"
| "code_name ServiceNotFound = ''ServiceNotFound''"
| "code_name ResourceNotFound = ''ResourceNotFound''"
| "code_name RouteErrorMax = ''RouteErrorMax''"
| "code_name InternalErrorMin = ''InternalErrorMin''"
| "code_name Fail = ''Fail''"
| "code_name InternalErrorMax = ''InternalErrorMax''"

definition response_text :: "swbus_error_code \<Rightarrow> string \<Rightarrow> string" where
  "response_text code text = (if code = CodeOk then ''Ok'' else code_name code @ '' ('' @ text @ '')'')"

subsection \<open>Incoming\<close>

definition get_entry :: "actor_state \<Rightarrow> string \<Rightarrow> incoming_entry outcome" where
  "get_entry st key =
     (case map_of (incoming st) key of
        Some e \<Rightarrow> Ok e
      | None \<Rightarrow> Err (''Incoming state table has no key '' @ key))"

definition incoming_get :: "actor_state \<Rightarrow> string \<Rightarrow> actor_message outcome" where
  "incoming_get st key = bind_exec (get_entry st key) (\<lambda>e. Ok (in_msg e))"

definition get_by_prefix :: "actor_state \<Rightarrow> string \<Rightarrow> incoming_entry list" where
  "get_by_prefix st p = map snd (filter (\<lambda>e. starts_with (fst e) p) (incoming st))"

definition new_incoming_entry ::
    "actor_state \<Rightarrow> actor_message \<Rightarrow> service_path \<Rightarrow> u64 \<Rightarrow> incoming_entry" where
  "new_incoming_entry st m src rid =
     \<lparr>in_msg = m, in_source = src, in_request_id = rid, in_version = 1,
      in_created_time = get_unix_time st, in_last_updated_time = get_unix_time st,
      in_response = [], in_acked = False\<rparr>"

definition update_received ::
    "actor_state \<Rightarrow> actor_message \<Rightarrow> service_path \<Rightarrow> u64 \<Rightarrow> incoming_entry \<Rightarrow> incoming_entry" where
  "update_received st m src rid e =
     e\<lparr>in_msg := m, in_source := src, in_request_id := rid, in_version := in_version e + 1,
       in_last_updated_time := get_unix_time st\<rparr>"

definition update_handled :: "swbus_error_code \<Rightarrow> string \<Rightarrow> incoming_entry \<Rightarrow> incoming_entry" where
  "update_handled code text e = e\<lparr>in_acked := (code = CodeOk), in_response := response_text code text\<rparr>"

definition incoming_insert :: "actor_state \<Rightarrow> actor_message \<Rightarrow> service_path \<Rightarrow> u64 \<Rightarrow> actor_state" where
  "incoming_insert st m src rid =
     (let e = (case map_of (incoming st) (am_key m) of
                 Some e \<Rightarrow> update_received st m src rid e
               | None \<Rightarrow> new_incoming_entry st m src rid)
      in st\<lparr>incoming := AList.update (am_key m) e (incoming st)\<rparr>)"

text \<open>\<open>SimpleSwbusEdgeClient::send\<close> and \<open>send_raw\<close>.\<close>

definition send_raw :: "actor_state \<Rightarrow> swbus_message \<Rightarrow> actor_state" where
  "send_raw st m = st\<lparr>wire := wire st @ [m]\<rparr>"

definition client_send :: "actor_state \<Rightarrow> outgoing_message \<Rightarrow> actor_state outcome" where
  "client_send st om =
     (case outgoing_message_to_swbus_message (client st) om of
        (c, Ok (i, m)) \<Rightarrow> Ok (send_raw (st\<lparr>client := c\<rparr>) m)
      | _ \<Rightarrow> Panic)"

definition handle_request ::
    "codec \<Rightarrow> actor_state \<Rightarrow> u64 \<Rightarrow> service_path \<Rightarrow> byte list \<Rightarrow> actor_state outcome \<times> string outcome" where
  "handle_request cd st rid src payload =
     (case deserialize cd payload of
        Inr m \<Rightarrow> (Ok (incoming_insert st m src rid), Ok (am_key m))
      | Inl e \<Rightarrow>
          (client_send st \<lparr>om_destination = src, om_body = MResponse rid InvalidPayload e None\<rparr>,
           Err (''invalid ActorMessage received: '' @ e)))"

definition request_handled ::
    "actor_state \<Rightarrow> string \<Rightarrow> swbus_error_code \<Rightarrow> string \<Rightarrow> actor_state outcome" where
  "request_handled st key code text =
     (case map_of (incoming st) key of
        Some e \<Rightarrow> Ok (st\<lparr>incoming := AList.update key (update_handled code text e) (incoming st)\<rparr>)
      | None \<Rightarrow> Panic)"

subsection \<open>Internal\<close>

definition internal_get :: "actor_state \<Rightarrow> string \<Rightarrow> field_values outcome" where
  "internal_get st key = (case map_of (internal st) key of Some e \<Rightarrow> Ok (fvs e) | None \<Rightarrow> Panic)"

definition fvs_mut :: "(field_values \<Rightarrow> field_values) \<Rightarrow> internal_entry \<Rightarrow> internal_entry" where
  "fvs_mut f e =
     (let e1 = (if mutated e then e else e\<lparr>backup_fvs := fvs e, mutated := True\<rparr>)
      in e1\<lparr>fvs := f (fvs e1)\<rparr>)"

text \<open>\<open>get_mut\<close> with the update \<open>f\<close> that the caller makes through the returned reference.\<close>

definition internal_get_mut ::
    "actor_state \<Rightarrow> string \<Rightarrow> (field_values \<Rightarrow> field_values) \<Rightarrow> actor_state outcome" where
  "internal_get_mut st key f =
     (case map_of (internal st) key of
        Some e \<Rightarrow> Ok (st\<lparr>internal := AList.update key (fvs_mut f e) (internal st)\<rparr>)
      | None \<Rightarrow> Panic)"

text \<open>\<open>hydrated\<close> is what \<open>Table::get\<close> returns for the key.\<close>

definition new_internal_entry :: "string \<Rightarrow> string \<Rightarrow> field_values option \<Rightarrow> internal_entry" where
  "new_internal_entry tname skey hydrated =
     (let f = (case hydrated of Some f \<Rightarrow> f | None \<Rightarrow> [])
      in \<lparr>swss_table_name = tname, swss_key = skey, fvs = f, mutated = False, backup_fvs = f,
          int_last_updated_time = None\<rparr>)"

definition internal_add ::
    "actor_state \<Rightarrow> string \<Rightarrow> string \<Rightarrow> string \<Rightarrow> field_values option \<Rightarrow> actor_state" where
  "internal_add st key tname skey hydrated =
     st\<lparr>internal := AList.update key (new_internal_entry tname skey hydrated) (internal st)\<rparr>"

definition has_entry :: "actor_state \<Rightarrow> string \<Rightarrow> string \<Rightarrow> bool" where
  "has_entry st key skey =
     (case map_of (internal st) key of Some e \<Rightarrow> swss_key e = skey | None \<Rightarrow> False)"

definition entry_commit :: "actor_state \<Rightarrow> internal_entry \<Rightarrow> internal_entry" where
  "entry_commit st e = e\<lparr>mutated := False, int_last_updated_time := Some (get_unix_time st)\<rparr>"

definition entry_drop :: "internal_entry \<Rightarrow> internal_entry" where
  "entry_drop e = e\<lparr>mutated := False, fvs := backup_fvs e\<rparr>"

text \<open>
  \<open>commit_changes\<close> and \<open>drop_changes\<close> of a row and of the table. \<open>Table::set\<close> of the database is taken to succeed (the code
  expects it to); the rows that are written are in \<open>db_writes\<close>.
\<close>

definition commit_changes :: "actor_state \<Rightarrow> actor_state" where
  "commit_changes st =
     st\<lparr>internal := map (apsnd (entry_commit st)) (internal st),
       db_writes := db_writes st
         @ map (\<lambda>(_, e). (swss_table_name e, swss_key e, fvs e)) (internal st)\<rparr>"

definition drop_changes :: "actor_state \<Rightarrow> actor_state" where
  "drop_changes st = st\<lparr>internal := map (apsnd entry_drop) (internal st)\<rparr>"

subsection \<open>Outgoing\<close>

definition um_key :: "unacked_message \<Rightarrow> string" where
  "um_key u = am_key (um_actor_message u)"

text \<open>\<open>Outgoing::send\<close>: a request always compiles, so there is no error branch.\<close>

definition outgoing_send :: "codec \<Rightarrow> actor_state \<Rightarrow> service_path \<Rightarrow> actor_message \<Rightarrow> actor_state" where
  "outgoing_send cd st dest m =
     (let om = \<lparr>om_destination = dest, om_body = MRequest (serialize cd m)\<rparr>
      in case outgoing_message_to_swbus_message (client st) om of
           (c, Ok (i, sm)) \<Rightarrow>
             st\<lparr>client := c, queued_messages := queued_messages st
                  @ [\<lparr>um_actor_message = m, um_swbus_message = sm, um_time_sent = clock st\<rparr>]\<rparr>
         | (c, _) \<Rightarrow> st)"

definition new_sent_entry :: "actor_state \<Rightarrow> actor_message \<Rightarrow> u64 \<Rightarrow> sent_entry" where
  "new_sent_entry st m i =
     (let t = get_unix_time st
      in \<lparr>se_msg = m, se_id = i, se_created_time = t, se_last_updated_time = t,
          se_last_sent_time = t, se_version = 1, se_acked = False, se_response = None,
          se_response_source = None\<rparr>)"

definition new_message_sent :: "actor_state \<Rightarrow> actor_message \<Rightarrow> u64 \<Rightarrow> sent_entry \<Rightarrow> sent_entry" where
  "new_message_sent st m i e =
     e\<lparr>se_msg := m, se_id := i, se_last_updated_time := get_unix_time st,
       se_last_sent_time := get_unix_time st, se_version := se_version e + 1, se_acked := False,
       se_response := None, se_response_source := None\<rparr>"

definition message_resent :: "actor_state \<Rightarrow> sent_entry \<Rightarrow> sent_entry" where
  "message_resent st e = e\<lparr>se_last_sent_time := get_unix_time st\<rparr>"

definition response_received ::
    "u64 \<Rightarrow> swbus_error_code \<Rightarrow> string \<Rightarrow> service_path \<Rightarrow> sent_entry \<Rightarrow> sent_entry" where
  "response_received rid code text src e =
     (if rid = se_id e
      then e\<lparr>se_response_source := Some src, se_acked := (code = CodeOk),
             se_response := Some (response_text code text)\<rparr>
      else e)"

definition um_id :: "unacked_message \<Rightarrow> u64 outcome" where
  "um_id u = (case header (um_swbus_message u) of Some h \<Rightarrow> Ok (msg_id h) | None \<Rightarrow> Panic)"

definition record_sent :: "actor_state \<Rightarrow> unacked_message \<Rightarrow> u64 \<Rightarrow> actor_state" where
  "record_sent st u i =
     (let e = (case map_of (sent_messages st) (um_key u) of
                 Some e \<Rightarrow> new_message_sent st (um_actor_message u) i e
               | None \<Rightarrow> new_sent_entry st (um_actor_message u) i)
      in st\<lparr>sent_messages := AList.update (um_key u) e (sent_messages st),
           unacked_messages := AList.update i u (unacked_messages st)\<rparr>)"

fun send_all :: "actor_state \<Rightarrow> unacked_message list \<Rightarrow> actor_state outcome" where
  "send_all st [] = Ok st"
| "send_all st (u # us) =
     (case um_id u of
        Ok i \<Rightarrow> send_all (record_sent (send_raw st (um_swbus_message u)) u i) us
      | _ \<Rightarrow> Panic)"

definition send_queued_messages :: "actor_state \<Rightarrow> actor_state outcome" where
  "send_queued_messages st = send_all (st\<lparr>queued_messages := []\<rparr>) (queued_messages st)"

definition drop_queued_messages :: "actor_state \<Rightarrow> actor_state" where
  "drop_queued_messages st = st\<lparr>queued_messages := []\<rparr>"

definition handle_response ::
    "actor_state \<Rightarrow> u64 \<Rightarrow> swbus_error_code \<Rightarrow> string \<Rightarrow> service_path \<Rightarrow> actor_state outcome" where
  "handle_response st rid code text src =
     (case map_of (unacked_messages st) rid of
        None \<Rightarrow> Ok st
      | Some u \<Rightarrow>
          (case map_of (sent_messages st) (um_key u) of
             None \<Rightarrow> Panic
           | Some e \<Rightarrow>
               (let st1 = st\<lparr>sent_messages := AList.update (um_key u)
                                (response_received rid code text src e) (sent_messages st)\<rparr>
                in Ok (if code = CodeOk
                       then st1\<lparr>unacked_messages := AList.delete rid (unacked_messages st1)\<rparr> else st1))))"

definition get_elapsed_time :: "actor_state \<Rightarrow> nat \<Rightarrow> nat" where
  "get_elapsed_time st t = (clock st - t) div 10 ^ 9"

definition resend_time :: nat where "resend_time = 60"

fun resend :: "actor_state \<Rightarrow> unacked_message list \<Rightarrow> actor_state outcome" where
  "resend st [] = Ok st"
| "resend st (u # us) =
     (if resend_time \<le> get_elapsed_time st (um_time_sent u) then
        (let st1 = send_raw st (um_swbus_message u)
         in case map_of (sent_messages st1) (um_key u) of
              Some e \<Rightarrow>
                resend (st1\<lparr>sent_messages := AList.update (um_key u) (message_resent st1 e)
                              (sent_messages st1)\<rparr>) us
            | None \<Rightarrow> Panic)
      else resend st us)"

text \<open>One turn of \<open>drive_resend_loop\<close> after its timer ticked.\<close>

definition resend_tick :: "actor_state \<Rightarrow> actor_state outcome" where
  "resend_tick st =
     (let st1 = st\<lparr>unacked_messages :=
            filter (\<lambda>(_, u). get_elapsed_time st (um_time_sent u) < 3600) (unacked_messages st)\<rparr>
      in resend st1 (map snd (unacked_messages st1)))"

definition from_my_sp :: "actor_state \<Rightarrow> string \<Rightarrow> string \<Rightarrow> service_path" where
  "from_my_sp st rt ri = (sc_source (client st))\<lparr>resource_type := rt, resource_id := ri\<rparr>"

definition common_bridge_sp :: "actor_state \<Rightarrow> string \<Rightarrow> string \<Rightarrow> service_path" where
  "common_bridge_sp st db table = from_my_sp st ''swss-common-bridge'' (db @ ''|'' @ table)"

section \<open>The driver\<close>

text \<open>
  \<open>Actor::handle_message\<close> as a function of the actor's own data, the state tables, the key and the
  stop flag of the context. A panic ends the actor's task.
\<close>

type_synonym 'a message_handler =
  "'a \<Rightarrow> actor_state \<Rightarrow> string \<Rightarrow> bool \<Rightarrow> ('a \<times> actor_state \<times> bool) \<times> unit outcome"

record 'a driver =
  actor :: 'a
  dstate :: actor_state
  stopped :: bool

definition handle_actor_message :: "'a message_handler \<Rightarrow> 'a driver \<Rightarrow> string \<Rightarrow> 'a driver outcome" where
  "handle_actor_message hm d key =
     (case hm (actor d) (dstate d) key (stopped d) of
        ((a, st, stop), Ok _) \<Rightarrow>
          bind_exec (send_queued_messages (commit_changes st)) (\<lambda>st1.
            bind_exec (request_handled st1 key CodeOk []) (\<lambda>st2.
              Ok \<lparr>actor = a, dstate = st2, stopped = stop\<rparr>))
      | ((a, st, stop), Err e) \<Rightarrow>
          bind_exec (request_handled (drop_queued_messages (drop_changes st)) key Fail e) (\<lambda>st2.
            Ok \<lparr>actor = a, dstate = st2, stopped = stop\<rparr>)
      | (_, Panic) \<Rightarrow> Panic)"

text \<open>
  \<open>dump\<close> stands for the JSON text of \<open>dump_state\<close> (\<open>serde_json::to_string\<close> of the three tables).
\<close>

definition handle_management_request ::
    "(actor_state \<Rightarrow> string) \<Rightarrow> 'a driver \<Rightarrow> u64 \<Rightarrow> service_path \<Rightarrow> management_request_type
       \<Rightarrow> 'a driver outcome" where
  "handle_management_request dump d rid src ty =
     bind_exec (client_send (dstate d) \<lparr>om_destination = src, om_body =
         (case ty of
            HamgrdGetActorState \<Rightarrow> MResponse rid CodeOk [] (Some (dump (dstate d)))
          | SwbusdGetRoutes \<Rightarrow>
              MResponse rid InvalidArgs ''Unsupported request type: SwbusdGetRoutes'' None)\<rparr>)
       (\<lambda>st. Ok (d\<lparr>dstate := st\<rparr>))"

definition handle_swbus_message ::
    "codec \<Rightarrow> (actor_state \<Rightarrow> string) \<Rightarrow> 'a message_handler \<Rightarrow> 'a driver \<Rightarrow> incoming_message
       \<Rightarrow> 'a driver outcome" where
  "handle_swbus_message cd dump hm d im =
     (case im_body im of
        MRequest payload \<Rightarrow>
          (case deserialize cd payload of
             Inl _ \<Rightarrow> Ok d
           | Inr _ \<Rightarrow>
               (case handle_request cd (dstate d) (im_id im) (im_source im) payload of
                  (r, res) \<Rightarrow>
                    bind_exec r (\<lambda>st.
                      let (code, text) = (case res of Ok _ \<Rightarrow> (CodeOk, []) | Err e \<Rightarrow> (Fail, e)
                                                    | Panic \<Rightarrow> (Fail, []))
                      in bind_exec (client_send st \<lparr>om_destination = im_source im,
                                       om_body = MResponse (im_id im) code text None\<rparr>) (\<lambda>st1.
                           case res of
                             Ok key \<Rightarrow> handle_actor_message hm (d\<lparr>dstate := st1\<rparr>) key
                           | _ \<Rightarrow> Ok (d\<lparr>dstate := st1\<rparr>)))))
      | MResponse rid code text _ \<Rightarrow>
          bind_exec (handle_response (dstate d) rid code text (im_source im)) (\<lambda>st. Ok (d\<lparr>dstate := st\<rparr>))
      | MManagement ty _ \<Rightarrow> handle_management_request dump d (im_id im) (im_source im) ty)"

text \<open>\<open>run\<close> up to the loop: \<open>init\<close> is unwrapped, then its changes are committed.\<close>

definition driver_start ::
    "('a \<Rightarrow> actor_state \<Rightarrow> ('a \<times> actor_state) \<times> unit outcome) \<Rightarrow> 'a \<Rightarrow> actor_state \<Rightarrow> 'a driver outcome" where
  "driver_start init a st =
     (case init a st of
        ((a1, st1), Ok _) \<Rightarrow>
          bind_exec (send_queued_messages (commit_changes st1)) (\<lambda>st2.
            Ok \<lparr>actor = a1, dstate = st2, stopped = False\<rparr>)
      | _ \<Rightarrow> Panic)"

text \<open>The events of the loop: a message, the resend timer, and time that passes.\<close>

datatype driver_event = Incoming incoming_message | ResendTick | TimePasses nat

definition driver_step ::
    "codec \<Rightarrow> (actor_state \<Rightarrow> string) \<Rightarrow> 'a message_handler \<Rightarrow> 'a driver \<Rightarrow> driver_event \<Rightarrow> 'a driver outcome" where
  "driver_step cd dump hm d ev =
     (if stopped d then Ok d
      else case ev of
        Incoming im \<Rightarrow> handle_swbus_message cd dump hm d im
      | ResendTick \<Rightarrow> bind_exec (resend_tick (dstate d)) (\<lambda>st. Ok (d\<lparr>dstate := st\<rparr>))
      | TimePasses dt \<Rightarrow> Ok (d\<lparr>dstate := (dstate d)\<lparr>clock := clock (dstate d) + dt\<rparr>\<rparr>))"

fun driver_run ::
    "codec \<Rightarrow> (actor_state \<Rightarrow> string) \<Rightarrow> 'a message_handler \<Rightarrow> 'a driver \<Rightarrow> driver_event list \<Rightarrow> 'a driver outcome" where
  "driver_run cd dump hm d [] = Ok d"
| "driver_run cd dump hm d (ev # evs) =
     bind_exec (driver_step cd dump hm d ev) (\<lambda>d1. driver_run cd dump hm d1 evs)"

section \<open>What a callback can do\<close>

text \<open>
  A callback only has the public operations of the tables: it reads, queues messages, changes fields
  of internal entries and adds internal entries.
\<close>

inductive api_reach :: "codec \<Rightarrow> actor_state \<Rightarrow> actor_state \<Rightarrow> bool" for cd st where
  here [intro!]: "api_reach cd st st"
| send [intro]: "api_reach cd st st1 \<Longrightarrow> api_reach cd st (outgoing_send cd st1 dest m)"
| mut [intro]: "api_reach cd st st1 \<Longrightarrow> internal_get_mut st1 key f = Ok st2 \<Longrightarrow> api_reach cd st st2"
| add [intro]: "api_reach cd st st1 \<Longrightarrow> api_reach cd st (internal_add st1 key tname skey hyd)"

lemma api_trans: "api_reach cd st1 st2 \<Longrightarrow> api_reach cd st st1 \<Longrightarrow> api_reach cd st st2"
  by (induction rule: api_reach.induct) auto

lemma outgoing_send_eq:
  "outgoing_send cd st dest m = st\<lparr>client := snd (client_generate (client st)),
     queued_messages := queued_messages st @ [\<lparr>um_actor_message = m,
       um_swbus_message = new_message (new_header (sc_source (client st)) dest
         (next_id (sc_id_generator (client st)))) (DataRequest (serialize cd m)),
       um_time_sent = clock st\<rparr>]\<rparr>"
  by (simp add: outgoing_send_def outgoing_message_to_swbus_message_def client_generate_def
      generate_def Let_def)

lemma client_generate_snd [simp]:
  "sc_source (snd (client_generate c)) = sc_source c" "sc_sink (snd (client_generate c)) = sc_sink c"
  "next_id (sc_id_generator (snd (client_generate c))) = next_id (sc_id_generator c) + 1"
  by (simp_all add: client_generate_def generate_def)

text \<open>The callback's sends carry consecutive ids of the client.\<close>

fun ids_from :: "u64 \<Rightarrow> unacked_message list \<Rightarrow> bool" where
  "ids_from i [] = True"
| "ids_from i (u # us) = (um_id u = Ok i \<and> ids_from (i + 1) us)"

lemma ids_from_snoc: "ids_from i (us @ [u]) \<longleftrightarrow> ids_from i us \<and> um_id u = Ok (i + of_nat (length us))"
  by (induction i us rule: ids_from.induct) (auto simp: add.assoc)

lemma ids_from_nth: "ids_from i us \<Longrightarrow> j < length us \<Longrightarrow> um_id (us ! j) = Ok (i + of_nat j)"
  by (induction i us arbitrary: j rule: ids_from.induct) (auto simp: nth_Cons add.assoc split: nat.splits)

definition same_outside :: "actor_state \<Rightarrow> actor_state \<Rightarrow> bool" where
  "same_outside st st' \<longleftrightarrow>
     clock st' = clock st \<and> incoming st' = incoming st \<and> unacked_messages st' = unacked_messages st
     \<and> sent_messages st' = sent_messages st \<and> wire st' = wire st \<and> db_writes st' = db_writes st
     \<and> sc_source (client st') = sc_source (client st)"

lemma api_outside: "api_reach cd st st' \<Longrightarrow> same_outside st st'"
  by (induction rule: api_reach.induct)
    (auto simp: same_outside_def outgoing_send_eq internal_add_def internal_get_mut_def
      split: option.splits)

lemma api_queued:
  assumes "api_reach cd st st'"
  shows "\<exists>us. queued_messages st' = queued_messages st @ us
    \<and> ids_from (next_id (sc_id_generator (client st))) us
    \<and> next_id (sc_id_generator (client st')) = next_id (sc_id_generator (client st)) + of_nat (length us)"
  using assms
proof (induction rule: api_reach.induct)
  case (send st1 dest m)
  then obtain us where us: "queued_messages st1 = queued_messages st @ us"
    "ids_from (next_id (sc_id_generator (client st))) us"
    "next_id (sc_id_generator (client st1)) = next_id (sc_id_generator (client st)) + of_nat (length us)"
    by blast
  let ?u = "\<lparr>um_actor_message = m, um_swbus_message = new_message (new_header (sc_source (client st1)) dest
         (next_id (sc_id_generator (client st1)))) (DataRequest (serialize cd m)),
       um_time_sent = clock st1\<rparr>"
  show ?case
    using us
    by (intro exI [of _ "us @ [?u]"])
      (simp add: outgoing_send_eq ids_from_snoc um_id_def new_message_def new_header_def)
qed (auto simp: internal_add_def internal_get_mut_def split: option.splits intro: exI [of _ "[]"])

section \<open>Transactions\<close>

lemma map_of_apsnd: "map_of (map (apsnd f) xs) k = map_option f (map_of xs k)"
  by (induction xs) auto

lemma fst_apsnd_map [simp]: "map fst (map (apsnd f) xs) = map fst xs"
  by (induction xs) auto

text \<open>What holds of an actor between two turns of its loop.\<close>

definition actor_inv :: "actor_state \<Rightarrow> bool" where
  "actor_inv st \<longleftrightarrow>
     queued_messages st = []
     \<and> distinct (map fst (unacked_messages st)) \<and> distinct (map fst (sent_messages st))
     \<and> distinct (map fst (incoming st))
     \<and> (\<forall>(i, u) \<in> set (unacked_messages st). um_id u = Ok i \<and> um_key u \<in> fst ` set (sent_messages st))"

lemma actor_inv_new [simp]: "actor_inv (new_state t c)"
  by (simp add: actor_inv_def new_state_def)

lemma actor_inv_frame:
  "actor_inv st \<Longrightarrow> queued_messages st' = [] \<Longrightarrow> unacked_messages st' = unacked_messages st
    \<Longrightarrow> sent_messages st' = sent_messages st \<Longrightarrow> distinct (map fst (incoming st')) \<Longrightarrow> actor_inv st'"
  by (simp add: actor_inv_def)

lemma actor_inv_sent:
  assumes "actor_inv st" "(i, u) \<in> set (unacked_messages st)"
  obtains e where "map_of (sent_messages st) (um_key u) = Some e"
  using assms by (cases "map_of (sent_messages st) (um_key u)")
    (auto simp: actor_inv_def map_of_eq_None_iff)

lemma sent_update_inv:
  assumes "actor_inv st"
  shows "actor_inv (st\<lparr>sent_messages := AList.update k e (sent_messages st)\<rparr>)"
  using assms by (fastforce simp: actor_inv_def alist_simps dom_update)

lemma actor_inv_record_sent:
  assumes "actor_inv st" "um_id u = Ok i"
  shows "actor_inv (record_sent st u i)"
proof -
  have "set (AList.update i u (unacked_messages st)) \<subseteq> insert (i, u) (set (unacked_messages st))"
    by (rule set_update_subset)
  then show ?thesis
    using assms
    by (fastforce simp: actor_inv_def record_sent_def Let_def alist_simps dom_update)
qed

lemma send_raw_simps [simp]:
  "sent_messages (send_raw st m) = sent_messages st" "unacked_messages (send_raw st m) = unacked_messages st"
  "clock (send_raw st m) = clock st" "wire (send_raw st m) = wire st @ [m]"
  "incoming (send_raw st m) = incoming st" "internal (send_raw st m) = internal st"
  "db_writes (send_raw st m) = db_writes st" "queued_messages (send_raw st m) = queued_messages st"
  "client (send_raw st m) = client st"
  by (simp_all add: send_raw_def)

lemma record_sent_simps [simp]:
  "clock (record_sent st u i) = clock st" "wire (record_sent st u i) = wire st"
  "incoming (record_sent st u i) = incoming st" "internal (record_sent st u i) = internal st"
  "db_writes (record_sent st u i) = db_writes st" "queued_messages (record_sent st u i) = queued_messages st"
  "client (record_sent st u i) = client st"
  "unacked_messages (record_sent st u i) = AList.update i u (unacked_messages st)"
  by (simp_all add: record_sent_def Let_def)

lemma actor_inv_send_raw [simp]: "actor_inv (send_raw st m) = actor_inv st"
  by (simp add: actor_inv_def)

lemma send_all_ok:
  assumes "actor_inv st" "ids_from i us"
  shows "\<exists>st'. send_all st us = Ok st' \<and> actor_inv st' \<and> wire st' = wire st @ map um_swbus_message us
    \<and> incoming st' = incoming st \<and> internal st' = internal st \<and> db_writes st' = db_writes st
    \<and> clock st' = clock st \<and> client st' = client st
    \<and> map_of (unacked_messages st')
        = map_of (unacked_messages st) ++ map_of (rev (zip (map (\<lambda>j. i + of_nat j) [0..<length us]) us))"
  using assms
proof (induction us arbitrary: st i)
  case (Cons u us)
  let ?st = "record_sent (send_raw st (um_swbus_message u)) u i"
  have "actor_inv ?st" using Cons.prems by (auto intro: actor_inv_record_sent)
  from Cons.IH [OF this, of "i + 1"] Cons.prems obtain st' where
    IH: "send_all ?st us = Ok st'" "actor_inv st'" "wire st' = wire ?st @ map um_swbus_message us"
    "incoming st' = incoming ?st" "internal st' = internal ?st" "db_writes st' = db_writes ?st"
    "clock st' = clock ?st" "client st' = client ?st"
    "map_of (unacked_messages st') = map_of (unacked_messages ?st)
        ++ map_of (rev (zip (map (\<lambda>j. i + 1 + of_nat j) [0..<length us]) us))"
    by auto
  have up: "map (\<lambda>j. i + of_nat j) [0..<length (u # us)] = i # map (\<lambda>j. i + 1 + of_nat j) [0..<length us]"
    by (simp del: upt_Suc add: upt_conv_Cons map_Suc_upt [symmetric] add.assoc o_def)
  show ?case
    using IH Cons.prems unfolding up by (simp add: alist_simps map_add_def fun_eq_iff split: option.splits)
qed simp

lemma commit_simps [simp]:
  "wire (commit_changes st) = wire st" "incoming (commit_changes st) = incoming st"
  "unacked_messages (commit_changes st) = unacked_messages st" "clock (commit_changes st) = clock st"
  "sent_messages (commit_changes st) = sent_messages st" "client (commit_changes st) = client st"
  "queued_messages (commit_changes st) = queued_messages st"
  "db_writes (commit_changes st) = db_writes st
     @ map (\<lambda>(_, e). (swss_table_name e, swss_key e, fvs e)) (internal st)"
  by (simp_all add: commit_changes_def)

lemma rollback_simps [simp]:
  "wire (drop_queued_messages (drop_changes st)) = wire st"
  "incoming (drop_queued_messages (drop_changes st)) = incoming st"
  "unacked_messages (drop_queued_messages (drop_changes st)) = unacked_messages st"
  "sent_messages (drop_queued_messages (drop_changes st)) = sent_messages st"
  "queued_messages (drop_queued_messages (drop_changes st)) = []"
  "db_writes (drop_queued_messages (drop_changes st)) = db_writes st"
  "internal (drop_queued_messages (drop_changes st)) = map (apsnd entry_drop) (internal st)"
  by (simp_all add: drop_changes_def drop_queued_messages_def)

lemma request_handled_ok:
  assumes "key \<in> fst ` set (incoming st)" "actor_inv st"
  shows "\<exists>st' e. request_handled st key code text = Ok st' \<and> actor_inv st'
    \<and> map_of (incoming st) key = Some e
    \<and> map_of (incoming st') key = Some (update_handled code text e)
    \<and> wire st' = wire st \<and> unacked_messages st' = unacked_messages st \<and> sent_messages st' = sent_messages st
    \<and> db_writes st' = db_writes st \<and> internal st' = internal st"
proof -
  obtain e where "map_of (incoming st) key = Some e"
    using assms(1) by (cases "map_of (incoming st) key") (auto simp: map_of_eq_None_iff)
  then show ?thesis
    using assms(2)
    by (auto simp: request_handled_def alist_simps actor_inv_def)
qed

lemma client_send_response:
  "\<exists>m. client_send st \<lparr>om_destination = dst, om_body = MResponse rid code text rb\<rparr>
      = Ok (send_raw (st\<lparr>client := snd (client_generate (client st))\<rparr>) m)
    \<and> m = new_message (new_header (sc_source (client st)) dst (next_id (sc_id_generator (client st))))
        (Response \<lparr>request_id = rid, error_code = code_num code, error_message = text,
           resp_body = map_option ManagementQueryResult rb\<rparr>)"
  by (simp add: client_send_def outgoing_message_to_swbus_message_def client_generate_def generate_def)

lemma handle_response_ok:
  assumes "actor_inv st"
  shows "\<exists>st'. handle_response st rid code text src = Ok st' \<and> actor_inv st' \<and> wire st' = wire st
    \<and> map_of (unacked_messages st') = (if code = CodeOk then (map_of (unacked_messages st))(rid := None)
        else map_of (unacked_messages st))"
proof (cases "map_of (unacked_messages st) rid")
  case None
  then show ?thesis using assms by (auto simp: handle_response_def fun_eq_iff)
next
  case (Some u)
  obtain e where e: "map_of (sent_messages st) (um_key u) = Some e"
    using actor_inv_sent [OF assms map_of_SomeD [OF Some]] .
  let ?st = "st\<lparr>sent_messages := AList.update (um_key u) (response_received rid code text src e) (sent_messages st)\<rparr>"
  have inv: "actor_inv ?st" by (rule sent_update_inv [OF assms])
  then have "actor_inv (?st\<lparr>unacked_messages := AList.delete rid (unacked_messages ?st)\<rparr>)"
    using distinct_keys_delete [of "unacked_messages st" rid]
    by (auto simp: actor_inv_def AList.delete_eq)
  with inv Some e show ?thesis
    by (auto simp: handle_response_def Let_def alist_simps)
qed

lemma resend_ok:
  assumes "actor_inv st" "\<forall>u \<in> set us. um_key u \<in> fst ` set (sent_messages st)"
  shows "\<exists>st'. resend st us = Ok st' \<and> actor_inv st' \<and> unacked_messages st' = unacked_messages st
    \<and> wire st' = wire st @ map um_swbus_message
        (filter (\<lambda>u. resend_time \<le> get_elapsed_time st (um_time_sent u)) us)"
  using assms
proof (induction us arbitrary: st)
  case (Cons u us)
  show ?case
  proof (cases "resend_time \<le> get_elapsed_time st (um_time_sent u)")
    case True
    obtain e where e: "map_of (sent_messages st) (um_key u) = Some e"
      using Cons.prems(2) by (cases "map_of (sent_messages st) (um_key u)") (auto simp: map_of_eq_None_iff)
    let ?st1 = "send_raw st (um_swbus_message u)"
    let ?st = "?st1\<lparr>sent_messages := AList.update (um_key u) (message_resent ?st1 e) (sent_messages ?st1)\<rparr>"
    have "actor_inv ?st" using Cons.prems(1) by (intro sent_update_inv) simp
    moreover have "\<forall>v \<in> set us. um_key v \<in> fst ` set (sent_messages ?st)"
      using Cons.prems(2) by (simp add: dom_update)
    moreover have "get_elapsed_time ?st = get_elapsed_time st"
      by (simp add: get_elapsed_time_def fun_eq_iff)
    ultimately show ?thesis
      using Cons.IH [of ?st] True e by (simp add: Let_def)
  qed (use Cons in simp)
qed simp

lemma resend_tick_ok:
  assumes "actor_inv st"
  shows "\<exists>st'. resend_tick st = Ok st' \<and> actor_inv st'
    \<and> unacked_messages st' = filter (\<lambda>(_, u). get_elapsed_time st (um_time_sent u) < 3600) (unacked_messages st)
    \<and> wire st' = wire st @ map um_swbus_message
        (filter (\<lambda>u. resend_time \<le> get_elapsed_time st (um_time_sent u)) (map snd (unacked_messages st')))"
proof -
  let ?st = "st\<lparr>unacked_messages :=
    filter (\<lambda>(_, u). get_elapsed_time st (um_time_sent u) < 3600) (unacked_messages st)\<rparr>"
  have inv: "actor_inv ?st"
    using assms by (auto simp: actor_inv_def distinct_map_filter)
  then have "\<forall>u \<in> set (map snd (unacked_messages ?st)). um_key u \<in> fst ` set (sent_messages ?st)"
    by (auto simp: actor_inv_def)
  from resend_ok [OF inv this] show ?thesis
    by (auto simp: resend_tick_def Let_def get_elapsed_time_def)
qed

section \<open>The driver over a well-behaved actor\<close>

text \<open>The state in which the callback for a request runs: the request entered, the sender answered.\<close>

definition accept_request :: "actor_state \<Rightarrow> actor_message \<Rightarrow> service_path \<Rightarrow> u64 \<Rightarrow> actor_state" where
  "accept_request st m src rid =
     send_raw ((incoming_insert st m src rid)\<lparr>client := snd (client_generate (client st))\<rparr>)
       (new_message (new_header (sc_source (client st)) src (next_id (sc_id_generator (client st))))
          (Response \<lparr>request_id = rid, error_code = code_num CodeOk, error_message = [],
             resp_body = None\<rparr>))"

lemma client_send_accept:
  "client_send (incoming_insert st m src rid)
      \<lparr>om_destination = src, om_body = MResponse rid CodeOk [] None\<rparr> = Ok (accept_request st m src rid)"
proof -
  have "client (incoming_insert st m src rid) = client st"
    by (simp add: incoming_insert_def Let_def)
  with client_send_response [of "incoming_insert st m src rid" src rid CodeOk "[]" None] show ?thesis
    by (auto simp: accept_request_def)
qed

lemma accept_request_inv:
  assumes "actor_inv st"
  shows "actor_inv (accept_request st m src rid)"
    "am_key m \<in> fst ` set (incoming (accept_request st m src rid))"
  using assms
  by (simp_all add: accept_request_def actor_inv_def incoming_insert_def Let_def alist_simps dom_update)

locale bus_actor =
  fixes cd :: codec and hm :: "'a message_handler"
  assumes api: "hm a st key stop = ((a', st', stop'), r) \<Longrightarrow> api_reach cd st st'"
begin

lemma callback_inv:
  assumes "actor_inv st" "hm a st key stop = ((a', st', stop'), r)"
  shows "same_outside st st'" "ids_from (next_id (sc_id_generator (client st))) (queued_messages st')"
  using api_outside [OF api [OF assms(2)]] api_queued [OF api [OF assms(2)]] assms(1)
  by (auto simp: actor_inv_def)

text \<open>A callback that succeeds: exactly its messages go out, once and in order, and are unacked.\<close>

lemma callback_commits:
  assumes inv: "actor_inv (dstate d)" and key: "key \<in> fst ` set (incoming (dstate d))"
    and hm: "hm (actor d) (dstate d) key (stopped d) = ((a, st, stop), Ok ())"
  shows "\<exists>st'. handle_actor_message hm d key = Ok \<lparr>actor = a, dstate = st', stopped = stop\<rparr>
    \<and> actor_inv st'
    \<and> wire st' = wire (dstate d) @ map um_swbus_message (queued_messages st)
    \<and> db_writes st' = db_writes (dstate d)
        @ map (\<lambda>(_, e). (swss_table_name e, swss_key e, fvs e)) (internal st)
    \<and> (\<forall>u \<in> set (queued_messages st). \<exists>i. um_id u = Ok i \<and> i \<in> dom (map_of (unacked_messages st')))
    \<and> dom (map_of (unacked_messages (dstate d))) \<subseteq> dom (map_of (unacked_messages st'))
    \<and> (\<exists>e. map_of (incoming st') key = Some e \<and> in_acked e)"
proof -
  note cb = callback_inv [OF inv hm]
  let ?c = "(commit_changes st)\<lparr>queued_messages := []\<rparr>"
  let ?us = "queued_messages st"
  let ?i = "next_id (sc_id_generator (client (dstate d)))"
  have "actor_inv ?c"
    using inv cb(1) by (simp add: actor_inv_def same_outside_def)
  from send_all_ok [OF this cb(2)] obtain st1 where st1: "send_queued_messages (commit_changes st) = Ok st1"
    "actor_inv st1" "wire st1 = wire st @ map um_swbus_message ?us" "incoming st1 = incoming st"
    "db_writes st1 = db_writes ?c"
    "map_of (unacked_messages st1) = map_of (unacked_messages st)
       ++ map_of (rev (zip (map (\<lambda>j. ?i + of_nat j) [0..<length ?us]) ?us))"
    by (auto simp: send_queued_messages_def)
  have key1: "key \<in> fst ` set (incoming st1)"
    using key cb(1) st1(4) by (simp add: same_outside_def)
  from request_handled_ok [OF key1 st1(2), of CodeOk "[]"] obtain st' where
    st': "request_handled st1 key CodeOk [] = Ok st'" "actor_inv st'"
    "\<exists>e. map_of (incoming st') key = Some e \<and> in_acked e" "wire st' = wire st1"
    "unacked_messages st' = unacked_messages st1" "db_writes st' = db_writes st1"
    by (auto simp: update_handled_def)
  have "\<exists>i. um_id u = Ok i \<and> i \<in> dom (map_of (unacked_messages st'))" if u: "u \<in> set ?us" for u
  proof -
    obtain j where "j < length ?us" "u = ?us ! j" using u by (metis in_set_conv_nth)
    moreover have "\<exists>l < length ?us. ?i + of_nat j = map (\<lambda>j. ?i + of_nat j) [0..<length ?us] ! l"
      using calculation by (intro exI [of _ j]) simp
    ultimately show ?thesis
      using ids_from_nth [OF cb(2)]
      by (auto simp: st'(5) st1(6) dom_map_of_conv_image_fst set_zip image_iff)
  qed
  then show ?thesis
    using hm st1 st' cb(1)
    by (auto simp: handle_actor_message_def same_outside_def)
qed

text \<open>A callback that fails: nothing reaches the bus, the database or the resend queue.\<close>

lemma callback_aborts:
  assumes inv: "actor_inv (dstate d)" and key: "key \<in> fst ` set (incoming (dstate d))"
    and hm: "hm (actor d) (dstate d) key (stopped d) = ((a, st, stop), Err e)"
  shows "\<exists>st'. handle_actor_message hm d key = Ok \<lparr>actor = a, dstate = st', stopped = stop\<rparr>
    \<and> actor_inv st' \<and> wire st' = wire (dstate d) \<and> db_writes st' = db_writes (dstate d)
    \<and> unacked_messages st' = unacked_messages (dstate d) \<and> sent_messages st' = sent_messages (dstate d)
    \<and> internal st' = map (apsnd entry_drop) (internal st)
    \<and> (\<exists>x. map_of (incoming st') key = Some x \<and> \<not> in_acked x \<and> in_response x = ''Fail ('' @ e @ '')'')"
proof -
  note cb = callback_inv [OF inv hm]
  let ?c = "drop_queued_messages (drop_changes st)"
  have "actor_inv ?c" "key \<in> fst ` set (incoming ?c)"
    using inv cb(1) key by (simp_all add: actor_inv_def same_outside_def)
  from request_handled_ok [OF this(2,1), of Fail e] obtain st' where
    "request_handled ?c key Fail e = Ok st'" "actor_inv st'"
    "\<exists>x. map_of (incoming st') key = Some x \<and> \<not> in_acked x \<and> in_response x = ''Fail ('' @ e @ '')''"
    "wire st' = wire ?c" "unacked_messages st' = unacked_messages ?c" "db_writes st' = db_writes ?c"
    "sent_messages st' = sent_messages ?c" "internal st' = internal ?c"
    by (auto simp: update_handled_def response_text_def)
  then show ?thesis
    using hm cb(1) by (auto simp: handle_actor_message_def same_outside_def)
qed

lemma callback_returns:
  assumes "actor_inv (dstate d)" "key \<in> fst ` set (incoming (dstate d))"
    and "snd (hm (actor d) (dstate d) key (stopped d)) \<noteq> Panic"
  shows "\<exists>d'. handle_actor_message hm d key = Ok d' \<and> actor_inv (dstate d')
    \<and> (\<exists>ms. wire (dstate d') = wire (dstate d) @ ms)"
proof -
  obtain a st stop r where hm: "hm (actor d) (dstate d) key (stopped d) = ((a, st, stop), r)"
    by (metis surj_pair)
  show ?thesis
  proof (cases r)
    case (Ok x)
    with callback_commits [OF assms(1,2)] hm show ?thesis by fastforce
  next
    case (Err e)
    with callback_aborts [OF assms(1,2)] hm show ?thesis by fastforce
  qed (use assms(3) hm in simp)
qed

lemma handle_request_message:
  assumes "deserialize cd payload = Inr m" "im_body im = MRequest payload"
  shows "handle_swbus_message cd dump hm d im = handle_actor_message hm
    (d\<lparr>dstate := accept_request (dstate d) m (im_source im) (im_id im)\<rparr>) (am_key m)"
  using assms client_send_accept [of "dstate d" m "im_source im" "im_id im"]
  by (auto simp: handle_swbus_message_def handle_request_def)

lemma step_returns:
  assumes inv: "actor_inv (dstate d)" and total: "\<And>a st key stop. snd (hm a st key stop) \<noteq> Panic"
  shows "\<exists>d'. driver_step cd dump hm d ev = Ok d' \<and> actor_inv (dstate d')"
proof (cases ev)
  case (Incoming im)
  show ?thesis
  proof (cases "im_body im")
    case (MRequest payload)
    show ?thesis
    proof (cases "deserialize cd payload")
      case (Inr m)
      let ?d = "d\<lparr>dstate := accept_request (dstate d) m (im_source im) (im_id im)\<rparr>"
      have "actor_inv (dstate ?d)" "am_key m \<in> fst ` set (incoming (dstate ?d))"
        using accept_request_inv [OF inv] by simp_all
      from callback_returns [OF this total] handle_request_message [OF Inr MRequest]
      show ?thesis using Incoming inv by (auto simp: driver_step_def)
    qed (use Incoming inv MRequest in \<open>simp add: driver_step_def handle_swbus_message_def\<close>)
  next
    case (MResponse rid code tx rb)
    with handle_response_ok [OF inv, of rid code tx "im_source im"] inv Incoming show ?thesis
      by (auto simp: driver_step_def handle_swbus_message_def)
  next
    case (MManagement ty args)
    then show ?thesis
      using Incoming inv client_send_response [of "dstate d" "im_source im" "im_id im"]
      by (cases ty)
        (force simp: driver_step_def handle_swbus_message_def handle_management_request_def actor_inv_def)+
  qed
next
  case ResendTick
  with resend_tick_ok [OF inv] inv show ?thesis by (auto simp: driver_step_def)
next
  case (TimePasses dt)
  with inv show ?thesis by (simp add: driver_step_def actor_inv_def)
qed

lemma run_returns:
  assumes "actor_inv (dstate d)" "\<And>a st key stop. snd (hm a st key stop) \<noteq> Panic"
  shows "\<exists>d'. driver_run cd dump hm d evs = Ok d' \<and> actor_inv (dstate d')"
  using assms(1)
proof (induction evs arbitrary: d)
  case (Cons ev evs)
  obtain d1 where "driver_step cd dump hm d ev = Ok d1" "actor_inv (dstate d1)"
    using step_returns [OF Cons.prems assms(2)] by blast
  with Cons.IH [of d1] show ?case by simp
qed simp

end

section \<open>Properties of the tables\<close>

text \<open>A state with one message sent at time 0, used to instantiate the theorems.\<close>

definition demo_codec :: codec where
  "demo_codec = \<lparr>serialize = (\<lambda>m. []), deserialize = (\<lambda>b. Inl ''no message'')\<rparr>"

definition demo_amsg :: actor_message where
  "demo_amsg = \<lparr>am_key = ''k'', am_data = JNum 1\<rparr>"

definition demo_state :: actor_state where
  "demo_state = new_state 0 (fst (snd demo_clients))"

definition demo_sent :: "nat \<Rightarrow> actor_state" where
  "demo_sent t = (case send_queued_messages (outgoing_send demo_codec demo_state (demo_actor ''y'') demo_amsg) of
       Ok st \<Rightarrow> st\<lparr>clock := t\<rparr> | _ \<Rightarrow> demo_state)"

lemma demo_state_simps [simp]:
  "clock demo_state = 0" "queued_messages demo_state = []" "unacked_messages demo_state = []"
  "sent_messages demo_state = []" "wire demo_state = []" "incoming demo_state = []"
  "internal demo_state = []" "sc_source (client demo_state) = demo_actor ''x''"
  "next_id (sc_id_generator (client demo_state)) = 10"
  by (simp_all add: demo_state_def new_state_def demo_edge_defs)

lemma demo_sent_eq:
  "demo_sent t = demo_state\<lparr>clock := t, client := snd (client_generate (client demo_state)),
     unacked_messages := [(10, \<lparr>um_actor_message = demo_amsg, um_swbus_message = new_message
       (new_header (demo_actor ''x'') (demo_actor ''y'') 10) (DataRequest []), um_time_sent = 0\<rparr>)],
     sent_messages := [(''k'', new_sent_entry demo_state demo_amsg 10)],
     wire := [new_message (new_header (demo_actor ''x'') (demo_actor ''y'') 10) (DataRequest [])]\<rparr>"
  by (simp add: demo_sent_def outgoing_send_eq send_queued_messages_def um_id_def new_message_def
      new_header_def record_sent_def send_raw_def Let_def um_key_def demo_amsg_def demo_codec_def
      new_sent_entry_def get_unix_time_def)

lemma demo_sent_inv: "actor_inv (demo_sent t)"
  by (simp add: demo_sent_eq actor_inv_def um_id_def um_key_def new_message_def new_header_def demo_amsg_def)

text \<open>
  (C28) A message that has not been acknowledged is not forgotten: a turn of the resend loop never
  panics, keeps exactly the unacknowledged messages younger than an hour, and puts each kept message
  of age at least 60 seconds on the bus again, unchanged and once.
\<close>

theorem resend_tick_repeats_unacked:
  assumes "actor_inv st"
  shows "\<exists>st'. resend_tick st = Ok st'
    \<and> unacked_messages st' = filter (\<lambda>(_, u). get_elapsed_time st (um_time_sent u) < 3600) (unacked_messages st)
    \<and> wire st' = wire st @ map (um_swbus_message \<circ> snd)
        (filter (\<lambda>(_, u). 60 \<le> get_elapsed_time st (um_time_sent u)
           \<and> get_elapsed_time st (um_time_sent u) < 3600) (unacked_messages st))"
proof -
  let ?u = "filter (\<lambda>(_, u). get_elapsed_time st (um_time_sent u) < 3600) (unacked_messages st)"
  have "filter (\<lambda>u. resend_time \<le> get_elapsed_time st (um_time_sent u)) (map snd ?u)
      = map snd (filter (\<lambda>(_, u). 60 \<le> get_elapsed_time st (um_time_sent u)
           \<and> get_elapsed_time st (um_time_sent u) < 3600) (unacked_messages st))"
    by (induction "unacked_messages st" rule: list.induct)
      (simp_all add: filter_map o_def resend_time_def case_prod_beta conj_commute)
  with resend_tick_ok [OF assms] show ?thesis by auto
qed

theorem resend_tick_repeats_unacked_witness:
  "actor_inv (demo_sent (61 * 10 ^ 9))
   \<and> (\<exists>st'. resend_tick (demo_sent (61 * 10 ^ 9)) = Ok st' \<and> length (wire st') = 2
        \<and> unacked_messages st' = unacked_messages (demo_sent (61 * 10 ^ 9)))"
  using resend_tick_repeats_unacked [OF demo_sent_inv [of "61 * 10 ^ 9"]] demo_sent_inv
  by (auto simp: get_elapsed_time_def demo_sent_eq)

text \<open>
  A response never panics the actor. With code \<open>Ok\<close> it removes exactly the message with its
  request id from the resend queue; with any other code, or for an unknown id, the resend queue stays
  as it is, so the message will be sent again.
\<close>

theorem handle_response_acks:
  assumes "actor_inv st"
  shows "\<exists>st'. handle_response st rid code msg src = Ok st' \<and> wire st' = wire st
    \<and> map_of (unacked_messages st') = (if code = CodeOk then (map_of (unacked_messages st))(rid := None)
        else map_of (unacked_messages st))"
  using handle_response_ok [OF assms] by blast

theorem handle_response_acks_witness:
  "(\<exists>st'. handle_response (demo_sent 0) 10 CodeOk [] (demo_actor ''y'') = Ok st'
      \<and> map_of (unacked_messages st') = Map.empty)
   \<and> (\<exists>st'. handle_response (demo_sent 0) 10 NoRoute [] (demo_actor ''y'') = Ok st'
      \<and> map_of (unacked_messages st') = map_of (unacked_messages (demo_sent 0)))"
  using handle_response_acks [OF demo_sent_inv [of 0], of 10 CodeOk "[]" "demo_actor ''y''"]
    handle_response_acks [OF demo_sent_inv [of 0], of 10 NoRoute "[]" "demo_actor ''y''"]
  by (auto simp: demo_sent_eq fun_eq_iff)

lemma incoming_get_insert:
  "incoming_get (incoming_insert st m src rid) k = (if k = am_key m then Ok m else incoming_get st k)"
  by (auto simp: incoming_get_def get_entry_def incoming_insert_def Let_def alist_simps
      update_received_def new_incoming_entry_def split: option.splits)

definition insert_all :: "actor_state \<Rightarrow> (actor_message \<times> service_path \<times> u64) list \<Rightarrow> actor_state" where
  "insert_all st rs = foldl (\<lambda>st (m, src, rid). incoming_insert st m src rid) st rs"

lemma incoming_version_insert:
  "map_of (incoming (incoming_insert st m src rid)) k =
     (if k = am_key m then Some (case map_of (incoming st) k of
          Some e \<Rightarrow> update_received st m src rid e | None \<Rightarrow> new_incoming_entry st m src rid)
      else map_of (incoming st) k)"
  by (simp add: incoming_insert_def Let_def alist_simps)

text \<open>
  The incoming table holds, per key, the latest request of that key and counts its requests:
  after any sequence of requests, a key that occurs in it maps to the last message with that key,
  its sender and id, and its version is the number of requests modulo \<open>2\<^sup>6\<^sup>4\<close>.
\<close>

theorem incoming_holds_latest:
  assumes "incoming st = []" "rs \<noteq> []" "\<forall>r \<in> set rs. am_key (fst r) = k"
  shows "\<exists>e. map_of (incoming (insert_all st rs)) k = Some e
    \<and> (in_msg e, in_source e, in_request_id e) = last rs \<and> in_version e = of_nat (length rs)"
  using assms(2,3)
proof (induction rs rule: rev_induct)
  case (snoc r rs)
  obtain m src rid where r: "r = (m, src, rid)" by (cases r)
  show ?case
  proof (cases "rs = []")
    case True
    then show ?thesis
      using snoc.prems r assms(1)
      by (auto simp: insert_all_def incoming_version_insert new_incoming_entry_def)
  next
    case False
    with snoc r show ?thesis
      by (auto simp: insert_all_def incoming_version_insert update_received_def)
  qed
qed simp

theorem incoming_holds_latest_witness:
  "\<exists>e. map_of (incoming (insert_all demo_state
      [(demo_amsg, demo_actor ''y'', 1), (demo_amsg\<lparr>am_data := JNum 2\<rparr>, demo_actor ''z'', 2)])) ''k'' = Some e
    \<and> in_version e = 2 \<and> in_msg e = demo_amsg\<lparr>am_data := JNum 2\<rparr>"
proof -
  have e: "incoming demo_state = []" by (simp add: demo_state_def new_state_def)
  show ?thesis
    using incoming_holds_latest [OF e, of "[(demo_amsg, demo_actor ''y'', 1),
        (demo_amsg\<lparr>am_data := JNum 2\<rparr>, demo_actor ''z'', 2)]" "''k''"]
    by (auto simp: demo_amsg_def)
qed

section \<open>Rolling back\<close>

lemma fvs_mut_simps [simp]:
  "mutated (fvs_mut f e)" "backup_fvs (fvs_mut f e) = (if mutated e then backup_fvs e else fvs e)"
  by (simp_all add: fvs_mut_def Let_def)

lemma fold_fvs_mut:
  "\<not> mutated e \<Longrightarrow> fs \<noteq> [] \<Longrightarrow>
    mutated (foldl (\<lambda>e f. fvs_mut f e) e fs) \<and> backup_fvs (foldl (\<lambda>e f. fvs_mut f e) e fs) = fvs e"
proof (induction fs rule: rev_induct)
  case (snoc f fs)
  then show ?case by (cases "fs = []") simp_all
qed simp

text \<open>The changes that a callback makes to one internal entry, one after the other.\<close>

fun get_muts :: "actor_state \<Rightarrow> string \<Rightarrow> (field_values \<Rightarrow> field_values) list \<Rightarrow> actor_state outcome" where
  "get_muts st k [] = Ok st"
| "get_muts st k (f # fs) = bind_exec (internal_get_mut st k f) (\<lambda>st1. get_muts st1 k fs)"

lemma get_muts_entry:
  assumes "map_of (internal st) k = Some e"
  shows "\<exists>st'. get_muts st k fs = Ok st' \<and> map_of (internal st') k = Some (foldl (\<lambda>e f. fvs_mut f e) e fs)"
  using assms
proof (induction fs arbitrary: st e)
  case (Cons f fs)
  let ?st = "st\<lparr>internal := AList.update k (fvs_mut f e) (internal st)\<rparr>"
  have "map_of (internal ?st) k = Some (fvs_mut f e)" by (simp add: alist_simps)
  from Cons.IH [OF this] Cons.prems show ?case by (simp add: internal_get_mut_def)
qed simp

lemma internal_get_drop:
  "map_of (internal st) k = Some e \<Longrightarrow> internal_get (drop_changes st) k = Ok (backup_fvs e)"
  by (simp add: internal_get_def drop_changes_def map_of_apsnd entry_drop_def)

text \<open>
  Rolling back restores an entry that the failed callback changed: whatever sequence of changes
  it made, the fields are those from before the callback.
\<close>

theorem failed_callback_rolls_back:
  assumes "map_of (internal st) k = Some e" "\<not> mutated e" "fs \<noteq> []"
  shows "\<exists>st'. get_muts st k fs = Ok st' \<and> internal_get (drop_changes st') k = internal_get st k"
proof -
  obtain st' where "get_muts st k fs = Ok st'"
    "map_of (internal st') k = Some (foldl (\<lambda>e f. fvs_mut f e) e fs)"
    using get_muts_entry [OF assms(1)] by blast
  with internal_get_drop fold_fvs_mut [OF assms(2,3)] assms(1) show ?thesis
    by (auto simp: internal_get_def)
qed

definition demo_internal :: actor_state where
  "demo_internal = internal_add demo_state ''t'' ''TBL'' ''x'' (Some [(''a'', ''0'')])"

lemma demo_internal_entry:
  "map_of (internal demo_internal) ''t'' = Some (new_internal_entry ''TBL'' ''x'' (Some [(''a'', ''0'')]))"
  by (simp add: demo_internal_def internal_add_def alist_simps)

theorem failed_callback_rolls_back_witness:
  "\<exists>st'. get_muts demo_internal ''t'' [AList.update ''a'' ''1'', AList.update ''b'' ''2''] = Ok st'
    \<and> internal_get (drop_changes st') ''t'' = Ok [(''a'', ''0'')]"
proof -
  have "internal_get demo_internal ''t'' = Ok [(''a'', ''0'')]"
    using demo_internal_entry by (simp add: internal_get_def new_internal_entry_def Let_def)
  then show ?thesis
    using failed_callback_rolls_back [OF demo_internal_entry, of "[AList.update ''a'' ''1'', AList.update ''b'' ''2'']"]
    by (simp add: new_internal_entry_def Let_def)
qed

text \<open>
  A failed callback that did not touch an entry takes back the last committed change of that
  entry: the backup from before the commit is restored, although the database holds the new fields,
  and the next commit writes the old fields to the database.
\<close>

theorem failed_callback_reverts_commit:
  assumes "map_of (internal st) k = Some e" "\<not> mutated e" "fs \<noteq> []" "get_muts st k fs = Ok st1"
  shows "(swss_table_name (foldl (\<lambda>e f. fvs_mut f e) e fs), swss_key (foldl (\<lambda>e f. fvs_mut f e) e fs),
      fvs (foldl (\<lambda>e f. fvs_mut f e) e fs)) \<in> set (db_writes (commit_changes st1))
    \<and> internal_get (drop_changes (commit_changes st1)) k = Ok (fvs e)
    \<and> (\<exists>tn sk. (tn, sk, fvs e) \<in> set (db_writes (commit_changes (drop_changes (commit_changes st1)))))"
proof -
  let ?e = "foldl (\<lambda>e f. fvs_mut f e) e fs"
  have e1: "map_of (internal st1) k = Some ?e"
    using get_muts_entry [OF assms(1), of fs] assms(4) by auto
  have c: "map_of (internal (commit_changes st1)) k = Some (entry_commit st1 ?e)"
    using e1 by (simp add: commit_changes_def map_of_apsnd)
  have b: "backup_fvs (entry_commit st1 ?e) = fvs e"
    using fold_fvs_mut [OF assms(2,3)] by (simp add: entry_commit_def)
  have "map_of (internal (drop_changes (commit_changes st1))) k = Some (entry_drop (entry_commit st1 ?e))"
    using c by (simp add: drop_changes_def map_of_apsnd)
  from map_of_SomeD [OF this] have
    "(swss_table_name (entry_drop (entry_commit st1 ?e)), swss_key (entry_drop (entry_commit st1 ?e)), fvs e)
       \<in> set (db_writes (commit_changes (drop_changes (commit_changes st1))))"
    using b by (force simp: commit_changes_def entry_drop_def)
  moreover have "(swss_table_name ?e, swss_key ?e, fvs ?e) \<in> set (db_writes (commit_changes st1))"
    using map_of_SomeD [OF e1] by (force simp: commit_changes_def)
  ultimately show ?thesis
    using internal_get_drop [OF c, unfolded b] by blast
qed

theorem failed_callback_reverts_commit_witness:
  "\<exists>st1. get_muts demo_internal ''t'' [AList.update ''a'' ''1''] = Ok st1
    \<and> internal_get st1 ''t'' = Ok [(''a'', ''1'')]
    \<and> internal_get (drop_changes (commit_changes st1)) ''t'' = Ok [(''a'', ''0'')]"
proof -
  obtain st1 where st1: "get_muts demo_internal ''t'' [AList.update ''a'' ''1''] = Ok st1"
    "map_of (internal st1) ''t'' = Some (fvs_mut (AList.update ''a'' ''1'')
        (new_internal_entry ''TBL'' ''x'' (Some [(''a'', ''0'')])))"
    using get_muts_entry [OF demo_internal_entry, of "[AList.update ''a'' ''1'']"] by auto
  from failed_callback_reverts_commit [OF demo_internal_entry _ _ st1(1)] st1 show ?thesis
    by (auto simp: internal_get_def new_internal_entry_def fvs_mut_def Let_def)
qed

end
