(* ===== verification/Hamgrd_Base.thy ===== *)
theory Hamgrd_Base
  imports Swbus_Actor
begin

text \<open>
  What the four actors of \<open>hamgrd\<close> share (\<open>crates/hamgrd\<close>): the database tables of
  \<open>db_structs.rs\<close>, the messages between actors of \<open>ha_actor_messages.rs\<close>, the runtime data of
  \<open>main.rs\<close> and the bridges of \<open>actors.rs\<close>.

  An actor callback is a function on \<open>hstate\<close>: the actor's own fields, the state tables and the
  stop flag. A \<open>?\<close> leaves the function early but keeps what has been changed, so a callback returns
  the state together with its outcome (\<open>act_bind\<close>).

  The code that \<open>serde\<close> derives for the record types is generated by the build; it is the
  parameter \<open>serde\<close>. The databases, the clock's UUIDs and the outcome of starting a bridge are the
  parameter \<open>hamgrd_env\<close>.
\<close>

section \<open>Database tables\<close>

record sonic_table =
  table_name :: string
  key_separator :: string
  db_name :: string
  is_dpu :: bool

definition dash_ha_global_config_tbl :: sonic_table where
  "dash_ha_global_config_tbl = \<lparr>table_name = ''DASH_HA_GLOBAL_CONFIG'', key_separator = ''|'',
     db_name = ''CONFIG_DB'', is_dpu = False\<rparr>"

definition dpu_tbl :: sonic_table where
  "dpu_tbl = \<lparr>table_name = ''DPU'', key_separator = ''|'', db_name = ''CONFIG_DB'', is_dpu = False\<rparr>"

definition remote_dpu_tbl :: sonic_table where
  "remote_dpu_tbl = \<lparr>table_name = ''REMOTE_DPU'', key_separator = ''|'', db_name = ''CONFIG_DB'',
     is_dpu = False\<rparr>"

definition vdpu_tbl :: sonic_table where
  "vdpu_tbl = \<lparr>table_name = ''VDPU'', key_separator = ''|'', db_name = ''CONFIG_DB'', is_dpu = False\<rparr>"

definition bfd_session_tbl :: sonic_table where
  "bfd_session_tbl = \<lparr>table_name = ''BFD_SESSION_TABLE'', key_separator = '':'',
     db_name = ''DPU_APPL_DB'', is_dpu = True\<rparr>"

definition dpu_state_tbl :: sonic_table where
  "dpu_state_tbl = \<lparr>table_name = ''DPU_STATE'', key_separator = ''|'', db_name = ''CHASSIS_STATE_DB'',
     is_dpu = False\<rparr>"

definition dash_bfd_probe_state_tbl :: sonic_table where
  "dash_bfd_probe_state_tbl = \<lparr>table_name = ''DASH_BFD_PROBE_STATE'', key_separator = ''|'',
     db_name = ''DPU_STATE_DB'', is_dpu = True\<rparr>"

definition dash_ha_set_config_tbl :: sonic_table where
  "dash_ha_set_config_tbl = \<lparr>table_name = ''DASH_HA_SET_CONFIG_TABLE'', key_separator = '':'',
     db_name = ''APPL_DB'', is_dpu = False\<rparr>"

definition dash_ha_set_tbl :: sonic_table where
  "dash_ha_set_tbl = \<lparr>table_name = ''DASH_HA_SET_TABLE'', key_separator = '':'',
     db_name = ''DPU_APPL_DB'', is_dpu = True\<rparr>"

definition vnet_route_tunnel_tbl :: sonic_table where
  "vnet_route_tunnel_tbl = \<lparr>table_name = ''VNET_ROUTE_TUNNEL_TABLE'', key_separator = '':'',
     db_name = ''APPL_DB'', is_dpu = False\<rparr>"

definition dash_ha_scope_config_tbl :: sonic_table where
  "dash_ha_scope_config_tbl = \<lparr>table_name = ''DASH_HA_SCOPE_CONFIG_TABLE'', key_separator = '':'',
     db_name = ''APPL_DB'', is_dpu = False\<rparr>"

definition dash_ha_scope_tbl :: sonic_table where
  "dash_ha_scope_tbl = \<lparr>table_name = ''DASH_HA_SCOPE_TABLE'', key_separator = '':'',
     db_name = ''DPU_APPL_DB'', is_dpu = True\<rparr>"

definition dpu_dash_ha_scope_state_tbl :: sonic_table where
  "dpu_dash_ha_scope_state_tbl = \<lparr>table_name = ''DASH_HA_SCOPE_STATE'', key_separator = ''|'',
     db_name = ''DPU_STATE_DB'', is_dpu = True\<rparr>"

definition npu_dash_ha_scope_state_tbl :: sonic_table where
  "npu_dash_ha_scope_state_tbl = \<lparr>table_name = ''DASH_HA_SCOPE_STATE'', key_separator = ''|'',
     db_name = ''STATE_DB'', is_dpu = False\<rparr>"

lemmas table_defs = dash_ha_global_config_tbl_def dpu_tbl_def remote_dpu_tbl_def vdpu_tbl_def
  bfd_session_tbl_def dpu_state_tbl_def dash_bfd_probe_state_tbl_def dash_ha_set_config_tbl_def
  dash_ha_set_tbl_def vnet_route_tunnel_tbl_def dash_ha_scope_config_tbl_def dash_ha_scope_tbl_def
  dpu_dash_ha_scope_state_tbl_def npu_dash_ha_scope_state_tbl_def

type_synonym u16 = "16 word"

record dash_ha_global_config =
  gc_cp_data_channel_port :: "u16 option"
  gc_dp_channel_dst_port :: "u16 option"
  gc_dp_channel_src_port_min :: "u16 option"
  gc_dp_channel_src_port_max :: "u16 option"
  gc_dp_channel_probe_interval_ms :: "u32 option"
  gc_dp_channel_probe_fail_threshold :: "u32 option"
  gc_dpu_bfd_probe_interval_in_ms :: "u32 option"
  gc_dpu_bfd_probe_multiplier :: "u32 option"
  gc_vnet_name :: "string option"

record dpu =
  dpu_state_field :: "string option"
  dpu_vip_ipv4 :: "string option"
  dpu_vip_ipv6 :: "string option"
  dpu_pa_ipv4 :: string
  dpu_pa_ipv6 :: "string option"
  dpu_dpu_id :: u32
  dpu_vdpu_id :: "string option"
  dpu_orchagent_zmq_port :: u16
  dpu_swbus_port :: u16
  dpu_midplane_ipv4 :: string

record remote_dpu =
  rd_pa_ipv4 :: string
  rd_pa_ipv6 :: "string option"
  rd_npu_ipv4 :: string
  rd_npu_ipv6 :: "string option"
  rd_dpu_id :: u32
  rd_swbus_port :: u16

record vdpu =
  main_dpu_ids :: "string list"

record bfd_session =
  bs_tx_interval :: "u32 option"
  bs_rx_interval :: "u32 option"
  bs_multiplier :: "u32 option"
  bs_multihop :: bool
  bs_shutdown :: bool
  bs_local_addr :: string
  bs_session_type :: "string option"

datatype dpu_pmon_state_type = PmonUp | PmonDown | PmonUnknown

record dpu_state =
  ds_midplane_link_state :: dpu_pmon_state_type
  ds_midplane_link_time :: int
  ds_control_plane_state :: dpu_pmon_state_type
  ds_control_plane_time :: int
  ds_data_plane_state :: dpu_pmon_state_type
  ds_data_plane_time :: int

record dash_bfd_probe_state =
  v4_bfd_up_sessions :: "string list"
  v4_bfd_up_sessions_timestamp :: int
  v6_bfd_up_sessions :: "string list"
  v6_bfd_up_sessions_timestamp :: int

record dash_ha_set_config =
  hsc_version :: string
  hsc_vip_v4 :: string
  hsc_vip_v6 :: "string option"
  hsc_owner :: "string option"
  hsc_scope :: "string option"
  hsc_vdpu_ids :: "string list"
  hsc_pinned_vdpu_bfd_probe_states :: "string option"
  hsc_preferred_vdpu_ids :: "string list option"
  hsc_preferred_standalone_vdpu_index :: "u32 option"

record dash_ha_set_table =
  hs_version :: string
  hs_vip_v4 :: string
  hs_vip_v6 :: "string option"
  hs_owner :: "string option"
  hs_scope :: "string option"
  hs_local_npu_ip :: string
  hs_local_ip :: string
  hs_peer_ip :: string
  hs_cp_data_channel_port :: "u16 option"
  hs_dp_channel_dst_port :: "u16 option"
  hs_dp_channel_src_port_min :: "u16 option"
  hs_dp_channel_src_port_max :: "u16 option"
  hs_dp_channel_probe_interval_ms :: "u32 option"
  hs_dp_channel_probe_fail_threshold :: "u32 option"

record vnet_route_tunnel =
  vr_endpoint :: "string list"
  vr_endpoint_monitor :: "string list option"
  vr_monitoring :: "string option"
  vr_primary :: "string list option"
  vr_rx_monitor_timer :: "u32 option"
  vr_tx_monitor_timer :: "u32 option"
  vr_check_directly_connected :: "bool option"

record dash_ha_scope_config =
  sc_version :: u32
  sc_disable :: bool
  sc_desired_ha_state :: string
  sc_approved_pending_operation_ids :: "string list option"

record dash_ha_scope_table =
  st_version :: u32
  st_disable :: bool
  st_ha_role :: string
  st_flow_reconcile_requested :: bool
  st_activate_role_requested :: bool

record dpu_dash_ha_scope_state =
  dss_last_updated_time :: int
  dss_ha_role :: string
  dss_ha_role_start_time :: int
  dss_ha_term :: string
  dss_activate_role_pending :: bool
  dss_flow_reconcile_pending :: bool
  dss_brainsplit_recover_pending :: bool

text \<open>\<open>NpuDashHaScopeState\<close>; the actor never touches the switchover and flow sync fields at the end.\<close>

record npu_dash_ha_scope_state =
  ns_creation_time_in_ms :: int
  ns_last_heartbeat_time_in_ms :: int
  ns_vip_v4 :: string
  ns_vip_v6 :: "string option"
  ns_local_ip :: string
  ns_peer_ip :: string
  ns_local_ha_state :: "string option"
  ns_local_ha_state_last_updated_time_in_ms :: "int option"
  ns_local_ha_state_last_updated_reason :: "string option"
  ns_local_target_asic_ha_state :: "string option"
  ns_local_acked_asic_ha_state :: "string option"
  ns_local_target_term :: "string option"
  ns_local_acked_term :: "string option"
  ns_peer_ha_state :: "string option"
  ns_peer_term :: "string option"
  ns_midplane_state :: dpu_pmon_state_type
  ns_midplane_time :: int
  ns_control_plane_state :: dpu_pmon_state_type
  ns_control_plane_time :: int
  ns_data_plane_state :: dpu_pmon_state_type
  ns_data_plane_time :: int
  ns_up_bfd_sessions_v4 :: "string list"
  ns_up_bfd_sessions_v4_time :: int
  ns_up_bfd_sessions_v6 :: "string list"
  ns_up_bfd_sessions_v6_time :: int
  ns_pending_operation_ids :: "string list option"
  ns_pending_operation_types :: "string list option"
  ns_pending_operation_list_time :: "int option"
  ns_switchover_id :: "string option"
  ns_switchover_state :: "string option"
  ns_switchover_start_time_in_ms :: "int option"
  ns_switchover_end_time_in_ms :: "int option"
  ns_switchover_approved_time_in_ms :: "int option"
  ns_flow_sync_session_id :: "string option"
  ns_flow_sync_session_state :: "string option"
  ns_flow_sync_session_start_time_in_ms :: "int option"
  ns_flow_sync_session_target_server :: "string option"

text \<open>\<open>impl Default\<close>: the times are those of the call.\<close>

definition default_dpu_state :: "int \<Rightarrow> dpu_state" where
  "default_dpu_state now = \<lparr>ds_midplane_link_state = PmonUnknown, ds_midplane_link_time = now,
     ds_control_plane_state = PmonUnknown, ds_control_plane_time = now,
     ds_data_plane_state = PmonUnknown, ds_data_plane_time = now\<rparr>"

definition default_bfd_probe_state :: "int \<Rightarrow> dash_bfd_probe_state" where
  "default_bfd_probe_state now = \<lparr>v4_bfd_up_sessions = [], v4_bfd_up_sessions_timestamp = now,
     v6_bfd_up_sessions = [], v6_bfd_up_sessions_timestamp = now\<rparr>"

definition default_dpu_scope_state :: dpu_dash_ha_scope_state where
  "default_dpu_scope_state = \<lparr>dss_last_updated_time = 0, dss_ha_role = [], dss_ha_role_start_time = 0,
     dss_ha_term = [], dss_activate_role_pending = False, dss_flow_reconcile_pending = False,
     dss_brainsplit_recover_pending = False\<rparr>"

definition default_npu_scope_state :: npu_dash_ha_scope_state where
  "default_npu_scope_state = \<lparr>ns_creation_time_in_ms = 0, ns_last_heartbeat_time_in_ms = 0,
     ns_vip_v4 = [], ns_vip_v6 = None, ns_local_ip = [], ns_peer_ip = [], ns_local_ha_state = None,
     ns_local_ha_state_last_updated_time_in_ms = None, ns_local_ha_state_last_updated_reason = None,
     ns_local_target_asic_ha_state = None, ns_local_acked_asic_ha_state = None,
     ns_local_target_term = None, ns_local_acked_term = None, ns_peer_ha_state = None,
     ns_peer_term = None, ns_midplane_state = PmonUnknown, ns_midplane_time = 0,
     ns_control_plane_state = PmonUnknown, ns_control_plane_time = 0,
     ns_data_plane_state = PmonUnknown, ns_data_plane_time = 0, ns_up_bfd_sessions_v4 = [],
     ns_up_bfd_sessions_v4_time = 0, ns_up_bfd_sessions_v6 = [], ns_up_bfd_sessions_v6_time = 0,
     ns_pending_operation_ids = None, ns_pending_operation_types = None,
     ns_pending_operation_list_time = None, ns_switchover_id = None, ns_switchover_state = None,
     ns_switchover_start_time_in_ms = None, ns_switchover_end_time_in_ms = None,
     ns_switchover_approved_time_in_ms = None, ns_flow_sync_session_id = None,
     ns_flow_sync_session_state = None, ns_flow_sync_session_start_time_in_ms = None,
     ns_flow_sync_session_target_server = None\<rparr>"

definition now_in_millis :: "actor_state \<Rightarrow> int" where
  "now_in_millis st = int (clock st div 10 ^ 6)"

section \<open>Messages between actors\<close>

datatype key_operation = KSet | KDel

record kfv =
  kfv_key :: string
  kfv_operation :: key_operation
  kfv_field_values :: field_values

record dpu_actor_state =
  da_remote_dpu :: bool
  da_is_managed :: bool
  da_dpu_name :: string
  da_up :: bool
  da_state :: "string option"
  da_npu_ipv4 :: string
  da_npu_ipv6 :: "string option"
  da_vip_ipv4 :: "string option"
  da_vip_ipv6 :: "string option"
  da_pa_ipv4 :: string
  da_pa_ipv6 :: "string option"
  da_dpu_id :: u32
  da_vdpu_id :: "string option"
  da_orchagent_zmq_port :: u16
  da_swbus_port :: u16
  da_midplane_ipv4 :: "string option"
  da_dpu_pmon_state :: "dpu_state option"
  da_dpu_bfd_state :: "dash_bfd_probe_state option"

definition from_dpu ::
    "string \<Rightarrow> dpu \<Rightarrow> bool \<Rightarrow> string \<Rightarrow> string option \<Rightarrow> dpu_state option \<Rightarrow> dash_bfd_probe_state option
       \<Rightarrow> dpu_actor_state" where
  "from_dpu name d managed npu4 npu6 pmon bfd =
     \<lparr>da_remote_dpu = False, da_is_managed = managed, da_dpu_name = name, da_up = False,
      da_state = dpu_state_field d, da_npu_ipv4 = npu4, da_npu_ipv6 = npu6,
      da_vip_ipv4 = dpu_vip_ipv4 d, da_vip_ipv6 = dpu_vip_ipv6 d, da_pa_ipv4 = dpu_pa_ipv4 d,
      da_pa_ipv6 = dpu_pa_ipv6 d, da_dpu_id = dpu_dpu_id d, da_vdpu_id = dpu_vdpu_id d,
      da_orchagent_zmq_port = dpu_orchagent_zmq_port d, da_swbus_port = dpu_swbus_port d,
      da_midplane_ipv4 = Some (dpu_midplane_ipv4 d), da_dpu_pmon_state = pmon, da_dpu_bfd_state = bfd\<rparr>"

definition from_remote_dpu :: "string \<Rightarrow> remote_dpu \<Rightarrow> dpu_actor_state" where
  "from_remote_dpu name r =
     \<lparr>da_remote_dpu = True, da_is_managed = False, da_dpu_name = name, da_up = False,
      da_state = None, da_npu_ipv4 = rd_npu_ipv4 r, da_npu_ipv6 = rd_npu_ipv6 r,
      da_vip_ipv4 = None, da_vip_ipv6 = None, da_pa_ipv4 = rd_pa_ipv4 r, da_pa_ipv6 = rd_pa_ipv6 r,
      da_dpu_id = rd_dpu_id r, da_vdpu_id = None, da_orchagent_zmq_port = 0,
      da_swbus_port = rd_swbus_port r, da_midplane_ipv4 = None, da_dpu_pmon_state = None,
      da_dpu_bfd_state = None\<rparr>"

record vdpu_actor_state =
  va_up :: bool
  va_dpu :: dpu_actor_state

record ha_set_actor_state =
  ha_up :: bool
  ha_ha_set :: dash_ha_set_table

datatype registration_type = DPUState | VDPUState | HaSetState

text \<open>
  The derived serializers. \<open>j_\<dots>\<close> go to a JSON value, \<open>of_j_\<dots>\<close> come from one, \<open>fv_\<dots>\<close> and
  \<open>of_fv_\<dots>\<close> use field values (\<open>swss_serde\<close>); \<open>Inl\<close> is the error text.
\<close>

record serde =
  j_kfv :: "kfv \<Rightarrow> string + json"
  of_j_kfv :: "json \<Rightarrow> string + kfv"
  j_dpu_actor_state :: "dpu_actor_state \<Rightarrow> string + json"
  of_j_dpu_actor_state :: "json \<Rightarrow> string + dpu_actor_state"
  j_vdpu_actor_state :: "vdpu_actor_state \<Rightarrow> string + json"
  of_j_vdpu_actor_state :: "json \<Rightarrow> string + vdpu_actor_state"
  j_ha_set_actor_state :: "ha_set_actor_state \<Rightarrow> string + json"
  of_j_ha_set_actor_state :: "json \<Rightarrow> string + ha_set_actor_state"
  j_registration :: "bool \<Rightarrow> string + json"
  of_j_registration :: "json \<Rightarrow> string + bool"
  of_fv_global_config :: "field_values \<Rightarrow> string + dash_ha_global_config"
  of_fv_dpu :: "field_values \<Rightarrow> string + dpu"
  of_fv_remote_dpu :: "field_values \<Rightarrow> string + remote_dpu"
  of_fv_vdpu :: "field_values \<Rightarrow> string + vdpu"
  of_fv_dpu_state :: "field_values \<Rightarrow> string + dpu_state"
  of_fv_bfd_probe_state :: "field_values \<Rightarrow> string + dash_bfd_probe_state"
  of_fv_ha_set_config :: "field_values \<Rightarrow> string + dash_ha_set_config"
  of_fv_ha_scope_config :: "field_values \<Rightarrow> string + dash_ha_scope_config"
  of_fv_dpu_scope_state :: "field_values \<Rightarrow> string + dpu_dash_ha_scope_state"
  of_fv_npu_scope_state :: "field_values \<Rightarrow> string + npu_dash_ha_scope_state"
  fv_bfd_session :: "bfd_session \<Rightarrow> string + field_values"
  fv_ha_set_table :: "dash_ha_set_table \<Rightarrow> string + field_values"
  fv_vnet_route :: "vnet_route_tunnel \<Rightarrow> string + field_values"
  fv_ha_scope_table :: "dash_ha_scope_table \<Rightarrow> string + field_values"
  fv_npu_scope_state :: "npu_dash_ha_scope_state \<Rightarrow> string + field_values"

definition of_sum :: "string + 'a \<Rightarrow> 'a outcome" where
  "of_sum x = (case x of Inl e \<Rightarrow> Err e | Inr y \<Rightarrow> Ok y)"

lemma of_sum_simps [simp]: "of_sum (Inl e) = Err e" "of_sum (Inr y) = Ok y"
  by (simp_all add: of_sum_def)

lemma of_sum_not_Panic [simp]: "of_sum x \<noteq> Panic"
  by (cases x) simp_all

text \<open>\<open>ActorMessage::new\<close> and \<open>deserialize_data\<close>.\<close>

definition new_actor_message :: "string \<Rightarrow> string + json \<Rightarrow> actor_message outcome" where
  "new_actor_message key j = bind_exec (of_sum j) (\<lambda>d. Ok \<lparr>am_key = key, am_data = d\<rparr>)"

definition deserialize_data :: "(json \<Rightarrow> string + 'a) \<Rightarrow> actor_message \<Rightarrow> 'a outcome" where
  "deserialize_data dec m = of_sum (dec (am_data m))"

definition dpu_msg_key :: "string \<Rightarrow> string" where "dpu_msg_key i = ''DPUStateUpdate|'' @ i"
definition vdpu_msg_key :: "string \<Rightarrow> string" where "vdpu_msg_key i = ''VDPUStateUpdate|'' @ i"
definition ha_set_msg_key :: "string \<Rightarrow> string" where "ha_set_msg_key i = ''HaSetStateUpdate|'' @ i"

definition is_dpu_msg :: "string \<Rightarrow> bool" where "is_dpu_msg k = starts_with k ''DPUStateUpdate|''"
definition is_vdpu_msg :: "string \<Rightarrow> bool" where "is_vdpu_msg k = starts_with k ''VDPUStateUpdate|''"
definition is_ha_set_msg :: "string \<Rightarrow> bool" where "is_ha_set_msg k = starts_with k ''HaSetStateUpdate|''"

fun registration_prefix :: "registration_type \<Rightarrow> string" where
  "registration_prefix DPUState = ''DPUStateRegister|''"
| "registration_prefix VDPUState = ''VDPUStateRegister|''"
| "registration_prefix HaSetState = ''HaSetStateRegister|''"

definition is_registration_msg :: "string \<Rightarrow> registration_type \<Rightarrow> bool" where
  "is_registration_msg k ty = starts_with k (registration_prefix ty)"

definition new_dpu_state_msg :: "serde \<Rightarrow> string \<Rightarrow> dpu_actor_state \<Rightarrow> actor_message outcome" where
  "new_dpu_state_msg sd i s = new_actor_message (dpu_msg_key i) (j_dpu_actor_state sd s)"

definition new_vdpu_state_msg :: "serde \<Rightarrow> string \<Rightarrow> vdpu_actor_state \<Rightarrow> actor_message outcome" where
  "new_vdpu_state_msg sd i s = new_actor_message (vdpu_msg_key i) (j_vdpu_actor_state sd s)"

text \<open>\<open>HaSetActorState::new_actor_msg\<close> ignores its argument \<open>up\<close>.\<close>

definition new_ha_set_state_msg ::
    "serde \<Rightarrow> bool \<Rightarrow> string \<Rightarrow> dash_ha_set_table \<Rightarrow> actor_message outcome" where
  "new_ha_set_state_msg sd up i t =
     new_actor_message (ha_set_msg_key i) (j_ha_set_actor_state sd \<lparr>ha_up = True, ha_ha_set = t\<rparr>)"

definition new_registration_msg ::
    "serde \<Rightarrow> bool \<Rightarrow> registration_type \<Rightarrow> string \<Rightarrow> actor_message outcome" where
  "new_registration_msg sd active ty i =
     new_actor_message (registration_prefix ty @ i) (j_registration sd active)"

text \<open>The entries of the incoming table are visited in the order in which they arrived; the code has the order of a hash map.\<close>

definition get_registered_actors :: "serde \<Rightarrow> actor_state \<Rightarrow> registration_type \<Rightarrow> service_path list" where
  "get_registered_actors sd st ty =
     List.map_filter (\<lambda>e. case of_j_registration sd (am_data (in_msg e)) of
         Inr True \<Rightarrow> Some (in_source e) | _ \<Rightarrow> None)
       (get_by_prefix st (registration_prefix ty))"

end
