(* ===== verification/Hamgrd_Act.thy ===== *)
theory Hamgrd_Act
  imports Hamgrd_Base
begin

text \<open>
  Callbacks of the \<open>hamgrd\<close> actors as state transformers with outcomes, the environment they run in
  (\<open>RuntimeData\<close>, databases, bridges) and the proof that everything they can do to the state tables
  goes through the public operations of the framework.
\<close>

section \<open>Callbacks\<close>

record 'a hstate =
  self :: 'a
  tables :: actor_state
  stop :: bool

type_synonym ('a, 'r) act = "'a hstate \<Rightarrow> 'a hstate \<times> 'r outcome"

definition ret :: "'r \<Rightarrow> ('a, 'r) act" where "ret x s = (s, Ok x)"

definition act_bind :: "('a, 'r) act \<Rightarrow> ('r \<Rightarrow> ('a, 't) act) \<Rightarrow> ('a, 't) act" where
  "act_bind m f s =
     (case m s of (s1, Ok x) \<Rightarrow> f x s1 | (s1, Err e) \<Rightarrow> (s1, Err e) | (s1, Panic) \<Rightarrow> (s1, Panic))"

definition act_seq :: "('a, 'r) act \<Rightarrow> ('a, 't) act \<Rightarrow> ('a, 't) act" where
  "act_seq m m' = act_bind m (\<lambda>_. m')"

text \<open>\<open>?\<close> on a value that does not depend on effects, and on one read from the state.\<close>

definition of_outcome :: "'r outcome \<Rightarrow> ('a, 'r) act" where "of_outcome r s = (s, r)"

definition reads :: "('a hstate \<Rightarrow> 'r outcome) \<Rightarrow> ('a, 'r) act" where "reads f s = (s, f s)"

definition with_state :: "('a hstate \<Rightarrow> ('a, 'r) act) \<Rightarrow> ('a, 'r) act" where "with_state f s = f s s"

definition update_self :: "('a \<Rightarrow> 'a) \<Rightarrow> ('a, unit) act" where
  "update_self f s = (s\<lparr>self := f (self s)\<rparr>, Ok ())"

definition stop_actor :: "('a, unit) act" where "stop_actor s = (s\<lparr>stop := True\<rparr>, Ok ())"

definition send_msg :: "codec \<Rightarrow> service_path \<Rightarrow> actor_message \<Rightarrow> ('a, unit) act" where
  "send_msg cd dest m s = (s\<lparr>tables := outgoing_send cd (tables s) dest m\<rparr>, Ok ())"

definition add_internal ::
    "string \<Rightarrow> string \<Rightarrow> string \<Rightarrow> field_values option \<Rightarrow> ('a, unit) act" where
  "add_internal key tname skey hyd s =
     (s\<lparr>tables := internal_add (tables s) key tname skey hyd\<rparr>, Ok ())"

text \<open>\<open>internal.get_mut(key).clone_from(&fvs)\<close>.\<close>

definition set_internal :: "string \<Rightarrow> field_values \<Rightarrow> ('a, unit) act" where
  "set_internal key f s =
     (case internal_get_mut (tables s) key (\<lambda>_. f) of
        Ok st \<Rightarrow> (s\<lparr>tables := st\<rparr>, Ok ()) | _ \<Rightarrow> (s, Panic))"

fun for_each :: "('x \<Rightarrow> ('a, unit) act) \<Rightarrow> 'x list \<Rightarrow> ('a, unit) act" where
  "for_each f [] = ret ()"
| "for_each f (x # xs) = act_seq (f x) (for_each f xs)"

text \<open>\<open>if let Err(e) = \<dots> { error!(\<dots>) }; return Ok(())\<close>.\<close>

definition log_error :: "('a, unit) act \<Rightarrow> ('a, unit) act" where
  "log_error m s = (case m s of (s1, Err e) \<Rightarrow> (s1, Ok ()) | r \<Rightarrow> r)"

lemmas act_defs = ret_def act_bind_def act_seq_def of_outcome_def reads_def with_state_def
  update_self_def stop_actor_def send_msg_def add_internal_def set_internal_def log_error_def

text \<open>The callback as the driver calls it.\<close>

definition as_handler :: "(string \<Rightarrow> ('a, unit) act) \<Rightarrow> 'a message_handler" where
  "as_handler h a st key stp =
     (case h key \<lparr>self = a, tables = st, stop = stp\<rparr> of (s, r) \<Rightarrow> ((self s, tables s, stop s), r))"

section \<open>What callbacks preserve\<close>

text \<open>
  A callback stays within a relation on states when every step it is composed of does. The relation
  only has to be a preorder; the two that matter are below.
\<close>

definition frame_act :: "('a hstate \<Rightarrow> 'a hstate \<Rightarrow> bool) \<Rightarrow> ('a, 'r) act \<Rightarrow> bool" where
  "frame_act R m \<longleftrightarrow> (\<forall>s. R s (fst (m s)))"

named_theorems frame_intros \<open>composition of callbacks\<close>

locale act_frame =
  fixes R :: "'a hstate \<Rightarrow> 'a hstate \<Rightarrow> bool"
  assumes R_refl: "R s s"
    and R_trans: "R s1 s2 \<Longrightarrow> R s2 s3 \<Longrightarrow> R s1 s3"
begin

lemma frame_ret [frame_intros]: "frame_act R (ret x)"
  by (simp add: frame_act_def ret_def R_refl)

lemma frame_of_outcome [frame_intros]: "frame_act R (of_outcome r)"
  by (simp add: frame_act_def of_outcome_def R_refl)

lemma frame_reads [frame_intros]: "frame_act R (reads f)"
  by (simp add: frame_act_def reads_def R_refl)

lemma frame_bind [frame_intros]:
  assumes "frame_act R m" "\<And>x. frame_act R (f x)"
  shows "frame_act R (act_bind m f)"
  unfolding frame_act_def
proof
  fix s
  have 1: "R s (fst (m s))" and 2: "R s1 (fst (f x s1))" for x s1
    using assms by (simp_all add: frame_act_def)
  show "R s (fst (act_bind m f s))"
    using 1 by (auto simp: act_bind_def intro: R_trans [OF _ 2] split: prod.splits exec.splits)
qed

lemma frame_seq [frame_intros]: "frame_act R m \<Longrightarrow> frame_act R m' \<Longrightarrow> frame_act R (act_seq m m')"
  by (simp add: act_seq_def frame_bind)

lemma frame_with_state [frame_intros]: "(\<And>s. frame_act R (f s)) \<Longrightarrow> frame_act R (with_state f)"
  by (simp add: frame_act_def with_state_def)

lemma frame_for_each [frame_intros]: "(\<And>x. frame_act R (f x)) \<Longrightarrow> frame_act R (for_each f xs)"
  by (induction xs) (simp_all add: frame_ret frame_seq)

lemma frame_log_error [frame_intros]: "frame_act R m \<Longrightarrow> frame_act R (log_error m)"
  unfolding frame_act_def log_error_def
  by (auto split: prod.splits exec.splits) (metis fst_conv)+

lemma frame_if [frame_intros]:
  "frame_act R m \<Longrightarrow> frame_act R m' \<Longrightarrow> frame_act R (if b then m else m')"
  by simp

lemma frame_option [frame_intros]:
  "frame_act R m \<Longrightarrow> (\<And>x. frame_act R (f x)) \<Longrightarrow> frame_act R (case o1 of None \<Rightarrow> m | Some x \<Rightarrow> f x)"
  by (cases o1) simp_all

lemma frame_let [frame_intros]: "(\<And>x. frame_act R (f x)) \<Longrightarrow> frame_act R (Let v f)"
  by (simp add: Let_def)

end

text \<open>Callbacks only use the public operations of the tables.\<close>

definition api_rel :: "codec \<Rightarrow> 'a hstate \<Rightarrow> 'a hstate \<Rightarrow> bool" where
  "api_rel cd s s' \<longleftrightarrow> api_reach cd (tables s) (tables s')"

abbreviation api_act :: "codec \<Rightarrow> ('a, 'r) act \<Rightarrow> bool" where
  "api_act cd \<equiv> frame_act (api_rel cd)"

interpretation api: act_frame "api_rel cd" for cd
  by unfold_locales (auto simp: api_rel_def intro: api_trans)

lemma api_steps [frame_intros]:
  "api_act cd (update_self f)" "api_act cd stop_actor" "api_act cd (send_msg cd dest m)"
  "api_act cd (add_internal key tn sk hyd)" "api_act cd (set_internal key fv)"
  by (auto simp: frame_act_def api_rel_def update_self_def stop_actor_def send_msg_def
      add_internal_def set_internal_def split: exec.splits)

lemma as_handler_api:
  assumes "\<And>key. api_act cd (h key)" "as_handler h a st key stp = ((a', st', stp'), r)"
  shows "api_reach cd st st'"
proof -
  let ?s = "\<lparr>self = a, tables = st, stop = stp\<rparr>"
  have "api_reach cd (tables ?s) (tables (fst (h key ?s)))"
    using assms(1) [of key] unfolding frame_act_def api_rel_def by blast
  with assms(2) show ?thesis by (auto simp: as_handler_def split: prod.splits)
qed

text \<open>Callbacks that leave the actor's own fields alone.\<close>

definition same_self :: "'a hstate \<Rightarrow> 'a hstate \<Rightarrow> bool" where
  "same_self s s' \<longleftrightarrow> self s' = self s"

interpretation self_frame: act_frame same_self
  by unfold_locales (simp_all add: same_self_def)

lemma same_self_steps [frame_intros]:
  "frame_act same_self stop_actor" "frame_act same_self (send_msg cd dest m)"
  "frame_act same_self (add_internal key tn sk hyd)" "frame_act same_self (set_internal key fv)"
  by (auto simp: frame_act_def same_self_def stop_actor_def send_msg_def add_internal_def
      set_internal_def split: exec.splits)

section \<open>Environment\<close>

text \<open>
  \<open>spawn_bridge\<close> and \<open>open_table\<close> give \<open>Some\<close> error text when the database cannot be reached;
  \<open>table_get\<close> is what the database holds; \<open>uuid_v4\<close> is the stream of generated UUIDs,
  \<open>hash_iter\<close> the order in which a \<open>HashMap\<close> gives out its entries.
\<close>

record bridge_spec =
  br_table :: sonic_table
  br_actor :: string
  br_actor_id :: string
  br_single_entry :: bool
  br_slot :: "u32 option"

record hamgrd_env =
  slot_id :: u32
  env_npu_ipv4 :: "string option"
  env_npu_ipv6 :: "string option"
  spawn_bridge :: "bridge_spec \<Rightarrow> string option"
  open_table :: "sonic_table \<Rightarrow> string option"
  table_get :: "sonic_table \<Rightarrow> string \<Rightarrow> field_values option"
  uuid_v4 :: "nat \<Rightarrow> string"
  hash_iter :: "(string \<times> string) list \<Rightarrow> (string \<times> string) list"
  env_codec :: codec
  env_serde :: serde

text \<open>\<open>self.bridges.push(spawn_consumer_bridge_for_actor(\<dots>).await?)\<close>.\<close>

definition push_bridge ::
    "hamgrd_env \<Rightarrow> bridge_spec \<Rightarrow> (bridge_spec \<Rightarrow> 'a \<Rightarrow> 'a) \<Rightarrow> ('a, unit) act" where
  "push_bridge env b f =
     (case spawn_bridge env b of None \<Rightarrow> update_self (f b) | Some e \<Rightarrow> of_outcome (Err e))"

lemma api_push_bridge [frame_intros]: "api_act cd (push_bridge env b f)"
  by (auto simp: push_bridge_def intro!: frame_intros split: option.splits)

text \<open>\<open>incoming.get(key)?.deserialize_data()?\<close>, and the entry form.\<close>

definition read_msg :: "(json \<Rightarrow> string + 'r) \<Rightarrow> string \<Rightarrow> 'a hstate \<Rightarrow> 'r outcome" where
  "read_msg dec key s = bind_exec (incoming_get (tables s) key) (deserialize_data dec)"

definition read_fvs ::
    "hamgrd_env \<Rightarrow> (serde \<Rightarrow> field_values \<Rightarrow> string + 'r) \<Rightarrow> string \<Rightarrow> 'a hstate \<Rightarrow> 'r outcome" where
  "read_fvs env dec key s =
     bind_exec (read_msg (of_j_kfv (env_serde env)) key s) (\<lambda>k. of_sum (dec (env_serde env) (kfv_field_values k)))"

text \<open>
  The destination and message key that a consumer bridge of an actor gives to a table entry
  (\<open>spawn_consumer_bridge_for_actor_with_selector\<close> with an actor id).
\<close>

definition bridge_dest :: "edge \<Rightarrow> bridge_spec \<Rightarrow> kfv \<Rightarrow> service_path \<times> string" where
  "bridge_dest e b k =
     (new_sp e (br_actor b) (br_actor_id b),
      if br_single_entry b then table_name (br_table b)
      else table_name (br_table b) @ ''|'' @ kfv_key k)"

text \<open>\<open>str::parse::<u32>\<close>.\<close>

definition parse_u32 :: "string \<Rightarrow> u32 option" where
  "parse_u32 s =
     (let t = (case s of CHR ''+'' # r \<Rightarrow> r | _ \<Rightarrow> s)
      in if t = [] then None
         else case read_digits 0 t of
           None \<Rightarrow> None | Some n \<Rightarrow> if n < 2 ^ 32 then Some (of_nat n) else None)"

text \<open>
  The selector of the \<open>DPU_STATE\<close> bridge. Slicing \<open>kfv.key[3..]\<close> panics on a key of fewer than
  three bytes.
\<close>

definition dpu_state_selector :: "u32 \<Rightarrow> kfv \<Rightarrow> bool outcome" where
  "dpu_state_selector slot k =
     (if length (kfv_key k) < 3 then Panic else Ok (parse_u32 (drop 3 (kfv_key k)) = Some slot))"

section \<open>Callbacks that do not panic\<close>

definition calm_act :: "('a, 'r) act \<Rightarrow> bool" where
  "calm_act m \<longleftrightarrow> (\<forall>s. snd (m s) \<noteq> Panic)"

named_theorems calm_intros \<open>composition of callbacks that do not panic\<close>

lemma calm_basic [calm_intros]:
  "calm_act (ret x)" "calm_act (update_self f)" "calm_act stop_actor" "calm_act (send_msg cd dest m)"
  "calm_act (add_internal key tn sk hyd)"
  by (simp_all add: calm_act_def act_defs)

lemma calm_of_outcome [calm_intros]: "r \<noteq> Panic \<Longrightarrow> calm_act (of_outcome r)"
  by (simp add: calm_act_def act_defs)

lemma calm_reads [calm_intros]: "(\<And>s. f s \<noteq> Panic) \<Longrightarrow> calm_act (reads f)"
  by (simp add: calm_act_def act_defs)

lemma calm_bind [calm_intros]: "calm_act m \<Longrightarrow> (\<And>x. calm_act (f x)) \<Longrightarrow> calm_act (act_bind m f)"
  by (auto simp: calm_act_def act_bind_def split: prod.splits exec.splits) (metis snd_conv)

lemma calm_seq [calm_intros]: "calm_act m \<Longrightarrow> calm_act m' \<Longrightarrow> calm_act (act_seq m m')"
  by (simp add: act_seq_def calm_intros)

lemma calm_with_state [calm_intros]: "(\<And>s. calm_act (f s)) \<Longrightarrow> calm_act (with_state f)"
  by (simp add: calm_act_def with_state_def)

lemma with_state_calm: "calm_act (f s) \<Longrightarrow> snd (with_state f s) \<noteq> Panic"
  by (simp add: calm_act_def with_state_def)

lemma calm_for_each [calm_intros]: "(\<And>x. calm_act (f x)) \<Longrightarrow> calm_act (for_each f xs)"
  by (induction xs) (simp_all add: calm_intros)

lemma calm_if [calm_intros]: "calm_act m \<Longrightarrow> calm_act m' \<Longrightarrow> calm_act (if b then m else m')"
  by simp

lemma calm_option [calm_intros]:
  "calm_act m \<Longrightarrow> (\<And>x. calm_act (f x)) \<Longrightarrow> calm_act (case o1 of None \<Rightarrow> m | Some x \<Rightarrow> f x)"
  by (cases o1) simp_all

lemma calm_let [calm_intros]: "(\<And>x. calm_act (f x)) \<Longrightarrow> calm_act (Let v f)"
  by (simp add: Let_def)

lemma calm_push_bridge [calm_intros]: "calm_act (push_bridge env b f)"
  by (auto simp: push_bridge_def intro!: calm_intros split: option.splits)

lemma bind_exec_calm: "r \<noteq> Panic \<Longrightarrow> (\<And>x. f x \<noteq> Panic) \<Longrightarrow> bind_exec r f \<noteq> Panic"
  by (cases r) auto

lemma calm_get_entry [calm_intros]: "get_entry st key \<noteq> Panic"
  by (simp add: get_entry_def split: option.splits)

lemma calm_deserialize [calm_intros]: "deserialize_data dec m \<noteq> Panic"
  by (simp add: deserialize_data_def)

lemma calm_new_message [calm_intros]: "new_actor_message key j \<noteq> Panic"
  unfolding new_actor_message_def by (rule bind_exec_calm) simp_all

lemma calm_incoming_get [calm_intros]: "incoming_get st key \<noteq> Panic"
  unfolding incoming_get_def by (rule bind_exec_calm) (simp_all add: calm_get_entry)

lemma calm_read_msg [calm_intros]: "read_msg dec key s \<noteq> Panic"
  unfolding read_msg_def by (intro bind_exec_calm calm_intros)

lemma calm_read_fvs [calm_intros]: "read_fvs env dec key s \<noteq> Panic"
  unfolding read_fvs_def by (intro bind_exec_calm calm_read_msg of_sum_not_Panic)

lemma calm_registration [calm_intros]:
  "of_sum x \<noteq> Panic" "new_dpu_state_msg sd i ds \<noteq> Panic" "new_vdpu_state_msg sd i vs \<noteq> Panic"
  "new_registration_msg sd active ty i \<noteq> Panic"
  by (simp_all add: new_dpu_state_msg_def new_vdpu_state_msg_def new_registration_msg_def calm_new_message)

lemma as_handler_calm: "calm_act (h key) \<Longrightarrow> snd (as_handler h a st key stp) \<noteq> Panic"
  by (auto simp: calm_act_def as_handler_def split: prod.splits) (metis snd_conv)

section \<open>Sending to a list of receivers\<close>

fun send_each :: "codec \<Rightarrow> actor_state \<Rightarrow> service_path list \<Rightarrow> actor_message \<Rightarrow> actor_state" where
  "send_each cd st [] m = st"
| "send_each cd st (d # ds) m = send_each cd (outgoing_send cd st d m) ds m"

lemma for_each_send:
  "for_each (\<lambda>d. send_msg cd d m) ds s = (s\<lparr>tables := send_each cd (tables s) ds m\<rparr>, Ok ())"
  by (induction ds arbitrary: s) (simp_all add: act_defs)

lemma outgoing_send_simps [simp]:
  "clock (outgoing_send cd st d m) = clock st" "incoming (outgoing_send cd st d m) = incoming st"
  "internal (outgoing_send cd st d m) = internal st" "wire (outgoing_send cd st d m) = wire st"
  "sc_source (client (outgoing_send cd st d m)) = sc_source (client st)"
  by (simp_all add: outgoing_send_eq)

text \<open>What has been queued: the receiver and the message of each entry.\<close>

definition queued_pairs :: "actor_state \<Rightarrow> (service_path option \<times> actor_message) list" where
  "queued_pairs st =
     map (\<lambda>u. (Option.bind (header (um_swbus_message u)) destination, um_actor_message u)) (queued_messages st)"

lemma queued_pairs_send [simp]:
  "queued_pairs (outgoing_send cd st d m) = queued_pairs st @ [(Some d, m)]"
  by (simp add: queued_pairs_def outgoing_send_eq new_message_def new_header_def)

lemma queued_pairs_send_each [simp]:
  "queued_pairs (send_each cd st ds m) = queued_pairs st @ map (\<lambda>d. (Some d, m)) ds"
  by (induction ds arbitrary: st) simp_all

lemma send_each_simps [simp]:
  "clock (send_each cd st ds m) = clock st" "incoming (send_each cd st ds m) = incoming st"
  "internal (send_each cd st ds m) = internal st" "wire (send_each cd st ds m) = wire st"
  "sc_source (client (send_each cd st ds m)) = sc_source (client st)"
  by (induction ds arbitrary: st) simp_all

section \<open>A concrete environment\<close>

text \<open>
  Used to instantiate theorems: fixed decoders, every encoder succeeds, the databases are reachable.
\<close>

definition demo_dpu :: dpu where
  "demo_dpu = \<lparr>dpu_state_field = None, dpu_vip_ipv4 = None, dpu_vip_ipv6 = None,
     dpu_pa_ipv4 = ''18.0.0.1'', dpu_pa_ipv6 = None, dpu_dpu_id = 0, dpu_vdpu_id = None,
     dpu_orchagent_zmq_port = 8100, dpu_swbus_port = 23606, dpu_midplane_ipv4 = ''169.254.1.1''\<rparr>"

definition demo_global_config :: dash_ha_global_config where
  "demo_global_config = \<lparr>gc_cp_data_channel_port = Some 11362, gc_dp_channel_dst_port = Some 11368,
     gc_dp_channel_src_port_min = None, gc_dp_channel_src_port_max = None,
     gc_dp_channel_probe_interval_ms = None, gc_dp_channel_probe_fail_threshold = None,
     gc_dpu_bfd_probe_interval_in_ms = Some 1000, gc_dpu_bfd_probe_multiplier = Some 3,
     gc_vnet_name = Some ''Vnet1''\<rparr>"

definition demo_remote_dpu :: remote_dpu where
  "demo_remote_dpu = \<lparr>rd_pa_ipv4 = ''18.0.0.2'', rd_pa_ipv6 = None, rd_npu_ipv4 = ''10.0.0.2'',
     rd_npu_ipv6 = None, rd_dpu_id = 0, rd_swbus_port = 23606\<rparr>"

definition demo_ha_set_config :: dash_ha_set_config where
  "demo_ha_set_config = \<lparr>hsc_version = ''1'', hsc_vip_v4 = ''3.2.1.0'', hsc_vip_v6 = None,
     hsc_owner = Some ''dpu'', hsc_scope = Some ''dpu'', hsc_vdpu_ids = [''vdpu0'', ''vdpu1''],
     hsc_pinned_vdpu_bfd_probe_states = None, hsc_preferred_vdpu_ids = Some [''vdpu0''],
     hsc_preferred_standalone_vdpu_index = None\<rparr>"

definition demo_scope_config :: dash_ha_scope_config where
  "demo_scope_config = \<lparr>sc_version = 1, sc_disable = False, sc_desired_ha_state = ''active'',
     sc_approved_pending_operation_ids = None\<rparr>"

definition demo_dpu_state :: dpu_state where
  "demo_dpu_state = \<lparr>ds_midplane_link_state = PmonUp, ds_midplane_link_time = 1,
     ds_control_plane_state = PmonUp, ds_control_plane_time = 1, ds_data_plane_state = PmonUp,
     ds_data_plane_time = 1\<rparr>"

definition demo_bfd_state :: dash_bfd_probe_state where
  "demo_bfd_state = \<lparr>v4_bfd_up_sessions = [''10.0.0.2''], v4_bfd_up_sessions_timestamp = 1,
     v6_bfd_up_sessions = [], v6_bfd_up_sessions_timestamp = 1\<rparr>"

definition demo_ha_set_table :: dash_ha_set_table where
  "demo_ha_set_table = \<lparr>hs_version = ''1'', hs_vip_v4 = ''3.2.1.0'', hs_vip_v6 = None, hs_owner = None,
     hs_scope = None, hs_local_npu_ip = ''10.0.0.1'', hs_local_ip = ''18.0.0.1'', hs_peer_ip = ''18.0.0.2'',
     hs_cp_data_channel_port = None, hs_dp_channel_dst_port = None, hs_dp_channel_src_port_min = None,
     hs_dp_channel_src_port_max = None, hs_dp_channel_probe_interval_ms = None,
     hs_dp_channel_probe_fail_threshold = None\<rparr>"

definition demo_dpu_report :: dpu_actor_state where
  "demo_dpu_report = from_dpu ''dpu0'' demo_dpu True ''10.0.0.1'' None (Some demo_dpu_state) (Some demo_bfd_state)"

definition demo_serde :: serde where
  "demo_serde = \<lparr>j_kfv = (\<lambda>k. Inr (JStr (kfv_key k))),
     of_j_kfv = (\<lambda>j. case j of JStr k \<Rightarrow> Inr \<lparr>kfv_key = k, kfv_operation = KSet, kfv_field_values = []\<rparr>
        | _ \<Rightarrow> Inl ''no kfv''),
     j_dpu_actor_state = (\<lambda>s. Inr (JBool (da_up s))),
     of_j_dpu_actor_state = (\<lambda>j. case j of JBool b \<Rightarrow> Inr (demo_dpu_report\<lparr>da_up := b\<rparr>) | _ \<Rightarrow> Inl ''no state''),
     j_vdpu_actor_state = (\<lambda>s. Inr (JBool (va_up s))),
     of_j_vdpu_actor_state = (\<lambda>j. case j of
          JBool b \<Rightarrow> Inr \<lparr>va_up = b, va_dpu = demo_dpu_report\<lparr>da_up := b, da_is_managed := b\<rparr>\<rparr>
        | _ \<Rightarrow> Inl ''no state''),
     j_ha_set_actor_state = (\<lambda>s. Inr (JBool (ha_up s))),
     of_j_ha_set_actor_state = (\<lambda>j. Inr \<lparr>ha_up = True, ha_ha_set = demo_ha_set_table\<rparr>),
     j_registration = (\<lambda>b. Inr (JBool b)),
     of_j_registration = (\<lambda>j. case j of JBool b \<Rightarrow> Inr b | _ \<Rightarrow> Inl ''no registration''),
     of_fv_global_config = (\<lambda>f. Inr demo_global_config), of_fv_dpu = (\<lambda>f. Inr demo_dpu),
     of_fv_remote_dpu = (\<lambda>f. Inr demo_remote_dpu), of_fv_vdpu = (\<lambda>f. Inr \<lparr>main_dpu_ids = [''dpu0'']\<rparr>),
     of_fv_dpu_state = (\<lambda>f. Inr demo_dpu_state), of_fv_bfd_probe_state = (\<lambda>f. Inr demo_bfd_state),
     of_fv_ha_set_config = (\<lambda>f. Inr demo_ha_set_config),
     of_fv_ha_scope_config = (\<lambda>f. Inr demo_scope_config),
     of_fv_dpu_scope_state = (\<lambda>f. Inr (default_dpu_scope_state\<lparr>dss_activate_role_pending := True\<rparr>)),
     of_fv_npu_scope_state = (\<lambda>f. Inr (default_npu_scope_state\<lparr>ns_vip_v4 := ''3.2.1.0''\<rparr>)),
     fv_bfd_session = (\<lambda>b. Inr [(''local_addr'', bs_local_addr b)]),
     fv_ha_set_table = (\<lambda>t. Inr [(''version'', hs_version t)]),
     fv_vnet_route = (\<lambda>v. Inr [(''endpoint'', join_with CHR '','' (vr_endpoint v))]),
     fv_ha_scope_table = (\<lambda>t. Inr [(''ha_role'', st_ha_role t)]),
     fv_npu_scope_state = (\<lambda>n. Inr [(''vip_v4'', ns_vip_v4 n)])\<rparr>"

definition demo_env :: hamgrd_env where
  "demo_env = \<lparr>slot_id = 0, env_npu_ipv4 = Some ''10.0.0.1'', env_npu_ipv6 = None,
     spawn_bridge = (\<lambda>b. None), open_table = (\<lambda>t. None), table_get = (\<lambda>t k. None),
     uuid_v4 = show_nat, hash_iter = (\<lambda>xs. xs), env_codec = demo_codec, env_serde = demo_serde\<rparr>"

text \<open>A state whose incoming table holds the given messages, all from one actor.\<close>

definition demo_tables :: "(string \<times> json) list \<Rightarrow> actor_state" where
  "demo_tables ms = foldl (\<lambda>st (k, j). incoming_insert st \<lparr>am_key = k, am_data = j\<rparr> (demo_actor ''y'') 1)
     demo_state ms"

lemmas demo_act_defs = demo_env_def demo_serde_def demo_tables_def incoming_get_def get_entry_def
  incoming_insert_def new_incoming_entry_def alist_simps read_msg_def read_fvs_def deserialize_data_def

end
