(* ===== verification/Hamgrd_Dpu.thy ===== *)
theory Hamgrd_Dpu
  imports Hamgrd_Act "HOL-Library.List_Lexorder" "HOL-Library.Char_ord"
begin

text \<open>
  The DPU actor (\<open>actors/dpu.rs\<close>): it turns the configuration of a DPU, its power and link state and
  its BFD probe state into the DPU's state, tells the registered actors, and programs the BFD sessions
  of a locally managed DPU.
\<close>

section \<open>State\<close>

datatype dpu_data =
    LocalDpu dpu bool string "string option"
  | RemoteDpu remote_dpu

record dpu_actor =
  d_id :: string
  d_dpu :: "dpu_data option"
  d_bridges :: "bridge_spec list"

definition new_dpu_actor :: "string \<Rightarrow> dpu_actor" where
  "new_dpu_actor key = \<lparr>d_id = key, d_dpu = None, d_bridges = []\<rparr>"

type_synonym 'r dpu_act = "(dpu_actor, 'r) act"

section \<open>Operations\<close>

definition get_dpu_state :: "hamgrd_env \<Rightarrow> dpu_actor hstate \<Rightarrow> dpu_state outcome" where
  "get_dpu_state env = read_fvs env of_fv_dpu_state (table_name dpu_state_tbl)"

definition get_bfd_probe_state :: "hamgrd_env \<Rightarrow> dpu_actor hstate \<Rightarrow> dash_bfd_probe_state outcome" where
  "get_bfd_probe_state env = read_fvs env of_fv_bfd_probe_state (table_name dash_bfd_probe_state_tbl)"

definition get_dash_ha_global_config :: "hamgrd_env \<Rightarrow> dpu_actor hstate \<Rightarrow> dash_ha_global_config outcome" where
  "get_dash_ha_global_config env = read_fvs env of_fv_global_config (table_name dash_ha_global_config_tbl)"

fun ok_option :: "'r outcome \<Rightarrow> 'r option" where
  "ok_option (Ok x) = Some x"
| "ok_option (Err e) = None"
| "ok_option Panic = None"

definition calculate_dpu_state ::
    "hamgrd_env \<Rightarrow> dpu_actor hstate \<Rightarrow> bool \<times> dpu_state option \<times> dash_bfd_probe_state option" where
  "calculate_dpu_state env s =
     (case d_dpu (self s) of
        Some (RemoteDpu _) \<Rightarrow> (False, None, None)
      | _ \<Rightarrow>
          (let ds = ok_option (get_dpu_state env s); bs = ok_option (get_bfd_probe_state env s);
               up = (case (ds, bs) of
                       (Some d, Some b) \<Rightarrow>
                         (ds_midplane_link_state d = PmonUp \<and> ds_control_plane_state d = PmonUp
                            \<and> ds_data_plane_state d = PmonUp)
                         \<and> (v4_bfd_up_sessions b \<noteq> [] \<or> v6_bfd_up_sessions b \<noteq> [])
                     | _ \<Rightarrow> False)
           in (up, ds, bs)))"

definition dpu_report :: "hamgrd_env \<Rightarrow> dpu_actor hstate \<Rightarrow> dpu_data \<Rightarrow> dpu_actor_state" where
  "dpu_report env s dd =
     (case calculate_dpu_state env s of (up, ds, bs) \<Rightarrow>
        (case dd of
           LocalDpu d managed npu4 npu6 \<Rightarrow> from_dpu (d_id (self s)) d managed npu4 npu6 ds bs
         | RemoteDpu r \<Rightarrow> from_remote_dpu (d_id (self s)) r)\<lparr>da_up := up\<rparr>)"

definition update_dpu_state :: "hamgrd_env \<Rightarrow> service_path option \<Rightarrow> unit dpu_act" where
  "update_dpu_state env target = with_state (\<lambda>s.
     case d_dpu (self s) of
       None \<Rightarrow> ret ()
     | Some dd \<Rightarrow>
         act_bind (of_outcome (new_dpu_state_msg (env_serde env) (d_id (self s)) (dpu_report env s dd)))
           (\<lambda>msg. case target of
              Some sp \<Rightarrow> send_msg (env_codec env) sp msg
            | None \<Rightarrow>
                for_each (\<lambda>sp. send_msg (env_codec env) sp msg)
                  (get_registered_actors (env_serde env) (tables s) DPUState)))"

definition handle_dpu_state_registration :: "hamgrd_env \<Rightarrow> string \<Rightarrow> unit dpu_act" where
  "handle_dpu_state_registration env key = with_state (\<lambda>s.
     act_bind (of_outcome (get_entry (tables s) key)) (\<lambda>e.
       act_bind (of_outcome (deserialize_data (of_j_registration (env_serde env)) (in_msg e))) (\<lambda>active.
         if active then update_dpu_state env (Some (in_source e)) else ret ())))"

definition bfd_session_of :: "dpu \<Rightarrow> dash_ha_global_config \<Rightarrow> bfd_session" where
  "bfd_session_of d cfg = \<lparr>bs_tx_interval = gc_dpu_bfd_probe_interval_in_ms cfg,
     bs_rx_interval = gc_dpu_bfd_probe_interval_in_ms cfg,
     bs_multiplier = gc_dpu_bfd_probe_multiplier cfg, bs_multihop = True, bs_shutdown = False,
     bs_local_addr = dpu_pa_ipv4 d, bs_session_type = Some ''passive''\<rparr>"

definition update_bfd_session :: "hamgrd_env \<Rightarrow> dash_ha_global_config \<Rightarrow> string \<Rightarrow> unit dpu_act" where
  "update_bfd_session env cfg peer_ip = with_state (\<lambda>s.
     case d_dpu (self s) of
       Some (LocalDpu d managed npu4 npu6) \<Rightarrow>
         act_bind (of_outcome (of_sum (fv_bfd_session (env_serde env) (bfd_session_of d cfg)))) (\<lambda>fv.
           let sep = key_separator bfd_session_tbl;
               k = \<lparr>kfv_key = ''default'' @ sep @ ''default'' @ sep @ peer_ip, kfv_operation = KSet,
                    kfv_field_values = fv\<rparr>
           in act_bind (of_outcome (new_actor_message (d_id (self s)) (j_kfv (env_serde env) k))) (\<lambda>msg.
                send_msg (env_codec env)
                  (common_bridge_sp (tables s) (db_name bfd_session_tbl) (table_name bfd_session_tbl)) msg))
     | _ \<Rightarrow> ret ())"

definition is_local_managed :: "dpu_actor \<Rightarrow> bool" where
  "is_local_managed a = (case d_dpu a of Some (LocalDpu d managed npu4 npu6) \<Rightarrow> managed | _ \<Rightarrow> False)"

definition remote_npus :: "hamgrd_env \<Rightarrow> dpu_actor hstate \<Rightarrow> string list" where
  "remote_npus env s = remdups (List.map_filter
     (\<lambda>e. case of_j_kfv (env_serde env) (am_data (in_msg e)) of
         Inl _ \<Rightarrow> None
       | Inr k \<Rightarrow> (case of_fv_remote_dpu (env_serde env) (kfv_field_values k) of
             Inl _ \<Rightarrow> None | Inr r \<Rightarrow> Some (rd_npu_ipv4 r)))
     (get_by_prefix (tables s) (table_name remote_dpu_tbl)))"

definition update_bfd_sessions :: "hamgrd_env \<Rightarrow> unit dpu_act" where
  "update_bfd_sessions env = with_state (\<lambda>s.
     if \<not> is_local_managed (self s) then ret ()
     else act_bind (reads (get_dash_ha_global_config env)) (\<lambda>cfg.
       case d_dpu (self s) of
         Some (LocalDpu d managed npu4 npu6) \<Rightarrow>
           for_each (update_bfd_session env cfg) (sort (remote_npus env s @ [npu4]))
       | _ \<Rightarrow> ret ()))"

definition handle_remote_dpu_message_to_remote_dpu :: "hamgrd_env \<Rightarrow> string \<Rightarrow> unit dpu_act" where
  "handle_remote_dpu_message_to_remote_dpu env key =
     act_bind (reads (read_msg (of_j_kfv (env_serde env)) key)) (\<lambda>k.
       if kfv_operation k = KDel then stop_actor
       else act_bind (of_outcome (of_sum (of_fv_remote_dpu (env_serde env) (kfv_field_values k)))) (\<lambda>r.
         act_seq (update_self (\<lambda>a. a\<lparr>d_dpu := Some (RemoteDpu r)\<rparr>)) (update_dpu_state env None)))"

definition handle_remote_dpu_message_to_local_dpu :: "hamgrd_env \<Rightarrow> string \<Rightarrow> unit dpu_act" where
  "handle_remote_dpu_message_to_local_dpu env key =
     act_bind (reads (read_msg (of_j_kfv (env_serde env)) key)) (\<lambda>k.
       act_bind (of_outcome (of_sum (of_fv_remote_dpu (env_serde env) (kfv_field_values k)))) (\<lambda>r.
         act_bind (reads (get_dash_ha_global_config env)) (\<lambda>cfg.
           update_bfd_session env cfg (rd_npu_ipv4 r))))"

definition handle_remote_dpu_message :: "hamgrd_env \<Rightarrow> string \<Rightarrow> unit dpu_act" where
  "handle_remote_dpu_message env key = with_state (\<lambda>s.
     case d_dpu (self s) of
       Some (LocalDpu d managed npu4 npu6) \<Rightarrow> handle_remote_dpu_message_to_local_dpu env key
     | _ \<Rightarrow> handle_remote_dpu_message_to_remote_dpu env key)"

definition dpu_actor_name :: string where "dpu_actor_name = ''dpu''"

definition dpu_bridge :: "sonic_table \<Rightarrow> string \<Rightarrow> bool \<Rightarrow> u32 option \<Rightarrow> bridge_spec" where
  "dpu_bridge t i single slot = \<lparr>br_table = t, br_actor = dpu_actor_name, br_actor_id = i,
     br_single_entry = single, br_slot = slot\<rparr>"

definition add_dpu_bridge :: "bridge_spec \<Rightarrow> dpu_actor \<Rightarrow> dpu_actor" where
  "add_dpu_bridge b a = a\<lparr>d_bridges := d_bridges a @ [b]\<rparr>"

definition handle_dpu_message :: "hamgrd_env \<Rightarrow> string \<Rightarrow> unit dpu_act" where
  "handle_dpu_message env key =
     act_bind (reads (read_msg (of_j_kfv (env_serde env)) key)) (\<lambda>k.
       if kfv_operation k = KDel then stop_actor
       else act_bind (of_outcome (of_sum (of_fv_dpu (env_serde env) (kfv_field_values k)))) (\<lambda>d.
         case env_npu_ipv4 env of
           None \<Rightarrow> of_outcome (Err ''npu_ipv4 taken from Loopback0 must be available'')
         | Some npu4 \<Rightarrow> with_state (\<lambda>s.
             let managed = (dpu_dpu_id d = slot_id env);
                 first_time = (d_dpu (self s) = None);
                 i = d_id (self s)
             in act_seq (update_self (\<lambda>a. a\<lparr>d_dpu := Some (LocalDpu d managed npu4 (env_npu_ipv6 env))\<rparr>))
               (act_seq
                 (if managed \<and> first_time then
                    for_each (\<lambda>b. push_bridge env b add_dpu_bridge)
                      [dpu_bridge dash_ha_global_config_tbl i True None,
                       dpu_bridge remote_dpu_tbl i False None,
                       dpu_bridge dash_bfd_probe_state_tbl i True None,
                       dpu_bridge dpu_state_tbl i True (Some (dpu_dpu_id d))]
                  else ret ())
                 (update_dpu_state env None)))))"

definition dpu_handle_message :: "hamgrd_env \<Rightarrow> string \<Rightarrow> unit dpu_act" where
  "dpu_handle_message env key = with_state (\<lambda>s.
     if key = table_name dpu_tbl then handle_dpu_message env key
     else if starts_with key (table_name remote_dpu_tbl) then handle_remote_dpu_message env key
     else if d_dpu (self s) = None then ret ()
     else if is_registration_msg key DPUState then handle_dpu_state_registration env key
     else if \<not> is_local_managed (self s) then ret ()
     else if key = table_name dash_ha_global_config_tbl then update_bfd_sessions env
     else if key = table_name dpu_state_tbl \<or> key = table_name dash_bfd_probe_state_tbl
       then update_dpu_state env None
     else ret ())"

section \<open>The actor satisfies the contract of the driver\<close>

lemma api_dpu_data [frame_intros]:
  "(\<And>d m n4 n6. api_act cd (f d m n4 n6)) \<Longrightarrow> (\<And>r. api_act cd (g r)) \<Longrightarrow>
    api_act cd (case dd of LocalDpu d m n4 n6 \<Rightarrow> f d m n4 n6 | RemoteDpu r \<Rightarrow> g r)"
  by (cases dd) simp_all

lemma api_update_dpu_state [frame_intros]: "api_act (env_codec env) (update_dpu_state env t)"
  unfolding update_dpu_state_def by (intro frame_intros)

lemma api_update_bfd_session [frame_intros]: "api_act (env_codec env) (update_bfd_session env cfg p)"
  unfolding update_bfd_session_def by (intro frame_intros)

lemma api_dpu_handle_message: "api_act (env_codec env) (dpu_handle_message env key)"
  unfolding dpu_handle_message_def handle_dpu_message_def handle_remote_dpu_message_def
    handle_remote_dpu_message_to_local_dpu_def handle_remote_dpu_message_to_remote_dpu_def
    handle_dpu_state_registration_def update_bfd_sessions_def
  by (intro frame_intros)

interpretation dpu: bus_actor "env_codec env" "as_handler (dpu_handle_message env)" for env
  by unfold_locales (rule as_handler_api [OF api_dpu_handle_message])

section \<open>What the actor does\<close>

lemma calm_dpu_data [calm_intros]:
  "(\<And>d m n4 n6. calm_act (f d m n4 n6)) \<Longrightarrow> (\<And>r. calm_act (g r)) \<Longrightarrow>
    calm_act (case dd of LocalDpu d m n4 n6 \<Rightarrow> f d m n4 n6 | RemoteDpu r \<Rightarrow> g r)"
  by (cases dd) simp_all

lemma calm_update_dpu_state [calm_intros]: "calm_act (update_dpu_state env t)"
  unfolding update_dpu_state_def by (intro calm_intros)

lemma calm_update_bfd_session [calm_intros]: "calm_act (update_bfd_session env cfg p)"
  unfolding update_bfd_session_def by (intro calm_intros)

lemma calm_dpu_handle_message: "calm_act (dpu_handle_message env key)"
  unfolding dpu_handle_message_def handle_dpu_message_def handle_remote_dpu_message_def
    handle_remote_dpu_message_to_local_dpu_def handle_remote_dpu_message_to_remote_dpu_def
    handle_dpu_state_registration_def update_bfd_sessions_def get_dash_ha_global_config_def
  by (intro calm_intros) simp

text \<open>
  (C7) A DPU actor survives every history: whatever requests, responses, management requests, resend
  ticks and waiting times come, in whatever order, its driver returns and keeps its invariant; no
  \<open>unwrap\<close>, \<open>expect\<close> or index of the framework or of the actor panics.
\<close>

theorem dpu_driver_never_panics:
  fixes d :: "dpu_actor driver"
  assumes "actor_inv (dstate d)"
  shows "\<exists>d'. driver_run (env_codec env) dump (as_handler (dpu_handle_message env)) d evs = Ok d'
    \<and> actor_inv (dstate d')"
  using assms as_handler_calm [OF calm_dpu_handle_message] by (rule dpu.run_returns)

definition demo_driver :: "dpu_actor driver" where
  "demo_driver = \<lparr>actor = new_dpu_actor ''dpu0'', dstate = demo_state, stopped = False\<rparr>"

lemma demo_driver_inv: "actor_inv (dstate demo_driver)"
  by (simp add: demo_driver_def demo_state_def)

theorem dpu_driver_never_panics_witness:
  "\<exists>d'. driver_run (env_codec demo_env) (\<lambda>st. []) (as_handler (dpu_handle_message demo_env)) demo_driver
      [Incoming \<lparr>im_id = 1, im_source = demo_actor ''y'', im_destination = demo_actor ''x'', im_body = MRequest []\<rparr>,
       TimePasses 7, ResendTick] = Ok d' \<and> actor_inv (dstate d')"
  by (rule dpu_driver_never_panics) (rule demo_driver_inv)

text \<open>
  (C8) The callback of a DPU actor is a transaction of its driver. Accepting a request enters it and
  answers the sender; then, if the callback succeeds, exactly the messages it queued go out, once and
  in order, and each is kept for resending; if it fails, no message goes out, the database is not
  written and the resend queue is unchanged.
\<close>

theorem dpu_request_is_transaction:
  fixes d :: "dpu_actor driver"
  assumes "actor_inv (dstate d)" "im_body im = MRequest payload" "deserialize (env_codec env) payload = Inr m"
    and "st0 = accept_request (dstate d) m (im_source im) (im_id im)"
    and "as_handler (dpu_handle_message env) (actor d) st0 (am_key m) (stopped d) = ((a, st, stp), r)"
  shows "\<exists>st'. handle_swbus_message (env_codec env) dump (as_handler (dpu_handle_message env)) d im
      = Ok \<lparr>actor = a, dstate = st', stopped = stp\<rparr>
    \<and> (r = Ok () \<longrightarrow> wire st' = wire st0 @ map um_swbus_message (queued_messages st)
        \<and> (\<forall>u \<in> set (queued_messages st). \<exists>i. um_id u = Ok i \<and> i \<in> dom (map_of (unacked_messages st'))))
    \<and> (\<forall>e. r = Err e \<longrightarrow> wire st' = wire st0 \<and> db_writes st' = db_writes st0
        \<and> unacked_messages st' = unacked_messages st0)"
proof -
  let ?d = "d\<lparr>dstate := st0\<rparr>"
  have inv: "actor_inv (dstate ?d)" "am_key m \<in> fst ` set (incoming (dstate ?d))"
    using accept_request_inv [OF assms(1)] assms(4) by simp_all
  have eq: "handle_swbus_message (env_codec env) dump (as_handler (dpu_handle_message env)) d im
      = handle_actor_message (as_handler (dpu_handle_message env)) ?d (am_key m)"
    using dpu.handle_request_message [OF assms(3,2)] assms(4) by simp
  have h: "as_handler (dpu_handle_message env) (actor ?d) (dstate ?d) (am_key m) (stopped ?d) = ((a, st, stp), r)"
    using assms(5) by simp
  show ?thesis
  proof (cases r)
    case (Ok x)
    with dpu.callback_commits [OF inv, of env a st stp] h show ?thesis unfolding eq by auto
  next
    case (Err e)
    with dpu.callback_aborts [OF inv, of env a st stp] h show ?thesis unfolding eq by auto
  next
    case Panic
    moreover have "snd (as_handler (dpu_handle_message env) (actor ?d) (dstate ?d) (am_key m) (stopped ?d)) \<noteq> Panic"
      by (rule as_handler_calm) (rule calm_dpu_handle_message)
    ultimately show ?thesis using h by simp
  qed
qed

definition demo_codec_env :: hamgrd_env where
  "demo_codec_env = demo_env\<lparr>env_codec := \<lparr>serialize = (\<lambda>m. []),
     deserialize = (\<lambda>b. Inr \<lparr>am_key = ''DPU'', am_data = JStr ''dpu0''\<rparr>)\<rparr>\<rparr>"

definition demo_request :: incoming_message where
  "demo_request = \<lparr>im_id = 1, im_source = demo_actor ''y'', im_destination = demo_actor ''x'',
     im_body = MRequest []\<rparr>"

theorem dpu_request_is_transaction_witness:
  "\<exists>d'. handle_swbus_message (env_codec demo_codec_env) (\<lambda>st. [])
      (as_handler (dpu_handle_message demo_codec_env)) demo_driver demo_request = Ok d'"
proof -
  let ?m = "\<lparr>am_key = ''DPU'', am_data = JStr ''dpu0''\<rparr>"
  let ?st0 = "accept_request (dstate demo_driver) ?m (im_source demo_request) (im_id demo_request)"
  obtain a st stp r where h: "as_handler (dpu_handle_message demo_codec_env) (actor demo_driver) ?st0
      (am_key ?m) (stopped demo_driver) = ((a, st, stp), r)"
    by (metis surj_pair)
  have "im_body demo_request = MRequest []" "deserialize (env_codec demo_codec_env) [] = Inr ?m"
    by (simp_all add: demo_request_def demo_codec_env_def)
  from dpu_request_is_transaction [OF demo_driver_inv this refl h] show ?thesis by blast
qed

lemma calculate_dpu_state_local:
  assumes "d_dpu (self s) = Some (LocalDpu d managed npu4 npu6)"
    and "get_dpu_state env s = Ok ds" "get_bfd_probe_state env s = Ok bs"
  shows "calculate_dpu_state env s =
    (ds_midplane_link_state ds = PmonUp \<and> ds_control_plane_state ds = PmonUp
       \<and> ds_data_plane_state ds = PmonUp \<and> (v4_bfd_up_sessions bs \<noteq> [] \<or> v6_bfd_up_sessions bs \<noteq> []),
     Some ds, Some bs)"
  using assms by (simp add: calculate_dpu_state_def)

lemma update_dpu_state_all:
  assumes "d_dpu (self s) = Some dd" "j_dpu_actor_state (env_serde env) (dpu_report env s dd) = Inr j"
  shows "update_dpu_state env None s = (s\<lparr>tables := send_each (env_codec env) (tables s)
      (get_registered_actors (env_serde env) (tables s) DPUState)
      \<lparr>am_key = dpu_msg_key (d_id (self s)), am_data = j\<rparr>\<rparr>, Ok ())"
proof -
  have "new_dpu_state_msg (env_serde env) (d_id (self s)) (dpu_report env s dd)
      = Ok \<lparr>am_key = dpu_msg_key (d_id (self s)), am_data = j\<rparr>"
    using assms(2) by (simp add: new_dpu_state_msg_def new_actor_message_def)
  then show ?thesis
    using assms(1)
    by (simp add: update_dpu_state_def with_state_def act_bind_def of_outcome_def for_each_send)
qed

lemma dpu_handle_state_keys:
  assumes "key = ''DPU_STATE'' \<or> key = ''DASH_BFD_PROBE_STATE''"
    and "d_dpu (self s) = Some (LocalDpu d True npu4 npu6)"
  shows "dpu_handle_message env key s = update_dpu_state env None s"
  using assms(1)
  by (rule disjE)
    (simp_all add: assms(2) dpu_handle_message_def with_state_def table_defs is_registration_msg_def
      is_local_managed_def)

text \<open>
  When the power/link state or the BFD probe state of a locally managed DPU changes, every actor
  that is registered for this DPU is sent the DPU's new state, under the key of this DPU, and the
  state is \<open>up\<close> exactly when midplane, control plane and data plane are all up and some IPv4 or IPv6
  BFD session is up.
\<close>

theorem dpu_state_change_is_reported:
  assumes "key = ''DPU_STATE'' \<or> key = ''DASH_BFD_PROBE_STATE''"
    and "d_dpu (self s) = Some (LocalDpu d True npu4 npu6)"
    and "get_dpu_state env s = Ok ds" "get_bfd_probe_state env s = Ok bs"
    and "j_dpu_actor_state (env_serde env)
      ((from_dpu (d_id (self s)) d True npu4 npu6 (Some ds) (Some bs))
        \<lparr>da_up := ds_midplane_link_state ds = PmonUp \<and> ds_control_plane_state ds = PmonUp
           \<and> ds_data_plane_state ds = PmonUp
           \<and> (v4_bfd_up_sessions bs \<noteq> [] \<or> v6_bfd_up_sessions bs \<noteq> [])\<rparr>) = Inr j"
  shows "\<exists>s'. dpu_handle_message env key s = (s', Ok ()) \<and> self s' = self s \<and> stop s' = stop s
    \<and> queued_pairs (tables s') = queued_pairs (tables s)
        @ map (\<lambda>sp. (Some sp, \<lparr>am_key = ''DPUStateUpdate|'' @ d_id (self s), am_data = j\<rparr>))
            (get_registered_actors (env_serde env) (tables s) DPUState)"
proof -
  have "j_dpu_actor_state (env_serde env) (dpu_report env s (LocalDpu d True npu4 npu6)) = Inr j"
    using calculate_dpu_state_local [OF assms(2-4)] assms(5) by (simp add: dpu_report_def)
  from update_dpu_state_all [OF assms(2) this] dpu_handle_state_keys [OF assms(1,2)]
  show ?thesis by (simp add: dpu_msg_key_def)
qed

definition demo_dpu_hstate :: "dpu_actor hstate" where
  "demo_dpu_hstate = \<lparr>self = (new_dpu_actor ''dpu0'')\<lparr>d_dpu := Some (LocalDpu demo_dpu True ''10.0.0.1'' None)\<rparr>,
     tables = demo_tables [(''DPU_STATE'', JStr ''dpu0''), (''DASH_BFD_PROBE_STATE'', JStr ''x''),
       (''DASH_HA_GLOBAL_CONFIG'', JStr ''global''), (''REMOTE_DPU|r'', JStr ''r''),
       (''DPUStateRegister|v'', JBool True)], stop = False\<rparr>"

lemma demo_dpu_reads:
  "get_dpu_state demo_env demo_dpu_hstate = Ok demo_dpu_state"
  "get_bfd_probe_state demo_env demo_dpu_hstate = Ok demo_bfd_state"
  "get_dash_ha_global_config demo_env demo_dpu_hstate = Ok demo_global_config"
  "get_registered_actors (env_serde demo_env) (tables demo_dpu_hstate) DPUState = [demo_actor ''y'']"
  "remote_npus demo_env demo_dpu_hstate = [''10.0.0.2'']"
  by (simp_all add: get_dpu_state_def get_bfd_probe_state_def get_dash_ha_global_config_def
      demo_dpu_hstate_def demo_act_defs table_defs get_registered_actors_def get_by_prefix_def
      List.map_filter_def remote_npus_def demo_remote_dpu_def)

lemma demo_dpu_self:
  "d_dpu (self demo_dpu_hstate) = Some (LocalDpu demo_dpu True ''10.0.0.1'' None)"
  "d_id (self demo_dpu_hstate) = ''dpu0''"
  by (simp_all add: demo_dpu_hstate_def new_dpu_actor_def)

lemma demo_encoders:
  "j_dpu_actor_state (env_serde demo_env) x = Inr (JBool (da_up x))"
  "j_kfv (env_serde demo_env) k = Inr (JStr (kfv_key k))"
  "fv_bfd_session (env_serde demo_env) b = Inr [(''local_addr'', bs_local_addr b)]"
  by (simp_all add: demo_env_def demo_serde_def)

theorem dpu_state_change_is_reported_witness:
  "\<exists>s'. dpu_handle_message demo_env ''DPU_STATE'' demo_dpu_hstate = (s', Ok ())
    \<and> queued_pairs (tables s') = queued_pairs (tables demo_dpu_hstate)
       @ [(Some (demo_actor ''y''), \<lparr>am_key = ''DPUStateUpdate|dpu0'', am_data = JBool True\<rparr>)]"
  using dpu_state_change_is_reported [of "''DPU_STATE''" demo_dpu_hstate demo_dpu "''10.0.0.1''" None demo_env
      demo_dpu_state demo_bfd_state "JBool True"]
  by (simp add: demo_dpu_reads demo_dpu_self demo_encoders)
    (auto simp: demo_dpu_state_def demo_bfd_state_def)

lemma update_bfd_session_local:
  assumes "d_dpu (self s) = Some (LocalDpu d managed npu4 npu6)"
    and "fv_bfd_session (env_serde env) (bfd_session_of d cfg) = Inr fv"
    and "\<And>k. j_kfv (env_serde env) k = Inr (jk k)"
  shows "update_bfd_session env cfg p s = (s\<lparr>tables := outgoing_send (env_codec env) (tables s)
      (common_bridge_sp (tables s) ''DPU_APPL_DB'' ''BFD_SESSION_TABLE'')
      \<lparr>am_key = d_id (self s), am_data = jk \<lparr>kfv_key = ''default:default:'' @ p, kfv_operation = KSet,
         kfv_field_values = fv\<rparr>\<rparr>\<rparr>, Ok ())"
  using assms
  by (simp add: update_bfd_session_def act_defs bfd_session_tbl_def new_actor_message_def Let_def)

lemma for_each_bfd_session:
  assumes "d_dpu (self s) = Some (LocalDpu d managed npu4 npu6)"
    and "fv_bfd_session (env_serde env) (bfd_session_of d cfg) = Inr fv"
    and "\<And>k. j_kfv (env_serde env) k = Inr (jk k)"
  shows "\<exists>st. for_each (update_bfd_session env cfg) ps s = (s\<lparr>tables := st\<rparr>, Ok ())
    \<and> queued_pairs st = queued_pairs (tables s) @ map (\<lambda>p.
        (Some (common_bridge_sp (tables s) ''DPU_APPL_DB'' ''BFD_SESSION_TABLE''),
         \<lparr>am_key = d_id (self s), am_data = jk \<lparr>kfv_key = ''default:default:'' @ p, kfv_operation = KSet,
            kfv_field_values = fv\<rparr>\<rparr>)) ps"
  using assms
proof (induction ps arbitrary: s)
  case Nil
  show ?case by (intro exI [of _ "tables s"]) (simp add: ret_def)
next
  case (Cons p ps)
  let ?s = "s\<lparr>tables := outgoing_send (env_codec env) (tables s)
      (common_bridge_sp (tables s) ''DPU_APPL_DB'' ''BFD_SESSION_TABLE'')
      \<lparr>am_key = d_id (self s), am_data = jk \<lparr>kfv_key = ''default:default:'' @ p, kfv_operation = KSet,
         kfv_field_values = fv\<rparr>\<rparr>\<rparr>"
  have sp: "common_bridge_sp (tables ?s) x y = common_bridge_sp (tables s) x y" for x y
    by (simp add: common_bridge_sp_def from_my_sp_def)
  have "for_each (update_bfd_session env cfg) (p # ps) s = for_each (update_bfd_session env cfg) ps ?s"
    using update_bfd_session_local [OF Cons.prems] by (simp add: act_seq_def act_bind_def)
  with Cons.IH [of ?s] Cons.prems sp show ?case by (simp del: for_each.simps)
qed

lemma distinct_count_list: "distinct xs \<Longrightarrow> count_list xs p = (if p \<in> set xs then 1 else 0)"
  by (induction xs) auto

lemma count_list_sort: "count_list (sort xs) p = count_list xs p"
proof -
  have "count_list (insort x xs) p = count_list (x # xs) p" for x and xs :: "'a :: linorder list"
    by (induction xs) auto
  then show ?thesis by (induction xs) auto
qed

text \<open>The NPUs of the remote DPUs an actor has heard of: the addresses in the readable entries of REMOTE_DPU.\<close>

definition known_npus :: "hamgrd_env \<Rightarrow> dpu_actor hstate \<Rightarrow> string set" where
  "known_npus env s =
     {rd_npu_ipv4 r | key e k r. (key, e) \<in> set (incoming (tables s)) \<and> prefix ''REMOTE_DPU'' key \<and>
        of_j_kfv (env_serde env) (am_data (in_msg e)) = Inr k \<and>
        of_fv_remote_dpu (env_serde env) (kfv_field_values k) = Inr r}"

lemma remote_npus_known: "set (remote_npus env s) = known_npus env s" "distinct (remote_npus env s)"
proof -
  show "set (remote_npus env s) = known_npus env s"
    by (auto simp: remote_npus_def known_npus_def get_by_prefix_def List.map_filter_def table_defs
        split: sum.splits) force+
  show "distinct (remote_npus env s)" by (simp add: remote_npus_def)
qed

text \<open>
  (C30) When the global configuration of a locally managed DPU arrives, it programs one BFD session for every distinct NPU of
  the remote DPUs it has heard of and one for its own NPU (so two for the own one if a remote DPU names it), in
  ascending order of the NPU addresses, each under the key \<open>default:default:<npu>\<close>. Each session is passive, multihop, not
  shut down, from the address of the DPU, with the interval for both directions and the multiplier of the configuration. The
  configuration must be readable and the session and its entry must have an encoding.
\<close>

theorem global_config_programs_bfd_sessions:
  assumes "d_dpu (self s) = Some (LocalDpu d True npu4 npu6)"
    and "get_dash_ha_global_config env s = Ok cfg"
    and "fv_bfd_session (env_serde env)
      \<lparr>bs_tx_interval = gc_dpu_bfd_probe_interval_in_ms cfg, bs_rx_interval = gc_dpu_bfd_probe_interval_in_ms cfg,
       bs_multiplier = gc_dpu_bfd_probe_multiplier cfg, bs_multihop = True, bs_shutdown = False,
       bs_local_addr = dpu_pa_ipv4 d, bs_session_type = Some ''passive''\<rparr> = Inr fv"
    and "\<And>k. j_kfv (env_serde env) k = Inr (jk k)"
  shows "\<exists>s' ps. dpu_handle_message env ''DASH_HA_GLOBAL_CONFIG'' s = (s', Ok ()) \<and> self s' = self s \<and> sorted ps
    \<and> (\<forall>p. count_list ps p = (if p \<in> known_npus env s then 1 else 0) + (if p = npu4 then 1 else 0))
    \<and> queued_pairs (tables s') = queued_pairs (tables s) @ map (\<lambda>p.
        (Some (common_bridge_sp (tables s) ''DPU_APPL_DB'' ''BFD_SESSION_TABLE''),
         \<lparr>am_key = d_id (self s), am_data = jk \<lparr>kfv_key = ''default:default:'' @ p, kfv_operation = KSet,
            kfv_field_values = fv\<rparr>\<rparr>)) ps"
proof -
  let ?ps = "sort (remote_npus env s @ [npu4])"
  have fv: "fv_bfd_session (env_serde env) (bfd_session_of d cfg) = Inr fv"
    using assms(3) by (simp add: bfd_session_of_def)
  obtain st where "for_each (update_bfd_session env cfg) ?ps s = (s\<lparr>tables := st\<rparr>, Ok ())"
    "queued_pairs st = queued_pairs (tables s) @ map (\<lambda>p.
        (Some (common_bridge_sp (tables s) ''DPU_APPL_DB'' ''BFD_SESSION_TABLE''),
         \<lparr>am_key = d_id (self s), am_data = jk \<lparr>kfv_key = ''default:default:'' @ p, kfv_operation = KSet,
            kfv_field_values = fv\<rparr>\<rparr>)) ?ps"
    using for_each_bfd_session [OF assms(1) fv assms(4)] by blast
  moreover have "dpu_handle_message env ''DASH_HA_GLOBAL_CONFIG'' s = for_each (update_bfd_session env cfg) ?ps s"
    using assms(1,2)
    by (simp add: dpu_handle_message_def with_state_def table_defs is_registration_msg_def
        is_local_managed_def update_bfd_sessions_def act_bind_def reads_def)
  moreover have "count_list ?ps p = (if p \<in> known_npus env s then 1 else 0) + (if p = npu4 then 1 else 0)" for p
    using distinct_count_list [OF remote_npus_known(2)] by (simp add: count_list_sort remote_npus_known(1))
  ultimately show ?thesis
    by (intro exI [of _ "s\<lparr>tables := st\<rparr>"] exI [of _ ?ps]) auto
qed

theorem global_config_programs_bfd_sessions_witness:
  "\<exists>s' ps. dpu_handle_message demo_env ''DASH_HA_GLOBAL_CONFIG'' demo_dpu_hstate = (s', Ok ())
    \<and> sorted ps \<and> (\<forall>p. count_list ps p = (if p \<in> {''10.0.0.1'', ''10.0.0.2''} then 1 else 0))
    \<and> map (am_data \<circ> snd) (queued_pairs (tables s'))
       = map (am_data \<circ> snd) (queued_pairs (tables demo_dpu_hstate)) @ map (\<lambda>p. JStr (''default:default:'' @ p)) ps"
proof -
  have n: "known_npus demo_env demo_dpu_hstate = {''10.0.0.2''}"
    using remote_npus_known(1) [of demo_env demo_dpu_hstate] unfolding demo_dpu_reads(5) by simp
  obtain s' ps where r: "dpu_handle_message demo_env ''DASH_HA_GLOBAL_CONFIG'' demo_dpu_hstate = (s', Ok ())"
    "sorted ps" "\<forall>p. count_list ps p = (if p \<in> {''10.0.0.2''} then 1 else 0) + (if p = ''10.0.0.1'' then 1 else 0)"
    and q: "queued_pairs (tables s') = queued_pairs (tables demo_dpu_hstate) @ map (\<lambda>p.
        (Some (common_bridge_sp (tables demo_dpu_hstate) ''DPU_APPL_DB'' ''BFD_SESSION_TABLE''),
         \<lparr>am_key = d_id (self demo_dpu_hstate), am_data = JStr (kfv_key \<lparr>kfv_key = ''default:default:'' @ p,
            kfv_operation = KSet, kfv_field_values = [(''local_addr'', ''18.0.0.1'')]\<rparr>)\<rparr>)) ps"
    using global_config_programs_bfd_sessions [OF demo_dpu_self(1) demo_dpu_reads(3), of _ "\<lambda>k. JStr (kfv_key k)"]
    unfolding n by (auto simp: demo_encoders demo_dpu_def)
  have "\<forall>p. count_list ps p = (if p \<in> {''10.0.0.1'', ''10.0.0.2''} then 1 else 0)"
    using r(3) by auto
  moreover have "map (am_data \<circ> snd) (queued_pairs (tables s'))
      = map (am_data \<circ> snd) (queued_pairs (tables demo_dpu_hstate)) @ map (\<lambda>p. JStr (''default:default:'' @ p)) ps"
    unfolding q by (simp add: o_def)
  ultimately show ?thesis using r(1,2) by blast
qed

end
