(* ===== verification/Hamgrd_VDpu.thy ===== *)
theory Hamgrd_VDpu
  imports Hamgrd_Dpu
begin

text \<open>
  The vDPU actor (\<open>actors/vdpu.rs\<close>): it registers with the DPUs of its configuration and passes the
  state of its first DPU on to the actors registered with it.
\<close>

record vdpu_actor =
  v_id :: string
  v_vdpu :: "vdpu option"

definition new_vdpu_actor :: "string \<Rightarrow> vdpu_actor" where
  "new_vdpu_actor key = \<lparr>v_id = key, v_vdpu = None\<rparr>"

definition vdpu_actor_name :: string where "vdpu_actor_name = ''vdpu''"

type_synonym 'r vdpu_act = "(vdpu_actor, 'r) act"

definition register_to_dpu_actor :: "hamgrd_env \<Rightarrow> bool \<Rightarrow> unit vdpu_act" where
  "register_to_dpu_actor env active = with_state (\<lambda>s.
     case v_vdpu (self s) of
       None \<Rightarrow> ret ()
     | Some v \<Rightarrow>
         act_bind (of_outcome (new_registration_msg (env_serde env) active DPUState (v_id (self s)))) (\<lambda>msg.
           for_each (\<lambda>i. send_msg (env_codec env) (from_my_sp (tables s) dpu_actor_name i) msg) (main_dpu_ids v)))"

definition handle_vdpu_message :: "hamgrd_env \<Rightarrow> string \<Rightarrow> unit vdpu_act" where
  "handle_vdpu_message env key =
     act_bind (reads (read_msg (of_j_kfv (env_serde env)) key)) (\<lambda>k.
       if kfv_operation k = KDel then act_seq (register_to_dpu_actor env False) stop_actor
       else act_bind (of_outcome (of_sum (of_fv_vdpu (env_serde env) (kfv_field_values k)))) (\<lambda>v.
         act_seq (update_self (\<lambda>a. a\<lparr>v_vdpu := Some v\<rparr>)) (register_to_dpu_actor env True)))"

text \<open>\<open>self.vdpu.as_ref().unwrap()\<close>; a missing or undecodable DPU state gives \<open>None\<close>.\<close>

definition calculate_vdpu_state :: "hamgrd_env \<Rightarrow> vdpu_actor hstate \<Rightarrow> vdpu_actor_state option outcome" where
  "calculate_vdpu_state env s =
     (case v_vdpu (self s) of
        None \<Rightarrow> Panic
      | Some v \<Rightarrow>
          (case main_dpu_ids v of
             [] \<Rightarrow> Ok None
           | i # _ \<Rightarrow>
               (case incoming_get (tables s) (dpu_msg_key i) of
                  Ok m \<Rightarrow>
                    (case deserialize_data (of_j_dpu_actor_state (env_serde env)) m of
                       Ok d \<Rightarrow> Ok (Some \<lparr>va_up = da_up d, va_dpu = d\<rparr>)
                     | _ \<Rightarrow> Ok None)
                | _ \<Rightarrow> Ok None)))"

definition handle_dpu_state_update :: "hamgrd_env \<Rightarrow> unit vdpu_act" where
  "handle_dpu_state_update env = with_state (\<lambda>s.
     act_bind (of_outcome (calculate_vdpu_state env s)) (\<lambda>vo. case vo of
       None \<Rightarrow> ret ()
     | Some v \<Rightarrow>
         act_bind (of_outcome (new_vdpu_state_msg (env_serde env) (v_id (self s)) v)) (\<lambda>msg.
           for_each (\<lambda>sp. send_msg (env_codec env) sp msg)
             (get_registered_actors (env_serde env) (tables s) VDPUState))))"

definition handle_vdpu_state_registration :: "hamgrd_env \<Rightarrow> string \<Rightarrow> unit vdpu_act" where
  "handle_vdpu_state_registration env key = with_state (\<lambda>s.
     act_bind (of_outcome (get_entry (tables s) key)) (\<lambda>e.
       act_bind (of_outcome (deserialize_data (of_j_registration (env_serde env)) (in_msg e))) (\<lambda>active.
         if active then
           act_bind (of_outcome (calculate_vdpu_state env s)) (\<lambda>vo. case vo of
             None \<Rightarrow> ret ()
           | Some v \<Rightarrow>
               act_bind (of_outcome (new_vdpu_state_msg (env_serde env) (v_id (self s)) v)) (\<lambda>msg.
                 send_msg (env_codec env) (in_source e) msg))
         else ret ())))"

definition vdpu_handle_message :: "hamgrd_env \<Rightarrow> string \<Rightarrow> unit vdpu_act" where
  "vdpu_handle_message env key = with_state (\<lambda>s.
     if key = table_name vdpu_tbl then handle_vdpu_message env key
     else if v_vdpu (self s) = None then ret ()
     else if is_dpu_msg key then handle_dpu_state_update env
     else if is_registration_msg key VDPUState then handle_vdpu_state_registration env key
     else ret ())"

section \<open>Contract of the driver\<close>

lemma api_register_to_dpu [frame_intros]: "api_act (env_codec env) (register_to_dpu_actor env active)"
  unfolding register_to_dpu_actor_def by (intro frame_intros)

lemma api_vdpu_handle_message: "api_act (env_codec env) (vdpu_handle_message env key)"
  unfolding vdpu_handle_message_def handle_vdpu_message_def handle_dpu_state_update_def
    handle_vdpu_state_registration_def
  by (intro frame_intros)

interpretation vdpu: bus_actor "env_codec env" "as_handler (vdpu_handle_message env)" for env
  by unfold_locales (rule as_handler_api [OF api_vdpu_handle_message])

lemma calm_register_to_dpu [calm_intros]: "calm_act (register_to_dpu_actor env active)"
  unfolding register_to_dpu_actor_def by (intro calm_intros)

lemma calculate_vdpu_calm: "v_vdpu (self s) \<noteq> None \<Longrightarrow> calculate_vdpu_state env s \<noteq> Panic"
  by (auto simp: calculate_vdpu_state_def split: list.splits exec.splits)

text \<open>The \<open>unwrap\<close> of \<open>calculate_vdpu_state\<close> is guarded by the check of \<open>handle_message\<close>.\<close>

lemma calm_vdpu_handle_message: "calm_act (vdpu_handle_message env key)"
proof -
  have c: "calm_act (handle_vdpu_message env key)"
    unfolding handle_vdpu_message_def by (intro calm_intros)
  have u: "snd (handle_dpu_state_update env s) \<noteq> Panic" if "v_vdpu (self s) \<noteq> None" for s
    unfolding handle_dpu_state_update_def
    by (rule with_state_calm) (intro calm_intros calculate_vdpu_calm that)
  have r: "snd (handle_vdpu_state_registration env key s) \<noteq> Panic" if "v_vdpu (self s) \<noteq> None" for s
    unfolding handle_vdpu_state_registration_def
    by (rule with_state_calm) (intro calm_intros calculate_vdpu_calm that)
  show ?thesis
    using c u r by (auto simp: calm_act_def vdpu_handle_message_def with_state_def ret_def)
qed

section \<open>What the actor does\<close>

text \<open>
  A vDPU actor survives every history of its driver, including state updates and registrations
  that arrive before its configuration.
\<close>

theorem vdpu_driver_never_panics:
  fixes d :: "vdpu_actor driver"
  assumes "actor_inv (dstate d)"
  shows "\<exists>d'. driver_run (env_codec env) dump (as_handler (vdpu_handle_message env)) d evs = Ok d'
    \<and> actor_inv (dstate d')"
  using assms as_handler_calm [OF calm_vdpu_handle_message] by (rule vdpu.run_returns)

theorem vdpu_driver_never_panics_witness:
  "\<exists>d'. driver_run (env_codec demo_env) (\<lambda>st. []) (as_handler (vdpu_handle_message demo_env))
      \<lparr>actor = new_vdpu_actor ''vdpu0'', dstate = demo_state, stopped = False\<rparr>
      [Incoming demo_request, ResendTick] = Ok d' \<and> actor_inv (dstate d')"
  by (rule vdpu_driver_never_panics) (simp add: demo_state_def)

lemma for_each_send_dests:
  "for_each (\<lambda>i. send_msg cd (f i) m) xs s = (s\<lparr>tables := send_each cd (tables s) (map f xs) m\<rparr>, Ok ())"
  by (induction xs arbitrary: s) (simp_all add: act_defs)

text \<open>
  A vDPU mirrors its first DPU: when a DPU state update arrives, every actor registered for the
  vDPU is sent the state that the vDPU holds for its first configured DPU, with the vDPU up exactly
  when that DPU is up; while that state has not arrived, nothing is sent.
\<close>

theorem vdpu_mirrors_first_dpu:
  assumes "is_dpu_msg key" "v_vdpu (self s) = Some v" "main_dpu_ids v = i # is"
  shows "(\<forall>m d j. incoming_get (tables s) (''DPUStateUpdate|'' @ i) = Ok m
          \<longrightarrow> of_j_dpu_actor_state (env_serde env) (am_data m) = Inr d
          \<longrightarrow> j_vdpu_actor_state (env_serde env) \<lparr>va_up = da_up d, va_dpu = d\<rparr> = Inr j \<longrightarrow>
        (\<exists>s'. vdpu_handle_message env key s = (s', Ok ()) \<and> self s' = self s
          \<and> queued_pairs (tables s') = queued_pairs (tables s)
              @ map (\<lambda>sp. (Some sp, \<lparr>am_key = ''VDPUStateUpdate|'' @ v_id (self s), am_data = j\<rparr>))
                  (get_registered_actors (env_serde env) (tables s) VDPUState)))
    \<and> (\<not> is_ok (incoming_get (tables s) (''DPUStateUpdate|'' @ i)) \<longrightarrow> vdpu_handle_message env key s = (s, Ok ()))"
proof -
  have k: "key \<noteq> ''VDPU''"
    using assms(1) by (auto simp: is_dpu_msg_def)
  have h: "vdpu_handle_message env key s = handle_dpu_state_update env s"
    using assms k by (simp add: vdpu_handle_message_def with_state_def table_defs)
  have none: "handle_dpu_state_update env s = (s, Ok ())"
    if "\<not> is_ok (incoming_get (tables s) (''DPUStateUpdate|'' @ i))"
    using assms that
    by (cases "incoming_get (tables s) (''DPUStateUpdate|'' @ i)")
      (simp_all add: handle_dpu_state_update_def act_defs calculate_vdpu_state_def dpu_msg_key_def)
  have some: "handle_dpu_state_update env s = (s\<lparr>tables := send_each (env_codec env) (tables s)
      (get_registered_actors (env_serde env) (tables s) VDPUState)
      \<lparr>am_key = vdpu_msg_key (v_id (self s)), am_data = j\<rparr>\<rparr>, Ok ())"
    if "incoming_get (tables s) (''DPUStateUpdate|'' @ i) = Ok m"
      "of_j_dpu_actor_state (env_serde env) (am_data m) = Inr d"
      "j_vdpu_actor_state (env_serde env) \<lparr>va_up = da_up d, va_dpu = d\<rparr> = Inr j" for m d j
    using assms that
    by (simp add: handle_dpu_state_update_def with_state_def act_bind_def of_outcome_def calculate_vdpu_state_def
        dpu_msg_key_def deserialize_data_def new_vdpu_state_msg_def new_actor_message_def for_each_send)
  show ?thesis
    using h none some by (auto simp: vdpu_msg_key_def)
qed

definition demo_vdpu_hstate :: "vdpu_actor hstate" where
  "demo_vdpu_hstate = \<lparr>self = (new_vdpu_actor ''vdpu0'')\<lparr>v_vdpu := Some \<lparr>main_dpu_ids = [''dpu0'']\<rparr>\<rparr>,
     tables = demo_tables [(''DPUStateUpdate|dpu0'', JBool True), (''VDPUStateRegister|s'', JBool True)],
     stop = False\<rparr>"

theorem vdpu_mirrors_first_dpu_witness:
  "\<exists>s'. vdpu_handle_message demo_env ''DPUStateUpdate|dpu0'' demo_vdpu_hstate = (s', Ok ())
    \<and> queued_pairs (tables s') = queued_pairs (tables demo_vdpu_hstate)
       @ [(Some (demo_actor ''y''), \<lparr>am_key = ''VDPUStateUpdate|vdpu0'', am_data = JBool True\<rparr>)]"
proof -
  have g: "incoming_get (tables demo_vdpu_hstate) (''DPUStateUpdate|'' @ ''dpu0'')
      = Ok \<lparr>am_key = ''DPUStateUpdate|dpu0'', am_data = JBool True\<rparr>"
    and r: "get_registered_actors (env_serde demo_env) (tables demo_vdpu_hstate) VDPUState = [demo_actor ''y'']"
    by (simp_all add: demo_vdpu_hstate_def demo_act_defs get_registered_actors_def get_by_prefix_def
        List.map_filter_def)
  have e: "of_j_dpu_actor_state (env_serde demo_env) (JBool True) = Inr (demo_dpu_report\<lparr>da_up := True\<rparr>)"
    "j_vdpu_actor_state (env_serde demo_env) v = Inr (JBool (va_up v))" for v
    by (simp_all add: demo_env_def demo_serde_def)
  have k: "is_dpu_msg ''DPUStateUpdate|dpu0''" by (simp add: is_dpu_msg_def)
  have i: "v_id (self demo_vdpu_hstate) = ''vdpu0''" "v_vdpu (self demo_vdpu_hstate) = Some \<lparr>main_dpu_ids = [''dpu0'']\<rparr>"
    by (simp_all add: demo_vdpu_hstate_def new_vdpu_actor_def)
  from vdpu_mirrors_first_dpu [OF k i(2), of "''dpu0''" "[]" demo_env, simplified]
  show ?thesis using g r e i(1) by auto
qed

end
