(* ===== verification/Swbus_Json.thy ===== *)
theory Swbus_Json
  imports Swbus_Actor "HOL-Library.Countable" "HOL-Library.Multiset" "HOL-Library.List_Lexorder" "HOL-Library.Option_ord" "HOL-Library.Product_Lexorder"
begin

text \<open>
  Messages of the bus as JSON values: the serde code that \<open>swbus-proto/build.rs\<close> has derived for the generated
  types, with the adaptors of \<open>swbus.rs\<close> for service paths and for the entries of a route query, and
  \<open>normalize_msg\<close>, with which messages are compared.

  The generated code writes a struct as an object of its fields, an \<open>Option\<close> as \<open>null\<close> or the value, a \<open>oneof\<close> as an
  object with the name of the variant as its only field, bytes as an array of numbers. It reads an object by
  looking each field up (it would also read a struct from an array of its fields; nothing writes one). The text of a JSON
  value is the parameter \<open>json_text\<close> (\<open>to_string\<close> and \<open>from_str\<close> of \<open>serde_json\<close>).
\<close>

section \<open>Reading values\<close>

datatype de_error = DeMissing string | DeType | DeRange | DeVariant string | DePath string | DeSyntax

type_synonym 'a de = "(de_error, 'a) exec"

fun json_str :: "json \<Rightarrow> string de" where
  "json_str (JStr s) = Ok s"
| "json_str j = Err DeType"

fun json_int :: "int \<Rightarrow> int \<Rightarrow> json \<Rightarrow> int de" where
  "json_int lo up (JNum i) = (if lo \<le> i \<and> i < up then Ok i else Err DeRange)"
| "json_int lo up j = Err DeType"

text \<open>The ranges of \<open>u8\<close>, \<open>u32\<close>, \<open>u64\<close> and \<open>i32\<close>.\<close>

abbreviation json_u8 :: "json \<Rightarrow> int de" where "json_u8 \<equiv> json_int 0 256"
abbreviation json_u32 :: "json \<Rightarrow> int de" where "json_u32 \<equiv> json_int 0 4294967296"
abbreviation json_u64 :: "json \<Rightarrow> int de" where "json_u64 \<equiv> json_int 0 18446744073709551616"
abbreviation json_i32 :: "json \<Rightarrow> int de" where "json_i32 \<equiv> json_int (- 2147483648) 2147483648"

fun read_all :: "('a \<Rightarrow> ('e, 'b) exec) \<Rightarrow> 'a list \<Rightarrow> ('e, 'b list) exec" where
  "read_all f [] = Ok []"
| "read_all f (x # xs) = bind_exec (f x) (\<lambda>y. bind_exec (read_all f xs) (\<lambda>ys. Ok (y # ys)))"

fun json_arr :: "(json \<Rightarrow> 'a de) \<Rightarrow> json \<Rightarrow> 'a list de" where
  "json_arr rd (JArr js) = read_all rd js"
| "json_arr rd j = Err DeType"

fun json_opt :: "(json \<Rightarrow> 'a de) \<Rightarrow> json \<Rightarrow> 'a option de" where
  "json_opt rd JNull = Ok None"
| "json_opt rd j = bind_exec (rd j) (\<lambda>x. Ok (Some x))"

text \<open>A field of an object, with what is done when it is missing.\<close>

fun json_field :: "string \<Rightarrow> (json \<Rightarrow> 'a de) \<Rightarrow> 'a de \<Rightarrow> json \<Rightarrow> 'a de" where
  "json_field k rd missing (JObj ob) = (case map_of ob k of Some j \<Rightarrow> rd j | None \<Rightarrow> missing)"
| "json_field k rd missing j = Err DeType"

abbreviation required :: "string \<Rightarrow> (json \<Rightarrow> 'a de) \<Rightarrow> json \<Rightarrow> 'a de" where
  "required k rd \<equiv> json_field k rd (Err (DeMissing k))"

abbreviation optional :: "string \<Rightarrow> (json \<Rightarrow> 'a de) \<Rightarrow> json \<Rightarrow> 'a option de" where
  "optional k rd \<equiv> json_field k (json_opt rd) (Ok None)"

section \<open>Service paths\<close>

definition serialize_service_path_opt :: "service_path option \<Rightarrow> json" where
  "serialize_service_path_opt sp = (case sp of Some p \<Rightarrow> JStr (to_longest_path p) | None \<Rightarrow> JNull)"

definition deserialize_service_path :: "json \<Rightarrow> service_path de" where
  "deserialize_service_path j =
     bind_exec (json_str j) (\<lambda>s. case (from_string s :: service_path de) of Ok sp \<Rightarrow> Ok sp | _ \<Rightarrow> Err (DePath s))"

definition deserialize_service_path_opt :: "json \<Rightarrow> service_path option de" where
  "deserialize_service_path_opt j =
     bind_exec (json_str j) (\<lambda>s. case (from_string s :: service_path de) of Ok sp \<Rightarrow> Ok (Some sp) | _ \<Rightarrow> Err (DePath s))"

section \<open>Messages\<close>

text \<open>The id of a header and the id of a next hop are not written and read as their defaults when they are missing.\<close>

definition header_json :: "swbus_message_header \<Rightarrow> json" where
  "header_json h = JObj [(''version'', JNum (uint (version h))), (''flag'', JNum (uint (flag h))),
     (''ttl'', JNum (uint (ttl h))), (''source'', serialize_service_path_opt (source h)),
     (''destination'', serialize_service_path_opt (destination h))]"

definition of_header_json :: "json \<Rightarrow> swbus_message_header de" where
  "of_header_json j =
     bind_exec (required ''version'' json_u32 j) (\<lambda>v.
     bind_exec (json_field ''id'' json_u64 (Ok 0) j) (\<lambda>i.
     bind_exec (required ''flag'' json_u32 j) (\<lambda>f.
     bind_exec (required ''ttl'' json_u32 j) (\<lambda>t.
     bind_exec (required ''source'' deserialize_service_path_opt j) (\<lambda>src.
     bind_exec (required ''destination'' deserialize_service_path_opt j) (\<lambda>dst.
       Ok \<lparr>version = word_of_int v, msg_id = word_of_int i, flag = word_of_int f, ttl = word_of_int t,
           source = src, destination = dst\<rparr>))))))"

definition entry_json :: "route_query_result_entry \<Rightarrow> json" where
  "entry_json e = JObj [(''service_path'', serialize_service_path_opt (rq_service_path e)),
     (''nh_service_path'', serialize_service_path_opt (nh_service_path e)),
     (''nh_scope'', JNum (int (nh_scope e))), (''hop_count'', JNum (uint (rq_hop_count e)))]"

definition of_entry_json :: "json \<Rightarrow> route_query_result_entry de" where
  "of_entry_json j =
     bind_exec (required ''service_path'' deserialize_service_path_opt j) (\<lambda>sp.
     bind_exec (json_field ''nh_id'' json_str (Ok []) j) (\<lambda>i.
     bind_exec (required ''nh_service_path'' deserialize_service_path_opt j) (\<lambda>nsp.
     bind_exec (required ''nh_scope'' json_i32 j) (\<lambda>sc.
     bind_exec (required ''hop_count'' json_u32 j) (\<lambda>hc.
       Ok \<lparr>rq_service_path = sp, rq_hop_count = word_of_int hc, nh_id = i, nh_service_path = nsp, nh_scope = nat sc\<rparr>)))))"

definition route_result_json :: "route_query_result_entry list \<Rightarrow> json" where
  "route_result_json es = JObj [(''entries'', JArr (map entry_json (sorted_entries es)))]"

definition of_route_result_json :: "json \<Rightarrow> route_query_result_entry list de" where
  "of_route_result_json j = required ''entries'' (json_arr of_entry_json) j"

definition response_body_json :: "response_body \<Rightarrow> json" where
  "response_body_json b =
     (case b of
        RouteQueryResult es \<Rightarrow> JObj [(''RouteQueryResult'', route_result_json es)]
      | ManagementQueryResult v \<Rightarrow> JObj [(''ManagementQueryResult'', JObj [(''value'', JStr v)])])"

fun of_response_body_json :: "json \<Rightarrow> response_body de" where
  "of_response_body_json (JObj [(t, j)]) =
     (if t = ''RouteQueryResult'' then bind_exec (of_route_result_json j) (\<lambda>es. Ok (RouteQueryResult es))
      else if t = ''ManagementQueryResult'' then
        bind_exec (required ''value'' json_str j) (\<lambda>v. Ok (ManagementQueryResult v))
      else Err (DeVariant t))"
| "of_response_body_json j = Err DeType"

definition response_json :: "request_response \<Rightarrow> json" where
  "response_json r = JObj [(''request_id'', JNum (uint (request_id r))), (''error_code'', JNum (error_code r)),
     (''error_message'', JStr (error_message r)),
     (''response_body'', case resp_body r of None \<Rightarrow> JNull | Some b \<Rightarrow> response_body_json b)]"

definition of_response_json :: "json \<Rightarrow> request_response de" where
  "of_response_json j =
     bind_exec (required ''request_id'' json_u64 j) (\<lambda>i.
     bind_exec (required ''error_code'' json_i32 j) (\<lambda>c.
     bind_exec (required ''error_message'' json_str j) (\<lambda>t.
     bind_exec (optional ''response_body'' of_response_body_json j) (\<lambda>b.
       Ok \<lparr>request_id = word_of_int i, error_code = c, error_message = t, resp_body = b\<rparr>))))"

definition argument_json :: "string \<times> string \<Rightarrow> json" where
  "argument_json a = JObj [(''name'', JStr (fst a)), (''value'', JStr (snd a))]"

definition of_argument_json :: "json \<Rightarrow> (string \<times> string) de" where
  "of_argument_json j =
     bind_exec (required ''name'' json_str j) (\<lambda>n. bind_exec (required ''value'' json_str j) (\<lambda>v. Ok (n, v)))"

fun json_empty :: "json \<Rightarrow> unit de" where
  "json_empty (JObj ob) = Ok ()"
| "json_empty j = Err DeType"

fun body_json :: "body \<Rightarrow> json" where
  "body_json (Response r) = JObj [(''Response'', response_json r)]"
| "body_json RegistrationQueryRequest = JObj [(''RegistrationQueryRequest'', JObj [])]"
| "body_json RegistrationQueryResponse = JObj [(''RegistrationQueryResponse'', JObj [])]"
| "body_json PingRequest = JObj [(''PingRequest'', JObj [])]"
| "body_json TraceRouteRequest = JObj [(''TraceRouteRequest'', JObj [])]"
| "body_json (ManagementRequest t args) =
     JObj [(''ManagementRequest'', JObj [(''request'', JNum t), (''arguments'', JArr (map argument_json args))])]"
| "body_json (DataRequest p) = JObj [(''DataRequest'', JObj [(''payload'', JArr (map (\<lambda>b. JNum (uint b)) p))])]"

fun of_body_json :: "json \<Rightarrow> body de" where
  "of_body_json (JObj [(t, j)]) =
     (if t = ''Response'' then bind_exec (of_response_json j) (\<lambda>r. Ok (Response r))
      else if t = ''RegistrationQueryRequest'' then bind_exec (json_empty j) (\<lambda>_. Ok RegistrationQueryRequest)
      else if t = ''RegistrationQueryResponse'' then bind_exec (json_empty j) (\<lambda>_. Ok RegistrationQueryResponse)
      else if t = ''PingRequest'' then bind_exec (json_empty j) (\<lambda>_. Ok PingRequest)
      else if t = ''TraceRouteRequest'' then bind_exec (json_empty j) (\<lambda>_. Ok TraceRouteRequest)
      else if t = ''ManagementRequest'' then
        bind_exec (required ''request'' json_i32 j) (\<lambda>r.
        bind_exec (required ''arguments'' (json_arr of_argument_json) j) (\<lambda>args. Ok (ManagementRequest r args)))
      else if t = ''DataRequest'' then
        bind_exec (required ''payload'' (json_arr json_u8) j) (\<lambda>p. Ok (DataRequest (map word_of_int p)))
      else Err (DeVariant t))"
| "of_body_json j = Err DeType"

definition message_json :: "swbus_message \<Rightarrow> json" where
  "message_json m = JObj [(''header'', case header m of None \<Rightarrow> JNull | Some h \<Rightarrow> header_json h),
     (''body'', case body m of None \<Rightarrow> JNull | Some b \<Rightarrow> body_json b)]"

definition of_message_json :: "json \<Rightarrow> swbus_message de" where
  "of_message_json j =
     bind_exec (optional ''header'' of_header_json j) (\<lambda>h.
     bind_exec (optional ''body'' of_body_json j) (\<lambda>b. Ok \<lparr>header = h, body = b\<rparr>))"

record json_text =
  jt_to_string :: "json \<Rightarrow> string"
  jt_from_str :: "string \<Rightarrow> json option"

definition normalize_msg :: "json_text \<Rightarrow> swbus_message \<Rightarrow> swbus_message de" where
  "normalize_msg jt m =
     (case jt_from_str jt (jt_to_string jt (message_json m)) of
        None \<Rightarrow> Panic
      | Some j \<Rightarrow> unwrap_exec (of_message_json j))"

section \<open>The order of entries\<close>

text \<open>
  The comparison of entries is the lexicographic order of the library on a key, so that the serializer's sort is the
  library's stable sort by that key.
\<close>

definition str_key :: "string \<Rightarrow> nat list" where
  "str_key s = map of_char s"

definition entry_key :: "route_query_result_entry \<Rightarrow> nat list list option \<times> nat" where
  "entry_key e = (map_option (\<lambda>p. map str_key (sp_fields p)) (rq_service_path e), unat (rq_hop_count e))"

lemma str_key_inj [simp]: "str_key s = str_key t \<longleftrightarrow> s = t"
  unfolding str_key_def by (rule inj_map_eq_map) (auto intro: injI)

lemma str_le_key: "str_le s t \<longleftrightarrow> str_key s \<le> str_key t"
  unfolding str_le_def str_key_def
proof (induction "of_char :: char \<Rightarrow> nat" s t rule: lex_le.induct)
  case (3 x xs y ys)
  then show ?case by (auto simp: Cons_le_Cons less_le)
qed simp_all

lemma fields_le_key: "fields_le xs ys \<longleftrightarrow> map str_key xs \<le> map str_key ys"
  by (induction xs ys rule: fields_le.induct) (auto simp: Cons_le_Cons str_le_key less_le)

lemma sp_fields_inj [simp]: "sp_fields p = sp_fields q \<longleftrightarrow> p = q"
  by (metis sp_fields_inverse)

lemma path_key_inj [simp]: "map str_key (sp_fields p) = map str_key (sp_fields q) \<longleftrightarrow> p = q"
  by (metis inj_map_eq_map injI str_key_inj sp_fields_inj)

lemma entry_le_key: "entry_le a b \<longleftrightarrow> entry_key a \<le> entry_key b"
  by (auto simp: entry_le_def entry_key_def sp_opt_le_def fields_le_key less_eq_prod_def word_le_nat_alt less_le
      split: option.splits)

lemma sorted_entries_sort_key: "sorted_entries es = sort_key entry_key es"
proof -
  have "insort_entry x ys = insort_key entry_key x ys" for x ys
    by (induction ys) (simp_all add: entry_le_key)
  then have "insort_entry = insort_key entry_key" by (intro ext)
  then show ?thesis by (simp add: sorted_entries_def sort_key_def)
qed

lemma sorted_entries_perm:
  assumes "mset es = mset es'" "distinct (map entry_key es)"
  shows "sorted_entries es = sorted_entries es'"
proof -
  have "set es = set es'" using assms(1) by (metis set_mset_mset)
  moreover have "distinct (map entry_key es')" using assms by (metis mset_eq_imp_distinct_iff mset_map)
  ultimately show ?thesis unfolding sorted_entries_sort_key
    by (intro map_sorted_distinct_set_unique [of entry_key]) (use assms(2) in \<open>auto simp: distinct_map\<close>)
qed

section \<open>Normal forms\<close>

definition normal_entry :: "route_query_result_entry \<Rightarrow> route_query_result_entry" where
  "normal_entry e = e\<lparr>nh_id := []\<rparr>"

fun normal_response_body :: "response_body \<Rightarrow> response_body" where
  "normal_response_body (RouteQueryResult es) = RouteQueryResult (map normal_entry (sorted_entries es))"
| "normal_response_body b = b"

fun normal_body :: "body \<Rightarrow> body" where
  "normal_body (Response r) = Response (r\<lparr>resp_body := map_option normal_response_body (resp_body r)\<rparr>)"
| "normal_body b = b"

definition normal_form :: "swbus_message \<Rightarrow> swbus_message" where
  "normal_form m = \<lparr>header = map_option (\<lambda>h. h\<lparr>msg_id := 0\<rparr>) (header m), body = map_option normal_body (body m)\<rparr>"

text \<open>The paths of a message, and the numbers of its fields of type \<open>i32\<close>.\<close>

fun body_entries :: "body option \<Rightarrow> route_query_result_entry list" where
  "body_entries (Some (Response r)) = (case resp_body r of Some (RouteQueryResult es) \<Rightarrow> es | _ \<Rightarrow> [])"
| "body_entries b = []"

definition header_paths :: "swbus_message_header option \<Rightarrow> service_path option list" where
  "header_paths h = (case h of None \<Rightarrow> [] | Some h \<Rightarrow> [source h, destination h])"

definition entry_paths :: "route_query_result_entry \<Rightarrow> service_path option list" where
  "entry_paths e = [rq_service_path e, nh_service_path e]"

definition paths_of :: "swbus_message \<Rightarrow> service_path option list" where
  "paths_of m = header_paths (header m) @ concat (map entry_paths (body_entries (body m)))"

definition i32 :: "int \<Rightarrow> bool" where
  "i32 i \<longleftrightarrow> - (2 ^ 31) \<le> i \<and> i < 2 ^ 31"

fun body_fits :: "body option \<Rightarrow> bool" where
  "body_fits (Some (Response r)) \<longleftrightarrow> i32 (error_code r) \<and> list_all (\<lambda>e. i32 (int (nh_scope e))) (body_entries (Some (Response r)))"
| "body_fits (Some (ManagementRequest t args)) \<longleftrightarrow> i32 t"
| "body_fits b \<longleftrightarrow> True"

definition path_readable :: "service_path option \<Rightarrow> bool" where
  "path_readable p \<longleftrightarrow> (case p of None \<Rightarrow> True | Some sp \<Rightarrow> sp_clean sp \<and> sp_gapless sp)"

lemma path_adaptors:
  "path_readable p \<Longrightarrow> deserialize_service_path_opt (serialize_service_path_opt p) =
    (if p = None then Err DeType else Ok p)"
  by (cases p) (simp_all add: path_readable_def deserialize_service_path_opt_def serialize_service_path_opt_def
      from_string_longest_path)

lemma json_uint [simp]:
  "json_u8 (JNum (uint (w8 :: byte))) = Ok (uint w8)" "json_u32 (JNum (uint (w32 :: u32))) = Ok (uint w32)"
  "json_u64 (JNum (uint (w64 :: u64))) = Ok (uint w64)"
  using uint_lt2p [of w8] uint_lt2p [of w32] uint_lt2p [of w64] by simp_all

lemma json_i32_fits [simp]: "i32 i \<Longrightarrow> json_i32 (JNum i) = Ok i"
  by (simp add: i32_def)

lemma read_all_map:
  "(\<And>x. x \<in> set xs \<Longrightarrow> rd (wr x) = Ok (f x)) \<Longrightarrow> read_all rd (map wr xs) = Ok (map f xs)"
  by (induction xs) simp_all

lemma read_all_fails:
  "x \<in> set xs \<Longrightarrow> (\<And>y. y \<in> set xs \<Longrightarrow> rd y \<noteq> Panic) \<Longrightarrow> is_ok (rd x) = False \<Longrightarrow> \<exists>e. read_all rd xs = Err e"
proof (induction xs)
  case (Cons y ys)
  then show ?case by (cases "rd y"; cases "x = y"; cases "read_all rd ys") fastforce+
qed simp

lemma header_json_read:
  assumes "list_all path_readable (header_paths (Some h))"
  shows "of_header_json (header_json h) = (if None \<in> set (header_paths (Some h)) then Err DeType else Ok (h\<lparr>msg_id := 0\<rparr>))"
  using assms by (cases h) (auto simp: of_header_json_def header_json_def header_paths_def path_adaptors simp del: json_int.simps)

lemma entry_json_read:
  assumes "list_all path_readable (entry_paths e)" "i32 (int (nh_scope e))"
  shows "of_entry_json (entry_json e) = (if None \<in> set (entry_paths e) then Err DeType else Ok (normal_entry e))"
  using assms
  by (cases e) (auto simp: of_entry_json_def entry_json_def entry_paths_def path_adaptors normal_entry_def simp del: json_int.simps)

lemma set_sorted_entries [simp]: "set (sorted_entries es) = set es"
  by (simp add: sorted_entries_sort_key)

text \<open>What was written is read as \<open>x\<close> if the condition holds, and refused otherwise.\<close>

definition reads_as :: "bool \<Rightarrow> 'a \<Rightarrow> 'a de \<Rightarrow> bool" where
  "reads_as ok x r \<longleftrightarrow> (if ok then r = Ok x else (\<exists>e. r = Err e))"

lemma reads_as_map: "reads_as ok x r \<Longrightarrow> reads_as ok (f x) (bind_exec r (\<lambda>y. Ok (f y)))"
  by (auto simp: reads_as_def split: if_splits)

lemma reads_as_bind:
  "reads_as a x r \<Longrightarrow> reads_as b y q \<Longrightarrow> reads_as (a \<and> b) (f x y) (bind_exec r (\<lambda>u. bind_exec q (\<lambda>v. Ok (f u v))))"
  by (auto simp: reads_as_def split: if_splits)

lemma reads_as_Ok [simp]: "reads_as True x (Ok x)"
  by (simp add: reads_as_def)

abbreviation entries_ok :: "route_query_result_entry list \<Rightarrow> bool" where
  "entries_ok es \<equiv> list_all (\<lambda>e. list_all path_readable (entry_paths e) \<and> i32 (int (nh_scope e))) es"

lemma route_result_read:
  assumes "entries_ok es"
  shows "reads_as (None \<notin> set (concat (map entry_paths es))) (map normal_entry (sorted_entries es))
    (of_route_result_json (route_result_json es))"
proof -
  have e: "of_entry_json (entry_json e) = (if None \<in> set (entry_paths e) then Err DeType else Ok (normal_entry e))"
    if "e \<in> set es" for e
    by (rule entry_json_read) (use that assms in \<open>auto simp: list_all_iff\<close>)
  show ?thesis
  proof (cases "None \<in> set (concat (map entry_paths es))")
    case True
    then obtain x where "x \<in> set es" "None \<in> set (entry_paths x)" by auto
    then have "\<exists>err. read_all of_entry_json (map entry_json (sorted_entries es)) = Err err"
      by (intro read_all_fails [of "entry_json x"]) (auto simp: e split: if_splits)
    with True show ?thesis by (simp add: reads_as_def of_route_result_json_def route_result_json_def)
  next
    case False
    have "read_all of_entry_json (map entry_json (sorted_entries es)) = Ok (map normal_entry (sorted_entries es))"
      by (rule read_all_map) (use False e in auto)
    with False show ?thesis by (simp add: reads_as_def of_route_result_json_def route_result_json_def)
  qed
qed

lemma json_opt_not_null: "j \<noteq> JNull \<Longrightarrow> json_opt rd j = bind_exec (rd j) (\<lambda>x. Ok (Some x))"
  by (cases j) simp_all

lemma written_not_null [simp]:
  "header_json h \<noteq> JNull" "body_json b \<noteq> JNull" "response_body_json rb \<noteq> JNull"
  by (cases b; simp add: header_json_def response_body_json_def split: response_body.splits)+

lemma response_body_read:
  assumes "entries_ok (case rb of RouteQueryResult es \<Rightarrow> es | _ \<Rightarrow> [])"
  shows "reads_as (None \<notin> set (concat (map entry_paths (case rb of RouteQueryResult es \<Rightarrow> es | _ \<Rightarrow> []))))
    (normal_response_body rb) (of_response_body_json (response_body_json rb))"
proof (cases rb)
  case (RouteQueryResult es)
  with assms have "reads_as (None \<notin> set (concat (map entry_paths es))) (RouteQueryResult (map normal_entry (sorted_entries es)))
    (bind_exec (of_route_result_json (route_result_json es)) (\<lambda>es. Ok (RouteQueryResult es)))"
    by (intro reads_as_map route_result_read) simp
  with RouteQueryResult show ?thesis by (simp add: response_body_json_def)
qed (simp add: response_body_json_def)

lemma response_read:
  assumes "i32 (error_code r)" "entries_ok (body_entries (Some (Response r)))"
  shows "reads_as (None \<notin> set (concat (map entry_paths (body_entries (Some (Response r))))))
    (r\<lparr>resp_body := map_option normal_response_body (resp_body r)\<rparr>) (of_response_json (response_json r))"
proof (cases "resp_body r")
  case None
  then show ?thesis using assms(1)
    by (cases r) (simp add: of_response_json_def response_json_def del: json_int.simps)
next
  case (Some b)
  have "of_response_json (response_json r) =
      bind_exec (of_response_body_json (response_body_json b)) (\<lambda>x. Ok (r\<lparr>resp_body := Some x\<rparr>))"
    using assms(1) Some
    by (cases "of_response_body_json (response_body_json b)"; cases r)
      (simp_all add: of_response_json_def response_json_def json_opt_not_null del: json_int.simps)
  moreover have "body_entries (Some (Response r)) = (case b of RouteQueryResult es \<Rightarrow> es | _ \<Rightarrow> [])"
    using Some by (simp split: response_body.splits)
  ultimately show ?thesis
    using reads_as_map [OF response_body_read [of b], of "\<lambda>x. r\<lparr>resp_body := Some x\<rparr>"] assms(2) Some by simp
qed

lemma read_all_arguments [simp]: "read_all of_argument_json (map argument_json args) = Ok args"
  using read_all_map [of args of_argument_json argument_json id] by (simp add: of_argument_json_def argument_json_def)

lemma read_all_bytes: "read_all json_u8 (map (\<lambda>b. JNum (uint b)) p) = Ok (map uint (p :: byte list))"
  using read_all_map [of p json_u8 "\<lambda>b. JNum (uint b)" uint] by (simp del: json_int.simps)

lemma body_read:
  assumes "body_fits (Some b)" "list_all path_readable (concat (map entry_paths (body_entries (Some b))))"
  shows "reads_as (None \<notin> set (concat (map entry_paths (body_entries (Some b))))) (normal_body b) (of_body_json (body_json b))"
proof (cases b)
  case (Response r)
  have "entries_ok (body_entries (Some (Response r)))" using assms Response by (auto simp: list_all_iff)
  then have "reads_as (None \<notin> set (concat (map entry_paths (body_entries (Some (Response r))))))
      (Response (r\<lparr>resp_body := map_option normal_response_body (resp_body r)\<rparr>))
      (bind_exec (of_response_json (response_json r)) (\<lambda>r. Ok (Response r)))"
    using assms(1) Response by (intro reads_as_map response_read) simp_all
  then show ?thesis by (simp only: Response body_json.simps of_body_json.simps normal_body.simps if_True simp_thms)
next
  case (DataRequest p)
  then show ?thesis by (simp add: read_all_bytes map_idI del: json_int.simps)
qed (use assms in \<open>simp_all del: json_int.simps\<close>)

lemma message_read:
  assumes "list_all path_readable (paths_of m)" "body_fits (body m)"
  shows "reads_as (None \<notin> set (paths_of m)) (normal_form m) (of_message_json (message_json m))"
proof -
  have h: "reads_as (None \<notin> set (header_paths (header m))) (map_option (\<lambda>h. h\<lparr>msg_id := 0\<rparr>) (header m))
      (optional ''header'' of_header_json (message_json m))"
    using assms(1) header_json_read
    by (cases "header m") (auto simp: message_json_def json_opt_not_null reads_as_def paths_of_def header_paths_def)
  have b: "reads_as (None \<notin> set (concat (map entry_paths (body_entries (body m))))) (map_option normal_body (body m))
      (optional ''body'' of_body_json (message_json m))"
  proof (cases "body m")
    case (Some b)
    then have "reads_as (None \<notin> set (concat (map entry_paths (body_entries (Some b))))) (Some (normal_body b))
        (bind_exec (of_body_json (body_json b)) (\<lambda>x. Ok (Some x)))"
      using assms by (intro reads_as_map body_read) (auto simp: paths_of_def)
    with Some show ?thesis by (simp add: message_json_def json_opt_not_null)
  qed (simp add: message_json_def)
  have "of_message_json (message_json m) = bind_exec (optional ''header'' of_header_json (message_json m)) (\<lambda>h.
      bind_exec (optional ''body'' of_body_json (message_json m)) (\<lambda>b. Ok \<lparr>header = h, body = b\<rparr>))"
    by (simp add: of_message_json_def)
  with reads_as_bind [OF h b, of "\<lambda>h b. \<lparr>header = h, body = b\<rparr>"] show ?thesis
    by (simp add: normal_form_def paths_of_def)
qed

section \<open>Normalising a message\<close>

text \<open>
  (C40) A message whose paths have a faithful text is normalised to itself with the id 0, the entries of a route query
  sorted by path and hop count and their next hop ids empty. That is so exactly when every path of the message is there: a
  missing one is written as \<open>null\<close>, which the adaptor cannot read, and the call panics.
\<close>
theorem normalize_msg_normal_form:
  assumes "\<forall>j. jt_from_str jt (jt_to_string jt j) = Some j" "list_all path_readable (paths_of m)" "body_fits (body m)"
  shows "normalize_msg jt m = (if None \<in> set (paths_of m) then Panic else Ok (normal_form m))"
  using message_read [OF assms(2,3)] assms(1) by (auto simp: normalize_msg_def reads_as_def split: if_splits)

lemma entry_key_normal [simp]: "entry_key (normal_entry e) = entry_key e"
  by (simp add: entry_key_def normal_entry_def)

lemma sorted_normal_entries: "map normal_entry (sorted_entries es) = sorted_entries (map normal_entry es)"
proof -
  have "map normal_entry (insort_key entry_key x ys) = insort_key entry_key (normal_entry x) (map normal_entry ys)" for x ys
    by (induction ys) simp_all
  then show ?thesis unfolding sorted_entries_sort_key by (induction es) simp_all
qed

text \<open>
  Two results of a route query with the same entries up to their order and next hop ids have the same normal form, if no two
  entries share path and hop count.
\<close>
theorem route_results_compare_equal:
  assumes "mset (map normal_entry es) = mset (map normal_entry es')" "distinct (map entry_key es)"
  shows "normal_response_body (RouteQueryResult es) = normal_response_body (RouteQueryResult es')"
proof -
  have "map entry_key (map normal_entry es) = map entry_key es" by simp
  with assms(2) have "sorted_entries (map normal_entry es) = sorted_entries (map normal_entry es')"
    by (intro sorted_entries_perm [OF assms(1)]) metis
  then show ?thesis by (simp add: sorted_normal_entries)
qed

section \<open>Concrete messages\<close>

instance json :: countable
  by countable_datatype

text \<open>Some injective text form of JSON values, with its inverse.\<close>

definition demo_json_text :: json_text where
  "demo_json_text = \<lparr>jt_to_string = (\<lambda>j. replicate (to_nat j) CHR ''1''), jt_from_str = (\<lambda>s. Some (from_nat (length s)))\<rparr>"

definition demo_route_answer :: swbus_message where
  "demo_route_answer = new_message (new_header sample_sp (sample_sp\<lparr>node_id := ''10.0.0.2''\<rparr>) 77)
     (Response \<lparr>request_id = 5, error_code = 1, error_message = [], resp_body = Some (RouteQueryResult
       [\<lparr>rq_service_path = Some (with_cluster ''region-a'' ''cluster-b'' [] [] [] []), rq_hop_count = 2, nh_id = ''b'',
         nh_service_path = Some sample_sp, nh_scope = 3\<rparr>,
        \<lparr>rq_service_path = Some (with_cluster ''region-a'' ''cluster-a'' [] [] [] []), rq_hop_count = 1, nh_id = ''a'',
         nh_service_path = Some sample_sp, nh_scope = 2\<rparr>])\<rparr>)"

theorem normalize_msg_normal_form_witness:
  "normalize_msg demo_json_text demo_route_answer = Ok (normal_form demo_route_answer) \<and>
   normalize_msg demo_json_text (demo_route_answer\<lparr>header := Some ((new_header sample_sp sample_sp 7)\<lparr>source := None\<rparr>)\<rparr>) = Panic"
proof -
  have t: "\<forall>j. jt_from_str demo_json_text (jt_to_string demo_json_text j) = Some j"
    by (simp add: demo_json_text_def)
  have r: "path_readable (Some sample_sp)" "path_readable (Some (sample_sp\<lparr>node_id := ''10.0.0.2''\<rparr>))" "path_readable None"
    "path_readable (Some (with_cluster ''region-a'' ''cluster-a'' [] [] [] []))"
    "path_readable (Some (with_cluster ''region-a'' ''cluster-b'' [] [] [] []))"
    using sample_sp_clean
    by (simp_all add: path_readable_def sp_clean_def sp_gapless_def sp_fields_def sample_sp_def with_cluster_def)
  note defs = demo_route_answer_def new_message_def new_header_def paths_of_def header_paths_def entry_paths_def i32_def
  show ?thesis
    using normalize_msg_normal_form [OF t, of demo_route_answer]
      normalize_msg_normal_form [OF t, of "demo_route_answer\<lparr>header := Some ((new_header sample_sp sample_sp 7)\<lparr>source := None\<rparr>)\<rparr>"] r
    by (simp add: defs)
qed

end
