(* ===== verification/Hamgrd_Spec.thy ===== *)
theory Hamgrd_Spec
  imports Hamgrd_VDpu Swbus_Json
begin

text \<open>
  What an actor promises, without the driver's queues, commits and acknowledgements: a function from the actor's data, the
  latest message under each key and the actor's own path to the new data and the messages that leave. The driver with an
  actor that keeps such a promise refines it: what it puts on the bus is, for each request in turn, the acknowledgement and then
  these messages. The promise of the vDPU actor is written out and shown to be kept.
\<close>

section \<open>The promise of an actor\<close>

type_synonym seen = "(string \<times> actor_message \<times> service_path) list"

text \<open>The latest message under each key, in the order of the first arrival, with the path it came from.\<close>

definition seen_of :: "actor_state \<Rightarrow> seen" where
  "seen_of st = map (apsnd (\<lambda>e. (in_msg e, in_source e))) (incoming st)"

type_synonym 'a promise =
  "'a \<Rightarrow> seen \<Rightarrow> service_path \<Rightarrow> string \<Rightarrow> 'a \<times> (service_path \<times> actor_message) list \<times> bool \<times> bool"

text \<open>
  A promise gives the new data of the actor, the messages to send, whether the actor stops, and whether the callback
  succeeds. After a failure nothing is sent.
\<close>

record 'a spec_state =
  sp_actor :: 'a
  sp_seen :: seen
  sp_stopped :: bool

datatype request = Request u64 service_path actor_message | Reply u64 service_path swbus_error_code string

datatype observed = Asks service_path actor_message | Answers service_path u64 int

definition spec_step ::
    "'a promise \<Rightarrow> service_path \<Rightarrow> 'a spec_state \<Rightarrow> request \<Rightarrow> 'a spec_state \<times> observed list" where
  "spec_step P own s r =
     (if sp_stopped s then (s, [])
      else case r of
        Reply _ _ _ _ \<Rightarrow> (s, [])
      | Request rid src m \<Rightarrow>
          (let seen = AList.update (am_key m) (m, src) (sp_seen s);
               (a, outs, stp, ok) = P (sp_actor s) seen own (am_key m)
           in (\<lparr>sp_actor = a, sp_seen = seen, sp_stopped = stp\<rparr>,
               Answers src rid (code_num CodeOk) # (if ok then map (\<lambda>(d, am). Asks d am) outs else []))))"

fun spec_run :: "'a promise \<Rightarrow> service_path \<Rightarrow> 'a spec_state \<Rightarrow> request list \<Rightarrow> 'a spec_state \<times> observed list" where
  "spec_run P own s [] = (s, [])"
| "spec_run P own s (r # rs) =
     (let (s1, o1) = spec_step P own s r; (s2, o2) = spec_run P own s1 rs in (s2, o1 @ o2))"

section \<open>What the driver shows\<close>

definition event_of :: "codec \<Rightarrow> service_path \<Rightarrow> request \<Rightarrow> driver_event" where
  "event_of cd own r =
     (case r of
        Request rid src m \<Rightarrow>
          Incoming \<lparr>im_id = rid, im_source = src, im_destination = own, im_body = MRequest (serialize cd m)\<rparr>
      | Reply rid src code text \<Rightarrow>
          Incoming \<lparr>im_id = 0, im_source = src, im_destination = own, im_body = MResponse rid code text None\<rparr>)"

text \<open>A message on the bus as its receiver sees it: a request with its actor message, or an answer.\<close>

definition observe :: "codec \<Rightarrow> swbus_message \<Rightarrow> observed option" where
  "observe cd m =
     (case (Option.bind (header m) destination, body m) of
        (Some dst, Some (DataRequest p)) \<Rightarrow> (case deserialize cd p of Inr am \<Rightarrow> Some (Asks dst am) | Inl _ \<Rightarrow> None)
      | (Some dst, Some (Response r)) \<Rightarrow> if resp_body r = None then Some (Answers dst (request_id r) (error_code r)) else None
      | _ \<Rightarrow> None)"

definition faithful :: "codec \<Rightarrow> bool" where
  "faithful cd \<longleftrightarrow> (\<forall>m. deserialize cd (serialize cd m) = Inr m)"

lemma seen_of_simps [simp]:
  "seen_of (st\<lparr>client := c\<rparr>) = seen_of st" "seen_of (send_raw st sm) = seen_of st"
  "seen_of (outgoing_send cd st d m) = seen_of st" "seen_of (send_each cd st ds m) = seen_of st"
  by (simp_all add: seen_of_def send_raw_def)

lemma map_apsnd_update: "map (apsnd f) (AList.update k v xs) = AList.update k (f v) (map (apsnd f) xs)"
  by (induction xs) auto

lemma seen_of_insert: "seen_of (incoming_insert st m src rid) = AList.update (am_key m) (m, src) (seen_of st)"
  by (auto simp: seen_of_def incoming_insert_def Let_def map_apsnd_update update_received_def new_incoming_entry_def
      split: option.splits)

lemma update_same: "map_of xs k = Some v \<Longrightarrow> AList.update k v xs = xs"
  by (induction xs) auto

lemma seen_of_handled:
  assumes "request_handled st key code txt = Ok st'"
  shows "seen_of st' = seen_of st \<and> client st' = client st \<and> internal st' = internal st"
  using assms
  by (auto simp: request_handled_def seen_of_def map_apsnd_update update_handled_def map_of_apsnd update_same split: option.splits)

text \<open>The tables in terms of \<open>seen_of\<close>.\<close>

lemma seen_get_entry:
  "get_entry st key = Ok e \<Longrightarrow> map_of (seen_of st) key = Some (in_msg e, in_source e)"
  "map_of (seen_of st) key = Some (m, src) \<Longrightarrow> \<exists>e. get_entry st key = Ok e \<and> in_msg e = m \<and> in_source e = src"
  "map_of (seen_of st) key = None \<Longrightarrow> \<exists>x. get_entry st key = Err x"
  by (auto simp: get_entry_def seen_of_def map_of_apsnd split: option.splits)

lemma seen_incoming_get:
  "map_of (seen_of st) key = Some (m, src) \<Longrightarrow> incoming_get st key = Ok m"
  "map_of (seen_of st) key = None \<Longrightarrow> \<exists>x. incoming_get st key = Err x"
  using seen_get_entry(2,3) [of st key] by (fastforce simp: incoming_get_def)+

definition registered :: "serde \<Rightarrow> seen \<Rightarrow> registration_type \<Rightarrow> service_path list" where
  "registered sd sn ty =
     List.map_filter (\<lambda>(k, m, src). if starts_with k (registration_prefix ty) \<and> of_j_registration sd (am_data m) = Inr True
        then Some src else None) sn"

lemma registered_seen: "get_registered_actors sd st ty = registered sd (seen_of st) ty"
proof -
  have c: "(case of_j_registration sd j of Inr True \<Rightarrow> Some q | _ \<Rightarrow> None) =
      (if of_j_registration sd j = Inr True then Some q else None)" for j and q :: service_path
    by (auto split: sum.splits bool.splits)
  have "List.map_filter (\<lambda>e. if of_j_registration sd (am_data (in_msg e)) = Inr True then Some (in_source e) else None)
      (map snd (filter (\<lambda>e. starts_with (fst e) p) xs)) =
    List.map_filter (\<lambda>(k, m, src). if starts_with k p \<and> of_j_registration sd (am_data m) = Inr True then Some src else None)
      (map (apsnd (\<lambda>e. (in_msg e, in_source e))) xs)" for p and xs :: "(string \<times> incoming_entry) list"
    by (induction xs) (auto simp: List.map_filter_simps)
  then show ?thesis unfolding get_registered_actors_def get_by_prefix_def registered_def seen_of_def c .
qed

section \<open>The driver keeps the promise of its actor\<close>

definition asks_of :: "unacked_message \<Rightarrow> codec \<Rightarrow> bool" where
  "asks_of u cd \<longleftrightarrow> body (um_swbus_message u) = Some (DataRequest (serialize cd (um_actor_message u)))"

lemma api_asks:
  assumes "api_reach cd st st'" "\<forall>u \<in> set (queued_messages st). asks_of u cd"
  shows "\<forall>u \<in> set (queued_messages st'). asks_of u cd"
  using assms
  by (induction rule: api_reach.induct)
    (auto simp: outgoing_send_eq asks_of_def new_message_def internal_add_def internal_get_mut_def split: option.splits)

lemma observe_queued:
  assumes "faithful cd" "\<forall>u \<in> set us. asks_of u cd"
    and "map (\<lambda>u. (Option.bind (header (um_swbus_message u)) destination, um_actor_message u)) us = map (\<lambda>(d, m). (Some d, m)) outs"
  shows "map (observe cd) (map um_swbus_message us) = map Some (map (\<lambda>(d, am). Asks d am) outs)"
  using assms(2,3)
proof (induction us arbitrary: outs)
  case (Cons u us)
  then obtain d m outs' where "outs = (d, m) # outs'" by (cases outs) auto
  with Cons assms(1) show ?case by (auto simp: observe_def asks_of_def faithful_def)
qed simp

lemma send_all_frame: "send_all st us = Ok st' \<Longrightarrow> incoming st' = incoming st \<and> client st' = client st"
  by (induction st us rule: send_all.induct) (auto simp: record_sent_def send_raw_def Let_def split: exec.splits)

lemma seen_of_incoming: "incoming st' = incoming st \<Longrightarrow> seen_of st' = seen_of st"
  by (simp add: seen_of_def)

definition shows_spec :: "service_path \<Rightarrow> 'a driver \<Rightarrow> 'a spec_state \<Rightarrow> bool" where
  "shows_spec own d s \<longleftrightarrow> actor_inv (dstate d) \<and> actor d = sp_actor s \<and> seen_of (dstate d) = sp_seen s \<and>
     stopped d = sp_stopped s \<and> sc_source (client (dstate d)) = own"

locale promising_actor = bus_actor cd hm for cd :: codec and hm :: "'a message_handler" +
  fixes promise :: "'a promise"
  assumes keeps: "queued_messages st = [] \<Longrightarrow>
      promise a (seen_of st) (sc_source (client st)) key = (a', outs, stp, True) \<Longrightarrow>
      \<exists>st'. hm a st key False = ((a', st', stp), Ok ()) \<and> queued_pairs st' = map (\<lambda>(d, m). (Some d, m)) outs"
    and fails: "queued_messages st = [] \<Longrightarrow>
      promise a (seen_of st) (sc_source (client st)) key = (a', outs, stp, False) \<Longrightarrow>
      \<exists>st' e. hm a st key False = ((a', st', stp), Err e)"
begin

lemma callback_seen:
  assumes "handle_actor_message hm d key = Ok d'" "actor_inv (dstate d)"
  shows "seen_of (dstate d') = seen_of (dstate d) \<and> sc_source (client (dstate d')) = sc_source (client (dstate d))"
proof -
  obtain a st stp r where hm: "hm (actor d) (dstate d) key (stopped d) = ((a, st, stp), r)" by (metis surj_pair)
  note out = callback_inv(1) [OF assms(2) hm]
  have i: "seen_of st = seen_of (dstate d)" "sc_source (client st) = sc_source (client (dstate d))"
    using out by (auto simp: same_outside_def seen_of_def)
  show ?thesis
  proof (cases r)
    case (Ok u)
    with assms(1) hm obtain st1 st2 where s: "send_queued_messages (commit_changes st) = Ok st1"
      "request_handled st1 key CodeOk [] = Ok st2" "dstate d' = st2"
      by (auto simp: handle_actor_message_def bind_exec_Ok_iff)
    from s(1) have "incoming st1 = incoming st" "client st1 = client st"
      using send_all_frame by (fastforce simp: send_queued_messages_def)+
    with seen_of_handled [OF s(2)] seen_of_incoming s(3) i show ?thesis by metis
  next
    case (Err e)
    with assms(1) hm obtain st2 where s: "request_handled (drop_queued_messages (drop_changes st)) key Fail e = Ok st2"
      "dstate d' = st2" by (auto simp: handle_actor_message_def bind_exec_Ok_iff)
    have "incoming (drop_queued_messages (drop_changes st)) = incoming st"
      "client (drop_queued_messages (drop_changes st)) = client st"
      by (simp_all add: drop_queued_messages_def drop_changes_def)
    with seen_of_handled [OF s(1)] seen_of_incoming s(2) i show ?thesis by metis
  qed (use assms hm in \<open>simp add: handle_actor_message_def\<close>)
qed

lemma request_refines:
  assumes "faithful cd" "shows_spec own d s" "\<not> sp_stopped s" "spec_step promise own s (Request rid src m) = (s', obs)"
  shows "\<exists>d' ms. driver_step cd dump hm d (event_of cd own (Request rid src m)) = Ok d' \<and> shows_spec own d' s' \<and>
    wire (dstate d') = wire (dstate d) @ ms \<and> map (observe cd) ms = map Some obs"
proof -
  let ?st = "accept_request (dstate d) m src rid"
  let ?d = "d\<lparr>dstate := ?st\<rparr>" and ?key = "am_key m"
  let ?ack = "new_message (new_header (sc_source (client (dstate d))) src (next_id (sc_id_generator (client (dstate d)))))
    (Response \<lparr>request_id = rid, error_code = code_num CodeOk, error_message = [], resp_body = None\<rparr>)"
  have d: "actor_inv (dstate d)" "actor d = sp_actor s" "seen_of (dstate d) = sp_seen s" "\<not> stopped d"
    "sc_source (client (dstate d)) = own"
    using assms(2,3) by (auto simp: shows_spec_def)
  note inv = accept_request_inv [OF d(1), of m src rid]
  have st: "seen_of ?st = AList.update ?key (m, src) (sp_seen s)" "sc_source (client ?st) = own"
    "wire ?st = wire (dstate d) @ [?ack]" "queued_messages ?st = []"
  proof -
    show "seen_of ?st = AList.update ?key (m, src) (sp_seen s)" by (simp add: accept_request_def seen_of_insert d(3))
    show "sc_source (client ?st) = own" "wire ?st = wire (dstate d) @ [?ack]"
      using d(5) by (simp_all add: accept_request_def send_raw_def incoming_insert_def Let_def)
    show "queued_messages ?st = []" using inv(1) by (simp add: actor_inv_def)
  qed
  have ack: "observe cd ?ack = Some (Answers src rid (code_num CodeOk))"
    by (simp add: observe_def new_message_def new_header_def)
  obtain a' outs stp ok where p: "promise (sp_actor s) (seen_of ?st) (sc_source (client ?st)) ?key = (a', outs, stp, ok)"
    using prod_cases4 by blast
  with assms(3,4) st have s': "s' = \<lparr>sp_actor = a', sp_seen = seen_of ?st, sp_stopped = stp\<rparr>"
    "obs = Answers src rid (code_num CodeOk) # (if ok then map (\<lambda>(d, am). Asks d am) outs else [])"
    by (auto simp: spec_step_def Let_def)
  have step: "driver_step cd dump hm d (event_of cd own (Request rid src m)) = handle_actor_message hm ?d ?key"
    using d(4) assms(1) handle_request_message [of "serialize cd m" m "\<lparr>im_id = rid, im_source = src, im_destination = own,
        im_body = MRequest (serialize cd m)\<rparr>" dump d]
    by (simp add: driver_step_def event_of_def faithful_def)
  have "\<exists>st2 ms. handle_actor_message hm ?d ?key = Ok \<lparr>actor = a', dstate = st2, stopped = stp\<rparr> \<and> actor_inv st2 \<and>
      wire st2 = wire ?st @ ms \<and> map (observe cd) ms = map Some (if ok then map (\<lambda>(d, am). Asks d am) outs else [])"
  proof (cases ok)
    case True
    with p have p1: "promise (sp_actor s) (seen_of ?st) (sc_source (client ?st)) ?key = (a', outs, stp, True)" by simp
    from keeps [OF st(4) p1] obtain st' where st': "hm (sp_actor s) ?st ?key False = ((a', st', stp), Ok ())"
      "queued_pairs st' = map (\<lambda>(d, m). (Some d, m)) outs" by blast
    then have hm: "hm (actor ?d) (dstate ?d) ?key (stopped ?d) = ((a', st', stp), Ok ())" using d by simp
    have "\<forall>u \<in> set (queued_messages st'). asks_of u cd"
      using api_asks [OF api [OF hm]] st(4) by simp
    from observe_queued [OF assms(1) this] st'(2) have
      "map (observe cd) (map um_swbus_message (queued_messages st')) = map Some (map (\<lambda>(d, am). Asks d am) outs)"
      by (simp add: queued_pairs_def)
    with callback_commits [OF _ _ hm] inv True show ?thesis by fastforce
  next
    case False
    with p have p1: "promise (sp_actor s) (seen_of ?st) (sc_source (client ?st)) ?key = (a', outs, stp, False)" by simp
    from fails [OF st(4) p1] obtain st' e where
      "hm (sp_actor s) ?st ?key False = ((a', st', stp), Err e)" by blast
    then have hm: "hm (actor ?d) (dstate ?d) ?key (stopped ?d) = ((a', st', stp), Err e)" using d by simp
    from callback_aborts [OF _ _ hm] inv False show ?thesis by fastforce
  qed
  then obtain st2 ms where r: "handle_actor_message hm ?d ?key = Ok \<lparr>actor = a', dstate = st2, stopped = stp\<rparr>" "actor_inv st2"
    "wire st2 = wire ?st @ ms" "map (observe cd) ms = map Some (if ok then map (\<lambda>(d, am). Asks d am) outs else [])"
    by blast
  have "seen_of st2 = seen_of ?st \<and> sc_source (client st2) = own"
    using callback_seen [OF r(1)] inv st(2) by simp
  with r(2) s'(1) have "shows_spec own \<lparr>actor = a', dstate = st2, stopped = stp\<rparr> s'" by (simp add: shows_spec_def)
  moreover have "wire st2 = wire (dstate d) @ (?ack # ms)" "map (observe cd) (?ack # ms) = map Some obs"
    using r(3,4) st(3) ack s'(2) by simp_all
  ultimately show ?thesis using step r(1) by (metis driver.select_convs(2))
qed

lemma reply_refines:
  assumes "shows_spec own d s" "\<not> sp_stopped s"
  shows "\<exists>d'. driver_step cd dump hm d (event_of cd own (Reply rid src code txt)) = Ok d' \<and> shows_spec own d' s \<and>
    wire (dstate d') = wire (dstate d)"
proof -
  have d: "actor_inv (dstate d)" "\<not> stopped d" using assms by (auto simp: shows_spec_def)
  obtain st' where st': "handle_response (dstate d) rid code txt src = Ok st'" "actor_inv st'" "wire st' = wire (dstate d)"
    using handle_response_ok [OF d(1)] by blast
  then have "incoming st' = incoming (dstate d)" "client st' = client (dstate d)"
    by (auto simp: handle_response_def Let_def split: option.splits if_splits)
  with st' d assms show ?thesis
    by (auto simp: driver_step_def event_of_def handle_swbus_message_def shows_spec_def seen_of_def)
qed

lemma step_refines:
  assumes "faithful cd" "shows_spec own d s" "spec_step promise own s r = (s', obs)"
  shows "\<exists>d' ms. driver_step cd dump hm d (event_of cd own r) = Ok d' \<and> shows_spec own d' s' \<and>
    wire (dstate d') = wire (dstate d) @ ms \<and> map (observe cd) ms = map Some obs"
proof (cases "sp_stopped s")
  case True
  with assms(2,3) show ?thesis by (auto simp: spec_step_def shows_spec_def driver_step_def)
next
  case False
  show ?thesis
  proof (cases r)
    case (Request rid src m)
    with request_refines [OF assms(1,2) False] assms(3) show ?thesis by simp
  next
    case (Reply rid src code tx)
    with reply_refines [OF assms(2) False] assms(3) False show ?thesis by (force simp: spec_step_def)
  qed
qed

lemma run_refines:
  assumes "faithful cd" "shows_spec own d s" "spec_run promise own s rs = (s', obs)"
  shows "\<exists>d' ms. driver_run cd dump hm d (map (event_of cd own) rs) = Ok d' \<and> shows_spec own d' s' \<and>
    wire (dstate d') = wire (dstate d) @ ms \<and> map (observe cd) ms = map Some obs"
  using assms(2,3)
proof (induction rs arbitrary: d s obs)
  case (Cons r rs)
  obtain s1 o1 where s1: "spec_step promise own s r = (s1, o1)" by fastforce
  obtain o2 where o2: "spec_run promise own s1 rs = (s', o2)" "obs = o1 @ o2"
    using Cons(3) s1 by (auto split: prod.splits)
  obtain d1 ms where "driver_step cd dump hm d (event_of cd own r) = Ok d1" "shows_spec own d1 s1"
    "wire (dstate d1) = wire (dstate d) @ ms" "map (observe cd) ms = map Some o1"
    using step_refines [OF assms(1) Cons(2) s1] by blast
  with Cons.IH [of d1 s1 o2] o2 show ?case by fastforce
qed simp

end

section \<open>The promise of the vDPU actor\<close>

text \<open>
  \<open>reached\<close> and \<open>refused\<close> are the two ends of a callback; \<open>sends\<close> is a message that may fail to be written, for a list of
  receivers.
\<close>

definition reached :: "'a \<Rightarrow> (service_path \<times> actor_message) list \<Rightarrow> 'a \<times> (service_path \<times> actor_message) list \<times> bool \<times> bool" where
  "reached a outs = (a, outs, False, True)"

definition refused :: "'a \<Rightarrow> 'a \<times> (service_path \<times> actor_message) list \<times> bool \<times> bool" where
  "refused a = (a, [], False, False)"

definition sends ::
    "'a \<Rightarrow> service_path list \<Rightarrow> string \<Rightarrow> string + json \<Rightarrow> 'a \<times> (service_path \<times> actor_message) list \<times> bool \<times> bool" where
  "sends a ds key j =
     (case j of Inl _ \<Rightarrow> refused a | Inr d \<Rightarrow> reached a (map (\<lambda>p. (p, \<lparr>am_key = key, am_data = d\<rparr>)) ds))"

text \<open>The registration that goes to every DPU of the configuration, none when there is no configuration.\<close>

definition vdpu_registers :: "hamgrd_env \<Rightarrow> vdpu_actor \<Rightarrow> service_path \<Rightarrow> bool
    \<Rightarrow> vdpu_actor \<times> (service_path \<times> actor_message) list \<times> bool \<times> bool" where
  "vdpu_registers env a own active =
     (case v_vdpu a of
        None \<Rightarrow> reached a []
      | Some v \<Rightarrow> sends a (map (\<lambda>i. own\<lparr>resource_type := ''dpu'', resource_id := i\<rparr>) (main_dpu_ids v))
          (''DPUStateRegister|'' @ v_id a) (j_registration (env_serde env) active))"

text \<open>The report of the first DPU of the configuration, as far as it has arrived and can be read.\<close>

definition vdpu_report :: "hamgrd_env \<Rightarrow> vdpu \<Rightarrow> seen \<Rightarrow> vdpu_actor_state option" where
  "vdpu_report env v sn =
     (case main_dpu_ids v of
        [] \<Rightarrow> None
      | i # _ \<Rightarrow>
          Option.bind (map_of sn (''DPUStateUpdate|'' @ i)) (\<lambda>(m, _).
            case of_j_dpu_actor_state (env_serde env) (am_data m) of
              Inl _ \<Rightarrow> None | Inr d \<Rightarrow> Some \<lparr>va_up = da_up d, va_dpu = d\<rparr>))"

definition vdpu_tells :: "hamgrd_env \<Rightarrow> vdpu_actor \<Rightarrow> vdpu \<Rightarrow> seen \<Rightarrow> service_path list
    \<Rightarrow> vdpu_actor \<times> (service_path \<times> actor_message) list \<times> bool \<times> bool" where
  "vdpu_tells env a v sn ds =
     (case vdpu_report env v sn of
        None \<Rightarrow> reached a []
      | Some r \<Rightarrow> sends a ds (''VDPUStateUpdate|'' @ v_id a) (j_vdpu_actor_state (env_serde env) r))"

text \<open>
  The promise: a configuration registers the vDPU with its DPUs, its deletion takes the registration back and
  stops the actor; with a configuration, each report of a DPU passes the state of the first one on to whoever is registered, and
  whoever registers is told that state. Everything else is taken note of and has no effect.
\<close>

definition vdpu_promise :: "hamgrd_env \<Rightarrow> vdpu_actor promise" where
  "vdpu_promise env a sn own key =
     (if key = ''VDPU'' then
        (case map_of sn key of
           None \<Rightarrow> refused a
         | Some (m, _) \<Rightarrow>
             (case of_j_kfv (env_serde env) (am_data m) of
                Inl _ \<Rightarrow> refused a
              | Inr k \<Rightarrow>
                  if kfv_operation k = KDel
                  then (case vdpu_registers env a own False of (a1, outs, _, ok) \<Rightarrow> (a1, outs, ok, ok))
                  else (case of_fv_vdpu (env_serde env) (kfv_field_values k) of
                          Inl _ \<Rightarrow> refused a
                        | Inr v \<Rightarrow> vdpu_registers env (a\<lparr>v_vdpu := Some v\<rparr>) own True)))
      else case v_vdpu a of
          None \<Rightarrow> reached a []
        | Some v \<Rightarrow>
            if starts_with key ''DPUStateUpdate|'' then vdpu_tells env a v sn (registered (env_serde env) sn VDPUState)
            else if starts_with key ''VDPUStateRegister|'' then
              (case map_of sn key of
                 None \<Rightarrow> refused a
               | Some (m, src) \<Rightarrow>
                   (case of_j_registration (env_serde env) (am_data m) of
                      Inl _ \<Rightarrow> refused a
                    | Inr active \<Rightarrow> if active then vdpu_tells env a v sn [src] else reached a []))
            else reached a [])"

text \<open>A handler that ends as a promise says, in a state without queued messages.\<close>

definition ends_as ::
    "'a hstate \<times> unit outcome \<Rightarrow> 'a \<times> (service_path \<times> actor_message) list \<times> bool \<times> bool \<Rightarrow> bool" where
  "ends_as r p \<longleftrightarrow>
     (case p of (a, outs, stp, ok) \<Rightarrow> self (fst r) = a \<and> stop (fst r) = stp \<and>
        (if ok then snd r = Ok () \<and> queued_pairs (tables (fst r)) = map (\<lambda>(d, m). (Some d, m)) outs else \<exists>e. snd r = Err e))"

lemma ends_refused [simp]: "ends_as (s, Err e) (refused a) \<longleftrightarrow> self s = a \<and> \<not> stop s"
  by (auto simp: ends_as_def refused_def)

lemma ends_reached: "ends_as (s, Ok ()) (reached a outs) \<longleftrightarrow>
    self s = a \<and> \<not> stop s \<and> queued_pairs (tables s) = map (\<lambda>(d, m). (Some d, m)) outs"
  by (auto simp: ends_as_def reached_def)

lemma promising_actorI:
  assumes "bus_actor cd (as_handler h)"
    and "\<And>st key a. queued_messages st = [] \<Longrightarrow>
      ends_as (h key \<lparr>self = a, tables = st, stop = False\<rparr>) (P a (seen_of st) (sc_source (client st)) key)"
  shows "promising_actor cd (as_handler h) P"
proof (intro promising_actor.intro promising_actor_axioms.intro)
  fix st :: actor_state and a a' and key outs stp
  assume q: "queued_messages st = []"
  note ends = assms(2) [OF q, of key a]
  show "\<exists>st'. as_handler h a st key False = ((a', st', stp), Ok ()) \<and> queued_pairs st' = map (\<lambda>(d, m). (Some d, m)) outs"
    if "P a (seen_of st) (sc_source (client st)) key = (a', outs, stp, True)"
    using ends unfolding that ends_as_def by (auto simp: as_handler_def split: prod.splits)
  show "\<exists>st' e. as_handler h a st key False = ((a', st', stp), Err e)"
    if "P a (seen_of st) (sc_source (client st)) key = (a', outs, stp, False)"
    using ends unfolding that ends_as_def by (auto simp: as_handler_def split: prod.splits)
qed (rule assms(1))

lemma queued_pairs_Nil: "queued_messages st = [] \<Longrightarrow> queued_pairs st = []"
  by (simp add: queued_pairs_def)

lemma ends_sends:
  assumes "self s = a" "\<not> stop s" "queued_messages (tables s) = []"
  shows "ends_as (act_bind (of_outcome (new_actor_message key j)) (\<lambda>msg. for_each (\<lambda>p. send_msg cd (f p) msg) ds) s)
    (sends a (map f ds) key j)"
  using assms
  by (cases j) (simp_all add: sends_def act_bind_def of_outcome_def new_actor_message_def for_each_send_dests ends_reached queued_pairs_Nil o_def)

lemma ends_sends_one:
  assumes "self s = a" "\<not> stop s" "queued_messages (tables s) = []"
  shows "ends_as (act_bind (of_outcome (new_actor_message key j)) (\<lambda>msg. send_msg cd p msg) s) (sends a [p] key j)"
  using assms by (cases j) (auto simp: sends_def act_defs new_actor_message_def ends_reached queued_pairs_Nil)

lemma register_ends:
  assumes "self s = a" "\<not> stop s" "queued_messages (tables s) = []" "sc_source (client (tables s)) = own"
  shows "ends_as (register_to_dpu_actor env active s) (vdpu_registers env a own active)"
proof (cases "v_vdpu a")
  case None
  with assms show ?thesis by (simp add: register_to_dpu_actor_def vdpu_registers_def act_defs ends_reached queued_pairs_Nil)
next
  case (Some v)
  from ends_sends [OF assms(1-3), of "''DPUStateRegister|'' @ v_id a" "j_registration (env_serde env) active" "env_codec env"
      "\<lambda>i. own\<lparr>resource_type := ''dpu'', resource_id := i\<rparr>" "main_dpu_ids v"] Some assms
  show ?thesis
    by (simp add: register_to_dpu_actor_def vdpu_registers_def with_state_def new_registration_msg_def from_my_sp_def dpu_actor_name_def)
qed

lemma calculate_vdpu_spec:
  assumes "v_vdpu (self s) = Some v"
  shows "calculate_vdpu_state env s = Ok (vdpu_report env v (seen_of (tables s)))"
proof (cases "main_dpu_ids v")
  case (Cons i js)
  show ?thesis
  proof (cases "map_of (seen_of (tables s)) (''DPUStateUpdate|'' @ i)")
    case None
    then obtain x where "incoming_get (tables s) (dpu_msg_key i) = Err x" using seen_incoming_get(2) by (auto simp: dpu_msg_key_def)
    with None assms Cons show ?thesis by (simp add: calculate_vdpu_state_def vdpu_report_def)
  next
    case (Some p)
    obtain m src where p: "p = (m, src)" by fastforce
    with Some have "incoming_get (tables s) (dpu_msg_key i) = Ok m" using seen_incoming_get(1) by (auto simp: dpu_msg_key_def)
    with Some p assms Cons show ?thesis
      by (cases "of_j_dpu_actor_state (env_serde env) (am_data m)")
        (simp_all add: calculate_vdpu_state_def vdpu_report_def deserialize_data_def)
  qed
qed (use assms in \<open>simp add: calculate_vdpu_state_def vdpu_report_def\<close>)

lemma tells_ends:
  assumes "self s = a" "\<not> stop s" "queued_messages (tables s) = []" "v_vdpu a = Some v"
  shows "ends_as (handle_dpu_state_update env s) (vdpu_tells env a v (seen_of (tables s)) (registered (env_serde env) (seen_of (tables s)) VDPUState))"
    and "\<And>src. ends_as (act_bind (of_outcome (calculate_vdpu_state env s)) (\<lambda>vo. case vo of
          None \<Rightarrow> ret ()
        | Some r \<Rightarrow> act_bind (of_outcome (new_vdpu_state_msg (env_serde env) (v_id (self s)) r)) (\<lambda>msg.
              send_msg (env_codec env) src msg)) s) (vdpu_tells env a v (seen_of (tables s)) [src])"
proof -
  have c: "calculate_vdpu_state env s = Ok (vdpu_report env v (seen_of (tables s)))"
    using calculate_vdpu_spec assms by simp
  show "ends_as (handle_dpu_state_update env s) (vdpu_tells env a v (seen_of (tables s)) (registered (env_serde env) (seen_of (tables s)) VDPUState))"
  proof (cases "vdpu_report env v (seen_of (tables s))")
    case None
    with c assms show ?thesis
      by (simp add: handle_dpu_state_update_def vdpu_tells_def with_state_def act_bind_def of_outcome_def ret_def ends_reached queued_pairs_Nil)
  next
    case (Some r)
    with c assms ends_sends [OF assms(1-3), of "''VDPUStateUpdate|'' @ v_id a" "j_vdpu_actor_state (env_serde env) r" "env_codec env"
        "\<lambda>p. p" "registered (env_serde env) (seen_of (tables s)) VDPUState"]
    show ?thesis
      by (simp add: handle_dpu_state_update_def vdpu_tells_def with_state_def act_bind_def of_outcome_def registered_seen
          new_vdpu_state_msg_def vdpu_msg_key_def)
  qed
  fix src
  show "ends_as (act_bind (of_outcome (calculate_vdpu_state env s)) (\<lambda>vo. case vo of
          None \<Rightarrow> ret ()
        | Some r \<Rightarrow> act_bind (of_outcome (new_vdpu_state_msg (env_serde env) (v_id (self s)) r)) (\<lambda>msg.
              send_msg (env_codec env) src msg)) s) (vdpu_tells env a v (seen_of (tables s)) [src])"
  proof (cases "vdpu_report env v (seen_of (tables s))")
    case None
    with c assms show ?thesis by (simp add: vdpu_tells_def act_bind_def of_outcome_def ret_def ends_reached queued_pairs_Nil)
  next
    case (Some r)
    with c assms ends_sends_one [OF assms(1-3), of "''VDPUStateUpdate|'' @ v_id a" "j_vdpu_actor_state (env_serde env) r" "env_codec env" src]
    show ?thesis by (simp add: vdpu_tells_def act_bind_def of_outcome_def new_vdpu_state_msg_def vdpu_msg_key_def)
  qed
qed

lemma config_ends:
  assumes "self s = a" "\<not> stop s" "queued_messages (tables s) = []" "sc_source (client (tables s)) = own"
  shows "ends_as (handle_vdpu_message env ''VDPU'' s) (vdpu_promise env a (seen_of (tables s)) own ''VDPU'')"
proof (cases "map_of (seen_of (tables s)) ''VDPU''")
  case None
  then obtain x where "incoming_get (tables s) ''VDPU'' = Err x" using seen_incoming_get(2) by blast
  with None assms show ?thesis by (simp add: handle_vdpu_message_def vdpu_promise_def act_bind_def reads_def read_msg_def)
next
  case (Some p)
  obtain m src where p: "p = (m, src)" by fastforce
  have g: "incoming_get (tables s) ''VDPU'' = Ok m" using seen_incoming_get(1) Some p by blast
  show ?thesis
  proof (cases "of_j_kfv (env_serde env) (am_data m)")
    case (Inl e)
    with g Some p assms show ?thesis
      by (simp add: handle_vdpu_message_def vdpu_promise_def act_bind_def reads_def read_msg_def deserialize_data_def)
  next
    case (Inr k)
    show ?thesis
    proof (cases "kfv_operation k = KDel")
      case True
      obtain s1 r1 where r: "register_to_dpu_actor env False s = (s1, r1)" by fastforce
      obtain a1 outs ok where v: "vdpu_registers env a own False = (a1, outs, False, ok)"
        by (cases "v_vdpu a"; cases "j_registration (env_serde env) False")
          (auto simp: vdpu_registers_def sends_def reached_def refused_def)
      have "ends_as (s1, r1) (a1, outs, False, ok)" using register_ends [OF assms, of env False] r v by simp
      with g Inr True Some p r v show ?thesis
        by (cases r1) (auto simp: handle_vdpu_message_def vdpu_promise_def act_bind_def reads_def read_msg_def deserialize_data_def
            act_seq_def stop_actor_def ends_as_def split: if_splits)
    next
      case False
      show ?thesis
      proof (cases "of_fv_vdpu (env_serde env) (kfv_field_values k)")
        case (Inl e)
        with g Inr False Some p assms show ?thesis
          by (simp add: handle_vdpu_message_def vdpu_promise_def act_bind_def reads_def read_msg_def deserialize_data_def of_outcome_def)
      next
        case (Inr v)
        from register_ends [of "s\<lparr>self := a\<lparr>v_vdpu := Some v\<rparr>\<rparr>" "a\<lparr>v_vdpu := Some v\<rparr>" own env True] assms
        show ?thesis
          using g Inr \<open>of_j_kfv (env_serde env) (am_data m) = Inr k\<close> False Some p
          by (simp add: handle_vdpu_message_def vdpu_promise_def act_bind_def reads_def read_msg_def deserialize_data_def of_outcome_def
              act_seq_def update_self_def)
      qed
    qed
  qed
qed

lemma vdpu_handler_ends:
  assumes "queued_messages st = []"
  shows "ends_as (vdpu_handle_message env key \<lparr>self = a, tables = st, stop = False\<rparr>)
    (vdpu_promise env a (seen_of st) (sc_source (client st)) key)"
proof -
  let ?s = "\<lparr>self = a, tables = st, stop = False\<rparr>"
  have other: ?thesis if "key \<noteq> ''VDPU''" "v_vdpu a = None"
    using that assms by (simp add: vdpu_handle_message_def vdpu_promise_def with_state_def table_defs ret_def ends_reached queued_pairs_Nil)
  have known: ?thesis if k: "key \<noteq> ''VDPU''" and v: "v_vdpu a = Some v" for v
  proof -
    note t = tells_ends [of ?s a v env, OF _ _ _ v]
    show ?thesis
    proof (cases "is_dpu_msg key")
      case True
      with t(1) k v assms show ?thesis
        by (simp add: vdpu_handle_message_def vdpu_promise_def with_state_def table_defs is_dpu_msg_def)
    next
      case nd: False
      show ?thesis
      proof (cases "is_registration_msg key VDPUState")
        case False
        with nd k v assms show ?thesis
          by (simp add: vdpu_handle_message_def vdpu_promise_def with_state_def table_defs is_dpu_msg_def is_registration_msg_def ret_def
              ends_reached queued_pairs_Nil)
      next
        case True
        have h: "vdpu_handle_message env key ?s = handle_vdpu_state_registration env key ?s"
          using True nd k v by (simp add: vdpu_handle_message_def with_state_def table_defs)
        have p: "vdpu_promise env a (seen_of st) own key =
            (case map_of (seen_of st) key of None \<Rightarrow> refused a | Some (m, src) \<Rightarrow>
              (case of_j_registration (env_serde env) (am_data m) of Inl _ \<Rightarrow> refused a
               | Inr active \<Rightarrow> if active then vdpu_tells env a v (seen_of st) [src] else reached a []))" for own
          using True nd k v by (simp add: vdpu_promise_def is_dpu_msg_def is_registration_msg_def)
        show ?thesis
        proof (cases "map_of (seen_of st) key")
          case None
          then obtain x where "get_entry st key = Err x" using seen_get_entry(3) by blast
          with None show ?thesis
            unfolding h p by (simp add: handle_vdpu_state_registration_def with_state_def act_bind_def of_outcome_def)
        next
          case (Some q)
          obtain m src where q: "q = (m, src)" by fastforce
          then obtain e where e: "get_entry st key = Ok e" "in_msg e = m" "in_source e = src"
            using Some seen_get_entry(2) by blast
          have r: "handle_vdpu_state_registration env key ?s =
              (case of_j_registration (env_serde env) (am_data m) of Inl x \<Rightarrow> (?s, Err x)
               | Inr active \<Rightarrow> (if active then
                   act_bind (of_outcome (calculate_vdpu_state env ?s)) (\<lambda>vo. case vo of
                     None \<Rightarrow> ret ()
                   | Some r \<Rightarrow> act_bind (of_outcome (new_vdpu_state_msg (env_serde env) (v_id a) r)) (\<lambda>msg.
                       send_msg (env_codec env) src msg)) else ret ()) ?s)"
            using e by (auto simp: handle_vdpu_state_registration_def with_state_def act_bind_def of_outcome_def deserialize_data_def
                split: sum.splits)
          from t(2) [of src] assms Some q show ?thesis
            unfolding h p r by (auto simp: ret_def ends_reached queued_pairs_Nil split: sum.splits)
        qed
      qed
    qed
  qed
  show ?thesis
    using config_ends [of ?s a "sc_source (client st)" env] other known assms
    by (cases "key = ''VDPU''"; cases "v_vdpu a") (auto simp: vdpu_handle_message_def with_state_def table_defs)
qed

interpretation vdpu_spec: promising_actor "env_codec env" "as_handler (vdpu_handle_message env)" "vdpu_promise env" for env
  by (rule promising_actorI [OF vdpu.bus_actor_axioms vdpu_handler_ends])

section \<open>Properties\<close>

text \<open>
  (C31) The vDPU actor with its driver refines its promise: for every sequence of requests and acknowledgements, from
  any state between two turns, the driver returns, and what it puts on the bus is exactly what the promise says, in this
  order: for each request its acknowledgement, then the registrations or reports due; nothing for a request whose callback
  fails, for an acknowledgement, or once the actor has stopped.
\<close>

theorem vdpu_driver_refines_promise:
  assumes "faithful (env_codec env)" "actor_inv (dstate d)" "sc_source (client (dstate d)) = own"
    and "spec_run (vdpu_promise env) own \<lparr>sp_actor = actor d, sp_seen = seen_of (dstate d), sp_stopped = stopped d\<rparr> rs = (s, obs)"
  shows "\<exists>d' ms. driver_run (env_codec env) dump (as_handler (vdpu_handle_message env)) d (map (event_of (env_codec env) own) rs) = Ok d' \<and>
    wire (dstate d') = wire (dstate d) @ ms \<and> map (observe (env_codec env)) ms = map Some obs \<and>
    actor d' = sp_actor s \<and> stopped d' = sp_stopped s \<and> seen_of (dstate d') = sp_seen s"
proof -
  have "shows_spec own d \<lparr>sp_actor = actor d, sp_seen = seen_of (dstate d), sp_stopped = stopped d\<rparr>"
    using assms(2,3) by (simp add: shows_spec_def)
  from vdpu_spec.run_refines [where dump = dump, OF assms(1) this assms(4)] show ?thesis by (auto simp: shows_spec_def)
qed

text \<open>A codec that keeps every message apart: the number of bytes is the number of the message.\<close>

definition counting_codec :: codec where
  "counting_codec = \<lparr>serialize = (\<lambda>m. replicate (to_nat (am_key m, am_data m)) 0),
     deserialize = (\<lambda>b. Inr (case from_nat (length b) of (k, j) \<Rightarrow> \<lparr>am_key = k, am_data = j\<rparr>))\<rparr>"

lemma faithful_counting: "faithful counting_codec"
  by (simp add: faithful_def counting_codec_def)

definition demo_spec_env :: hamgrd_env where
  "demo_spec_env = demo_env\<lparr>env_codec := counting_codec\<rparr>"

definition demo_vdpu_driver :: "vdpu_actor driver" where
  "demo_vdpu_driver = \<lparr>actor = (new_vdpu_actor ''vdpu0'')\<lparr>v_vdpu := Some \<lparr>main_dpu_ids = [''dpu0'']\<rparr>\<rparr>, dstate = demo_state, stopped = False\<rparr>"

definition demo_vdpu_requests :: "request list" where
  "demo_vdpu_requests = [Request 1 (demo_actor ''s'') \<lparr>am_key = ''VDPUStateRegister|s'', am_data = JBool True\<rparr>,
     Request 2 (demo_actor ''d'') \<lparr>am_key = ''DPUStateUpdate|dpu0'', am_data = JBool True\<rparr>]"

theorem vdpu_driver_refines_promise_witness:
  "\<exists>d' ms. driver_run counting_codec (\<lambda>st. []) (as_handler (vdpu_handle_message demo_spec_env)) demo_vdpu_driver
      (map (event_of counting_codec (sc_source (client demo_state))) demo_vdpu_requests) = Ok d' \<and>
    wire (dstate d') = wire demo_state @ ms \<and>
    map (observe counting_codec) ms = map Some [Answers (demo_actor ''s'') 1 (code_num CodeOk), Answers (demo_actor ''d'') 2 (code_num CodeOk),
      Asks (demo_actor ''s'') \<lparr>am_key = ''VDPUStateUpdate|vdpu0'', am_data = JBool True\<rparr>]"
proof -
  let ?own = "sc_source (client demo_state)"
  let ?s = "\<lparr>sp_actor = actor demo_vdpu_driver, sp_seen = seen_of (dstate demo_vdpu_driver), sp_stopped = stopped demo_vdpu_driver\<rparr>"
  have e: "env_codec demo_spec_env = counting_codec" "dstate demo_vdpu_driver = demo_state" "actor_inv demo_state"
    by (simp_all add: demo_spec_env_def demo_vdpu_driver_def demo_state_def)
  have "seen_of demo_state = []" by (simp add: seen_of_def demo_state_def new_state_def)
  then obtain s where "spec_run (vdpu_promise demo_spec_env) ?own ?s demo_vdpu_requests =
      (s, [Answers (demo_actor ''s'') 1 (code_num CodeOk), Answers (demo_actor ''d'') 2 (code_num CodeOk),
        Asks (demo_actor ''s'') \<lparr>am_key = ''VDPUStateUpdate|vdpu0'', am_data = JBool True\<rparr>])"
    by (simp add: demo_vdpu_driver_def demo_vdpu_requests_def spec_step_def vdpu_promise_def vdpu_tells_def vdpu_report_def reached_def
        sends_def registered_def List.map_filter_simps new_vdpu_actor_def demo_spec_env_def demo_env_def demo_serde_def Let_def)
  from vdpu_driver_refines_promise [where dump = "\<lambda>st. []", of demo_spec_env demo_vdpu_driver ?own, OF _ _ _ this] e faithful_counting
  show ?thesis by auto
qed

end
