(* ===== verification/Hamgrd_Dpu_Spec.thy ===== *)
theory Hamgrd_Dpu_Spec
  imports Hamgrd_Spec
begin

text \<open>
  The promise of the DPU actor (\<open>actors/dpu.rs\<close>) in the sense of \<^verbatim>\<open>Hamgrd_Spec\<close>, and that the actor with its driver keeps
  it: which reports and BFD sessions leave for which messages, as a function of the actor's data and of the latest message
  under each key.
\<close>

section \<open>The promise\<close>

text \<open>The row of the latest message under a key, as far as it can be read.\<close>

definition seen_row :: "hamgrd_env \<Rightarrow> (serde \<Rightarrow> field_values \<Rightarrow> string + 'r) \<Rightarrow> seen \<Rightarrow> string \<Rightarrow> 'r option" where
  "seen_row env dec sn key =
     Option.bind (map_of sn key) (\<lambda>(m, _).
       case of_j_kfv (env_serde env) (am_data m) of
         Inl _ \<Rightarrow> None
       | Inr k \<Rightarrow> (case dec (env_serde env) (kfv_field_values k) of Inl _ \<Rightarrow> None | Inr r \<Rightarrow> Some r))"

text \<open>
  A local DPU is up when all planes of its state are up and a BFD session is up; without either state it is down. A remote
  one is reported down, without states.
\<close>

definition dpu_is_up :: "dpu_state option \<Rightarrow> dash_bfd_probe_state option \<Rightarrow> bool" where
  "dpu_is_up ds bs =
     (case (ds, bs) of
        (Some d, Some b) \<Rightarrow>
          ds_midplane_link_state d = PmonUp \<and> ds_control_plane_state d = PmonUp \<and> ds_data_plane_state d = PmonUp \<and>
          (v4_bfd_up_sessions b \<noteq> [] \<or> v6_bfd_up_sessions b \<noteq> [])
      | _ \<Rightarrow> False)"

definition dpu_status :: "hamgrd_env \<Rightarrow> string \<Rightarrow> dpu_data \<Rightarrow> seen \<Rightarrow> dpu_actor_state" where
  "dpu_status env name dd sn =
     (case dd of
        LocalDpu d managed npu4 npu6 \<Rightarrow>
          (let ds = seen_row env of_fv_dpu_state sn ''DPU_STATE''; bs = seen_row env of_fv_bfd_probe_state sn ''DASH_BFD_PROBE_STATE''
           in (from_dpu name d managed npu4 npu6 ds bs)\<lparr>da_up := dpu_is_up ds bs\<rparr>)
      | RemoteDpu r \<Rightarrow> (from_remote_dpu name r)\<lparr>da_up := False\<rparr>)"

definition dpu_tells :: "hamgrd_env \<Rightarrow> dpu_actor \<Rightarrow> seen \<Rightarrow> service_path list
    \<Rightarrow> dpu_actor \<times> (service_path \<times> actor_message) list \<times> bool \<times> bool" where
  "dpu_tells env a sn ds =
     (case d_dpu a of
        None \<Rightarrow> reached a []
      | Some dd \<Rightarrow> sends a ds (''DPUStateUpdate|'' @ d_id a) (j_dpu_actor_state (env_serde env) (dpu_status env (d_id a) dd sn)))"

definition dpu_tells_all :: "hamgrd_env \<Rightarrow> dpu_actor \<Rightarrow> seen \<Rightarrow> dpu_actor \<times> (service_path \<times> actor_message) list \<times> bool \<times> bool" where
  "dpu_tells_all env a sn = dpu_tells env a sn (registered (env_serde env) sn DPUState)"

text \<open>The BFD session with a peer, sent to the bridge of its table.\<close>

definition bfd_request :: "hamgrd_env \<Rightarrow> string \<Rightarrow> dpu \<Rightarrow> service_path \<Rightarrow> dash_ha_global_config \<Rightarrow> string
    \<Rightarrow> (service_path \<times> actor_message) option" where
  "bfd_request env name d own cfg peer_ip =
     (case fv_bfd_session (env_serde env) (bfd_session_of d cfg) of
        Inl _ \<Rightarrow> None
      | Inr fv \<Rightarrow>
          (case j_kfv (env_serde env) \<lparr>kfv_key = ''default:default:'' @ peer_ip, kfv_operation = KSet, kfv_field_values = fv\<rparr> of
             Inl _ \<Rightarrow> None
           | Inr j \<Rightarrow>
               Some (own\<lparr>resource_type := ''swss-common-bridge'', resource_id := db_name bfd_session_tbl @ ''|'' @ table_name bfd_session_tbl\<rparr>,
                 \<lparr>am_key = name, am_data = j\<rparr>)))"

definition bfd_requests :: "hamgrd_env \<Rightarrow> dpu_actor \<Rightarrow> dpu \<Rightarrow> service_path \<Rightarrow> dash_ha_global_config \<Rightarrow> string list
    \<Rightarrow> dpu_actor \<times> (service_path \<times> actor_message) list \<times> bool \<times> bool" where
  "bfd_requests env a d own cfg ips =
     (case those (map (bfd_request env (d_id a) d own cfg) ips) of None \<Rightarrow> refused a | Some outs \<Rightarrow> reached a outs)"

text \<open>The NPUs of the remote DPUs that have been announced, each once.\<close>

definition seen_npus :: "hamgrd_env \<Rightarrow> seen \<Rightarrow> string list" where
  "seen_npus env sn =
     remdups (List.map_filter (\<lambda>(k, m, _).
       if starts_with k ''REMOTE_DPU'' then
         (case of_j_kfv (env_serde env) (am_data m) of
            Inl _ \<Rightarrow> None
          | Inr r \<Rightarrow> (case of_fv_remote_dpu (env_serde env) (kfv_field_values r) of Inl _ \<Rightarrow> None | Inr d \<Rightarrow> Some (rd_npu_ipv4 d)))
       else None) sn)"

text \<open>The subscriptions of a managed DPU, up to the first that fails.\<close>

fun subscribes :: "hamgrd_env \<Rightarrow> bridge_spec list \<Rightarrow> dpu_actor \<Rightarrow> dpu_actor \<times> bool" where
  "subscribes env [] a = (a, True)"
| "subscribes env (b # bs) a = (if spawn_bridge env b = None then subscribes env bs (add_dpu_bridge b a) else (a, False))"

definition dpu_subscriptions :: "string \<Rightarrow> u32 \<Rightarrow> bridge_spec list" where
  "dpu_subscriptions name dpu =
     [dpu_bridge dash_ha_global_config_tbl name True None, dpu_bridge remote_dpu_tbl name False None,
      dpu_bridge dash_bfd_probe_state_tbl name True None, dpu_bridge dpu_state_tbl name True (Some dpu)]"

definition dpu_configured :: "hamgrd_env \<Rightarrow> dpu_actor \<Rightarrow> seen \<Rightarrow> dpu \<Rightarrow> string
    \<Rightarrow> dpu_actor \<times> (service_path \<times> actor_message) list \<times> bool \<times> bool" where
  "dpu_configured env a sn d npu4 =
     (let managed = (dpu_dpu_id d = slot_id env); a1 = a\<lparr>d_dpu := Some (LocalDpu d managed npu4 (env_npu_ipv6 env))\<rparr>;
          (a2, ok) = (if managed \<and> d_dpu a = None then subscribes env (dpu_subscriptions (d_id a) (dpu_dpu_id d)) a1 else (a1, True))
      in if ok then dpu_tells_all env a2 sn else refused a2)"

definition dpu_config_promise :: "hamgrd_env \<Rightarrow> dpu_actor \<Rightarrow> seen \<Rightarrow> string
    \<Rightarrow> dpu_actor \<times> (service_path \<times> actor_message) list \<times> bool \<times> bool" where
  "dpu_config_promise env a sn key =
     (case map_of sn key of
        None \<Rightarrow> refused a
      | Some (m, _) \<Rightarrow>
          (case of_j_kfv (env_serde env) (am_data m) of
             Inl _ \<Rightarrow> refused a
           | Inr k \<Rightarrow>
               if kfv_operation k = KDel then (a, [], True, True)
               else (case of_fv_dpu (env_serde env) (kfv_field_values k) of
                       Inl _ \<Rightarrow> refused a
                     | Inr d \<Rightarrow> (case env_npu_ipv4 env of None \<Rightarrow> refused a | Some npu4 \<Rightarrow> dpu_configured env a sn d npu4))))"

text \<open>A remote DPU: news of it for its own actor, a peer of the BFD sessions for the actor of a local one.\<close>

definition remote_promise :: "hamgrd_env \<Rightarrow> dpu_actor \<Rightarrow> seen \<Rightarrow> service_path \<Rightarrow> string
    \<Rightarrow> dpu_actor \<times> (service_path \<times> actor_message) list \<times> bool \<times> bool" where
  "remote_promise env a sn own key =
     (case map_of sn key of
        None \<Rightarrow> refused a
      | Some (m, _) \<Rightarrow>
          (case of_j_kfv (env_serde env) (am_data m) of
             Inl _ \<Rightarrow> refused a
           | Inr k \<Rightarrow>
               (case d_dpu a of
                  Some (LocalDpu d managed npu4 npu6) \<Rightarrow>
                    (case (of_fv_remote_dpu (env_serde env) (kfv_field_values k), seen_row env of_fv_global_config sn ''DASH_HA_GLOBAL_CONFIG'') of
                       (Inr r, Some cfg) \<Rightarrow> bfd_requests env a d own cfg [rd_npu_ipv4 r]
                     | _ \<Rightarrow> refused a)
                | _ \<Rightarrow>
                    if kfv_operation k = KDel then (a, [], True, True)
                    else (case of_fv_remote_dpu (env_serde env) (kfv_field_values k) of
                            Inl _ \<Rightarrow> refused a
                          | Inr r \<Rightarrow> dpu_tells_all env (a\<lparr>d_dpu := Some (RemoteDpu r)\<rparr>) sn))))"

definition dpu_promise :: "hamgrd_env \<Rightarrow> dpu_actor promise" where
  "dpu_promise env a sn own key =
     (if key = ''DPU'' then dpu_config_promise env a sn key
      else if starts_with key ''REMOTE_DPU'' then remote_promise env a sn own key
      else case d_dpu a of
          None \<Rightarrow> reached a []
        | Some dd \<Rightarrow>
            if starts_with key ''DPUStateRegister|'' then
              (case map_of sn key of
                 None \<Rightarrow> refused a
               | Some (m, src) \<Rightarrow>
                   (case of_j_registration (env_serde env) (am_data m) of
                      Inl _ \<Rightarrow> refused a
                    | Inr active \<Rightarrow> if active then dpu_tells env a sn [src] else reached a []))
            else (case dd of
                LocalDpu d managed npu4 npu6 \<Rightarrow>
                  if \<not> managed then reached a []
                  else if key = ''DASH_HA_GLOBAL_CONFIG'' then
                    (case seen_row env of_fv_global_config sn key of
                       None \<Rightarrow> refused a
                     | Some cfg \<Rightarrow> bfd_requests env a d own cfg (sort (seen_npus env sn @ [npu4])))
                  else if key = ''DPU_STATE'' \<or> key = ''DASH_BFD_PROBE_STATE'' then dpu_tells_all env a sn
                  else reached a []
              | RemoteDpu _ \<Rightarrow> reached a []))"

section \<open>The actor keeps its promise\<close>

text \<open>The ends of the steps a callback is made of: reading a message, a value that may fail, a row of a table.\<close>

lemma ends_read:
  assumes "self s = a" "\<not> stop s" "sn = seen_of (tables s)"
    and "\<And>m src v. map_of sn key = Some (m, src) \<Longrightarrow> dec (am_data m) = Inr v \<Longrightarrow> ends_as (f v s) (g v)"
  shows "ends_as (act_bind (reads (read_msg dec key)) f s)
    (case map_of sn key of None \<Rightarrow> refused a | Some (m, _) \<Rightarrow> (case dec (am_data m) of Inl _ \<Rightarrow> refused a | Inr v \<Rightarrow> g v))"
proof (cases "map_of sn key")
  case None
  then obtain x where "incoming_get (tables s) key = Err x" using seen_incoming_get(2) assms(3) by blast
  with None assms show ?thesis by (simp add: act_bind_def reads_def read_msg_def)
next
  case (Some p)
  obtain m src where p: "p = (m, src)" by fastforce
  then have "incoming_get (tables s) key = Ok m" using seen_incoming_get(1) Some assms(3) by blast
  with Some p assms show ?thesis
    by (cases "dec (am_data m)") (simp_all add: act_bind_def reads_def read_msg_def deserialize_data_def)
qed

lemma ends_of_sum:
  assumes "self s = a" "\<not> stop s" "\<And>v. x = Inr v \<Longrightarrow> ends_as (f v s) (g v)"
  shows "ends_as (act_bind (of_outcome (of_sum x)) f s) (case x of Inl _ \<Rightarrow> refused a | Inr v \<Rightarrow> g v)"
  using assms by (cases x) (simp_all add: act_bind_def of_outcome_def)

lemma seen_row_read:
  "seen_row env dec (seen_of (tables s)) key = Some r \<Longrightarrow> read_fvs env dec key s = Ok r"
  "seen_row env dec (seen_of (tables s)) key = None \<Longrightarrow> \<exists>e. read_fvs env dec key s = Err e"
proof -
  consider e where "map_of (seen_of (tables s)) key = None" "incoming_get (tables s) key = Err e"
    | m src where "map_of (seen_of (tables s)) key = Some (m, src)" "incoming_get (tables s) key = Ok m"
    using seen_incoming_get [of "tables s" key] by (cases "map_of (seen_of (tables s)) key") auto
  then show "seen_row env dec (seen_of (tables s)) key = Some r \<Longrightarrow> read_fvs env dec key s = Ok r"
    "seen_row env dec (seen_of (tables s)) key = None \<Longrightarrow> \<exists>e. read_fvs env dec key s = Err e"
    by (cases; auto simp: seen_row_def read_fvs_def read_msg_def deserialize_data_def split: sum.splits)+
qed

lemma ok_option_row: "ok_option (read_fvs env dec key s) = seen_row env dec (seen_of (tables s)) key"
  using seen_row_read [of env dec s key] by (cases "seen_row env dec (seen_of (tables s)) key") auto

lemma ends_row:
  assumes "self s = a" "\<not> stop s" "\<And>r. seen_row env dec (seen_of (tables s)) key = Some r \<Longrightarrow> ends_as (f r s) (g r)"
  shows "ends_as (act_bind (reads (read_fvs env dec key)) f s)
    (case seen_row env dec (seen_of (tables s)) key of None \<Rightarrow> refused a | Some r \<Rightarrow> g r)"
proof (cases "seen_row env dec (seen_of (tables s)) key")
  case None
  with seen_row_read(2) [OF None] assms(1,2) show ?thesis by (auto simp: act_bind_def reads_def)
next
  case (Some r)
  with seen_row_read(1) [OF Some] assms(3) show ?thesis by (simp add: act_bind_def reads_def)
qed

lemma dpu_report_seen:
  assumes "self s = a" "d_dpu a = Some dd"
  shows "dpu_report env s dd = dpu_status env (d_id a) dd (seen_of (tables s))"
  using assms
  by (cases dd) (simp_all add: dpu_report_def dpu_status_def calculate_dpu_state_def get_dpu_state_def get_bfd_probe_state_def
      ok_option_row dpu_is_up_def Let_def table_defs split: option.splits)

lemma dpu_tells_ends:
  assumes "self s = a" "\<not> stop s" "queued_messages (tables s) = []"
  shows "ends_as (update_dpu_state env None s) (dpu_tells_all env a (seen_of (tables s)))"
    and "ends_as (update_dpu_state env (Some sp) s) (dpu_tells env a (seen_of (tables s)) [sp])"
proof -
  have none: "ends_as (update_dpu_state env t s) (dpu_tells env a (seen_of (tables s)) ds)" if "d_dpu a = None" for t ds
    using that assms by (simp add: update_dpu_state_def dpu_tells_def with_state_def ret_def ends_reached queued_pairs_Nil)
  have some: "ends_as (update_dpu_state env None s) (dpu_tells_all env a (seen_of (tables s)))"
    "ends_as (update_dpu_state env (Some sp) s) (dpu_tells env a (seen_of (tables s)) [sp])" if "d_dpu a = Some dd" for dd
  proof -
    let ?j = "j_dpu_actor_state (env_serde env) (dpu_status env (d_id a) dd (seen_of (tables s)))"
    note facts = that assms dpu_report_seen [OF assms(1) that]
    from ends_sends [OF assms, of "''DPUStateUpdate|'' @ d_id a" ?j "env_codec env" "\<lambda>p. p"
        "registered (env_serde env) (seen_of (tables s)) DPUState"] facts
    show "ends_as (update_dpu_state env None s) (dpu_tells_all env a (seen_of (tables s)))"
      by (simp add: update_dpu_state_def dpu_tells_all_def dpu_tells_def with_state_def registered_seen new_dpu_state_msg_def dpu_msg_key_def)
    from ends_sends_one [OF assms, of "''DPUStateUpdate|'' @ d_id a" ?j "env_codec env" sp] facts
    show "ends_as (update_dpu_state env (Some sp) s) (dpu_tells env a (seen_of (tables s)) [sp])"
      by (simp add: update_dpu_state_def dpu_tells_def with_state_def new_dpu_state_msg_def dpu_msg_key_def)
  qed
  show "ends_as (update_dpu_state env None s) (dpu_tells_all env a (seen_of (tables s)))"
    "ends_as (update_dpu_state env (Some sp) s) (dpu_tells env a (seen_of (tables s)) [sp])"
    using none some by (cases "d_dpu a"; simp add: dpu_tells_all_def)+
qed

lemma bfd_session_request:
  assumes "self s = a" "d_dpu a = Some (LocalDpu d managed npu4 npu6)" "sc_source (client (tables s)) = own"
  shows "bfd_request env (d_id a) d own cfg p = Some (sp, m) \<Longrightarrow>
      update_bfd_session env cfg p s = (s\<lparr>tables := outgoing_send (env_codec env) (tables s) sp m\<rparr>, Ok ())"
    and "bfd_request env (d_id a) d own cfg p = None \<Longrightarrow> \<exists>e. update_bfd_session env cfg p s = (s, Err e)"
  using assms
  by (auto simp: bfd_request_def update_bfd_session_def act_defs bfd_session_tbl_def new_actor_message_def Let_def common_bridge_sp_def
      from_my_sp_def split: sum.splits)

lemma bfd_sessions_requests:
  assumes "self s = a" "d_dpu a = Some (LocalDpu d managed npu4 npu6)" "sc_source (client (tables s)) = own"
  shows "case those (map (bfd_request env (d_id a) d own cfg) ps) of
      None \<Rightarrow> \<exists>s' e. for_each (update_bfd_session env cfg) ps s = (s', Err e) \<and> self s' = a \<and> stop s' = stop s
    | Some outs \<Rightarrow> \<exists>st. for_each (update_bfd_session env cfg) ps s = (s\<lparr>tables := st\<rparr>, Ok ()) \<and>
        queued_pairs st = queued_pairs (tables s) @ map (\<lambda>(q, m). (Some q, m)) outs"
  using assms
proof (induction ps arbitrary: s)
  case Nil
  then show ?case by (auto simp: ret_def intro: exI [of _ "tables s"])
next
  case (Cons p ps)
  show ?case
  proof (cases "bfd_request env (d_id a) d own cfg p")
    case None
    with bfd_session_request(2) [OF Cons.prems None] Cons.prems show ?thesis by (auto simp: act_seq_def act_bind_def)
  next
    case (Some q)
    obtain sp m where q: "q = (sp, m)" by fastforce
    let ?s = "s\<lparr>tables := outgoing_send (env_codec env) (tables s) sp m\<rparr>"
    have step: "for_each (update_bfd_session env cfg) (p # ps) s = for_each (update_bfd_session env cfg) ps ?s"
      using bfd_session_request(1) [OF Cons.prems] Some q by (simp add: act_seq_def act_bind_def)
    from Cons.IH [of ?s] Cons.prems Some q show ?thesis unfolding step by (auto split: option.splits)
  qed
qed

lemma bfd_requests_ends:
  assumes "self s = a" "\<not> stop s" "queued_messages (tables s) = []" "d_dpu a = Some (LocalDpu d managed npu4 npu6)"
    and "sc_source (client (tables s)) = own"
  shows "ends_as (for_each (update_bfd_session env cfg) ps s) (bfd_requests env a d own cfg ps)"
  using bfd_sessions_requests [OF assms(1,4,5), of env cfg ps] assms
  by (auto simp: bfd_requests_def ends_reached queued_pairs_Nil split: option.splits)

lemma bfd_request_ends:
  assumes "self s = a" "\<not> stop s" "queued_messages (tables s) = []" "d_dpu a = Some (LocalDpu d managed npu4 npu6)"
    and "sc_source (client (tables s)) = own"
  shows "ends_as (update_bfd_session env cfg p s) (bfd_requests env a d own cfg [p])"
proof -
  have "for_each (update_bfd_session env cfg) [p] s = update_bfd_session env cfg p s"
    by (auto simp: act_seq_def act_bind_def ret_def split: prod.splits exec.splits)
  with bfd_requests_ends [OF assms, of env cfg "[p]"] show ?thesis by simp
qed

lemma remote_npus_seen: "remote_npus env s = seen_npus env (seen_of (tables s))"
proof -
  have "List.map_filter (\<lambda>e. f (in_msg e)) (map snd (filter (\<lambda>e. starts_with (fst e) p) xs)) =
      List.map_filter (\<lambda>(k, m, src). if starts_with k p then f m else None) (map (apsnd (\<lambda>e. (in_msg e, in_source e))) xs)"
    for f :: "actor_message \<Rightarrow> string option" and p and xs :: "(string \<times> incoming_entry) list"
    by (induction xs) (auto simp: List.map_filter_simps split: option.splits if_splits)
  from this [of "\<lambda>m. case of_j_kfv (env_serde env) (am_data m) of
        Inl _ \<Rightarrow> None
      | Inr r \<Rightarrow> (case of_fv_remote_dpu (env_serde env) (kfv_field_values r) of Inl _ \<Rightarrow> None | Inr d \<Rightarrow> Some (rd_npu_ipv4 d))"]
  show ?thesis by (simp add: remote_npus_def seen_npus_def get_by_prefix_def seen_of_def table_defs)
qed

lemma subscribes_ends:
  assumes "subscribes env bs (self s) = (a, ok)"
  shows "\<exists>r. for_each (\<lambda>b. push_bridge env b add_dpu_bridge) bs s = (s\<lparr>self := a\<rparr>, r) \<and>
    (if ok then r = Ok () else \<exists>e. r = Err e)"
  using assms
proof (induction bs arbitrary: s)
  case (Cons b bs)
  show ?case
  proof (cases "spawn_bridge env b")
    case None
    with Cons.IH [of "s\<lparr>self := add_dpu_bridge b (self s)\<rparr>"] Cons.prems show ?thesis
      by (simp add: act_seq_def act_bind_def push_bridge_def update_self_def)
  next
    case (Some e)
    with Cons.prems show ?thesis by (auto simp: act_seq_def act_bind_def push_bridge_def of_outcome_def)
  qed
qed (auto simp: ret_def)

lemma dpu_configured_ends:
  assumes "self s = a" "\<not> stop s" "queued_messages (tables s) = []" "dpu_dpu_id d = slot_id env \<longleftrightarrow> managed"
  shows "ends_as (act_seq (update_self (\<lambda>a. a\<lparr>d_dpu := Some (LocalDpu d managed npu4 (env_npu_ipv6 env))\<rparr>))
      (act_seq
        (if managed \<and> d_dpu a = None
         then for_each (\<lambda>b. push_bridge env b add_dpu_bridge) (dpu_subscriptions (d_id a) (dpu_dpu_id d)) else ret ())
        (update_dpu_state env None)) s)
    (dpu_configured env a (seen_of (tables s)) d npu4)"
proof -
  let ?a = "a\<lparr>d_dpu := Some (LocalDpu d managed npu4 (env_npu_ipv6 env))\<rparr>"
  let ?sub = "if managed \<and> d_dpu a = None
    then for_each (\<lambda>b. push_bridge env b add_dpu_bridge) (dpu_subscriptions (d_id a) (dpu_dpu_id d)) else ret ()"
  obtain a2 ok where a2: "(if managed \<and> d_dpu a = None then subscribes env (dpu_subscriptions (d_id a) (dpu_dpu_id d)) ?a else (?a, True)) = (a2, ok)"
    by fastforce
  have "\<exists>r. ?sub (s\<lparr>self := ?a\<rparr>) = (s\<lparr>self := a2\<rparr>, r) \<and> (if ok then r = Ok () else \<exists>e. r = Err e)"
    using a2 subscribes_ends [of env "dpu_subscriptions (d_id a) (dpu_dpu_id d)" "s\<lparr>self := ?a\<rparr>" a2 ok]
    by (cases "managed \<and> d_dpu a = None") (auto simp: ret_def)
  then obtain r where r: "?sub (s\<lparr>self := ?a\<rparr>) = (s\<lparr>self := a2\<rparr>, r)" "if ok then r = Ok () else \<exists>e. r = Err e" by blast
  have p: "dpu_configured env a (seen_of (tables s)) d npu4 = (if ok then dpu_tells_all env a2 (seen_of (tables s)) else refused a2)"
    using a2 assms(4) by (simp add: dpu_configured_def Let_def)
  have "act_seq (update_self (\<lambda>a. a\<lparr>d_dpu := Some (LocalDpu d managed npu4 (env_npu_ipv6 env))\<rparr>)) (act_seq ?sub (update_dpu_state env None)) s =
      act_seq ?sub (update_dpu_state env None) (s\<lparr>self := ?a\<rparr>)"
    using assms(1) by (simp add: act_seq_def act_bind_def update_self_def)
  also have "\<dots> = (if ok then update_dpu_state env None (s\<lparr>self := a2\<rparr>) else (s\<lparr>self := a2\<rparr>, r))"
    unfolding act_seq_def act_bind_def r(1) using r(2) by (auto split: if_splits)
  finally show ?thesis
    using r(2) p dpu_tells_ends(1) [of "s\<lparr>self := a2\<rparr>" a2 env] assms by (auto split: if_splits)
qed

lemma dpu_config_ends:
  assumes "self s = a" "\<not> stop s" "queued_messages (tables s) = []"
  shows "ends_as (handle_dpu_message env key s) (dpu_config_promise env a (seen_of (tables s)) key)"
  unfolding handle_dpu_message_def dpu_config_promise_def
proof (rule ends_read [OF assms(1,2) refl], goal_cases)
  case (1 m src k)
  show ?case
  proof (cases "kfv_operation k = KDel")
    case True
    with assms show ?thesis by (simp add: stop_actor_def ends_as_def queued_pairs_Nil)
  next
    case False
    show ?thesis unfolding if_not_P [OF False]
    proof (rule ends_of_sum [OF assms(1,2)], goal_cases)
      case (1 d)
      show ?case
      proof (cases "env_npu_ipv4 env")
        case None
        with assms show ?thesis by (simp add: of_outcome_def)
      next
        case (Some npu4)
        show ?thesis unfolding Some option.case with_state_def Let_def assms(1)
          by (rule dpu_configured_ends [OF assms refl, unfolded dpu_subscriptions_def])
      qed
    qed
  qed
qed

lemma remote_ends:
  assumes "self s = a" "\<not> stop s" "queued_messages (tables s) = []" "sc_source (client (tables s)) = own"
  shows "ends_as (handle_remote_dpu_message env key s) (remote_promise env a (seen_of (tables s)) own key)"
proof -
  have own: "ends_as (handle_remote_dpu_message_to_remote_dpu env key s) (remote_promise env a (seen_of (tables s)) own key)"
    if "\<And>d managed npu4 npu6. d_dpu a \<noteq> Some (LocalDpu d managed npu4 npu6)"
  proof -
    have c: "(case d_dpu a of Some (LocalDpu d managed npu4 npu6) \<Rightarrow> f d managed npu4 npu6 | _ \<Rightarrow> g) = g" for f g
      using that by (auto split: option.splits dpu_data.splits)
    show ?thesis unfolding handle_remote_dpu_message_to_remote_dpu_def remote_promise_def c
    proof (rule ends_read [OF assms(1,2) refl], goal_cases)
      case (1 m src k)
      show ?case
      proof (cases "kfv_operation k = KDel")
        case True
        with assms show ?thesis by (simp add: stop_actor_def ends_as_def queued_pairs_Nil)
      next
        case False
        show ?thesis unfolding if_not_P [OF False]
        proof (rule ends_of_sum [OF assms(1,2)], goal_cases)
          case (1 r)
          let ?a = "a\<lparr>d_dpu := Some (RemoteDpu r)\<rparr>"
          from dpu_tells_ends(1) [of "s\<lparr>self := ?a\<rparr>" ?a env] assms
          show ?case by (simp add: act_seq_def act_bind_def update_self_def)
        qed
      qed
    qed
  qed
  have peer: "ends_as (handle_remote_dpu_message_to_local_dpu env key s) (remote_promise env a (seen_of (tables s)) own key)"
    if d: "d_dpu a = Some (LocalDpu d managed npu4 npu6)" for d managed npu4 npu6
  proof -
    have c: "(case (x, y) of (Inr r, Some cfg) \<Rightarrow> f r cfg | _ \<Rightarrow> g) = (case x of Inl _ \<Rightarrow> g | Inr r \<Rightarrow> (case y of None \<Rightarrow> g | Some cfg \<Rightarrow> f r cfg))"
      for x :: "string + remote_dpu" and y :: "dash_ha_global_config option" and f g
      by (auto split: sum.splits option.splits)
    show ?thesis
      unfolding handle_remote_dpu_message_to_local_dpu_def remote_promise_def d option.case dpu_data.case c
      by (rule ends_read [OF assms(1,2) refl], rule ends_of_sum [OF assms(1,2)],
          unfold get_dash_ha_global_config_def table_defs sonic_table.simps, rule ends_row [OF assms(1,2)], rule bfd_request_ends [OF assms(1-3) d assms(4)])
  qed
  show ?thesis
    using own peer assms(1) by (auto simp: handle_remote_dpu_message_def with_state_def split: option.splits dpu_data.splits)
qed

lemma dpu_registration_ends:
  assumes "self s = a" "\<not> stop s" "queued_messages (tables s) = []" "sn = seen_of (tables s)"
  shows "ends_as (handle_dpu_state_registration env key s)
    (case map_of sn key of None \<Rightarrow> refused a | Some (m, src) \<Rightarrow>
      (case of_j_registration (env_serde env) (am_data m) of Inl _ \<Rightarrow> refused a
       | Inr active \<Rightarrow> if active then dpu_tells env a sn [src] else reached a []))"
proof (cases "map_of sn key")
  case None
  then obtain x where "get_entry (tables s) key = Err x" using seen_get_entry(3) assms(4) by blast
  with None assms show ?thesis by (simp add: handle_dpu_state_registration_def with_state_def act_bind_def of_outcome_def)
next
  case (Some q)
  obtain m src where q: "q = (m, src)" by fastforce
  then obtain e where e: "get_entry (tables s) key = Ok e" "in_msg e = m" "in_source e = src"
    using Some seen_get_entry(2) assms(4) by blast
  with Some q assms dpu_tells_ends(2) [OF assms(1-3), of env src] show ?thesis
    by (auto simp: handle_dpu_state_registration_def with_state_def act_bind_def of_outcome_def deserialize_data_def ret_def ends_reached
        queued_pairs_Nil split: sum.splits)
qed

lemma bfd_sessions_ends:
  assumes "self s = a" "\<not> stop s" "queued_messages (tables s) = []" "d_dpu a = Some (LocalDpu d True npu4 npu6)"
    and "sc_source (client (tables s)) = own" "sn = seen_of (tables s)"
  shows "ends_as (update_bfd_sessions env s)
    (case seen_row env of_fv_global_config sn ''DASH_HA_GLOBAL_CONFIG'' of None \<Rightarrow> refused a
     | Some cfg \<Rightarrow> bfd_requests env a d own cfg (sort (seen_npus env sn @ [npu4])))"
proof -
  have "update_bfd_sessions env s = act_bind (reads (read_fvs env of_fv_global_config ''DASH_HA_GLOBAL_CONFIG''))
      (\<lambda>cfg. for_each (update_bfd_session env cfg) (sort (seen_npus env sn @ [npu4]))) s"
    using assms(1,4,6) by (simp add: update_bfd_sessions_def with_state_def is_local_managed_def get_dash_ha_global_config_def table_defs
        remote_npus_seen)
  then show ?thesis unfolding assms(6) by (simp only:) (rule ends_row [OF assms(1,2)], rule bfd_requests_ends [OF assms(1-5)])
qed

lemma dpu_handler_ends:
  assumes "queued_messages st = []"
  shows "ends_as (dpu_handle_message env key \<lparr>self = a, tables = st, stop = False\<rparr>)
    (dpu_promise env a (seen_of st) (sc_source (client st)) key)"
proof -
  let ?s = "\<lparr>self = a, tables = st, stop = False\<rparr>"
  note keys = dpu_handle_message_def dpu_promise_def with_state_def table_defs
  consider "key = ''DPU''" | "key \<noteq> ''DPU''" "starts_with key ''REMOTE_DPU''"
    | "key \<noteq> ''DPU''" "\<not> starts_with key ''REMOTE_DPU''" "d_dpu a = None"
    | dd where "key \<noteq> ''DPU''" "\<not> starts_with key ''REMOTE_DPU''" "d_dpu a = Some dd" "starts_with key ''DPUStateRegister|''"
    | dd where "key \<noteq> ''DPU''" "\<not> starts_with key ''REMOTE_DPU''" "d_dpu a = Some dd" "\<not> starts_with key ''DPUStateRegister|''"
    by blast
  then show ?thesis
  proof cases
    case 1
    with dpu_config_ends [of ?s a env key] assms show ?thesis by (simp add: keys)
  next
    case 2
    with remote_ends [of ?s a "sc_source (client st)" env key] assms show ?thesis by (simp add: keys)
  next
    case 3
    with assms show ?thesis by (simp add: keys ret_def ends_reached queued_pairs_Nil)
  next
    case 4
    with dpu_registration_ends [of ?s a "seen_of st" env key] assms show ?thesis by (simp add: keys is_registration_msg_def)
  next
    case (5 dd)
    have idle: "ends_as (ret () ?s) (reached a [])" using assms by (simp add: ret_def ends_reached queued_pairs_Nil)
    show ?thesis
    proof (cases "is_local_managed a")
      case False
      with 5 idle show ?thesis by (cases dd) (simp_all add: keys is_registration_msg_def is_local_managed_def)
    next
      case True
      with 5 obtain d npu4 npu6 where d: "d_dpu a = Some (LocalDpu d True npu4 npu6)"
        by (cases dd) (auto simp: is_local_managed_def)
      have "ends_as (update_bfd_sessions env ?s)
          (case seen_row env of_fv_global_config (seen_of st) ''DASH_HA_GLOBAL_CONFIG'' of None \<Rightarrow> refused a
           | Some cfg \<Rightarrow> bfd_requests env a d (sc_source (client st)) cfg (sort (seen_npus env (seen_of st) @ [npu4])))"
        "ends_as (update_dpu_state env None ?s) (dpu_tells_all env a (seen_of st))"
        using bfd_sessions_ends [of ?s a d npu4 npu6 "sc_source (client st)" "seen_of st" env] dpu_tells_ends(1) [of ?s a env] d assms by simp_all
      with True 5(1,2,4) d idle show ?thesis by (auto simp add: keys is_registration_msg_def)
    qed
  qed
qed

interpretation dpu_spec: promising_actor "env_codec env" "as_handler (dpu_handle_message env)" "dpu_promise env" for env
  by (rule promising_actorI [OF dpu.bus_actor_axioms dpu_handler_ends])

section \<open>Properties\<close>

text \<open>
  (C29) The DPU actor with its driver refines its promise: for every sequence of requests and acknowledgements, from any
  state between two turns, the driver returns, and what it puts on the bus is exactly what the promise says, in this order: for
  each request its acknowledgement, then the reports of the DPU's state and the BFD sessions due; nothing for a request whose
  callback fails, for an acknowledgement, or once the actor has stopped.
\<close>

theorem dpu_driver_refines_promise:
  assumes "faithful (env_codec env)" "actor_inv (dstate d)" "sc_source (client (dstate d)) = own"
    and "spec_run (dpu_promise env) own \<lparr>sp_actor = actor d, sp_seen = seen_of (dstate d), sp_stopped = stopped d\<rparr> rs = (s, obs)"
  shows "\<exists>d' ms. driver_run (env_codec env) dump (as_handler (dpu_handle_message env)) d (map (event_of (env_codec env) own) rs) = Ok d' \<and>
    wire (dstate d') = wire (dstate d) @ ms \<and> map (observe (env_codec env)) ms = map Some obs \<and>
    actor d' = sp_actor s \<and> stopped d' = sp_stopped s \<and> seen_of (dstate d') = sp_seen s"
proof -
  have "shows_spec own d \<lparr>sp_actor = actor d, sp_seen = seen_of (dstate d), sp_stopped = stopped d\<rparr>"
    using assms(2,3) by (simp add: shows_spec_def)
  from dpu_spec.run_refines [where dump = dump, OF assms(1) this assms(4)] show ?thesis by (auto simp: shows_spec_def)
qed

text \<open>
  A witness: a remote DPU is announced, an actor registers and is told its state.
\<close>

definition demo_dpu_requests :: "request list" where
  "demo_dpu_requests = [Request 1 (demo_actor ''b'') \<lparr>am_key = ''REMOTE_DPU'', am_data = JStr ''r''\<rparr>,
     Request 2 (demo_actor ''v'') \<lparr>am_key = ''DPUStateRegister|v'', am_data = JBool True\<rparr>]"

theorem dpu_driver_refines_promise_witness:
  "\<exists>d' ms. driver_run counting_codec (\<lambda>st. []) (as_handler (dpu_handle_message demo_spec_env)) demo_driver
      (map (event_of counting_codec (sc_source (client demo_state))) demo_dpu_requests) = Ok d' \<and>
    wire (dstate d') = wire demo_state @ ms \<and>
    map (observe counting_codec) ms = map Some [Answers (demo_actor ''b'') 1 (code_num CodeOk), Answers (demo_actor ''v'') 2 (code_num CodeOk),
      Asks (demo_actor ''v'') \<lparr>am_key = ''DPUStateUpdate|dpu0'', am_data = JBool False\<rparr>]"
proof -
  let ?own = "sc_source (client demo_state)"
  let ?s = "\<lparr>sp_actor = actor demo_driver, sp_seen = seen_of (dstate demo_driver), sp_stopped = stopped demo_driver\<rparr>"
  have e: "env_codec demo_spec_env = counting_codec" "dstate demo_driver = demo_state" "actor_inv demo_state"
    by (simp_all add: demo_spec_env_def demo_driver_def demo_state_def)
  have "seen_of demo_state = []" by (simp add: seen_of_def demo_state_def new_state_def)
  then obtain s where "spec_run (dpu_promise demo_spec_env) ?own ?s demo_dpu_requests =
      (s, [Answers (demo_actor ''b'') 1 (code_num CodeOk), Answers (demo_actor ''v'') 2 (code_num CodeOk),
        Asks (demo_actor ''v'') \<lparr>am_key = ''DPUStateUpdate|dpu0'', am_data = JBool False\<rparr>])"
    by (simp add: demo_driver_def demo_dpu_requests_def spec_step_def dpu_promise_def remote_promise_def dpu_tells_all_def dpu_tells_def
        dpu_status_def reached_def sends_def registered_def List.map_filter_simps new_dpu_actor_def demo_spec_env_def demo_env_def
        demo_serde_def from_remote_dpu_def Let_def)
  from dpu_driver_refines_promise [where dump = "\<lambda>st. []", of demo_spec_env demo_driver ?own, OF _ _ _ this] e faithful_counting
  show ?thesis by auto
qed

end
