(* ===== verification/Hamgrd_Scripts.thy ===== *)
theory Hamgrd_Scripts
  imports Hamgrd_Dpu_Spec
begin

text \<open>
  The scripts with which \<open>hamgrd/src/actors/test.rs\<close> tests an actor, run on the model of the driver: clients send requests to the
  actor, expect their acknowledgement, and receive the messages that the actor sends to them. A script that succeeds on the
  promise of an actor succeeds on its driver.
\<close>

section \<open>Running a script\<close>

datatype command = Send string json service_path bool | Recv string json service_path

text \<open>
  \<open>box\<close> holds what the actor has sent and nobody has received yet; each client takes the first message to its own path. \<open>n\<close> is
  the id of the next request. \<open>None\<close> is the panic of a failed expectation or of a timeout.
\<close>

fun take_for :: "service_path \<Rightarrow> swbus_message list \<Rightarrow> (swbus_message \<times> swbus_message list) option" where
  "take_for addr [] = None"
| "take_for addr (m # ms) =
     (if Option.bind (header m) destination = Some addr then Some (m, ms)
      else map_option (\<lambda>(x, rest). (x, m # rest)) (take_for addr ms))"

definition acknowledged :: "u64 \<Rightarrow> bool \<Rightarrow> swbus_message \<Rightarrow> bool" where
  "acknowledged rid fail m =
     (case body m of
        Some (Response r) \<Rightarrow> request_id r = rid \<and> resp_body r = None \<and> error_code r = code_num (if fail then Fail else CodeOk)
      | _ \<Rightarrow> False)"

definition requested :: "codec \<Rightarrow> string \<Rightarrow> json \<Rightarrow> swbus_message \<Rightarrow> u64 option" where
  "requested cd key data m =
     (case (header m, body m) of
        (Some h, Some (DataRequest p)) \<Rightarrow>
          (if deserialize cd p = Inr \<lparr>am_key = key, am_data = data\<rparr> then Some (msg_id h) else None)
      | _ \<Rightarrow> None)"

fun run_commands ::
    "codec \<Rightarrow> (actor_state \<Rightarrow> string) \<Rightarrow> 'a message_handler \<Rightarrow> service_path \<Rightarrow> u64 \<Rightarrow> 'a driver \<Rightarrow> swbus_message list
       \<Rightarrow> command list \<Rightarrow> 'a driver option" where
  "run_commands cd dump hm aut n d box [] = Some d"
| "run_commands cd dump hm aut n d box (Send key data addr fail # cmds) =
     (case driver_step cd dump hm d (event_of cd aut (Request n addr \<lparr>am_key = key, am_data = data\<rparr>)) of
        Ok d1 \<Rightarrow>
          (case take_for addr (box @ drop (length (wire (dstate d))) (wire (dstate d1))) of
             Some (m, rest) \<Rightarrow> if acknowledged n fail m then run_commands cd dump hm aut (n + 1) d1 rest cmds else None
           | None \<Rightarrow> None)
      | _ \<Rightarrow> None)"
| "run_commands cd dump hm aut n d box (Recv key data addr # cmds) =
     (case take_for addr box of
        Some (m, rest) \<Rightarrow>
          (case requested cd key data m of
             Some i \<Rightarrow>
               (case driver_step cd dump hm d (event_of cd aut (Reply i addr CodeOk [])) of
                  Ok d1 \<Rightarrow> run_commands cd dump hm aut n d1 (rest @ drop (length (wire (dstate d))) (wire (dstate d1))) cmds
                | _ \<Rightarrow> None)
           | None \<Rightarrow> None)
      | None \<Rightarrow> None)"

section \<open>Scripts on a promise\<close>

fun receiver :: "observed \<Rightarrow> service_path" where
  "receiver (Asks p m) = p"
| "receiver (Answers p i c) = p"

fun take_observed :: "service_path \<Rightarrow> observed list \<Rightarrow> (observed \<times> observed list) option" where
  "take_observed addr [] = None"
| "take_observed addr (x # xs) =
     (if receiver x = addr then Some (x, xs) else map_option (\<lambda>(y, rest). (y, x # rest)) (take_observed addr xs))"

fun spec_commands ::
    "'a promise \<Rightarrow> service_path \<Rightarrow> u64 \<Rightarrow> 'a spec_state \<Rightarrow> observed list \<Rightarrow> command list \<Rightarrow> 'a spec_state option" where
  "spec_commands P aut n s box [] = Some s"
| "spec_commands P aut n s box (Send key data addr fail # cmds) =
     (case spec_step P aut s (Request n addr \<lparr>am_key = key, am_data = data\<rparr>) of
        (s1, obs) \<Rightarrow>
          (case take_observed addr (box @ obs) of
             Some (x, rest) \<Rightarrow>
               if x = Answers addr n (code_num (if fail then Fail else CodeOk)) then spec_commands P aut (n + 1) s1 rest cmds else None
           | None \<Rightarrow> None))"
| "spec_commands P aut n s box (Recv key data addr # cmds) =
     (case take_observed addr box of
        Some (x, rest) \<Rightarrow>
          if x = Asks addr \<lparr>am_key = key, am_data = data\<rparr> then spec_commands P aut n s rest cmds else None
      | None \<Rightarrow> None)"

lemma observe_receiver: "observe cd m = Some x \<Longrightarrow> Option.bind (header m) destination = Some (receiver x)"
  by (auto simp: observe_def split: option.splits body.splits sum.splits if_splits)

lemma take_for_observed:
  assumes "map (observe cd) ms = map Some xs" "take_observed addr xs = Some (x, xs')"
  shows "\<exists>m ms'. take_for addr ms = Some (m, ms') \<and> observe cd m = Some x \<and> map (observe cd) ms' = map Some xs'"
  using assms
proof (induction xs arbitrary: ms x xs')
  case (Cons y ys)
  then obtain m ms1 where ms: "ms = m # ms1" "observe cd m = Some y" "map (observe cd) ms1 = map Some ys" by (cases ms) auto
  show ?case
  proof (cases "receiver y = addr")
    case True
    with ms Cons(3) observe_receiver [OF ms(2)] show ?thesis by simp
  next
    case False
    with Cons(3) obtain ys' where "take_observed addr ys = Some (x, ys')" "xs' = y # ys'" by auto
    with Cons.IH [OF ms(3)] False ms observe_receiver [OF ms(2)] show ?thesis by fastforce
  qed
qed simp

lemma observe_answer: "observe cd m = Some (Answers p i (code_num (if fail then Fail else CodeOk))) \<Longrightarrow> acknowledged i fail m"
  by (auto simp: observe_def acknowledged_def split: option.splits body.splits sum.splits if_splits)

lemma observe_request:
  "observe cd m = Some (Asks p \<lparr>am_key = key, am_data = data\<rparr>) \<Longrightarrow> \<exists>i. requested cd key data m = Some i"
  by (cases "header m") (auto simp: observe_def requested_def split: option.splits body.splits sum.splits if_splits)

text \<open>
  A whole test: the actor is spawned under its path, the commands run, and the actor has stopped at their end. \<open>test_sp\<close> is the
  path of a resource of the test runtime, \<open>bridge_sp\<close> that of the bridge of a table.
\<close>

definition test_sp :: "string \<Rightarrow> string \<Rightarrow> service_path" where
  "test_sp rt ri = \<lparr>region_id = ''unknown'', cluster_id = ''unknown'', node_id = ''unknown'', service_type = ''hamgrd'',
     service_id = ''0'', resource_type = rt, resource_id = ri\<rparr>"

definition bridge_sp :: "sonic_table \<Rightarrow> service_path" where
  "bridge_sp t = test_sp ''swss-common-bridge'' (db_name t @ ''|'' @ table_name t)"

definition actor_test ::
    "codec \<Rightarrow> (actor_state \<Rightarrow> string) \<Rightarrow> 'a message_handler \<Rightarrow> nat \<Rightarrow> u64 \<Rightarrow> u64 \<Rightarrow> service_path \<Rightarrow> 'a \<Rightarrow> command list \<Rightarrow> bool" where
  "actor_test cd dump hm now t n aut a cmds \<longleftrightarrow>
     (let c = snd (new_simple_client (new_edge (test_sp [] [])) aut True False t 0);
          d = \<lparr>actor = a, dstate = new_state now c, stopped = False\<rparr>
      in case run_commands cd dump hm aut n d [] cmds of Some d' \<Rightarrow> stopped d' | None \<Rightarrow> False)"

context promising_actor
begin

lemma commands_refine:
  assumes "faithful cd" "shows_spec aut d s" "map (observe cd) ms = map Some box" "spec_commands promise aut n s box cmds = Some s'"
  shows "\<exists>d'. run_commands cd dump hm aut n d ms cmds = Some d' \<and> shows_spec aut d' s'"
  using assms(2-)
proof (induction cmds arbitrary: n d s ms box)
  case (Cons cmd cmds)
  show ?case
  proof (cases cmd)
    case (Send key data addr fail)
    let ?r = "Request n addr \<lparr>am_key = key, am_data = data\<rparr>"
    obtain s1 obs where s1: "spec_step promise aut s ?r = (s1, obs)" by fastforce
    with Cons(4) Send obtain rest where x: "take_observed addr (box @ obs) = Some (Answers addr n (code_num (if fail then Fail else CodeOk)), rest)"
      "spec_commands promise aut (n + 1) s1 rest cmds = Some s'"
      by (auto split: option.splits if_splits)
    obtain d1 ms1 where d1: "driver_step cd dump hm d (event_of cd aut ?r) = Ok d1" "shows_spec aut d1 s1"
      "wire (dstate d1) = wire (dstate d) @ ms1" "map (observe cd) ms1 = map Some obs"
      using step_refines [OF assms(1) Cons(2) s1] by blast
    have "map (observe cd) (ms @ ms1) = map Some (box @ obs)" using d1(4) Cons(3) by simp
    from take_for_observed [OF this x(1)] obtain m rest1 where m: "take_for addr (ms @ ms1) = Some (m, rest1)"
      "acknowledged n fail m" "map (observe cd) rest1 = map Some rest" using observe_answer by blast
    with Cons.IH [OF d1(2) m(3) x(2)] d1 Send show ?thesis by simp
  next
    case (Recv key data addr)
    with Cons(4) obtain rest where x: "take_observed addr box = Some (Asks addr \<lparr>am_key = key, am_data = data\<rparr>, rest)"
      "spec_commands promise aut n s rest cmds = Some s'"
      by (auto split: option.splits if_splits)
    from take_for_observed [OF Cons(3) x(1)] obtain m rest1 i where m: "take_for addr ms = Some (m, rest1)"
      "requested cd key data m = Some i" "map (observe cd) rest1 = map Some rest" using observe_request by blast
    have r: "spec_step promise aut s (Reply i addr CodeOk []) = (s, [])" by (simp add: spec_step_def)
    obtain d1 ms1 where d1: "driver_step cd dump hm d (event_of cd aut (Reply i addr CodeOk [])) = Ok d1" "shows_spec aut d1 s"
      "wire (dstate d1) = wire (dstate d) @ ms1" "map (observe cd) ms1 = map Some []"
      using step_refines [OF assms(1) Cons(2) r] by blast
    with Cons.IH [OF d1(2) m(3) x(2)] m Recv show ?thesis by simp
  qed
qed simp

lemma test_passes:
  assumes "faithful cd" "spec_commands promise aut n \<lparr>sp_actor = a, sp_seen = [], sp_stopped = False\<rparr> [] cmds = Some s" "sp_stopped s"
  shows "actor_test cd dump hm now t n aut a cmds"
proof -
  let ?c = "snd (new_simple_client (new_edge (test_sp [] [])) aut True False t 0)"
  let ?d = "\<lparr>actor = a, dstate = new_state now ?c, stopped = False\<rparr>"
  have "sc_source ?c = aut" by (simp add: new_simple_client_def Let_def)
  then have "shows_spec aut ?d \<lparr>sp_actor = a, sp_seen = [], sp_stopped = False\<rparr>"
    by (simp add: shows_spec_def seen_of_def new_state_def actor_inv_def)
  from commands_refine [where dump = dump, OF assms(1) this _ assms(2), of "[]"] assms(3)
  show ?thesis by (auto simp: actor_test_def Let_def shows_spec_def)
qed

end

section \<open>The test of the vDPU actor\<close>

text \<open>The objects that the tests make: \<open>norm6\<close> is \<open>normalize_ipv6\<close>, the canonical text of an IPv6 address.\<close>

definition make_remote_dpu_object :: "(string \<Rightarrow> string) \<Rightarrow> nat \<Rightarrow> nat \<Rightarrow> remote_dpu" where
  "make_remote_dpu_object norm6 switch dpu =
     \<lparr>rd_pa_ipv4 = ''18.0.'' @ show_nat switch @ ''.'' @ show_nat dpu,
      rd_pa_ipv6 = Some (norm6 (''18:0:'' @ show_nat switch @ ''::'' @ show_nat dpu)),
      rd_npu_ipv4 = ''10.0.'' @ show_nat switch @ ''.'' @ show_nat dpu,
      rd_npu_ipv6 = Some (norm6 (''10:0:'' @ show_nat switch @ ''::'' @ show_nat dpu)),
      rd_dpu_id = of_nat dpu, rd_swbus_port = 23606 + of_nat dpu\<rparr>"

definition make_remote_dpu_actor_state :: "(string \<Rightarrow> string) \<Rightarrow> nat \<Rightarrow> nat \<Rightarrow> dpu_actor_state" where
  "make_remote_dpu_actor_state norm6 switch dpu =
     from_remote_dpu (''switch'' @ show_nat switch @ ''_dpu'' @ show_nat dpu) (make_remote_dpu_object norm6 switch dpu)"

text \<open>
  What the script writes, as the values that become JSON: \<open>jv\<close> gives the JSON of a value that \<open>serde_json\<close> can write.
\<close>

definition jv :: "string + json \<Rightarrow> json" where
  "jv x = (case x of Inr j \<Rightarrow> j | Inl _ \<Rightarrow> JNull)"

definition vdpu_row :: "key_operation \<Rightarrow> kfv" where
  "vdpu_row opn = \<lparr>kfv_key = ''VDPU'', kfv_operation = opn, kfv_field_values = [(''main_dpu_ids'', ''switch1_dpu0'')]\<rparr>"

definition vdpu_actor_commands :: "serde \<Rightarrow> (string \<Rightarrow> string) \<Rightarrow> command list" where
  "vdpu_actor_commands sd norm6 =
     (let down = make_remote_dpu_actor_state norm6 1 0; up = down\<lparr>da_up := True\<rparr>;
          dpu_sp = test_sp ''dpu'' ''switch1_dpu0''; ha_set_sp = test_sp ''ha-set'' ''test-ha-set'';
          report = (\<lambda>d. jv (j_vdpu_actor_state sd \<lparr>va_up = da_up d, va_dpu = d\<rparr>))
      in [Send ''VDPU'' (jv (j_kfv sd (vdpu_row KSet))) (bridge_sp vdpu_tbl) False,
          Recv ''DPUStateRegister|test-vdpu'' (jv (j_registration sd True)) dpu_sp,
          Send ''VDPUStateRegister|test-ha-set'' (jv (j_registration sd True)) ha_set_sp False,
          Send ''DPUStateUpdate|switch1_dpu0'' (jv (j_dpu_actor_state sd up)) dpu_sp False,
          Recv ''VDPUStateUpdate|test-vdpu'' (report up) ha_set_sp,
          Send ''DPUStateUpdate|switch1_dpu0'' (jv (j_dpu_actor_state sd down)) dpu_sp False,
          Recv ''VDPUStateUpdate|test-vdpu'' (report down) ha_set_sp,
          Send ''VDPU'' (jv (j_kfv sd (vdpu_row KDel))) (bridge_sp vdpu_tbl) False])"

definition vdpu_actor_test :: "hamgrd_env \<Rightarrow> (actor_state \<Rightarrow> string) \<Rightarrow> (string \<Rightarrow> string) \<Rightarrow> nat \<Rightarrow> u64 \<Rightarrow> u64 \<Rightarrow> bool" where
  "vdpu_actor_test env dump norm6 now t n \<longleftrightarrow>
     actor_test (env_codec env) dump (as_handler (vdpu_handle_message env)) now t n (test_sp vdpu_actor_name ''test-vdpu'')
       (new_vdpu_actor ''test-vdpu'') (vdpu_actor_commands (env_serde env) norm6)"

text \<open>What the script relies on of \<open>serde_json\<close>: its values are written and read back as they were.\<close>

definition script_serde :: "serde \<Rightarrow> (string \<Rightarrow> string) \<Rightarrow> bool" where
  "script_serde sd norm6 \<longleftrightarrow>
     (\<forall>opn. of_j_kfv sd (jv (j_kfv sd (vdpu_row opn))) = Inr (vdpu_row opn)) \<and>
     of_fv_vdpu sd [(''main_dpu_ids'', ''switch1_dpu0'')] = Inr \<lparr>main_dpu_ids = [''switch1_dpu0'']\<rparr> \<and>
     (\<forall>b. \<exists>j. j_registration sd b = Inr j \<and> of_j_registration sd j = Inr b) \<and>
     (\<forall>u. let d = (make_remote_dpu_actor_state norm6 1 0)\<lparr>da_up := u\<rparr>
          in of_j_dpu_actor_state sd (jv (j_dpu_actor_state sd d)) = Inr d \<and>
             (\<exists>j. j_vdpu_actor_state sd \<lparr>va_up = u, va_dpu = d\<rparr> = Inr j))"

lemma jv_Inr [simp]: "jv (Inr j) = j"
  by (simp add: jv_def)

lemma down_state: "make_remote_dpu_actor_state norm6 a b = (make_remote_dpu_actor_state norm6 a b)\<lparr>da_up := False\<rparr>"
  by (simp add: make_remote_dpu_actor_state_def from_remote_dpu_def)

lemma vdpu_row_simps [simp]:
  "kfv_operation (vdpu_row opn) = opn" "kfv_field_values (vdpu_row opn) = [(''main_dpu_ids'', ''switch1_dpu0'')]"
  by (simp_all add: vdpu_row_def)

lemma vdpu_actor_script:
  assumes "script_serde (env_serde env) norm6"
  shows "\<exists>s. spec_commands (vdpu_promise env) (test_sp ''vdpu'' ''test-vdpu'') n
      \<lparr>sp_actor = new_vdpu_actor ''test-vdpu'', sp_seen = [], sp_stopped = False\<rparr> [] (vdpu_actor_commands (env_serde env) norm6) = Some s \<and>
    sp_stopped s"
proof -
  let ?sd = "env_serde env"
  define dn where "dn = make_remote_dpu_actor_state norm6 1 0"
  have up: "dn\<lparr>da_up := False\<rparr> = dn" "da_up dn = False"
    using down_state [of norm6 1 0] by (simp_all add: dn_def make_remote_dpu_actor_state_def from_remote_dpu_def)
  obtain jt jf ju jd where j: "j_registration ?sd True = Inr jt" "of_j_registration ?sd jt = Inr True" "j_registration ?sd False = Inr jf"
    "j_vdpu_actor_state ?sd \<lparr>va_up = True, va_dpu = dn\<lparr>da_up := True\<rparr>\<rparr> = Inr ju" "j_vdpu_actor_state ?sd \<lparr>va_up = False, va_dpu = dn\<rparr> = Inr jd"
    using assms up(1) unfolding script_serde_def Let_def dn_def [symmetric] by metis
  have r: "of_j_kfv ?sd (jv (j_kfv ?sd (vdpu_row opn))) = Inr (vdpu_row opn)" for opn using assms by (simp add: script_serde_def)
  have f: "of_fv_vdpu ?sd [(''main_dpu_ids'', ''switch1_dpu0'')] = Inr \<lparr>main_dpu_ids = [''switch1_dpu0'']\<rparr>"
    "of_j_dpu_actor_state ?sd (jv (j_dpu_actor_state ?sd (dn\<lparr>da_up := True\<rparr>))) = Inr (dn\<lparr>da_up := True\<rparr>)"
    "of_j_dpu_actor_state ?sd (jv (j_dpu_actor_state ?sd dn)) = Inr dn"
    using assms up(1) unfolding script_serde_def Let_def dn_def [symmetric] by metis+
  show ?thesis
    unfolding vdpu_actor_commands_def dn_def [symmetric]
    by (simp add: Let_def spec_step_def vdpu_promise_def r f j up vdpu_registers_def vdpu_tells_def
        vdpu_report_def sends_def reached_def new_vdpu_actor_def test_sp_def bridge_sp_def vdpu_tbl_def registered_def List.map_filter_simps)
qed

text \<open>
  The test of the vDPU actor passes on the driver, whatever the clock, the first message ids and the other addresses are: the
  expected messages arrive in the expected order at the expected clients and the deleted actor has stopped.
\<close>

theorem vdpu_actor_test_passes:
  assumes "faithful (env_codec env)" "script_serde (env_serde env) norm6"
  shows "vdpu_actor_test env dump norm6 now t n"
  using vdpu_actor_script [OF assms(2), of n] vdpu_spec.test_passes [OF assms(1)]
  unfolding vdpu_actor_test_def vdpu_actor_name_def by blast

end
