(* ===== verification/Hamgrd_Dpu_Scripts.thy ===== *)
theory Hamgrd_Dpu_Scripts
  imports Hamgrd_Scripts
begin

text \<open>
  The two tests of \<open>hamgrd/src/actors/dpu.rs\<close> on the model of the driver: the life of a local DPU, with its BFD sessions and state
  reports, and that of a remote one. The objects they use are those of \<open>hamgrd/src/actors/test.rs\<close>.
\<close>

section \<open>The objects of the tests\<close>

text \<open>
  The numbers of switches and DPUs are natural numbers: those of the tests are at most three, so that no sum of 16 bits overflows.
  \<open>norm6\<close> is \<open>normalize_ipv6\<close>.
\<close>

definition make_dash_ha_global_config :: dash_ha_global_config where
  "make_dash_ha_global_config =
     \<lparr>gc_cp_data_channel_port = Some 12345, gc_dp_channel_dst_port = Some 23456, gc_dp_channel_src_port_min = Some 34567,
      gc_dp_channel_src_port_max = Some 45678, gc_dp_channel_probe_interval_ms = Some 1000, gc_dp_channel_probe_fail_threshold = Some 3,
      gc_dpu_bfd_probe_interval_in_ms = Some 1000, gc_dpu_bfd_probe_multiplier = Some 3, gc_vnet_name = Some ''vnet0''\<rparr>"

definition make_dpu_object :: "(string \<Rightarrow> string) \<Rightarrow> nat \<Rightarrow> nat \<Rightarrow> dpu" where
  "make_dpu_object norm6 switch dpu =
     (let pair = show_nat (switch div 2) in
      \<lparr>dpu_state_field = Some ''up'', dpu_vip_ipv4 = Some (''3.2.'' @ pair @ ''.'' @ show_nat dpu),
       dpu_vip_ipv6 = Some (norm6 (''3:2:'' @ pair @ ''::'' @ show_nat dpu)),
       dpu_pa_ipv4 = ''18.0.'' @ show_nat switch @ ''.'' @ show_nat dpu,
       dpu_pa_ipv6 = Some (norm6 (''18:0:'' @ show_nat switch @ ''::'' @ show_nat dpu)),
       dpu_dpu_id = of_nat dpu, dpu_vdpu_id = Some (''vdpu'' @ show_nat (switch * 8 + dpu)),
       dpu_orchagent_zmq_port = 8100, dpu_swbus_port = 23606 + of_nat dpu, dpu_midplane_ipv4 = ''169.254.1.'' @ show_nat dpu\<rparr>)"

definition make_dpu_pmon_state :: "bool \<Rightarrow> dpu_state" where
  "make_dpu_pmon_state all_up =
     (let st = (if all_up then PmonUp else PmonDown) in
      \<lparr>ds_midplane_link_state = st, ds_midplane_link_time = 1718053542000, ds_control_plane_state = st,
       ds_control_plane_time = 1718096215000, ds_data_plane_state = st, ds_data_plane_time = 1718231130000\<rparr>)"

definition make_dpu_bfd_state :: "string list \<Rightarrow> string list \<Rightarrow> dash_bfd_probe_state" where
  "make_dpu_bfd_state v4 v6 = \<lparr>v4_bfd_up_sessions = v4, v4_bfd_up_sessions_timestamp = 1718053542000, v6_bfd_up_sessions = v6,
     v6_bfd_up_sessions_timestamp = 1718053542000\<rparr>"

definition make_local_dpu_actor_state ::
    "(string \<Rightarrow> string) \<Rightarrow> nat \<Rightarrow> nat \<Rightarrow> bool \<Rightarrow> dpu_state option \<Rightarrow> dash_bfd_probe_state option \<Rightarrow> dpu_actor_state" where
  "make_local_dpu_actor_state norm6 switch dpu managed pmon bfd =
     from_dpu (''switch'' @ show_nat switch @ ''_dpu'' @ show_nat dpu) (make_dpu_object norm6 switch dpu) managed
       (''10.0.'' @ show_nat switch @ ''.'' @ show_nat dpu) (Some (norm6 (''10:0:'' @ show_nat switch @ ''::'' @ show_nat dpu))) pmon bfd"

text \<open>\<open>None\<close> is the panic for a remote DPU, and that of the missing midplane address.\<close>

definition to_local_dpu :: "dpu_actor_state \<Rightarrow> dpu option" where
  "to_local_dpu s =
     (if da_remote_dpu s then None
      else map_option (\<lambda>mp.
        \<lparr>dpu_state_field = da_state s, dpu_vip_ipv4 = da_vip_ipv4 s, dpu_vip_ipv6 = da_vip_ipv6 s, dpu_pa_ipv4 = da_pa_ipv4 s,
         dpu_pa_ipv6 = da_pa_ipv6 s, dpu_dpu_id = da_dpu_id s, dpu_vdpu_id = da_vdpu_id s,
         dpu_orchagent_zmq_port = da_orchagent_zmq_port s, dpu_swbus_port = da_swbus_port s, dpu_midplane_ipv4 = mp\<rparr>) (da_midplane_ipv4 s))"

lemma to_local_dpu_from_dpu: "to_local_dpu (from_dpu name d managed npu4 npu6 pmon bfd) = Some d"
  by (simp add: to_local_dpu_def from_dpu_def)

section \<open>The scripts\<close>

text \<open>\<open>to_field_values\<close> on the rows that the tests write.\<close>

record row_writers =
  w_dpu :: "dpu \<Rightarrow> field_values"
  w_remote :: "remote_dpu \<Rightarrow> field_values"
  w_pmon :: "dpu_state \<Rightarrow> field_values"
  w_bfd :: "dash_bfd_probe_state \<Rightarrow> field_values"
  w_global :: "dash_ha_global_config \<Rightarrow> field_values"

definition row :: "serde \<Rightarrow> string \<Rightarrow> key_operation \<Rightarrow> field_values \<Rightarrow> json" where
  "row sd key opn f = jv (j_kfv sd \<lparr>kfv_key = key, kfv_operation = opn, kfv_field_values = f\<rparr>)"

definition send_any :: "string \<Rightarrow> json \<Rightarrow> command" where
  "send_any key data = Send key data (test_sp ''test'' ''test'') False"

definition remote_dpu_actor_commands :: "serde \<Rightarrow> row_writers \<Rightarrow> (string \<Rightarrow> string) \<Rightarrow> command list" where
  "remote_dpu_actor_commands sd w norm6 =
     (let rdpu = make_remote_dpu_object norm6 1 1; vdpu_sp = test_sp ''vdpu'' ''test-vdpu''
      in [Send ''REMOTE_DPU'' (row sd ''test-rdpu'' KSet (w_remote w rdpu)) (bridge_sp remote_dpu_tbl) False,
          Send ''DPUStateRegister|vdpu/test-vdpu'' (jv (j_registration sd True)) vdpu_sp False,
          Recv ''DPUStateUpdate|test-rdpu'' (jv (j_dpu_actor_state sd (from_remote_dpu ''test-rdpu'' rdpu))) vdpu_sp,
          Send ''REMOTE_DPU'' (row sd ''REMOTE_DPU'' KDel (w_remote w rdpu)) (bridge_sp remote_dpu_tbl) False])"

definition dpu_actor_commands :: "serde \<Rightarrow> row_writers \<Rightarrow> (string \<Rightarrow> string) \<Rightarrow> dpu \<Rightarrow> command list" where
  "dpu_actor_commands sd w norm6 d =
     (let pmon_up = make_dpu_pmon_state True; pmon_down = make_dpu_pmon_state False;
          bfd_up = make_dpu_bfd_state [''10.0.0.0'', ''10.0.1.0'', ''10.0.2.0'', ''10.0.3.0''] []; bfd_down = make_dpu_bfd_state [] [];
          wo_bfd = make_local_dpu_actor_state norm6 0 0 True (Some pmon_up) None;
          cfg = make_dash_ha_global_config;
          up = wo_bfd\<lparr>da_up := True, da_dpu_bfd_state := Some bfd_up\<rparr>;
          pmon_is_down = up\<lparr>da_up := False, da_dpu_pmon_state := Some pmon_down\<rparr>;
          bfd_is_down = up\<lparr>da_up := False, da_dpu_bfd_state := Some bfd_down\<rparr>;
          bfd = \<lparr>bs_tx_interval = gc_dpu_bfd_probe_interval_in_ms cfg, bs_rx_interval = gc_dpu_bfd_probe_interval_in_ms cfg,
            bs_multiplier = gc_dpu_bfd_probe_multiplier cfg, bs_multihop = True, bs_shutdown = False,
            bs_local_addr = da_pa_ipv4 wo_bfd, bs_session_type = Some ''passive''\<rparr>;
          bfd_fvs = (case fv_bfd_session sd bfd of Inr f \<Rightarrow> f | Inl _ \<Rightarrow> []);
          vdpu_sp = test_sp ''vdpu'' ''test-vdpu'';
          remote = (\<lambda>k i. send_any k (row sd k KSet (w_remote w (make_remote_dpu_object norm6 i 0))));
          session = (\<lambda>peer. Recv ''switch0_dpu0'' (row sd (''default:default:'' @ peer) KSet bfd_fvs) (bridge_sp bfd_session_tbl));
          told = (\<lambda>st. Recv ''DPUStateUpdate|switch0_dpu0'' (jv (j_dpu_actor_state sd st)) vdpu_sp);
          pmon = (\<lambda>st. send_any ''DPU_STATE'' (row sd ''DPU1'' KSet (w_pmon w st)));
          probe = (\<lambda>st. send_any ''DASH_BFD_PROBE_STATE'' (row sd [] KSet (w_bfd w st)))
      in [pmon pmon_up,
          Send ''DPU'' (row sd ''switch0_dpu0'' KSet (w_dpu w d)) (bridge_sp dpu_tbl) False,
          remote ''REMOTE_DPU|switch1_dpu0'' 1,
          send_any ''DASH_HA_GLOBAL_CONFIG'' (row sd ''DASH_HA_GLOBAL_CONFIG'' KSet (w_global w cfg)),
          session ''10.0.0.0'', session ''10.0.1.0'',
          Send ''DPUStateRegister|vdpu/test-vdpu'' (jv (j_registration sd True)) vdpu_sp False, told wo_bfd,
          remote ''REMOTE_DPU|switch2_dpu0'' 2, session ''10.0.2.0'', remote ''REMOTE_DPU|switch3_dpu0'' 3, session ''10.0.3.0'',
          probe bfd_up, told up, pmon pmon_down, told pmon_is_down, pmon pmon_up, told up, probe bfd_down, told bfd_is_down,
          Send ''DPU'' (row sd ''DPU'' KDel (w_dpu w d)) (bridge_sp dpu_tbl) False])"

definition remote_dpu_actor_test ::
    "hamgrd_env \<Rightarrow> row_writers \<Rightarrow> (actor_state \<Rightarrow> string) \<Rightarrow> (string \<Rightarrow> string) \<Rightarrow> nat \<Rightarrow> u64 \<Rightarrow> u64 \<Rightarrow> bool" where
  "remote_dpu_actor_test env w dump norm6 now t n \<longleftrightarrow>
     (let env = env\<lparr>slot_id := 1, env_npu_ipv4 := Some ''10.0.0.0'', env_npu_ipv6 := Some (norm6 ''10::'')\<rparr>
      in actor_test (env_codec env) dump (as_handler (dpu_handle_message env)) now t n (test_sp ''dpu'' ''test-rdpu'')
           (new_dpu_actor ''test-rdpu'') (remote_dpu_actor_commands (env_serde env) w norm6))"

definition dpu_actor_test ::
    "hamgrd_env \<Rightarrow> row_writers \<Rightarrow> (actor_state \<Rightarrow> string) \<Rightarrow> (string \<Rightarrow> string) \<Rightarrow> nat \<Rightarrow> u64 \<Rightarrow> u64 \<Rightarrow> bool" where
  "dpu_actor_test env w dump norm6 now t n \<longleftrightarrow>
     (let env = env\<lparr>slot_id := 0, env_npu_ipv4 := Some ''10.0.0.0'', env_npu_ipv6 := Some (norm6 ''10::'')\<rparr>;
          wo_bfd = make_local_dpu_actor_state norm6 0 0 True (Some (make_dpu_pmon_state True)) None
      in case to_local_dpu wo_bfd of
           None \<Rightarrow> False
         | Some d \<Rightarrow>
             actor_test (env_codec env) dump (as_handler (dpu_handle_message env)) now t n (test_sp ''dpu'' ''switch0_dpu0'')
               (new_dpu_actor (da_dpu_name wo_bfd)) (dpu_actor_commands (env_serde env) w norm6 d))"

text \<open>
  What the scripts rely on: \<open>serde_json\<close> and \<open>swss_serde\<close> give back the rows and registrations that they wrote and can write the
  reports and sessions, and the databases can be reached.
\<close>

definition dpu_script_serde :: "serde \<Rightarrow> row_writers \<Rightarrow> bool" where
  "dpu_script_serde sd w \<longleftrightarrow>
     (\<forall>k. \<exists>j. j_kfv sd k = Inr j \<and> of_j_kfv sd j = Inr k) \<and>
     (\<forall>b. \<exists>j. j_registration sd b = Inr j \<and> of_j_registration sd j = Inr b) \<and>
     (\<forall>s. \<exists>j. j_dpu_actor_state sd s = Inr j) \<and> (\<forall>b. \<exists>f. fv_bfd_session sd b = Inr f) \<and>
     (\<forall>d. of_fv_dpu sd (w_dpu w d) = Inr d) \<and> (\<forall>r. of_fv_remote_dpu sd (w_remote w r) = Inr r) \<and>
     (\<forall>s. of_fv_dpu_state sd (w_pmon w s) = Inr s) \<and> (\<forall>b. of_fv_bfd_probe_state sd (w_bfd w b) = Inr b) \<and>
     (\<forall>c. of_fv_global_config sd (w_global w c) = Inr c)"

lemma script_values:
  assumes "dpu_script_serde sd w"
  shows "of_j_kfv sd (row sd k opn f) = Inr \<lparr>kfv_key = k, kfv_operation = opn, kfv_field_values = f\<rparr>"
    and "of_j_registration sd (jv (j_registration sd b)) = Inr b"
    and "\<exists>jd. \<forall>s. j_dpu_actor_state sd s = Inr (jd s)" "\<exists>fb. \<forall>b. fv_bfd_session sd b = Inr (fb b)"
    and "of_fv_dpu sd (w_dpu w d) = Inr d" "of_fv_remote_dpu sd (w_remote w r) = Inr r"
    and "of_fv_dpu_state sd (w_pmon w ds) = Inr ds" "of_fv_bfd_probe_state sd (w_bfd w bs) = Inr bs"
    and "of_fv_global_config sd (w_global w c) = Inr c"
proof -
  obtain j where "j_kfv sd \<lparr>kfv_key = k, kfv_operation = opn, kfv_field_values = f\<rparr> = Inr j"
    "of_j_kfv sd j = Inr \<lparr>kfv_key = k, kfv_operation = opn, kfv_field_values = f\<rparr>" using assms unfolding dpu_script_serde_def by blast
  then show "of_j_kfv sd (row sd k opn f) = Inr \<lparr>kfv_key = k, kfv_operation = opn, kfv_field_values = f\<rparr>" by (simp add: row_def)
  obtain j where "j_registration sd b = Inr j" "of_j_registration sd j = Inr b" using assms unfolding dpu_script_serde_def by blast
  then show "of_j_registration sd (jv (j_registration sd b)) = Inr b" by simp
  show "\<exists>jd. \<forall>s. j_dpu_actor_state sd s = Inr (jd s)" "\<exists>fb. \<forall>b. fv_bfd_session sd b = Inr (fb b)"
    by (rule choice; use assms in \<open>simp add: dpu_script_serde_def\<close>)+
qed (use assms in \<open>simp_all add: dpu_script_serde_def\<close>)

lemma from_remote_down: "(from_remote_dpu name r)\<lparr>da_up := False\<rparr> = from_remote_dpu name r"
  by (simp add: from_remote_dpu_def)

theorem remote_dpu_actor_test_passes:
  assumes "faithful (env_codec env)" "dpu_script_serde (env_serde env) w"
  shows "remote_dpu_actor_test env w dump norm6 now t n"
proof -
  let ?env = "env\<lparr>slot_id := 1, env_npu_ipv4 := Some ''10.0.0.0'', env_npu_ipv6 := Some (norm6 ''10::'')\<rparr>"
  have e: "env_codec ?env = env_codec env" "env_serde ?env = env_serde env" by simp_all
  note v = script_values [OF assms(2)]
  obtain jd where jd: "\<And>s. j_dpu_actor_state (env_serde env) s = Inr (jd s)" using v(3) by blast
  have "\<exists>s. spec_commands (dpu_promise ?env) (test_sp ''dpu'' ''test-rdpu'') n
      \<lparr>sp_actor = new_dpu_actor ''test-rdpu'', sp_seen = [], sp_stopped = False\<rparr> [] (remote_dpu_actor_commands (env_serde env) w norm6) = Some s \<and>
    sp_stopped s"
    by (simp add: remote_dpu_actor_commands_def Let_def spec_step_def dpu_promise_def remote_promise_def dpu_tells_all_def dpu_tells_def
        dpu_status_def sends_def reached_def registered_def List.map_filter_simps new_dpu_actor_def test_sp_def bridge_sp_def table_defs v(1,2,5-)
        jd from_remote_down)
  then show ?thesis
    using dpu_spec.test_passes [of ?env] assms(1) unfolding remote_dpu_actor_test_def Let_def e by blast
qed

text \<open>The values of the local script.\<close>

definition local_report :: "(string \<Rightarrow> string) \<Rightarrow> dpu_state option \<Rightarrow> dash_bfd_probe_state option \<Rightarrow> bool \<Rightarrow> dpu_actor_state" where
  "local_report norm6 ds bs up =
     (from_dpu ''switch0_dpu0'' (make_dpu_object norm6 0 0) True ''10.0.0.0'' (Some (norm6 ''10::'')) ds bs)\<lparr>da_up := up\<rparr>"

lemma show_small: "show_nat 0 = ''0''" "show_nat 1 = ''1''" "show_nat 2 = ''2''" "show_nat 3 = ''3''"
  by code_simp+

lemma local_reports:
  assumes "norm6 ''10:0:0::0'' = norm6 ''10::''"
  shows "make_local_dpu_actor_state norm6 0 0 True ds bs = local_report norm6 ds bs False"
    and "(local_report norm6 ds bs u)\<lparr>da_up := u', da_dpu_bfd_state := bs'\<rparr> = local_report norm6 ds bs' u'"
    and "(local_report norm6 ds bs u)\<lparr>da_up := u', da_dpu_pmon_state := ds'\<rparr> = local_report norm6 ds' bs u'"
    and "da_dpu_name (local_report norm6 ds bs u) = ''switch0_dpu0''" "da_pa_ipv4 (local_report norm6 ds bs u) = dpu_pa_ipv4 (make_dpu_object norm6 0 0)"
    and "to_local_dpu (local_report norm6 ds bs u) = Some (make_dpu_object norm6 0 0)"
  using assms by (simp_all add: make_local_dpu_actor_state_def local_report_def from_dpu_def to_local_dpu_def show_small)

lemma local_objects:
  "rd_npu_ipv4 (make_remote_dpu_object norm6 1 0) = ''10.0.1.0''" "rd_npu_ipv4 (make_remote_dpu_object norm6 2 0) = ''10.0.2.0''"
  "rd_npu_ipv4 (make_remote_dpu_object norm6 3 0) = ''10.0.3.0''" "dpu_dpu_id (make_dpu_object norm6 0 0) = 0"
  "sort [''10.0.1.0'', ''10.0.0.0''] = [''10.0.0.0'', ''10.0.1.0'']"
  by (simp_all add: make_remote_dpu_object_def make_dpu_object_def show_small Let_def) code_simp

lemma local_planes:
  "dpu_is_up (Some (make_dpu_pmon_state u)) (Some (make_dpu_bfd_state v4 v6)) \<longleftrightarrow> u \<and> (v4 \<noteq> [] \<or> v6 \<noteq> [])" "\<not> dpu_is_up ds None"
  by (auto simp: dpu_is_up_def make_dpu_pmon_state_def make_dpu_bfd_state_def Let_def split: option.splits)

lemma local_status:
  "dpu_status env ''switch0_dpu0'' (LocalDpu (make_dpu_object norm6 0 0) True ''10.0.0.0'' (Some (norm6 ''10::''))) sn =
    (let ds = seen_row env of_fv_dpu_state sn ''DPU_STATE''; bs = seen_row env of_fv_bfd_probe_state sn ''DASH_BFD_PROBE_STATE''
     in local_report norm6 ds bs (dpu_is_up ds bs))"
  by (simp add: dpu_status_def local_report_def)

theorem dpu_actor_test_passes:
  assumes "faithful (env_codec env)" "dpu_script_serde (env_serde env) w" "norm6 ''10:0:0::0'' = norm6 ''10::''"
    and "\<And>b. spawn_bridge env b = None"
  shows "dpu_actor_test env w dump norm6 now t n"
proof -
  let ?env = "env\<lparr>slot_id := 0, env_npu_ipv4 := Some ''10.0.0.0'', env_npu_ipv6 := Some (norm6 ''10::'')\<rparr>"
  have e: "env_codec ?env = env_codec env" "env_serde ?env = env_serde env" by simp_all
  note v = script_values [OF assms(2)]
  obtain jd fb where jd: "\<And>s. j_dpu_actor_state (env_serde env) s = Inr (jd s)" "\<And>b. fv_bfd_session (env_serde env) b = Inr (fb b)"
    using v(3,4) by blast
  obtain jk where jk: "\<And>k. j_kfv (env_serde env) k = Inr (jk k)" "\<And>k. of_j_kfv (env_serde env) (jk k) = Inr k"
    using assms(2) unfolding dpu_script_serde_def by metis
  have "\<exists>s. spec_commands (dpu_promise ?env) (test_sp ''dpu'' ''switch0_dpu0'') n
      \<lparr>sp_actor = new_dpu_actor ''switch0_dpu0'', sp_seen = [], sp_stopped = False\<rparr> []
      (dpu_actor_commands (env_serde env) w norm6 (make_dpu_object norm6 0 0)) = Some s \<and> sp_stopped s"
    unfolding dpu_actor_commands_def Let_def local_reports [OF assms(3)]
    by (simp add: Let_def spec_step_def dpu_promise_def dpu_config_promise_def dpu_configured_def dpu_subscriptions_def assms(4)
        remote_promise_def dpu_tells_all_def dpu_tells_def local_status seen_row_def bfd_requests_def bfd_request_def seen_npus_def
        sends_def reached_def refused_def registered_def List.map_filter_simps new_dpu_actor_def test_sp_def bridge_sp_def table_defs
        send_any_def row_def add_dpu_bridge_def bfd_session_of_def v(2,5-) jd jk local_objects local_objects(1) [unfolded One_nat_def] local_planes)
  then show ?thesis
    using dpu_spec.test_passes [of ?env] assms(1)
    unfolding dpu_actor_test_def Let_def e local_reports [OF assms(3)] option.case by blast
qed

end
