(* ===== verification/Hamgrd_HaSet.thy ===== *)
theory Hamgrd_HaSet
  imports Hamgrd_VDpu
begin

text \<open>
  The HA set actor (\<open>actors/ha_set.rs\<close>): it collects the states of the vDPUs of an HA set and
  programs the HA set table of the local DPU and the VXLAN tunnel route of the switch.
\<close>

record ha_set_actor =
  h_id :: string
  h_config :: "dash_ha_set_config option"
  h_bridges :: "bridge_spec list"

definition new_ha_set_actor :: "string \<Rightarrow> ha_set_actor" where
  "new_ha_set_actor key = \<lparr>h_id = key, h_config = None, h_bridges = []\<rparr>"

definition ha_set_actor_name :: string where "ha_set_actor_name = ''ha-set''"

type_synonym 'r ha_set_act = "(ha_set_actor, 'r) act"

record vdpu_state_ext =
  vx_vdpu :: vdpu_actor_state
  vx_is_primary :: bool

definition get_dash_global_config :: "hamgrd_env \<Rightarrow> actor_state \<Rightarrow> dash_ha_global_config option" where
  "get_dash_global_config env st =
     (case incoming_get st (table_name dash_ha_global_config_tbl) of
        Ok m \<Rightarrow>
          (case deserialize_data (of_j_kfv (env_serde env)) m of
             Ok k \<Rightarrow> ok_option (of_sum (of_fv_global_config (env_serde env) (kfv_field_values k)))
           | _ \<Rightarrow> None)
      | _ \<Rightarrow> None)"

definition is_managed :: "vdpu_state_ext \<Rightarrow> bool" where
  "is_managed v = da_is_managed (va_dpu (vx_vdpu v))"

definition dash_ha_set_of ::
    "dash_ha_set_config \<Rightarrow> dash_ha_global_config \<Rightarrow> dpu_actor_state \<Rightarrow> dpu_actor_state \<Rightarrow> dash_ha_set_table" where
  "dash_ha_set_of cfg g lv rv =
     \<lparr>hs_version = hsc_version cfg, hs_vip_v4 = hsc_vip_v4 cfg, hs_vip_v6 = hsc_vip_v6 cfg,
      hs_owner = hsc_owner cfg, hs_scope = hsc_scope cfg, hs_local_npu_ip = da_npu_ipv4 lv,
      hs_local_ip = da_pa_ipv4 lv, hs_peer_ip = da_pa_ipv4 rv,
      hs_cp_data_channel_port = gc_cp_data_channel_port g,
      hs_dp_channel_dst_port = gc_dp_channel_dst_port g,
      hs_dp_channel_src_port_min = gc_dp_channel_src_port_min g,
      hs_dp_channel_src_port_max = gc_dp_channel_src_port_max g,
      hs_dp_channel_probe_interval_ms = gc_dp_channel_probe_interval_ms g,
      hs_dp_channel_probe_fail_threshold = gc_dp_channel_probe_fail_threshold g\<rparr>"

text \<open>The indexing \<open>vdpus[0]\<close>, \<open>vdpus[1]\<close> panics when the list is too short.\<close>

definition prepare_dash_ha_set_table_data ::
    "hamgrd_env \<Rightarrow> vdpu_state_ext list \<Rightarrow> ha_set_actor hstate \<Rightarrow> dash_ha_set_table option outcome" where
  "prepare_dash_ha_set_table_data env vdpus s =
     (case h_config (self s) of
        None \<Rightarrow> Ok None
      | Some cfg \<Rightarrow>
          if \<not> list_ex is_managed vdpus then Ok None
          else (case vdpus of
              v0 # v1 # _ \<Rightarrow>
                if \<not> is_managed v0 \<and> \<not> is_managed v1 then Ok None
                else (let lv = va_dpu (vx_vdpu (if is_managed v0 then v0 else v1));
                          rv = va_dpu (vx_vdpu (if is_managed v0 then v1 else v0))
                      in case get_dash_global_config env (tables s) of
                           None \<Rightarrow> Ok None
                         | Some g \<Rightarrow> Ok (Some (dash_ha_set_of cfg g lv rv)))
            | _ \<Rightarrow> Panic))"

definition update_dash_ha_set_table :: "hamgrd_env \<Rightarrow> vdpu_state_ext list \<Rightarrow> unit ha_set_act" where
  "update_dash_ha_set_table env vdpus = with_state (\<lambda>s.
     act_bind (of_outcome (prepare_dash_ha_set_table_data env vdpus s)) (\<lambda>to. case to of
       None \<Rightarrow> ret ()
     | Some t \<Rightarrow>
         act_bind (of_outcome (of_sum (fv_ha_set_table (env_serde env) t))) (\<lambda>fv.
           act_bind (of_outcome (new_actor_message (h_id (self s)) (j_kfv (env_serde env)
               \<lparr>kfv_key = h_id (self s), kfv_operation = KSet, kfv_field_values = fv\<rparr>))) (\<lambda>msg.
             act_seq (send_msg (env_codec env)
                 (common_bridge_sp (tables s) (db_name dash_ha_set_tbl) (table_name dash_ha_set_tbl)) msg)
               (act_bind (of_outcome (unwrap_exec (new_ha_set_state_msg (env_serde env) True (h_id (self s)) t)))
                 (\<lambda>msg2. for_each (\<lambda>sp. send_msg (env_codec env) sp msg2)
                    (get_registered_actors (env_serde env) (tables s) HaSetState)))))))"

definition bool_str :: "bool \<Rightarrow> string" where "bool_str b = (if b then ''true'' else ''false'')"

definition vnet_route_of :: "dash_ha_global_config \<Rightarrow> vdpu_state_ext list \<Rightarrow> vnet_route_tunnel" where
  "vnet_route_of g vdpus = \<lparr>
     vr_endpoint = map (\<lambda>v. if is_managed v then da_pa_ipv4 (va_dpu (vx_vdpu v))
                              else da_npu_ipv4 (va_dpu (vx_vdpu v))) vdpus,
     vr_endpoint_monitor = Some (map (\<lambda>v. da_pa_ipv4 (va_dpu (vx_vdpu v))) vdpus),
     vr_monitoring = None, vr_primary = Some (map (\<lambda>v. bool_str (vx_is_primary v)) vdpus),
     vr_rx_monitor_timer = gc_dpu_bfd_probe_interval_in_ms g,
     vr_tx_monitor_timer = gc_dpu_bfd_probe_interval_in_ms g,
     vr_check_directly_connected = Some (list_ex is_managed vdpus)\<rparr>"

definition update_vnet_route_tunnel_table :: "hamgrd_env \<Rightarrow> vdpu_state_ext list \<Rightarrow> unit ha_set_act" where
  "update_vnet_route_tunnel_table env vdpus = with_state (\<lambda>s.
     case get_dash_global_config env (tables s) of
       None \<Rightarrow> ret ()
     | Some g \<Rightarrow>
         (case gc_vnet_name g of
            None \<Rightarrow> of_outcome (Err ''Missing vnet_name in global config'')
          | Some vnet \<Rightarrow>
              (case h_config (self s) of
                 None \<Rightarrow> of_outcome Panic
               | Some cfg \<Rightarrow>
                   (let key = table_name vnet_route_tunnel_tbl; skey = vnet @ '':'' @ hsc_vip_v4 cfg
                    in act_seq
                      (if has_entry (tables s) key skey then ret ()
                       else case open_table env vnet_route_tunnel_tbl of
                           Some e \<Rightarrow> of_outcome (Err e)
                         | None \<Rightarrow> add_internal key key skey (table_get env vnet_route_tunnel_tbl skey))
                      (act_bind (of_outcome (of_sum (fv_vnet_route (env_serde env) (vnet_route_of g vdpus))))
                        (set_internal key))))))"

text \<open>\<open>str::trim\<close> on ASCII text.\<close>

definition is_space :: "char \<Rightarrow> bool" where
  "is_space c = (let n = (of_char c :: nat) in n = 32 \<or> 9 \<le> n \<and> n \<le> 13)"

definition trim :: "string \<Rightarrow> string" where
  "trim s = rev (dropWhile is_space (rev (dropWhile is_space s)))"

definition register_to_vdpu_actor :: "hamgrd_env \<Rightarrow> bool \<Rightarrow> unit ha_set_act" where
  "register_to_vdpu_actor env active = with_state (\<lambda>s.
     case h_config (self s) of
       None \<Rightarrow> ret ()
     | Some cfg \<Rightarrow>
         act_bind (of_outcome (new_registration_msg (env_serde env) active VDPUState (h_id (self s)))) (\<lambda>msg.
           for_each (\<lambda>i. send_msg (env_codec env) (from_my_sp (tables s) vdpu_actor_name i) msg)
             (filter (\<lambda>i. i \<noteq> []) (map trim (hsc_vdpu_ids cfg)))))"

definition ha_set_get_vdpu :: "hamgrd_env \<Rightarrow> actor_state \<Rightarrow> string \<Rightarrow> vdpu_actor_state option" where
  "ha_set_get_vdpu env st i =
     (case incoming_get st (vdpu_msg_key i) of
        Ok m \<Rightarrow> ok_option (deserialize_data (of_j_vdpu_actor_state (env_serde env)) m)
      | _ \<Rightarrow> None)"

definition get_vdpus :: "hamgrd_env \<Rightarrow> ha_set_actor hstate \<Rightarrow> vdpu_state_ext option list" where
  "get_vdpus env s =
     (case h_config (self s) of
        None \<Rightarrow> []
      | Some cfg \<Rightarrow>
          (let pref = filter (\<lambda>i. i \<noteq> []) (case hsc_preferred_vdpu_ids cfg of Some p \<Rightarrow> p | None \<Rightarrow> []);
               ext = (\<lambda>pr i. map_option (\<lambda>v. \<lparr>vx_vdpu = v, vx_is_primary = pr\<rparr>)
                        (ha_set_get_vdpu env (tables s) i))
           in map (ext True) pref
              @ map (ext False) (filter (\<lambda>i. i \<noteq> [] \<and> i \<notin> set pref) (hsc_vdpu_ids cfg))))"

definition get_vdpus_if_ready :: "hamgrd_env \<Rightarrow> ha_set_actor hstate \<Rightarrow> vdpu_state_ext list option" where
  "get_vdpus_if_ready env s =
     (let vs = get_vdpus env s in if list_all (\<lambda>v. v \<noteq> None) vs then Some (map the vs) else None)"

definition ha_set_bridge :: "ha_set_actor \<Rightarrow> bridge_spec" where
  "ha_set_bridge a = \<lparr>br_table = dash_ha_global_config_tbl, br_actor = ha_set_actor_name,
     br_actor_id = h_id a, br_single_entry = True, br_slot = None\<rparr>"

definition handle_dash_ha_set_config_table_message :: "hamgrd_env \<Rightarrow> string \<Rightarrow> unit ha_set_act" where
  "handle_dash_ha_set_config_table_message env key =
     act_bind (reads (read_msg (of_j_kfv (env_serde env)) key)) (\<lambda>k.
       if kfv_operation k = KDel then act_seq (register_to_vdpu_actor env False) stop_actor
       else with_state (\<lambda>s0.
         act_bind (of_outcome (of_sum (of_fv_ha_set_config (env_serde env) (kfv_field_values k)))) (\<lambda>cfg.
           act_seq (update_self (\<lambda>a. a\<lparr>h_config := Some cfg\<rparr>))
             (act_seq (register_to_vdpu_actor env True)
               (act_seq
                 (if h_config (self s0) = None
                  then push_bridge env (ha_set_bridge (self s0)) (\<lambda>b a. a\<lparr>h_bridges := h_bridges a @ [b]\<rparr>)
                  else ret ())
                 (with_state (\<lambda>s. case get_vdpus_if_ready env s of
                    None \<Rightarrow> ret ()
                  | Some vdpus \<Rightarrow> update_dash_ha_set_table env vdpus)))))))"

definition ha_set_handle_global_config :: "hamgrd_env \<Rightarrow> unit ha_set_act" where
  "ha_set_handle_global_config env = with_state (\<lambda>s.
     case get_vdpus_if_ready env s of
       None \<Rightarrow> ret ()
     | Some vdpus \<Rightarrow>
         act_seq (update_dash_ha_set_table env vdpus) (update_vnet_route_tunnel_table env vdpus))"

definition ha_set_handle_vdpu_state_update :: "hamgrd_env \<Rightarrow> unit ha_set_act" where
  "ha_set_handle_vdpu_state_update env = with_state (\<lambda>s.
     case get_vdpus_if_ready env s of
       None \<Rightarrow> ret ()
     | Some vdpus \<Rightarrow>
         act_seq (update_dash_ha_set_table env vdpus) (update_vnet_route_tunnel_table env vdpus))"

definition handle_haset_state_registration :: "hamgrd_env \<Rightarrow> string \<Rightarrow> unit ha_set_act" where
  "handle_haset_state_registration env key = with_state (\<lambda>s.
     act_bind (of_outcome (get_entry (tables s) key)) (\<lambda>e.
       act_bind (of_outcome (deserialize_data (of_j_registration (env_serde env)) (in_msg e))) (\<lambda>active.
         if active then
           (case get_vdpus_if_ready env s of
              None \<Rightarrow> ret ()
            | Some vdpus \<Rightarrow>
                act_bind (of_outcome (prepare_dash_ha_set_table_data env vdpus s)) (\<lambda>to. case to of
                  None \<Rightarrow> ret ()
                | Some t \<Rightarrow>
                    act_bind (of_outcome (unwrap_exec (new_ha_set_state_msg (env_serde env) True (h_id (self s)) t)))
                      (\<lambda>msg. send_msg (env_codec env) (in_source e) msg)))
         else ret ())))"

definition ha_set_handle_message :: "hamgrd_env \<Rightarrow> string \<Rightarrow> unit ha_set_act" where
  "ha_set_handle_message env key = with_state (\<lambda>s.
     if key = table_name dash_ha_set_config_tbl
       then log_error (handle_dash_ha_set_config_table_message env key)
     else if h_config (self s) = None then ret ()
     else if is_vdpu_msg key then ha_set_handle_vdpu_state_update env
     else if key = table_name dash_ha_global_config_tbl then ha_set_handle_global_config env
     else if is_registration_msg key HaSetState then handle_haset_state_registration env key
     else ret ())"

section \<open>Contract of the driver\<close>

lemma api_register_to_vdpu [frame_intros]: "api_act (env_codec env) (register_to_vdpu_actor env active)"
  unfolding register_to_vdpu_actor_def by (intro frame_intros)

lemma api_update_ha_set [frame_intros]: "api_act (env_codec env) (update_dash_ha_set_table env vdpus)"
  unfolding update_dash_ha_set_table_def by (intro frame_intros)

lemma api_update_vnet [frame_intros]: "api_act cd (update_vnet_route_tunnel_table env vdpus)"
  unfolding update_vnet_route_tunnel_table_def by (intro frame_intros)

lemma api_ha_set_handle_message: "api_act (env_codec env) (ha_set_handle_message env key)"
  unfolding ha_set_handle_message_def handle_dash_ha_set_config_table_message_def
    ha_set_handle_global_config_def ha_set_handle_vdpu_state_update_def handle_haset_state_registration_def
  by (intro frame_intros)

interpretation ha_set: bus_actor "env_codec env" "as_handler (ha_set_handle_message env)" for env
  by unfold_locales (rule as_handler_api [OF api_ha_set_handle_message])

section \<open>Programming the tables\<close>

lemma get_dash_global_config_incoming:
  "incoming st = incoming st' \<Longrightarrow> get_dash_global_config env st = get_dash_global_config env st'"
  by (simp add: get_dash_global_config_def incoming_get_def get_entry_def)

definition local_vdpu :: "vdpu_state_ext \<Rightarrow> vdpu_state_ext \<Rightarrow> dpu_actor_state" where
  "local_vdpu v0 v1 = va_dpu (vx_vdpu (if is_managed v0 then v0 else v1))"

definition peer_vdpu :: "vdpu_state_ext \<Rightarrow> vdpu_state_ext \<Rightarrow> dpu_actor_state" where
  "peer_vdpu v0 v1 = va_dpu (vx_vdpu (if is_managed v0 then v1 else v0))"

lemma update_dash_ha_set_table_ready:
  assumes "h_config (self s) = Some cfg" "get_dash_global_config env (tables s) = Some g"
    and "is_managed v0 \<or> is_managed v1"
    and "t = dash_ha_set_of cfg g (local_vdpu v0 v1) (peer_vdpu v0 v1)"
    and "fv_ha_set_table (env_serde env) t = Inr fv"
    and "j_kfv (env_serde env) \<lparr>kfv_key = h_id (self s), kfv_operation = KSet, kfv_field_values = fv\<rparr> = Inr jk"
    and "j_ha_set_actor_state (env_serde env) \<lparr>ha_up = True, ha_ha_set = t\<rparr> = Inr j"
  shows "update_dash_ha_set_table env (v0 # v1 # vs) s =
    (s\<lparr>tables := send_each (env_codec env)
        (outgoing_send (env_codec env) (tables s)
          (common_bridge_sp (tables s) ''DPU_APPL_DB'' ''DASH_HA_SET_TABLE'') \<lparr>am_key = h_id (self s), am_data = jk\<rparr>)
        (get_registered_actors (env_serde env) (tables s) HaSetState)
        \<lparr>am_key = ''HaSetStateUpdate|'' @ h_id (self s), am_data = j\<rparr>\<rparr>, Ok ())"
proof -
  have "prepare_dash_ha_set_table_data env (v0 # v1 # vs) s = Ok (Some t)"
    using assms(1-4) by (auto simp: prepare_dash_ha_set_table_data_def local_vdpu_def peer_vdpu_def)
  with assms(5-7) show ?thesis
    by (simp add: update_dash_ha_set_table_def with_state_def act_bind_def act_seq_def of_outcome_def
        new_actor_message_def send_msg_def new_ha_set_state_msg_def for_each_send ha_set_msg_key_def
        table_defs)
qed

lemma update_vnet_route_ready:
  assumes "h_config (self s) = Some cfg" "get_dash_global_config env (tables s) = Some g"
    and "gc_vnet_name g = Some vnet" "open_table env vnet_route_tunnel_tbl = None"
    and "fv_vnet_route (env_serde env) (vnet_route_of g vdpus) = Inr fv"
  shows "\<exists>i. update_vnet_route_tunnel_table env vdpus s = (s\<lparr>tables := (tables s)\<lparr>internal := i\<rparr>\<rparr>, Ok ())
    \<and> internal_get ((tables s)\<lparr>internal := i\<rparr>) ''VNET_ROUTE_TUNNEL_TABLE'' = Ok fv
    \<and> has_entry ((tables s)\<lparr>internal := i\<rparr>) ''VNET_ROUTE_TUNNEL_TABLE'' (vnet @ '':'' @ hsc_vip_v4 cfg)"
proof -
  let ?k = "''VNET_ROUTE_TUNNEL_TABLE''" and ?sk = "vnet @ '':'' @ hsc_vip_v4 cfg"
  let ?i = "internal (if has_entry (tables s) ?k ?sk then tables s
    else internal_add (tables s) ?k ?k ?sk (table_get env vnet_route_tunnel_tbl ?sk))"
  have "\<exists>e. map_of ?i ?k = Some e \<and> swss_key e = ?sk"
    by (auto simp: has_entry_def internal_add_def new_internal_entry_def update_conv' Let_def split: option.splits)
  then obtain e where e: "map_of ?i ?k = Some e" "swss_key e = ?sk" by blast
  have "update_vnet_route_tunnel_table env vdpus s
      = (s\<lparr>tables := (tables s)\<lparr>internal := AList.update ?k (fvs_mut (\<lambda>_. fv) e) ?i\<rparr>\<rparr>, Ok ())"
    using assms e
    by (auto simp: update_vnet_route_tunnel_table_def act_defs table_defs internal_get_mut_def Let_def
        internal_add_def split: if_splits)
  moreover have "fvs (fvs_mut (\<lambda>_. fv) e) = fv" "swss_key (fvs_mut (\<lambda>_. fv) e) = ?sk"
    using e by (simp_all add: fvs_mut_def Let_def)
  ultimately show ?thesis by (auto simp: internal_get_def has_entry_def update_conv')
qed

lemma ha_set_handle_inputs:
  assumes "is_vdpu_msg key \<or> key = ''DASH_HA_GLOBAL_CONFIG''" "h_config (self s) = Some cfg"
  shows "ha_set_handle_message env key s =
    (case get_vdpus_if_ready env s of
       None \<Rightarrow> (s, Ok ())
     | Some vdpus \<Rightarrow>
         act_seq (update_dash_ha_set_table env vdpus) (update_vnet_route_tunnel_table env vdpus) s)"
proof -
  have "key \<noteq> ''DASH_HA_SET_CONFIG_TABLE''"
    using assms(1) by (auto simp: is_vdpu_msg_def)
  with assms show ?thesis
    by (auto simp: ha_set_handle_message_def ha_set_handle_vdpu_state_update_def table_defs with_state_def
        ha_set_handle_global_config_def ret_def split: option.splits)
qed

text \<open>
  (C11) When an HA set is configured, the states of all its vDPUs are known, one of the first two is managed here, and the
  global configuration is known and names a vnet, every vDPU update and every global configuration update programs both tables.
  The HA set entry has the addresses of the managed DPU (the first one, when both are) as the local end, the address of the
  other one as its peer and the ports and probe parameters of the global configuration; it is sent to the bridge of the DPU's
  database and then reported to every registered HA scope. The tunnel route of the virtual address has one endpoint per vDPU, the
  DPU itself where it is managed here and its switch otherwise, monitored at the DPU's address, with the preferred vDPUs as
  primary. The rows and messages can be written and the database can be reached.
\<close>

theorem ha_set_programs_tables:
  assumes "is_vdpu_msg key \<or> key = ''DASH_HA_GLOBAL_CONFIG''" "h_config (self s) = Some cfg"
    and "get_vdpus_if_ready env s = Some (v0 # v1 # vs)"
    and "da_is_managed (va_dpu (vx_vdpu v0)) \<or> da_is_managed (va_dpu (vx_vdpu v1))"
    and "get_dash_global_config env (tables s) = Some g" "gc_vnet_name g = Some vnet"
    and "open_table env vnet_route_tunnel_tbl = None"
    and "(l, p) = (if da_is_managed (va_dpu (vx_vdpu v0)) then (va_dpu (vx_vdpu v0), va_dpu (vx_vdpu v1))
      else (va_dpu (vx_vdpu v1), va_dpu (vx_vdpu v0)))"
    and "t = \<lparr>hs_version = hsc_version cfg, hs_vip_v4 = hsc_vip_v4 cfg, hs_vip_v6 = hsc_vip_v6 cfg, hs_owner = hsc_owner cfg,
      hs_scope = hsc_scope cfg, hs_local_npu_ip = da_npu_ipv4 l, hs_local_ip = da_pa_ipv4 l, hs_peer_ip = da_pa_ipv4 p,
      hs_cp_data_channel_port = gc_cp_data_channel_port g, hs_dp_channel_dst_port = gc_dp_channel_dst_port g,
      hs_dp_channel_src_port_min = gc_dp_channel_src_port_min g, hs_dp_channel_src_port_max = gc_dp_channel_src_port_max g,
      hs_dp_channel_probe_interval_ms = gc_dp_channel_probe_interval_ms g,
      hs_dp_channel_probe_fail_threshold = gc_dp_channel_probe_fail_threshold g\<rparr>"
    and "dpus = map (\<lambda>v. va_dpu (vx_vdpu v)) (v0 # v1 # vs)"
    and "w = \<lparr>vr_endpoint = map (\<lambda>d. if da_is_managed d then da_pa_ipv4 d else da_npu_ipv4 d) dpus,
      vr_endpoint_monitor = Some (map da_pa_ipv4 dpus), vr_monitoring = None,
      vr_primary = Some (map (\<lambda>v. if vx_is_primary v then ''true'' else ''false'') (v0 # v1 # vs)),
      vr_rx_monitor_timer = gc_dpu_bfd_probe_interval_in_ms g, vr_tx_monitor_timer = gc_dpu_bfd_probe_interval_in_ms g,
      vr_check_directly_connected = Some True\<rparr>"
    and "fv_ha_set_table (env_serde env) t = Inr fv"
    and "j_kfv (env_serde env) \<lparr>kfv_key = h_id (self s), kfv_operation = KSet, kfv_field_values = fv\<rparr> = Inr jk"
    and "j_ha_set_actor_state (env_serde env) \<lparr>ha_up = True, ha_ha_set = t\<rparr> = Inr j"
    and "fv_vnet_route (env_serde env) w = Inr fv2"
  shows "\<exists>s'. ha_set_handle_message env key s = (s', Ok ()) \<and> self s' = self s
    \<and> queued_pairs (tables s') = queued_pairs (tables s)
        @ (Some (common_bridge_sp (tables s) ''DPU_APPL_DB'' ''DASH_HA_SET_TABLE''),
           \<lparr>am_key = h_id (self s), am_data = jk\<rparr>)
        # map (\<lambda>sp. (Some sp, \<lparr>am_key = ''HaSetStateUpdate|'' @ h_id (self s), am_data = j\<rparr>))
            (get_registered_actors (env_serde env) (tables s) HaSetState)
    \<and> internal_get (tables s') ''VNET_ROUTE_TUNNEL_TABLE'' = Ok fv2
    \<and> has_entry (tables s') ''VNET_ROUTE_TUNNEL_TABLE'' (vnet @ '':'' @ hsc_vip_v4 cfg)"
proof -
  let ?st = "send_each (env_codec env)
        (outgoing_send (env_codec env) (tables s)
          (common_bridge_sp (tables s) ''DPU_APPL_DB'' ''DASH_HA_SET_TABLE'') \<lparr>am_key = h_id (self s), am_data = jk\<rparr>)
        (get_registered_actors (env_serde env) (tables s) HaSetState)
        \<lparr>am_key = ''HaSetStateUpdate|'' @ h_id (self s), am_data = j\<rparr>"
  have "incoming ?st = incoming (tables s)" by simp
  note g = get_dash_global_config_incoming [OF this, of env]
  have m: "is_managed v0 \<or> is_managed v1" using assms(4) by (simp add: is_managed_def)
  have t: "t = dash_ha_set_of cfg g (local_vdpu v0 v1) (peer_vdpu v0 v1)"
    using assms(8,9) by (simp add: dash_ha_set_of_def local_vdpu_def peer_vdpu_def is_managed_def split: if_splits)
  have w: "w = vnet_route_of g (v0 # v1 # vs)"
    using assms(4,10,11) by (auto simp: vnet_route_of_def is_managed_def bool_str_def o_def)
  have u: "update_dash_ha_set_table env (v0 # v1 # vs) s = (s\<lparr>tables := ?st\<rparr>, Ok ())"
    using update_dash_ha_set_table_ready [OF assms(2,5) m t assms(12-14)] .
  obtain i where "update_vnet_route_tunnel_table env (v0 # v1 # vs) (s\<lparr>tables := ?st\<rparr>)
      = (s\<lparr>tables := ?st\<lparr>internal := i\<rparr>\<rparr>, Ok ())"
      "internal_get (?st\<lparr>internal := i\<rparr>) ''VNET_ROUTE_TUNNEL_TABLE'' = Ok fv2"
      "has_entry (?st\<lparr>internal := i\<rparr>) ''VNET_ROUTE_TUNNEL_TABLE'' (vnet @ '':'' @ hsc_vip_v4 cfg)"
    using update_vnet_route_ready [of "s\<lparr>tables := ?st\<rparr>" cfg env g vnet "v0 # v1 # vs" fv2] assms(2,5-7,15) g w
    by auto
  moreover have "queued_pairs (?st\<lparr>internal := i\<rparr>) = queued_pairs ?st" by (simp add: queued_pairs_def)
  ultimately show ?thesis
    using ha_set_handle_inputs [OF assms(1,2)] assms(3) u by (simp add: act_seq_def act_bind_def)
qed

definition demo_ha_set_hstate :: "ha_set_actor hstate" where
  "demo_ha_set_hstate = \<lparr>self = (new_ha_set_actor ''haset0'')\<lparr>h_config := Some demo_ha_set_config\<rparr>,
     tables = demo_tables [(''VDPUStateUpdate|vdpu0'', JBool True), (''VDPUStateUpdate|vdpu1'', JBool False),
       (''DASH_HA_GLOBAL_CONFIG'', JStr ''global''), (''HaSetStateRegister|s'', JBool True)], stop = False\<rparr>"

definition demo_ext :: "bool \<Rightarrow> vdpu_state_ext" where
  "demo_ext b = \<lparr>vx_vdpu = \<lparr>va_up = b, va_dpu = demo_dpu_report\<lparr>da_up := b, da_is_managed := b\<rparr>\<rparr>, vx_is_primary = b\<rparr>"

lemma demo_ha_set_self:
  "h_config (self demo_ha_set_hstate) = Some demo_ha_set_config" "h_id (self demo_ha_set_hstate) = ''haset0''"
  by (simp_all add: demo_ha_set_hstate_def new_ha_set_actor_def)

lemma demo_ha_set_reads:
  "get_vdpus_if_ready demo_env demo_ha_set_hstate = Some [demo_ext True, demo_ext False]"
  "get_dash_global_config demo_env (tables demo_ha_set_hstate) = Some demo_global_config"
  "get_registered_actors (env_serde demo_env) (tables demo_ha_set_hstate) HaSetState = [demo_actor ''y'']"
  by (simp_all add: get_vdpus_if_ready_def get_vdpus_def demo_ha_set_self ha_set_get_vdpu_def vdpu_msg_key_def
      demo_ha_set_config_def get_dash_global_config_def demo_ha_set_hstate_def demo_act_defs table_defs
      get_registered_actors_def get_by_prefix_def List.map_filter_def demo_ext_def Let_def)

lemma demo_ha_set_encoders:
  "j_ha_set_actor_state (env_serde demo_env) x = Inr (JBool (ha_up x))"
  "fv_ha_set_table (env_serde demo_env) t = Inr [(''version'', hs_version t)]"
  "fv_vnet_route (env_serde demo_env) v = Inr [(''endpoint'', join_with CHR '','' (vr_endpoint v))]"
  "open_table demo_env tbl = None"
  by (simp_all add: demo_env_def demo_serde_def)

theorem ha_set_programs_tables_witness:
  "\<exists>s'. ha_set_handle_message demo_env ''DASH_HA_GLOBAL_CONFIG'' demo_ha_set_hstate = (s', Ok ())
    \<and> queued_pairs (tables s') = queued_pairs (tables demo_ha_set_hstate)
       @ [(Some (common_bridge_sp (tables demo_ha_set_hstate) ''DPU_APPL_DB'' ''DASH_HA_SET_TABLE''),
           \<lparr>am_key = ''haset0'', am_data = JStr ''haset0''\<rparr>),
          (Some (demo_actor ''y''), \<lparr>am_key = ''HaSetStateUpdate|haset0'', am_data = JBool True\<rparr>)]
    \<and> internal_get (tables s') ''VNET_ROUTE_TUNNEL_TABLE'' = Ok [(''endpoint'', ''18.0.0.1,10.0.0.1'')]
    \<and> has_entry (tables s') ''VNET_ROUTE_TUNNEL_TABLE'' ''Vnet1:3.2.1.0''"
proof -
  have m: "da_is_managed (va_dpu (vx_vdpu (demo_ext True)))" by (simp add: demo_ext_def)
  have v: "gc_vnet_name demo_global_config = Some ''Vnet1''" "hsc_vip_v4 demo_ha_set_config = ''3.2.1.0''"
    by (simp_all add: demo_global_config_def demo_ha_set_config_def)
  have e: "da_pa_ipv4 (va_dpu (vx_vdpu (demo_ext b))) = ''18.0.0.1''" "da_npu_ipv4 (va_dpu (vx_vdpu (demo_ext b))) = ''10.0.0.1''"
    "da_is_managed (va_dpu (vx_vdpu (demo_ext b))) = b" for b
    by (simp_all add: demo_ext_def demo_dpu_report_def from_dpu_def demo_dpu_def)
  have r: "\<exists>s'. ha_set_handle_message demo_env ''DASH_HA_GLOBAL_CONFIG'' demo_ha_set_hstate = (s', Ok ())
      \<and> self s' = self demo_ha_set_hstate
      \<and> queued_pairs (tables s') = queued_pairs (tables demo_ha_set_hstate)
        @ (Some (common_bridge_sp (tables demo_ha_set_hstate) ''DPU_APPL_DB'' ''DASH_HA_SET_TABLE''),
           \<lparr>am_key = h_id (self demo_ha_set_hstate), am_data = JStr ''haset0''\<rparr>)
        # map (\<lambda>sp. (Some sp, \<lparr>am_key = ''HaSetStateUpdate|'' @ h_id (self demo_ha_set_hstate),
             am_data = JBool True\<rparr>))
            (get_registered_actors (env_serde demo_env) (tables demo_ha_set_hstate) HaSetState)
      \<and> internal_get (tables s') ''VNET_ROUTE_TUNNEL_TABLE'' = Ok [(''endpoint'', ''18.0.0.1,10.0.0.1'')]
      \<and> has_entry (tables s') ''VNET_ROUTE_TUNNEL_TABLE'' (''Vnet1'' @ '':'' @ hsc_vip_v4 demo_ha_set_config)"
    by (rule ha_set_programs_tables [OF _ demo_ha_set_self(1) demo_ha_set_reads(1) disjI1 [OF m]
          demo_ha_set_reads(2) v(1) _ _ refl refl refl])
      (simp_all add: demo_ha_set_encoders demo_encoders demo_ha_set_self e)
  then show ?thesis by (simp add: demo_ha_set_self demo_ha_set_reads v) blast
qed

section \<open>Waiting for the vDPUs\<close>

lemma get_vdpus_if_ready_missing:
  assumes "h_config (self s) = Some cfg" "i \<in> set (hsc_vdpu_ids cfg)" "i \<noteq> []"
    and "\<not> is_ok (incoming_get (tables s) (''VDPUStateUpdate|'' @ i))"
  shows "get_vdpus_if_ready env s = None"
proof -
  have "ha_set_get_vdpu env (tables s) i = None"
    using assms(4) by (auto simp: ha_set_get_vdpu_def vdpu_msg_key_def split: exec.splits)
  then have "None \<in> set (get_vdpus env s)"
    using assms(1-3) unfolding get_vdpus_def Let_def
    by (cases "i \<in> set (filter (\<lambda>i. i \<noteq> []) (case hsc_preferred_vdpu_ids cfg of Some p \<Rightarrow> p | None \<Rightarrow> []))")
      (auto simp: image_iff)
  then show ?thesis by (force simp: get_vdpus_if_ready_def Let_def list_all_iff)
qed

lemma register_to_vdpu_pairs:
  assumes "h_config (self s) = Some cfg" "j_registration (env_serde env) active = Inr j"
  shows "register_to_vdpu_actor env active s = (s\<lparr>tables := send_each (env_codec env) (tables s)
      (map (from_my_sp (tables s) ''vdpu'') (filter (\<lambda>i. i \<noteq> []) (map trim (hsc_vdpu_ids cfg))))
      \<lparr>am_key = ''VDPUStateRegister|'' @ h_id (self s), am_data = j\<rparr>\<rparr>, Ok ())"
  using assms
  by (simp add: register_to_vdpu_actor_def with_state_def act_bind_def of_outcome_def new_registration_msg_def
      new_actor_message_def for_each_send_dests vdpu_actor_name_def)

text \<open>
  The HA set registers with its vDPUs under the trimmed identifiers of its configuration but
  waits for reports under the untrimmed ones: with a padded identifier in the list, the registration
  goes to the actor of the trimmed name, that actor's report does not make the set ready, and every
  update is ignored as long as no report with the padded name exists.
\<close>

theorem padded_vdpu_id_blocks_ha_set:
  assumes "h_config (self s) = Some cfg" "i \<in> set (hsc_vdpu_ids cfg)" "trim i \<noteq> i" "trim i \<noteq> []"
    and "j_registration (env_serde env) True = Inr j"
    and "\<not> is_ok (incoming_get (tables s) (''VDPUStateUpdate|'' @ i))"
    and "is_vdpu_msg key \<or> key = ''DASH_HA_GLOBAL_CONFIG''"
  shows "(\<exists>s'. register_to_vdpu_actor env True s = (s', Ok ())
      \<and> (Some (from_my_sp (tables s) ''vdpu'' (trim i)), \<lparr>am_key = ''VDPUStateRegister|'' @ h_id (self s), am_data = j\<rparr>)
          \<in> set (queued_pairs (tables s')))
    \<and> ha_set_handle_message env key s = (s, Ok ())"
proof -
  have i: "i \<noteq> []" using assms(4) by (auto simp: trim_def)
  from register_to_vdpu_pairs [OF assms(1,5)] assms(2,4)
  have "\<exists>s'. register_to_vdpu_actor env True s = (s', Ok ())
      \<and> (Some (from_my_sp (tables s) ''vdpu'' (trim i)), \<lparr>am_key = ''VDPUStateRegister|'' @ h_id (self s), am_data = j\<rparr>)
          \<in> set (queued_pairs (tables s'))"
    by (auto simp: image_iff)
  with ha_set_handle_inputs [OF assms(7,1)] get_vdpus_if_ready_missing [OF assms(1,2) i assms(6)]
  show ?thesis by simp
qed

definition demo_padded :: "ha_set_actor hstate" where
  "demo_padded = demo_ha_set_hstate\<lparr>self := (new_ha_set_actor ''haset0'')
     \<lparr>h_config := Some (demo_ha_set_config\<lparr>hsc_vdpu_ids := [''vdpu0'', '' vdpu1'']\<rparr>)\<rparr>\<rparr>"

theorem padded_vdpu_id_blocks_ha_set_witness:
  "(\<exists>s'. register_to_vdpu_actor demo_env True demo_padded = (s', Ok ())
      \<and> (Some (from_my_sp (tables demo_padded) ''vdpu'' ''vdpu1''),
         \<lparr>am_key = ''VDPUStateRegister|haset0'', am_data = JBool True\<rparr>) \<in> set (queued_pairs (tables s')))
    \<and> ha_set_handle_message demo_env ''VDPUStateUpdate|vdpu1'' demo_padded = (demo_padded, Ok ())"
proof -
  have t: "trim '' vdpu1'' = ''vdpu1''" by (simp add: trim_def is_space_def Let_def)
  have c: "h_config (self demo_padded) = Some (demo_ha_set_config\<lparr>hsc_vdpu_ids := [''vdpu0'', '' vdpu1'']\<rparr>)"
    "h_id (self demo_padded) = ''haset0''"
    by (simp_all add: demo_padded_def new_ha_set_actor_def)
  have n: "\<not> is_ok (incoming_get (tables demo_padded) (''VDPUStateUpdate|'' @ '' vdpu1''))"
    by (simp add: demo_padded_def demo_ha_set_hstate_def demo_act_defs)
  have j: "j_registration (env_serde demo_env) True = Inr (JBool True)"
    by (simp add: demo_env_def demo_serde_def)
  show ?thesis
    using padded_vdpu_id_blocks_ha_set [OF c(1), of "'' vdpu1''", OF _ _ _ j n, of "''VDPUStateUpdate|vdpu1''"]
    by (simp add: t c is_vdpu_msg_def)
qed

text \<open>
  An HA set with a single vDPU that is managed here cannot work: as soon as the report of the
  vDPU has arrived, every update panics on the index of the second vDPU.
\<close>

theorem single_vdpu_panics:
  assumes "is_vdpu_msg key \<or> key = ''DASH_HA_GLOBAL_CONFIG''" "h_config (self s) = Some cfg"
    and "get_vdpus_if_ready env s = Some [v]" "is_managed v"
  shows "ha_set_handle_message env key s = (s, Panic)"
  using assms ha_set_handle_inputs [OF assms(1,2), of env]
  by (simp add: act_seq_def act_bind_def update_dash_ha_set_table_def with_state_def of_outcome_def
      prepare_dash_ha_set_table_data_def)

theorem single_vdpu_panics_witness:
  "ha_set_handle_message demo_env ''VDPUStateUpdate|vdpu0'' (demo_ha_set_hstate\<lparr>self := (new_ha_set_actor ''haset0'')
     \<lparr>h_config := Some (demo_ha_set_config\<lparr>hsc_vdpu_ids := [''vdpu0'']\<rparr>)\<rparr>\<rparr>)
   = (demo_ha_set_hstate\<lparr>self := (new_ha_set_actor ''haset0'')
       \<lparr>h_config := Some (demo_ha_set_config\<lparr>hsc_vdpu_ids := [''vdpu0'']\<rparr>)\<rparr>\<rparr>, Panic)"
proof (rule single_vdpu_panics [where v = "demo_ext True"])
  show "get_vdpus_if_ready demo_env (demo_ha_set_hstate\<lparr>self := (new_ha_set_actor ''haset0'')
     \<lparr>h_config := Some (demo_ha_set_config\<lparr>hsc_vdpu_ids := [''vdpu0'']\<rparr>)\<rparr>\<rparr>) = Some [demo_ext True]"
    by (simp add: get_vdpus_if_ready_def get_vdpus_def ha_set_get_vdpu_def vdpu_msg_key_def
      demo_ha_set_config_def demo_ha_set_hstate_def demo_act_defs demo_ext_def Let_def new_ha_set_actor_def)
qed (simp_all add: is_vdpu_msg_def demo_ext_def is_managed_def)

section \<open>Bridges\<close>

definition keeps_bridges :: "ha_set_actor hstate \<Rightarrow> ha_set_actor hstate \<Rightarrow> bool" where
  "keeps_bridges s s' \<longleftrightarrow> h_bridges (self s') = h_bridges (self s) \<and> (h_config (self s) \<noteq> None \<longrightarrow> h_config (self s') \<noteq> None)"

interpretation bridges_frame: act_frame keeps_bridges
  by unfold_locales (auto simp: keeps_bridges_def)

lemma keeps_bridges_same_self: "frame_act same_self m \<Longrightarrow> frame_act keeps_bridges m"
  by (simp add: frame_act_def same_self_def keeps_bridges_def)

lemma keeps_bridges_config [frame_intros]:
  "frame_act keeps_bridges (update_self (\<lambda>a. a\<lparr>h_config := Some cfg\<rparr>))"
  by (simp add: frame_act_def keeps_bridges_def update_self_def)

lemma same_self_ha_set:
  "frame_act same_self (register_to_vdpu_actor env active)" "frame_act same_self (update_dash_ha_set_table env vdpus)"
  "frame_act same_self (update_vnet_route_tunnel_table env vdpus)"
  unfolding register_to_vdpu_actor_def update_dash_ha_set_table_def update_vnet_route_tunnel_table_def
  by (intro frame_intros)+

lemmas keeps_bridges_parts [frame_intros] =
  same_self_ha_set [THEN keeps_bridges_same_self] same_self_steps [THEN keeps_bridges_same_self]

lemma log_error_keeps: "keeps_bridges s (fst (m s)) \<Longrightarrow> keeps_bridges s (fst (log_error m s))"
  by (auto simp: log_error_def split: prod.splits exec.splits)

lemma keeps_bridges_refl [simp]: "keeps_bridges s s"
  by (rule bridges_frame.R_refl)

lemma configured_message_keeps_bridges:
  assumes "h_config (self s) \<noteq> None"
  shows "keeps_bridges s (fst (handle_dash_ha_set_config_table_message env key s))"
proof (cases "read_msg (of_j_kfv (env_serde env)) key s")
  case (Ok k)
  have del: "keeps_bridges s (fst (act_seq (register_to_vdpu_actor env False) stop_actor s))"
  proof -
    have "frame_act keeps_bridges (act_seq (register_to_vdpu_actor env False) stop_actor)"
      by (intro frame_intros)
    then show ?thesis by (simp add: frame_act_def)
  qed
  have set: "frame_act keeps_bridges
    (act_bind (of_outcome (of_sum (of_fv_ha_set_config (env_serde env) (kfv_field_values k)))) (\<lambda>cfg.
      act_seq (update_self (\<lambda>a. a\<lparr>h_config := Some cfg\<rparr>))
        (act_seq (register_to_vdpu_actor env True)
          (act_seq (ret ()) (with_state (\<lambda>s. case get_vdpus_if_ready env s of
             None \<Rightarrow> ret () | Some vdpus \<Rightarrow> update_dash_ha_set_table env vdpus))))))"
    by (intro frame_intros)
  from assms Ok del set show ?thesis
    by (auto simp: handle_dash_ha_set_config_table_message_def act_bind_def [of "reads _"] reads_def with_state_def frame_act_def)
qed (simp_all add: handle_dash_ha_set_config_table_message_def act_bind_def reads_def)

lemma configured_keeps_bridges:
  assumes "h_config (self s) \<noteq> None"
  shows "keeps_bridges s (fst (ha_set_handle_message env key s))"
proof -
  have "frame_act keeps_bridges (ha_set_handle_vdpu_state_update env)"
    "frame_act keeps_bridges (ha_set_handle_global_config env)"
    "frame_act keeps_bridges (handle_haset_state_registration env key)"
    unfolding ha_set_handle_vdpu_state_update_def ha_set_handle_global_config_def
      handle_haset_state_registration_def
    by (intro frame_intros)+
  then show ?thesis
    using assms log_error_keeps [of s "handle_dash_ha_set_config_table_message env key"]
      configured_message_keeps_bridges [OF assms]
    by (auto simp: ha_set_handle_message_def with_state_def frame_act_def ret_def)
qed

text \<open>
  A later history of the actor: a list of callbacks, each with its key, its environment and whatever
  the state tables hold when it runs.
\<close>

fun ha_set_history :: "ha_set_actor hstate \<Rightarrow> (hamgrd_env \<times> string \<times> actor_state) list \<Rightarrow> ha_set_actor hstate" where
  "ha_set_history s [] = s"
| "ha_set_history s ((env, key, st) # r) =
     ha_set_history (fst (ha_set_handle_message env key (s\<lparr>tables := st\<rparr>))) r"

lemma ha_set_history_bridges:
  "h_config (self s) \<noteq> None \<Longrightarrow> h_bridges (self (ha_set_history s hs)) = h_bridges (self s)"
proof (induction s hs rule: ha_set_history.induct)
  case (2 s env key st r)
  from 2 configured_keeps_bridges [of "s\<lparr>tables := st\<rparr>" env key] show ?case by (simp add: keeps_bridges_def)
qed simp

text \<open>
  When the bridge to the global configuration cannot be started while the first configuration of
  an HA set is handled, the error is only logged: the callback succeeds, the configuration is stored,
  and no later callback, in whatever environment and with whatever tables, starts the bridge again.
\<close>

theorem failed_bridge_is_never_retried:
  assumes "h_config (self s) = None" "read_msg (of_j_kfv (env_serde env)) ''DASH_HA_SET_CONFIG_TABLE'' s = Ok k"
    and "kfv_operation k = KSet" "of_fv_ha_set_config (env_serde env) (kfv_field_values k) = Inr cfg"
    and "j_registration (env_serde env) True = Inr j" "spawn_bridge env (ha_set_bridge (self s)) = Some e"
  shows "\<exists>s1. ha_set_handle_message env ''DASH_HA_SET_CONFIG_TABLE'' s = (s1, Ok ())
    \<and> h_config (self s1) = Some cfg
    \<and> (\<forall>hs. h_bridges (self (ha_set_history s1 hs)) = h_bridges (self s))"
proof -
  let ?s = "s\<lparr>self := (self s)\<lparr>h_config := Some cfg\<rparr>\<rparr>"
  obtain st where r: "register_to_vdpu_actor env True ?s = (?s\<lparr>tables := st\<rparr>, Ok ())"
    using register_to_vdpu_pairs [of ?s cfg env True j] assms(5) by simp
  have "ha_set_handle_message env ''DASH_HA_SET_CONFIG_TABLE'' s = (?s\<lparr>tables := st\<rparr>, Ok ())"
    using assms r
    by (simp add: ha_set_handle_message_def handle_dash_ha_set_config_table_message_def table_defs act_defs
        push_bridge_def)
  moreover have "h_bridges (self (ha_set_history (?s\<lparr>tables := st\<rparr>) hs)) = h_bridges (self s)" for hs
    using ha_set_history_bridges [of "?s\<lparr>tables := st\<rparr>" hs] by simp
  ultimately show ?thesis by auto
qed

theorem failed_bridge_is_never_retried_witness:
  "\<exists>s1. ha_set_handle_message (demo_env\<lparr>spawn_bridge := \<lambda>b. Some ''no redis''\<rparr>) ''DASH_HA_SET_CONFIG_TABLE''
      \<lparr>self = new_ha_set_actor ''haset0'', tables = demo_tables [(''DASH_HA_SET_CONFIG_TABLE'', JStr ''haset0'')],
        stop = False\<rparr> = (s1, Ok ())
    \<and> h_config (self s1) = Some demo_ha_set_config \<and> h_bridges (self s1) = []"
proof -
  let ?env = "demo_env\<lparr>spawn_bridge := \<lambda>b. Some ''no redis''\<rparr>"
  let ?s = "\<lparr>self = new_ha_set_actor ''haset0'', tables = demo_tables [(''DASH_HA_SET_CONFIG_TABLE'', JStr ''haset0'')],
        stop = False\<rparr>"
  have r: "read_msg (of_j_kfv (env_serde ?env)) ''DASH_HA_SET_CONFIG_TABLE'' ?s
      = Ok \<lparr>kfv_key = ''haset0'', kfv_operation = KSet, kfv_field_values = []\<rparr>"
    by (simp add: demo_act_defs)
  have d: "of_fv_ha_set_config (env_serde ?env) f = Inr demo_ha_set_config"
    "j_registration (env_serde ?env) True = Inr (JBool True)" for f
    by (simp_all add: demo_env_def demo_serde_def)
  obtain s1 where s1: "ha_set_handle_message ?env ''DASH_HA_SET_CONFIG_TABLE'' ?s = (s1, Ok ())"
      "h_config (self s1) = Some demo_ha_set_config"
      "\<forall>hs. h_bridges (self (ha_set_history s1 hs)) = h_bridges (self ?s)"
    using failed_bridge_is_never_retried [OF _ r _ d(1) d(2)] by (auto simp: new_ha_set_actor_def)
  from s1(3) [rule_format, of "[]"] s1(1,2) show ?thesis by (simp add: new_ha_set_actor_def)
qed

end
