(* ===== verification/Hamgrd_HaScope.thy ===== *)
theory Hamgrd_HaScope
  imports Hamgrd_HaSet "HOL-Library.Multiset"
begin

text \<open>
  The HA scope actor (\<open>actors/ha_scope.rs\<close>): it programs the HA scope of the local DPU, publishes the
  state of the scope to the SDN controller and carries the pending operations between the two.
\<close>

text \<open>\<open>s_uuids\<close> counts the UUIDs that the actor has drawn from the generator.\<close>

record ha_scope_actor =
  s_id :: string
  s_ha_scope_id :: string
  s_vdpu_id :: string
  s_config :: "dash_ha_scope_config option"
  s_bridges :: "bridge_spec list"
  s_dpu_state :: "dpu_dash_ha_scope_state option"
  s_uuids :: nat

definition new_ha_scope_actor :: "string \<Rightarrow> ha_scope_actor outcome" where
  "new_ha_scope_actor key =
     (case split_once CHR '':'' key of
        Some (v, h) \<Rightarrow> Ok \<lparr>s_id = key, s_ha_scope_id = h, s_vdpu_id = v, s_config = None, s_bridges = [],
                          s_dpu_state = None, s_uuids = 0\<rparr>
      | None \<Rightarrow> Err (''Invalid key format for HA scope actor: '' @ key))"

definition ha_scope_actor_name :: string where "ha_scope_actor_name = ''ha-scope''"

type_synonym 'r ha_scope_act = "(ha_scope_actor, 'r) act"

section \<open>Getters\<close>

definition scope_get_vdpu :: "hamgrd_env \<Rightarrow> ha_scope_actor hstate \<Rightarrow> vdpu_actor_state option" where
  "scope_get_vdpu env s =
     (case incoming_get (tables s) (vdpu_msg_key (s_vdpu_id (self s))) of
        Ok m \<Rightarrow> ok_option (deserialize_data (of_j_vdpu_actor_state (env_serde env)) m)
      | _ \<Rightarrow> None)"

definition get_haset :: "hamgrd_env \<Rightarrow> ha_scope_actor hstate \<Rightarrow> ha_set_actor_state option" where
  "get_haset env s =
     (case incoming_get (tables s) (ha_set_msg_key (s_ha_scope_id (self s))) of
        Ok m \<Rightarrow> ok_option (deserialize_data (of_j_ha_set_actor_state (env_serde env)) m)
      | _ \<Rightarrow> None)"

definition get_dpu_ha_scope_state :: "hamgrd_env \<Rightarrow> actor_state \<Rightarrow> dpu_dash_ha_scope_state option" where
  "get_dpu_ha_scope_state env st =
     (case incoming_get st (table_name dpu_dash_ha_scope_state_tbl) of
        Ok m \<Rightarrow>
          (case deserialize_data (of_j_kfv (env_serde env)) m of
             Ok k \<Rightarrow> ok_option (of_sum (of_fv_dpu_scope_state (env_serde env) (kfv_field_values k)))
           | _ \<Rightarrow> None)
      | _ \<Rightarrow> None)"

text \<open>\<open>internal.get\<close> panics when the entry has not been added.\<close>

definition get_npu_ha_scope_state ::
    "hamgrd_env \<Rightarrow> ha_scope_actor hstate \<Rightarrow> npu_dash_ha_scope_state option outcome" where
  "get_npu_ha_scope_state env s =
     (if s_config (self s) = None then Ok None
      else bind_exec (internal_get (tables s) (table_name npu_dash_ha_scope_state_tbl)) (\<lambda>f.
        if f = [] then Ok None
        else Ok (ok_option (of_sum (of_fv_npu_scope_state (env_serde env) f)))))"

text \<open>
  A \<open>HashMap<String, String>\<close> is an association list without repeated keys; collecting pairs into it
  keeps the last value of a key.
\<close>

definition collect_pairs :: "(string \<times> string) list \<Rightarrow> (string \<times> string) list" where
  "collect_pairs ps = foldl (\<lambda>m (k, v). AList.update k v m) [] ps"

definition same_map :: "(string \<times> string) list \<Rightarrow> (string \<times> string) list \<Rightarrow> bool" where
  "same_map a b = list_all (\<lambda>k. map_of a k = map_of b k) (map fst a @ map fst b)"

definition operations_of :: "npu_dash_ha_scope_state \<Rightarrow> (string \<times> string) list outcome" where
  "operations_of n =
     (case (ns_pending_operation_ids n, ns_pending_operation_types n) of
        (Some ids, Some types) \<Rightarrow>
          if length ids \<noteq> length types
          then Err ''pending_operation_ids and pending_operation_types have different lengths''
          else Ok (collect_pairs (zip ids types))
      | _ \<Rightarrow> Ok [])"

definition get_pending_operations ::
    "hamgrd_env \<Rightarrow> actor_state \<Rightarrow> npu_dash_ha_scope_state option \<Rightarrow> (string \<times> string) list outcome" where
  "get_pending_operations env st no =
     (case no of
        Some n \<Rightarrow> operations_of n
      | None \<Rightarrow>
          bind_exec (internal_get st (table_name npu_dash_ha_scope_state_tbl)) (\<lambda>f.
            if f = [] then Ok []
            else bind_exec (of_sum (of_fv_npu_scope_state (env_serde env) f)) operations_of))"

definition vdpu_is_managed :: "hamgrd_env \<Rightarrow> ha_scope_actor hstate \<Rightarrow> bool" where
  "vdpu_is_managed env s =
     (case scope_get_vdpu env s of None \<Rightarrow> False | Some v \<Rightarrow> da_is_managed (va_dpu v))"

section \<open>Actions\<close>

definition scope_register_to_vdpu_actor :: "hamgrd_env \<Rightarrow> bool \<Rightarrow> unit ha_scope_act" where
  "scope_register_to_vdpu_actor env active = with_state (\<lambda>s.
     if s_config (self s) = None then ret ()
     else act_bind (of_outcome (new_registration_msg (env_serde env) active VDPUState (s_id (self s)))) (\<lambda>msg.
       send_msg (env_codec env) (from_my_sp (tables s) vdpu_actor_name (s_vdpu_id (self s))) msg))"

definition register_to_haset_actor :: "hamgrd_env \<Rightarrow> bool \<Rightarrow> unit ha_scope_act" where
  "register_to_haset_actor env active = with_state (\<lambda>s.
     if s_config (self s) = None then ret ()
     else act_bind (of_outcome (new_registration_msg (env_serde env) active HaSetState (s_id (self s)))) (\<lambda>msg.
       send_msg (env_codec env) (from_my_sp (tables s) ha_set_actor_name (s_ha_scope_id (self s))) msg))"

text \<open>The operation types that the approved identifiers have in the pending list.\<close>

definition approved_types :: "(string \<times> string) list \<Rightarrow> string list \<Rightarrow> string list" where
  "approved_types ops approved = List.map_filter (map_of ops) approved"

definition ha_scope_table_of :: "dash_ha_scope_config \<Rightarrow> string list \<Rightarrow> dash_ha_scope_table" where
  "ha_scope_table_of cfg types =
     \<lparr>st_version = sc_version cfg, st_disable = sc_disable cfg, st_ha_role = sc_desired_ha_state cfg,
      st_flow_reconcile_requested = (''flow_reconcile'' \<in> set types),
      st_activate_role_requested = (''activate_role'' \<in> set types)\<rparr>"

definition update_dpu_ha_scope_table :: "hamgrd_env \<Rightarrow> unit ha_scope_act" where
  "update_dpu_ha_scope_table env = with_state (\<lambda>s.
     case s_config (self s) of
       None \<Rightarrow> ret ()
     | Some cfg \<Rightarrow>
         act_bind (of_outcome (case sc_approved_pending_operation_ids cfg of
             None \<Rightarrow> Ok []
           | Some approved \<Rightarrow>
               if approved = [] then Ok []
               else bind_exec (get_pending_operations env (tables s) None) (\<lambda>ops.
                 Ok (approved_types ops approved)))) (\<lambda>types.
           act_bind (of_outcome (of_sum (fv_ha_scope_table (env_serde env) (ha_scope_table_of cfg types)))) (\<lambda>fv.
             act_bind (of_outcome (new_actor_message (s_ha_scope_id (self s)) (j_kfv (env_serde env)
                 \<lparr>kfv_key = s_ha_scope_id (self s), kfv_operation = KSet, kfv_field_values = fv\<rparr>))) (\<lambda>msg.
               send_msg (env_codec env)
                 (common_bridge_sp (tables s) (db_name dash_ha_scope_tbl) (table_name dash_ha_scope_tbl)) msg))))"

definition store_npu_state :: "hamgrd_env \<Rightarrow> npu_dash_ha_scope_state \<Rightarrow> unit ha_scope_act" where
  "store_npu_state env n =
     act_bind (of_outcome (of_sum (fv_npu_scope_state (env_serde env) n)))
       (set_internal (table_name npu_dash_ha_scope_state_tbl))"

definition base_state ::
    "dash_ha_set_table \<Rightarrow> dpu_state \<Rightarrow> dash_bfd_probe_state \<Rightarrow> npu_dash_ha_scope_state
       \<Rightarrow> npu_dash_ha_scope_state" where
  "base_state t pmon bfd n = n
     \<lparr>ns_creation_time_in_ms := 0, ns_last_heartbeat_time_in_ms := 0,
      ns_vip_v4 := hs_vip_v4 t, ns_vip_v6 := hs_vip_v6 t, ns_local_ip := hs_local_ip t, ns_peer_ip := hs_peer_ip t,
      ns_midplane_state := ds_midplane_link_state pmon, ns_midplane_time := ds_midplane_link_time pmon,
      ns_control_plane_state := ds_control_plane_state pmon, ns_control_plane_time := ds_control_plane_time pmon,
      ns_data_plane_state := ds_data_plane_state pmon, ns_data_plane_time := ds_data_plane_time pmon,
      ns_up_bfd_sessions_v4 := v4_bfd_up_sessions bfd,
      ns_up_bfd_sessions_v4_time := v4_bfd_up_sessions_timestamp bfd,
      ns_up_bfd_sessions_v6 := v6_bfd_up_sessions bfd,
      ns_up_bfd_sessions_v6_time := v6_bfd_up_sessions_timestamp bfd\<rparr>"

text \<open>\<open>Option::unwrap_or\<close>.\<close>

definition unwrap_or :: "'a \<Rightarrow> 'a option \<Rightarrow> 'a" where
  "unwrap_or d o1 = (case o1 of Some x \<Rightarrow> x | None \<Rightarrow> d)"

definition update_npu_ha_scope_state_base :: "hamgrd_env \<Rightarrow> unit ha_scope_act" where
  "update_npu_ha_scope_state_base env = with_state (\<lambda>s.
     if s_config (self s) = None then ret ()
     else case scope_get_vdpu env s of
       None \<Rightarrow> ret ()
     | Some v \<Rightarrow>
         if \<not> da_is_managed (va_dpu v) then ret ()
         else (let now = now_in_millis (tables s);
                   pmon = unwrap_or (default_dpu_state now) (da_dpu_pmon_state (va_dpu v));
                   bfd = unwrap_or (default_bfd_probe_state now) (da_dpu_bfd_state (va_dpu v))
               in case get_haset env s of
                    None \<Rightarrow> ret ()
                  | Some h \<Rightarrow>
                      act_bind (of_outcome (get_npu_ha_scope_state env s)) (\<lambda>no.
                        store_npu_state env
                          (base_state (ha_ha_set h) pmon bfd (unwrap_or default_npu_scope_state no)))))"

text \<open>Entries leave the map by approval and enter it by request, then the lists are written anew.\<close>

definition new_pending ::
    "(string \<times> string) list \<Rightarrow> (string \<times> string) list \<Rightarrow> string list \<Rightarrow> (string \<times> string) list" where
  "new_pending ops new approved =
     foldl (\<lambda>m (k, v). AList.update k v m) (foldl (\<lambda>m k. AList.delete k m) ops approved) new"

definition with_operations ::
    "hamgrd_env \<Rightarrow> (string \<times> string) list \<Rightarrow> int \<Rightarrow> npu_dash_ha_scope_state \<Rightarrow> npu_dash_ha_scope_state" where
  "with_operations env ops now n = n\<lparr>
     ns_pending_operation_ids := Some (map fst (hash_iter env ops)),
     ns_pending_operation_types := Some (map snd (hash_iter env ops)),
     ns_pending_operation_list_time := Some now\<rparr>"

definition update_npu_ha_scope_state_pending_operations ::
    "hamgrd_env \<Rightarrow> (string \<times> string) list \<Rightarrow> string list \<Rightarrow> unit ha_scope_act" where
  "update_npu_ha_scope_state_pending_operations env new approved = with_state (\<lambda>s.
     act_bind (of_outcome (get_npu_ha_scope_state env s)) (\<lambda>no. case no of
       None \<Rightarrow> ret ()
     | Some n \<Rightarrow>
         act_bind (of_outcome (get_pending_operations env (tables s) (Some n))) (\<lambda>old.
           let ops = new_pending old new approved
           in if same_map old ops then ret ()
              else store_npu_state env (with_operations env ops (now_in_millis (tables s)) n))))"

definition ha_state_of ::
    "dash_ha_scope_config \<Rightarrow> dpu_dash_ha_scope_state \<Rightarrow> npu_dash_ha_scope_state \<Rightarrow> npu_dash_ha_scope_state" where
  "ha_state_of cfg d n = n
     \<lparr>ns_local_ha_state := Some (dss_ha_role d),
      ns_local_ha_state_last_updated_time_in_ms := Some (dss_ha_role_start_time d),
      ns_local_ha_state_last_updated_reason := Some ''dpu initiated'',
      ns_local_target_asic_ha_state := Some (sc_desired_ha_state cfg),
      ns_local_acked_asic_ha_state := Some (dss_ha_role d),
      ns_local_target_term := Some (dss_ha_term d), ns_local_acked_term := Some (dss_ha_term d)\<rparr>"

definition update_npu_ha_scope_state_ha_state :: "hamgrd_env \<Rightarrow> unit ha_scope_act" where
  "update_npu_ha_scope_state_ha_state env = with_state (\<lambda>s.
     case s_config (self s) of
       None \<Rightarrow> ret ()
     | Some cfg \<Rightarrow>
         act_bind (of_outcome (get_npu_ha_scope_state env s)) (\<lambda>no. case no of
           None \<Rightarrow> ret ()
         | Some n \<Rightarrow>
             (case get_dpu_ha_scope_state env (tables s) of
                None \<Rightarrow> ret ()
              | Some d \<Rightarrow> store_npu_state env (ha_state_of cfg d n))))"

section \<open>Message handlers\<close>

definition handle_dash_ha_scope_config_table_message :: "hamgrd_env \<Rightarrow> string \<Rightarrow> unit ha_scope_act" where
  "handle_dash_ha_scope_config_table_message env key =
     act_bind (reads (read_msg (of_j_kfv (env_serde env)) key)) (\<lambda>k.
       if kfv_operation k = KDel
       then act_seq (scope_register_to_vdpu_actor env False)
              (act_seq (register_to_haset_actor env False) stop_actor)
       else with_state (\<lambda>s0.
         act_bind (of_outcome (of_sum (of_fv_ha_scope_config (env_serde env) (kfv_field_values k)))) (\<lambda>cfg.
           act_seq (update_self (\<lambda>a. a\<lparr>s_config := Some cfg\<rparr>))
             (act_seq
               (if s_config (self s0) = None
                then act_seq (scope_register_to_vdpu_actor env True) (register_to_haset_actor env True)
                else ret ())
               (with_state (\<lambda>s.
                 if \<not> vdpu_is_managed env s then ret ()
                 else act_seq (update_dpu_ha_scope_table env)
                   (act_seq (update_npu_ha_scope_state_ha_state env)
                     (let approved = unwrap_or [] (sc_approved_pending_operation_ids cfg)
                      in if approved = [] then ret ()
                         else update_npu_ha_scope_state_pending_operations env [] approved))))))))"

definition ha_scope_bridge :: "ha_scope_actor \<Rightarrow> bridge_spec" where
  "ha_scope_bridge a = \<lparr>br_table = dpu_dash_ha_scope_state_tbl, br_actor = ha_scope_actor_name,
     br_actor_id = s_id a, br_single_entry = True, br_slot = None\<rparr>"

definition scope_handle_vdpu_state_update :: "hamgrd_env \<Rightarrow> unit ha_scope_act" where
  "scope_handle_vdpu_state_update env = with_state (\<lambda>s.
     case scope_get_vdpu env s of
       None \<Rightarrow> ret ()
     | Some v \<Rightarrow>
         if \<not> da_is_managed (va_dpu v) then ret ()
         else (let key = table_name npu_dash_ha_scope_state_tbl;
                   skey = s_vdpu_id (self s) @ key_separator npu_dash_ha_scope_state_tbl @ s_ha_scope_id (self s)
               in act_seq
                 (if has_entry (tables s) key skey then ret ()
                  else case open_table env npu_dash_ha_scope_state_tbl of
                      Some e \<Rightarrow> of_outcome (Err e)
                    | None \<Rightarrow> add_internal key key skey (table_get env npu_dash_ha_scope_state_tbl skey))
                 (act_seq
                   (if s_bridges (self s) = []
                    then push_bridge env (ha_scope_bridge (self s)) (\<lambda>b a. a\<lparr>s_bridges := s_bridges a @ [b]\<rparr>)
                    else ret ())
                   (act_seq (update_dpu_ha_scope_table env) (update_npu_ha_scope_state_base env)))))"

definition handle_haset_state_update :: "hamgrd_env \<Rightarrow> unit ha_scope_act" where
  "handle_haset_state_update env = update_npu_ha_scope_state_base env"

text \<open>The operations that the DPU newly asks for; each gets the next UUID.\<close>

definition requested_types :: "dpu_dash_ha_scope_state \<Rightarrow> dpu_dash_ha_scope_state \<Rightarrow> string list" where
  "requested_types new old =
     (if dss_activate_role_pending new \<and> \<not> dss_activate_role_pending old then [''activate_role''] else [])
     @ (if dss_brainsplit_recover_pending new \<and> \<not> dss_brainsplit_recover_pending old
        then [''brainsplit_recover''] else [])
     @ (if dss_flow_reconcile_pending new \<and> \<not> dss_flow_reconcile_pending old then [''flow_reconcile''] else [])"

definition with_uuids :: "hamgrd_env \<Rightarrow> nat \<Rightarrow> string list \<Rightarrow> (string \<times> string) list" where
  "with_uuids env n types = map (\<lambda>(i, t). (uuid_v4 env i, t)) (enumerate n types)"

definition handle_dpu_ha_scope_state_update :: "hamgrd_env \<Rightarrow> unit ha_scope_act" where
  "handle_dpu_ha_scope_state_update env = with_state (\<lambda>s.
     case get_dpu_ha_scope_state env (tables s) of
       None \<Rightarrow> ret ()
     | Some new \<Rightarrow>
         (let types = requested_types new (unwrap_or default_dpu_scope_state (s_dpu_state (self s)));
              operations = with_uuids env (s_uuids (self s)) types
          in act_seq (update_self (\<lambda>a. a\<lparr>s_dpu_state := Some new, s_uuids := s_uuids a + length types\<rparr>))
               (act_seq (update_npu_ha_scope_state_ha_state env)
                 (if operations = [] then ret ()
                  else update_npu_ha_scope_state_pending_operations env operations []))))"

definition ha_scope_handle_message :: "hamgrd_env \<Rightarrow> string \<Rightarrow> unit ha_scope_act" where
  "ha_scope_handle_message env key = with_state (\<lambda>s.
     if key = table_name dash_ha_scope_config_tbl
       then log_error (handle_dash_ha_scope_config_table_message env key)
     else if s_config (self s) = None then ret ()
     else if is_vdpu_msg key then scope_handle_vdpu_state_update env
     else if is_ha_set_msg key then handle_haset_state_update env
     else if starts_with key (table_name dpu_dash_ha_scope_state_tbl) then handle_dpu_ha_scope_state_update env
     else ret ())"

section \<open>Contract of the driver\<close>

lemma api_scope_parts [frame_intros]:
  "api_act (env_codec env) (scope_register_to_vdpu_actor env active)"
  "api_act (env_codec env) (register_to_haset_actor env active)"
  "api_act (env_codec env) (update_dpu_ha_scope_table env)"
  "api_act cd (store_npu_state env n)"
  unfolding scope_register_to_vdpu_actor_def register_to_haset_actor_def update_dpu_ha_scope_table_def
    store_npu_state_def
  by (intro frame_intros)+

lemma api_scope_updates [frame_intros]:
  "api_act cd (update_npu_ha_scope_state_base env)"
  "api_act cd (update_npu_ha_scope_state_pending_operations env new approved)"
  "api_act cd (update_npu_ha_scope_state_ha_state env)"
  unfolding update_npu_ha_scope_state_base_def update_npu_ha_scope_state_pending_operations_def
    update_npu_ha_scope_state_ha_state_def
  by (intro frame_intros)+

lemma api_ha_scope_handle_message: "api_act (env_codec env) (ha_scope_handle_message env key)"
  unfolding ha_scope_handle_message_def handle_dash_ha_scope_config_table_message_def
    scope_handle_vdpu_state_update_def handle_haset_state_update_def handle_dpu_ha_scope_state_update_def
  by (intro frame_intros)

interpretation ha_scope: bus_actor "env_codec env" "as_handler (ha_scope_handle_message env)" for env
  by unfold_locales (rule as_handler_api [OF api_ha_scope_handle_message])

section \<open>The pending operations as a map\<close>

lemma foldl_update_map:
  "map_of (foldl (\<lambda>m (k, v). AList.update k v m) m ps) = map_of m ++ map_of (rev ps)"
  by (induction ps arbitrary: m) (auto simp: update_conv' map_add_assoc [symmetric])

lemma foldl_update_distinct:
  "distinct (map fst m) \<Longrightarrow> distinct (map fst (foldl (\<lambda>m (k, v). AList.update k v m) m ps))"
  by (induction ps arbitrary: m) (auto simp: distinct_update)

lemma foldl_delete_map:
  "map_of (foldl (\<lambda>m k. AList.delete k m) m ks) = map_of m |` (- set ks)"
  by (induction ks arbitrary: m) (auto simp: delete_conv' restrict_map_def fun_eq_iff)

lemma foldl_delete_distinct:
  "distinct (map fst m) \<Longrightarrow> distinct (map fst (foldl (\<lambda>m k. AList.delete k m) m ks))"
  by (induction ks arbitrary: m) (auto simp: distinct_delete)

lemma collect_pairs_map: "map_of (collect_pairs ps) = map_of (rev ps)"
  by (simp add: collect_pairs_def foldl_update_map)

lemma new_pending_map: "map_of (new_pending ops new approved) = (map_of ops |` (- set approved)) ++ map_of (rev new)"
  by (simp add: new_pending_def foldl_update_map foldl_delete_map)

lemma operations_of_distinct: "operations_of n = Ok ops \<Longrightarrow> distinct (map fst ops)"
  by (auto simp: operations_of_def collect_pairs_def intro!: foldl_update_distinct split: option.splits if_splits)

lemma new_pending_distinct: "distinct (map fst ops) \<Longrightarrow> distinct (map fst (new_pending ops new approved))"
  by (simp add: new_pending_def foldl_update_distinct foldl_delete_distinct)

lemma same_map_iff: "same_map a b \<longleftrightarrow> map_of a = map_of b"
proof
  assume s: "same_map a b"
  show "map_of a = map_of b"
  proof
    fix k show "map_of a k = map_of b k"
      using s map_of_eq_None_iff [of a k] map_of_eq_None_iff [of b k]
      by (cases "k \<in> fst ` set a \<union> fst ` set b") (auto simp: same_map_def list_all_iff)
  qed
qed (simp add: same_map_def list_all_iff)

text \<open>Whatever order the hash map gives out, the two lists written to the table describe it.\<close>

lemma operations_written:
  assumes "mset (hash_iter env ops) = mset ops" "distinct (map fst ops)"
  shows "\<exists>ops'. operations_of (with_operations env ops now n) = Ok ops' \<and> map_of ops' = map_of ops"
proof -
  let ?h = "hash_iter env ops"
  have "distinct (map fst ?h)"
    using assms mset_eq_imp_distinct_iff [of "map fst ?h" "map fst ops"] by simp
  then have "map_of (rev ?h) = map_of ops"
    using assms(2) mset_eq_setD [OF assms(1)] map_of_inject_set [of "rev ?h" ops] by (simp add: rev_map [symmetric])
  then show ?thesis
    by (simp add: operations_of_def with_operations_def zip_map_fst_snd collect_pairs_map)
qed

lemma set_internal_ok:
  assumes "map_of (internal (tables s)) key = Some e"
  shows "set_internal key f s
      = (s\<lparr>tables := (tables s)\<lparr>internal := AList.update key (fvs_mut (\<lambda>_. f) e) (internal (tables s))\<rparr>\<rparr>, Ok ())"
  using assms by (simp add: set_internal_def internal_get_mut_def)

lemma store_npu_state_ok:
  assumes "internal_get (tables s) ''DASH_HA_SCOPE_STATE'' = Ok f" "fv_npu_scope_state (env_serde env) n = Inr fv"
  shows "\<exists>i. store_npu_state env n s = (s\<lparr>tables := (tables s)\<lparr>internal := i\<rparr>\<rparr>, Ok ())
    \<and> internal_get ((tables s)\<lparr>internal := i\<rparr>) ''DASH_HA_SCOPE_STATE'' = Ok fv"
proof -
  obtain e where "map_of (internal (tables s)) ''DASH_HA_SCOPE_STATE'' = Some e"
    using assms(1) by (auto simp: internal_get_def split: option.splits)
  from set_internal_ok [OF this, of fv] assms(2) show ?thesis
    by (auto simp: store_npu_state_def act_bind_def of_outcome_def table_defs internal_get_def update_conv'
        fvs_mut_def Let_def)
qed

text \<open>The stored state of the scope, as the actor reads it.\<close>

definition holds_npu_state ::
    "hamgrd_env \<Rightarrow> actor_state \<Rightarrow> npu_dash_ha_scope_state \<Rightarrow> bool" where
  "holds_npu_state env st n \<longleftrightarrow> (\<exists>f. internal_get st ''DASH_HA_SCOPE_STATE'' = Ok f \<and> f \<noteq> []
     \<and> of_fv_npu_scope_state (env_serde env) f = Inr n)"

lemma get_npu_holds:
  assumes "s_config (self s) \<noteq> None" "holds_npu_state env (tables s) n"
  shows "get_npu_ha_scope_state env s = Ok (Some n)"
  using assms by (auto simp: get_npu_ha_scope_state_def holds_npu_state_def table_defs)

text \<open>A value that the serializer writes and reads back.\<close>

definition npu_roundtrip :: "hamgrd_env \<Rightarrow> npu_dash_ha_scope_state \<Rightarrow> bool" where
  "npu_roundtrip env n \<longleftrightarrow> (case fv_npu_scope_state (env_serde env) n of
     Inr f \<Rightarrow> f \<noteq> [] \<and> of_fv_npu_scope_state (env_serde env) f = Inr n | _ \<Rightarrow> False)"

lemma store_npu_state_holds:
  assumes "holds_npu_state env (tables s) n0" "npu_roundtrip env n"
  shows "\<exists>i. store_npu_state env n s = (s\<lparr>tables := (tables s)\<lparr>internal := i\<rparr>\<rparr>, Ok ())
    \<and> holds_npu_state env ((tables s)\<lparr>internal := i\<rparr>) n"
proof -
  obtain f fv where "internal_get (tables s) ''DASH_HA_SCOPE_STATE'' = Ok f"
      and fv: "fv_npu_scope_state (env_serde env) n = Inr fv" "fv \<noteq> []"
        "of_fv_npu_scope_state (env_serde env) fv = Inr n"
    using assms by (auto simp: holds_npu_state_def npu_roundtrip_def split: sum.splits)
  from store_npu_state_ok [OF this(1,2)] fv(2,3) show ?thesis
    by (auto simp: holds_npu_state_def)
qed

lemma update_pending_holds:
  assumes "s_config (self s) \<noteq> None" "holds_npu_state env (tables s) n" "operations_of n = Ok old"
    and "mset (hash_iter env (new_pending old new approved)) = mset (new_pending old new approved)"
    and "npu_roundtrip env (with_operations env (new_pending old new approved) (now_in_millis (tables s)) n)"
  shows "\<exists>i n' ops'. update_npu_ha_scope_state_pending_operations env new approved s
        = (s\<lparr>tables := (tables s)\<lparr>internal := i\<rparr>\<rparr>, Ok ())
    \<and> holds_npu_state env ((tables s)\<lparr>internal := i\<rparr>) n' \<and> operations_of n' = Ok ops'
    \<and> map_of ops' = (map_of old |` (- set approved)) ++ map_of (rev new)"
proof -
  let ?ops = "new_pending old new approved"
  let ?n = "with_operations env ?ops (now_in_millis (tables s)) n"
  have u: "update_npu_ha_scope_state_pending_operations env new approved s
      = (if map_of old = map_of ?ops then (s, Ok ()) else store_npu_state env ?n s)"
    using get_npu_holds [OF assms(1,2)] assms(3)
    by (simp add: update_npu_ha_scope_state_pending_operations_def act_defs get_pending_operations_def Let_def
        same_map_iff)
  show ?thesis
  proof (cases "map_of old = map_of ?ops")
    case True
    then have eq: "map_of old = (map_of old |` (- set approved)) ++ map_of (rev new)"
      using new_pending_map by (rule trans)
    from u True have "update_npu_ha_scope_state_pending_operations env new approved s = (s, Ok ())" by simp
    with assms(2,3) show ?thesis
      by (intro exI [of _ "internal (tables s)"] exI [of _ n] exI [of _ old]) (auto intro: eq)
  next
    case False
    obtain i where i: "store_npu_state env ?n s = (s\<lparr>tables := (tables s)\<lparr>internal := i\<rparr>\<rparr>, Ok ())"
        "holds_npu_state env ((tables s)\<lparr>internal := i\<rparr>) ?n"
      using store_npu_state_holds [OF assms(2,5)] by blast
    obtain ops' where "operations_of ?n = Ok ops'" "map_of ops' = map_of ?ops"
      using operations_written [OF assms(4) new_pending_distinct [OF operations_of_distinct [OF assms(3)]]] by blast
    with False u i show ?thesis
      by (intro exI [of _ i] exI [of _ ?n] exI [of _ ops']) (simp add: new_pending_map)
  qed
qed

lemma update_ha_state_holds:
  assumes "s_config (self s) = Some cfg" "holds_npu_state env (tables s) n"
    and "get_dpu_ha_scope_state env (tables s) = Some d" "npu_roundtrip env (ha_state_of cfg d n)"
  shows "\<exists>i. update_npu_ha_scope_state_ha_state env s = (s\<lparr>tables := (tables s)\<lparr>internal := i\<rparr>\<rparr>, Ok ())
    \<and> holds_npu_state env ((tables s)\<lparr>internal := i\<rparr>) (ha_state_of cfg d n)"
proof -
  have "update_npu_ha_scope_state_ha_state env s = store_npu_state env (ha_state_of cfg d n) s"
    using get_npu_holds [of s env n] assms(1-3)
    by (simp add: update_npu_ha_scope_state_ha_state_def act_defs)
  with store_npu_state_holds [OF assms(2,4)] show ?thesis by simp
qed

lemma operations_of_ha_state [simp]: "operations_of (ha_state_of cfg d n) = operations_of n"
  by (simp add: operations_of_def ha_state_of_def)

lemma holds_npu_internal: "internal st = internal st' \<Longrightarrow> holds_npu_state env st n = holds_npu_state env st' n"
  by (simp add: holds_npu_state_def internal_get_def)

lemma get_dpu_scope_incoming:
  "incoming st = incoming st' \<Longrightarrow> get_dpu_ha_scope_state env st = get_dpu_ha_scope_state env st'"
  by (simp add: get_dpu_ha_scope_state_def incoming_get_def get_entry_def)

lemma update_dpu_table_approved:
  assumes "s_config (self s) = Some cfg" "sc_approved_pending_operation_ids cfg = Some approved" "approved \<noteq> []"
    and "holds_npu_state env (tables s) n" "operations_of n = Ok old"
    and "fv_ha_scope_table (env_serde env) (ha_scope_table_of cfg (approved_types old approved)) = Inr fv"
    and "j_kfv (env_serde env) \<lparr>kfv_key = s_ha_scope_id (self s), kfv_operation = KSet, kfv_field_values = fv\<rparr> = Inr jk"
  shows "update_dpu_ha_scope_table env s = (s\<lparr>tables := outgoing_send (env_codec env) (tables s)
      (common_bridge_sp (tables s) ''DPU_APPL_DB'' ''DASH_HA_SCOPE_TABLE'')
      \<lparr>am_key = s_ha_scope_id (self s), am_data = jk\<rparr>\<rparr>, Ok ())"
proof -
  have "get_pending_operations env (tables s) None = Ok old"
    using assms(4,5) by (auto simp: get_pending_operations_def holds_npu_state_def table_defs)
  with assms(1-3,6,7) show ?thesis
    by (simp add: update_dpu_ha_scope_table_def act_defs new_actor_message_def table_defs)
qed

section \<open>Approval of operations\<close>

lemma approved_types_iff: "ty \<in> set (approved_types ops approved) \<longleftrightarrow> (\<exists>i \<in> set approved. map_of ops i = Some ty)"
  by (auto simp: approved_types_def List.map_filter_def intro: rev_image_eqI)

lemma config_message_managed:
  assumes "read_msg (of_j_kfv (env_serde env)) key s = Ok k" "kfv_operation k = KSet"
    and "of_fv_ha_scope_config (env_serde env) (kfv_field_values k) = Inr cfg"
    and "s_config (self s) \<noteq> None" "vdpu_is_managed env s"
  shows "handle_dash_ha_scope_config_table_message env key s =
    act_seq (update_dpu_ha_scope_table env)
      (act_seq (update_npu_ha_scope_state_ha_state env)
        (let approved = unwrap_or [] (sc_approved_pending_operation_ids cfg)
         in if approved = [] then ret () else update_npu_ha_scope_state_pending_operations env [] approved))
      (s\<lparr>self := (self s)\<lparr>s_config := Some cfg\<rparr>\<rparr>)"
proof -
  have "vdpu_is_managed env (s\<lparr>self := (self s)\<lparr>s_config := Some cfg\<rparr>\<rparr>)"
    using assms(5) by (simp add: vdpu_is_managed_def scope_get_vdpu_def)
  with assms(1-4) show ?thesis
    by (auto simp: handle_dash_ha_scope_config_table_message_def act_seq_def act_bind_def [of "reads _"]
        act_bind_def [of "of_outcome _"] act_bind_def [of "update_self _"] act_bind_def [of "ret _"] reads_def
        with_state_def of_outcome_def update_self_def ret_def)
qed

text \<open>
  (C12) When a configuration of a managed scope approves operations, the DPU is told to activate its
  role exactly when an approved identifier is pending with type \<open>activate_role\<close>, and to reconcile
  flows exactly when one is pending with type \<open>flow_reconcile\<close>; after the same callback the published
  list of pending operations is the old one without the approved identifiers.
\<close>

theorem approved_operations_are_requested:
  assumes "read_msg (of_j_kfv (env_serde env)) ''DASH_HA_SCOPE_CONFIG_TABLE'' s = Ok k" "kfv_operation k = KSet"
    and "of_fv_ha_scope_config (env_serde env) (kfv_field_values k) = Inr cfg"
    and "s_config (self s) \<noteq> None" "vdpu_is_managed env s"
    and "sc_approved_pending_operation_ids cfg = Some approved" "approved \<noteq> []"
    and "holds_npu_state env (tables s) n" "operations_of n = Ok old"
    and "get_dpu_ha_scope_state env (tables s) = Some d"
    and "mset (hash_iter env (new_pending old [] approved)) = mset (new_pending old [] approved)"
    and "npu_roundtrip env (ha_state_of cfg d n)"
    and "npu_roundtrip env (with_operations env (new_pending old [] approved) (now_in_millis (tables s))
      (ha_state_of cfg d n))"
    and "fv_ha_scope_table (env_serde env) t = Inr fv"
    and "t = \<lparr>st_version = sc_version cfg, st_disable = sc_disable cfg, st_ha_role = sc_desired_ha_state cfg,
      st_flow_reconcile_requested = (\<exists>i \<in> set approved. map_of old i = Some ''flow_reconcile''),
      st_activate_role_requested = (\<exists>i \<in> set approved. map_of old i = Some ''activate_role'')\<rparr>"
    and "j_kfv (env_serde env) \<lparr>kfv_key = s_ha_scope_id (self s), kfv_operation = KSet, kfv_field_values = fv\<rparr> = Inr jk"
  shows "\<exists>s' n' ops'. ha_scope_handle_message env ''DASH_HA_SCOPE_CONFIG_TABLE'' s = (s', Ok ())
    \<and> queued_pairs (tables s') = queued_pairs (tables s)
        @ [(Some (common_bridge_sp (tables s) ''DPU_APPL_DB'' ''DASH_HA_SCOPE_TABLE''),
            \<lparr>am_key = s_ha_scope_id (self s), am_data = jk\<rparr>)]
    \<and> holds_npu_state env (tables s') n' \<and> operations_of n' = Ok ops'
    \<and> map_of ops' = map_of old |` (- set approved)"
proof -
  let ?s = "s\<lparr>self := (self s)\<lparr>s_config := Some cfg\<rparr>\<rparr>"
  let ?st = "outgoing_send (env_codec env) (tables s) (common_bridge_sp (tables s) ''DPU_APPL_DB'' ''DASH_HA_SCOPE_TABLE'')
      \<lparr>am_key = s_ha_scope_id (self s), am_data = jk\<rparr>"
  have t: "ha_scope_table_of cfg (approved_types old approved) = t"
    using assms(15) by (simp add: ha_scope_table_of_def approved_types_iff)
  have u1: "update_dpu_ha_scope_table env ?s = (?s\<lparr>tables := ?st\<rparr>, Ok ())"
    using update_dpu_table_approved [of ?s cfg approved env n old fv jk] assms(6-9,14,16) t by simp
  have n1: "holds_npu_state env ?st n"
    using assms(8) holds_npu_internal [of ?st "tables s"] by simp
  have "get_dpu_ha_scope_state env ?st = Some d"
    using assms(10) get_dpu_scope_incoming [of ?st "tables s"] by simp
  with update_ha_state_holds [of "?s\<lparr>tables := ?st\<rparr>" cfg env n d] n1 assms(12)
  obtain i where u2: "update_npu_ha_scope_state_ha_state env (?s\<lparr>tables := ?st\<rparr>)
      = (?s\<lparr>tables := ?st\<lparr>internal := i\<rparr>\<rparr>, Ok ())"
    and n2: "holds_npu_state env (?st\<lparr>internal := i\<rparr>) (ha_state_of cfg d n)"
    by auto
  obtain i' n' ops' where u3: "update_npu_ha_scope_state_pending_operations env [] approved (?s\<lparr>tables := ?st\<lparr>internal := i\<rparr>\<rparr>)
      = (?s\<lparr>tables := ?st\<lparr>internal := i'\<rparr>\<rparr>, Ok ())"
    and n3: "holds_npu_state env (?st\<lparr>internal := i'\<rparr>) n'" "operations_of n' = Ok ops'"
      "map_of ops' = map_of old |` (- set approved)"
    using update_pending_holds [of "?s\<lparr>tables := ?st\<lparr>internal := i\<rparr>\<rparr>" env "ha_state_of cfg d n" old "[]" approved]
      n2 assms(9,11,13) by (auto simp: now_in_millis_def)
  have "ha_scope_handle_message env ''DASH_HA_SCOPE_CONFIG_TABLE'' s = (?s\<lparr>tables := ?st\<lparr>internal := i'\<rparr>\<rparr>, Ok ())"
    using config_message_managed [OF assms(1-5)] assms(6,7) u1 u2 u3
    by (simp add: ha_scope_handle_message_def with_state_def table_defs log_error_def act_seq_def act_bind_def
        unwrap_or_def)
  moreover have "queued_pairs (?st\<lparr>internal := i'\<rparr>) = queued_pairs ?st" by (simp add: queued_pairs_def)
  ultimately show ?thesis using n3 by auto
qed

subsection \<open>A concrete scope\<close>

text \<open>One operation, \<open>op1\<close> of type \<open>activate_role\<close>, is pending and approved.\<close>

definition demo_approve :: dash_ha_scope_config where
  "demo_approve = demo_scope_config\<lparr>sc_approved_pending_operation_ids := Some [''op1'']\<rparr>"

definition demo_dpu_scope :: dpu_dash_ha_scope_state where
  "demo_dpu_scope = default_dpu_scope_state\<lparr>dss_activate_role_pending := True\<rparr>"

definition demo_npu :: npu_dash_ha_scope_state where
  "demo_npu = default_npu_scope_state\<lparr>ns_pending_operation_ids := Some [''op1''],
     ns_pending_operation_types := Some [''activate_role'']\<rparr>"

definition demo_npu1 :: npu_dash_ha_scope_state where
  "demo_npu1 = ha_state_of demo_approve demo_dpu_scope demo_npu"

definition demo_npu2 :: "npu_dash_ha_scope_state" where
  "demo_npu2 = with_operations demo_env [] 0 demo_npu1"

definition demo_npu3 :: "npu_dash_ha_scope_state" where
  "demo_npu3 = with_operations demo_env [(''op1'', ''activate_role''), (''0'', ''activate_role'')] 0 demo_npu1"

text \<open>A serializer that tells these values apart.\<close>

definition demo_scope_env :: hamgrd_env where
  "demo_scope_env = demo_env\<lparr>env_serde := demo_serde\<lparr>
     of_fv_ha_scope_config := \<lambda>f. Inr demo_approve,
     fv_npu_scope_state := \<lambda>n. Inr [(''v'', case ns_pending_operation_ids n of
         Some [x] \<Rightarrow> if ns_local_ha_state n = None then ''0'' else ''1'' | Some [] \<Rightarrow> ''2'' | _ \<Rightarrow> ''3'')],
     of_fv_npu_scope_state := \<lambda>f. Inr (if f = [(''v'', ''0'')] then demo_npu
       else if f = [(''v'', ''1'')] then demo_npu1 else if f = [(''v'', ''2'')] then demo_npu2 else demo_npu3)\<rparr>\<rparr>"

definition demo_scope_tables :: actor_state where
  "demo_scope_tables = (demo_tables [(''DASH_HA_SCOPE_CONFIG_TABLE'', JStr ''vdpu0:haset0''),
       (''VDPUStateUpdate|vdpu0'', JBool True), (''DASH_HA_SCOPE_STATE'', JStr ''x'')])
     \<lparr>internal := [(''DASH_HA_SCOPE_STATE'',
        new_internal_entry ''DASH_HA_SCOPE_STATE'' ''vdpu0|haset0'' (Some [(''v'', ''0'')]))]\<rparr>"

definition demo_scope_actor :: ha_scope_actor where
  "demo_scope_actor = \<lparr>s_id = ''vdpu0:haset0'', s_ha_scope_id = ''haset0'', s_vdpu_id = ''vdpu0'',
     s_config = Some demo_approve, s_bridges = [], s_dpu_state = None, s_uuids = 0\<rparr>"

definition demo_scope :: "ha_scope_actor hstate" where
  "demo_scope = \<lparr>self = demo_scope_actor, tables = demo_scope_tables, stop = False\<rparr>"

lemma demo_scope_simps:
  "self demo_scope = demo_scope_actor" "tables demo_scope = demo_scope_tables"
  "s_ha_scope_id demo_scope_actor = ''haset0''" "s_vdpu_id demo_scope_actor = ''vdpu0''"
  "s_config demo_scope_actor = Some demo_approve" "s_dpu_state demo_scope_actor = None" "s_uuids demo_scope_actor = 0"
  by (simp_all add: demo_scope_def demo_scope_actor_def)

lemma demo_scope_now: "now_in_millis demo_scope_tables = 0"
  by (simp add: now_in_millis_def demo_scope_tables_def demo_tables_def incoming_insert_def new_incoming_entry_def
      demo_state_def new_state_def alist_simps)

lemma demo_scope_serde:
  "of_fv_ha_scope_config (env_serde demo_scope_env) f = Inr demo_approve"
  "of_j_kfv (env_serde demo_scope_env) = of_j_kfv demo_serde" "j_kfv (env_serde demo_scope_env) = j_kfv demo_serde"
  "of_j_vdpu_actor_state (env_serde demo_scope_env) = of_j_vdpu_actor_state demo_serde"
  "of_fv_dpu_scope_state (env_serde demo_scope_env) = of_fv_dpu_scope_state demo_serde"
  "fv_ha_scope_table (env_serde demo_scope_env) = fv_ha_scope_table demo_serde"
  "hash_iter demo_scope_env ops = ops" "hash_iter demo_env ops = ops" "uuid_v4 demo_scope_env = show_nat"
  by (simp_all add: demo_scope_env_def demo_env_def)

lemma demo_npu_operations:
  "operations_of demo_npu = Ok [(''op1'', ''activate_role'')]"
  "new_pending [(''op1'', ''activate_role'')] [] [''op1''] = []"
  by (simp_all add: demo_npu_def operations_of_def collect_pairs_def new_pending_def)

lemma demo_npu_holds: "holds_npu_state demo_scope_env demo_scope_tables demo_npu"
  by (simp add: holds_npu_state_def internal_get_def demo_scope_tables_def new_internal_entry_def demo_scope_env_def
      Let_def)

lemma demo_npu_ids:
  "ns_pending_operation_ids demo_npu1 = Some [''op1'']" "ns_local_ha_state demo_npu1 = Some []"
  "ns_pending_operation_ids demo_npu2 = Some []" "ns_pending_operation_ids demo_npu3 = Some [''op1'', ''0'']"
  by (simp_all add: demo_npu1_def demo_npu2_def demo_npu3_def demo_npu_def ha_state_of_def with_operations_def
      demo_dpu_scope_def default_dpu_scope_state_def demo_scope_serde)

lemma demo_npu_roundtrips:
  "npu_roundtrip demo_scope_env demo_npu1" "npu_roundtrip demo_scope_env demo_npu2" "npu_roundtrip demo_scope_env demo_npu3"
  by (simp_all add: npu_roundtrip_def demo_scope_env_def demo_npu_ids)

lemma demo_scope_incoming:
  "incoming_get demo_scope_tables ''DASH_HA_SCOPE_CONFIG_TABLE''
     = Ok \<lparr>am_key = ''DASH_HA_SCOPE_CONFIG_TABLE'', am_data = JStr ''vdpu0:haset0''\<rparr>"
  "incoming_get demo_scope_tables ''VDPUStateUpdate|vdpu0''
     = Ok \<lparr>am_key = ''VDPUStateUpdate|vdpu0'', am_data = JBool True\<rparr>"
  "incoming_get demo_scope_tables ''DASH_HA_SCOPE_STATE'' = Ok \<lparr>am_key = ''DASH_HA_SCOPE_STATE'', am_data = JStr ''x''\<rparr>"
  by (simp_all add: demo_scope_tables_def demo_act_defs)

lemma demo_scope_reads:
  "read_msg (of_j_kfv (env_serde demo_scope_env)) ''DASH_HA_SCOPE_CONFIG_TABLE'' demo_scope
     = Ok \<lparr>kfv_key = ''vdpu0:haset0'', kfv_operation = KSet, kfv_field_values = []\<rparr>"
  "get_dpu_ha_scope_state demo_scope_env demo_scope_tables = Some demo_dpu_scope"
  "vdpu_is_managed demo_scope_env demo_scope"
  by (simp_all add: read_msg_def demo_scope_simps demo_scope_incoming vdpu_is_managed_def scope_get_vdpu_def
      vdpu_msg_key_def get_dpu_ha_scope_state_def table_defs demo_scope_serde demo_dpu_scope_def demo_serde_def
      deserialize_data_def)

theorem approved_operations_are_requested_witness:
  "\<exists>s' n' ops'. ha_scope_handle_message demo_scope_env ''DASH_HA_SCOPE_CONFIG_TABLE'' demo_scope = (s', Ok ())
    \<and> queued_pairs (tables s') = queued_pairs demo_scope_tables
        @ [(Some (common_bridge_sp demo_scope_tables ''DPU_APPL_DB'' ''DASH_HA_SCOPE_TABLE''),
            \<lparr>am_key = ''haset0'', am_data = JStr ''haset0''\<rparr>)]
    \<and> holds_npu_state demo_scope_env (tables s') n' \<and> operations_of n' = Ok ops' \<and> map_of ops' = Map.empty"
proof -
  have e: "sc_approved_pending_operation_ids demo_approve = Some [''op1'']"
    by (simp add: demo_approve_def)
  have n: "ha_state_of demo_approve demo_dpu_scope demo_npu = demo_npu1"
      "with_operations demo_scope_env [] 0 demo_npu1 = demo_npu2"
    by (simp_all add: demo_npu1_def demo_npu2_def with_operations_def demo_scope_serde)
  have enc: "\<exists>fv. fv_ha_scope_table demo_serde t = Inr fv" "j_kfv demo_serde kf = Inr (JStr (kfv_key kf))" for t kf
    by (simp_all add: demo_serde_def)
  from enc(1) obtain fv where "fv_ha_scope_table demo_serde \<lparr>st_version = sc_version demo_approve,
      st_disable = sc_disable demo_approve, st_ha_role = sc_desired_ha_state demo_approve,
      st_flow_reconcile_requested = (\<exists>i \<in> set [''op1'']. map_of [(''op1'', ''activate_role'')] i = Some ''flow_reconcile''),
      st_activate_role_requested = (\<exists>i \<in> set [''op1'']. map_of [(''op1'', ''activate_role'')] i = Some ''activate_role'')\<rparr>
    = Inr fv" by blast
  from approved_operations_are_requested [OF demo_scope_reads(1) _ demo_scope_serde(1) _ demo_scope_reads(3) e _
      demo_npu_holds [folded demo_scope_simps(2)] demo_npu_operations(1)
      demo_scope_reads(2) [folded demo_scope_simps(2)] _ _ _ this [folded demo_scope_serde(6)] refl]
  show ?thesis
    by (simp add: demo_scope_simps demo_scope_serde demo_npu_operations n demo_scope_now demo_npu_roundtrips enc
        del: mset.simps)
qed

section \<open>Requests of the DPU\<close>

lemma new_pending_none [simp]: "new_pending ops [] [] = ops"
  by (simp add: new_pending_def)

lemma with_uuids_Nil [simp]: "with_uuids env n types = [] \<longleftrightarrow> types = []"
  by (cases types) (simp_all add: with_uuids_def)

lemma restrict_UNIV [simp]: "m |` UNIV = m"
  by (simp add: restrict_map_def)

lemma dpu_state_update_holds:
  assumes "s_config (self s) = Some cfg" "get_dpu_ha_scope_state env (tables s) = Some d"
    and "types = requested_types d (unwrap_or default_dpu_scope_state (s_dpu_state (self s)))"
    and "new = with_uuids env (s_uuids (self s)) types"
    and "holds_npu_state env (tables s) n" "operations_of n = Ok old" "npu_roundtrip env (ha_state_of cfg d n)"
    and "mset (hash_iter env (new_pending old new [])) = mset (new_pending old new [])"
    and "npu_roundtrip env (with_operations env (new_pending old new []) (now_in_millis (tables s)) (ha_state_of cfg d n))"
  shows "\<exists>i n' ops'. handle_dpu_ha_scope_state_update env s
      = (s\<lparr>self := (self s)\<lparr>s_dpu_state := Some d, s_uuids := s_uuids (self s) + length types\<rparr>,
           tables := (tables s)\<lparr>internal := i\<rparr>\<rparr>, Ok ())
    \<and> holds_npu_state env ((tables s)\<lparr>internal := i\<rparr>) n' \<and> operations_of n' = Ok ops'
    \<and> map_of ops' = map_of old ++ map_of (rev new)"
proof -
  let ?s = "s\<lparr>self := (self s)\<lparr>s_dpu_state := Some d, s_uuids := s_uuids (self s) + length types\<rparr>\<rparr>"
  obtain i where u: "update_npu_ha_scope_state_ha_state env ?s = (?s\<lparr>tables := (tables s)\<lparr>internal := i\<rparr>\<rparr>, Ok ())"
    and h: "holds_npu_state env ((tables s)\<lparr>internal := i\<rparr>) (ha_state_of cfg d n)"
    using update_ha_state_holds [of ?s cfg env n d] assms(1,2,5,7) by auto
  have e: "handle_dpu_ha_scope_state_update env s =
      (if types = [] then (?s\<lparr>tables := (tables s)\<lparr>internal := i\<rparr>\<rparr>, Ok ())
       else update_npu_ha_scope_state_pending_operations env new [] (?s\<lparr>tables := (tables s)\<lparr>internal := i\<rparr>\<rparr>))"
    using assms(2-4) u
    by (simp add: handle_dpu_ha_scope_state_update_def with_state_def Let_def act_seq_def act_bind_def update_self_def
        ret_def)
  have p: "\<exists>i' n' ops'. update_npu_ha_scope_state_pending_operations env new [] (?s\<lparr>tables := (tables s)\<lparr>internal := i\<rparr>\<rparr>)
      = (?s\<lparr>tables := (tables s)\<lparr>internal := i'\<rparr>\<rparr>, Ok ())
    \<and> holds_npu_state env ((tables s)\<lparr>internal := i'\<rparr>) n' \<and> operations_of n' = Ok ops'
    \<and> map_of ops' = map_of old ++ map_of (rev new)"
    using update_pending_holds [of "?s\<lparr>tables := (tables s)\<lparr>internal := i\<rparr>\<rparr>" env "ha_state_of cfg d n" old new "[]"]
      h assms(1,6,8,9) by (simp add: now_in_millis_def)
  show ?thesis
  proof (cases "types = []")
    case True
    with assms(4) have "new = []" by simp
    with True e h assms(6) show ?thesis
      by (intro exI [of _ i] exI [of _ "ha_state_of cfg d n"] exI [of _ old]) simp
  next
    case False
    with e p show ?thesis by auto
  qed
qed

lemma scope_state_message:
  assumes "starts_with key ''DASH_HA_SCOPE_STATE''" "s_config (self s) \<noteq> None"
  shows "ha_scope_handle_message env key s = handle_dpu_ha_scope_state_update env s"
proof -
  have "key \<noteq> ''DASH_HA_SCOPE_CONFIG_TABLE''" "\<not> is_vdpu_msg key" "\<not> is_ha_set_msg key"
    using assms(1) by (cases key; force simp: is_vdpu_msg_def is_ha_set_msg_def)+
  with assms show ?thesis by (auto simp: ha_scope_handle_message_def with_state_def table_defs)
qed

text \<open>
  (C13) A report of the DPU turns each of its three flags (activate role, brainsplit recover, flow reconcile) that is set and
  was not set in the report remembered from before into a pending operation: what was pending stays pending, each newly
  requested type is added under its own new UUID, nothing else is added, and the report is remembered. When none is
  remembered, as after a restart, every set flag is requested, even if an operation of its type is still pending in the
  table. The state row is there, is read back as it was written, and the new UUIDs are not in use.
\<close>

theorem dpu_requests_become_pending:
  assumes "starts_with key ''DASH_HA_SCOPE_STATE''" "s_config (self s) = Some cfg"
    and "get_dpu_ha_scope_state env (tables s) = Some d"
    and "\<And>flag. was flag = (case s_dpu_state (self s) of None \<Rightarrow> False | Some before \<Rightarrow> flag before)"
    and "types = (if dss_activate_role_pending d \<and> \<not> was dss_activate_role_pending then [''activate_role''] else [])
      @ (if dss_brainsplit_recover_pending d \<and> \<not> was dss_brainsplit_recover_pending then [''brainsplit_recover''] else [])
      @ (if dss_flow_reconcile_pending d \<and> \<not> was dss_flow_reconcile_pending then [''flow_reconcile''] else [])"
    and "new = map (\<lambda>j. (uuid_v4 env (s_uuids (self s) + j), types ! j)) [0..<length types]"
    and "holds_npu_state env (tables s) n" "operations_of n = Ok old" "npu_roundtrip env (ha_state_of cfg d n)"
    and "mset (hash_iter env (new_pending old new [])) = mset (new_pending old new [])"
    and "npu_roundtrip env (with_operations env (new_pending old new []) (now_in_millis (tables s)) (ha_state_of cfg d n))"
    and "inj (uuid_v4 env)" "\<forall>j. map_of old (uuid_v4 env j) = None"
  shows "\<exists>s' n' ops'. ha_scope_handle_message env key s = (s', Ok ())
    \<and> holds_npu_state env (tables s') n' \<and> operations_of n' = Ok ops'
    \<and> map_of old \<subseteq>\<^sub>m map_of ops'
    \<and> (\<forall>j < length types. map_of ops' (uuid_v4 env (s_uuids (self s) + j)) = Some (types ! j))
    \<and> card (dom (map_of ops')) = card (dom (map_of old)) + length types
    \<and> s_dpu_state (self s') = Some d"
proof -
  have types: "types = requested_types d (unwrap_or default_dpu_scope_state (s_dpu_state (self s)))"
    unfolding assms(5) requested_types_def
    by (cases "s_dpu_state (self s)") (simp_all add: assms(4) unwrap_or_def default_dpu_scope_state_def)
  have new: "new = with_uuids env (s_uuids (self s)) types"
    using assms(6) by (auto simp: with_uuids_def enumerate_eq_zip intro!: nth_equalityI)
  obtain i n' ops' where r: "handle_dpu_ha_scope_state_update env s
      = (s\<lparr>self := (self s)\<lparr>s_dpu_state := Some d, s_uuids := s_uuids (self s) + length types\<rparr>,
           tables := (tables s)\<lparr>internal := i\<rparr>\<rparr>, Ok ())"
      "holds_npu_state env ((tables s)\<lparr>internal := i\<rparr>) n'" "operations_of n' = Ok ops'"
      and m: "map_of ops' = map_of old ++ map_of (rev new)"
    using dpu_state_update_holds [OF assms(2,3) types new assms(7-11)] by blast
  have k: "map fst new = map (\<lambda>j. uuid_v4 env (s_uuids (self s) + j)) [0..<length types]"
    using assms(6) by simp
  have d: "distinct (map fst new)"
    unfolding k by (simp add: distinct_map inj_on_def inj_eq [OF assms(12)])
  have dn: "dom (map_of (rev new)) = fst ` set new" by (simp add: dom_map_of_conv_image_fst)
  have disj: "fst ` set new \<inter> dom (map_of old) = {}"
    using assms(13) k by (auto simp: assms(6))
  have le: "map_of old \<subseteq>\<^sub>m map_of ops'"
    unfolding m map_le_def using disj dn
    by (metis (no_types, lifting) disjoint_iff map_add_dom_app_simps(3))
  have "dom (map_of ops') = fst ` set new \<union> dom (map_of old)"
    by (auto simp: m dn)
  moreover have "card (fst ` set new) = length types"
    using distinct_card [OF d] by (simp add: assms(6) image_image)
  ultimately have c: "card (dom (map_of ops')) = card (dom (map_of old)) + length types"
    using disj by (simp add: card_Un_disjoint finite_dom_map_of)
  have at: "map_of ops' (uuid_v4 env (s_uuids (self s) + j)) = Some (types ! j)" if "j < length types" for j
  proof -
    have "(uuid_v4 env (s_uuids (self s) + j), types ! j) \<in> set (rev new)"
      using that by (auto simp: assms(6))
    with d have "map_of (rev new) (uuid_v4 env (s_uuids (self s) + j)) = Some (types ! j)"
      by (intro map_of_is_SomeI) (simp_all add: rev_map [symmetric])
    then show ?thesis by (simp add: m)
  qed
  from r le c at scope_state_message [OF assms(1), of s env] assms(2) show ?thesis
    by (intro exI [of _ "s\<lparr>self := (self s)\<lparr>s_dpu_state := Some d, s_uuids := s_uuids (self s) + length types\<rparr>,
           tables := (tables s)\<lparr>internal := i\<rparr>\<rparr>"] exI [of _ n'] exI [of _ ops'])
      simp
qed

lemma demo_uuids: "inj show_nat" "show_nat j \<noteq> ''op1''" "show_nat 0 = ''0''"
proof -
  show "inj show_nat" by (rule inj_on_inverseI [of _ "\<lambda>t. the (read_digits 0 t)"]) (simp add: read_digits_show_nat)
  show "show_nat j \<noteq> ''op1''"
  proof
    assume "show_nat j = ''op1''"
    with read_digits_show_nat [of j] show False by (simp add: char_digit_def)
  qed
  show "show_nat 0 = ''0''" by (subst show_nat.simps) code_simp
qed

theorem dpu_requests_become_pending_witness:
  "\<exists>s' n' ops'. ha_scope_handle_message demo_scope_env ''DASH_HA_SCOPE_STATE'' demo_scope = (s', Ok ())
    \<and> holds_npu_state demo_scope_env (tables s') n' \<and> operations_of n' = Ok ops'
    \<and> map_of ops' ''op1'' = Some ''activate_role'' \<and> map_of ops' ''0'' = Some ''activate_role''
    \<and> card (dom (map_of ops')) = 2"
proof -
  let ?new = "[(''0'', ''activate_role'')]"
  let ?was = "\<lambda>flag. case s_dpu_state (self demo_scope) of None \<Rightarrow> False | Some before \<Rightarrow> flag before"
  have t: "(if dss_activate_role_pending demo_dpu_scope \<and> \<not> ?was dss_activate_role_pending then [''activate_role''] else [])
      @ (if dss_brainsplit_recover_pending demo_dpu_scope \<and> \<not> ?was dss_brainsplit_recover_pending then [''brainsplit_recover''] else [])
      @ (if dss_flow_reconcile_pending demo_dpu_scope \<and> \<not> ?was dss_flow_reconcile_pending then [''flow_reconcile''] else [])
      = [''activate_role'']"
    by (simp add: demo_scope_simps demo_dpu_scope_def default_dpu_scope_state_def)
  have p: "new_pending [(''op1'', ''activate_role'')] ?new [] = [(''op1'', ''activate_role''), (''0'', ''activate_role'')]"
    by (simp add: new_pending_def)
  have n: "ha_state_of demo_approve demo_dpu_scope demo_npu = demo_npu1"
      "with_operations demo_scope_env [(''op1'', ''activate_role''), (''0'', ''activate_role'')] 0 demo_npu1 = demo_npu3"
    by (simp_all add: demo_npu1_def demo_npu3_def with_operations_def demo_scope_serde)
  have u: "map (\<lambda>j. (uuid_v4 demo_scope_env (s_uuids (self demo_scope) + j), [''activate_role''] ! j))
      [0..<length [''activate_role'']] = ?new"
    by (simp add: demo_scope_simps demo_scope_serde demo_uuids)
  have "\<exists>s' n' ops'. ha_scope_handle_message demo_scope_env ''DASH_HA_SCOPE_STATE'' demo_scope = (s', Ok ())
    \<and> holds_npu_state demo_scope_env (tables s') n' \<and> operations_of n' = Ok ops'
    \<and> map_of [(''op1'', ''activate_role'')] \<subseteq>\<^sub>m map_of ops'
    \<and> (\<forall>j < length [''activate_role'']. map_of ops' (uuid_v4 demo_scope_env (s_uuids (self demo_scope) + j))
         = Some ([''activate_role''] ! j))
    \<and> card (dom (map_of ops')) = card (dom (map_of [(''op1'', ''activate_role'')])) + length [''activate_role'']
    \<and> s_dpu_state (self s') = Some demo_dpu_scope"
    by (rule dpu_requests_become_pending [where cfg = demo_approve and n = demo_npu and new = ?new, OF _ _ _ refl t [symmetric] u [symmetric]])
      (simp_all add: demo_scope_simps demo_scope_reads demo_npu_holds demo_npu_operations n demo_npu_roundtrips p
        demo_scope_now demo_scope_serde demo_uuids)
  then obtain s' n' ops' where r: "ha_scope_handle_message demo_scope_env ''DASH_HA_SCOPE_STATE'' demo_scope = (s', Ok ())"
      "holds_npu_state demo_scope_env (tables s') n'" "operations_of n' = Ok ops'"
      "map_of [(''op1'', ''activate_role'')] \<subseteq>\<^sub>m map_of ops'" "map_of ops' (show_nat 0) = Some ''activate_role''"
      "card (dom (map_of ops')) = 2"
    by (auto simp: demo_scope_simps demo_scope_serde)
  from r(4) have "map_of ops' ''op1'' = Some ''activate_role''" by (simp add: map_le_def)
  with r(1,2,3,5,6) show ?thesis unfolding demo_uuids by blast
qed

section \<open>A missing state entry\<close>

text \<open>
  If the table for the published state cannot be opened when the report of the managed vDPU
  arrives, the callback fails and leaves everything as it was; the report stays in the incoming table,
  and the next configuration of the scope then panics the actor, because the state entry is read
  without having been added.
\<close>

theorem unopened_state_table_panics:
  assumes "s_config (self s) \<noteq> None" "vdpu_is_managed env s"
    and "map_of (internal (tables s)) ''DASH_HA_SCOPE_STATE'' = None"
    and "open_table env npu_dash_ha_scope_state_tbl = Some e" "is_vdpu_msg key"
    and "read_msg (of_j_kfv (env_serde env)) ''DASH_HA_SCOPE_CONFIG_TABLE'' s = Ok k" "kfv_operation k = KSet"
    and "of_fv_ha_scope_config (env_serde env) (kfv_field_values k) = Inr cfg"
    and "fv_ha_scope_table (env_serde env) (ha_scope_table_of cfg []) = Inr fv"
    and "j_kfv (env_serde env) \<lparr>kfv_key = s_ha_scope_id (self s), kfv_operation = KSet, kfv_field_values = fv\<rparr> = Inr jk"
  shows "ha_scope_handle_message env key s = (s, Err e)
    \<and> snd (ha_scope_handle_message env ''DASH_HA_SCOPE_CONFIG_TABLE'' s) = Panic"
proof
  obtain v where v: "scope_get_vdpu env s = Some v" "da_is_managed (va_dpu v)"
    using assms(2) by (auto simp: vdpu_is_managed_def split: option.splits)
  have "key \<noteq> ''DASH_HA_SCOPE_CONFIG_TABLE''" using assms(5) by (auto simp: is_vdpu_msg_def)
  with assms(1,3-5) v show "ha_scope_handle_message env key s = (s, Err e)"
    by (auto simp: ha_scope_handle_message_def scope_handle_vdpu_state_update_def table_defs act_defs has_entry_def
        Let_def)
next
  let ?s = "s\<lparr>self := (self s)\<lparr>s_config := Some cfg\<rparr>\<rparr>"
  have m: "vdpu_is_managed env ?s" using assms(2) by (simp add: vdpu_is_managed_def scope_get_vdpu_def)
  have "snd (update_dpu_ha_scope_table env ?s) = Panic
      \<or> (\<exists>st. update_dpu_ha_scope_table env ?s = (?s\<lparr>tables := st\<rparr>, Ok ()) \<and> internal st = internal (tables s))"
    using assms(3,9,10)
    by (auto simp: update_dpu_ha_scope_table_def act_defs get_pending_operations_def internal_get_def table_defs
        new_actor_message_def split: option.splits)
  moreover have "snd (update_npu_ha_scope_state_ha_state env (?s\<lparr>tables := st\<rparr>)) = Panic"
    if "internal st = internal (tables s)" for st
    using that assms(3)
    by (simp add: update_npu_ha_scope_state_ha_state_def act_defs get_npu_ha_scope_state_def internal_get_def table_defs)
  ultimately have "snd (act_seq (update_dpu_ha_scope_table env) (act_seq (update_npu_ha_scope_state_ha_state env) m') ?s)
      = Panic" for m' :: "unit ha_scope_act"
    by (auto simp: act_seq_def act_bind_def split: prod.splits exec.splits) (metis exec.distinct snd_conv)+
  with config_message_managed [OF assms(6-8,1,2)]
  have "snd (handle_dash_ha_scope_config_table_message env ''DASH_HA_SCOPE_CONFIG_TABLE'' s) = Panic" by simp
  then show "snd (ha_scope_handle_message env ''DASH_HA_SCOPE_CONFIG_TABLE'' s) = Panic"
    by (auto simp: ha_scope_handle_message_def with_state_def table_defs log_error_def split: prod.splits exec.splits)
qed

definition demo_closed_env :: hamgrd_env where
  "demo_closed_env = demo_scope_env\<lparr>open_table := \<lambda>t. Some ''no database''\<rparr>"

definition demo_bare_scope :: "ha_scope_actor hstate" where
  "demo_bare_scope = demo_scope\<lparr>tables := demo_scope_tables\<lparr>internal := []\<rparr>\<rparr>"

theorem unopened_state_table_panics_witness:
  "ha_scope_handle_message demo_closed_env ''VDPUStateUpdate|vdpu0'' demo_bare_scope
     = (demo_bare_scope, Err ''no database'')
   \<and> snd (ha_scope_handle_message demo_closed_env ''DASH_HA_SCOPE_CONFIG_TABLE'' demo_bare_scope) = Panic"
proof -
  have sd: "env_serde demo_closed_env = env_serde demo_scope_env" by (simp add: demo_closed_env_def)
  have sf: "self demo_bare_scope = demo_scope_actor" by (simp add: demo_bare_scope_def demo_scope_def)
  have inc: "incoming_get (tables demo_bare_scope) key = incoming_get demo_scope_tables key" for key
    by (simp add: demo_bare_scope_def incoming_get_def get_entry_def)
  have 1: "vdpu_is_managed demo_closed_env demo_bare_scope"
    using demo_scope_reads(3) unfolding vdpu_is_managed_def scope_get_vdpu_def inc sf sd demo_scope_simps .
  have 2: "read_msg (of_j_kfv (env_serde demo_closed_env)) ''DASH_HA_SCOPE_CONFIG_TABLE'' demo_bare_scope
      = Ok \<lparr>kfv_key = ''vdpu0:haset0'', kfv_operation = KSet, kfv_field_values = []\<rparr>"
    using demo_scope_reads(1) by (simp add: read_msg_def inc sd demo_scope_simps)
  have 3: "map_of (internal (tables demo_bare_scope)) ''DASH_HA_SCOPE_STATE'' = None"
    by (simp add: demo_bare_scope_def)
  have 4: "open_table demo_closed_env npu_dash_ha_scope_state_tbl = Some ''no database''"
    by (simp add: demo_closed_env_def)
  have 5: "fv_ha_scope_table (env_serde demo_closed_env) t = Inr [(''ha_role'', st_ha_role t)]"
    "j_kfv (env_serde demo_closed_env) kf = Inr (JStr (kfv_key kf))" for t kf
    by (simp_all add: sd demo_scope_serde demo_serde_def)
  have 6: "of_fv_ha_scope_config (env_serde demo_closed_env) f = Inr demo_approve" for f
    by (simp add: sd demo_scope_serde)
  show ?thesis
    by (rule unopened_state_table_panics [OF _ 1 3 4 _ 2 _ 6 5(1) 5(2)])
      (simp_all add: sf demo_scope_simps is_vdpu_msg_def)
qed

end
