(* ===== verification/Hamgrd_Creator.thy ===== *)
theory Hamgrd_Creator
  imports Hamgrd_HaScope
begin

text \<open>
  The actor creator (\<open>actors.rs\<close>): a private handler at \<open>sp(<actor name>, "")\<close> that receives the
  messages to actors that do not exist, creates the actor on the first table update from the common
  bridge, and puts the message on the bus again.
\<close>

section \<open>Spawning an actor\<close>

text \<open>
  \<open>ActorRuntime::spawn\<close>: a public client at the actor's path; \<open>hdl\<close> names its new channel, \<open>t\<close> is the
  time its message ids start from. The driver task itself is the model of \<open>Swbus_Actor\<close>.
\<close>

definition spawn_actor :: "edge \<Rightarrow> string \<Rightarrow> string \<Rightarrow> u64 \<Rightarrow> nat \<Rightarrow> edge \<times> simple_client" where
  "spawn_actor e rt ri t hdl = new_simple_client e (new_sp e rt ri) True False t hdl"

section \<open>The creator\<close>

record 'a creator =
  cr_sp :: service_path
  cr_handler :: nat
  cr_create :: "string \<Rightarrow> 'a outcome"
  cr_id_generator :: message_id_generator

definition new_creator ::
    "edge \<Rightarrow> service_path \<Rightarrow> bool \<Rightarrow> (string \<Rightarrow> 'a outcome) \<Rightarrow> u64 \<Rightarrow> nat \<Rightarrow> edge \<times> 'a creator" where
  "new_creator e sp public create t hdl =
     (let e1 = e\<lparr>handler_chans := (handler_chans e)(hdl \<mapsto> new_chan 10)\<rparr>
      in (if public then add_handler e1 sp hdl else add_private_handler e1 sp hdl,
          \<lparr>cr_sp = sp, cr_handler = hdl, cr_create = create, cr_id_generator = new_id_generator t\<rparr>))"

text \<open>
  \<open>handle_received_message\<close>; \<open>Ok (Some \<dots>)\<close> is the call of \<open>spawn\<close>.
\<close>

definition creator_handle_received_message ::
    "hamgrd_env \<Rightarrow> 'a creator \<Rightarrow> swbus_message \<Rightarrow> (string \<times> string \<times> 'a) option result" where
  "creator_handle_received_message env c m =
     (case header m of
        None \<Rightarrow> Panic
      | Some h \<Rightarrow>
          (case (source h, destination h) of
             (Some src, Some dst) \<Rightarrow>
               if resource_type src \<noteq> ''swss-common-bridge''
               then err_of (mk_route NoRoute (Text ''actor doesn't exist: not from common-bridge''))
               else (case body m of
                   Some (DataRequest payload) \<Rightarrow>
                     (case deserialize (env_codec env) payload of
                        Inl _ \<Rightarrow> err_of (mk_input InvalidPayload (Text ''cannot decode as ActorMessage''))
                      | Inr am \<Rightarrow>
                          (case of_j_kfv (env_serde env) (am_data am) of
                             Inl _ \<Rightarrow> err_of (mk_input InvalidPayload (Text ''cannot decode as ActorMessage''))
                           | Inr k \<Rightarrow>
                               if kfv_operation k = KDel
                               then err_of (mk_input NoRoute
                                 (Text ''actor doesn't exist: won't create actor for DEL kfv''))
                               else (case cr_create c (kfv_key k) of
                                   Ok a \<Rightarrow> Ok (Some (resource_type dst, resource_id dst, a))
                                 | Err e \<Rightarrow> err_of (mk_input Fail (Text (''Failed to create actor ''
                                     @ sp_display (to_swbusd_service_path ((cr_sp c)\<lparr>resource_id := kfv_key k\<rparr>))
                                     @ ''. Error: '' @ e)))
                                 | Panic \<Rightarrow> Panic)))
                 | _ \<Rightarrow> Ok None)
           | _ \<Rightarrow> Panic))"

fun detail_text :: "detail \<Rightarrow> string" where
  "detail_text (Text s) = s"
| "detail_text (SendText Full) = ''no available capacity''"
| "detail_text (SendText Closed) = ''channel closed''"

fun error_parts :: "swbus_error \<Rightarrow> swbus_error_code \<times> string" where
  "error_parts (ConnectionError code d) = (code, detail_text d)"
| "error_parts (InputError code d) = (code, detail_text d)"
| "error_parts (RouteError code d) = (code, detail_text d)"
| "error_parts (InternalError code d) = (code, detail_text d)"

text \<open>
  One turn of \<open>run\<close>, for the message \<open>m\<close> taken from the creator's queue. \<open>None\<close> means that the send
  waits for room; a panic ends the creator's task. An error of the send is only logged.
\<close>

definition creator_step ::
    "hamgrd_env \<Rightarrow> u64 \<Rightarrow> nat \<Rightarrow> 'a creator \<Rightarrow> edge \<Rightarrow> swbus_message
       \<Rightarrow> ('a creator \<times> edge \<times> (simple_client \<times> 'a) option) outcome option" where
  "creator_step env t hdl c e m =
     (case creator_handle_received_message env c m of
        Panic \<Rightarrow> Some Panic
      | Err err \<Rightarrow>
          (let (i, g) = generate (cr_id_generator c)
           in case new_response m (Some (cr_sp c)) (fst (error_parts err)) (snd (error_parts err)) i None of
                Ok resp \<Rightarrow> map_option (\<lambda>(e1, _). Ok (c\<lparr>cr_id_generator := g\<rparr>, e1, None)) (edge_send e resp)
              | _ \<Rightarrow> Some Panic)
      | Ok None \<Rightarrow> map_option (\<lambda>(e1, _). Ok (c, e1, None)) (edge_send e m)
      | Ok (Some (rt, ri, a)) \<Rightarrow>
          (let (e1, cl) = spawn_actor e rt ri t hdl
           in map_option (\<lambda>(e2, _). Ok (c, e2, Some (cl, a))) (edge_send e1 m)))"

section \<open>What the creator does\<close>

lemma creator_handles_set:
  assumes "header m = Some h" "source h = Some src" "destination h = Some dst"
    and "resource_type src = ''swss-common-bridge''" "body m = Some (DataRequest payload)"
    and "deserialize (env_codec env) payload = Inr am" "of_j_kfv (env_serde env) (am_data am) = Inr k"
  shows "creator_handle_received_message env c m =
    (if kfv_operation k = KDel then Panic
     else case cr_create c (kfv_key k) of
         Ok a \<Rightarrow> Ok (Some (resource_type dst, resource_id dst, a)) | _ \<Rightarrow> Panic)"
  using assms
  by (simp add: creator_handle_received_message_def err_of_def mk_input_def split: exec.splits)

text \<open>
  The first update of a key creates its actor and reaches it: for a SET update from the common
  bridge to a path of this runtime, the creator builds the actor from the key, registers a public
  client at the destination and puts the update back on the bus, and the router's next turn queues it
  for exactly the new actor.
\<close>

theorem first_update_reaches_new_actor:
  assumes "header m = Some h" "source h = Some src" "destination h = Some dst"
    and "resource_type src = ''swss-common-bridge''" "body m = Some (DataRequest payload)"
    and "deserialize (env_codec env) payload = Inr am" "of_j_kfv (env_serde env) (am_data am) = Inr k"
    and "kfv_operation k = KSet" "cr_create c (kfv_key k) = Ok a" "dst = new_sp e rt ri"
    and "queue (local_msgs e) = []" "rx_open (local_msgs e)" "0 < cap (local_msgs e)"
  shows "\<exists>e1 e2 cl ch. creator_step env t hdl c e m = Some (Ok (c, e1, Some (cl, a)))
    \<and> sc_source cl = dst \<and> sc_handler cl = hdl
    \<and> route_next_local e1 = Some e2 \<and> handler_chans e2 hdl = Some ch \<and> queue ch = [m]"
proof -
  have sp: "new_sp e (resource_type dst) (resource_id dst) = dst"
    by (simp add: assms(10) new_sp_def)
  obtain e0 cl where n: "new_simple_client e dst True False t hdl = (e0, cl)" by (metis surj_pair)
  then have "local_msgs e0 = local_msgs e" "sc_source cl = dst" "sc_handler cl = hdl"
    by (auto simp: new_simple_client_def Let_def add_handler_def)
  with routed_to_new_client [OF assms(1,3) n] assms(11-13)
  obtain e1 e2 ch where r: "edge_send e0 m = Some (e1, Ok ())" "route_next_local e1 = Some e2"
      "handler_chans e2 hdl = Some ch" "queue ch = [m]" by auto
  have "creator_step env t hdl c e m = Some (Ok (c, e1, Some (cl, a)))"
    using creator_handles_set [OF assms(1-7), of c] assms(8,9) n r(1)
    by (simp add: creator_step_def spawn_actor_def sp)
  with r \<open>sc_source cl = dst\<close> \<open>sc_handler cl = hdl\<close> show ?thesis by blast
qed

text \<open>
  The creator does not survive an update it has to refuse: for a deletion of an actor that does
  not exist, and for a key from which no actor can be built, the error is made with a code outside the
  class's range, the contract of its constructor fails, and the creator's task panics, so that no
  actor of its kind is created any more.
\<close>

theorem refused_update_panics_creator:
  assumes "header m = Some h" "source h = Some src" "destination h = Some dst"
    and "resource_type src = ''swss-common-bridge''" "body m = Some (DataRequest payload)"
    and "deserialize (env_codec env) payload = Inr am" "of_j_kfv (env_serde env) (am_data am) = Inr k"
    and "kfv_operation k = KDel \<or> cr_create c (kfv_key k) = Err err"
  shows "creator_step env t hdl c e m = Some Panic"
  using creator_handles_set [OF assms(1-7), of c] assms(8) by (auto simp: creator_step_def)

text \<open>
  A key that was deleted cannot come back: the route of a stopped actor stays in the router with
  its closed channel, so a later update of the key is taken for delivered, reaches neither an actor nor
  the creator, and leaves the runtime exactly as it was.
\<close>

theorem update_of_stopped_actor_is_lost:
  assumes "header m = Some h" "destination h = Some dst"
    and "route_map_get (eroutes e) dst Private = Some hdl" "handler_chans e hdl = Some ch" "\<not> rx_open ch"
  shows "edge_route_message e m Private = Some e"
  using edge_route_message_eq [OF assms(1,2), of e Private] assms(3-5)
  by (simp add: resolve_def candidates_def proxy_send_def send_async_cases)

section \<open>A concrete creator\<close>

definition demo_bridge :: service_path where
  "demo_bridge = (demo_svc ''n1'' ''hamgrd'')\<lparr>resource_type := ''swss-common-bridge'', resource_id := ''CONFIG_DB|DPU''\<rparr>"

definition demo_update :: swbus_message where
  "demo_update = new_message (new_header demo_bridge
     ((demo_svc ''n1'' ''hamgrd'')\<lparr>resource_type := ''dpu'', resource_id := ''dpu0''\<rparr>) 7) (DataRequest [1])"

definition demo_creator :: "edge \<times> dpu_actor creator" where
  "demo_creator = (let e = new_edge (demo_svc ''n1'' ''hamgrd'')
     in new_creator e (new_sp e ''dpu'' []) False (\<lambda>key. Ok (new_dpu_actor key)) 0 1)"

lemma demo_update_simps:
  "header demo_update = Some (new_header demo_bridge
     ((demo_svc ''n1'' ''hamgrd'')\<lparr>resource_type := ''dpu'', resource_id := ''dpu0''\<rparr>) 7)"
  "body demo_update = Some (DataRequest [1])"
  "source (new_header a b i) = Some a" "destination (new_header a b i) = Some b"
  "resource_type demo_bridge = ''swss-common-bridge''"
  "deserialize (env_codec demo_codec_env) payload = Inr \<lparr>am_key = ''DPU'', am_data = JStr ''dpu0''\<rparr>"
  "of_j_kfv (env_serde demo_codec_env) (JStr ''dpu0'')
     = Inr \<lparr>kfv_key = ''dpu0'', kfv_operation = KSet, kfv_field_values = []\<rparr>"
  by (simp_all add: demo_update_def new_message_def new_header_def demo_bridge_def demo_codec_env_def demo_env_def
      demo_serde_def)

lemma demo_creator_simps:
  "cr_create (snd demo_creator) key = Ok (new_dpu_actor key)"
  "queue (local_msgs (fst demo_creator)) = []" "rx_open (local_msgs (fst demo_creator))"
  "0 < cap (local_msgs (fst demo_creator))"
  "new_sp (fst demo_creator) ''dpu'' ''dpu0'' = (demo_svc ''n1'' ''hamgrd'')\<lparr>resource_type := ''dpu'', resource_id := ''dpu0''\<rparr>"
  by (simp_all add: demo_creator_def new_creator_def Let_def add_private_handler_def new_edge_def new_chan_def
      swbus_recv_queue_size_def new_sp_def)

theorem first_update_reaches_new_actor_witness:
  "\<exists>e1 e2 cl ch. creator_step demo_codec_env 5 2 (snd demo_creator) (fst demo_creator) demo_update
      = Some (Ok (snd demo_creator, e1, Some (cl, new_dpu_actor ''dpu0'')))
    \<and> route_next_local e1 = Some e2 \<and> handler_chans e2 2 = Some ch \<and> queue ch = [demo_update]"
  using first_update_reaches_new_actor [OF demo_update_simps(1,3,4,5,2,6), unfolded actor_message.simps,
      OF demo_update_simps(7) _ _ demo_creator_simps(5) [symmetric] demo_creator_simps(2-4),
      of "snd demo_creator" "new_dpu_actor ''dpu0''" 5 2]
  by (auto simp: demo_creator_simps)

text \<open>The key of a scope without a colon.\<close>

theorem refused_update_panics_creator_witness:
  "creator_step demo_codec_env 5 2
     (snd (new_creator (fst demo_creator) (new_sp (fst demo_creator) ''ha-scope'' []) False new_ha_scope_actor 0 3))
     (fst demo_creator) demo_update = Some Panic"
  by (rule refused_update_panics_creator [OF demo_update_simps(1,3,4,5,2,6), unfolded actor_message.simps,
      OF demo_update_simps(7)])
    (simp add: new_creator_def Let_def new_ha_scope_actor_def)

definition demo_stopped :: edge where
  "demo_stopped = (let e = fst (spawn_actor (fst demo_creator) ''dpu'' ''dpu0'' 5 2)
     in e\<lparr>handler_chans := (handler_chans e)(2 \<mapsto> (new_chan 10000)\<lparr>rx_open := False\<rparr>)\<rparr>)"

theorem update_of_stopped_actor_is_lost_witness:
  "edge_route_message demo_stopped demo_update Private = Some demo_stopped"
proof (rule update_of_stopped_actor_is_lost [OF demo_update_simps(1,4)])
  show "route_map_get (eroutes demo_stopped)
      ((demo_svc ''n1'' ''hamgrd'')\<lparr>resource_type := ''dpu'', resource_id := ''dpu0''\<rparr>) Private = Some 2"
    by (simp add: demo_stopped_def spawn_actor_def new_simple_client_def add_handler_def Let_def demo_creator_simps
        rmap.get_ins_same)
  show "handler_chans demo_stopped 2 = Some ((new_chan 10000)\<lparr>rx_open := False\<rparr>)"
    by (simp add: demo_stopped_def Let_def)
qed simp

end
