(* ===== verification/Swss_Bridge.thy ===== *)
theory Swss_Bridge
  imports Hamgrd_Act
begin

text \<open>
  \<open>crates/swss-common-bridge\<close>: a consumer bridge turns the updates of a database table into
  requests to actors, a producer bridge turns requests into writes of a table. The database tables
  of \<open>swss_common\<close> are parameters; the bus is the edge runtime of \<open>Swbus_Edge\<close>.

  The consumer bridge is specified by a table that is updated one field at a time
  (\<open>apply_update\<close>): every message it sends carries the whole entry that the specification holds.
\<close>

section \<open>The cached table\<close>

type_synonym table_cache = "string \<rightharpoonup> field_values"

text \<open>\<open>HashMap::extend\<close>.\<close>

definition fv_extend :: "field_values \<Rightarrow> field_values \<Rightarrow> field_values" where
  "fv_extend old new = foldl (\<lambda>m (k, v). AList.update k v m) old new"

definition merge_kfv :: "table_cache \<Rightarrow> kfv \<Rightarrow> table_cache \<times> kfv" where
  "merge_kfv c k =
     (case kfv_operation k of
        KSet \<Rightarrow>
          (let fvs = fv_extend (case c (kfv_key k) of Some f \<Rightarrow> f | None \<Rightarrow> []) (kfv_field_values k)
           in (c(kfv_key k \<mapsto> fvs), \<lparr>kfv_key = kfv_key k, kfv_operation = KSet, kfv_field_values = fvs\<rparr>))
      | KDel \<Rightarrow> (c(kfv_key k := None), k))"

section \<open>The consumer bridge\<close>

text \<open>
  \<open>cb_pending\<close> are the updates of the last \<open>rehydrate\<close> or \<open>pops\<close> that the task has not sent yet.
  The key of a message and its destination come from \<open>dest\<close>, the filter is \<open>sel\<close>, which may panic.
\<close>

record consumer_bridge =
  cb_client :: simple_client
  cb_cache :: table_cache
  cb_pending :: "kfv list"

record bridge_cfg =
  bc_codec :: codec
  bc_serde :: serde
  bc_dest :: "kfv \<Rightarrow> service_path \<times> string"
  bc_selector :: "kfv \<Rightarrow> bool outcome"

text \<open>
  The tables that \<open>impl_consumertable\<close> lists, and whether they can be rehydrated. \<open>Table::new\<close>, \<open>get_keys\<close> and \<open>get\<close> of the
  database are parameters; each of their errors is a panic of the task (\<open>expect\<close>). A row that is gone between \<open>get_keys\<close> and
  \<open>get\<close> is read as an empty one.
\<close>

datatype consumer_kind = ConsumerStateTable | SubscriberStateTable | ZmqConsumerStateTable

fun can_rehydrate :: "consumer_kind \<Rightarrow> bool" where
  "can_rehydrate ConsumerStateTable = True"
| "can_rehydrate SubscriberStateTable = True"
| "can_rehydrate ZmqConsumerStateTable = False"

record db_table =
  dt_new :: "string option"
  dt_get_keys :: "(string, string list) exec"
  dt_get :: "string \<Rightarrow> (string, field_values option) exec"

fun rehydrate_rows :: "db_table \<Rightarrow> string list \<Rightarrow> kfv list outcome" where
  "rehydrate_rows t [] = Ok []"
| "rehydrate_rows t (key # keys) =
     bind_exec (unwrap_exec (dt_get t key)) (\<lambda>r.
     bind_exec (rehydrate_rows t keys) (\<lambda>out.
       Ok (\<lparr>kfv_key = key, kfv_operation = KSet, kfv_field_values = (case r of Some f \<Rightarrow> f | None \<Rightarrow> [])\<rparr> # out)))"

definition rehydrate :: "consumer_kind \<Rightarrow> db_table \<Rightarrow> kfv list outcome" where
  "rehydrate kind t =
     (if can_rehydrate kind
      then (case dt_new t of
              Some _ \<Rightarrow> Panic
            | None \<Rightarrow> bind_exec (unwrap_exec (dt_get_keys t)) (rehydrate_rows t))
      else Ok [])"

text \<open>\<open>initial\<close> are the updates that \<open>rehydrate\<close> gives the task; when it panics the task ends before its first message.\<close>

definition spawn_consumer_bridge ::
    "edge \<Rightarrow> service_path \<Rightarrow> u64 \<Rightarrow> nat \<Rightarrow> kfv list \<Rightarrow> edge \<times> consumer_bridge" where
  "spawn_consumer_bridge e addr t hdl initial =
     (let (e1, c) = new_simple_client e addr False False t hdl
      in (e1, \<lparr>cb_client = c, cb_cache = Map.empty, cb_pending = initial\<rparr>))"

text \<open>
  \<open>SimpleSwbusEdgeClient::send\<close>. The result is \<open>None\<close> while the queue of the router is full.
\<close>

definition bus_send ::
    "simple_client \<Rightarrow> edge \<Rightarrow> outgoing_message \<Rightarrow> (simple_client \<times> edge \<times> swbus_message) outcome option" where
  "bus_send c e om =
     (case outgoing_message_to_swbus_message c om of
        (c1, Ok (i, m)) \<Rightarrow>
          map_option (\<lambda>(e1, r). if is_ok r then Ok (c1, e1, m) else Panic) (edge_send e m)
      | _ \<Rightarrow> Some Panic)"

text \<open>
  One turn of the loop of \<open>recv\<close> on the client's own queue: the next message is given to the caller,
  answered or ignored. \<open>None\<close> while there is no message, or no room for the answer.
\<close>

definition recv_turn ::
    "simple_client \<Rightarrow> edge \<Rightarrow> (simple_client \<times> edge \<times> incoming_message option) outcome option" where
  "recv_turn c e =
     (case handler_chans e (sc_handler c) of
        None \<Rightarrow> None
      | Some ch \<Rightarrow>
          (case queue ch of
             [] \<Rightarrow> None
           | m # ms \<Rightarrow>
               (let e0 = e\<lparr>handler_chans := (handler_chans e)(sc_handler c \<mapsto> ch\<lparr>queue := ms\<rparr>)\<rparr>
                in case handle_received_message c m of
                     (c1, Ok (PassToActor im)) \<Rightarrow> Some (Ok (c1, e0, Some im))
                   | (c1, Ok (Respond r)) \<Rightarrow>
                       map_option (\<lambda>(e1, res). if is_ok res then Ok (c1, e1, None) else Panic) (edge_send e0 r)
                   | (c1, Ok Ignore) \<Rightarrow> Some (Ok (c1, e0, None))
                   | _ \<Rightarrow> Some Panic)))"

text \<open>
  \<open>send_kfv\<close>: merge, filter, encode, send. A failing encoder or a broken router ends the task with a
  panic. The last component is the message that was sent.
\<close>

definition send_kfv ::
    "bridge_cfg \<Rightarrow> consumer_bridge \<Rightarrow> edge \<Rightarrow> kfv
       \<Rightarrow> (consumer_bridge \<times> edge \<times> swbus_message option) outcome option" where
  "send_kfv cfg b e u =
     (let (cache, k) = merge_kfv (cb_cache b) u; b1 = b\<lparr>cb_cache := cache\<rparr>
      in case bc_selector cfg k of
           Ok False \<Rightarrow> Some (Ok (b1, e, None))
         | Ok True \<Rightarrow>
             (let (dst, key) = bc_dest cfg k
              in case new_actor_message key (j_kfv (bc_serde cfg) k) of
                   Ok am \<Rightarrow>
                     map_option (\<lambda>r. bind_exec r (\<lambda>(c1, e1, m). Ok (b1\<lparr>cb_client := c1\<rparr>, e1, Some m)))
                       (bus_send (cb_client b) e
                          \<lparr>om_destination = dst, om_body = MRequest (serialize (bc_codec cfg) am)\<rparr>)
                 | _ \<Rightarrow> Some Panic)
         | _ \<Rightarrow> Some Panic)"

text \<open>
  The task as a step relation with the rest of the runtime. It sends the pending updates one by one;
  with none left it takes the next updates of the table, or drops a message received on the bus.
  In between the router delivers messages, which is any change of the runtime by \<open>env_step\<close>.
  The two last components record the updates taken from the table and the messages sent.
\<close>

type_synonym bridge_run = "consumer_bridge \<times> edge \<times> kfv list \<times> swbus_message list"

inductive bridge_step :: "bridge_cfg \<Rightarrow> (edge \<Rightarrow> edge \<Rightarrow> bool) \<Rightarrow> bridge_run \<Rightarrow> bridge_run \<Rightarrow> bool"
  for cfg env_step where
  send_next:
    "cb_pending b = u # us \<Longrightarrow> send_kfv cfg (b\<lparr>cb_pending := us\<rparr>) e u = Some (Ok (b1, e1, om)) \<Longrightarrow>
     bridge_step cfg env_step (b, e, taken, sent)
       (b1, e1, taken @ [u], sent @ (case om of Some m \<Rightarrow> [m] | None \<Rightarrow> []))"
| pops:
    "cb_pending b = [] \<Longrightarrow>
     bridge_step cfg env_step (b, e, taken, sent) (b\<lparr>cb_pending := us\<rparr>, e, taken, sent)"
| drop_received:
    "cb_pending b = [] \<Longrightarrow> recv_turn (cb_client b) e = Some (Ok (c1, e1, im)) \<Longrightarrow>
     bridge_step cfg env_step (b, e, taken, sent) (b\<lparr>cb_client := c1\<rparr>, e1, taken, sent)"
| runtime:
    "env_step e e1 \<Longrightarrow> bridge_step cfg env_step (b, e, taken, sent) (b, e1, taken, sent)"

inductive_cases bridge_stepE: "bridge_step cfg env_step r r'"

inductive bridge_reach :: "bridge_cfg \<Rightarrow> (edge \<Rightarrow> edge \<Rightarrow> bool) \<Rightarrow> bridge_run \<Rightarrow> bridge_run \<Rightarrow> bool"
  for cfg env_step r where
  reach_refl: "bridge_reach cfg env_step r r"
| reach_step:
    "bridge_reach cfg env_step r s \<Longrightarrow> bridge_step cfg env_step s s' \<Longrightarrow> bridge_reach cfg env_step r s'"

section \<open>The producer bridge\<close>

text \<open>
  \<open>set\<close> and \<open>del\<close> of the table are parameters; an exception (\<open>Err\<close>) makes the task panic.
\<close>

record 't producer_table =
  pt_set :: "'t \<Rightarrow> string \<Rightarrow> field_values \<Rightarrow> (string, 't) exec"
  pt_del :: "'t \<Rightarrow> string \<Rightarrow> (string, 't) exec"

definition apply_kfv :: "'t producer_table \<Rightarrow> 't \<Rightarrow> kfv \<Rightarrow> 't outcome" where
  "apply_kfv pt t k =
     unwrap_exec (case kfv_operation k of
        KSet \<Rightarrow> pt_set pt t (kfv_key k) (kfv_field_values k)
      | KDel \<Rightarrow> pt_del pt t (kfv_key k))"

definition spawn_producer_bridge :: "edge \<Rightarrow> service_path \<Rightarrow> u64 \<Rightarrow> nat \<Rightarrow> edge \<times> simple_client" where
  "spawn_producer_bridge e addr t hdl = new_simple_client e addr False False t hdl"

definition producer_apply ::
    "codec \<Rightarrow> serde \<Rightarrow> 't producer_table \<Rightarrow> 't \<Rightarrow> byte list \<Rightarrow> ('t \<times> swbus_error_code \<times> string) outcome" where
  "producer_apply cd sd pt t payload =
     (case deserialize cd payload of
        Inr am \<Rightarrow>
          (case deserialize_data (of_j_kfv sd) am of
             Ok k \<Rightarrow> bind_exec (apply_kfv pt t k) (\<lambda>t1. Ok (t1, CodeOk, []))
           | Err e \<Rightarrow> Ok (t, InvalidPayload, ''Invalid KeyOpFieldValues: '' @ e)
           | Panic \<Rightarrow> Panic)
      | Inl e \<Rightarrow> Ok (t, InvalidPayload, ''Invalid ActorMessage: '' @ e))"

text \<open>One turn of the loop for the message that \<open>recv\<close> gave; messages other than requests are ignored.\<close>

definition producer_turn ::
    "codec \<Rightarrow> serde \<Rightarrow> 't producer_table \<Rightarrow> simple_client \<Rightarrow> edge \<Rightarrow> 't \<Rightarrow> incoming_message
       \<Rightarrow> (simple_client \<times> edge \<times> 't \<times> swbus_message option) outcome option" where
  "producer_turn cd sd pt c e t im =
     (case im_body im of
        MRequest payload \<Rightarrow>
          (case producer_apply cd sd pt t payload of
             Ok (t1, code, text) \<Rightarrow>
               map_option (\<lambda>r. bind_exec r (\<lambda>(c1, e1, m). Ok (c1, e1, t1, Some m)))
                 (bus_send c e \<lparr>om_destination = im_source im, om_body = MResponse (im_id im) code text None\<rparr>)
           | _ \<Rightarrow> Some Panic)
      | _ \<Rightarrow> Some (Ok (c, e, t, None)))"

section \<open>Specification of the table\<close>

type_synonym spec_table = "string \<rightharpoonup> (string \<rightharpoonup> string)"

definition apply_update :: "spec_table \<Rightarrow> kfv \<Rightarrow> spec_table" where
  "apply_update T k =
     (case kfv_operation k of
        KSet \<Rightarrow> T(kfv_key k \<mapsto>
          (case T (kfv_key k) of Some f \<Rightarrow> f | None \<Rightarrow> Map.empty) ++ map_of (rev (kfv_field_values k)))
      | KDel \<Rightarrow> T(kfv_key k := None))"

definition cache_abs :: "table_cache \<Rightarrow> spec_table" where
  "cache_abs c key = map_option map_of (c key)"

text \<open>A message for \<open>k\<close> tells the whole entry of its key in \<open>T\<close>, or that it is gone.\<close>

definition tells :: "spec_table \<Rightarrow> kfv \<Rightarrow> bool" where
  "tells T k \<longleftrightarrow>
     (case kfv_operation k of
        KSet \<Rightarrow> T (kfv_key k) = Some (map_of (kfv_field_values k)) | KDel \<Rightarrow> T (kfv_key k) = None)"

text \<open>What the bridge has to send for a sequence of updates, computed from the cache alone.\<close>

fun merge_all :: "table_cache \<Rightarrow> kfv list \<Rightarrow> kfv list" where
  "merge_all c [] = []"
| "merge_all c (u # us) = snd (merge_kfv c u) # merge_all (fst (merge_kfv c u)) us"

text \<open>
  The contract of a table cache: merging an update keeps the copy equal to the table and yields the
  whole entry. The sender below relies on nothing else.
\<close>

locale cached_table =
  fixes merge :: "'c \<Rightarrow> kfv \<Rightarrow> 'c \<times> kfv" and abs :: "'c \<Rightarrow> spec_table"
  assumes merge_abs: "abs (fst (merge c u)) = apply_update (abs c) u"
    and merge_tells: "tells (abs (fst (merge c u))) (snd (merge c u))"
    and merge_key: "kfv_key (snd (merge c u)) = kfv_key u"
    and merge_op: "kfv_operation (snd (merge c u)) = kfv_operation u"
begin

lemma foldl_abs:
  "abs (foldl (\<lambda>c u. fst (merge c u)) c us) = foldl apply_update (abs c) us"
  by (induction us arbitrary: c) (simp_all add: merge_abs)

lemma merged_tells:
  "tells (foldl apply_update (abs c) (us @ [u])) (snd (merge (foldl (\<lambda>c u. fst (merge c u)) c us) u))"
  using merge_tells [of "foldl (\<lambda>c u. fst (merge c u)) c us" u] by (simp add: merge_abs foldl_abs)

end

lemma map_of_fv_extend: "map_of (fv_extend old new) = map_of old ++ map_of (rev new)"
  unfolding fv_extend_def
  by (induction new arbitrary: old) (auto simp: alist_simps map_add_def fun_eq_iff split: option.splits)

interpretation tcache: cached_table merge_kfv cache_abs
proof
  fix c u
  show "cache_abs (fst (merge_kfv c u)) = apply_update (cache_abs c) u"
    by (auto simp: cache_abs_def merge_kfv_def apply_update_def map_of_fv_extend Let_def fun_eq_iff
        split: key_operation.splits option.splits)
  show "tells (cache_abs (fst (merge_kfv c u))) (snd (merge_kfv c u))"
    by (auto simp: tells_def cache_abs_def merge_kfv_def Let_def split: key_operation.splits)
  show "kfv_key (snd (merge_kfv c u)) = kfv_key u" "kfv_operation (snd (merge_kfv c u)) = kfv_operation u"
    by (auto simp: merge_kfv_def Let_def split: key_operation.splits)
qed


section \<open>What a bridge has sent\<close>

definition selected :: "bridge_cfg \<Rightarrow> kfv \<Rightarrow> bool" where
  "selected cfg k \<longleftrightarrow> bc_selector cfg k = Ok True"

definition carries :: "bridge_cfg \<Rightarrow> service_path \<Rightarrow> kfv \<Rightarrow> swbus_message \<Rightarrow> bool" where
  "carries cfg src k m \<longleftrightarrow>
     (\<exists>h am. header m = Some h \<and> source h = Some src \<and> destination h = Some (fst (bc_dest cfg k)) \<and>
       body m = Some (DataRequest (serialize (bc_codec cfg) am)) \<and>
       am_key am = snd (bc_dest cfg k) \<and> j_kfv (bc_serde cfg) k = Inr (am_data am))"

lemma handle_received_source [simp]: "sc_source (fst (handle_received_message c m)) = sc_source c"
proof -
  have r: "sc_source (fst (client_respond c' a b rr)) = sc_source c'" for c' a b rr
    by (simp add: client_respond_def client_generate_def split: prod.splits)
  show ?thesis
    by (auto simp: handle_received_message_def r split: option.splits message_body.splits prod.splits
        body.splits)
qed

lemma recv_turn_source:
  assumes "recv_turn c e = Some (Ok (c1, e1, im))"
  shows "sc_source c1 = sc_source c"
proof -
  from assms obtain m where "c1 = fst (handle_received_message c m)"
    by (auto simp: recv_turn_def Let_def split: option.splits list.splits prod.splits exec.splits
        handle_received.splits if_splits) (metis fst_conv)+
  then show ?thesis by simp
qed

lemma bus_send_request:
  assumes "bus_send c e \<lparr>om_destination = dst, om_body = MRequest p\<rparr> = Some (Ok (c1, e1, m))"
  shows "sc_source c1 = sc_source c \<and> body m = Some (DataRequest p) \<and>
    (\<exists>h. header m = Some h \<and> source h = Some (sc_source c) \<and> destination h = Some dst) \<and>
    edge_send e m = Some (e1, Ok ())"
  using assms
  by (auto simp: bus_send_def outgoing_message_to_swbus_message_def client_generate_def Let_def
      new_message_def new_header_def split: prod.splits if_splits elim!: is_ok.elims)

lemma send_kfv_Ok:
  assumes "send_kfv cfg b e u = Some (Ok (b1, e1, om))"
  shows "cb_cache b1 = fst (merge_kfv (cb_cache b) u) \<and> cb_pending b1 = cb_pending b \<and>
    sc_source (cb_client b1) = sc_source (cb_client b) \<and>
    (let k = snd (merge_kfv (cb_cache b) u)
     in if selected cfg k then \<exists>m. om = Some m \<and> carries cfg (sc_source (cb_client b)) k m
        else om = None)"
proof -
  obtain cache k where mk: "merge_kfv (cb_cache b) u = (cache, k)" by fastforce
  obtain dst key where dk: "bc_dest cfg k = (dst, key)" by fastforce
  from assms mk have "bc_selector cfg k = Ok True \<or> bc_selector cfg k = Ok False"
    by (auto simp: send_kfv_def Let_def split: exec.splits bool.splits)
  then show ?thesis
  proof
    assume sel: "bc_selector cfg k = Ok True"
    with assms mk dk obtain am where am: "new_actor_message key (j_kfv (bc_serde cfg) k) = Ok am"
      by (auto simp: send_kfv_def Let_def split: exec.splits)
    with assms mk dk sel obtain c1 m where
      cs: "bus_send (cb_client b) e \<lparr>om_destination = dst, om_body = MRequest (serialize (bc_codec cfg) am)\<rparr>
        = Some (Ok (c1, e1, m))" and b1: "b1 = b\<lparr>cb_cache := cache, cb_client := c1\<rparr>" "om = Some m"
      by (auto simp: send_kfv_def Let_def bind_exec_Ok_iff)
    have "am_key am = key" "j_kfv (bc_serde cfg) k = Inr (am_data am)"
      using am by (auto simp: new_actor_message_def of_sum_def bind_exec_Ok_iff split: sum.splits)
    with bus_send_request [OF cs] mk dk sel b1 show ?thesis
      by (auto simp: carries_def selected_def Let_def)
  qed (use assms mk in \<open>auto simp: send_kfv_def Let_def selected_def\<close>)
qed

lemma send_kfv_total:
  assumes "merge_kfv (cb_cache b) u = (cache, k)" "selected cfg k" "j_kfv (bc_serde cfg) k = Inr d"
    and "rx_open (local_msgs e)" "length (queue (local_msgs e)) < cap (local_msgs e)"
  shows "\<exists>b1 m. send_kfv cfg b e u =
    Some (Ok (b1, e\<lparr>local_msgs := (local_msgs e)\<lparr>queue := queue (local_msgs e) @ [m]\<rparr>\<rparr>, Some m))"
  using assms
  by (auto simp: send_kfv_def selected_def bus_send_def outgoing_message_to_swbus_message_def
      client_generate_def generate_def Let_def new_actor_message_def edge_send_def send_async_cases
      split: prod.splits)

lemma merge_all_snoc:
  "merge_all c (us @ [u]) = merge_all c us @ [snd (merge_kfv (foldl (\<lambda>c u. fst (merge_kfv c u)) c us) u)]"
  by (induction us arbitrary: c) simp_all

lemma length_merge_all [simp]: "length (merge_all c us) = length us"
  by (induction us arbitrary: c) simp_all

lemma merge_all_tells:
  "i < length us \<Longrightarrow>
     tells (foldl apply_update (cache_abs c) (take (Suc i) us)) (merge_all c us ! i) \<and>
     kfv_key (merge_all c us ! i) = kfv_key (us ! i) \<and>
     kfv_operation (merge_all c us ! i) = kfv_operation (us ! i)"
proof (induction us rule: rev_induct)
  case (snoc u us)
  then show ?case
    using tcache.merged_tells [of c us u]
    by (cases "i < length us")
       (auto simp: merge_all_snoc nth_append tcache.merge_key tcache.merge_op less_Suc_eq)
qed simp

lemma bridge_reach_log:
  assumes "bridge_reach cfg env_step r s" "r = (b0, e0, [], [])" "s = (b, e, taken, sent)"
  shows "cb_cache b = foldl (\<lambda>c u. fst (merge_kfv c u)) (cb_cache b0) taken \<and>
    sc_source (cb_client b) = sc_source (cb_client b0) \<and>
    list_all2 (carries cfg (sc_source (cb_client b0)))
      (filter (selected cfg) (merge_all (cb_cache b0) taken)) sent"
  using assms
proof (induction arbitrary: b e taken sent rule: bridge_reach.induct)
  case (reach_step s s')
  obtain b1 e1 taken1 sent1 where s: "s = (b1, e1, taken1, sent1)" by (cases s)
  note IH = reach_step(3) [OF reach_step(4) s]
  from reach_step(2) show ?case
    unfolding s reach_step(5)
  proof (cases rule: bridge_step.cases)
    case (send_next u us om)
    from send_kfv_Ok [OF send_next(4)] IH send_next show ?thesis
      by (auto simp: merge_all_snoc Let_def list_all2_appendI split: if_splits)
  next
    case (drop_received c1 im)
    with recv_turn_source IH show ?thesis by auto
  qed (use IH in auto)
qed simp

section \<open>Properties\<close>

text \<open>
  (C9) The consumer bridge refines a table: in every state the task can reach, whatever the database
  delivers and however the runtime interleaves, the messages sent so far are, in order, one for each
  selected update; the message for the \<open>i\<close>-th update goes to the destination and input key computed
  for it, comes from the bridge's own path and carries the whole entry its key has in the table
  after the first \<open>i\<close> updates, not only the changed fields; a deletion is passed on.
\<close>

theorem bridge_sends_whole_entries:
  assumes "bridge_reach cfg env_step (b0, e0, [], []) (b, e, taken, sent)" "cb_cache b0 = Map.empty"
  shows "\<exists>ks. length ks = length taken \<and>
    (\<forall>i < length taken. tells (foldl apply_update Map.empty (take (Suc i) taken)) (ks ! i) \<and>
       kfv_key (ks ! i) = kfv_key (taken ! i) \<and> kfv_operation (ks ! i) = kfv_operation (taken ! i)) \<and>
    list_all2 (carries cfg (sc_source (cb_client b0))) (filter (selected cfg) ks) sent"
proof -
  have "cache_abs Map.empty = Map.empty" by (simp add: cache_abs_def fun_eq_iff)
  with bridge_reach_log [OF assms(1) refl refl] merge_all_tells [of _ taken "cb_cache b0"] assms(2)
  show ?thesis by (intro exI [of _ "merge_all (cb_cache b0) taken"]) simp
qed

definition demo_kfv :: "string \<Rightarrow> field_values \<Rightarrow> kfv" where
  "demo_kfv key fv = \<lparr>kfv_key = key, kfv_operation = KSet, kfv_field_values = fv\<rparr>"

definition demo_cfg :: bridge_cfg where
  "demo_cfg = \<lparr>bc_codec = demo_codec, bc_serde = demo_serde, bc_dest = (\<lambda>k. (demo_actor ''x'', kfv_key k)),
     bc_selector = (\<lambda>k. Ok True)\<rparr>"

definition demo_bridge_start :: "consumer_bridge" where
  "demo_bridge_start = snd (spawn_consumer_bridge (new_edge (demo_svc ''n1'' ''hamgrd'')) (demo_actor ''b'') 10 1
     [demo_kfv ''dpu0'' [(''state'', ''up'')]])"

lemma demo_bridge_at_start:
  "cb_pending demo_bridge_start = [demo_kfv ''dpu0'' [(''state'', ''up'')]]" "cb_cache demo_bridge_start = Map.empty"
  "sc_source (cb_client demo_bridge_start) = demo_actor ''b''"
  by (simp_all add: demo_bridge_start_def spawn_consumer_bridge_def new_simple_client_def Let_def)

lemma demo_bridge_sends:
  "\<exists>b e m. bridge_reach demo_cfg (\<lambda>e e'. False) (demo_bridge_start, new_edge (demo_svc ''n1'' ''hamgrd''), [], [])
     (b, e, [demo_kfv ''dpu0'' [(''state'', ''up'')]], [m])"
proof -
  let ?u = "demo_kfv ''dpu0'' [(''state'', ''up'')]"
  let ?e = "new_edge (demo_svc ''n1'' ''hamgrd'')"
  have "\<exists>b e m. send_kfv demo_cfg (demo_bridge_start\<lparr>cb_pending := []\<rparr>) ?e ?u = Some (Ok (b, e, Some m))"
    using send_kfv_total [OF prod.collapse [symmetric], of demo_cfg "demo_bridge_start\<lparr>cb_pending := []\<rparr>" ?u _ ?e]
    by (fastforce simp: selected_def demo_cfg_def demo_serde_def new_edge_def new_chan_def swbus_recv_queue_size_def)
  then obtain b e m where "send_kfv demo_cfg (demo_bridge_start\<lparr>cb_pending := []\<rparr>) ?e ?u = Some (Ok (b, e, Some m))"
    by blast
  from send_next [OF demo_bridge_at_start(1) this, of "\<lambda>e e'. False" "[]" "[]"]
  show ?thesis by (auto intro: reach_step [OF reach_refl])
qed

theorem bridge_sends_whole_entries_witness:
  "\<exists>b e m k. bridge_reach demo_cfg (\<lambda>e e'. False)
       (demo_bridge_start, new_edge (demo_svc ''n1'' ''hamgrd''), [], [])
       (b, e, [demo_kfv ''dpu0'' [(''state'', ''up'')]], [m]) \<and>
     tells [''dpu0'' \<mapsto> [''state'' \<mapsto> ''up'']] k \<and> carries demo_cfg (demo_actor ''b'') k m"
proof -
  let ?u = "demo_kfv ''dpu0'' [(''state'', ''up'')]"
  obtain b e m where r: "bridge_reach demo_cfg (\<lambda>e e'. False)
      (demo_bridge_start, new_edge (demo_svc ''n1'' ''hamgrd''), [], []) (b, e, [?u], [m])"
    using demo_bridge_sends by blast
  note st = demo_bridge_at_start
  from bridge_sends_whole_entries [OF r st(2)] obtain ks where ks: "length ks = 1"
    "tells (foldl apply_update Map.empty [?u]) (ks ! 0)"
    "list_all2 (carries demo_cfg (demo_actor ''b'')) (filter (selected demo_cfg) ks) [m]"
    by (auto simp: st)
  then obtain k where "ks = [k]" by (auto simp: length_Suc_conv)
  with ks r show ?thesis
    by (auto simp: demo_kfv_def apply_update_def split: if_splits)
qed

text \<open>A database that answers and holds the rows \<open>tab\<close> while it is read.\<close>

definition holds_rows :: "db_table \<Rightarrow> (string \<rightharpoonup> field_values) \<Rightarrow> bool" where
  "holds_rows t tab \<longleftrightarrow> dt_new t = None \<and>
     (\<exists>keys. dt_get_keys t = Ok keys \<and> distinct keys \<and> set keys = dom tab) \<and>
     (\<forall>k. dt_get t k = Ok (tab k)) \<and> (\<forall>k f. tab k = Some f \<longrightarrow> distinct (map fst f))"

definition row_update :: "(string \<rightharpoonup> field_values) \<Rightarrow> string \<Rightarrow> kfv" where
  "row_update tab k = \<lparr>kfv_key = k, kfv_operation = KSet, kfv_field_values = (case tab k of Some f \<Rightarrow> f | None \<Rightarrow> [])\<rparr>"

lemma rehydrate_holds:
  assumes "holds_rows t tab" "can_rehydrate kind"
  shows "\<exists>keys. rehydrate kind t = Ok (map (row_update tab) keys) \<and> distinct keys \<and> set keys = dom tab"
proof -
  have "rehydrate_rows t ks = Ok (map (row_update tab) ks)" for ks
    using assms(1) by (induction ks) (auto simp: holds_rows_def row_update_def)
  with assms show ?thesis by (auto simp: holds_rows_def rehydrate_def)
qed

lemma row_updates_abs:
  assumes "holds_rows t tab" "distinct ks" "set ks \<subseteq> dom tab" "\<forall>k \<in> set ks. T k = None"
  shows "foldl apply_update T (map (row_update tab) ks) = (\<lambda>k. if k \<in> set ks then map_option map_of (tab k) else T k)"
  using assms(2-)
proof (induction ks arbitrary: T)
  case (Cons k ks)
  then obtain f where f: "tab k = Some f" by auto
  then have "distinct (map fst f)" using assms(1) by (simp add: holds_rows_def)
  then have "map_of (rev f) = map_of f" using map_of_inject_set [of "rev f" f] by (simp add: rev_map [symmetric])
  then have "foldl apply_update T (map (row_update tab) (k # ks)) =
      foldl apply_update (T(k \<mapsto> map_of f)) (map (row_update tab) ks)"
    using Cons(4) f by (simp add: row_update_def apply_update_def)
  also have "\<dots> = (\<lambda>x. if x \<in> set ks then map_option map_of (tab x) else (T(k \<mapsto> map_of f)) x)"
    using Cons by (intro Cons.IH) auto
  finally show ?case using f by (auto simp: fun_eq_iff)
qed simp

text \<open>The updates a task has taken: a part of the initial ones, or all of them and some of the table.\<close>

lemma bridge_reach_taken:
  assumes "bridge_reach cfg env_step r s" "r = (b0, e0, [], [])" "s = (b, e, taken, sent)"
  shows "taken @ cb_pending b = cb_pending b0 \<or> (\<exists>us. taken = cb_pending b0 @ us)"
  using assms
proof (induction arbitrary: b e taken sent rule: bridge_reach.induct)
  case (reach_step s s')
  obtain b1 e1 taken1 sent1 where s: "s = (b1, e1, taken1, sent1)" by (cases s)
  note IH = reach_step(3) [OF reach_step(4) s]
  from reach_step(2) show ?case
    unfolding s reach_step(5)
  proof (cases rule: bridge_step.cases)
    case (send_next u us om)
    from send_kfv_Ok [OF send_next(4)] IH send_next show ?thesis by auto
  qed (use IH in auto)
qed simp

text \<open>
  (C24) A new bridge brings the actors up to date from the database: on a table of a kind that can be rehydrated,
  in a database that answers and does not change while it is read, the bridge starts with one update for each row, and in every
  state its task can reach, what it has sent is, in order, one message with a whole entry for each selected update it has taken:
  first the rows, each once and each as the database has it, and after all of them, for every later update, the
  entry that its key has when the later updates so far are applied to what the database had. Actors that had the rows before
  see them again. A table that cannot be rehydrated gives nothing at the start.
\<close>

theorem new_bridge_resends_table:
  assumes "holds_rows t tab" "can_rehydrate kind" "cb_cache b0 = Map.empty"
    and "bridge_reach cfg env_step (b0, e0, [], []) (b, e, taken, sent)"
  shows "rehydrate ZmqConsumerStateTable t = Ok [] \<and>
    (\<exists>initial. rehydrate kind t = Ok initial \<and> distinct (map kfv_key initial) \<and> set (map kfv_key initial) = dom tab \<and>
      (cb_pending b0 = initial \<longrightarrow>
        (\<exists>ks. length ks = length taken \<and>
          list_all2 (carries cfg (sc_source (cb_client b0))) (filter (selected cfg) ks) sent \<and>
          (\<forall>i < length taken.
             if i < length initial then
               kfv_operation (ks ! i) = KSet \<and> kfv_key (ks ! i) = kfv_key (initial ! i) \<and>
               (\<exists>f. tab (kfv_key (initial ! i)) = Some f \<and> map_of (kfv_field_values (ks ! i)) = map_of f)
             else
               kfv_operation (ks ! i) = kfv_operation (taken ! i) \<and> kfv_key (ks ! i) = kfv_key (taken ! i) \<and>
               tells (foldl apply_update (\<lambda>k. map_option map_of (tab k)) (drop (length initial) (take (Suc i) taken)))
                 (ks ! i)))))"
proof -
  from rehydrate_holds [OF assms(1,2)] obtain keys where
    keys: "rehydrate kind t = Ok (map (row_update tab) keys)" "distinct keys" "set keys = dom tab" by blast
  have key: "kfv_key (row_update tab k) = k" "kfv_operation (row_update tab k) = KSet" for k
    by (simp_all add: row_update_def)
  then have ik: "map kfv_key (map (row_update tab) keys) = keys" by (simp add: map_idI)
  let ?ks = "merge_all Map.empty taken" and ?n = "length keys"
  have "cache_abs Map.empty = Map.empty" by (simp add: cache_abs_def fun_eq_iff)
  note m = merge_all_tells [of _ taken Map.empty, unfolded this]
  have row: "kfv_operation (?ks ! i) = KSet \<and> kfv_key (?ks ! i) = keys ! i \<and>
      (\<exists>f. tab (keys ! i) = Some f \<and> map_of (kfv_field_values (?ks ! i)) = map_of f)"
    if "i < length taken" "i < ?n" "cb_pending b0 = map (row_update tab) keys" for i
  proof -
    obtain x y where xy: "taken @ x = cb_pending b0 @ y"
      using bridge_reach_taken [OF assms(4) refl refl] by (metis append_Nil2)
    from arg_cong [OF this, of "take (Suc i)"] have p: "take (Suc i) taken = map (row_update tab) (take (Suc i) keys)"
      using that by (simp add: take_map)
    from arg_cong [OF xy, of "\<lambda>xs. xs ! i"] have t: "taken ! i = row_update tab (keys ! i)"
      using that by (simp add: nth_append)
    have "keys ! i \<in> set (take (Suc i) keys)" using that(2) by (simp add: take_Suc_conv_app_nth)
    moreover have "foldl apply_update Map.empty (take (Suc i) taken) =
        (\<lambda>k. if k \<in> set (take (Suc i) keys) then map_option map_of (tab k) else None)"
      unfolding p using row_updates_abs [OF assms(1), of "take (Suc i) keys" Map.empty] keys(2,3)
      by (auto dest: in_set_takeD)
    ultimately show ?thesis using m [OF that(1)] t by (auto simp: key tells_def)
  qed
  have later: "tells (foldl apply_update (\<lambda>k. map_option map_of (tab k)) (drop ?n (take (Suc i) taken))) (?ks ! i)"
    if "i < length taken" "\<not> i < ?n" "cb_pending b0 = map (row_update tab) keys" for i
  proof -
    note pend = that(3)
    have "length (taken @ cb_pending b) \<noteq> length (cb_pending b0)" using that by simp
    then have "taken @ cb_pending b \<noteq> cb_pending b0" by (rule contrapos_nn) (rule arg_cong)
    then obtain us where us: "taken = map (row_update tab) keys @ us"
      using bridge_reach_taken [OF assms(4) refl refl] pend by auto
    have "foldl apply_update Map.empty (map (row_update tab) keys) = (\<lambda>k. map_option map_of (tab k))"
      using row_updates_abs [OF assms(1) keys(2), of Map.empty] keys(3) by (auto simp: fun_eq_iff domIff)
    with m [OF that(1)] that(2) show ?thesis by (simp add: us)
  qed
  have "list_all2 (carries cfg (sc_source (cb_client b0))) (filter (selected cfg) ?ks) sent"
    using bridge_reach_log [OF assms(4) refl refl] assms(3) by simp
  then show ?thesis
    using keys ik row later m by (intro conjI exI [of _ "map (row_update tab) keys"] impI exI [of _ ?ks])
      (simp_all add: rehydrate_def key)
qed

definition demo_db :: db_table where
  "demo_db = \<lparr>dt_new = None, dt_get_keys = Ok [''dpu0''],
     dt_get = (\<lambda>k. Ok (if k = ''dpu0'' then Some [(''state'', ''up'')] else None))\<rparr>"

theorem new_bridge_resends_table_witness:
  "\<exists>b e m k. bridge_reach demo_cfg (\<lambda>e e'. False)
       (demo_bridge_start, new_edge (demo_svc ''n1'' ''hamgrd''), [], [])
       (b, e, [demo_kfv ''dpu0'' [(''state'', ''up'')]], [m]) \<and>
     rehydrate SubscriberStateTable demo_db = Ok (cb_pending demo_bridge_start) \<and>
     carries demo_cfg (demo_actor ''b'') k m \<and> kfv_key k = ''dpu0'' \<and> kfv_operation k = KSet \<and>
     map_of (kfv_field_values k) = [''state'' \<mapsto> ''up'']"
proof -
  let ?u = "demo_kfv ''dpu0'' [(''state'', ''up'')]"
  let ?e = "new_edge (demo_svc ''n1'' ''hamgrd'')"
  note st = demo_bridge_at_start
  obtain b e m where r: "bridge_reach demo_cfg (\<lambda>e e'. False) (demo_bridge_start, ?e, [], []) (b, e, [?u], [m])"
    using demo_bridge_sends by blast
  have h: "holds_rows demo_db [''dpu0'' \<mapsto> [(''state'', ''up'')]]" by (simp add: holds_rows_def demo_db_def)
  have i: "rehydrate SubscriberStateTable demo_db = Ok [?u]" by (simp add: rehydrate_def demo_db_def demo_kfv_def)
  from new_bridge_resends_table [OF h _ st(2) r, of SubscriberStateTable] obtain ks where ks: "length ks = 1"
    "list_all2 (carries demo_cfg (demo_actor ''b'')) (filter (selected demo_cfg) ks) [m]"
    "kfv_key (ks ! 0) = ''dpu0''" "kfv_operation (ks ! 0) = KSet"
    "map_of (kfv_field_values (ks ! 0)) = [''state'' \<mapsto> ''up'']"
    by (auto simp: i st demo_kfv_def)
  then obtain k where "ks = [k]" by (auto simp: length_Suc_conv)
  with ks r i st(1) show ?thesis by (auto split: if_splits)
qed

text \<open>A table whose \<open>set\<close> and \<open>del\<close> do what they are documented to do, seen through \<open>tab\<close>.\<close>

definition table_laws :: "'t producer_table \<Rightarrow> ('t \<Rightarrow> spec_table) \<Rightarrow> bool" where
  "table_laws pt tab \<longleftrightarrow>
     (\<forall>t key fv. \<exists>t1. pt_set pt t key fv = Ok t1 \<and>
        tab t1 = apply_update (tab t) \<lparr>kfv_key = key, kfv_operation = KSet, kfv_field_values = fv\<rparr>) \<and>
     (\<forall>t key. \<exists>t1. pt_del pt t key = Ok t1 \<and> tab t1 = (tab t)(key := None))"

lemma apply_kfv_table:
  assumes "table_laws pt tab"
  shows "\<exists>t1. apply_kfv pt t k = Ok t1 \<and> tab t1 = apply_update (tab t) k"
proof (cases "kfv_operation k")
  case KSet
  then have "\<lparr>kfv_key = kfv_key k, kfv_operation = KSet, kfv_field_values = kfv_field_values k\<rparr> = k" by simp
  with assms KSet show ?thesis by (metis apply_kfv_def key_operation.simps(3) table_laws_def unwrap_exec.simps(1))
next
  case KDel
  with assms show ?thesis
    by (auto simp: apply_kfv_def table_laws_def apply_update_def)
qed

lemma producer_apply_total:
  assumes "table_laws pt tab"
  shows "\<exists>t1 code text. producer_apply cd sd pt t payload = Ok (t1, code, text) \<and>
      (case deserialize cd payload of
         Inr am \<Rightarrow>
           (case of_j_kfv sd (am_data am) of
              Inr k \<Rightarrow> tab t1 = apply_update (tab t) k \<and> code = CodeOk
            | Inl _ \<Rightarrow> t1 = t \<and> code = InvalidPayload)
       | Inl _ \<Rightarrow> t1 = t \<and> code = InvalidPayload)"
proof (cases "deserialize cd payload")
  case (Inr am)
  show ?thesis
  proof (cases "of_j_kfv sd (am_data am)")
    case (Inr k)
    obtain t1 where "apply_kfv pt t k = Ok t1" "tab t1 = apply_update (tab t) k"
      using apply_kfv_table [OF assms] by blast
    with Inr \<open>deserialize cd payload = Inr am\<close> show ?thesis
      by (simp add: producer_apply_def deserialize_data_def)
  qed (simp add: Inr producer_apply_def deserialize_data_def)
qed (simp add: producer_apply_def)

lemma bus_send_response:
  assumes "rx_open (local_msgs e)" "length (queue (local_msgs e)) < cap (local_msgs e)"
  shows "\<exists>c1 m. bus_send c e \<lparr>om_destination = dst, om_body = MResponse rid code tx rb\<rparr> =
      Some (Ok (c1, e\<lparr>local_msgs := (local_msgs e)\<lparr>queue := queue (local_msgs e) @ [m]\<rparr>\<rparr>, m)) \<and>
    body m = Some (Response \<lparr>request_id = rid, error_code = code_num code, error_message = tx,
      resp_body = map_option ManagementQueryResult rb\<rparr>) \<and>
    (\<exists>h. header m = Some h \<and> source h = Some (sc_source c) \<and> destination h = Some dst)"
  using assms
  by (auto simp: bus_send_def outgoing_message_to_swbus_message_def client_generate_def generate_def
      Let_def edge_send_def send_async_cases new_message_def new_header_def)

text \<open>
  The producer bridge answers every request exactly once, to its sender and with its id: a
  request that decodes is applied to the table and answered \<open>Ok\<close>; one that does not is answered
  \<open>InvalidPayload\<close> and leaves the table as it was. Every other message is dropped without a trace.
\<close>

theorem producer_answers_requests:
  assumes "table_laws pt tab" "rx_open (local_msgs e)" "length (queue (local_msgs e)) < cap (local_msgs e)"
  shows "\<exists>c1 e1 t1 om. producer_turn cd sd pt c e t im = Some (Ok (c1, e1, t1, om)) \<and>
    (case im_body im of
       MRequest payload \<Rightarrow>
         \<exists>m h rr. om = Some m \<and> queue (local_msgs e1) = queue (local_msgs e) @ [m] \<and>
           header m = Some h \<and> destination h = Some (im_source im) \<and> source h = Some (sc_source c) \<and>
           body m = Some (Response rr) \<and> request_id rr = im_id im \<and>
           (case deserialize cd payload of
              Inr am \<Rightarrow>
                (case of_j_kfv sd (am_data am) of
                   Inr k \<Rightarrow> tab t1 = apply_update (tab t) k \<and> error_code rr = code_num CodeOk
                 | Inl _ \<Rightarrow> t1 = t \<and> error_code rr = code_num InvalidPayload)
            | Inl _ \<Rightarrow> t1 = t \<and> error_code rr = code_num InvalidPayload)
     | _ \<Rightarrow> om = None \<and> c1 = c \<and> e1 = e \<and> t1 = t)"
proof (cases "im_body im")
  case (MRequest payload)
  obtain t1 code tx where p: "producer_apply cd sd pt t payload = Ok (t1, code, tx)"
    and d: "case deserialize cd payload of
         Inr am \<Rightarrow>
           (case of_j_kfv sd (am_data am) of
              Inr k \<Rightarrow> tab t1 = apply_update (tab t) k \<and> code = CodeOk
            | Inl _ \<Rightarrow> t1 = t \<and> code = InvalidPayload)
       | Inl _ \<Rightarrow> t1 = t \<and> code = InvalidPayload"
    using producer_apply_total [OF assms(1)] by blast
  obtain c1 m h where
    "bus_send c e \<lparr>om_destination = im_source im, om_body = MResponse (im_id im) code tx None\<rparr> =
      Some (Ok (c1, e\<lparr>local_msgs := (local_msgs e)\<lparr>queue := queue (local_msgs e) @ [m]\<rparr>\<rparr>, m))"
    "body m = Some (Response \<lparr>request_id = im_id im, error_code = code_num code, error_message = tx,
      resp_body = None\<rparr>)"
    "header m = Some h" "source h = Some (sc_source c)" "destination h = Some (im_source im)"
    using bus_send_response [OF assms(2,3), of c "im_source im" "im_id im" code tx None] by auto
  then show ?thesis
    using MRequest p d by (auto simp: producer_turn_def split: sum.splits)
qed (simp_all add: producer_turn_def)

text \<open>A table kept as a map, with the laws above.\<close>

definition map_table :: "spec_table producer_table" where
  "map_table = \<lparr>pt_set = (\<lambda>T key fv. Ok (apply_update T
        \<lparr>kfv_key = key, kfv_operation = KSet, kfv_field_values = fv\<rparr>)),
     pt_del = (\<lambda>T key. Ok (T(key := None)))\<rparr>"

theorem producer_answers_requests_witness:
  "table_laws map_table id \<and>
   (\<exists>c1 e1 m h rr. producer_turn demo_codec demo_serde map_table (cb_client demo_bridge_start)
      (new_edge (demo_svc ''n1'' ''hamgrd'')) Map.empty
      \<lparr>im_id = 4, im_source = demo_actor ''y'', im_destination = demo_actor ''b'', im_body = MRequest [1]\<rparr> =
        Some (Ok (c1, e1, Map.empty, Some m)) \<and>
      header m = Some h \<and> destination h = Some (demo_actor ''y'') \<and> body m = Some (Response rr) \<and>
      request_id rr = 4 \<and> error_code rr = code_num InvalidPayload)"
proof
  show l: "table_laws map_table id"
    by (simp add: table_laws_def map_table_def)
  have "rx_open (local_msgs (new_edge (demo_svc ''n1'' ''hamgrd'')))"
    "length (queue (local_msgs (new_edge (demo_svc ''n1'' ''hamgrd'')))) <
     cap (local_msgs (new_edge (demo_svc ''n1'' ''hamgrd'')))"
    by (simp_all add: new_edge_def new_chan_def swbus_recv_queue_size_def)
  from producer_answers_requests [OF l this, of demo_codec demo_serde "cb_client demo_bridge_start" Map.empty
      "\<lparr>im_id = 4, im_source = demo_actor ''y'', im_destination = demo_actor ''b'', im_body = MRequest [1]\<rparr>"]
  show "\<exists>c1 e1 m h rr. producer_turn demo_codec demo_serde map_table (cb_client demo_bridge_start)
      (new_edge (demo_svc ''n1'' ''hamgrd'')) Map.empty
      \<lparr>im_id = 4, im_source = demo_actor ''y'', im_destination = demo_actor ''b'', im_body = MRequest [1]\<rparr> =
        Some (Ok (c1, e1, Map.empty, Some m)) \<and>
      header m = Some h \<and> destination h = Some (demo_actor ''y'') \<and> body m = Some (Response rr) \<and>
      request_id rr = 4 \<and> error_code rr = code_num InvalidPayload"
    by (auto simp: demo_codec_def)
qed

end
