(* ===== verification/Swbus_Conn.thy ===== *)
theory Swbus_Conn
  imports Swbus_Mux
begin

text \<open>
  The connections of \<open>swbusd\<close>: the connection store with its reconnect tasks
  (\<open>conn_store.rs\<close>), the factories of connections (\<open>conn.rs\<close>), the worker that routes the
  messages of one connection (\<open>conn_worker.rs\<close>) and the gRPC service host (\<open>service.rs\<close>).

  Spawned tasks are part of the state, and what the network does (a connect attempt succeeds, a
  stream ends) is the label of a step. \<open>host_step\<close> is the resulting transition relation; its
  invariant says that the route table only holds next hops that can be used and exported.
\<close>

section \<open>State\<close>

record swbus_conn =
  info :: conn_info
  shutdown_ct :: nat
  send_queue_tx :: nat

datatype conn_tracker = TrackConn swbus_conn | TrackTask nat

text \<open>A connect task either is about to check its token or is waiting for a connect attempt.\<close>

datatype connect_phase = Checking | Connecting

record connect_task =
  ct_info :: conn_info
  ct_token :: nat
  ct_phase :: connect_phase

record host =
  hmux :: mux
  connections :: "(conn_info \<times> conn_tracker) list"
  cs_my_routes :: "route_config list"
  connect_tasks :: "connect_task list"
  workers :: "swbus_conn list"
  pending :: "swbus_conn list"
  cancelled :: "nat list"
  fresh :: nat

definition new_host :: "u64 \<Rightarrow> host" where
  "new_host t = \<lparr>hmux = new_mux t, connections = [], cs_my_routes = [], connect_tasks = [],
     workers = [], pending = [], cancelled = [], fresh = 0\<rparr>"

section \<open>The connection store\<close>

definition start_connect_task :: "host \<Rightarrow> conn_info \<Rightarrow> host" where
  "start_connect_task h ci =
     h\<lparr>connect_tasks := connect_tasks h @ [\<lparr>ct_info = ci, ct_token = fresh h, ct_phase = Checking\<rparr>],
       connections := AList.update ci (TrackTask (fresh h)) (connections h),
       fresh := Suc (fresh h)\<rparr>"

definition add_my_route :: "host \<Rightarrow> route_config \<Rightarrow> host" where
  "add_my_route h r = h\<lparr>cs_my_routes := List.insert r (cs_my_routes h)\<rparr>"

record peer_config =
  pc_id :: service_path
  pc_endpoint :: socket_addr
  pc_conn_type :: connection_type

definition add_peer :: "host \<Rightarrow> peer_config \<Rightarrow> host \<times> unit result" where
  "add_peer h peer =
     (case cs_my_routes h of
        [] \<Rightarrow> (h, Panic)
      | my_route # _ \<Rightarrow>
          (start_connect_task h
             (new_client (pc_conn_type peer) (pc_endpoint peer) (pc_id peer) (rc_key my_route)), Ok ()))"

definition conn_lost :: "host \<Rightarrow> conn_info \<Rightarrow> host" where
  "conn_lost h ci =
     (let h1 = h\<lparr>connections := AList.delete ci (connections h)\<rparr>
      in if conn_mode ci = ModeClient then start_connect_task h1 ci else h1)"

definition conn_established :: "host \<Rightarrow> swbus_conn \<Rightarrow> host" where
  "conn_established h conn =
     h\<lparr>hmux := register (hmux h) (info conn) (send_queue_tx conn),
       connections := AList.update (info conn) (TrackConn conn) (connections h)\<rparr>"

fun tracker_token :: "conn_tracker \<Rightarrow> nat" where
  "tracker_token (TrackConn c) = shutdown_ct c"
| "tracker_token (TrackTask t) = t"

definition store_shutdown :: "host \<Rightarrow> host" where
  "store_shutdown h =
     h\<lparr>cancelled := map (tracker_token \<circ> snd) (connections h) @ cancelled h, connections := []\<rparr>"

section \<open>Connection factories\<close>

text \<open>
  Both factories make a channel of capacity 16, a shutdown token and a worker task. The worker
  runs at once; \<open>conn_established\<close> is called by the code that awaited the factory, so until then
  the connection is pending.
\<close>

definition start_worker_task :: "host \<Rightarrow> conn_info \<Rightarrow> host \<times> swbus_conn" where
  "start_worker_task h ci =
     (let conn = \<lparr>info = ci, shutdown_ct = fresh h, send_queue_tx = Suc (fresh h)\<rparr>
      in (h\<lparr>hmux := (hmux h)\<lparr>chans := (chans (hmux h))(Suc (fresh h) \<mapsto> new_chan 16)\<rparr>,
            workers := workers h @ [conn], pending := pending h @ [conn], fresh := fresh h + 2\<rparr>, conn))"

definition establish :: "host \<Rightarrow> swbus_conn \<Rightarrow> host" where
  "establish h conn = conn_established (h\<lparr>pending := remove1 conn (pending h)\<rparr>) conn"

text \<open>
  One turn of the loop of \<open>start_connect_task\<close> up to the call of \<open>conn_established\<close>.
  \<open>connected\<close> is the outcome of \<open>SwbusConn::connect\<close>: transport and gRPC handshake.
\<close>

definition connect_task_step :: "host \<Rightarrow> connect_task \<Rightarrow> bool \<Rightarrow> host" where
  "connect_task_step h ct connected =
     (let drop = h\<lparr>connect_tasks := remove1 ct (connect_tasks h)\<rparr>;
          put = (\<lambda>ph. drop\<lparr>connect_tasks := ct\<lparr>ct_phase := ph\<rparr> # connect_tasks drop\<rparr>)
      in case ct_phase ct of
           Checking \<Rightarrow> if ct_token ct \<in> set (cancelled h) then drop else put Connecting
         | Connecting \<Rightarrow>
             if connected then fst (start_worker_task drop (ct_info ct)) else put Checking)"

section \<open>The connection worker\<close>

definition validate_message_common :: "swbus_message \<Rightarrow> unit result" where
  "validate_message_common m =
     (case header m of
        None \<Rightarrow> err_of (mk_input InvalidHeader (Text ''Message missing header''))
      | Some h \<Rightarrow>
          if version h < 1 then err_of (mk_input InvalidHeader (Text ''Message version too low''))
          else if source h = None then err_of (mk_input InvalidHeader (Text ''Message missing source''))
          else if destination h = None then
            err_of (mk_input InvalidHeader (Text ''Message missing destination''))
          else if body m = None then err_of (mk_input InvalidHeader (Text ''Message missing body''))
          else Ok ())"

text \<open>
  \<open>process_data_message\<close>; \<open>None\<close> when a call of \<open>route_message\<close> does not return. After a trace
  route request has been answered, the request goes on towards its destination unless the
  destination is this node.
\<close>

definition trace_continue ::
    "swbus_message \<Rightarrow> service_path \<Rightarrow> mux \<times> unit result \<Rightarrow> (mux \<times> unit result) option" where
  "trace_continue m my p =
     (case snd p of
        Ok _ \<Rightarrow>
          if Option.bind (header m) destination \<noteq> Some my then route_message (fst p) m
          else Some (fst p, Ok ())
      | Err e \<Rightarrow> Some (fst p, Err e)
      | Panic \<Rightarrow> Some (fst p, Panic))"

definition process_data_message :: "mux \<Rightarrow> swbus_message \<Rightarrow> (mux \<times> unit result) option" where
  "process_data_message s m =
     (case validate_message_common m of
        Err e \<Rightarrow> Some (s, Err e)
      | Panic \<Rightarrow> Some (s, Panic)
      | Ok _ \<Rightarrow>
          if body m = Some TraceRouteRequest then
            (let (i, s1) = generate_message_id s
             in case get_my_service_path s1 of
                  Ok my \<Rightarrow>
                    (case new_response m (Some my) CodeOk [] i None of
                       Ok resp \<Rightarrow> Option.bind (route_message s1 resp) (trace_continue m my)
                     | _ \<Rightarrow> Some (s1, Panic))
                | _ \<Rightarrow> Some (s1, Panic))
          else route_message s m)"

text \<open>How the loop of a worker ends: its token was cancelled, or the stream failed or closed.\<close>

datatype worker_end = ShutDown | StreamError

text \<open>The rest of \<open>SwbusConnWorker::run\<close> after the loop.\<close>

definition worker_exit :: "host \<Rightarrow> swbus_conn \<Rightarrow> worker_end \<Rightarrow> host" where
  "worker_exit h conn e =
     (let h1 = h\<lparr>hmux := unregister (hmux h) (info conn), workers := remove1 conn (workers h)\<rparr>
      in case e of ShutDown \<Rightarrow> h1 | StreamError \<Rightarrow> conn_lost h1 (info conn))"

section \<open>The service host\<close>

fun conn_type_name :: "connection_type \<Rightarrow> string" where
  "conn_type_name ConnClient = ''CONNECTION_TYPE_CLIENT''"
| "conn_type_name ConnLocal = ''CONNECTION_TYPE_LOCAL''"
| "conn_type_name ConnCluster = ''CONNECTION_TYPE_CLUSTER''"
| "conn_type_name ConnRegion = ''CONNECTION_TYPE_REGION''"
| "conn_type_name ConnGlobal = ''CONNECTION_TYPE_GLOBAL''"

definition conn_type_of_name :: "string \<Rightarrow> connection_type option" where
  "conn_type_of_name n =
     find (\<lambda>c. conn_type_name c = n) [ConnClient, ConnLocal, ConnCluster, ConnRegion, ConnGlobal]"

datatype status = InvalidArgument string

text \<open>
  \<open>stream_messages\<close> up to the call of \<open>conn_established\<close>, and the whole handler. The two metadata
  values are \<open>None\<close> when absent. The caller's address comes from the transport.
\<close>

definition accept_stream ::
    "host \<Rightarrow> socket_addr \<Rightarrow> string option \<Rightarrow> string option \<Rightarrow> host \<times> (status, swbus_conn) exec" where
  "accept_stream h addr path_meta type_meta =
     (case path_meta of
        None \<Rightarrow> (h, Err (InvalidArgument ''Client service path not found''))
      | Some path \<Rightarrow>
          (case (from_string path :: service_path result) of
             Ok sp \<Rightarrow>
               (case type_meta of
                  None \<Rightarrow> (h, Err (InvalidArgument ''service path scope not set''))
                | Some tn \<Rightarrow>
                    (case conn_type_of_name tn of
                       None \<Rightarrow> (h, Err (InvalidArgument (''Invalid connection_type: '' @ tn)))
                     | Some ct \<Rightarrow> apsnd Ok (start_worker_task h (new_server ct addr sp))))
           | _ \<Rightarrow> (h, Err (InvalidArgument ''Invalid client service path''))))"

definition stream_messages ::
    "host \<Rightarrow> socket_addr \<Rightarrow> string option \<Rightarrow> string option \<Rightarrow> host \<times> (status, nat) exec" where
  "stream_messages h addr path_meta type_meta =
     (case accept_stream h addr path_meta type_meta of
        (h1, Ok conn) \<Rightarrow> (establish h1 conn, Ok (send_queue_tx conn))
      | (h1, Err e) \<Rightarrow> (h1, Err e)
      | (h1, Panic) \<Rightarrow> (h1, Panic))"

text \<open>The part of \<open>start\<close> before the gRPC server runs.\<close>

fun add_peers :: "host \<Rightarrow> peer_config list \<Rightarrow> host \<times> unit result" where
  "add_peers h [] = (h, Ok ())"
| "add_peers h (p # ps) =
     (case add_peer h p of (h1, Ok _) \<Rightarrow> add_peers h1 ps | (h1, r) \<Rightarrow> (h1, r))"

definition service_start :: "host \<Rightarrow> route_config list \<Rightarrow> peer_config list \<Rightarrow> host \<times> unit result" where
  "service_start h rs ps =
     (if rs = [] then (h, err_of (mk_input InvalidArgs (Text ''No routes found in the configuration.'')))
      else add_peers (foldl add_my_route (h\<lparr>hmux := set_my_routes (hmux h) rs\<rparr>) rs) ps)"

text \<open>
  The whole of \<open>start\<close>, with the gRPC server: \<open>listen addr\<close> is the text of the error (\<open>Failed to listen at\<close> and the
  address) when the server cannot listen there. The outcome \<open>Ok\<close> stands for the host that serves; the shutdown that ends it is the step \<open>StoreShutdown\<close> below.
\<close>

definition service_run ::
    "(socket_addr \<Rightarrow> string option) \<Rightarrow> socket_addr \<Rightarrow> host \<Rightarrow> route_config list \<Rightarrow> peer_config list \<Rightarrow> host \<times> unit result" where
  "service_run listen addr h rs ps =
     (case service_start h rs ps of
        (h1, Ok _) \<Rightarrow>
          (case listen addr of
             None \<Rightarrow> (h1, Ok ())
           | Some e \<Rightarrow> (h1, err_of (mk_connection ConnectionErr (Text e))))
      | (h1, r) \<Rightarrow> (h1, r))"

section \<open>Transitions\<close>

datatype host_event =
    Accept socket_addr "string option" "string option"
  | ConnectTurn connect_task bool
  | Establish swbus_conn
  | Receive swbus_conn swbus_message
  | ReceivePanic swbus_conn swbus_message
  | WorkerEnd swbus_conn worker_end
  | Deliver nat
  | CloseReceiver nat
  | StoreShutdown

text \<open>
  A worker whose routing call panics is gone: its task unwinds, and neither \<open>unregister_from_mux\<close>
  nor \<open>conn_lost\<close> runs. \<open>Deliver\<close> is the transport taking the first message of a connection's
  queue, \<open>CloseReceiver\<close> the transport dropping the receiving end.
\<close>

definition deliver :: "mux \<Rightarrow> nat \<Rightarrow> mux" where
  "deliver s c =
     (case chans s c of
        Some ch \<Rightarrow> s\<lparr>chans := (chans s)(c \<mapsto> ch\<lparr>queue := tl (queue ch)\<rparr>)\<rparr>
      | None \<Rightarrow> s)"

definition close_receiver :: "mux \<Rightarrow> nat \<Rightarrow> mux" where
  "close_receiver s c =
     (case chans s c of
        Some ch \<Rightarrow> s\<lparr>chans := (chans s)(c \<mapsto> ch\<lparr>rx_open := False\<rparr>)\<rparr>
      | None \<Rightarrow> s)"

inductive host_step :: "host \<Rightarrow> host_event \<Rightarrow> host \<Rightarrow> bool" where
  accept: "host_step h (Accept addr p t) (fst (accept_stream h addr p t))"
| connect_turn: "ct \<in> set (connect_tasks h) \<Longrightarrow>
    host_step h (ConnectTurn ct ok) (connect_task_step h ct ok)"
| establish: "conn \<in> set (pending h) \<Longrightarrow> host_step h (Establish conn) (establish h conn)"
| receive: "conn \<in> set (workers h) \<Longrightarrow> process_data_message (hmux h) m = Some (s', r) \<Longrightarrow> r \<noteq> Panic \<Longrightarrow>
    host_step h (Receive conn m) (h\<lparr>hmux := s'\<rparr>)"
| receive_panic: "conn \<in> set (workers h) \<Longrightarrow> process_data_message (hmux h) m = Some (s', Panic) \<Longrightarrow>
    host_step h (ReceivePanic conn m) (h\<lparr>hmux := s', workers := remove1 conn (workers h)\<rparr>)"
| worker_end: "conn \<in> set (workers h) \<Longrightarrow> e = ShutDown \<longrightarrow> shutdown_ct conn \<in> set (cancelled h) \<Longrightarrow>
    host_step h (WorkerEnd conn e) (worker_exit h conn e)"
| deliver: "host_step h (Deliver c) (h\<lparr>hmux := deliver (hmux h) c\<rparr>)"
| close_receiver: "host_step h (CloseReceiver c) (h\<lparr>hmux := close_receiver (hmux h) c\<rparr>)"
| store_shutdown: "host_step h StoreShutdown (store_shutdown h)"

inductive_cases acceptE: "host_step h (Accept addr p t) h'"
inductive_cases receiveE: "host_step h (Receive conn m) h'"
inductive_cases worker_endE: "host_step h (WorkerEnd conn e) h'"

inductive reachable :: "host \<Rightarrow> bool" where
  started: "service_start (new_host t) rs ps = (h, Ok ()) \<Longrightarrow> reachable h"
| step: "reachable h \<Longrightarrow> host_step h e h' \<Longrightarrow> reachable h'"

section \<open>Frame of routing\<close>

definition chan16 :: "swbus_message chan \<Rightarrow> bool" where
  "chan16 ch \<longleftrightarrow> cap ch = 16 \<and> chan_inv ch"

lemma chan16_try_send: "chan16 ch \<Longrightarrow> try_send ch m = Ok ch' \<Longrightarrow> chan16 ch'"
  by (auto simp: chan16_def try_send_Ok_iff chan_inv_def)

definition chans_bounded :: "mux \<Rightarrow> bool" where
  "chans_bounded s \<longleftrightarrow> (\<forall>c ch. chans s c = Some ch \<longrightarrow> chan16 ch)"

definition mux_frame_rel :: "mux \<Rightarrow> mux \<Rightarrow> bool" where
  "mux_frame_rel s t \<longleftrightarrow>
     same_tables s t \<and> dom (chans t) = dom (chans s) \<and> (chans_bounded s \<longrightarrow> chans_bounded t)"

lemma frame_refl [simp]: "mux_frame_rel s s"
  by (simp add: mux_frame_rel_def)

lemma frame_trans: "mux_frame_rel s t \<Longrightarrow> mux_frame_rel t u \<Longrightarrow> mux_frame_rel s u"
  by (auto simp: mux_frame_rel_def intro: same_tables_trans)

lemma frame_generate [simp]: "mux_frame_rel s (snd (generate_message_id s))"
  by (simp add: mux_frame_rel_def chans_bounded_def generate_message_id_def generate_def
      same_tables_def)

lemma frame_try_queue [simp]: "mux_frame_rel s (fst (try_queue s c m))"
  by (auto simp: try_queue_def mux_frame_rel_def chans_bounded_def same_tables_def
      intro: chan16_try_send
      split: exec.splits option.splits try_send_error.splits if_splits)

lemma frame_queue [simp]: "mux_frame_rel s (fst (queue_message nh s m))"
  by (auto simp: queue_message_def process_local_message_def as_response_def respond_fst
      process_ping_request_def process_mgmt_request_def Let_def
      split: next_hop_type.splits option.splits exec.splits body.splits
        management_request_type.splits)

lemma frame_no_route [simp]: "mux_frame_rel s (fst (no_route_response s m))"
  by (auto simp: no_route_response_def respond_fst split: exec.splits)

lemma frame_route:
  assumes "route_message s m = Some p"
  shows "mux_frame_rel s (fst p)"
  using assms
  by (rule route_message.raw_induct [where P = "\<lambda>s m p. mux_frame_rel s (fst p)", rotated])
    (auto simp: bind_eq_Some_conv split: option.splits exec.splits,
      (blast intro: frame_trans frame_queue frame_no_route)+)

lemma trace_continue_cases:
  "trace_continue m my p = Some (t, r) \<Longrightarrow> t = fst p \<or> route_message (fst p) m = Some (t, r)"
  by (auto simp: trace_continue_def split: exec.splits if_splits)

lemma process_data_message_cases:
  assumes "process_data_message s m = Some (t, r)" "generate_message_id s = (i, s1)"
  shows "t = s \<or> t = s1 \<or> route_message s m = Some (t, r)
    \<or> (\<exists>q p. route_message s1 q = Some p \<and> (t = fst p \<or> route_message (fst p) m = Some (t, r)))"
proof -
  have "\<exists>q p. route_message s1 q = Some p \<and> (t = fst p \<or> route_message (fst p) m = Some (t, r))"
    if "Option.bind (route_message s1 q) (trace_continue m my) = Some (t, r)" for q my
    using that trace_continue_cases by (fastforce simp: bind_eq_Some_conv)
  then show ?thesis
    using assms unfolding process_data_message_def
    by (auto split: exec.splits if_splits)
qed

lemma frame_process:
  assumes "process_data_message s m = Some (t, r)"
  shows "mux_frame_rel s t"
proof -
  obtain i s1 where g: "generate_message_id s = (i, s1)" by fastforce
  have "mux_frame_rel s s1" using frame_generate [of s] g by simp
  with process_data_message_cases [OF assms g] show ?thesis
    using frame_route frame_trans frame_refl by (metis fst_conv)
qed

section \<open>Invariant of the host\<close>

text \<open>
  An entry of the route table is usable when it is local, or when it names the connection it was
  registered for, under that connection's key, with an existing channel and hop count 1.
\<close>

definition usable :: "mux \<Rightarrow> string \<times> next_hop \<Rightarrow> bool" where
  "usable s e \<longleftrightarrow>
     (case nh_type (snd e) of
        NhLocal \<Rightarrow> True
      | NhRemote \<Rightarrow>
          (case (nh_conn_info (snd e), conn_proxy (snd e)) of
             (Some ci, Some c) \<Rightarrow> route_key ci = fst e \<and> chans s c \<noteq> None \<and> hop_count (snd e) = 1
           | _ \<Rightarrow> False))"

definition mux_inv :: "mux \<Rightarrow> bool" where
  "mux_inv s \<longleftrightarrow>
     distinct (map fst (routes s)) \<and> (\<forall>e \<in> set (routes s). usable s e) \<and> chans_bounded s"

lemma mux_inv_frame: "mux_inv s \<Longrightarrow> mux_frame_rel s t \<Longrightarrow> mux_inv t"
proof -
  assume inv: "mux_inv s" and fr: "mux_frame_rel s t"
  have "usable t e" if "usable s e" for e
    using fr that
    by (auto simp: mux_frame_rel_def usable_def dom_def set_eq_iff
        split: next_hop_type.splits option.splits)
  with inv fr show ?thesis
    by (auto simp: mux_inv_def mux_frame_rel_def same_tables_def)
qed

lemma mux_inv_update:
  assumes "mux_inv s" "usable s (k, nh)"
  shows "mux_inv (update_route s k nh)"
proof -
  have u: "usable (update_route s k nh) e = usable s e" for e
    by (simp add: usable_def split: next_hop_type.splits option.splits)
  have "set (routes (update_route s k nh)) \<subseteq> insert (k, nh) (set (routes s))"
    using set_update_subset [of k nh "routes s"]
    by (auto simp: update_route_def split: option.splits if_splits)
  moreover have "chans_bounded (update_route s k nh) = chans_bounded s"
    by (simp add: chans_bounded_def)
  ultimately show ?thesis
    using assms routes_distinct_update [of s k nh] by (auto simp: mux_inv_def u)
qed

lemma mux_inv_unregister: "mux_inv s \<Longrightarrow> mux_inv (unregister s ci)"
  using distinct_keys_delete [of "routes s" "route_key ci"]
  by (auto simp: mux_inv_def unregister_def usable_def chans_bounded_def AList.delete_eq
      split: next_hop_type.splits option.splits)

lemma mux_inv_chan_update:
  "mux_inv s \<Longrightarrow> chan16 ch \<Longrightarrow> mux_inv (s\<lparr>chans := (chans s)(c \<mapsto> ch)\<rparr>)"
  by (auto simp: mux_inv_def chans_bounded_def usable_def
      split: next_hop_type.splits option.splits)

lemma mux_inv_chan16: "mux_inv s \<Longrightarrow> chans s c = Some ch \<Longrightarrow> chan16 ch"
  by (simp add: mux_inv_def chans_bounded_def)

lemma mux_inv_new_chan:
  "mux_inv s \<Longrightarrow> mux_inv (s\<lparr>chans := (chans s)(c \<mapsto> new_chan 16)\<rparr>)"
  by (rule mux_inv_chan_update) (simp_all add: chan16_def new_chan_def chan_inv_def)

lemma mux_inv_set_my_routes: "mux_inv s \<Longrightarrow> mux_inv (set_my_routes s rs)"
proof (induction s rs rule: set_my_routes.induct)
  case (2 s r rs)
  have "mux_inv (t\<lparr>my_routes := x\<rparr>) = mux_inv t" for t x
    by (simp add: mux_inv_def usable_def chans_bounded_def split: next_hop_type.splits option.splits)
  moreover have "usable s (k, new_local)" for k
    by (simp add: usable_def new_local_def)
  ultimately show ?case
    using 2 mux_inv_update [OF 2(2), of _ new_local] by (auto simp: Let_def)
qed simp

lemma mux_inv_deliver: "mux_inv s \<Longrightarrow> mux_inv (deliver s c)"
  using mux_inv_chan16 [of s c]
  by (auto simp: deliver_def chan16_def chan_inv_def intro!: mux_inv_chan_update
      split: option.splits)

lemma mux_inv_close: "mux_inv s \<Longrightarrow> mux_inv (close_receiver s c)"
  using mux_inv_chan16 [of s c]
  by (auto simp: close_receiver_def chan16_def chan_inv_def intro!: mux_inv_chan_update
      split: option.splits)

lemma hmux_start_connect_task [simp]: "hmux (start_connect_task h ci) = hmux h"
  by (simp add: start_connect_task_def)

lemma hmux_conn_lost [simp]: "hmux (conn_lost h ci) = hmux h"
  by (simp add: conn_lost_def Let_def)

lemma add_my_routes_frame [simp]:
  "hmux (foldl add_my_route h rs) = hmux h" "pending (foldl add_my_route h rs) = pending h"
  by (induction rs arbitrary: h) (simp_all add: add_my_route_def)

lemma add_peers_frame [simp]:
  "hmux (fst (add_peers h ps)) = hmux h \<and> pending (fst (add_peers h ps)) = pending h"
proof (induction h ps rule: add_peers.induct)
  case (2 h p ps)
  have "hmux (fst (add_peer h p)) = hmux h \<and> pending (fst (add_peer h p)) = pending h"
    by (simp add: add_peer_def start_connect_task_def split: list.splits)
  with 2 show ?case
    by (cases "add_peer h p"; cases "snd (add_peer h p)") auto
qed simp

text \<open>The host invariant adds that the channel of a pending connection exists.\<close>

definition host_inv :: "host \<Rightarrow> bool" where
  "host_inv h \<longleftrightarrow>
     mux_inv (hmux h) \<and> (\<forall>conn \<in> set (pending h). send_queue_tx conn \<in> dom (chans (hmux h)))"

lemma host_inv_start_worker:
  assumes "host_inv h"
  shows "host_inv (fst (start_worker_task h ci))"
  using assms mux_inv_new_chan [of "hmux h" "Suc (fresh h)"]
  by (auto simp: host_inv_def start_worker_task_def Let_def)

lemma host_inv_establish:
  assumes "host_inv h" "conn \<in> set (pending h)"
  shows "host_inv (establish h conn)"
proof -
  have "usable (hmux h) (route_key (info conn), new_remote (info conn) (send_queue_tx conn) 1)"
    using assms by (auto simp: host_inv_def usable_def new_remote_def dom_def)
  then show ?thesis
    using assms
    by (auto simp: host_inv_def establish_def conn_established_def register_def
        intro!: mux_inv_update dest: notin_set_remove1)
qed

lemma host_inv_hmux:
  "host_inv h \<Longrightarrow> mux_inv s \<Longrightarrow> dom (chans s) = dom (chans (hmux h)) \<Longrightarrow> pending h' = pending h
    \<Longrightarrow> hmux h' = s \<Longrightarrow> host_inv h'"
  by (simp add: host_inv_def)

lemma pending_frames [simp]:
  "pending (start_connect_task h ci) = pending h" "pending (conn_lost h ci) = pending h"
  "pending (worker_exit h conn e) = pending h" "pending (store_shutdown h) = pending h"
  by (simp_all add: start_connect_task_def conn_lost_def worker_exit_def store_shutdown_def Let_def
      split: worker_end.splits)

lemma dom_chans_frames [simp]:
  "dom (chans (deliver s c)) = dom (chans s)" "dom (chans (close_receiver s c)) = dom (chans s)"
  "dom (chans (unregister s ci)) = dom (chans s)"
  by (auto simp: deliver_def close_receiver_def unregister_def split: option.splits)

lemma hmux_worker_exit [simp]: "hmux (worker_exit h conn e) = unregister (hmux h) (info conn)"
  by (simp add: worker_exit_def Let_def split: worker_end.splits)

lemma host_step_inv: "host_step h e h' \<Longrightarrow> host_inv h \<Longrightarrow> host_inv h'"
proof (induction rule: host_step.induct)
  case (accept h addr p t)
  then show ?case
    using host_inv_start_worker [of h]
    by (auto simp: accept_stream_def split: option.splits exec.splits)
next
  case (connect_turn ct h ok)
  let ?h = "h\<lparr>connect_tasks := remove1 ct (connect_tasks h)\<rparr>"
  have "host_inv ?h" "host_inv (?h\<lparr>connect_tasks := x\<rparr>)" for x
    using connect_turn by (simp_all add: host_inv_def)
  then show ?case
    using host_inv_start_worker [of ?h "ct_info ct"]
    by (auto simp: connect_task_step_def Let_def split: connect_phase.splits)
next
  case (receive conn h m s' r)
  then show ?case
    using frame_process [of "hmux h" m s' r] mux_inv_frame [of "hmux h" s']
    by (auto simp: host_inv_def mux_frame_rel_def)
next
  case (receive_panic conn h m s')
  then show ?case
    using frame_process [of "hmux h" m s' Panic] mux_inv_frame [of "hmux h" s']
    by (auto simp: host_inv_def mux_frame_rel_def)
next
  case (establish conn h)
  then show ?case by (simp add: host_inv_establish)
qed (auto simp: host_inv_def store_shutdown_def mux_inv_deliver mux_inv_close mux_inv_unregister)

lemma reachable_inv: "reachable h \<Longrightarrow> host_inv h"
proof (induction rule: reachable.induct)
  case (started t rs ps h)
  have "mux_inv (new_mux t)"
    by (simp add: mux_inv_def new_mux_def chans_bounded_def)
  then have "mux_inv (hmux (fst (service_start (new_host t) rs ps)))"
    by (auto simp: service_start_def new_host_def mux_inv_set_my_routes)
  moreover have "pending (fst (service_start (new_host t) rs ps)) = []"
    by (simp add: service_start_def new_host_def)
  ultimately show ?case using started by (simp add: host_inv_def)
qed (rule host_step_inv)

text \<open>Tokens and channels are handed out once: everything in use is below \<open>fresh\<close>.\<close>

definition used :: "host \<Rightarrow> nat set" where
  "used h = set (cancelled h) \<union> (tracker_token \<circ> snd) ` set (connections h)
     \<union> shutdown_ct ` (set (pending h) \<union> set (workers h)) \<union> dom (chans (hmux h))"

definition fresh_inv :: "host \<Rightarrow> bool" where
  "fresh_inv h \<longleftrightarrow> (\<forall>t \<in> used h. t < fresh h) \<and> distinct (workers h)"

lemma fresh_invI:
  "fresh_inv h \<Longrightarrow> used h' \<subseteq> used h \<union> {fresh h..<fresh h'} \<Longrightarrow> fresh h \<le> fresh h'
    \<Longrightarrow> distinct (workers h') \<Longrightarrow> fresh_inv h'"
  by (fastforce simp: fresh_inv_def)

lemma fresh_inv_frame:
  "fresh_inv h \<Longrightarrow> used h' \<subseteq> used h \<Longrightarrow> fresh h' = fresh h \<Longrightarrow> distinct (workers h') \<Longrightarrow> fresh_inv h'"
  by (auto simp: fresh_inv_def)

lemma fresh_inv_distinct: "fresh_inv h \<Longrightarrow> distinct (workers h)"
  by (simp add: fresh_inv_def)

lemma fresh_inv_start_connect:
  assumes "fresh_inv h"
  shows "fresh_inv (start_connect_task h ci)"
  using assms fresh_inv_distinct [OF assms]
    set_update_subset [of ci "TrackTask (fresh h)" "connections h"]
  by (elim fresh_invI) (auto simp: used_def start_connect_task_def)

lemma fresh_inv_conn_lost: "fresh_inv h \<Longrightarrow> fresh_inv (conn_lost h ci)"
proof -
  assume inv: "fresh_inv h"
  then have "fresh_inv (h\<lparr>connections := AList.delete ci (connections h)\<rparr>)"
    using fresh_inv_distinct [OF inv]
    by (elim fresh_inv_frame) (auto simp: used_def AList.delete_eq)
  then show ?thesis by (simp add: conn_lost_def Let_def fresh_inv_start_connect)
qed

lemma fresh_inv_start_worker:
  assumes "fresh_inv h"
  shows "fresh_inv (fst (start_worker_task h ci))"
proof -
  have "\<lparr>info = ci, shutdown_ct = fresh h, send_queue_tx = n\<rparr> \<notin> set (workers h)" for n
    using assms by (force simp: fresh_inv_def used_def)
  then show ?thesis
    using assms fresh_inv_distinct [OF assms]
    by (elim fresh_invI) (auto simp: used_def start_worker_task_def Let_def)
qed

lemma fresh_inv_establish:
  assumes "fresh_inv h" "conn \<in> set (pending h)"
  shows "fresh_inv (establish h conn)"
  using assms set_update_subset [of "info conn" "TrackConn conn" "connections h"]
    set_remove1_subset [of conn "pending h"] fresh_inv_distinct [OF assms(1)]
  by (elim fresh_inv_frame) (auto simp: used_def establish_def conn_established_def register_def)

lemma fresh_inv_routed:
  assumes "fresh_inv h" "dom (chans s) = dom (chans (hmux h))"
  shows "fresh_inv (h\<lparr>hmux := s, workers := remove1 conn (workers h)\<rparr>)" "fresh_inv (h\<lparr>hmux := s\<rparr>)"
  using assms set_remove1_subset [of conn "workers h"]
  by (auto simp: fresh_inv_def used_def intro: distinct_remove1)

lemma fresh_inv_connect_tasks [simp]: "fresh_inv (h\<lparr>connect_tasks := x\<rparr>) = fresh_inv h"
  by (simp add: fresh_inv_def used_def)

lemma fresh_inv_step: "host_step h e h' \<Longrightarrow> fresh_inv h \<Longrightarrow> fresh_inv h'"
proof (induction rule: host_step.induct)
  case (accept h addr p t)
  then show ?case
    by (auto simp: accept_stream_def fresh_inv_start_worker split: option.splits exec.splits)
next
  case (connect_turn ct h ok)
  then show ?case
    by (auto simp: connect_task_step_def Let_def fresh_inv_start_worker split: connect_phase.splits)
next
  case (receive conn h m s' r)
  then show ?case
    using frame_process [of "hmux h" m s' r] by (simp add: fresh_inv_routed mux_frame_rel_def)
next
  case (receive_panic conn h m s')
  then show ?case
    using frame_process [of "hmux h" m s' Panic] by (simp add: fresh_inv_routed mux_frame_rel_def)
next
  case (worker_end conn h e)
  have "fresh_inv (h\<lparr>hmux := unregister (hmux h) (info conn), workers := remove1 conn (workers h)\<rparr>)"
    using worker_end by (simp add: fresh_inv_routed)
  then show ?case
    by (simp add: worker_exit_def Let_def fresh_inv_conn_lost split: worker_end.splits)
next
  case (store_shutdown h)
  then show ?case
    using fresh_inv_distinct [OF store_shutdown]
    by (elim fresh_inv_frame) (auto simp: store_shutdown_def used_def)
qed (simp_all add: fresh_inv_establish fresh_inv_routed)

lemma fresh_inv_add_peers: "fresh_inv h \<Longrightarrow> fresh_inv (fst (add_peers h ps))"
proof (induction h ps rule: add_peers.induct)
  case (2 h p ps)
  have "fresh_inv (fst (add_peer h p))"
    using 2(2) by (simp add: add_peer_def fresh_inv_start_connect split: list.splits)
  with 2 show ?case
    by (cases "add_peer h p"; cases "snd (add_peer h p)") auto
qed simp

lemma fresh_inv_add_my_routes: "fresh_inv h \<Longrightarrow> fresh_inv (foldl add_my_route h rs)"
  by (induction rs arbitrary: h) (simp_all add: add_my_route_def fresh_inv_def used_def)

lemma reachable_fresh: "reachable h \<Longrightarrow> fresh_inv h"
proof (induction rule: reachable.induct)
  case (started t rs ps h)
  have "fresh_inv (fst (service_start (new_host t) rs ps))"
    by (auto simp: service_start_def new_host_def intro!: fresh_inv_add_peers fresh_inv_add_my_routes)
      (simp_all add: fresh_inv_def used_def new_mux_def)
  with started show ?case by simp
qed (rule fresh_inv_step)

section \<open>What holds of a running daemon\<close>

lemma export_entries_ok:
  "\<forall>e \<in> set es. nh_conn_info (snd e) \<noteq> None \<Longrightarrow> \<exists>rs. export_entries es = Ok rs \<and> length rs = length es"
proof (induction es)
  case (Cons e es)
  then show ?case by (auto simp: export_entry_def from_string_def Let_def)
qed simp

lemma usable_exports: "\<forall>e \<in> set (routes s). usable s e \<Longrightarrow> \<exists>es. export_routes s sc = Ok es"
proof -
  assume u: "\<forall>e \<in> set (routes s). usable s e"
  have "\<forall>e \<in> set (filter (export_filter sc) (routes s)). nh_conn_info (snd e) \<noteq> None"
    using u by (auto simp: usable_def export_filter_def split: next_hop_type.splits option.splits if_splits)
  from export_entries_ok [OF this] show ?thesis by (auto simp: export_routes_def)
qed

lemma mux_inv_remote:
  assumes "mux_inv s" "map_of (routes s) k = Some nh" "nh_type nh = NhRemote"
  shows "\<exists>ci c ch. nh = new_remote ci c 1 \<and> route_key ci = k \<and> chans s c = Some ch
    \<and> length (queue ch) \<le> 16"
proof -
  have "usable s (k, nh)"
    using assms map_of_SomeD [OF assms(2)] by (simp add: mux_inv_def)
  then obtain ci c ch where c: "nh_conn_info nh = Some ci" "conn_proxy nh = Some c"
      "route_key ci = k" "chans s c = Some ch" "hop_count nh = 1"
    using assms(3) by (auto simp: usable_def split: option.splits)
  moreover have "length (queue ch) \<le> 16"
    using mux_inv_chan16 [OF assms(1) c(4)] by (simp add: chan16_def chan_inv_def)
  moreover have "nh = new_remote ci c 1"
    using assms(3) c by (cases nh) (simp add: new_remote_def)
  ultimately show ?thesis by blast
qed

text \<open>
  (C3) In every state that a started daemon can reach, however connections come, go, panic and are
  shut down, the keys of the route table are distinct, every remote next hop names the connection
  it was registered for under that connection's own key and has a channel with at most 16 queued
  messages, and exporting the routes does not panic.
\<close>

theorem reachable_routes_usable:
  assumes "reachable h"
  shows "distinct (map fst (routes (hmux h)))
    \<and> (\<exists>es. export_routes (hmux h) sc = Ok es)
    \<and> (\<forall>k nh. map_of (routes (hmux h)) k = Some nh \<longrightarrow> nh_type nh = NhRemote \<longrightarrow>
        (\<exists>ci c ch. nh = new_remote ci c 1 \<and> route_key ci = k \<and> chans (hmux h) c = Some ch
          \<and> length (queue ch) \<le> 16))"
proof (intro conjI allI impI)
  have inv: "mux_inv (hmux h)"
    using reachable_inv [OF assms] by (simp add: host_inv_def)
  then show "distinct (map fst (routes (hmux h)))"
    by (simp add: mux_inv_def)
  show "\<exists>es. export_routes (hmux h) sc = Ok es"
    using inv by (intro usable_exports) (simp add: mux_inv_def)
  show "\<exists>ci c ch. nh = new_remote ci c 1 \<and> route_key ci = k \<and> chans (hmux h) c = Some ch
        \<and> length (queue ch) \<le> 16"
    if "map_of (routes (hmux h)) k = Some nh" "nh_type nh = NhRemote" for k nh
    using inv that by (rule mux_inv_remote)
qed

definition demo_peer :: peer_config where
  "demo_peer = \<lparr>pc_id = demo_sp ''n2'', pc_endpoint = \<lparr>sock_ip = ''10.0.0.2'', sock_port = 8080\<rparr>,
     pc_conn_type = ConnCluster\<rparr>"

definition demo_host :: host where
  "demo_host = fst (service_start (new_host 100)
     [\<lparr>rc_key = demo_sp ''n1'', rc_scope = ScopeCluster\<rparr>] [demo_peer])"

definition demo_task :: "connect_phase \<Rightarrow> connect_task" where
  "demo_task ph = \<lparr>ct_info = demo_conn, ct_token = 0, ct_phase = ph\<rparr>"

text \<open>The peer's task has checked its token, and has connected.\<close>

definition demo_connecting :: host where
  "demo_connecting = connect_task_step demo_host (demo_task Checking) False"

definition demo_pending :: host where
  "demo_pending = connect_task_step demo_connecting (demo_task Connecting) True"

definition demo_swbus_conn :: swbus_conn where
  "demo_swbus_conn = \<lparr>info = demo_conn, shutdown_ct = 1, send_queue_tx = 2\<rparr>"

lemmas demo_host_defs = demo_host_def demo_connecting_def demo_pending_def demo_task_def
  service_start_def new_host_def add_my_route_def add_peer_def start_connect_task_def
  demo_peer_def demo_conn_def connect_task_step_def start_worker_task_def demo_swbus_conn_def

lemma demo_service_start: "service_start (new_host 100)
    [\<lparr>rc_key = demo_sp ''n1'', rc_scope = ScopeCluster\<rparr>] [demo_peer] = (demo_host, Ok ())"
  by (simp add: demo_host_defs)

lemma demo_tasks: "demo_task Checking \<in> set (connect_tasks demo_host)"
    "demo_task Connecting \<in> set (connect_tasks demo_connecting)"
  by (simp_all add: demo_host_defs)

lemma demo_reachable: "reachable demo_host" "reachable demo_connecting" "reachable demo_pending"
proof -
  show "reachable demo_host" by (rule started) (rule demo_service_start)
  then show "reachable demo_connecting"
    unfolding demo_connecting_def by (rule step) (rule connect_turn [OF demo_tasks(1)])
  then show "reachable demo_pending"
    unfolding demo_pending_def by (rule step) (rule connect_turn [OF demo_tasks(2)])
qed

lemma demo_live: "demo_swbus_conn \<in> set (workers demo_pending)"
    "demo_swbus_conn \<in> set (pending demo_pending)"
  by (simp_all add: demo_host_defs Let_def)

theorem reachable_routes_usable_witness:
  "reachable demo_pending \<and> (\<exists>es. export_routes (hmux demo_pending) None = Ok es)"
  using reachable_routes_usable [OF demo_reachable(3)] demo_reachable(3) by simp

section \<open>Losing and restoring connections\<close>

lemma establish_routes:
  "map_of (routes (hmux h)) (route_key (info conn)) = None \<Longrightarrow>
    map_of (routes (hmux (establish h conn))) (route_key (info conn))
      = Some (new_remote (info conn) (send_queue_tx conn) 1)"
  by (simp add: establish_def conn_established_def register_def update_route_def alist_simps)

lemma worker_exit_routes:
  "map_of (routes (hmux (worker_exit h conn e))) (route_key (info conn)) = None"
  by (simp add: unregister_def alist_simps)

lemma worker_exit_client:
  assumes "conn_mode (info conn) = ModeClient"
  shows "map_of (connections (worker_exit h conn StreamError)) (info conn) = Some (TrackTask (fresh h))"
    and "\<lparr>ct_info = info conn, ct_token = fresh h, ct_phase = Checking\<rparr>
      \<in> set (connect_tasks (worker_exit h conn StreamError))"
    and "cancelled (worker_exit h conn StreamError) = cancelled h"
  using assms
  by (simp_all add: worker_exit_def conn_lost_def start_connect_task_def Let_def alist_simps)

lemma connect_path:
  assumes "ct \<in> set (connect_tasks h)" "ct_phase ct = Connecting"
    and "map_of (routes (hmux h)) (route_key (ct_info ct)) = None"
  defines "conn \<equiv> \<lparr>info = ct_info ct, shutdown_ct = fresh h, send_queue_tx = Suc (fresh h)\<rparr>"
  shows "\<exists>h1 h2. host_step h (ConnectTurn ct True) h1 \<and> host_step h1 (Establish conn) h2
    \<and> conn \<in> set (workers h2) \<and> cancelled h2 = cancelled h
    \<and> map_of (connections h2) (ct_info ct) = Some (TrackConn conn)
    \<and> map_of (routes (hmux h2)) (route_key (ct_info ct)) = Some (new_remote (ct_info ct) (Suc (fresh h)) 1)
    \<and> chans (hmux h2) (Suc (fresh h)) = Some (new_chan 16)"
proof -
  let ?h1 = "connect_task_step h ct True"
  let ?h2 = "establish ?h1 conn"
  have h1: "workers ?h1 = workers h @ [conn]" "pending ?h1 = pending h @ [conn]"
    "cancelled ?h1 = cancelled h" "routes (hmux ?h1) = routes (hmux h)"
    "chans (hmux ?h1) (Suc (fresh h)) = Some (new_chan 16)"
    using assms(2) by (simp_all add: connect_task_step_def start_worker_task_def Let_def conn_def)
  have "map_of (routes (hmux ?h2)) (route_key (info conn)) = Some (new_remote (info conn) (send_queue_tx conn) 1)"
    using assms(3) h1 by (intro establish_routes) (simp add: conn_def)
  moreover have "host_step h (ConnectTurn ct True) ?h1" "host_step ?h1 (Establish conn) ?h2"
    using assms(1) h1 by (auto intro: connect_turn establish)
  ultimately show ?thesis
    using h1 by (intro exI [of _ ?h1] exI [of _ ?h2])
      (auto simp: conn_def establish_def conn_established_def register_def alist_simps)
qed

text \<open>A sequence of steps with its events.\<close>

fun host_path :: "host \<Rightarrow> host_event list \<Rightarrow> host \<Rightarrow> bool" where
  "host_path h [] h' \<longleftrightarrow> h' = h"
| "host_path h (ev # evs) h' \<longleftrightarrow> (\<exists>h1. host_step h ev h1 \<and> host_path h1 evs h')"

lemma host_path_append: "host_path h (xs @ ys) h' \<longleftrightarrow> (\<exists>h1. host_path h xs h1 \<and> host_path h1 ys h')"
  by (induction xs arbitrary: h) auto

lemma host_path_reachable: "host_path h evs h' \<Longrightarrow> reachable h \<Longrightarrow> reachable h'"
  by (induction evs arbitrary: h) (auto intro: reachable.step)

lemma connect_attempt_starts:
  assumes "ct \<in> set (connect_tasks h)" "ct_phase ct = Checking" "ct_token ct \<notin> set (cancelled h)"
  shows "\<exists>h'. host_step h (ConnectTurn ct b) h' \<and> ct\<lparr>ct_phase := Connecting\<rparr> \<in> set (connect_tasks h') \<and>
    hmux h' = hmux h \<and> cancelled h' = cancelled h"
  using assms connect_turn [OF assms(1), of b]
  by (intro exI [of _ "connect_task_step h ct b"]) (auto simp: connect_task_step_def Let_def)

lemma connect_attempt_fails:
  assumes "ct\<lparr>ct_phase := Connecting\<rparr> \<in> set (connect_tasks h)" "ct_phase ct = Checking"
  shows "\<exists>h'. host_step h (ConnectTurn (ct\<lparr>ct_phase := Connecting\<rparr>) False) h' \<and> ct \<in> set (connect_tasks h') \<and>
    hmux h' = hmux h \<and> cancelled h' = cancelled h"
proof -
  let ?h = "connect_task_step h (ct\<lparr>ct_phase := Connecting\<rparr>) False"
  have "ct\<lparr>ct_phase := Checking\<rparr> = ct" using assms(2) by (cases ct) simp
  then have "ct \<in> set (connect_tasks ?h)" "hmux ?h = hmux h" "cancelled ?h = cancelled h"
    by (simp_all add: connect_task_step_def Let_def)
  with connect_turn [OF assms(1), of False] show ?thesis by blast
qed

lemma failed_attempts:
  assumes "ct \<in> set (connect_tasks h)" "ct_phase ct = Checking" "ct_token ct \<notin> set (cancelled h)"
  shows "\<exists>h'. host_path h (concat (replicate n [ConnectTurn ct False, ConnectTurn (ct\<lparr>ct_phase := Connecting\<rparr>) False])) h' \<and>
    ct \<in> set (connect_tasks h') \<and> hmux h' = hmux h \<and> cancelled h' = cancelled h"
  using assms
proof (induction n arbitrary: h)
  case (Suc n)
  obtain h1 where h1: "host_step h (ConnectTurn ct False) h1" "ct\<lparr>ct_phase := Connecting\<rparr> \<in> set (connect_tasks h1)"
    "hmux h1 = hmux h" "cancelled h1 = cancelled h" using connect_attempt_starts [OF Suc.prems] by blast
  obtain h2 where "host_step h1 (ConnectTurn (ct\<lparr>ct_phase := Connecting\<rparr>) False) h2" "ct \<in> set (connect_tasks h2)"
    "hmux h2 = hmux h1" "cancelled h2 = cancelled h1" using connect_attempt_fails [OF h1(2) Suc.prems(2)] by blast
  with Suc.IH [of h2] h1 Suc.prems show ?case by fastforce
qed simp

text \<open>
  (C34) A client connection whose stream fails or closes can be restored after any number of failed attempts. The end of
  its worker withdraws the route and leaves an uncancelled connect task in the store. When this task runs on, every failed
  attempt is followed by another one, and after the first that connects and is entered in the table, the key of the route
  leads to a new connection to the same peer over a new empty queue. This is the schedule in which no other task comes in between.
  A worker that ends with a panic starts no connect task, and a connection that is entered late leaves a dead route.
\<close>

theorem lost_client_reconnects:
  assumes "reachable h" "conn \<in> set (workers h)" "conn_mode (info conn) = ModeClient"
  shows "\<exists>ct conn' h1 h2. host_step h (WorkerEnd conn StreamError) h1
    \<and> map_of (routes (hmux h1)) (route_key (info conn)) = None
    \<and> map_of (connections h1) (info conn) = Some (TrackTask (ct_token ct)) \<and> ct_token ct \<notin> set (cancelled h1)
    \<and> host_path h1
        (concat (replicate n [ConnectTurn ct False, ConnectTurn (ct\<lparr>ct_phase := Connecting\<rparr>) False])
         @ [ConnectTurn ct False, ConnectTurn (ct\<lparr>ct_phase := Connecting\<rparr>) True, Establish conn']) h2
    \<and> info conn' = info conn \<and> conn' \<in> set (workers h2)
    \<and> map_of (routes (hmux h2)) (route_key (info conn)) = Some (new_remote (info conn) (send_queue_tx conn') 1)
    \<and> chans (hmux h2) (send_queue_tx conn') = Some (new_chan 16)"
proof -
  let ?h1 = "worker_exit h conn StreamError"
  let ?ct = "\<lparr>ct_info = info conn, ct_token = fresh h, ct_phase = Checking\<rparr>"
  have s1: "host_step h (WorkerEnd conn StreamError) ?h1"
    using assms(2) by (intro worker_end) simp_all
  have c1: "ct_token ?ct \<notin> set (cancelled ?h1)"
    using reachable_fresh [OF assms(1)] worker_exit_client(3) [OF assms(3)] by (auto simp: fresh_inv_def used_def)
  obtain h2 where h2: "host_path ?h1 (concat (replicate n [ConnectTurn ?ct False, ConnectTurn (?ct\<lparr>ct_phase := Connecting\<rparr>) False])) h2"
    "?ct \<in> set (connect_tasks h2)" "hmux h2 = hmux ?h1" "cancelled h2 = cancelled ?h1"
    using failed_attempts [OF worker_exit_client(2) [OF assms(3)] _ c1] by auto
  obtain h3 where h3: "host_step h2 (ConnectTurn ?ct False) h3" "?ct\<lparr>ct_phase := Connecting\<rparr> \<in> set (connect_tasks h3)"
    "hmux h3 = hmux h2" using connect_attempt_starts [OF h2(2)] c1 h2(4) by force
  let ?conn = "\<lparr>info = info conn, shutdown_ct = fresh h3, send_queue_tx = Suc (fresh h3)\<rparr>"
  have "map_of (routes (hmux h3)) (route_key (ct_info (?ct\<lparr>ct_phase := Connecting\<rparr>))) = None"
    using worker_exit_routes [of h conn StreamError] h2(3) h3(3) by simp
  from connect_path [OF h3(2) _ this] obtain h4 h5 where
    "host_step h3 (ConnectTurn (?ct\<lparr>ct_phase := Connecting\<rparr>) True) h4" "host_step h4 (Establish ?conn) h5"
    "?conn \<in> set (workers h5)" "map_of (routes (hmux h5)) (route_key (info conn)) = Some (new_remote (info conn) (Suc (fresh h3)) 1)"
    "chans (hmux h5) (Suc (fresh h3)) = Some (new_chan 16)"
    by auto
  with s1 c1 h2(1) h3(1) show ?thesis
    using worker_exit_routes [of h conn StreamError] worker_exit_client(1) [OF assms(3)]
    by (intro exI [of _ ?ct] exI [of _ ?conn] exI [of _ ?h1] exI [of _ h5]) (auto simp: host_path_append)
qed

theorem lost_client_reconnects_witness:
  "\<exists>h1 evs h2 c. host_step demo_pending (WorkerEnd demo_swbus_conn StreamError) h1
    \<and> map_of (routes (hmux h1)) (route_key demo_conn) = None \<and> host_path h1 evs h2 \<and> length evs = 7
    \<and> map_of (routes (hmux h2)) (route_key demo_conn) = Some (new_remote demo_conn c 1)"
proof -
  have "conn_mode (info demo_swbus_conn) = ModeClient" "info demo_swbus_conn = demo_conn"
    by (simp_all add: demo_swbus_conn_def demo_conn_def new_client_def)
  then obtain ct conn' h1 h2 where h: "host_step demo_pending (WorkerEnd demo_swbus_conn StreamError) h1"
    "map_of (routes (hmux h1)) (route_key demo_conn) = None"
    "host_path h1 (concat (replicate 2 [ConnectTurn ct False, ConnectTurn (ct\<lparr>ct_phase := Connecting\<rparr>) False])
         @ [ConnectTurn ct False, ConnectTurn (ct\<lparr>ct_phase := Connecting\<rparr>) True, Establish conn']) h2"
    "map_of (routes (hmux h2)) (route_key demo_conn) = Some (new_remote demo_conn (send_queue_tx conn') 1)"
    using lost_client_reconnects [OF demo_reachable(3) demo_live(1), of 2] by metis
  have "length (concat (replicate 2 [ConnectTurn ct False, ConnectTurn (ct\<lparr>ct_phase := Connecting\<rparr>) False])
         @ [ConnectTurn ct False, ConnectTurn (ct\<lparr>ct_phase := Connecting\<rparr>) True, Establish conn']) = 7"
    by (simp add: numeral_2_eq_2)
  with h show ?thesis by metis
qed

lemma register_key_taken:
  assumes "map_of (routes s) (route_key ci) = Some nh" "hop_count nh = 1"
  shows "register s ci p = s"
  using assms by (simp add: register_def update_route_def new_remote_def)

text \<open>
  A worker may end before \<open>conn_established\<close> runs for its connection. Then the dead connection is
  entered as the route of its key although no worker serves it, and from there on no registration
  for the key, the reconnected peer's included, can replace it.
\<close>

theorem late_establish_leaves_dead_route:
  assumes "reachable h" "conn \<in> set (workers h)" "conn \<in> set (pending h)"
  shows "\<exists>h1 h2. host_step h (WorkerEnd conn StreamError) h1 \<and> host_step h1 (Establish conn) h2
    \<and> conn \<notin> set (workers h2)
    \<and> map_of (routes (hmux h2)) (route_key (info conn)) = Some (new_remote (info conn) (send_queue_tx conn) 1)
    \<and> (\<forall>ci p. route_key ci = route_key (info conn) \<longrightarrow> register (hmux h2) ci p = hmux h2)"
proof -
  let ?h1 = "worker_exit h conn StreamError"
  let ?h2 = "establish ?h1 conn"
  have "workers ?h2 = remove1 conn (workers h)"
    by (simp add: establish_def conn_established_def worker_exit_def conn_lost_def
        start_connect_task_def Let_def)
  then have "conn \<notin> set (workers ?h2)"
    using reachable_fresh [OF assms(1)] by (simp add: fresh_inv_def)
  moreover have r: "map_of (routes (hmux ?h2)) (route_key (info conn))
      = Some (new_remote (info conn) (send_queue_tx conn) 1)"
    by (intro establish_routes worker_exit_routes)
  moreover have "register (hmux ?h2) ci p = hmux ?h2" if "route_key ci = route_key (info conn)" for ci p
    using r that register_key_taken [of "hmux ?h2" ci "new_remote (info conn) (send_queue_tx conn) 1"]
    by (simp add: new_remote_def)
  moreover have "host_step h (WorkerEnd conn StreamError) ?h1" "host_step ?h1 (Establish conn) ?h2"
    using assms by (auto intro: worker_end establish)
  ultimately show ?thesis by blast
qed

theorem late_establish_leaves_dead_route_witness:
  "\<exists>h1 h2. host_step demo_pending (WorkerEnd demo_swbus_conn StreamError) h1
    \<and> host_step h1 (Establish demo_swbus_conn) h2 \<and> demo_swbus_conn \<notin> set (workers h2)
    \<and> map_of (routes (hmux h2)) (route_key (info demo_swbus_conn))
        = Some (new_remote (info demo_swbus_conn) 2 1)"
  using late_establish_leaves_dead_route [OF demo_reachable(3) demo_live]
  by (auto simp: demo_swbus_conn_def)

text \<open>
  Two connections may claim the same key, for instance when a peer reconnects before its old
  connection is torn down. The first one keeps the route; the end of either removes the route of
  both, so the surviving connection is unreachable.
\<close>

theorem shared_key_route_lost:
  assumes "route_key (info a) = route_key (info b)" "a \<noteq> b" "b \<in> set (pending h)" "b \<in> set (workers h)"
    and "map_of (routes (hmux h)) (route_key (info a)) = Some (new_remote (info a) (send_queue_tx a) 1)"
    and "a \<in> set (workers h)"
  shows "\<exists>h1 h2. host_step h (Establish b) h1 \<and> hmux h1 = hmux h
    \<and> host_step h1 (WorkerEnd b StreamError) h2 \<and> a \<in> set (workers h2)
    \<and> map_of (routes (hmux h2)) (route_key (info a)) = None"
proof -
  let ?h1 = "establish h b"
  let ?h2 = "worker_exit ?h1 b StreamError"
  have w: "workers ?h1 = workers h" "workers ?h2 = remove1 b (workers ?h1)"
    by (simp_all add: establish_def conn_established_def worker_exit_def conn_lost_def
        start_connect_task_def Let_def)
  have "hmux ?h1 = hmux h"
    using register_key_taken [of "hmux h" "info b"] assms(1,5)
    by (simp add: establish_def conn_established_def new_remote_def)
  moreover have "host_step h (Establish b) ?h1" "host_step ?h1 (WorkerEnd b StreamError) ?h2"
    using assms(3,4) w(1) by (auto intro: establish worker_end)
  moreover have "a \<in> set (workers ?h2)"
    using w assms(2,6) by (simp add: in_set_remove1)
  moreover have "map_of (routes (hmux ?h2)) (route_key (info a)) = None"
    using worker_exit_routes [of ?h1 b StreamError] assms(1) by simp
  ultimately show ?thesis by blast
qed

text \<open>The peer has connected back to this node while the own connection to it is up.\<close>

definition demo_second :: swbus_conn where
  "demo_second = \<lparr>info = new_server ConnCluster \<lparr>sock_ip = ''10.0.0.2'', sock_port = 999\<rparr> (demo_sp ''n2''),
     shutdown_ct = 3, send_queue_tx = 4\<rparr>"

definition demo_twice :: host where
  "demo_twice = fst (start_worker_task (establish demo_pending demo_swbus_conn) (info demo_second))"

theorem shared_key_route_lost_witness:
  "\<exists>h1 h2. host_step demo_twice (Establish demo_second) h1 \<and> host_step h1 (WorkerEnd demo_second StreamError) h2
    \<and> demo_swbus_conn \<in> set (workers h2)
    \<and> map_of (routes (hmux h2)) (route_key (info demo_swbus_conn)) = None"
proof -
  have "map_of (routes (hmux demo_twice)) (route_key (info demo_swbus_conn))
      = Some (new_remote (info demo_swbus_conn) (send_queue_tx demo_swbus_conn) 1)"
    unfolding demo_twice_def using establish_routes [of demo_pending demo_swbus_conn]
    by (simp add: start_worker_task_def Let_def demo_host_defs demo_defs)
  moreover have "route_key (info demo_swbus_conn) = route_key (info demo_second)"
    by (simp add: demo_swbus_conn_def demo_second_def demo_defs new_server_def)
  moreover have "demo_second \<in> set (pending demo_twice)" "demo_second \<in> set (workers demo_twice)"
    "demo_swbus_conn \<in> set (workers demo_twice)" "demo_swbus_conn \<noteq> demo_second"
    unfolding demo_twice_def
    by (simp_all add: start_worker_task_def Let_def establish_def conn_established_def demo_second_def
        demo_host_defs)
  ultimately show ?thesis
    using shared_key_route_lost [of demo_swbus_conn demo_second demo_twice] by blast
qed

text \<open>
  Shutting the store down does not stop a task that is waiting for its connect attempt: when the
  peer answers afterwards, the daemon holds a new routed connection whose shutdown token is not
  cancelled.
\<close>

theorem connecting_survives_shutdown:
  assumes "reachable h" "ct \<in> set (connect_tasks h)" "ct_phase ct = Connecting"
    and "map_of (routes (hmux h)) (route_key (ct_info ct)) = None"
  shows "\<exists>h1 h2 h3 conn. host_step h StoreShutdown h1 \<and> connections h1 = []
    \<and> host_step h1 (ConnectTurn ct True) h2 \<and> host_step h2 (Establish conn) h3
    \<and> conn \<in> set (workers h3) \<and> shutdown_ct conn \<notin> set (cancelled h3)
    \<and> map_of (routes (hmux h3)) (route_key (ct_info ct)) = Some (new_remote (ct_info ct) (send_queue_tx conn) 1)"
proof -
  let ?h1 = "store_shutdown h"
  let ?c = "\<lparr>info = ct_info ct, shutdown_ct = fresh ?h1, send_queue_tx = Suc (fresh ?h1)\<rparr>"
  have s1: "host_step h StoreShutdown ?h1" and "connections ?h1 = []"
    by (rule host_step.store_shutdown) (simp add: store_shutdown_def)
  moreover have "fresh ?h1 \<notin> set (cancelled ?h1)"
    using reachable_fresh [OF reachable.step [OF assms(1) s1]] by (auto simp: fresh_inv_def used_def)
  moreover obtain h2 h3 where "host_step ?h1 (ConnectTurn ct True) h2" "host_step h2 (Establish ?c) h3"
    "?c \<in> set (workers h3)" "cancelled h3 = cancelled ?h1"
    "map_of (routes (hmux h3)) (route_key (ct_info ct)) = Some (new_remote (ct_info ct) (Suc (fresh ?h1)) 1)"
    using connect_path [of ct ?h1] assms(2-4) by (auto simp: store_shutdown_def)
  ultimately show ?thesis
    by (intro exI [of _ ?h1] exI [of _ h2] exI [of _ h3] exI [of _ ?c]) simp
qed

theorem connecting_survives_shutdown_witness:
  "\<exists>h1 h2 h3 conn. host_step demo_connecting StoreShutdown h1 \<and> connections h1 = []
    \<and> host_step h1 (ConnectTurn (demo_task Connecting) True) h2 \<and> host_step h2 (Establish conn) h3
    \<and> conn \<in> set (workers h3) \<and> shutdown_ct conn \<notin> set (cancelled h3)"
proof -
  have "map_of (routes (hmux demo_connecting)) (route_key demo_conn) = None"
    by (simp add: demo_host_defs demo_defs Let_def)
  then show ?thesis
    using connecting_survives_shutdown [OF demo_reachable(2) demo_tasks(2)]
    by (simp add: demo_task_def) blast
qed

section \<open>Trace route\<close>

lemma trace_answer:
  assumes "header m = Some h" "1 \<le> version h" "source h = Some src" "destination h = Some dest"
    and "body m = Some TraceRouteRequest" "get_my_service_path s = Ok my"
  defines "i \<equiv> next_id (id_generator s)"
  defines "resp \<equiv> new_message (new_header my src i) (Response \<lparr>request_id = msg_id h,
      error_code = code_num CodeOk, error_message = [], resp_body = None\<rparr>)"
  shows "process_data_message s m =
    Option.bind (route_message (s\<lparr>id_generator := (id_generator s)\<lparr>next_id := i + 1\<rparr>\<rparr>) resp)
      (trace_continue m my)"
proof -
  have "\<not> version h < 1" using assms(2) by (simp only: not_less)
  then show ?thesis
    using assms(1,3-6) unfolding i_def resp_def
    by (simp add: process_data_message_def validate_message_common_def generate_message_id_def
        generate_def new_response_def response_ok_def Let_def get_my_service_path_def)
qed

text \<open>
  (C6) A node that a trace route request passes reports itself and passes it on. For a request to another
  node whose TTL does not end here, when source and destination have remote next hops over two different
  connections with room in their queues, the daemon puts exactly two messages in queues: in that of the source an \<open>Ok\<close> response
  from the node's own path that carries the id of the request, and in that of the destination the request
  itself with its TTL decremented. No route changes.
\<close>

theorem trace_route_reports_and_forwards:
  assumes "header m = Some h" "1 \<le> version h" "source h = Some src" "destination h = Some dest"
    and "body m = Some TraceRouteRequest" "get_my_service_path s = Ok my" "dest \<noteq> my" "ttl h \<noteq> 1"
    and "find_route (routes s) (stage_keys src) = Some nh" "nh_type nh = NhRemote"
    and "conn_proxy nh = Some c" "chans s c = Some ch" "rx_open ch" "length (queue ch) < cap ch"
    and "find_route (routes s) (stage_keys dest) = Some nh'" "nh_type nh' = NhRemote"
    and "conn_proxy nh' = Some d" "chans s d = Some ch'" "rx_open ch'" "length (queue ch') < cap ch'"
    and "c \<noteq> d"
  shows "\<exists>s'. process_data_message s m = Some (s', Ok ()) \<and> routes s' = routes s \<and> chans s' = (chans s)
     (c \<mapsto> ch\<lparr>queue := queue ch @ [new_message
          ((new_header my src (next_id (id_generator s)))\<lparr>ttl := 63\<rparr>)
          (Response \<lparr>request_id = msg_id h, error_code = code_num CodeOk, error_message = [],
                     resp_body = None\<rparr>)]\<rparr>,
      d \<mapsto> ch'\<lparr>queue := queue ch' @ [m\<lparr>header := Some (h\<lparr>ttl := ttl h - 1\<rparr>)\<rparr>]\<rparr>)"
proof -
  let ?i = "next_id (id_generator s)"
  let ?s = "s\<lparr>id_generator := (id_generator s)\<lparr>next_id := ?i + 1\<rparr>\<rparr>"
  let ?rr = "Response \<lparr>request_id = msg_id h, error_code = code_num CodeOk, error_message = [],
    resp_body = None\<rparr>"
  let ?r = "new_message (new_header my src ?i) ?rr"
  let ?q = "queue ch @ [new_message ((new_header my src ?i)\<lparr>ttl := 63\<rparr>) ?rr]"
  let ?t = "?s\<lparr>chans := (chans s)(c \<mapsto> ch\<lparr>queue := ?q\<rparr>)\<rparr>"
  have r1: "route_message ?s ?r = Some (?t, Ok ())"
    using route_forward_step [of ?r "new_header my src ?i" src ?s nh c ch] assms(9-14)
    by (simp add: new_message_def new_header_def)
  have r2: "route_message ?t m = Some (?t\<lparr>chans := (chans ?t)(d \<mapsto>
      ch'\<lparr>queue := queue ch' @ [m\<lparr>header := Some (h\<lparr>ttl := ttl h - 1\<rparr>)\<rparr>]\<rparr>)\<rparr>, Ok ())"
    using route_forward_step [of m h dest ?t nh' d ch'] assms(1,4,8,15-21) by simp
  show ?thesis
    using trace_answer [OF assms(1-6)] r1 r2 assms(1,4,7) by (simp add: trace_continue_def)
qed

text \<open>The node of the examples with a second connection (channel 8) to node \<open>a.b.n3\<close>.\<close>

definition demo_mux2 :: mux where
  "demo_mux2 = register ((demo_mux 16)\<lparr>chans := (chans (demo_mux 16))(8 \<mapsto> new_chan 16)\<rparr>)
     (new_client ConnCluster \<lparr>sock_ip = ''10.0.0.3'', sock_port = 8080\<rparr> (demo_sp ''n3'') (demo_sp ''n1'')) 8"

theorem trace_route_reports_and_forwards_witness:
  "\<exists>s'. process_data_message demo_mux2
     (demo_msg (demo_svc ''n2'' ''x'') (demo_sp ''n3'') 9 TraceRouteRequest) = Some (s', Ok ()) \<and>
     map_option (map body \<circ> queue) (chans s' 8) = Some [Some TraceRouteRequest]"
  using trace_route_reports_and_forwards [of
      "demo_msg (demo_svc ''n2'' ''x'') (demo_sp ''n3'') 9 TraceRouteRequest"
      "(new_header (demo_svc ''n2'' ''x'') (demo_sp ''n3'') 5)\<lparr>ttl := 9\<rparr>"
      "demo_svc ''n2'' ''x''" "demo_sp ''n3''" demo_mux2 "demo_sp ''n1''" "new_remote demo_conn 7 1" 7
      "new_chan 16" "new_remote (new_client ConnCluster \<lparr>sock_ip = ''10.0.0.3'', sock_port = 8080\<rparr>
        (demo_sp ''n3'') (demo_sp ''n1'')) 8 1" 8 "new_chan 16"]
  by (auto simp: demo_mux2_def demo_defs get_my_service_path_def)

end
