(* ===== verification/Swss_Serde.thy ===== *)
theory Swss_Serde
  imports Prelude "HOL-Library.Multiset"
begin

text \<open>
  \<open>crates/swss-serde\<close>: Rust values as the field values of a SONiC database entry. A value that
  implements \<open>Serialize\<close> is what it hands to the serializer, a value of the serde data model
  (\<open>sval\<close>); a type that implements \<open>DeserializeOwned\<close> is what it asks of the deserializer
  (\<open>sty\<close>). \<open>CxxString\<close> is a string of bytes, \<open>String\<close> one that is valid UTF-8; names and
  variants of Rust types are ASCII.

  The derived code of a struct follows the serde documentation: \<open>Serialize\<close> passes the fields in
  declaration order, \<open>Deserialize\<close> reads either a map of fields (\<open>visit_map\<close>: unknown keys are
  skipped, a missing field takes its default, or \<open>None\<close>) or the fields in order (\<open>visit_seq\<close>).
  Floating point fields are not modelled: no table of the program has one.

  The lemmas give the exact set of values that survive a round trip, the types of what is read, and
  the agreement of the two ways of reading an entry.
\<close>

section \<open>The serde data model\<close>

datatype int_ty = I8 | I16 | I32 | I64 | U8 | U16 | U32 | U64

fun int_min :: "int_ty \<Rightarrow> int" where
  "int_min I8 = - (2 ^ 7)"
| "int_min I16 = - (2 ^ 15)"
| "int_min I32 = - (2 ^ 31)"
| "int_min I64 = - (2 ^ 63)"
| "int_min U8 = 0"
| "int_min U16 = 0"
| "int_min U32 = 0"
| "int_min U64 = 0"

fun int_max :: "int_ty \<Rightarrow> int" where
  "int_max I8 = 2 ^ 7 - 1"
| "int_max I16 = 2 ^ 15 - 1"
| "int_max I32 = 2 ^ 31 - 1"
| "int_max I64 = 2 ^ 63 - 1"
| "int_max U8 = 2 ^ 8 - 1"
| "int_max U16 = 2 ^ 16 - 1"
| "int_max U32 = 2 ^ 32 - 1"
| "int_max U64 = 2 ^ 64 - 1"

definition int_signed :: "int_ty \<Rightarrow> bool" where
  "int_signed ty \<longleftrightarrow> int_min ty < 0"

definition int_fits :: "int_ty \<Rightarrow> int \<Rightarrow> bool" where
  "int_fits ty i \<longleftrightarrow> int_min ty \<le> i \<and> i \<le> int_max ty"

text \<open>
  \<open>SOther\<close> is every value the serializers refuse (\<open>serializer_unsupported!\<close>): characters, units,
  tuples, maps, nested structs and data-carrying variants.
\<close>

datatype sval =
    SBool bool
  | SInt int_ty int
  | SStr string
  | SBytes string
  | SNone
  | SSome sval
  | SSeq "sval list"
  | SUnitVariant string
  | SOther

datatype sty =
    TBool
  | TInt int_ty
  | TStr
  | TBytes
  | TOption sty
  | TSeq sty
  | TEnum "string list"
  | TOther

datatype serde_error =
    FieldMissing
  | InvalidUtf8 string
  | InvalidValue string sty
  | UnknownVariant string "string list"
  | UnsupportedField
  | UnsupportedType
  | MissingField string
  | SerializingField string serde_error
  | InField string serde_error
  | TableError string

type_synonym 'a serde_result = "(serde_error, 'a) exec"

fun traverse :: "('a \<Rightarrow> ('e, 'b) exec) \<Rightarrow> 'a list \<Rightarrow> ('e, 'b list) exec" where
  "traverse f [] = Ok []"
| "traverse f (x # xs) =
     bind_exec (f x) (\<lambda>y. bind_exec (traverse f xs) (\<lambda>ys. Ok (y # ys)))"

section \<open>Text of numbers and of UTF-8\<close>

definition show_int :: "int \<Rightarrow> string" where
  "show_int i = (if i < 0 then CHR ''-'' # show_nat (nat (- i)) else show_nat (nat i))"

text \<open>
  \<open>str::parse\<close> for the integer types: an optional plus sign, a minus sign for the signed types
  only, at least one digit, and a value within the type.
\<close>

definition parse_int :: "int_ty \<Rightarrow> string \<Rightarrow> int option" where
  "parse_int ty s =
     (let (neg, ds) = (case s of
          [] \<Rightarrow> (False, [])
        | c # cs \<Rightarrow>
            if c = CHR ''+'' then (False, cs)
            else if c = CHR ''-'' \<and> int_signed ty then (True, cs) else (False, s))
      in if ds = [] then None
         else case read_digits 0 ds of
             None \<Rightarrow> None
           | Some n \<Rightarrow>
               (let i = (if neg then - int n else int n)
                in if int_fits ty i then Some i else None))"

definition parse_bool :: "string \<Rightarrow> bool option" where
  "parse_bool s = (if s = ''true'' then Some True else if s = ''false'' then Some False else None)"

text \<open>\<open>str::from_utf8\<close>: well-formed byte sequences (Unicode, table 3-7).\<close>

definition cont_byte :: "nat \<Rightarrow> bool" where
  "cont_byte b \<longleftrightarrow> 128 \<le> b \<and> b \<le> 191"

definition second_ok :: "nat \<Rightarrow> nat \<Rightarrow> bool" where
  "second_ok b c \<longleftrightarrow>
     (if b = 224 then 160 \<le> c \<and> c \<le> 191
      else if b = 237 then 128 \<le> c \<and> c \<le> 159
      else if b = 240 then 144 \<le> c \<and> c \<le> 191
      else if b = 244 then 128 \<le> c \<and> c \<le> 143
      else cont_byte c)"

fun utf8_bytes :: "nat list \<Rightarrow> bool" where
  "utf8_bytes [] = True"
| "utf8_bytes (b # bs) =
     (if b < 128 then utf8_bytes bs
      else if 194 \<le> b \<and> b \<le> 223 then
        (case bs of c # r \<Rightarrow> cont_byte c \<and> utf8_bytes r | _ \<Rightarrow> False)
      else if 224 \<le> b \<and> b \<le> 239 then
        (case bs of c # d # r \<Rightarrow> second_ok b c \<and> cont_byte d \<and> utf8_bytes r | _ \<Rightarrow> False)
      else if 240 \<le> b \<and> b \<le> 244 then
        (case bs of c # d # e # r \<Rightarrow> second_ok b c \<and> cont_byte d \<and> cont_byte e \<and> utf8_bytes r
         | _ \<Rightarrow> False)
      else False)"

definition utf8_valid :: "string \<Rightarrow> bool" where
  "utf8_valid s = utf8_bytes (map of_char s)"

definition ascii :: "string \<Rightarrow> bool" where
  "ascii s \<longleftrightarrow> (\<forall>c \<in> set s. (of_char c :: nat) < 128)"

definition ascii_lower :: "char \<Rightarrow> char" where
  "ascii_lower c = (let n = (of_char c :: nat) in if 65 \<le> n \<and> n \<le> 90 then char_of (n + 32) else c)"

definition is_lowercase :: "char \<Rightarrow> bool" where
  "is_lowercase c = (let n = (of_char c :: nat) in 97 \<le> n \<and> n \<le> 122)"

section \<open>One field value\<close>

text \<open>\<open>FieldValueSeqSerializer::end\<close>: a comma after every element, the last one popped.\<close>

definition seq_end :: "string list \<Rightarrow> string" where
  "seq_end elements =
     (let buf = concat (map (\<lambda>s. s @ '','') elements)
      in if buf \<noteq> [] then butlast buf else buf)"

fun serialize_field_value :: "sval \<Rightarrow> string serde_result"
and serialize_elements :: "sval list \<Rightarrow> string list serde_result" where
  "serialize_field_value (SBool v) = Ok (if v then ''true'' else ''false'')"
| "serialize_field_value (SInt ty i) = Ok (show_int i)"
| "serialize_field_value (SStr s) = Ok s"
| "serialize_field_value (SBytes s) = Ok s"
| "serialize_field_value SNone = Ok ''none''"
| "serialize_field_value (SSome v) = serialize_field_value v"
| "serialize_field_value (SSeq vs) = bind_exec (serialize_elements vs) (\<lambda>ss. Ok (seq_end ss))"
| "serialize_field_value (SUnitVariant x) =
     Ok (if list_all is_lowercase x then x else map ascii_lower x)"
| "serialize_field_value SOther = Err UnsupportedField"
| "serialize_elements [] = Ok []"
| "serialize_elements (v # vs) =
     bind_exec (serialize_field_value v) (\<lambda>s. bind_exec (serialize_elements vs) (\<lambda>ss. Ok (s # ss)))"

definition fv_data :: "string option \<Rightarrow> string serde_result" where
  "fv_data fv = (case fv of Some s \<Rightarrow> Ok s | None \<Rightarrow> Err FieldMissing)"

definition to_str :: "string option \<Rightarrow> string serde_result" where
  "to_str fv = bind_exec (fv_data fv) (\<lambda>s. if utf8_valid s then Ok s else Err (InvalidUtf8 s))"

definition parse_fv :: "sty \<Rightarrow> (string \<Rightarrow> 'a option) \<Rightarrow> string option \<Rightarrow> 'a serde_result" where
  "parse_fv ty p fv =
     bind_exec (to_str fv) (\<lambda>s. case p s of Some v \<Rightarrow> Ok v | None \<Rightarrow> Err (InvalidValue s ty))"

text \<open>\<open>a.chars().zip(b.chars()).all(eq_ignore_ascii_case)\<close>: the longer string is cut off.\<close>

definition streq_case_insensitive :: "string \<Rightarrow> string \<Rightarrow> bool" where
  "streq_case_insensitive a b \<longleftrightarrow> list_all (\<lambda>(x, y). ascii_lower x = ascii_lower y) (zip a b)"

definition pick_variant :: "string list \<Rightarrow> string \<Rightarrow> string" where
  "pick_variant variants s =
     (case find (streq_case_insensitive s) variants of Some v \<Rightarrow> v | None \<Rightarrow> s)"

definition deserialize_enum :: "string list \<Rightarrow> string option \<Rightarrow> sval serde_result" where
  "deserialize_enum variants fv =
     bind_exec (to_str fv) (\<lambda>s.
       let x = pick_variant variants s
       in if x \<in> set variants then Ok (SUnitVariant x) else Err (UnknownVariant x variants))"

fun deserialize_field_value :: "sty \<Rightarrow> string option \<Rightarrow> sval serde_result" where
  "deserialize_field_value TBool fv =
     bind_exec (parse_fv TBool parse_bool fv) (\<lambda>b. Ok (SBool b))"
| "deserialize_field_value (TInt ty) fv =
     bind_exec (parse_fv (TInt ty) (parse_int ty) fv) (\<lambda>i. Ok (SInt ty i))"
| "deserialize_field_value TStr fv = bind_exec (to_str fv) (\<lambda>s. Ok (SStr s))"
| "deserialize_field_value TBytes fv = bind_exec (fv_data fv) (\<lambda>s. Ok (SBytes s))"
| "deserialize_field_value (TOption t) fv =
     (case fv of
        None \<Rightarrow> Ok SNone
      | Some s \<Rightarrow>
          if s = ''none'' then Ok SNone
          else bind_exec (deserialize_field_value t (Some s)) (\<lambda>v. Ok (SSome v)))"
| "deserialize_field_value (TSeq t) fv =
     bind_exec (fv_data fv) (\<lambda>s.
       if s = [] then Ok (SSeq [])
       else bind_exec (traverse (\<lambda>p. deserialize_field_value t (Some p)) (split_on (CHR '','') s))
              (\<lambda>vs. Ok (SSeq vs)))"
| "deserialize_field_value (TEnum variants) fv = deserialize_enum variants fv"
| "deserialize_field_value TOther fv = Err UnsupportedType"

section \<open>Structs as field values\<close>

record field_ty =
  f_name :: string
  f_ty :: sty
  f_default :: "sval option"
  f_skip_none :: bool

type_synonym struct_ty = "field_ty list"

text \<open>
  The derived \<open>Serialize\<close>: the fields in order, without those that \<open>skip_serializing_none\<close> leaves
  out. A struct value is the list of its field values.
\<close>

definition present_fields :: "struct_ty \<Rightarrow> sval list \<Rightarrow> (string \<times> sval) list" where
  "present_fields st vs =
     map (\<lambda>(f, v). (f_name f, v)) (filter (\<lambda>(f, v). \<not> (f_skip_none f \<and> v = SNone)) (zip st vs))"

fun serialize_fields :: "(string \<times> sval) list \<Rightarrow> (string \<times> string) list
    \<Rightarrow> (string \<times> string) list serde_result" where
  "serialize_fields [] fvs = Ok fvs"
| "serialize_fields ((k, v) # rest) fvs =
     (case serialize_field_value v of
        Ok s \<Rightarrow> serialize_fields rest (AList.update k s fvs)
      | Err e \<Rightarrow> Err (SerializingField k e)
      | Panic \<Rightarrow> Panic)"

definition to_field_values :: "struct_ty \<Rightarrow> sval list \<Rightarrow> (string \<times> string) list serde_result" where
  "to_field_values st vs = serialize_fields (present_fields st vs) []"

text \<open>
  The derived \<open>visit_map\<close> over \<open>FieldValuesMapAccess\<close>: the entries of the \<open>HashMap\<close> in its
  iteration order, each key first, then its value; an unknown key is read as a string and dropped.
\<close>

fun visit_entries :: "struct_ty \<Rightarrow> (string \<times> string) list \<Rightarrow> (string \<rightharpoonup> sval)
    \<Rightarrow> (string \<rightharpoonup> sval) serde_result" where
  "visit_entries st [] seen = Ok seen"
| "visit_entries st ((k, s) # rest) seen =
     (case find (\<lambda>f. f_name f = k) st of
        Some f \<Rightarrow>
          bind_exec (deserialize_field_value (f_ty f) (Some s))
            (\<lambda>v. visit_entries st rest (seen(k \<mapsto> v)))
      | None \<Rightarrow> bind_exec (to_str (Some s)) (\<lambda>_. visit_entries st rest seen))"

definition missing_field :: "field_ty \<Rightarrow> sval serde_result" where
  "missing_field f =
     (case f_default f of
        Some d \<Rightarrow> Ok d
      | None \<Rightarrow> (case f_ty f of TOption t \<Rightarrow> Ok SNone | _ \<Rightarrow> Err (MissingField (f_name f))))"

definition take_field :: "(string \<rightharpoonup> sval) \<Rightarrow> field_ty \<Rightarrow> sval serde_result" where
  "take_field seen f = (case seen (f_name f) of Some v \<Rightarrow> Ok v | None \<Rightarrow> missing_field f)"

definition from_field_values :: "struct_ty \<Rightarrow> (string \<times> string) list \<Rightarrow> sval list serde_result" where
  "from_field_values st fvs =
     bind_exec (visit_entries st fvs Map.empty) (\<lambda>seen. traverse (take_field seen) st)"

section \<open>Structs in a database table\<close>

text \<open>
  \<open>Table::hset\<close> and \<open>Table::hget\<close> of \<open>swss_common\<close> are parameters. The writes made before an
  error stay in the table, so the table is returned in every case.
\<close>

type_synonym 't hset = "'t \<Rightarrow> string \<Rightarrow> string \<Rightarrow> string \<Rightarrow> string option \<times> 't"
type_synonym 't hget = "'t \<Rightarrow> string \<Rightarrow> string \<Rightarrow> (string, string option) exec"

fun table_fields :: "'t hset \<Rightarrow> (string \<times> sval) list \<Rightarrow> 't \<Rightarrow> string \<Rightarrow> unit serde_result \<times> 't" where
  "table_fields hset [] t key = (Ok (), t)"
| "table_fields hset ((k, v) # rest) t key =
     (case serialize_field_value v of
        Err e \<Rightarrow> (Err e, t)
      | Panic \<Rightarrow> (Panic, t)
      | Ok s \<Rightarrow>
          (case hset t key k s of
             (Some e, t') \<Rightarrow> (Err (TableError e), t')
           | (None, t') \<Rightarrow> table_fields hset rest t' key))"

definition to_table :: "'t hset \<Rightarrow> struct_ty \<Rightarrow> sval list \<Rightarrow> 't \<Rightarrow> string \<Rightarrow> unit serde_result \<times> 't" where
  "to_table hset st vs t key = table_fields hset (present_fields st vs) t key"

definition table_field :: "'t hget \<Rightarrow> 't \<Rightarrow> string \<Rightarrow> field_ty \<Rightarrow> sval serde_result" where
  "table_field hget t key f =
     (case hget t key (f_name f) of
        Err e \<Rightarrow> Err (TableError e)
      | Panic \<Rightarrow> Panic
      | Ok fv \<Rightarrow>
          (case deserialize_field_value (f_ty f) fv of
             Ok v \<Rightarrow> Ok v | Err e \<Rightarrow> Err (InField (f_name f) e) | Panic \<Rightarrow> Panic))"

definition from_table :: "'t hget \<Rightarrow> struct_ty \<Rightarrow> 't \<Rightarrow> string \<Rightarrow> sval list serde_result" where
  "from_table hget st t key = traverse (table_field hget t key) st"

section \<open>Types and the values that survive\<close>

fun has_type :: "sty \<Rightarrow> sval \<Rightarrow> bool" where
  "has_type TBool (SBool b) = True"
| "has_type (TInt ty) (SInt ty' i) = (ty = ty' \<and> int_fits ty i)"
| "has_type TStr (SStr s) = utf8_valid s"
| "has_type TBytes (SBytes s) = True"
| "has_type (TOption t) SNone = True"
| "has_type (TOption t) (SSome v) = has_type t v"
| "has_type (TSeq t) (SSeq vs) = list_all (has_type t) vs"
| "has_type (TEnum xs) (SUnitVariant x) = (x \<in> set xs)"
| "has_type _ _ = False"

fun wf_ty :: "sty \<Rightarrow> bool" where
  "wf_ty (TOption t) = wf_ty t"
| "wf_ty (TSeq t) = wf_ty t"
| "wf_ty (TEnum xs) = list_all ascii xs"
| "wf_ty _ = True"

text \<open>
  The values that can be told from their text: an option whose content is not written \<open>none\<close>, a
  list whose elements have no comma and which is not the list of one empty text, a variant that no
  earlier variant shadows.
\<close>

fun survives :: "sty \<Rightarrow> sval \<Rightarrow> bool" where
  "survives (TOption t) (SSome v) = (serialize_field_value v \<noteq> Ok ''none'' \<and> survives t v)"
| "survives (TSeq t) (SSeq vs) =
     (list_all (\<lambda>v. survives t v \<and>
        (case serialize_field_value v of Ok s \<Rightarrow> CHR '','' \<notin> set s | _ \<Rightarrow> True)) vs \<and>
      serialize_elements vs \<noteq> Ok [[]])"
| "survives (TEnum xs) (SUnitVariant x) = (pick_variant xs (map ascii_lower x) = x)"
| "survives _ _ = True"

definition struct_has_type :: "struct_ty \<Rightarrow> sval list \<Rightarrow> bool" where
  "struct_has_type st vs = list_all2 (\<lambda>f v. has_type (f_ty f) v) st vs"

section \<open>Helper lemmas\<close>

named_theorems serde_simps \<open>facts about texts and results used by the serde proofs\<close>

lemma bind_exec_Panic_iff:
  "bind_exec r f = Panic \<longleftrightarrow> r = Panic \<or> (\<exists>x. r = Ok x \<and> f x = Panic)"
  by (cases r) auto

lemma traverse_Ok_iff: "traverse f xs = Ok ys \<longleftrightarrow> list_all2 (\<lambda>x y. f x = Ok y) xs ys"
  by (induction xs arbitrary: ys) (auto simp: bind_exec_Ok_iff list_all2_Cons1)

lemma traverse_cong_Ok:
  "list_all2 (\<lambda>x y. f x = Ok y) xs ys \<Longrightarrow> traverse f xs = Ok ys"
  by (simp add: traverse_Ok_iff)

lemma seq_end_join [serde_simps]: "seq_end ss = join_with (CHR '','') ss"
proof -
  have "concat (map (\<lambda>s. s @ '','') ss) = (if ss = [] then [] else join_with (CHR '','') ss @ '','')"
    by (induction "CHR '',''" ss rule: join_with.induct) auto
  then show ?thesis by (simp add: seq_end_def Let_def)
qed

lemma length_split_on: "length (split_on c s) = Suc (count_list s c)"
  by (induction s) (auto split: list.splits)

lemma count_join:
  "count_list (join_with c ss) c = sum_list (map (\<lambda>s. count_list s c) ss) + (length ss - 1)"
  by (induction c ss rule: join_with.induct) auto

lemma join_with_Nil_iff: "join_with c ss = [] \<longleftrightarrow> ss = [] \<or> ss = [[]]"
  by (induction c ss rule: join_with.induct) auto

lemma split_join_iff:
  assumes "ss \<noteq> []"
  shows "split_on c (join_with c ss) = ss \<longleftrightarrow> (\<forall>s \<in> set ss. c \<notin> set s)"
proof
  assume "split_on c (join_with c ss) = ss"
  then have "Suc (count_list (join_with c ss) c) = length ss"
    by (metis length_split_on)
  with assms have "sum_list (map (\<lambda>s. count_list s c) ss) = 0"
    by (cases ss) (auto simp: count_join)
  then show "\<forall>s \<in> set ss. c \<notin> set s"
    by (auto simp: count_list_0_iff)
qed (use assms split_on_join in blast)

lemma digit_not_sign: "d < 10 \<Longrightarrow> digit_char d \<noteq> CHR ''+'' \<and> digit_char d \<noteq> CHR ''-''"
  using char_digit_digit_char [of d] by (auto simp: char_digit_def)

lemma show_nat_hd:
  obtains c cs where "show_nat n = c # cs" "c \<noteq> CHR ''+''" "c \<noteq> CHR ''-''"
proof -
  obtain c cs where e: "show_nat n = c # cs" by (cases "show_nat n") auto
  then obtain d where "d < 10" "c = digit_char d" using show_nat_digits [of c n] by auto
  with e that show thesis using digit_not_sign by blast
qed

lemma parse_int_show_int [serde_simps]:
  assumes "int_fits ty i"
  shows "parse_int ty (show_int i) = Some i"
proof (cases "i < 0")
  case True
  with assms have "int_signed ty" by (auto simp: int_fits_def int_signed_def)
  with True assms show ?thesis
    by (simp add: show_int_def parse_int_def read_digits_show_nat)
next
  case False
  obtain c cs where c: "show_nat (nat i) = c # cs" "c \<noteq> CHR ''+''" "c \<noteq> CHR ''-''"
    by (rule show_nat_hd)
  have "read_digits 0 (c # cs) = Some (nat i)"
    using read_digits_show_nat [of "nat i"] c by simp
  with False assms c show ?thesis
    by (simp add: show_int_def parse_int_def del: read_digits.simps)
qed

lemma utf8_ascii [serde_simps]: "ascii s \<Longrightarrow> utf8_valid s"
  unfolding utf8_valid_def by (induction s) (auto simp: ascii_def)

lemma ascii_simps [simp]: "ascii []" "ascii (c # s) \<longleftrightarrow> (of_char c :: nat) < 128 \<and> ascii s"
  by (auto simp: ascii_def)

lemma ascii_show_nat [simp]: "ascii (show_nat n)"
  unfolding ascii_def
proof
  fix c assume "c \<in> set (show_nat n)"
  then obtain d where "d < 10" "c = digit_char d" using show_nat_digits by blast
  then show "(of_char c :: nat) < 128" by (simp add: digit_char_def)
qed

lemma ascii_show_int [simp]: "ascii (show_int i)"
  by (simp add: show_int_def)

lemma ascii_map_lower [simp]: "ascii s \<Longrightarrow> ascii (map ascii_lower s)"
  by (induction s) (auto simp: ascii_lower_def Let_def)

lemma lower_lower [simp]: "ascii_lower (ascii_lower c) = ascii_lower c"
  by (auto simp: ascii_lower_def Let_def)

lemma lowercase_lower: "is_lowercase c \<Longrightarrow> ascii_lower c = c"
  by (auto simp: ascii_lower_def is_lowercase_def Let_def)

lemma variant_text [serde_simps]:
  "(if list_all is_lowercase x then x else map ascii_lower x) = map ascii_lower x"
  by (induction x) (auto simp: lowercase_lower list_all_iff map_idI)

lemma parse_fv_Some [serde_simps]:
  "utf8_valid s \<Longrightarrow> p s = Some v \<Longrightarrow> parse_fv ty p (Some s) = Ok v"
  by (simp add: parse_fv_def to_str_def fv_data_def)

lemma to_str_Ok_iff [serde_simps]: "to_str fv = Ok s \<longleftrightarrow> fv = Some s \<and> utf8_valid s"
  by (auto simp: to_str_def fv_data_def bind_exec_Ok_iff split: option.splits)

lemma serialize_elements_Ok_iff:
  "serialize_elements vs = Ok ss \<longleftrightarrow> list_all2 (\<lambda>v s. serialize_field_value v = Ok s) vs ss"
  by (induction vs arbitrary: ss) (auto simp: bind_exec_Ok_iff list_all2_Cons1)

section \<open>One field value: types and round trips\<close>

lemma serialize_well_typed:
  "has_type t v \<Longrightarrow> \<exists>s. serialize_field_value v = Ok s"
proof (induction t v rule: has_type.induct)
  case (7 t vs)
  then have "\<forall>v \<in> set vs. \<exists>s. serialize_field_value v = Ok s" by (auto simp: list_all_iff)
  then have "\<exists>ss. list_all2 (\<lambda>v s. serialize_field_value v = Ok s) vs ss"
    by (induction vs) (auto simp: list_all2_Cons1)
  then show ?case by (auto simp: serialize_elements_Ok_iff [symmetric])
qed auto

lemma survives_seq_iff:
  assumes IH: "\<And>v s. v \<in> set vs \<Longrightarrow> serialize_field_value v = Ok s \<Longrightarrow>
      (deserialize_field_value t (Some s) = Ok v) = survives t v"
    and ss: "serialize_elements vs = Ok ss"
  shows "(deserialize_field_value (TSeq t) (Some (join_with (CHR '','') ss)) = Ok (SSeq vs))
       = survives (TSeq t) (SSeq vs)"
proof (cases "ss = [] \<or> ss = [[]]")
  case True
  then have "(vs = []) = (ss = [])" using ss by (auto simp: serialize_elements_Ok_iff)
  with True ss show ?thesis by (auto simp: fv_data_def)
next
  case False
  then have ne: "ss \<noteq> []" "join_with (CHR '','') ss \<noteq> []" by (auto simp: join_with_Nil_iff)
  have len: "list_all2 (\<lambda>v s. serialize_field_value v = Ok s) vs ss"
    using ss by (simp add: serialize_elements_Ok_iff)
  let ?d = "\<lambda>p. deserialize_field_value t (Some p)"
  let ?ps = "split_on (CHR '','') (join_with (CHR '','') ss)"
  have "(deserialize_field_value (TSeq t) (Some (join_with (CHR '','') ss)) = Ok (SSeq vs)) =
        list_all2 (\<lambda>p v. ?d p = Ok v) ?ps vs"
    using ne by (auto simp: fv_data_def bind_exec_Ok_iff traverse_Ok_iff)
  also have "\<dots> = ((\<forall>s \<in> set ss. CHR '','' \<notin> set s) \<and> list_all2 (\<lambda>p v. ?d p = Ok v) ss vs)"
  proof (cases "\<forall>s \<in> set ss. CHR '','' \<notin> set s")
    case True then show ?thesis using ne by (simp add: split_on_join)
  next
    case False
    then have "sum_list (map (\<lambda>s. count_list s (CHR '','')) ss) \<noteq> 0"
      by (auto simp: sum_list_eq_0_iff count_list_0_iff)
    then have "length ?ps \<noteq> length vs"
      using ne list_all2_lengthD [OF len] by (cases ss) (auto simp: length_split_on count_join)
    with False show ?thesis by (auto dest: list_all2_lengthD)
  qed
  also have "\<dots> = survives (TSeq t) (SSeq vs)"
  proof -
    have "((\<forall>s \<in> set ss. c \<notin> set s) \<and> list_all2 (\<lambda>p v. ?d p = Ok v) ss vs) =
          list_all (\<lambda>v. survives t v \<and>
            (case serialize_field_value v of Ok s \<Rightarrow> c \<notin> set s | _ \<Rightarrow> True)) vs" for c
      using len IH by (induction vs ss rule: list_all2_induct) auto
    with ss False show ?thesis by simp
  qed
  finally show ?thesis .
qed

lemma survives_iff:
  assumes "wf_ty t" "has_type t v" "serialize_field_value v = Ok s"
  shows "(deserialize_field_value t (Some s) = Ok v) = survives t v"
  using assms
proof (induction t v arbitrary: s rule: has_type.induct)
  case (7 t vs)
  from 7(4) obtain ss where ss: "serialize_elements vs = Ok ss" "s = join_with (CHR '','') ss"
    by (auto simp: bind_exec_Ok_iff serde_simps)
  have "(deserialize_field_value t (Some s') = Ok v) = survives t v"
    if "v \<in> set vs" "serialize_field_value v = Ok s'" for v s'
    using 7 that by (auto simp: list_all_iff)
  from survives_seq_iff [OF this ss(1)] ss(2) show ?case by simp
next
  case (8 xs x)
  then have s: "s = map ascii_lower x" by (simp add: variant_text)
  from 8 have "ascii x" by (auto simp: list_all_iff)
  with s have "ascii s" by simp
  then have "utf8_valid s" by (rule utf8_ascii)
  with 8 s show ?case
    by (auto simp: deserialize_enum_def to_str_def fv_data_def Let_def)
qed (auto simp: serde_simps parse_bool_def bind_exec_Ok_iff fv_data_def split: if_splits)


lemma parse_int_fits: "parse_int ty s = Some i \<Longrightarrow> int_fits ty i"
  by (auto simp: parse_int_def Let_def split: if_splits option.splits list.splits prod.splits)

lemma deserialize_has_type: "deserialize_field_value t fv = Ok v \<Longrightarrow> has_type t v"
proof (induction t arbitrary: fv v)
  case (TSeq t)
  then show ?case
    by (auto simp: bind_exec_Ok_iff traverse_Ok_iff list_all2_conv_all_nth list_all_length
        split: if_splits) blast
qed (auto simp: bind_exec_Ok_iff serde_simps parse_fv_def deserialize_enum_def Let_def
       split: option.splits if_splits dest: parse_int_fits)

lemma traverse_no_panic: "(\<And>x. f x \<noteq> Panic) \<Longrightarrow> traverse f xs \<noteq> Panic"
  by (induction xs) (auto simp: bind_exec_Panic_iff)

lemma deserialize_no_panic [simp]: "deserialize_field_value t fv \<noteq> Panic"
  by (induction t arbitrary: fv)
     (auto simp: bind_exec_Panic_iff parse_fv_def to_str_def fv_data_def deserialize_enum_def Let_def
       traverse_no_panic split: option.splits if_splits)

lemma serialize_no_panic [simp]:
  "serialize_field_value v \<noteq> Panic" "serialize_elements vs \<noteq> Panic"
  by (induction v and vs rule: serialize_field_value_serialize_elements.induct)
     (auto simp: bind_exec_Panic_iff)

section \<open>Structs: what is read and written\<close>

definition names :: "struct_ty \<Rightarrow> string list" where
  "names st = map f_name st"

text \<open>What \<open>visit_map\<close> ends with for one field, and for the whole struct.\<close>

definition field_read :: "(string \<times> string) list \<Rightarrow> field_ty \<Rightarrow> sval \<Rightarrow> bool" where
  "field_read fvs f v \<longleftrightarrow>
     (case map_of fvs (f_name f) of
        Some s \<Rightarrow> deserialize_field_value (f_ty f) (Some s) = Ok v
      | None \<Rightarrow> missing_field f = Ok v)"

lemma find_name:
  assumes "distinct (names st)" "f \<in> set st"
  shows "find (\<lambda>g. f_name g = f_name f) st = Some f"
  using assms by (induction st) (auto simp: names_def)

lemma find_name_None: "find (\<lambda>g. f_name g = k) st = None \<longleftrightarrow> k \<notin> set (names st)"
  by (auto simp: find_None_iff names_def)

lemma visit_entries_keeps:
  "visit_entries st fvs seen = Ok m \<Longrightarrow> k \<notin> fst ` set fvs \<Longrightarrow> m k = seen k"
  by (induction st fvs seen rule: visit_entries.induct)
     (auto simp: bind_exec_Ok_iff split: option.splits)

lemma visit_entries_known:
  assumes "visit_entries st fvs seen = Ok m" "distinct (map fst fvs)" "distinct (names st)"
    "f \<in> set st" "map_of fvs (f_name f) = Some s"
  shows "\<exists>v. deserialize_field_value (f_ty f) (Some s) = Ok v \<and> m (f_name f) = Some v"
  using assms
proof (induction st fvs seen rule: visit_entries.induct)
  case (2 st k s' rest seen)
  show ?case
  proof (cases "k = f_name f")
    case True
    with 2 show ?thesis
      by (auto simp: find_name bind_exec_Ok_iff dest!: visit_entries_keeps)
  next
    case False
    with 2 have "map_of rest (f_name f) = Some s" "distinct (map fst rest)" by auto
    with 2 show ?thesis
      by (auto simp: bind_exec_Ok_iff simp del: fun_upd_apply split: option.splits)
  qed
qed simp

lemma visit_entries_utf8:
  "visit_entries st fvs seen = Ok m \<Longrightarrow> (k, s) \<in> set fvs \<Longrightarrow> k \<notin> set (names st) \<Longrightarrow> utf8_valid s"
  by (induction st fvs seen rule: visit_entries.induct)
     (auto simp: bind_exec_Ok_iff serde_simps find_name_None [symmetric] split: option.splits)

lemma visit_entries_total:
  assumes "\<forall>(k, s) \<in> set fvs. case find (\<lambda>f. f_name f = k) st of
             Some f \<Rightarrow> is_ok (deserialize_field_value (f_ty f) (Some s)) | None \<Rightarrow> utf8_valid s"
  shows "\<exists>m. visit_entries st fvs seen = Ok m"
  using assms
proof (induction st fvs seen rule: visit_entries.induct)
  case (2 st k s rest seen)
  show ?case
  proof (cases "find (\<lambda>f. f_name f = k) st")
    case None
    with 2 show ?thesis by (auto simp: to_str_def fv_data_def)
  next
    case (Some f)
    with 2 obtain v where "deserialize_field_value (f_ty f) (Some s) = Ok v"
      by (auto elim: is_ok.elims)
    with 2 Some show ?thesis by (auto simp del: fun_upd_apply)
  qed
qed simp

lemma take_field_iff:
  assumes m: "visit_entries st fvs Map.empty = Ok m"
    and d: "distinct (map fst fvs)" "distinct (names st)" and f: "f \<in> set st"
  shows "take_field m f = Ok v \<longleftrightarrow> field_read fvs f v"
proof (cases "map_of fvs (f_name f)")
  case None
  then have "m (f_name f) = None"
    using visit_entries_keeps [OF m, of "f_name f"] by (auto simp: map_of_eq_None_iff)
  with None show ?thesis by (simp add: field_read_def take_field_def)
next
  case (Some s)
  with visit_entries_known [OF m d f Some] show ?thesis
    by (auto simp: field_read_def take_field_def)
qed

lemma list_all2_eq_on:
  "(\<And>x y. x \<in> set xs \<Longrightarrow> P x y = Q x y) \<Longrightarrow> list_all2 P xs ys = list_all2 Q xs ys"
  by (induction xs arbitrary: ys) (auto simp: list_all2_Cons1)

lemma take_fields_iff:
  assumes "visit_entries st fvs Map.empty = Ok m"
    and "distinct (map fst fvs)" "distinct (names st)"
  shows "list_all2 (\<lambda>f v. take_field m f = Ok v) st vs \<longleftrightarrow> list_all2 (field_read fvs) st vs"
  by (rule list_all2_eq_on) (rule take_field_iff [OF assms])

lemma from_field_values_Ok_iff:
  assumes "distinct (map fst fvs)" "distinct (names st)"
  shows "from_field_values st fvs = Ok vs \<longleftrightarrow>
    (\<forall>(k, s) \<in> set fvs. k \<in> set (names st) \<or> utf8_valid s) \<and> list_all2 (field_read fvs) st vs"
    (is "?l = ?r")
proof
  assume ?l
  then obtain m where m: "visit_entries st fvs Map.empty = Ok m"
    and vs: "list_all2 (\<lambda>f v. take_field m f = Ok v) st vs"
    by (auto simp: from_field_values_def bind_exec_Ok_iff traverse_Ok_iff)
  from vs have "list_all2 (field_read fvs) st vs"
    by (simp add: take_fields_iff [OF m assms])
  with visit_entries_utf8 [OF m] show ?r by auto
next
  assume r: ?r
  have read: "\<exists>v. field_read fvs f v" if "f \<in> set st" for f
    using r that by (auto simp: list_all2_conv_all_nth in_set_conv_nth)
  have "case find (\<lambda>f. f_name f = k) st of
          Some f \<Rightarrow> is_ok (deserialize_field_value (f_ty f) (Some s)) | None \<Rightarrow> utf8_valid s"
    if "(k, s) \<in> set fvs" for k s
  proof (cases "find (\<lambda>f. f_name f = k) st")
    case None
    then have "k \<notin> set (names st)" by (simp add: find_name_None)
    with r that None show ?thesis by auto
  next
    case (Some f)
    then have "f \<in> set st" "f_name f = k" by (auto simp: find_Some_iff)
    moreover have "map_of fvs k = Some s" using that assms by (simp add: map_of_is_SomeI)
    ultimately show ?thesis using read [of f] Some by (auto simp: field_read_def)
  qed
  then obtain m where m: "visit_entries st fvs Map.empty = Ok m"
    using visit_entries_total [of fvs st Map.empty] by blast
  have "list_all2 (\<lambda>f v. take_field m f = Ok v) st vs"
    using r by (simp add: take_fields_iff [OF m assms])
  with m show ?l by (simp add: from_field_values_def traverse_Ok_iff)
qed

lemma update_new_key: "k \<notin> fst ` set al \<Longrightarrow> AList.update k v al = al @ [(k, v)]"
  by (induction al) auto

lemma serialize_fields_Ok:
  assumes "list_all2 (\<lambda>(k, v) (k', s). k = k' \<and> serialize_field_value v = Ok s) kvs out"
    "distinct (map fst kvs)" "fst ` set kvs \<inter> fst ` set acc = {}"
  shows "serialize_fields kvs acc = Ok (acc @ out)"
  using assms
proof (induction kvs acc arbitrary: out rule: serialize_fields.induct)
  case (2 k v rest fvs)
  then obtain s out' where out: "out = (k, s) # out'" "serialize_field_value v = Ok s"
    "list_all2 (\<lambda>(k, v) (k', s). k = k' \<and> serialize_field_value v = Ok s) rest out'"
    by (auto simp: list_all2_Cons1)
  have "k \<notin> fst ` set fvs" using 2(4) by auto
  with 2 out show ?case by (auto simp: update_new_key image_iff)
qed simp

lemma present_fields_mem:
  "distinct (names st) \<Longrightarrow> length vs = length st \<Longrightarrow> distinct (map fst (present_fields st vs))"
proof -
  assume "distinct (names st)" "length vs = length st"
  moreover have "map fst (map (\<lambda>(f, v). (f_name f, v)) (zip st vs)) = map f_name (map fst (zip st vs))"
    by (auto simp: split_beta)
  ultimately have "distinct (map fst (map (\<lambda>(f, v). (f_name f, v)) (zip st vs)))"
    by (simp add: names_def)
  then show ?thesis
    unfolding present_fields_def by (auto simp: distinct_map inj_on_def split_beta)
qed


definition skipped :: "field_ty \<Rightarrow> sval \<Rightarrow> bool" where
  "skipped f v \<longleftrightarrow> f_skip_none f \<and> v = SNone"

lemma present_fields_iff:
  "(k, v) \<in> set (present_fields st vs) \<longleftrightarrow>
     (\<exists>f. (f, v) \<in> set (zip st vs) \<and> \<not> skipped f v \<and> k = f_name f)"
  by (auto simp: present_fields_def skipped_def image_iff split: prod.splits)

lemma to_field_values_spec:
  assumes "distinct (names st)" "struct_has_type st vs"
  shows "\<exists>fvs. to_field_values st vs = Ok fvs \<and> distinct (map fst fvs) \<and>
    (\<forall>k s. (k, s) \<in> set fvs \<longleftrightarrow>
      (\<exists>f v. (f, v) \<in> set (zip st vs) \<and> \<not> skipped f v \<and> k = f_name f \<and> serialize_field_value v = Ok s))"
proof -
  let ?kvs = "present_fields st vs"
  let ?txt = "\<lambda>v. case serialize_field_value v of Ok s \<Rightarrow> s | _ \<Rightarrow> []"
  let ?out = "map (\<lambda>(k, v). (k, ?txt v)) ?kvs"
  have len: "length vs = length st"
    using assms(2) by (auto simp: struct_has_type_def dest: list_all2_lengthD)
  have ser: "serialize_field_value v = Ok (?txt v)" if "(f, v) \<in> set (zip st vs)" for f v
  proof -
    have "has_type (f_ty f) v" using assms(2) that by (auto simp: struct_has_type_def list_all2_iff)
    then obtain s where "serialize_field_value v = Ok s" using serialize_well_typed by blast
    then show ?thesis by simp
  qed
  note mem = present_fields_iff [of _ _ st vs]
  have d: "distinct (map fst ?kvs)" by (rule present_fields_mem [OF assms(1) len])
  have "list_all2 (\<lambda>(k, v) (k', s). k = k' \<and> serialize_field_value v = Ok s) ?kvs ?out"
    using ser mem by (fastforce simp: list_all2_map2 list_all2_same split_beta)
  from serialize_fields_Ok [OF this d, of "[]"] have ok: "to_field_values st vs = Ok ?out"
    by (simp add: to_field_values_def)
  have dist: "distinct (map fst ?out)" using d by (simp add: split_beta comp_def)
  have "(k, s) \<in> set ?out \<longleftrightarrow>
      (\<exists>f v. (f, v) \<in> set (zip st vs) \<and> \<not> skipped f v \<and> k = f_name f \<and> serialize_field_value v = Ok s)" for k s
  proof -
    have "(k, s) \<in> set ?out \<longleftrightarrow> (\<exists>v. (k, v) \<in> set ?kvs \<and> s = ?txt v)" by force
    also have "\<dots> \<longleftrightarrow> (\<exists>f v. (f, v) \<in> set (zip st vs) \<and> \<not> skipped f v \<and> k = f_name f \<and> s = ?txt v)"
      using mem by auto
    finally show ?thesis using ser by fastforce
  qed
  with ok dist show ?thesis by blast
qed

text \<open>A struct type whose derived code reads an absent option as \<open>None\<close>.\<close>

definition wf_struct :: "struct_ty \<Rightarrow> bool" where
  "wf_struct st \<longleftrightarrow> distinct (names st) \<and> list_all (\<lambda>f. wf_ty (f_ty f)) st \<and>
     list_all (\<lambda>f. f_skip_none f \<longrightarrow> f_default f = None \<or> f_default f = Some SNone) st"

lemma skipped_missing:
  "skipped f v \<Longrightarrow> has_type (f_ty f) v \<Longrightarrow>
   f_default f = None \<or> f_default f = Some SNone \<Longrightarrow> missing_field f = Ok v"
  by (cases "f_ty f") (auto simp: skipped_def missing_field_def split: option.splits)

lemma zip_name_unique:
  assumes "distinct (names st)" "(f, v) \<in> set (zip st vs)" "(g, w) \<in> set (zip st vs)"
    "f_name g = f_name f"
  shows "g = f \<and> w = v"
proof -
  obtain i where i: "i < length (zip st vs)" "zip st vs ! i = (f, v)"
    using assms(2) by (auto simp: in_set_conv_nth)
  obtain j where j: "j < length (zip st vs)" "zip st vs ! j = (g, w)"
    using assms(3) by (auto simp: in_set_conv_nth)
  have "names st ! i = names st ! j" using i j assms(4) by (simp add: names_def)
  then have "i = j" using assms(1) i j
    by (auto simp: names_def nth_eq_iff_index_eq [of "map f_name st"] simp del: nth_map)
  with i j show ?thesis by simp
qed

lemma field_written_read:
  assumes wf: "wf_struct st" and ty: "struct_has_type st vs"
    and fv: "(f, v) \<in> set (zip st vs)" and sv: "survives (f_ty f) v"
    and d: "distinct (map fst fvs)"
    and mem: "\<And>k s. (k, s) \<in> set fvs \<longleftrightarrow> (\<exists>f v. (f, v) \<in> set (zip st vs) \<and>
        \<not> skipped f v \<and> k = f_name f \<and> serialize_field_value v = Ok s)"
  shows "field_read fvs f v"
proof -
  have f: "f \<in> set st" "has_type (f_ty f) v" "wf_ty (f_ty f)"
    using wf ty fv by (auto simp: wf_struct_def struct_has_type_def list_all2_iff list_all_iff
        dest: set_zip_leftD)
  have uniq: "g = f \<and> w = v" if "(g, w) \<in> set (zip st vs)" "f_name g = f_name f" for g w
    using that fv wf zip_name_unique by (metis wf_struct_def)
  show ?thesis
  proof (cases "skipped f v")
    case True
    then have "f_name f \<notin> fst ` set fvs" using mem uniq by auto
    then have "map_of fvs (f_name f) = None" by (simp add: map_of_eq_None_iff)
    moreover have "missing_field f = Ok v"
      using True f wf by (intro skipped_missing) (auto simp: wf_struct_def list_all_iff skipped_def)
    ultimately show ?thesis by (simp add: field_read_def)
  next
    case False
    obtain s where s: "serialize_field_value v = Ok s" using serialize_well_typed f by blast
    then have "(f_name f, s) \<in> set fvs" using False fv mem by blast
    then have "map_of fvs (f_name f) = Some s" using d by simp
    moreover have "deserialize_field_value (f_ty f) (Some s) = Ok v"
      using survives_iff [OF f(3,2) s] sv by simp
    ultimately show ?thesis by (simp add: field_read_def)
  qed
qed


lemma from_field_values_order:
  assumes "distinct (names st)" "distinct (map fst fvs)" "mset fvs' = mset fvs"
  shows "from_field_values st fvs' = Ok vs \<longleftrightarrow> from_field_values st fvs = Ok vs"
proof -
  have d: "distinct (map fst fvs')"
    using assms by (metis mset_eq_imp_distinct_iff mset_map)
  have s: "set fvs' = set fvs" using assms(3) by (rule mset_eq_setD)
  then have "map_of fvs' = map_of fvs"
    using d assms(2) map_of_inject_set by blast
  then have "field_read fvs' = field_read fvs" by (intro ext) (simp add: field_read_def)
  with s show ?thesis
    by (simp add: from_field_values_Ok_iff [OF d assms(1)]
        from_field_values_Ok_iff [OF assms(2,1)])
qed

lemma struct_read_back:
  assumes "wf_struct st" "struct_has_type st vs" "list_all2 (\<lambda>f v. survives (f_ty f) v) st vs"
  shows "\<exists>fvs. to_field_values st vs = Ok fvs \<and> distinct (map fst fvs) \<and>
    from_field_values st fvs = Ok vs"
proof -
  have d: "distinct (names st)" using assms(1) by (simp add: wf_struct_def)
  from to_field_values_spec [OF d assms(2)] obtain fvs where fvs:
    "to_field_values st vs = Ok fvs" "distinct (map fst fvs)"
    "\<And>k s. (k, s) \<in> set fvs \<longleftrightarrow> (\<exists>f v. (f, v) \<in> set (zip st vs) \<and>
        \<not> skipped f v \<and> k = f_name f \<and> serialize_field_value v = Ok s)"
    by blast
  have "list_all2 (field_read fvs) st vs"
    using assms field_written_read [OF assms(1,2) _ _ fvs(2,3)]
    by (auto simp: list_all2_iff)
  moreover have "k \<in> set (names st)" if "(k, s) \<in> set fvs" for k s
    using that fvs(3) by (auto simp: names_def dest: set_zip_leftD)
  ultimately have "from_field_values st fvs = Ok vs"
    by (auto simp: from_field_values_Ok_iff [OF fvs(2) d])
  with fvs show ?thesis by blast
qed

text \<open>\<open>from_table\<close> over an entry whose hash holds \<open>fvs\<close>.\<close>

lemma from_table_Ok_iff:
  assumes "\<And>k. hget t key k = Ok (map_of fvs k)"
  shows "from_table hget st t key = Ok vs \<longleftrightarrow>
    list_all2 (\<lambda>f v. deserialize_field_value (f_ty f) (map_of fvs (f_name f)) = Ok v) st vs"
proof -
  have "table_field hget t key f = Ok v \<longleftrightarrow>
      deserialize_field_value (f_ty f) (map_of fvs (f_name f)) = Ok v" for f v
    by (auto simp: table_field_def assms split: exec.splits)
  then show ?thesis by (simp add: from_table_def traverse_Ok_iff)
qed

lemma deserialize_missing:
  "deserialize_field_value t None = Ok v \<longleftrightarrow> (\<exists>u. t = TOption u) \<and> v = SNone"
  by (cases t) (auto simp: parse_fv_def to_str_def fv_data_def deserialize_enum_def)

lemma table_read_iff:
  assumes "f_default f = None \<or> f_name f \<in> fst ` set fvs"
  shows "field_read fvs f v \<longleftrightarrow> deserialize_field_value (f_ty f) (map_of fvs (f_name f)) = Ok v"
proof (cases "map_of fvs (f_name f)")
  case None
  then have "f_default f = None" using assms by (auto simp: map_of_eq_None_iff)
  with None show ?thesis
    by (cases "f_ty f") (auto simp: field_read_def missing_field_def deserialize_missing
        simp del: deserialize_field_value.simps)
qed (simp add: field_read_def)


section \<open>Tables: write and read back\<close>

text \<open>What the redis commands promise: a successful \<open>HSET\<close> changes the one field it names.\<close>

definition hash_laws :: "'t hset \<Rightarrow> 't hget \<Rightarrow> bool" where
  "hash_laws hset hget \<longleftrightarrow>
     (\<forall>t key k s t'. hset t key k s = (None, t') \<longrightarrow>
        (\<forall>key' k'. hget t' key' k' = (if key' = key \<and> k' = k then Ok (Some s) else hget t key' k')))"

lemma table_fields_frame:
  assumes "hash_laws hset hget" "table_fields hset kvs t key = (Ok (), t')"
    "key' \<noteq> key \<or> k \<notin> fst ` set kvs"
  shows "hget t' key' k = hget t key' k"
  using assms(2,3)
proof (induction kvs arbitrary: t)
  case (Cons kv rest)
  obtain k' v where kv: "kv = (k', v)" by fastforce
  with Cons(2) obtain s t1 where s: "hset t key k' s = (None, t1)"
    "table_fields hset rest t1 key = (Ok (), t')"
    by (auto split: exec.splits prod.splits option.splits)
  then have "hget t' key' k = hget t1 key' k" using Cons by auto
  also have "\<dots> = hget t key' k" using s(1) assms(1) Cons(3) kv by (auto simp: hash_laws_def)
  finally show ?case .
qed simp

lemma table_fields_written:
  assumes "hash_laws hset hget" "table_fields hset kvs t key = (Ok (), t')" "distinct (map fst kvs)"
    "(k, v) \<in> set kvs"
  shows "\<exists>s. serialize_field_value v = Ok s \<and> hget t' key k = Ok (Some s)"
  using assms(2-4)
proof (induction kvs arbitrary: t)
  case (Cons kv rest)
  obtain k' v' where kv: "kv = (k', v')" by fastforce
  with Cons(2) obtain s t1 where s: "serialize_field_value v' = Ok s" "hset t key k' s = (None, t1)"
    "table_fields hset rest t1 key = (Ok (), t')"
    by (auto split: exec.splits prod.splits option.splits)
  show ?case
  proof (cases "(k, v) \<in> set rest")
    case True with Cons s show ?thesis by auto
  next
    case False
    then have "k = k'" "v = v'" "k \<notin> fst ` set rest" using Cons(3,4) kv by auto
    moreover have "hget t1 key k' = Ok (Some s)" using s(2) assms(1) by (auto simp: hash_laws_def)
    ultimately show ?thesis using s table_fields_frame [OF assms(1) s(3), of key k] by auto
  qed
qed simp

section \<open>Properties\<close>

text \<open>
  (C14) A well-typed field value is always written, and reading its text back gives the value again
  exactly when the value survives: no \<open>Some\<close> of something written \<open>none\<close>, no list element with a
  comma, not the list of one empty text, no enum variant that an earlier variant shadows. The
  condition is necessary: every other value is read back as something else, or refused.
\<close>

theorem field_value_roundtrip_exact:
  assumes "wf_ty t" "has_type t v"
  shows "\<exists>s. serialize_field_value v = Ok s \<and>
    (deserialize_field_value t (Some s) = Ok v \<longleftrightarrow> survives t v)"
  using serialize_well_typed [OF assms(2)] survives_iff [OF assms] by blast

theorem field_value_roundtrip_exact_witness:
  "(\<exists>s. serialize_field_value (SSeq [SInt U8 7, SInt U8 255]) = Ok s \<and>
     deserialize_field_value (TSeq (TInt U8)) (Some s) = Ok (SSeq [SInt U8 7, SInt U8 255])) \<and>
   (\<exists>s. serialize_field_value (SSome (SStr ''none'')) = Ok s \<and>
     deserialize_field_value (TOption TStr) (Some s) \<noteq> Ok (SSome (SStr ''none'')))"
proof -
  have "survives (TSeq (TInt U8)) (SSeq [SInt U8 7, SInt U8 255])" by code_simp
  moreover have "has_type (TSeq (TInt U8)) (SSeq [SInt U8 7, SInt U8 255])" by code_simp
  moreover have "has_type (TOption TStr) (SSome (SStr ''none''))" by code_simp
  ultimately show ?thesis
    using field_value_roundtrip_exact [of "TSeq (TInt U8)" "SSeq [SInt U8 7, SInt U8 255]"]
      field_value_roundtrip_exact [of "TOption TStr" "SSome (SStr ''none'')"]
    by simp
qed

text \<open>
  (C25) What reading a struct from the fields of an entry gives, exactly: it succeeds with the values \<open>vs\<close> if and only if
  each field of the struct that the entry has reads to its value, each one that it does not have has its value as the default or is
  an option without default and has \<open>None\<close>, and the fields that the struct does not declare hold valid UTF-8. So an entry in
  the database always wins over a default, a missing field with neither is an error, and one unreadable
  field, even an undeclared one, makes the whole entry unreadable. Every value that is read has the type of its field,
  as far as the defaults do.
\<close>

theorem struct_read_exact:
  assumes "distinct (names st)" "distinct (map fst fvs)"
  shows "(from_field_values st fvs = Ok vs \<longleftrightarrow>
      length vs = length st \<and>
      (\<forall>i < length st.
        case map_of fvs (f_name (st ! i)) of
          Some s \<Rightarrow> deserialize_field_value (f_ty (st ! i)) (Some s) = Ok (vs ! i)
        | None \<Rightarrow> f_default (st ! i) = Some (vs ! i) \<or>
            f_default (st ! i) = None \<and> (\<exists>t. f_ty (st ! i) = TOption t) \<and> vs ! i = SNone) \<and>
      (\<forall>(k, s) \<in> set fvs. k \<notin> f_name ` set st \<longrightarrow> utf8_valid s)) \<and>
    ((\<forall>f \<in> set st. \<forall>d. f_default f = Some d \<longrightarrow> has_type (f_ty f) d) \<and> from_field_values st fvs = Ok vs \<longrightarrow>
      list_all2 (\<lambda>f v. has_type (f_ty f) v) st vs)"
proof
  have m: "missing_field f = Ok v \<longleftrightarrow>
      f_default f = Some v \<or> f_default f = None \<and> (\<exists>t. f_ty f = TOption t) \<and> v = SNone" for f v
    by (auto simp: missing_field_def split: option.splits sty.splits)
  show "from_field_values st fvs = Ok vs \<longleftrightarrow>
      length vs = length st \<and>
      (\<forall>i < length st.
        case map_of fvs (f_name (st ! i)) of
          Some s \<Rightarrow> deserialize_field_value (f_ty (st ! i)) (Some s) = Ok (vs ! i)
        | None \<Rightarrow> f_default (st ! i) = Some (vs ! i) \<or>
            f_default (st ! i) = None \<and> (\<exists>t. f_ty (st ! i) = TOption t) \<and> vs ! i = SNone) \<and>
      (\<forall>(k, s) \<in> set fvs. k \<notin> f_name ` set st \<longrightarrow> utf8_valid s)"
    unfolding from_field_values_Ok_iff [OF assms(2,1)] list_all2_conv_all_nth field_read_def m
    by (auto simp: names_def)
next
  have "has_type (f_ty f) v" if "f \<in> set st" "field_read fvs f v"
    "\<forall>f \<in> set st. \<forall>d. f_default f = Some d \<longrightarrow> has_type (f_ty f) d" for f v
    using that
    by (cases "f_ty f")
       (auto simp: field_read_def missing_field_def simp del: deserialize_field_value.simps
         split: option.splits dest: deserialize_has_type)
  then show "(\<forall>f \<in> set st. \<forall>d. f_default f = Some d \<longrightarrow> has_type (f_ty f) d) \<and> from_field_values st fvs = Ok vs \<longrightarrow>
      list_all2 (\<lambda>f v. has_type (f_ty f) v) st vs"
    using from_field_values_Ok_iff [OF assms(2,1)] by (auto simp: list_all2_conv_all_nth)
qed

definition example_struct :: struct_ty where
  "example_struct =
     [\<lparr>f_name = ''pa_ipv4'', f_ty = TStr, f_default = None, f_skip_none = True\<rparr>,
      \<lparr>f_name = ''vdpu_id'', f_ty = TOption TStr, f_default = None, f_skip_none = True\<rparr>,
      \<lparr>f_name = ''dpu_id'', f_ty = TInt U32, f_default = None, f_skip_none = True\<rparr>]"

theorem struct_read_exact_witness:
  "from_field_values example_struct [(''dpu_id'', ''3''), (''pa_ipv4'', ''10.0.0.1'')] =
     Ok [SStr ''10.0.0.1'', SNone, SInt U32 3] \<and>
   from_field_values example_struct [(''pa_ipv4'', ''10.0.0.1'')] \<noteq> Ok [SStr ''10.0.0.1'', SNone, SInt U32 0]"
proof -
  have d: "distinct (names example_struct)" by (simp add: example_struct_def names_def)
  have p: "deserialize_field_value (TInt U32) (Some ''3'') = Ok (SInt U32 3)"
    "deserialize_field_value TStr (Some ''10.0.0.1'') = Ok (SStr ''10.0.0.1'')" by code_simp+
  have "from_field_values example_struct [(''dpu_id'', ''3''), (''pa_ipv4'', ''10.0.0.1'')] =
     Ok [SStr ''10.0.0.1'', SNone, SInt U32 3]"
    using struct_read_exact [OF d, of "[(''dpu_id'', ''3''), (''pa_ipv4'', ''10.0.0.1'')]"
        "[SStr ''10.0.0.1'', SNone, SInt U32 3]"] p
    by (auto simp: example_struct_def less_Suc_eq simp del: deserialize_field_value.simps)
  moreover have "from_field_values example_struct [(''pa_ipv4'', ''10.0.0.1'')] \<noteq> Ok [SStr ''10.0.0.1'', SNone, SInt U32 0]"
    using struct_read_exact [OF d, of "[(''pa_ipv4'', ''10.0.0.1'')]" "[SStr ''10.0.0.1'', SNone, SInt U32 0]"]
    by (auto simp: example_struct_def less_Suc_eq)
  ultimately show ?thesis ..
qed

text \<open>
  (C15) A struct written with \<open>to_field_values\<close> is read back unchanged by \<open>from_field_values\<close>, in
  whatever order the hash map yields its entries, provided each of its fields survives; options
  that \<open>skip_serializing_none\<close> leaves out come back as \<open>None\<close>.
\<close>

theorem struct_roundtrip:
  assumes "wf_struct st" "struct_has_type st vs" "list_all2 (\<lambda>f v. survives (f_ty f) v) st vs"
  shows "\<exists>fvs. to_field_values st vs = Ok fvs \<and>
    (\<forall>fvs'. mset fvs' = mset fvs \<longrightarrow> from_field_values st fvs' = Ok vs)"
proof -
  obtain fvs where fvs: "to_field_values st vs = Ok fvs" "distinct (map fst fvs)"
    "from_field_values st fvs = Ok vs"
    using struct_read_back [OF assms] by blast
  moreover have "distinct (names st)" using assms(1) by (simp add: wf_struct_def)
  ultimately show ?thesis using from_field_values_order by blast
qed

theorem struct_roundtrip_witness:
  "\<exists>fvs. to_field_values example_struct [SStr ''10.0.0.1'', SNone, SInt U32 3] = Ok fvs \<and>
    from_field_values example_struct (rev fvs) = Ok [SStr ''10.0.0.1'', SNone, SInt U32 3]"
proof -
  have "wf_struct example_struct"
    by (simp add: wf_struct_def example_struct_def names_def)
  moreover have "struct_has_type example_struct [SStr ''10.0.0.1'', SNone, SInt U32 3]"
    by code_simp
  moreover have "list_all2 (\<lambda>f v. survives (f_ty f) v) example_struct
      [SStr ''10.0.0.1'', SNone, SInt U32 3]"
    by (simp add: example_struct_def)
  ultimately show ?thesis
    using struct_roundtrip [of example_struct "[SStr ''10.0.0.1'', SNone, SInt U32 3]"]
    by (metis mset_rev)
qed

text \<open>
  Reading an entry field by field from the table gives the same struct as reading all its
  field values at once, for every entry that holds the fields with a default and no invalid UTF-8
  in fields the struct does not know.
\<close>

theorem from_table_agrees:
  assumes "distinct (map fst fvs)" "distinct (names st)"
    and "\<forall>k. hget t key k = Ok (map_of fvs k)"
    and "\<forall>f \<in> set st. f_default f = None \<or> f_name f \<in> fst ` set fvs"
    and "\<forall>(k, s) \<in> set fvs. k \<in> set (names st) \<or> utf8_valid s"
  shows "from_table hget st t key = Ok vs \<longleftrightarrow> from_field_values st fvs = Ok vs"
proof -
  have "list_all2 (\<lambda>f v. deserialize_field_value (f_ty f) (map_of fvs (f_name f)) = Ok v) st vs =
        list_all2 (field_read fvs) st vs"
    by (rule list_all2_eq_on) (use assms(4) in \<open>simp add: table_read_iff\<close>)
  with assms(3,5) show ?thesis
    by (simp add: from_table_Ok_iff from_field_values_Ok_iff [OF assms(1,2)])
qed

theorem from_table_agrees_witness:
  "from_table (\<lambda>t key k. Ok (map_of t k)) example_struct
     [(''dpu_id'', ''3''), (''pa_ipv4'', ''10.0.0.1'')] ''dpu0'' = Ok [SStr ''10.0.0.1'', SNone, SInt U32 3]"
proof -
  let ?fvs = "[(''dpu_id'', ''3''), (''pa_ipv4'', ''10.0.0.1'')]"
  have "from_field_values example_struct ?fvs = Ok [SStr ''10.0.0.1'', SNone, SInt U32 3]"
    by code_simp
  then show ?thesis
    using from_table_agrees [of ?fvs example_struct "\<lambda>t key k. Ok (map_of t k)" ?fvs "''dpu0''"]
    by (simp add: example_struct_def names_def)
qed

text \<open>
  A defect: the case-insensitive comparison stops at the shorter string, so a text that is only
  the beginning of the first variant (the empty text included) is accepted as that variant, and so
  is the variant followed by anything.
\<close>

theorem truncated_variant_is_accepted:
  assumes "prefix s x \<or> prefix x s" "utf8_valid s"
  shows "deserialize_field_value (TEnum (x # xs)) (Some s) = Ok (SUnitVariant x)"
proof -
  have "streq_case_insensitive s x"
    using assms(1) by (auto simp: streq_case_insensitive_def prefix_def zip_append1 zip_append2
        list_all_iff in_set_zip split: prod.splits)
  with assms show ?thesis
    by (simp add: deserialize_enum_def to_str_def fv_data_def pick_variant_def Let_def)
qed

theorem truncated_variant_is_accepted_witness:
  "deserialize_field_value (TEnum [''up'', ''down'', ''unknown'']) (Some []) = Ok (SUnitVariant ''up'')"
  using truncated_variant_is_accepted [of "[]" "''up''" "[''down'', ''unknown'']"]
  by (simp add: utf8_valid_def)

text \<open>
  A struct written field by field into an entry that held none of its fields is read back
  unchanged, for any table whose \<open>hset\<close> and \<open>hget\<close> are those of a redis hash.
\<close>

theorem table_write_read:
  assumes "hash_laws hset hget" "wf_struct st" "struct_has_type st vs"
    "list_all2 (\<lambda>f v. survives (f_ty f) v) st vs" "to_table hset st vs t key = (Ok (), t')"
    "\<forall>f \<in> set st. hget t key (f_name f) = Ok None"
  shows "from_table hget st t' key = Ok vs"
proof -
  have d: "distinct (names st)" using assms(2) by (simp add: wf_struct_def)
  have len: "length st = length vs" using assms(4) by (rule list_all2_lengthD)
  have "table_field hget t' key f = Ok v" if fv: "(f, v) \<in> set (zip st vs)" for f v
  proof -
    have ty: "f \<in> set st" "has_type (f_ty f) v" "wf_ty (f_ty f)" "survives (f_ty f) v"
      using assms fv by (auto simp: wf_struct_def struct_has_type_def list_all2_iff list_all_iff
          dest: set_zip_leftD)
    show ?thesis
    proof (cases "skipped f v")
      case True
      then have "f_name f \<notin> fst ` set (present_fields st vs)"
        using zip_name_unique [OF d fv] by (auto simp: present_fields_iff)
      then have "hget t' key (f_name f) = Ok None"
        using assms(1,5,6) ty table_fields_frame by (fastforce simp: to_table_def)
      with True ty show ?thesis by (cases "f_ty f") (auto simp: table_field_def skipped_def)
    next
      case False
      then have "(f_name f, v) \<in> set (present_fields st vs)" using fv by (auto simp: present_fields_iff)
      then obtain s where s: "serialize_field_value v = Ok s" "hget t' key (f_name f) = Ok (Some s)"
        using table_fields_written [OF assms(1) _ present_fields_mem] assms(5) d len
        by (fastforce simp: to_table_def)
      with survives_iff [OF ty(3,2) s(1)] ty show ?thesis by (simp add: table_field_def)
    qed
  qed
  with len show ?thesis by (auto simp: from_table_def traverse_Ok_iff list_all2_iff)
qed

definition map_hset :: "(string \<times> string \<Rightarrow> string option) hset" where
  "map_hset t key k s = (None, t((key, k) \<mapsto> s))"

definition map_hget :: "(string \<times> string \<Rightarrow> string option) hget" where
  "map_hget t key k = Ok (t (key, k))"

theorem table_write_read_witness:
  "\<exists>t. to_table map_hset example_struct [SStr ''10.0.0.1'', SNone, SInt U32 3] Map.empty ''dpu0'' =
      (Ok (), t) \<and>
    from_table map_hget example_struct t ''dpu0'' = Ok [SStr ''10.0.0.1'', SNone, SInt U32 3]"
proof -
  let ?vs = "[SStr ''10.0.0.1'', SNone, SInt U32 3]"
  have "wf_struct example_struct" "list_all2 (\<lambda>f v. survives (f_ty f) v) example_struct ?vs"
    by (simp_all add: wf_struct_def example_struct_def names_def)
  moreover have "struct_has_type example_struct ?vs" by code_simp
  moreover have "hash_laws map_hset map_hget"
    by (auto simp: hash_laws_def map_hset_def map_hget_def)
  moreover have "\<exists>t. to_table map_hset example_struct ?vs Map.empty ''dpu0'' = (Ok (), t)"
    by (simp add: to_table_def present_fields_def example_struct_def map_hset_def)
  ultimately show ?thesis
    using table_write_read [of map_hset map_hget example_struct ?vs Map.empty "''dpu0''"]
    by (auto simp: map_hget_def)
qed

end
