(* ===== verification/Swbus_Config.thy ===== *)
theory Swbus_Config
  imports Swbus_Conn Swss_Serde
begin

text \<open>
  \<open>crates/swbus-config\<close>: the configuration of a bus daemon, read from the configuration database or
  from a YAML file, and \<open>swbusd\<close>'s \<open>main\<close>, which starts the service host on it.

  An \<open>Ipv4Addr\<close> is its text: the parser of the standard library accepts exactly the texts that
  \<open>Display\<close> writes (\<open>ipv4_text\<close>). An \<open>Ipv6Addr\<close> is its canonical text; which canonical text a
  spelling stands for is the parameter \<open>cs_ipv6\<close>. The database is a parameter too: the outcomes of
  the connections and of opening tables, the keys of a table in the order the database gives them,
  and its fields; the entries are read by \<open>from_table\<close> of \<open>Swss_Serde\<close>.
\<close>

section \<open>Addresses\<close>

definition octet_text :: "string \<Rightarrow> bool" where
  "octet_text s \<longleftrightarrow> s \<noteq> [] \<and> length s \<le> 3 \<and> (hd s \<noteq> CHR ''0'' \<or> length s = 1) \<and>
     (case read_digits 0 s of Some n \<Rightarrow> n \<le> 255 | None \<Rightarrow> False)"

definition ipv4_text :: "string \<Rightarrow> bool" where
  "ipv4_text s = (let ps = split_on (CHR ''.'') s in length ps = 4 \<and> list_all octet_text ps)"

definition parse_ipv4 :: "string \<Rightarrow> string option" where
  "parse_ipv4 s = (if ipv4_text s then Some s else None)"

section \<open>Configuration data\<close>

record swbus_config =
  cfg_endpoint :: socket_addr
  cfg_routes :: "route_config list"
  cfg_peers :: "peer_config list"
  cfg_npu_ipv4 :: "string option"
  cfg_npu_ipv6 :: "string option"

fun first_cluster_route :: "route_config list \<Rightarrow> service_path option" where
  "first_cluster_route [] = None"
| "first_cluster_route (r # rs) =
     (if rc_scope r = ScopeCluster then Some (rc_key r) else first_cluster_route rs)"

definition get_swbusd_service_path :: "swbus_config \<Rightarrow> service_path option" where
  "get_swbusd_service_path c = first_cluster_route (cfg_routes c)"

datatype config_error =
    InvalidConfig string
  | IOError string
  | SWSSError string string
  | SWSSSerdeError string serde_error

type_synonym 'a config_result = "(config_error, 'a) exec"

record dpu_entry =
  de_state :: "string option"
  de_swbus_port :: "16 word option"
  de_dpu_id :: u32
  de_npu_ipv4 :: "string option"
  de_npu_ipv6 :: "string option"

record remote_dpu_entry =
  re_dpu_type :: "string option"
  re_swbus_port :: "16 word option"
  re_dpu_id :: u32
  re_npu_ipv4 :: "string option"
  re_npu_ipv6 :: "string option"

record device_metadata_entry =
  dm_region :: "string option"
  dm_cluster :: "string option"
  dm_device_type :: "string option"
  dm_sub_type :: "string option"

definition to_remote_dpu :: "dpu_entry \<Rightarrow> remote_dpu_entry" where
  "to_remote_dpu d =
     \<lparr>re_dpu_type = Some ''cluster'', re_swbus_port = de_swbus_port d, re_dpu_id = de_dpu_id d,
      re_npu_ipv4 = de_npu_ipv4 d, re_npu_ipv6 = de_npu_ipv6 d\<rparr>"

text \<open>The struct types as the derived code declares them, and the records they are read into.\<close>

definition plain_field :: "string \<Rightarrow> sty \<Rightarrow> field_ty" where
  "plain_field n t = \<lparr>f_name = n, f_ty = t, f_default = None, f_skip_none = False\<rparr>"

definition dpu_entry_ty :: struct_ty where
  "dpu_entry_ty = [plain_field ''state'' (TOption TStr), plain_field ''swbus_port'' (TOption (TInt U16)),
     plain_field ''dpu_id'' (TInt U32)]"

definition remote_dpu_entry_ty :: struct_ty where
  "remote_dpu_entry_ty = [plain_field ''type'' (TOption TStr), plain_field ''swbus_port'' (TOption (TInt U16)),
     plain_field ''dpu_id'' (TInt U32), plain_field ''npu_ipv4'' (TOption TStr),
     plain_field ''npu_ipv6'' (TOption TStr)]"

definition device_metadata_entry_ty :: struct_ty where
  "device_metadata_entry_ty = [plain_field ''region'' (TOption TStr), plain_field ''cluster'' (TOption TStr),
     plain_field ''type'' (TOption TStr), plain_field ''sub_type'' (TOption TStr)]"

fun opt_str :: "sval \<Rightarrow> string option" where
  "opt_str (SSome (SStr s)) = Some s"
| "opt_str _ = None"

fun opt_u16 :: "sval \<Rightarrow> 16 word option" where
  "opt_u16 (SSome (SInt U16 i)) = Some (word_of_int i)"
| "opt_u16 _ = None"

fun as_u32 :: "sval \<Rightarrow> u32" where
  "as_u32 (SInt U32 i) = word_of_int i"
| "as_u32 _ = 0"

definition dpu_entry_of :: "sval list \<Rightarrow> dpu_entry" where
  "dpu_entry_of vs = \<lparr>de_state = opt_str (vs ! 0), de_swbus_port = opt_u16 (vs ! 1),
     de_dpu_id = as_u32 (vs ! 2), de_npu_ipv4 = None, de_npu_ipv6 = None\<rparr>"

definition remote_dpu_entry_of :: "sval list \<Rightarrow> remote_dpu_entry" where
  "remote_dpu_entry_of vs = \<lparr>re_dpu_type = opt_str (vs ! 0), re_swbus_port = opt_u16 (vs ! 1),
     re_dpu_id = as_u32 (vs ! 2), re_npu_ipv4 = opt_str (vs ! 3), re_npu_ipv6 = opt_str (vs ! 4)\<rparr>"

definition device_metadata_entry_of :: "sval list \<Rightarrow> device_metadata_entry" where
  "device_metadata_entry_of vs = \<lparr>dm_region = opt_str (vs ! 0), dm_cluster = opt_str (vs ! 1),
     dm_device_type = opt_str (vs ! 2), dm_sub_type = opt_str (vs ! 3)\<rparr>"

section \<open>Routes and peers of an entry\<close>

definition node_name :: "string \<Rightarrow> u32 \<Rightarrow> string" where
  "node_name ip i = ip @ ''-dpu'' @ show_nat (unat i)"

definition node_path :: "string \<Rightarrow> string \<Rightarrow> string \<Rightarrow> u32 \<Rightarrow> service_path" where
  "node_path region cluster ip i = with_node region cluster (node_name ip i) [] [] [] []"

text \<open>The \<open>InvalidConfig\<close> value that the function builds for an empty list is not returned.\<close>

definition route_config_from_dpu_entry ::
    "dpu_entry \<Rightarrow> string \<Rightarrow> string \<Rightarrow> route_config list config_result" where
  "route_config_from_dpu_entry d region cluster =
     (let route = (\<lambda>ip. [\<lparr>rc_key = node_path region cluster ip (de_dpu_id d), rc_scope = ScopeCluster\<rparr>])
      in Ok ((case de_npu_ipv4 d of Some ip \<Rightarrow> route ip | None \<Rightarrow> []) @
             (case de_npu_ipv6 d of Some ip \<Rightarrow> route ip | None \<Rightarrow> [])))"

definition peer_of :: "string \<Rightarrow> string \<Rightarrow> string \<Rightarrow> u32 \<Rightarrow> 16 word \<Rightarrow> peer_config" where
  "peer_of region cluster ip i port =
     \<lparr>pc_id = node_path region cluster ip i, pc_endpoint = \<lparr>sock_ip = ip, sock_port = port\<rparr>,
      pc_conn_type = ConnCluster\<rparr>"

definition peer_addr ::
    "(string \<Rightarrow> string option) \<Rightarrow> string \<Rightarrow> (string \<Rightarrow> peer_config) \<Rightarrow> string option
       \<Rightarrow> peer_config list config_result" where
  "peer_addr parse what mk t =
     (case t of
        None \<Rightarrow> Ok []
      | Some s \<Rightarrow>
          (case parse s of
             Some ip \<Rightarrow> Ok [mk ip]
           | None \<Rightarrow> Err (InvalidConfig (''Invalid '' @ what @ '' address: '' @ s))))"

definition peer_config_from_dpu_entry ::
    "(string \<Rightarrow> string option) \<Rightarrow> string \<Rightarrow> remote_dpu_entry \<Rightarrow> string \<Rightarrow> string
       \<Rightarrow> peer_config list config_result" where
  "peer_config_from_dpu_entry parse_ipv6 key d region cluster =
     (case re_dpu_type d of
        None \<Rightarrow> Err (InvalidConfig ''DPU type not found'')
      | Some ty \<Rightarrow>
          if ty \<noteq> ''cluster'' then Err (InvalidConfig (''Unsupported DPU type: '' @ ty))
          else
            (case re_swbus_port d of
               None \<Rightarrow> Err (InvalidConfig (''swbusd_port is not found in dpu '' @ key @ '' is not found''))
             | Some port \<Rightarrow>
                 (let mk = (\<lambda>ip. peer_of region cluster ip (re_dpu_id d) port)
                  in bind_exec (peer_addr parse_ipv4 ''IPv4'' mk (re_npu_ipv4 d)) (\<lambda>p4.
                     bind_exec (peer_addr parse_ipv6 ''IPv6'' mk (re_npu_ipv6 d)) (\<lambda>p6.
                       Ok (p4 @ p6))))))"

section \<open>Reading the configuration database\<close>

text \<open>
  \<open>cs_connect n\<close> is the error of the \<open>n\<close>-th connection, \<open>cs_open\<close> that of opening a table.
\<close>

record config_source =
  cs_connect :: "nat \<Rightarrow> string option"
  cs_open :: "string \<Rightarrow> string option"
  cs_keys :: "string \<Rightarrow> (string, string list) exec"
  cs_hget :: "string hget"
  cs_ipv6 :: "string \<Rightarrow> string option"

definition swss_err :: "string \<Rightarrow> string option \<Rightarrow> unit config_result" where
  "swss_err action r = (case r of None \<Rightarrow> Ok () | Some e \<Rightarrow> Err (SWSSError action e))"

definition table_keys :: "config_source \<Rightarrow> string \<Rightarrow> string list config_result" where
  "table_keys cs t =
     (case cs_keys cs t of
        Ok ks \<Rightarrow> Ok ks
      | Err e \<Rightarrow> Err (SWSSError (''Failed to get keys from '' @ t @ '' table'') e)
      | Panic \<Rightarrow> Panic)"

definition read_entry ::
    "config_source \<Rightarrow> struct_ty \<Rightarrow> string \<Rightarrow> string \<Rightarrow> string \<Rightarrow> sval list config_result" where
  "read_entry cs st t key action =
     (case from_table (cs_hget cs) st t key of
        Ok vs \<Rightarrow> Ok vs | Err e \<Rightarrow> Err (SWSSSerdeError action e) | Panic \<Rightarrow> Panic)"

definition require :: "config_error \<Rightarrow> 'a option \<Rightarrow> 'a config_result" where
  "require e x = (case x of Some v \<Rightarrow> Ok v | None \<Rightarrow> Err e)"

definition get_device_info :: "config_source \<Rightarrow> (string \<times> string) config_result" where
  "get_device_info cs =
     bind_exec (swss_err ''connecting to config_db'' (cs_connect cs 0)) (\<lambda>_.
     bind_exec (swss_err ''opening DEVICE_METADATA table'' (cs_open cs ''DEVICE_METADATA'')) (\<lambda>_.
     bind_exec (read_entry cs device_metadata_entry_ty ''DEVICE_METADATA'' ''localhost''
                  ''reading DEVICE_METADATA:localhost entry'') (\<lambda>vs.
       let m = device_metadata_entry_of vs
       in bind_exec (require (InvalidConfig ''region not found in DEVICE_METADATA table'') (dm_region m)) (\<lambda>region.
          bind_exec (require (InvalidConfig ''cluster not found in DEVICE_METADATA table'') (dm_cluster m)) (\<lambda>cluster.
            Ok (region, cluster))))))"

text \<open>\<open>str::replace(pat, "")\<close> for a pattern that is not empty: matches from the left, not overlapping.\<close>

function remove_all :: "string \<Rightarrow> string \<Rightarrow> string" where
  "remove_all pat s =
     (if s = [] \<or> pat = [] then s
      else if prefix pat s then remove_all pat (drop (length pat) s)
      else hd s # remove_all pat (tl s))"
  by pat_completeness auto
termination
  by (relation "measure (\<lambda>(pat, s). length s)") auto

declare remove_all.simps [simp del]

text \<open>\<open>IpAddr::from_str\<close> tries IPv4 first.\<close>

fun loopback_scan ::
    "config_source \<Rightarrow> string \<Rightarrow> string list \<Rightarrow> string option \<times> string option \<Rightarrow> string option \<times> string option" where
  "loopback_scan cs pre [] acc = acc"
| "loopback_scan cs pre (key # keys) acc =
     (if \<not> starts_with key pre then loopback_scan cs pre keys acc
      else
        (let addr = hd (split_on (CHR ''/'') (remove_all pre key))
         in case parse_ipv4 addr of
              Some ip \<Rightarrow> loopback_scan cs pre keys (Some ip, snd acc)
            | None \<Rightarrow>
                (case cs_ipv6 cs addr of
                   Some ip \<Rightarrow> loopback_scan cs pre keys (fst acc, Some ip)
                 | None \<Rightarrow> loopback_scan cs pre keys acc)))"

definition get_loopback_address :: "config_source \<Rightarrow> u32 \<Rightarrow> (string option \<times> string option) config_result" where
  "get_loopback_address cs lb =
     bind_exec (swss_err ''connecting to config_db'' (cs_connect cs 1)) (\<lambda>_.
     bind_exec (swss_err ''opening LOOPBACK_INTERFACE table'' (cs_open cs ''LOOPBACK_INTERFACE'')) (\<lambda>_.
     bind_exec (table_keys cs ''LOOPBACK_INTERFACE'') (\<lambda>keys.
       let acc = loopback_scan cs (''Loopback'' @ show_nat (unat lb) @ ''|'') keys (None, None)
       in if fst acc = None \<and> snd acc = None
          then Err (InvalidConfig ''No valid loopback address found'') else Ok acc)))"

text \<open>The state of the loop over the DPU table: own routes, own endpoint, peers.\<close>

type_synonym dpu_scan = "route_config list option \<times> socket_addr option \<times> peer_config list"

definition read_dpu :: "config_source \<Rightarrow> string option \<times> string option \<Rightarrow> string \<Rightarrow> dpu_entry config_result" where
  "read_dpu cs ips key =
     bind_exec (read_entry cs dpu_entry_ty ''DPU'' key (''reading DPU entry '' @ key)) (\<lambda>vs.
       Ok ((dpu_entry_of vs)\<lparr>de_npu_ipv4 := fst ips, de_npu_ipv6 := snd ips\<rparr>))"

definition scan_dpu ::
    "config_source \<Rightarrow> u32 \<Rightarrow> string \<Rightarrow> string \<Rightarrow> string option \<times> string option \<Rightarrow> string \<Rightarrow> dpu_scan
       \<Rightarrow> dpu_scan config_result" where
  "scan_dpu cs slot region cluster ips key acc =
     (case acc of (myroutes, myendpoint, peers) \<Rightarrow>
       bind_exec (read_dpu cs ips key) (\<lambda>d.
         if de_dpu_id d = slot then
           bind_exec (require (InvalidConfig (''swbusd_port is not found in dpu'' @ show_nat (unat slot)
               @ '' is not found'')) (de_swbus_port d)) (\<lambda>port.
           bind_exec (route_config_from_dpu_entry d region cluster) (\<lambda>rs.
             let ep = (case de_npu_ipv4 d of
                   Some ip \<Rightarrow> Some \<lparr>sock_ip = ip, sock_port = port\<rparr>
                 | None \<Rightarrow> (case de_npu_ipv6 d of
                     Some ip \<Rightarrow> Some \<lparr>sock_ip = ip, sock_port = port\<rparr> | None \<Rightarrow> myendpoint))
             in Ok (Some rs, ep, peers)))
         else
           bind_exec (peer_config_from_dpu_entry (cs_ipv6 cs) key (to_remote_dpu d) region cluster) (\<lambda>ps.
             Ok (myroutes, myendpoint, peers @ ps))))"

fun scan_dpus ::
    "config_source \<Rightarrow> u32 \<Rightarrow> string \<Rightarrow> string \<Rightarrow> string option \<times> string option \<Rightarrow> string list \<Rightarrow> dpu_scan
       \<Rightarrow> dpu_scan config_result" where
  "scan_dpus cs slot region cluster ips [] acc = Ok acc"
| "scan_dpus cs slot region cluster ips (key # keys) acc =
     bind_exec (scan_dpu cs slot region cluster ips key acc)
       (\<lambda>acc1. scan_dpus cs slot region cluster ips keys acc1)"

definition read_remote_dpu :: "config_source \<Rightarrow> string \<Rightarrow> remote_dpu_entry config_result" where
  "read_remote_dpu cs key =
     bind_exec (read_entry cs remote_dpu_entry_ty ''REMOTE_DPU'' key (''reading REMOTE_DPU entry '' @ key))
       (\<lambda>vs. Ok (remote_dpu_entry_of vs))"

fun scan_remote_dpus ::
    "config_source \<Rightarrow> string \<Rightarrow> string \<Rightarrow> string list \<Rightarrow> peer_config list \<Rightarrow> peer_config list config_result" where
  "scan_remote_dpus cs region cluster [] peers = Ok peers"
| "scan_remote_dpus cs region cluster (key # keys) peers =
     bind_exec (read_remote_dpu cs key) (\<lambda>d.
     bind_exec (peer_config_from_dpu_entry (cs_ipv6 cs) key d region cluster) (\<lambda>ps.
       scan_remote_dpus cs region cluster keys (peers @ ps)))"

definition opt_unwrap :: "'a option \<Rightarrow> 'a config_result" where
  "opt_unwrap x = (case x of Some v \<Rightarrow> Ok v | None \<Rightarrow> Panic)"

definition swbus_config_from_db :: "config_source \<Rightarrow> u32 \<Rightarrow> swbus_config config_result" where
  "swbus_config_from_db cs slot =
     bind_exec (get_device_info cs) (\<lambda>(region, cluster).
     bind_exec (get_loopback_address cs 0) (\<lambda>ips.
     bind_exec (swss_err ''connecting config_db'' (cs_connect cs 2)) (\<lambda>_.
     bind_exec (swss_err ''opening DPU table'' (cs_open cs ''DPU'')) (\<lambda>_.
     bind_exec (table_keys cs ''DPU'') (\<lambda>keys.
     bind_exec (scan_dpus cs slot region cluster ips keys (None, None, [])) (\<lambda>(myroutes, myendpoint, peers).
       if myroutes = None
       then Err (InvalidConfig (''DPU at slot '' @ show_nat (unat slot) @ '' is not found''))
       else if cs_connect cs 3 \<noteq> None then Panic
       else
         bind_exec (swss_err ''opening REMOTE_DPU table'' (cs_open cs ''REMOTE_DPU'')) (\<lambda>_.
         bind_exec (table_keys cs ''REMOTE_DPU'') (\<lambda>rkeys.
         bind_exec (scan_remote_dpus cs region cluster rkeys peers) (\<lambda>all_peers.
         bind_exec (opt_unwrap myendpoint) (\<lambda>ep.
         bind_exec (opt_unwrap myroutes) (\<lambda>rs.
           Ok \<lparr>cfg_endpoint = ep, cfg_routes = rs, cfg_peers = all_peers,
               cfg_npu_ipv4 = fst ips, cfg_npu_ipv6 = snd ips\<rparr>)))))))))))"

text \<open>\<open>read_yaml\<close> stands for opening the file and \<open>serde_yaml\<close>; the first error is that of the file.\<close>

definition swbus_config_from_yaml ::
    "(string \<Rightarrow> (string + string) + swbus_config) \<Rightarrow> string \<Rightarrow> swbus_config config_result" where
  "swbus_config_from_yaml read_yaml file =
     (case read_yaml file of
        Inl (Inl e) \<Rightarrow> Err (IOError e)
      | Inl (Inr e) \<Rightarrow> Err (InvalidConfig (''Failed to parse YAML file: '' @ e))
      | Inr c \<Rightarrow>
          (let ip = sock_ip (cfg_endpoint c)
           in Ok (if ipv4_text ip then c\<lparr>cfg_npu_ipv4 := Some ip\<rparr> else c\<lparr>cfg_npu_ipv6 := Some ip\<rparr>)))"

section \<open>The bus daemon\<close>

text \<open>
  \<open>swbusd\<close>'s \<open>main\<close>: the configuration of the slot, or the file; a missing argument, a bad
  configuration and a service that does not start end the process with a panic. \<open>t\<close> is the time the
  message ids start from, \<open>listen\<close> what the server answers to the request to listen at an address.
\<close>

definition swbusd_main ::
    "config_source \<Rightarrow> (string \<Rightarrow> (string + string) + swbus_config) \<Rightarrow> (socket_addr \<Rightarrow> string option) \<Rightarrow> u64
       \<Rightarrow> u32 option \<Rightarrow> string option \<Rightarrow> (string, host) exec" where
  "swbusd_main cs read_yaml listen t slot file =
     (case (case slot of
              Some s \<Rightarrow> swbus_config_from_db cs s
            | None \<Rightarrow> (case file of Some f \<Rightarrow> swbus_config_from_yaml read_yaml f | None \<Rightarrow> Panic)) of
        Ok c \<Rightarrow>
          (case service_run listen (cfg_endpoint c) (new_host t) (cfg_routes c) (cfg_peers c) of
             (h, Ok _) \<Rightarrow> Ok h | _ \<Rightarrow> Panic)
      | _ \<Rightarrow> Panic)"

section \<open>What the loops compute\<close>

definition own_ips :: "string option \<times> string option \<Rightarrow> string list" where
  "own_ips ips = (case fst ips of Some ip \<Rightarrow> [ip] | None \<Rightarrow> []) @
     (case snd ips of Some ip \<Rightarrow> [ip] | None \<Rightarrow> [])"

definition own_routes ::
    "string \<Rightarrow> string \<Rightarrow> string option \<times> string option \<Rightarrow> u32 \<Rightarrow> route_config list" where
  "own_routes region cluster ips slot =
     map (\<lambda>ip. \<lparr>rc_key = node_path region cluster ip slot, rc_scope = ScopeCluster\<rparr>)
       (own_ips ips)"

definition own_ip :: "string option \<times> string option \<Rightarrow> string option" where
  "own_ip ips = (case fst ips of Some ip \<Rightarrow> Some ip | None \<Rightarrow> snd ips)"

definition own_found ::
    "string \<Rightarrow> string \<Rightarrow> string option \<times> string option \<Rightarrow> u32 \<Rightarrow> route_config list option
       \<Rightarrow> socket_addr option \<Rightarrow> bool" where
  "own_found region cluster ips slot mr ep \<longleftrightarrow>
     (mr = None \<and> ep = None) \<or>
     (mr = Some (own_routes region cluster ips slot) \<and>
      (\<exists>port. ep = map_option (\<lambda>ip. \<lparr>sock_ip = ip, sock_port = port\<rparr>) (own_ip ips)))"

text \<open>The peers one entry contributes, and whether an entry of the DPU table is the own one.\<close>

definition dpu_peers ::
    "config_source \<Rightarrow> u32 \<Rightarrow> string \<Rightarrow> string \<Rightarrow> string option \<times> string option \<Rightarrow> string \<Rightarrow> peer_config list" where
  "dpu_peers cs slot region cluster ips key =
     (case read_dpu cs ips key of
        Ok d \<Rightarrow>
          if de_dpu_id d = slot then []
          else (case peer_config_from_dpu_entry (cs_ipv6 cs) key (to_remote_dpu d) region cluster of
                  Ok ps \<Rightarrow> ps | _ \<Rightarrow> [])
      | _ \<Rightarrow> [])"

definition remote_peers :: "config_source \<Rightarrow> string \<Rightarrow> string \<Rightarrow> string \<Rightarrow> peer_config list" where
  "remote_peers cs region cluster key =
     (case read_remote_dpu cs key of
        Ok d \<Rightarrow> (case peer_config_from_dpu_entry (cs_ipv6 cs) key d region cluster of Ok ps \<Rightarrow> ps | _ \<Rightarrow> [])
      | _ \<Rightarrow> [])"

lemma read_dpu_ips:
  "read_dpu cs ips key = Ok d \<Longrightarrow> de_npu_ipv4 d = fst ips \<and> de_npu_ipv6 d = snd ips"
  by (auto simp: read_dpu_def bind_exec_Ok_iff)

lemma scan_dpu_Ok:
  assumes "scan_dpu cs slot region cluster ips key (mr, ep, ps) = Ok (mr', ep', ps')"
    and "own_found region cluster ips slot mr ep" "own_ip ips \<noteq> None"
  shows "own_found region cluster ips slot mr' ep' \<and> ps' = ps @ dpu_peers cs slot region cluster ips key"
proof -
  from assms(1) obtain d where d: "read_dpu cs ips key = Ok d"
    by (auto simp: scan_dpu_def bind_exec_Ok_iff)
  note ips = read_dpu_ips [OF d]
  show ?thesis
  proof (cases "de_dpu_id d = slot")
    case True
    with assms d ips show ?thesis
      by (auto simp: scan_dpu_def bind_exec_Ok_iff require_def route_config_from_dpu_entry_def Let_def
          own_found_def own_routes_def own_ips_def own_ip_def dpu_peers_def split: option.splits)
  next
    case False
    with assms d show ?thesis
      by (auto simp: scan_dpu_def bind_exec_Ok_iff dpu_peers_def)
  qed
qed

lemma scan_dpus_Ok:
  assumes "scan_dpus cs slot region cluster ips keys (mr, ep, ps) = Ok (mr', ep', ps')"
    and "own_found region cluster ips slot mr ep" "own_ip ips \<noteq> None"
  shows "own_found region cluster ips slot mr' ep' \<and>
    ps' = ps @ concat (map (dpu_peers cs slot region cluster ips) keys)"
  using assms
proof (induction keys arbitrary: mr ep ps)
  case (Cons key keys)
  then obtain mr1 ep1 ps1 where s: "scan_dpu cs slot region cluster ips key (mr, ep, ps) = Ok (mr1, ep1, ps1)"
    "scan_dpus cs slot region cluster ips keys (mr1, ep1, ps1) = Ok (mr', ep', ps')"
    by (auto simp: bind_exec_Ok_iff)
  from scan_dpu_Ok [OF s(1) Cons(3,4)] Cons.IH [OF s(2)] Cons(4) show ?case by auto
qed simp

lemma scan_remote_dpus_Ok:
  "scan_remote_dpus cs region cluster keys ps = Ok ps' \<Longrightarrow>
     ps' = ps @ concat (map (remote_peers cs region cluster) keys)"
proof (induction keys arbitrary: ps)
  case (Cons key keys)
  then obtain d qs where q: "read_remote_dpu cs key = Ok d"
    "peer_config_from_dpu_entry (cs_ipv6 cs) key d region cluster = Ok qs"
    "scan_remote_dpus cs region cluster keys (ps @ qs) = Ok ps'"
    by (auto simp: bind_exec_Ok_iff)
  from Cons.IH [OF q(3)] q show ?case by (simp add: remote_peers_def)
qed simp

lemma get_loopback_Ok: "get_loopback_address cs lb = Ok ips \<Longrightarrow> own_ip ips \<noteq> None"
  by (auto simp: get_loopback_address_def bind_exec_Ok_iff Let_def own_ip_def split: if_splits option.splits)

text \<open>Everything a successful load says about the configuration.\<close>

lemma swbus_config_from_db_Ok:
  assumes "swbus_config_from_db cs slot = Ok c"
  shows "\<exists>region cluster ips keys rkeys port ip.
    get_device_info cs = Ok (region, cluster) \<and> get_loopback_address cs 0 = Ok ips \<and>
    cs_keys cs ''DPU'' = Ok keys \<and> cs_keys cs ''REMOTE_DPU'' = Ok rkeys \<and> own_ip ips = Some ip \<and>
    cfg_endpoint c = \<lparr>sock_ip = ip, sock_port = port\<rparr> \<and> cfg_routes c = own_routes region cluster ips slot \<and>
    cfg_peers c = concat (map (dpu_peers cs slot region cluster ips) keys) @
      concat (map (remote_peers cs region cluster) rkeys) \<and>
    cfg_npu_ipv4 c = fst ips \<and> cfg_npu_ipv6 c = snd ips \<and>
    (\<exists>ps. scan_remote_dpus cs region cluster rkeys ps = Ok (cfg_peers c))"
proof -
  from assms obtain region cluster ips keys mr ep ps rkeys all rs e where
    di: "get_device_info cs = Ok (region, cluster)" and lb: "get_loopback_address cs 0 = Ok ips"
    and k: "table_keys cs ''DPU'' = Ok keys"
    and sc: "scan_dpus cs slot region cluster ips keys (None, None, []) = Ok (mr, ep, ps)"
    and rk: "table_keys cs ''REMOTE_DPU'' = Ok rkeys"
    and sr: "scan_remote_dpus cs region cluster rkeys ps = Ok all"
    and u: "mr = Some rs" "ep = Some e"
    and c: "c = \<lparr>cfg_endpoint = e, cfg_routes = rs, cfg_peers = all,
               cfg_npu_ipv4 = fst ips, cfg_npu_ipv6 = snd ips\<rparr>"
    by (auto simp: swbus_config_from_db_def bind_exec_Ok_iff opt_unwrap_def split: if_splits option.splits)
  have "cs_keys cs ''DPU'' = Ok keys" "cs_keys cs ''REMOTE_DPU'' = Ok rkeys"
    using k rk by (auto simp: table_keys_def split: exec.splits)
  moreover have "own_found region cluster ips slot (Some rs) (Some e)"
    "ps = concat (map (dpu_peers cs slot region cluster ips) keys)"
    using scan_dpus_Ok [OF sc _ get_loopback_Ok [OF lb]] u by (auto simp: own_found_def)
  ultimately show ?thesis
    using di lb c sr scan_remote_dpus_Ok [OF sr] get_loopback_Ok [OF lb]
    by (fastforce simp: own_found_def)
qed

lemma own_routes_ne: "own_ip ips \<noteq> None \<Longrightarrow> own_routes region cluster ips slot \<noteq> []"
  by (auto simp: own_routes_def own_ips_def own_ip_def split: option.splits)

lemma first_cluster_own:
  assumes "own_ip ips = Some ip"
  shows "first_cluster_route (own_routes region cluster ips slot) = Some (node_path region cluster ip slot)"
  using assms by (auto simp: own_routes_def own_ips_def own_ip_def split: option.splits)

lemma no_panic_intros:
  "swss_err a r \<noteq> Panic" "require e x \<noteq> Panic" "route_config_from_dpu_entry d rg c \<noteq> Panic"
  "peer_addr p w mk t \<noteq> Panic"
  by (auto simp: swss_err_def require_def route_config_from_dpu_entry_def peer_addr_def Let_def
      split: option.splits)

lemma peer_config_no_panic: "peer_config_from_dpu_entry p key d r c \<noteq> Panic"
proof (cases "re_dpu_type d")
  case (Some ty)
  show ?thesis
  proof (cases "ty = ''cluster''")
    case True
    with Some show ?thesis
      by (cases "re_swbus_port d")
         (simp_all add: peer_config_from_dpu_entry_def Let_def bind_exec_Panic_iff no_panic_intros)
  next
    case False
    with Some show ?thesis by (simp add: peer_config_from_dpu_entry_def)
  qed
qed (simp add: peer_config_from_dpu_entry_def)

section \<open>Starting the host\<close>

lemma my_routes_ne:
  "cs_my_routes h \<noteq> [] \<or> rs \<noteq> [] \<Longrightarrow> cs_my_routes (foldl add_my_route h rs) \<noteq> []"
proof (induction rs arbitrary: h)
  case (Cons r rs)
  have "cs_my_routes (add_my_route h r) \<noteq> []"
    by (cases "cs_my_routes h") (auto simp: add_my_route_def List.insert_def)
  with Cons.IH [of "add_my_route h r"] show ?case by simp
qed simp

lemma start_connect_my_routes [simp]: "cs_my_routes (start_connect_task h ci) = cs_my_routes h"
  by (auto simp: start_connect_task_def Let_def split: option.splits prod.splits)

lemma add_peers_Ok: "cs_my_routes h \<noteq> [] \<Longrightarrow> \<exists>h'. add_peers h ps = (h', Ok ())"
  by (induction h ps rule: add_peers.induct)
     (auto simp: add_peer_def split: list.splits)

lemma service_start_Ok: "rs \<noteq> [] \<Longrightarrow> \<exists>h. service_start (new_host t) rs ps = (h, Ok ())"
  using my_routes_ne add_peers_Ok by (metis service_start_def)

section \<open>Properties\<close>

text \<open>A database that answers (possibly with errors) instead of panicking.\<close>

definition source_answers :: "config_source \<Rightarrow> bool" where
  "source_answers cs \<longleftrightarrow> (\<forall>t. cs_keys cs t \<noteq> Panic) \<and> (\<forall>t key k. cs_hget cs t key k \<noteq> Panic)"

lemma read_entry_no_panic: "source_answers cs \<Longrightarrow> read_entry cs st t key a \<noteq> Panic"
proof -
  assume "source_answers cs"
  then have "table_field (cs_hget cs) t key f \<noteq> Panic" for f
    by (auto simp: table_field_def source_answers_def split: exec.splits)
  then have "from_table (cs_hget cs) st t key \<noteq> Panic"
    by (simp add: from_table_def traverse_no_panic)
  then show ?thesis by (simp add: read_entry_def split: exec.splits)
qed

lemma table_keys_no_panic: "source_answers cs \<Longrightarrow> table_keys cs t \<noteq> Panic"
  by (auto simp: table_keys_def source_answers_def split: exec.splits)

lemma scan_dpu_no_panic: "source_answers cs \<Longrightarrow> scan_dpu cs slot rg cl ips key acc \<noteq> Panic"
  by (auto simp: scan_dpu_def read_dpu_def bind_exec_Panic_iff read_entry_no_panic no_panic_intros
      peer_config_no_panic Let_def split: prod.splits)

lemma scan_dpus_no_panic: "source_answers cs \<Longrightarrow> scan_dpus cs slot rg cl ips keys acc \<noteq> Panic"
  by (induction cs slot rg cl ips keys acc rule: scan_dpus.induct)
     (auto simp: bind_exec_Panic_iff scan_dpu_no_panic)

lemma scan_remote_dpus_no_panic: "source_answers cs \<Longrightarrow> scan_remote_dpus cs rg cl keys ps \<noteq> Panic"
  by (induction cs rg cl keys ps rule: scan_remote_dpus.induct)
     (auto simp: bind_exec_Panic_iff read_remote_dpu_def read_entry_no_panic peer_config_no_panic)

text \<open>
  Loading the configuration from the database panics only when the fourth connection to the
  database fails: the two \<open>unwrap\<close> calls on the endpoint and the routes never do, because a loopback
  address has been found before.
\<close>

theorem config_load_panics_on_connect:
  assumes "source_answers cs" "swbus_config_from_db cs slot = Panic"
  shows "cs_connect cs 3 \<noteq> None"
proof (rule ccontr)
  assume "\<not> cs_connect cs 3 \<noteq> None"
  moreover have "get_device_info cs \<noteq> Panic"
    by (auto simp: get_device_info_def bind_exec_Panic_iff no_panic_intros read_entry_no_panic assms Let_def)
  moreover have "get_loopback_address cs 0 \<noteq> Panic"
    by (auto simp: get_loopback_address_def bind_exec_Panic_iff no_panic_intros table_keys_no_panic assms Let_def)
  ultimately obtain region cluster ips keys mr ep ps where
    lb: "get_loopback_address cs 0 = Ok ips"
    and sc: "scan_dpus cs slot region cluster ips keys (None, None, []) = Ok (mr, ep, ps)"
    and un: "mr \<noteq> None" "opt_unwrap ep = Panic \<or> opt_unwrap mr = Panic"
    using assms
    by (auto simp: swbus_config_from_db_def bind_exec_Panic_iff no_panic_intros table_keys_no_panic
        scan_dpus_no_panic scan_remote_dpus_no_panic split: if_splits)
  from scan_dpus_Ok [OF sc _ get_loopback_Ok [OF lb]] un get_loopback_Ok [OF lb] show False
    by (auto simp: own_found_def opt_unwrap_def)
qed

text \<open>
  (C18) A configuration that loads is usable: the routes are the node paths of the own loopback
  addresses, all of cluster scope and at least one of them, the endpoint is at the own address and the
  daemon finds its own service path. The daemon then serves exactly when its endpoint can be listened on;
  otherwise \<open>main\<close> panics.
\<close>

theorem loaded_config_starts:
  assumes "swbus_config_from_db cs slot = Ok c"
  shows "\<exists>region cluster ips ip h. get_device_info cs = Ok (region, cluster) \<and>
    get_loopback_address cs 0 = Ok ips \<and> own_ip ips = Some ip \<and>
    cfg_routes c = own_routes region cluster ips slot \<and> cfg_routes c \<noteq> [] \<and> sock_ip (cfg_endpoint c) = ip \<and>
    get_swbusd_service_path c = Some (node_path region cluster ip slot) \<and> reachable h \<and>
    swbusd_main cs y listen t (Some slot) f = (if listen (cfg_endpoint c) = None then Ok h else Panic)"
proof -
  from swbus_config_from_db_Ok [OF assms] obtain region cluster ips port ip where
    c: "get_device_info cs = Ok (region, cluster)" "get_loopback_address cs 0 = Ok ips" "own_ip ips = Some ip"
    "cfg_routes c = own_routes region cluster ips slot" "sock_ip (cfg_endpoint c) = ip"
    by (metis socket_addr.select_convs(1))
  have ne: "cfg_routes c \<noteq> []" using own_routes_ne c(3,4) by (metis option.distinct(1))
  then obtain h where h: "service_start (new_host t) (cfg_routes c) (cfg_peers c) = (h, Ok ())"
    using service_start_Ok by blast
  then have "swbusd_main cs y listen t (Some slot) f = (if listen (cfg_endpoint c) = None then Ok h else Panic)"
    using assms by (auto simp: swbusd_main_def service_run_def err_of_def split: option.splits exec.splits)
  with c h ne show ?thesis
    by (auto simp: get_swbusd_service_path_def first_cluster_own intro: started)
qed

lemma remote_peer_of_ipv4:
  assumes "read_remote_dpu cs key = Ok d" "re_npu_ipv4 d = Some ip" "re_swbus_port d = Some port"
    and "peer_config_from_dpu_entry (cs_ipv6 cs) key d region cluster = Ok ps"
  shows "peer_of region cluster ip (re_dpu_id d) port \<in> set (remote_peers cs region cluster key)"
  using assms
  by (auto simp: remote_peers_def peer_config_from_dpu_entry_def peer_addr_def parse_ipv4_def Let_def
      bind_exec_Ok_iff split: option.splits if_splits)

lemma scan_remote_mem:
  "scan_remote_dpus cs region cluster keys ps = Ok ps' \<Longrightarrow> key \<in> set keys \<Longrightarrow>
     \<exists>d qs. read_remote_dpu cs key = Ok d \<and> peer_config_from_dpu_entry (cs_ipv6 cs) key d region cluster = Ok qs"
  by (induction keys arbitrary: ps) (auto simp: bind_exec_Ok_iff)

text \<open>
  Two switches agree on each other's name: when switch A lists the DPU of switch B in its
  REMOTE_DPU table with B's loopback address and port, and both belong to the same region and
  cluster, then A's configuration has a peer whose id is one of B's own routes and whose endpoint
  has the address B listens on.
\<close>

theorem peer_id_is_own_route_of_peer:
  assumes "swbus_config_from_db csA slotA = Ok cA" "swbus_config_from_db csB slotB = Ok cB"
    and "get_device_info csA = get_device_info csB"
    and "cs_keys csA ''REMOTE_DPU'' = Ok rkeys" "key \<in> set rkeys"
    and "read_remote_dpu csA key = Ok d" "re_dpu_id d = slotB"
    and "re_npu_ipv4 d = Some ip" "cfg_npu_ipv4 cB = Some ip" "re_swbus_port d = Some port"
  shows "\<exists>p \<in> set (cfg_peers cA). \<exists>r \<in> set (cfg_routes cB).
    pc_id p = rc_key r \<and> pc_endpoint p = \<lparr>sock_ip = ip, sock_port = port\<rparr> \<and>
    sock_ip (cfg_endpoint cB) = ip"
proof -
  obtain region cluster ipsB portB ipB where
    B: "get_device_info csB = Ok (region, cluster)" "cfg_routes cB = own_routes region cluster ipsB slotB"
    "cfg_endpoint cB = \<lparr>sock_ip = ipB, sock_port = portB\<rparr>" "own_ip ipsB = Some ipB" "cfg_npu_ipv4 cB = fst ipsB"
    using swbus_config_from_db_Ok [OF assms(2)] by blast
  then have ipB: "fst ipsB = Some ip" "sock_ip (cfg_endpoint cB) = ip"
    using assms(9) by (simp_all add: own_ip_def split: option.splits)
  obtain region' cluster' rkeys' pre ps where
    "get_device_info csA = Ok (region', cluster')" "cs_keys csA ''REMOTE_DPU'' = Ok rkeys'"
    "cfg_peers cA = pre @ concat (map (remote_peers csA region' cluster') rkeys')"
    "scan_remote_dpus csA region' cluster' rkeys' ps = Ok (cfg_peers cA)"
    using swbus_config_from_db_Ok [OF assms(1)] by blast
  then have A: "cfg_peers cA = pre @ concat (map (remote_peers csA region cluster) rkeys)"
    and "scan_remote_dpus csA region cluster rkeys ps = Ok (cfg_peers cA)"
    using assms(3,4) B(1) by simp_all
  with scan_remote_mem assms(5,6) obtain qs where
    "peer_config_from_dpu_entry (cs_ipv6 csA) key d region cluster = Ok qs" by fastforce
  from remote_peer_of_ipv4 [OF assms(6,8,10) this] assms(5)
  have "peer_of region cluster ip (re_dpu_id d) port \<in> set (cfg_peers cA)"
    by (auto simp: A)
  moreover have "\<lparr>rc_key = node_path region cluster ip slotB, rc_scope = ScopeCluster\<rparr> \<in> set (cfg_routes cB)"
    using B ipB by (auto simp: own_routes_def own_ips_def)
  ultimately show ?thesis
    using ipB assms(7) by (force simp: peer_of_def)
qed

section \<open>A concrete database\<close>

definition demo_fields :: "string \<Rightarrow> string \<Rightarrow> string \<Rightarrow> string \<Rightarrow> string option" where
  "demo_fields ip t key k = map_of
     [((''DEVICE_METADATA'', ''localhost'', ''region''), ''region-a''),
      ((''DEVICE_METADATA'', ''localhost'', ''cluster''), ''cluster-a''),
      ((''DPU'', ''dpu0'', ''dpu_id''), ''0''), ((''DPU'', ''dpu0'', ''swbus_port''), ''23606''),
      ((''REMOTE_DPU'', ''r0'', ''type''), ''cluster''), ((''REMOTE_DPU'', ''r0'', ''dpu_id''), ''0''),
      ((''REMOTE_DPU'', ''r0'', ''swbus_port''), ''23606''), ((''REMOTE_DPU'', ''r0'', ''npu_ipv4''), ip)]
     (t, key, k)"

definition demo_source :: "string \<Rightarrow> string \<Rightarrow> config_source" where
  "demo_source own peer = \<lparr>cs_connect = (\<lambda>n. None), cs_open = (\<lambda>t. None),
     cs_keys = (\<lambda>t. Ok (if t = ''LOOPBACK_INTERFACE'' then [''Loopback0'', ''Loopback0|'' @ own @ ''/32'']
        else if t = ''DPU'' then [''dpu0''] else [''r0''])),
     cs_hget = (\<lambda>t key k. Ok (demo_fields peer t key k)), cs_ipv6 = (\<lambda>s. None)\<rparr>"

definition demo_config :: "string \<Rightarrow> string \<Rightarrow> swbus_config" where
  "demo_config own peer = \<lparr>cfg_endpoint = \<lparr>sock_ip = own, sock_port = 23606\<rparr>,
     cfg_routes = [\<lparr>rc_key = node_path ''region-a'' ''cluster-a'' own 0, rc_scope = ScopeCluster\<rparr>],
     cfg_peers = [peer_of ''region-a'' ''cluster-a'' peer 0 23606],
     cfg_npu_ipv4 = Some own, cfg_npu_ipv6 = None\<rparr>"

lemma demo_reads:
  "cs_connect (demo_source own peer) n = None" "cs_open (demo_source own peer) t = None"
  "cs_keys (demo_source own peer) ''DPU'' = Ok [''dpu0'']"
  "cs_keys (demo_source own peer) ''REMOTE_DPU'' = Ok [''r0'']"
  by (simp_all add: demo_source_def)

lemma demo_texts:
  "parse_int U16 ''23606'' = Some 23606" "parse_int U32 ''0'' = Some 0"
  "utf8_valid ''23606''" "utf8_valid ''0''" "utf8_valid ''cluster''" "utf8_valid ''region-a''"
  "utf8_valid ''cluster-a''" "utf8_valid ''10.0.0.1''" "utf8_valid ''10.0.0.2''"
  "ipv4_text ''10.0.0.1''" "ipv4_text ''10.0.0.2''"
  by code_simp+

lemma demo_entries:
  "from_table (cs_hget (demo_source own peer)) dpu_entry_ty ''DPU'' ''dpu0'' =
     Ok [SNone, SSome (SInt U16 23606), SInt U32 0]"
  "utf8_valid peer \<Longrightarrow> peer \<noteq> ''none'' \<Longrightarrow>
   from_table (cs_hget (demo_source own peer)) remote_dpu_entry_ty ''REMOTE_DPU'' ''r0'' =
     Ok [SSome (SStr ''cluster''), SSome (SInt U16 23606), SInt U32 0, SSome (SStr peer), SNone]"
  "from_table (cs_hget (demo_source own peer)) device_metadata_entry_ty ''DEVICE_METADATA'' ''localhost'' =
     Ok [SSome (SStr ''region-a''), SSome (SStr ''cluster-a''), SNone, SNone]"
  by (simp_all add: from_table_def table_field_def demo_source_def demo_fields_def plain_field_def
      dpu_entry_ty_def remote_dpu_entry_ty_def device_metadata_entry_ty_def parse_fv_def to_str_def
      fv_data_def demo_texts)

lemma demo_loopback:
  "get_loopback_address (demo_source ''10.0.0.1'' peer) 0 = Ok (Some ''10.0.0.1'', None)"
  "get_loopback_address (demo_source ''10.0.0.2'' peer) 0 = Ok (Some ''10.0.0.2'', None)"
  by code_simp+

lemmas demo_load_defs = swbus_config_from_db_def swss_err_def table_keys_def scan_dpu_def read_dpu_def
  read_entry_def dpu_entry_of_def require_def route_config_from_dpu_entry_def read_remote_dpu_def
  remote_dpu_entry_of_def peer_config_from_dpu_entry_def peer_addr_def parse_ipv4_def opt_unwrap_def
  demo_config_def

lemma demo_config_loads:
  "swbus_config_from_db (demo_source ''10.0.0.1'' ''10.0.0.2'') 0 = Ok (demo_config ''10.0.0.1'' ''10.0.0.2'')"
  "swbus_config_from_db (demo_source ''10.0.0.2'' ''10.0.0.1'') 0 = Ok (demo_config ''10.0.0.2'' ''10.0.0.1'')"
  by (simp_all add: demo_load_defs get_device_info_def device_metadata_entry_of_def demo_reads demo_entries demo_loopback demo_texts)

theorem loaded_config_starts_witness:
  "\<exists>h. swbusd_main (demo_source ''10.0.0.1'' ''10.0.0.2'') (\<lambda>f. Inl (Inl f)) (\<lambda>a. None) 0 (Some 0) None = Ok h \<and> reachable h"
  using loaded_config_starts [OF demo_config_loads(1), where listen = "\<lambda>a. None"] by (metis (full_types))

theorem peer_id_is_own_route_of_peer_witness:
  "\<exists>p \<in> set (cfg_peers (demo_config ''10.0.0.1'' ''10.0.0.2'')).
   \<exists>r \<in> set (cfg_routes (demo_config ''10.0.0.2'' ''10.0.0.1'')). pc_id p = rc_key r"
proof -
  let ?d = "\<lparr>re_dpu_type = Some ''cluster'', re_swbus_port = Some 23606, re_dpu_id = 0,
     re_npu_ipv4 = Some ''10.0.0.2'', re_npu_ipv6 = None\<rparr>"
  have "get_device_info (demo_source ''10.0.0.1'' ''10.0.0.2'') = get_device_info (demo_source ''10.0.0.2'' ''10.0.0.1'')"
    by (simp add: get_device_info_def swss_err_def read_entry_def demo_reads demo_entries)
  moreover have "read_remote_dpu (demo_source ''10.0.0.1'' ''10.0.0.2'') ''r0'' = Ok ?d"
    by (simp add: read_remote_dpu_def read_entry_def remote_dpu_entry_of_def demo_entries demo_texts)
  moreover have "cs_keys (demo_source ''10.0.0.1'' ''10.0.0.2'') ''REMOTE_DPU'' = Ok [''r0'']"
    by (simp add: demo_source_def)
  ultimately show ?thesis
    using peer_id_is_own_route_of_peer [OF demo_config_loads, of "[''r0'']" "''r0''" ?d "''10.0.0.2''" 23606]
    by (auto simp: demo_config_def)
qed

definition broken_source :: config_source where
  "broken_source = (demo_source ''10.0.0.1'' ''10.0.0.2'')\<lparr>cs_connect := (\<lambda>n. if n = 3 then Some ''lost'' else None)\<rparr>"

theorem config_load_panics_on_connect_witness:
  "swbus_config_from_db broken_source 0 = Panic \<and> cs_connect broken_source 3 \<noteq> None"
proof
  have "get_loopback_address broken_source 0 = Ok (Some ''10.0.0.1'', None)" by code_simp
  moreover have "cs_hget broken_source = cs_hget (demo_source ''10.0.0.1'' ''10.0.0.2'')"
    "cs_connect broken_source = (\<lambda>n. if n = 3 then Some ''lost'' else None)"
    "cs_open broken_source t = None" "cs_keys broken_source ''DPU'' = Ok [''dpu0'']" for t
    by (simp_all add: broken_source_def demo_source_def)
  ultimately show p: "swbus_config_from_db broken_source 0 = Panic"
    by (simp add: demo_load_defs get_device_info_def device_metadata_entry_of_def demo_entries)
  have "source_answers broken_source"
    by (simp add: source_answers_def broken_source_def demo_source_def)
  with p config_load_panics_on_connect show "cs_connect broken_source 3 \<noteq> None" by blast
qed

end
