(* ===== verification/Hamgrd_Main.thy ===== *)
theory Hamgrd_Main
  imports Hamgrd_Creator Swss_Bridge Swbus_Config
begin

text \<open>
  The start of \<open>hamgrd\<close> (\<open>main.rs\<close>, \<open>DbBasedActor::start_actor_creator\<close> and
  \<open>spawn_zmq_producer_bridge\<close> of \<open>actors.rs\<close>, \<open>DpuActor::start_actor_creator\<close> and
  \<open>get_dpu_config_from_db\<close>): which handlers, bridges and actor creators the process registers on the
  bus, and the way of a table update from the database to a new actor.

  The databases, ZMQ and the contents of the subscribed tables at start are the parameter
  \<open>process_env\<close>. Handler channels are numbered in the order in which \<open>main\<close> creates them.
\<close>

section \<open>Databases\<close>

datatype db_error = DbTimeout | DbException string

record process_env =
  pe_config :: config_source
  pe_db :: "string \<Rightarrow> string \<Rightarrow> db_error option"
  pe_subscribe :: "string \<Rightarrow> string option"
  pe_rehydrate :: "string \<Rightarrow> kfv list"
  pe_zmq_client :: "string \<Rightarrow> bool"
  pe_zmq_table :: "string \<Rightarrow> bool"

definition container_name :: "byte \<Rightarrow> bool \<Rightarrow> string" where
  "container_name slot8 dpu = (if dpu then ''dpu'' @ show_nat (unat slot8) else [])"

definition db_named :: "process_env \<Rightarrow> byte \<Rightarrow> string \<Rightarrow> bool \<Rightarrow> unit outcome" where
  "db_named pe slot8 name dpu =
     (case pe_db pe name (container_name slot8 dpu) of
        None \<Rightarrow> Ok ()
      | Some DbTimeout \<Rightarrow> Err (''Connecting to db `'' @ name @ ''` timed out'')
      | Some (DbException e) \<Rightarrow> Err (''Connecting to db `'' @ name @ ''`: '' @ e))"

definition db_for_table :: "process_env \<Rightarrow> byte \<Rightarrow> sonic_table \<Rightarrow> unit outcome" where
  "db_for_table pe slot8 t = db_named pe slot8 (db_name t) (is_dpu t)"

definition common_bridge_sp_rt :: "edge \<Rightarrow> sonic_table \<Rightarrow> service_path" where
  "common_bridge_sp_rt e t =
     (base_sp e)\<lparr>resource_type := ''swss-common-bridge'', resource_id := db_name t @ ''|'' @ table_name t\<rparr>"

section \<open>The own DPU entry\<close>

definition option_field :: "string \<Rightarrow> sty \<Rightarrow> field_ty" where
  "option_field n t = \<lparr>f_name = n, f_ty = TOption t, f_default = None, f_skip_none = True\<rparr>"

definition dpu_ty :: struct_ty where
  "dpu_ty = [option_field ''state'' TStr, option_field ''vip_ipv4'' TStr, option_field ''vip_ipv6'' TStr,
     plain_field ''pa_ipv4'' TStr, option_field ''pa_ipv6'' TStr, plain_field ''dpu_id'' (TInt U32),
     option_field ''vdpu_id'' TStr, plain_field ''orchagent_zmq_port'' (TInt U16),
     plain_field ''swbus_port'' (TInt U16), plain_field ''midplane_ipv4'' TStr]"

fun as_str :: "sval \<Rightarrow> string" where
  "as_str (SStr s) = s"
| "as_str _ = []"

fun as_u16 :: "sval \<Rightarrow> u16" where
  "as_u16 (SInt U16 i) = word_of_int i"
| "as_u16 _ = 0"

definition dpu_of :: "sval list \<Rightarrow> dpu" where
  "dpu_of vs = \<lparr>dpu_state_field = opt_str (vs ! 0), dpu_vip_ipv4 = opt_str (vs ! 1),
     dpu_vip_ipv6 = opt_str (vs ! 2), dpu_pa_ipv4 = as_str (vs ! 3), dpu_pa_ipv6 = opt_str (vs ! 4),
     dpu_dpu_id = as_u32 (vs ! 5), dpu_vdpu_id = opt_str (vs ! 6),
     dpu_orchagent_zmq_port = as_u16 (vs ! 7), dpu_swbus_port = as_u16 (vs ! 8),
     dpu_midplane_ipv4 = as_str (vs ! 9)\<rparr>"

fun find_dpu :: "config_source \<Rightarrow> u32 \<Rightarrow> string list \<Rightarrow> dpu outcome" where
  "find_dpu cs slot [] = Err (''DPU entry not found for slot '' @ show_nat (unat slot))"
| "find_dpu cs slot (key # keys) =
     (case from_table (cs_hget cs) dpu_ty ''DPU'' key of
        Ok vs \<Rightarrow> (let d = dpu_of vs in if dpu_dpu_id d = slot then Ok d else find_dpu cs slot keys)
      | Err e \<Rightarrow> Err (''reading DPU entry '' @ key)
      | Panic \<Rightarrow> Panic)"

definition get_dpu_config_from_db :: "config_source \<Rightarrow> u32 \<Rightarrow> dpu outcome" where
  "get_dpu_config_from_db cs slot =
     (if cs_connect cs 4 \<noteq> None then Err ''connecting config_db''
      else if cs_open cs ''DPU'' \<noteq> None then Err ''opening DPU table''
      else case cs_keys cs ''DPU'' of
          Ok keys \<Rightarrow> find_dpu cs slot keys
        | Err e \<Rightarrow> Err ''Failed to get keys from DPU table''
        | Panic \<Rightarrow> Panic)"

section \<open>Bridges and creators\<close>

definition creator_bridge_cfg :: "hamgrd_env \<Rightarrow> edge \<Rightarrow> string \<Rightarrow> sonic_table \<Rightarrow> bridge_cfg" where
  "creator_bridge_cfg env e name t =
     \<lparr>bc_codec = env_codec env, bc_serde = env_serde env,
      bc_dest = (\<lambda>k. ((base_sp e)\<lparr>resource_type := name, resource_id := kfv_key k\<rparr>, table_name t)),
      bc_selector = (\<lambda>k. Ok True)\<rparr>"

text \<open>The subscription of a table and the bridge on it; \<open>t0\<close> is the time message ids start from.\<close>

definition start_table_bridge ::
    "process_env \<Rightarrow> byte \<Rightarrow> edge \<Rightarrow> sonic_table \<Rightarrow> u64 \<Rightarrow> nat \<Rightarrow> (edge \<times> consumer_bridge) outcome" where
  "start_table_bridge pe slot8 e t t0 hdl =
     bind_exec (db_for_table pe slot8 t) (\<lambda>_.
       case pe_subscribe pe (table_name t) of
         Some er \<Rightarrow> Err er
       | None \<Rightarrow> Ok (spawn_consumer_bridge e (common_bridge_sp_rt e t) t0 hdl (pe_rehydrate pe (table_name t))))"

definition start_actor_creator ::
    "process_env \<Rightarrow> byte \<Rightarrow> edge \<Rightarrow> string \<Rightarrow> sonic_table \<Rightarrow> (string \<Rightarrow> 'a outcome) \<Rightarrow> u64 \<Rightarrow> nat
       \<Rightarrow> (edge \<times> 'a creator \<times> consumer_bridge) outcome" where
  "start_actor_creator pe slot8 e name t create t0 hdl =
     (let (e1, c) = new_creator e (new_sp e name []) False create t0 hdl
      in bind_exec (start_table_bridge pe slot8 e1 t t0 (Suc hdl)) (\<lambda>(e2, b). Ok (e2, c, b)))"

definition start_dpu_actor_creator ::
    "process_env \<Rightarrow> byte \<Rightarrow> edge \<Rightarrow> u64 \<Rightarrow> nat
       \<Rightarrow> (edge \<times> dpu_actor creator \<times> consumer_bridge \<times> consumer_bridge) outcome" where
  "start_dpu_actor_creator pe slot8 e t0 hdl =
     (let (e1, c) = new_creator e (new_sp e ''dpu'' []) False (\<lambda>key. Ok (new_dpu_actor key)) t0 hdl
      in bind_exec (start_table_bridge pe slot8 e1 dpu_tbl t0 (hdl + 1)) (\<lambda>(e2, b).
         bind_exec (start_table_bridge pe slot8 e2 remote_dpu_tbl t0 (hdl + 2)) (\<lambda>(e3, rb).
           Ok (e3, c, b, rb))))"

definition spawn_zmq_producer_bridge ::
    "process_env \<Rightarrow> byte \<Rightarrow> edge \<Rightarrow> string \<Rightarrow> sonic_table \<Rightarrow> u64 \<Rightarrow> nat \<Rightarrow> (edge \<times> simple_client) outcome" where
  "spawn_zmq_producer_bridge pe slot8 e zmq t t0 hdl =
     (if pe_zmq_client pe zmq
      then bind_exec (db_for_table pe slot8 t) (\<lambda>_.
             if pe_zmq_table pe (table_name t)
             then Ok (spawn_producer_bridge e (common_bridge_sp_rt e t) t0 hdl) else Panic)
      else Err (''Failed to connect to ZMQ server at '' @ zmq))"

definition spawn_producer_bridges ::
    "process_env \<Rightarrow> byte \<Rightarrow> edge \<Rightarrow> dpu \<Rightarrow> u64 \<Rightarrow> (edge \<times> simple_client list) outcome" where
  "spawn_producer_bridges pe slot8 e d t0 =
     (let zmq = ''tcp://'' @ dpu_midplane_ipv4 d @ '':'' @ show_nat (unat (dpu_orchagent_zmq_port d))
      in bind_exec (spawn_zmq_producer_bridge pe slot8 e zmq bfd_session_tbl t0 0) (\<lambda>(e1, p1).
         bind_exec (spawn_zmq_producer_bridge pe slot8 e1 zmq dash_ha_set_tbl t0 1) (\<lambda>(e2, p2).
         bind_exec (spawn_zmq_producer_bridge pe slot8 e2 zmq dash_ha_scope_tbl t0 2) (\<lambda>(e3, p3).
           Ok (e3, [p1, p2, p3])))))"

text \<open>\<open>Display\<close> of a \<open>SocketAddr\<close>.\<close>

definition show_socket_addr :: "socket_addr \<Rightarrow> string" where
  "show_socket_addr a =
     (if ipv4_text (sock_ip a) then sock_ip a else ''['' @ sock_ip a @ '']'') @ '':''
       @ show_nat (unat (sock_port a))"

record process =
  p_slot8 :: byte
  p_env :: "u32 \<times> string option \<times> string option"
  p_endpoint :: string
  p_edge :: edge
  p_producers :: "simple_client list"
  p_sink :: simple_client
  p_dpu :: "dpu_actor creator \<times> consumer_bridge \<times> consumer_bridge"
  p_vdpu :: "vdpu_actor creator \<times> consumer_bridge"
  p_ha_set :: "ha_set_actor creator \<times> consumer_bridge"
  p_ha_scope :: "ha_scope_actor creator \<times> consumer_bridge"

definition start_actor_creators ::
    "process_env \<Rightarrow> byte \<Rightarrow> edge \<Rightarrow> u64
       \<Rightarrow> (edge \<times> (dpu_actor creator \<times> consumer_bridge \<times> consumer_bridge) \<times> (vdpu_actor creator \<times> consumer_bridge)
            \<times> (ha_set_actor creator \<times> consumer_bridge) \<times> (ha_scope_actor creator \<times> consumer_bridge)) outcome" where
  "start_actor_creators pe slot8 e t0 =
     bind_exec (start_dpu_actor_creator pe slot8 e t0 4) (\<lambda>(e1, d).
     bind_exec (start_actor_creator pe slot8 e1 vdpu_actor_name vdpu_tbl (\<lambda>k. Ok (new_vdpu_actor k)) t0 7) (\<lambda>(e2, v).
     bind_exec (start_actor_creator pe slot8 e2 ha_set_actor_name dash_ha_set_config_tbl
                  (\<lambda>k. Ok (new_ha_set_actor k)) t0 9) (\<lambda>(e3, hs).
     bind_exec (start_actor_creator pe slot8 e3 ''ha-scope'' dash_ha_scope_config_tbl new_ha_scope_actor t0 11)
       (\<lambda>(e4, sc). Ok (e4, d, v, hs, sc)))))"

section \<open>The process\<close>

text \<open>
  \<open>main\<close> up to the wait for Ctrl+C. Every \<open>unwrap\<close> on an error is a panic, a configuration without a
  cluster route ends the process (\<open>Err\<close>). The slot id is cut to eight bits for the database names.
\<close>

definition hamgrd_main :: "process_env \<Rightarrow> u32 \<Rightarrow> u64 \<Rightarrow> process outcome" where
  "hamgrd_main pe slot t0 =
     (let slot8 = (ucast slot :: byte)
      in case swbus_config_from_db (pe_config pe) slot of
           Ok c \<Rightarrow>
             (case get_swbusd_service_path c of
                None \<Rightarrow> Err ''No cluster route found in swbusd config''
              | Some sp0 \<Rightarrow>
                  (let sp = sp0\<lparr>service_type := ''hamgrd'', service_id := ''0''\<rparr>
                   in bind_exec (unwrap_exec (get_dpu_config_from_db (pe_config pe) slot)) (\<lambda>d.
                      bind_exec (unwrap_exec (spawn_producer_bridges pe slot8 (new_edge sp) d t0)) (\<lambda>(e1, ps).
                        let (e2, sink) = new_simple_client e1 sp True True t0 3
                        in bind_exec (unwrap_exec (start_actor_creators pe slot8 e2 t0)) (\<lambda>(e3, dp, v, hs, sc).
                             Ok \<lparr>p_slot8 = slot8, p_env = (slot, cfg_npu_ipv4 c, cfg_npu_ipv6 c),
                                 p_endpoint = ''http://'' @ show_socket_addr (cfg_endpoint c),
                                 p_edge = e3, p_producers = ps, p_sink = sink, p_dpu = dp, p_vdpu = v,
                                 p_ha_set = hs, p_ha_scope = sc\<rparr>)))))
         | _ \<Rightarrow> Panic)"

section \<open>What start-up registers\<close>

text \<open>\<open>pth sp a b\<close> is the path of resource \<open>b\<close> of type \<open>a\<close> below a service.\<close>

abbreviation pth :: "service_path \<Rightarrow> string \<Rightarrow> string \<Rightarrow> service_path" where
  "pth sp a b \<equiv> sp\<lparr>resource_type := a, resource_id := b\<rparr>"

lemma pth_eq_iff [simp]: "pth sp a b = pth sp c d \<longleftrightarrow> a = c \<and> b = d"
proof
  assume e: "pth sp a b = pth sp c d"
  have "resource_type (pth sp a b) = a" "resource_id (pth sp a b) = b" for a b by simp_all
  with e show "a = c \<and> b = d" by metis
qed simp

lemma pth_eq_base [simp]: "sp = pth sp a b \<longleftrightarrow> resource_type sp = a \<and> resource_id sp = b"
  by (cases sp) auto

lemma pth_base_eq [simp]: "pth sp a b = sp \<longleftrightarrow> resource_type sp = a \<and> resource_id sp = b"
  by (cases sp) auto

lemma new_simple_client_edge:
  assumes "new_simple_client e src public sink t hdl = (e1, c)"
  shows "eroutes e1 = route_map_insert (eroutes e) src hdl (if public then Public else Private) \<and>
    base_sp e1 = base_sp e \<and> local_msgs e1 = local_msgs e \<and>
    handler_chans e1 = (handler_chans e)(hdl \<mapsto> new_chan swbus_recv_queue_size) \<and>
    sc_source c = src \<and> sc_sink c = sink \<and> sc_handler c = hdl"
  using assms by (auto simp: new_simple_client_def Let_def add_handler_def add_private_handler_def)

lemma start_table_bridge_edge:
  assumes "start_table_bridge pe slot8 e t t0 hdl = Ok (e1, b)"
  shows "eroutes e1 = route_map_insert (eroutes e) (common_bridge_sp_rt e t) hdl Private \<and>
    base_sp e1 = base_sp e \<and> local_msgs e1 = local_msgs e \<and>
    handler_chans e1 = (handler_chans e)(hdl \<mapsto> new_chan swbus_recv_queue_size) \<and>
    sc_source (cb_client b) = common_bridge_sp_rt e t \<and> cb_cache b = Map.empty"
proof -
  obtain e2 c where n: "new_simple_client e (common_bridge_sp_rt e t) False False t0 hdl = (e2, c)" by fastforce
  with assms have "e1 = e2" "cb_client b = c" "cb_cache b = Map.empty"
    by (auto simp: start_table_bridge_def bind_exec_Ok_iff spawn_consumer_bridge_def split: option.splits)
  with new_simple_client_edge [OF n] show ?thesis by simp
qed

lemma new_creator_edge:
  assumes "new_creator e sp False create t hdl = (e1, c)"
  shows "eroutes e1 = route_map_insert (eroutes e) sp hdl Private \<and> base_sp e1 = base_sp e \<and>
    local_msgs e1 = local_msgs e \<and> handler_chans e1 = (handler_chans e)(hdl \<mapsto> new_chan 10) \<and>
    cr_handler c = hdl \<and> cr_sp c = sp \<and> cr_create c = create"
  using assms by (auto simp: new_creator_def Let_def add_private_handler_def)

lemma start_actor_creator_edge:
  assumes "start_actor_creator pe slot8 e name t create t0 hdl = Ok (e2, c, b)"
  shows "eroutes e2 = route_map_insert (route_map_insert (eroutes e) (new_sp e name []) hdl Private)
      (common_bridge_sp_rt e t) (Suc hdl) Private \<and> base_sp e2 = base_sp e \<and> local_msgs e2 = local_msgs e \<and>
    handler_chans e2 = (handler_chans e)(hdl \<mapsto> new_chan 10, Suc hdl \<mapsto> new_chan swbus_recv_queue_size) \<and>
    cr_handler c = hdl"
proof -
  obtain e1 c1 where n: "new_creator e (new_sp e name []) False create t0 hdl = (e1, c1)" by fastforce
  with assms have s: "start_table_bridge pe slot8 e1 t t0 (Suc hdl) = Ok (e2, b)" "c = c1"
    by (auto simp: start_actor_creator_def bind_exec_Ok_iff)
  with new_creator_edge [OF n] start_table_bridge_edge [OF s(1)] show ?thesis
    by (simp add: common_bridge_sp_rt_def)
qed

lemma start_dpu_actor_creator_edge:
  assumes "start_dpu_actor_creator pe slot8 e t0 hdl = Ok (e3, c, b, rb)"
  shows "eroutes e3 = route_map_insert (route_map_insert (route_map_insert (eroutes e)
      (new_sp e ''dpu'' []) hdl Private) (common_bridge_sp_rt e dpu_tbl) (hdl + 1) Private)
      (common_bridge_sp_rt e remote_dpu_tbl) (hdl + 2) Private \<and>
    base_sp e3 = base_sp e \<and> local_msgs e3 = local_msgs e \<and> cr_handler c = hdl \<and>
    handler_chans e3 = (handler_chans e)(hdl \<mapsto> new_chan 10, hdl + 1 \<mapsto> new_chan swbus_recv_queue_size,
      hdl + 2 \<mapsto> new_chan swbus_recv_queue_size)"
proof -
  obtain e1 c1 where n: "new_creator e (new_sp e ''dpu'' []) False (\<lambda>key. Ok (new_dpu_actor key)) t0 hdl = (e1, c1)"
    by fastforce
  with assms obtain e2 where s: "start_table_bridge pe slot8 e1 dpu_tbl t0 (hdl + 1) = Ok (e2, b)"
    "start_table_bridge pe slot8 e2 remote_dpu_tbl t0 (hdl + 2) = Ok (e3, rb)" "c = c1"
    by (auto simp: start_dpu_actor_creator_def bind_exec_Ok_iff)
  with new_creator_edge [OF n] start_table_bridge_edge [OF s(1)] start_table_bridge_edge [OF s(2)] show ?thesis
    by (simp add: common_bridge_sp_rt_def)
qed

lemma spawn_zmq_producer_bridge_edge:
  assumes "spawn_zmq_producer_bridge pe slot8 e zmq t t0 hdl = Ok (e1, c)"
  shows "eroutes e1 = route_map_insert (eroutes e) (common_bridge_sp_rt e t) hdl Private \<and>
    base_sp e1 = base_sp e \<and> local_msgs e1 = local_msgs e \<and>
    handler_chans e1 = (handler_chans e)(hdl \<mapsto> new_chan swbus_recv_queue_size)"
proof -
  from assms have "new_simple_client e (common_bridge_sp_rt e t) False False t0 hdl = (e1, c)"
    by (auto simp: spawn_zmq_producer_bridge_def spawn_producer_bridge_def bind_exec_Ok_iff split: if_splits)
  from new_simple_client_edge [OF this] show ?thesis by simp
qed

lemma spawn_producer_bridges_edge:
  assumes "spawn_producer_bridges pe slot8 e d t0 = Ok (e3, ps)"
  shows "eroutes e3 = route_map_insert (route_map_insert (route_map_insert (eroutes e)
      (common_bridge_sp_rt e bfd_session_tbl) 0 Private) (common_bridge_sp_rt e dash_ha_set_tbl) 1 Private)
      (common_bridge_sp_rt e dash_ha_scope_tbl) 2 Private \<and>
    base_sp e3 = base_sp e \<and> local_msgs e3 = local_msgs e"
proof -
  define zmq where "zmq = ''tcp://'' @ dpu_midplane_ipv4 d @ '':'' @ show_nat (unat (dpu_orchagent_zmq_port d))"
  from assms obtain e1 p1 e2 p2 p3 where s:
    "spawn_zmq_producer_bridge pe slot8 e zmq bfd_session_tbl t0 0 = Ok (e1, p1)"
    "spawn_zmq_producer_bridge pe slot8 e1 zmq dash_ha_set_tbl t0 1 = Ok (e2, p2)"
    "spawn_zmq_producer_bridge pe slot8 e2 zmq dash_ha_scope_tbl t0 2 = Ok (e3, p3)"
    unfolding spawn_producer_bridges_def zmq_def [symmetric]
    by (auto simp: bind_exec_Ok_iff Let_def)
  from spawn_zmq_producer_bridge_edge [OF s(1)] spawn_zmq_producer_bridge_edge [OF s(2)]
    spawn_zmq_producer_bridge_edge [OF s(3)]
  show ?thesis by (simp add: common_bridge_sp_rt_def)
qed

text \<open>The route map after start-up, in the order of registration.\<close>

definition bridge_path :: "service_path \<Rightarrow> sonic_table \<Rightarrow> service_path" where
  "bridge_path sp t = pth sp ''swss-common-bridge'' (db_name t @ ''|'' @ table_name t)"

definition hamgrd_routes :: "service_path \<Rightarrow> handler_routes" where
  "hamgrd_routes sp = foldl (\<lambda>m (d, h, pr). route_map_insert m d h pr) []
     [(bridge_path sp bfd_session_tbl, 0, Private), (bridge_path sp dash_ha_set_tbl, 1, Private),
      (bridge_path sp dash_ha_scope_tbl, 2, Private), (sp, 3, Public),
      (pth sp ''dpu'' [], 4, Private), (bridge_path sp dpu_tbl, 5, Private),
      (bridge_path sp remote_dpu_tbl, 6, Private),
      (pth sp vdpu_actor_name [], 7, Private), (bridge_path sp vdpu_tbl, 8, Private),
      (pth sp ha_set_actor_name [], 9, Private), (bridge_path sp dash_ha_set_config_tbl, 10, Private),
      (pth sp ''ha-scope'' [], 11, Private), (bridge_path sp dash_ha_scope_config_tbl, 12, Private)]"

definition creator_handlers :: "process \<Rightarrow> (string \<times> nat) list" where
  "creator_handlers p =
     [(''dpu'', cr_handler (fst (p_dpu p))), (vdpu_actor_name, cr_handler (fst (p_vdpu p))),
      (ha_set_actor_name, cr_handler (fst (p_ha_set p))), (''ha-scope'', cr_handler (fst (p_ha_scope p)))]"

lemma first_cluster_resource:
  assumes "swbus_config_from_db cs slot = Ok c" "get_swbusd_service_path c = Some sp"
  shows "resource_type sp = [] \<and> resource_id sp = []"
proof -
  obtain region cluster ips ip where "cfg_routes c = own_routes region cluster ips slot" "own_ip ips = Some ip"
    using swbus_config_from_db_Ok [OF assms(1)] by blast
  with assms(2) show ?thesis
    by (auto simp: get_swbusd_service_path_def first_cluster_own node_path_def with_node_def)
qed

lemma start_actor_creators_edge:
  assumes "start_actor_creators pe slot8 e t0 = Ok (e4, d, v, hs, sc)" "base_sp e = sp"
  shows "eroutes e4 = foldl (\<lambda>m (d, h, pr). route_map_insert m d h pr) (eroutes e)
     [(pth sp ''dpu'' [], 4, Private), (bridge_path sp dpu_tbl, 5, Private),
      (bridge_path sp remote_dpu_tbl, 6, Private),
      (pth sp vdpu_actor_name [], 7, Private), (bridge_path sp vdpu_tbl, 8, Private),
      (pth sp ha_set_actor_name [], 9, Private), (bridge_path sp dash_ha_set_config_tbl, 10, Private),
      (pth sp ''ha-scope'' [], 11, Private), (bridge_path sp dash_ha_scope_config_tbl, 12, Private)] \<and>
    base_sp e4 = sp \<and> local_msgs e4 = local_msgs e \<and>
    (\<forall>h < 4. handler_chans e4 h = handler_chans e h) \<and>
    (\<forall>h \<in> {4, 7, 9, 11}. handler_chans e4 h = Some (new_chan 10)) \<and>
    cr_handler (fst d) = 4 \<and> cr_handler (fst v) = 7 \<and> cr_handler (fst hs) = 9 \<and> cr_handler (fst sc) = 11"
proof -
  obtain dc db drb vc vb hc hb scc scb where p: "d = (dc, db, drb)" "v = (vc, vb)" "hs = (hc, hb)" "sc = (scc, scb)"
    by (metis surj_pair)
  from assms(1) obtain e1 e2 e3 where s: "start_dpu_actor_creator pe slot8 e t0 4 = Ok (e1, dc, db, drb)"
    "start_actor_creator pe slot8 e1 vdpu_actor_name vdpu_tbl (\<lambda>k. Ok (new_vdpu_actor k)) t0 7 = Ok (e2, vc, vb)"
    "start_actor_creator pe slot8 e2 ha_set_actor_name dash_ha_set_config_tbl
       (\<lambda>k. Ok (new_ha_set_actor k)) t0 9 = Ok (e3, hc, hb)"
    "start_actor_creator pe slot8 e3 ''ha-scope'' dash_ha_scope_config_tbl new_ha_scope_actor t0 11 = Ok (e4, scc, scb)"
    by (auto simp: start_actor_creators_def bind_exec_Ok_iff p)
  from start_dpu_actor_creator_edge [OF s(1)] start_actor_creator_edge [OF s(2)]
    start_actor_creator_edge [OF s(3)] start_actor_creator_edge [OF s(4)] assms(2)
  show ?thesis by (simp add: common_bridge_sp_rt_def bridge_path_def new_sp_def p)
qed

lemma hamgrd_main_edge:
  assumes "hamgrd_main pe slot t0 = Ok p"
  shows "\<exists>sp. resource_type sp = [] \<and> resource_id sp = [] \<and> base_sp (p_edge p) = sp \<and>
    eroutes (p_edge p) = hamgrd_routes sp \<and> local_msgs (p_edge p) = new_chan swbus_recv_queue_size \<and>
    sc_source (p_sink p) = sp \<and> sc_sink (p_sink p) \<and> sc_handler (p_sink p) = 3 \<and>
    handler_chans (p_edge p) 3 = Some (new_chan swbus_recv_queue_size) \<and>
    (\<forall>h \<in> {4, 7, 9, 11}. handler_chans (p_edge p) h = Some (new_chan 10)) \<and>
    creator_handlers p = [(''dpu'', 4), (vdpu_actor_name, 7), (ha_set_actor_name, 9), (''ha-scope'', 11)] \<and>
    p_slot8 p = ucast slot"
proof -
  from assms obtain c sp0 where
    c: "swbus_config_from_db (pe_config pe) slot = Ok c" "get_swbusd_service_path c = Some sp0"
    by (auto simp: hamgrd_main_def Let_def split: exec.splits option.splits)
  define sp where "sp = sp0\<lparr>service_type := ''hamgrd'', service_id := ''0''\<rparr>"
  define K :: "edge \<Rightarrow> simple_client list \<Rightarrow> process outcome" where "K = (\<lambda>e1 ps. case new_simple_client e1 sp True True t0 3 of (e2, sink) \<Rightarrow>
        bind_exec (unwrap_exec (start_actor_creators pe (ucast slot) e2 t0)) (\<lambda>(e3, dp, v, hs, sc).
          Ok \<lparr>p_slot8 = ucast slot, p_env = (slot, cfg_npu_ipv4 c, cfg_npu_ipv6 c),
              p_endpoint = ''http://'' @ show_socket_addr (cfg_endpoint c),
              p_edge = e3, p_producers = ps, p_sink = sink, p_dpu = dp, p_vdpu = v,
              p_ha_set = hs, p_ha_scope = sc\<rparr>))"
  have "bind_exec (unwrap_exec (get_dpu_config_from_db (pe_config pe) slot)) (\<lambda>d.
      bind_exec (unwrap_exec (spawn_producer_bridges pe (ucast slot) (new_edge sp) d t0)) (\<lambda>(e1, ps). K e1 ps)) = (Ok p :: process outcome)"
    using assms c unfolding hamgrd_main_def Let_def K_def sp_def by simp
  then obtain d e1 ps where
    s1: "spawn_producer_bridges pe (ucast slot) (new_edge sp) d t0 = Ok (e1, ps)" and rest: "K e1 ps = (Ok p :: process outcome)"
    by (auto simp: bind_exec_Ok_iff)
  obtain e2 sink where s2: "new_simple_client e1 sp True True t0 3 = (e2, sink)" by fastforce
  with rest obtain e3 dp v hs sc where s3: "start_actor_creators pe (ucast slot) e2 t0 = Ok (e3, dp, v, hs, sc)"
    and p: "p_edge p = e3" "p_sink p = sink" "p_dpu p = dp" "p_vdpu p = v" "p_ha_set p = hs" "p_ha_scope p = sc"
      "p_slot8 p = ucast slot"
    by (auto simp: K_def bind_exec_Ok_iff)
  note s = s1 s2 s3
  have base: "base_sp e2 = sp" "local_msgs e2 = new_chan swbus_recv_queue_size"
    "eroutes e2 = route_map_insert (eroutes e1) sp 3 Public"
    "handler_chans e2 3 = Some (new_chan swbus_recv_queue_size)"
    using spawn_producer_bridges_edge [OF s(1)] new_simple_client_edge [OF s(2)]
    by (simp_all add: new_edge_def)
  have r: "eroutes e3 = hamgrd_routes sp"
    using spawn_producer_bridges_edge [OF s(1)] base start_actor_creators_edge [OF s(3) base(1)]
    by (simp add: hamgrd_routes_def common_bridge_sp_rt_def bridge_path_def new_edge_def)
  show ?thesis
    using first_cluster_resource [OF c] sp_def start_actor_creators_edge [OF s(3) base(1)] base r p
      new_simple_client_edge [OF s(2)]
    by (intro exI [of _ sp]) (simp add: creator_handlers_def)
qed

lemma map_of_hamgrd_routes:
  "map_of (hamgrd_routes sp) = Map.empty
     (bridge_path sp bfd_session_tbl \<mapsto> (0, Private), bridge_path sp dash_ha_set_tbl \<mapsto> (1, Private),
      bridge_path sp dash_ha_scope_tbl \<mapsto> (2, Private), sp \<mapsto> (3, Public),
      pth sp ''dpu'' [] \<mapsto> (4, Private), bridge_path sp dpu_tbl \<mapsto> (5, Private),
      bridge_path sp remote_dpu_tbl \<mapsto> (6, Private),
      pth sp vdpu_actor_name [] \<mapsto> (7, Private), bridge_path sp vdpu_tbl \<mapsto> (8, Private),
      pth sp ha_set_actor_name [] \<mapsto> (9, Private), bridge_path sp dash_ha_set_config_tbl \<mapsto> (10, Private),
      pth sp ''ha-scope'' [] \<mapsto> (11, Private), bridge_path sp dash_ha_scope_config_tbl \<mapsto> (12, Private))"
  by (simp add: hamgrd_routes_def route_map_insert_def map_of_update del: AList.update.simps)

lemma bridge_path_neq:
  "name \<noteq> ''swss-common-bridge'' \<Longrightarrow> pth sp name key \<noteq> bridge_path sp t"
  "resource_type sp = [] \<Longrightarrow> sp \<noteq> bridge_path sp t"
  by (auto simp: bridge_path_def)

lemma hamgrd_lookup:
  assumes "resource_type sp = []" "resource_id sp = []"
    and "(name, h) \<in> set [(''dpu'', 4), (vdpu_actor_name, 7), (ha_set_actor_name, 9), (''ha-scope'', 11)]"
  shows "key \<noteq> [] \<Longrightarrow> map_of (hamgrd_routes sp) (pth sp name key) = None"
    "map_of (hamgrd_routes sp) (pth sp name []) = Some (h, Private)"
    "map_of (hamgrd_routes sp) (pth sp [] []) = Some (3, Public)"
proof -
  have n: "name \<noteq> ''swss-common-bridge''" "name \<noteq> []"
    using assms(3) by (auto simp: vdpu_actor_name_def ha_set_actor_name_def)
  have b: "pth sp [] [] = sp" using assms by simp
  show "key \<noteq> [] \<Longrightarrow> map_of (hamgrd_routes sp) (pth sp name key) = None"
    using n assms(1) by (simp add: map_of_hamgrd_routes bridge_path_neq(1) [OF n(1)])
  show "map_of (hamgrd_routes sp) (pth sp name []) = Some (h, Private)"
    using assms(3) n assms(1) unfolding map_of_hamgrd_routes
    by (auto simp: bridge_path_neq(1) [OF n(1)] vdpu_actor_name_def ha_set_actor_name_def)
  show "map_of (hamgrd_routes sp) (pth sp [] []) = Some (3, Public)"
    unfolding b using assms(1)
    by (simp add: map_of_hamgrd_routes bridge_path_neq(2) vdpu_actor_name_def ha_set_actor_name_def)
qed

text \<open>
  The states of the runtime of the process: after start-up, clients register below the path of the service with a resource type
  and a resource id, as every actor and every bridge of an actor does, and messages are sent, routed and
  taken, which changes the queues and the connection but neither the routes nor the path of the service.
\<close>

inductive process_edge :: "process \<Rightarrow> edge \<Rightarrow> bool" for p where
  started_up: "process_edge p (p_edge p)"
| registers: "process_edge p e \<Longrightarrow> rt \<noteq> [] \<Longrightarrow> ri \<noteq> [] \<Longrightarrow>
    process_edge p (fst (new_simple_client e (pth (base_sp e) rt ri) public sink t hdl))"
| queues_change: "process_edge p e \<Longrightarrow> eroutes e' = eroutes e \<Longrightarrow> base_sp e' = base_sp e \<Longrightarrow> process_edge p e'"

lemma process_edge_routes:
  "process_edge p e \<Longrightarrow> base_sp e = base_sp (p_edge p) \<and>
     (\<forall>x. resource_type x = [] \<or> resource_id x = [] \<longrightarrow> map_of (eroutes e) x = map_of (eroutes (p_edge p)) x)"
proof (induction rule: process_edge.induct)
  case (registers e rt ri public sink t hdl)
  obtain e1 c where n: "new_simple_client e (pth (base_sp e) rt ri) public sink t hdl = (e1, c)" by fastforce
  have "x \<noteq> pth (base_sp e) rt ri" if "resource_type x = [] \<or> resource_id x = []" for x
    using that registers.hyps(2,3) by auto
  with new_simple_client_edge [OF n] registers.IH show ?case
    unfolding n fst_conv by (simp add: route_map_insert_def map_of_update)
qed auto

lemma hamgrd_resolve:
  assumes "resource_type sp = []" "resource_id sp = []"
    and "(name, h) \<in> set [(''dpu'', 4), (vdpu_actor_name, 7), (ha_set_actor_name, 9), (''ha-scope'', 11)]"
    and "key \<noteq> []" "map_of rm (pth sp name key) = None"
    and "\<forall>x. resource_type x = [] \<or> resource_id x = [] \<longrightarrow> map_of rm x = map_of (hamgrd_routes sp) x"
  shows "resolve (route_map_get rm) (pth sp name key) Public = Some 3"
    "resolve (route_map_get rm) (pth sp name key) Private = Some h"
proof -
  have c: "candidates (pth sp name key) = [pth sp name key, pth sp name [], pth sp [] []]"
    by (simp add: candidates_def)
  have "map_of rm (pth sp name []) = Some (h, Private)" "map_of rm (pth sp [] []) = Some (3, Public)"
    using assms(6) hamgrd_lookup(2,3) [OF assms(1-3)] by auto
  then show "resolve (route_map_get rm) (pth sp name key) Public = Some 3"
    "resolve (route_map_get rm) (pth sp name key) Private = Some h"
    unfolding resolve_def c by (simp_all add: route_map_get_def assms(5))
qed

lemma edge_route_resolved:
  assumes "header m = Some hm" "destination hm = Some dst" "resolve (route_map_get (eroutes e)) dst pr = Some hdl"
    and "handler_chans e hdl = Some ch" "rx_open ch" "length (queue ch) < cap ch"
  shows "edge_route_message e m pr = Some (e\<lparr>handler_chans := (handler_chans e)(hdl \<mapsto> ch\<lparr>queue := queue ch @ [m]\<rparr>)\<rparr>)"
  using assms by (simp add: edge_route_message_eq [OF assms(1,2)] proxy_send_def send_async_cases)

section \<open>Properties\<close>

text \<open>
  (C23) In every state of the process from start-up on, as long as the queue of the sink has room, a message from
  outside to an actor for which no handler is registered is put in the queue of the sink, and nothing else of the runtime changes:
  no other queue, of a creator, a bridge or an actor, gets it. The sink answers its sender with \<open>NoRoute\<close> for its
  id. A local message to the same actor is put in the queue of the creator of that kind of actor, when it has room, and
  again nothing else changes.
\<close>

theorem outside_message_to_unknown_actor_refused:
  assumes "hamgrd_main pe slot t0 = Ok p" "process_edge p e" "(name, h) \<in> set (creator_handlers p)" "key \<noteq> []"
    and "header m = Some hm" "source hm = Some src" "body m = Some bd"
    and "destination hm = Some ((base_sp (p_edge p))\<lparr>resource_type := name, resource_id := key\<rparr>)"
    and "map_of (eroutes e) ((base_sp (p_edge p))\<lparr>resource_type := name, resource_id := key\<rparr>) = None"
    and "handler_chans e (sc_handler (p_sink p)) = Some ch" "rx_open ch" "length (queue ch) < cap ch"
  shows "edge_route_message e m Public =
      Some (e\<lparr>handler_chans := (handler_chans e)(sc_handler (p_sink p) \<mapsto> ch\<lparr>queue := queue ch @ [m]\<rparr>)\<rparr>) \<and>
    h \<noteq> sc_handler (p_sink p) \<and>
    (\<exists>r hr rr. snd (handle_received_message (p_sink p) m) = Ok (Respond r) \<and> header r = Some hr \<and>
      destination hr = Some src \<and> body r = Some (Response rr) \<and> request_id rr = msg_id hm \<and>
      error_code rr = code_num NoRoute) \<and>
    (\<forall>cch. handler_chans e h = Some cch \<and> rx_open cch \<and> length (queue cch) < cap cch \<longrightarrow>
      edge_route_message e m Private =
        Some (e\<lparr>handler_chans := (handler_chans e)(h \<mapsto> cch\<lparr>queue := queue cch @ [m]\<rparr>)\<rparr>))"
proof -
  from hamgrd_main_edge [OF assms(1)] obtain sp where sp:
    "resource_type sp = []" "resource_id sp = []" "base_sp (p_edge p) = sp" "eroutes (p_edge p) = hamgrd_routes sp"
    "sc_source (p_sink p) = sp" "sc_sink (p_sink p)" "sc_handler (p_sink p) = 3"
    "creator_handlers p = [(''dpu'', 4), (vdpu_actor_name, 7), (ha_set_actor_name, 9), (''ha-scope'', 11)]"
    by blast
  then have nh: "(name, h) \<in> set [(''dpu'', 4), (vdpu_actor_name, 7), (ha_set_actor_name, 9), (''ha-scope'', 11)]"
    using assms(3) by simp
  have d: "destination hm = Some (pth sp name key)" using assms(8) sp(3) by simp
  have "\<forall>x. resource_type x = [] \<or> resource_id x = [] \<longrightarrow> map_of (eroutes e) x = map_of (hamgrd_routes sp) x"
    using process_edge_routes [OF assms(2)] sp(4) by simp
  note r = hamgrd_resolve [OF sp(1,2) nh assms(4) assms(9) [unfolded sp(3)] this]
  have "edge_route_message e m Private = Some (e\<lparr>handler_chans := (handler_chans e)(h \<mapsto> cch\<lparr>queue := queue cch @ [m]\<rparr>)\<rparr>)"
    if "handler_chans e h = Some cch" "rx_open cch" "length (queue cch) < cap cch" for cch
    by (rule edge_route_resolved [OF assms(5) d r(2) that])
  moreover have "edge_route_message e m Public =
      Some (e\<lparr>handler_chans := (handler_chans e)(3 \<mapsto> ch\<lparr>queue := queue ch @ [m]\<rparr>)\<rparr>)"
    by (rule edge_route_resolved [OF assms(5) d r(1) _ assms(11,12)]) (use assms(10) sp(7) in simp)
  moreover have "\<exists>r hr rr. snd (handle_received_message (p_sink p) m) = Ok (Respond r) \<and> header r = Some hr \<and>
      destination hr = Some src \<and> body r = Some (Response rr) \<and> request_id rr = msg_id hm \<and>
      error_code rr = code_num NoRoute"
  proof -
    have "pth sp name key \<noteq> sp" using assms(4) sp(2) by auto
    then show ?thesis
      using assms(5-7) d sp(5,6)
      by (simp add: handle_received_message_def client_respond_def new_message_def new_header_def infra_error_def
          split: prod.splits)
  qed
  moreover have "h \<noteq> 3" using nh by auto
  ultimately show ?thesis by (simp add: sp(7))
qed

lemma edge_after_pop:
  "route_next_local (e\<lparr>local_msgs := ch\<lparr>queue := [m]\<rparr>\<rparr>) =
     edge_route_message (e\<lparr>local_msgs := ch\<lparr>queue := []\<rparr>\<rparr>) m Private"
  by (simp add: route_next_local_def)

text \<open>The creator's task takes the next message of its queue.\<close>

definition take_from :: "edge \<Rightarrow> nat \<Rightarrow> edge" where
  "take_from e hdl =
     (case handler_chans e hdl of
        Some ch \<Rightarrow> e\<lparr>handler_chans := (handler_chans e)(hdl \<mapsto> ch\<lparr>queue := tl (queue ch)\<rparr>)\<rparr>
      | None \<Rightarrow> e)"

text \<open>
  (C10) From the database to a new actor: when a SET of a key without an actor arrives in a table that a
  creator watches, the bridge sends the whole entry, the router hands the message to the creator,
  the creator builds the actor and puts the message back, and the router delivers it to the new
  actor, the first message in its queue; it decodes to the key, operation and entry of the table.
\<close>

theorem table_update_creates_actor:
  assumes cfg: "cfg = creator_bridge_cfg env e name tbl"
    and src: "sc_source (cb_client b) = common_bridge_sp_rt e tbl"
    and mk: "merge_kfv (cb_cache b) u = (cache, k)" and op: "kfv_operation u = KSet"
    and ser: "j_kfv (env_serde env) k = Inr d" "of_j_kfv (env_serde env) d = Inr k"
    and cod: "deserialize (env_codec env) (serialize (env_codec env) \<lparr>am_key = table_name tbl, am_data = d\<rparr>) =
      Inr \<lparr>am_key = table_name tbl, am_data = d\<rparr>"
    and q: "queue (local_msgs e) = []" "rx_open (local_msgs e)" "0 < cap (local_msgs e)"
    and res: "resolve (route_map_get (eroutes e)) ((base_sp e)\<lparr>resource_type := name, resource_id := kfv_key u\<rparr>)
      Private = Some chdl"
    and ch: "handler_chans e chdl = Some ch" "queue ch = []" "rx_open ch" "0 < cap ch"
    and cr: "cr_create c (kfv_key u) = Ok a"
  shows "\<exists>b1 e1 m e2 e3 cl e4 ch4. send_kfv cfg b e u = Some (Ok (b1, e1, Some m)) \<and>
    route_next_local e1 = Some e2 \<and> map_option queue (handler_chans e2 chdl) = Some [m] \<and>
    creator_step env t hdl c (take_from e2 chdl) m = Some (Ok (c, e3, Some (cl, a))) \<and>
    sc_source cl = (base_sp e)\<lparr>resource_type := name, resource_id := kfv_key u\<rparr> \<and>
    route_next_local e3 = Some e4 \<and> handler_chans e4 hdl = Some ch4 \<and> queue ch4 = [m] \<and>
    carries cfg (common_bridge_sp_rt e tbl) k m"
proof -
  have key: "kfv_key k = kfv_key u" "kfv_operation k = KSet"
    using tcache.merge_key [of "cb_cache b" u] tcache.merge_op [of "cb_cache b" u] mk op by auto
  let ?dst = "(base_sp e)\<lparr>resource_type := name, resource_id := kfv_key u\<rparr>"
  have "selected cfg k" by (simp add: cfg creator_bridge_cfg_def selected_def)
  moreover have "j_kfv (bc_serde cfg) k = Inr d" using ser by (simp add: cfg creator_bridge_cfg_def)
  ultimately obtain b1 m where
    sn: "send_kfv cfg b e u = Some (Ok (b1, e\<lparr>local_msgs := (local_msgs e)\<lparr>queue := [m]\<rparr>\<rparr>, Some m))"
    using send_kfv_total [OF mk, of cfg d e] q by auto
  with send_kfv_Ok [OF sn] mk have car: "carries cfg (common_bridge_sp_rt e tbl) k m"
    using \<open>selected cfg k\<close> src by (auto simp: Let_def)
  then obtain hm am where "header m = Some hm" "source hm = Some (common_bridge_sp_rt e tbl)"
    "destination hm = Some ?dst" "body m = Some (DataRequest (serialize (env_codec env) am))"
    "am_key am = table_name tbl" "am_data am = d"
    using ser(1) key by (auto simp: carries_def cfg creator_bridge_cfg_def)
  moreover from this have "am = \<lparr>am_key = table_name tbl, am_data = d\<rparr>" by (cases am) simp
  ultimately have m: "header m = Some hm" "source hm = Some (common_bridge_sp_rt e tbl)"
    "destination hm = Some ?dst" "body m = Some (DataRequest (serialize (env_codec env) am))"
    "am = \<lparr>am_key = table_name tbl, am_data = d\<rparr>" by simp_all
  let ?e0 = "e\<lparr>local_msgs := (local_msgs e)\<lparr>queue := []\<rparr>\<rparr>"
  let ?e2 = "?e0\<lparr>handler_chans := (handler_chans e)(chdl \<mapsto> ch\<lparr>queue := [m]\<rparr>)\<rparr>"
  have r: "route_next_local (e\<lparr>local_msgs := (local_msgs e)\<lparr>queue := [m]\<rparr>\<rparr>) = Some ?e2"
    unfolding edge_after_pop
    using edge_route_message_eq [OF m(1,3), of ?e0 Private] res ch
    by (simp add: proxy_send_def send_async_cases)
  let ?e3 = "take_from ?e2 chdl"
  have e3: "local_msgs ?e3 = (local_msgs e)\<lparr>queue := []\<rparr>" "base_sp ?e3 = base_sp e"
    by (simp_all add: take_from_def)
  have dst: "?dst = new_sp ?e3 name (kfv_key u)" by (simp add: new_sp_def e3)
  have rt: "resource_type (common_bridge_sp_rt e tbl) = ''swss-common-bridge''"
    by (simp add: common_bridge_sp_rt_def)
  have dec: "deserialize (env_codec env) (serialize (env_codec env) am) = Inr am"
    "of_j_kfv (env_serde env) (am_data am) = Inr k" using cod ser m(5) by simp_all
  have "\<exists>e3' e4 cl ch4. creator_step env t hdl c ?e3 m = Some (Ok (c, e3', Some (cl, a))) \<and>
      sc_source cl = ?dst \<and> route_next_local e3' = Some e4 \<and> handler_chans e4 hdl = Some ch4 \<and> queue ch4 = [m]"
  proof -
    obtain e0 cl where n: "new_simple_client ?e3 ?dst True False t hdl = (e0, cl)" by (metis surj_pair)
    note ne = new_simple_client_edge [OF n]
    with routed_to_new_client [OF m(1,3) n] q e3
    obtain e1' e2' ch' where rr: "edge_send e0 m = Some (e1', Ok ())" "route_next_local e1' = Some e2'"
      "handler_chans e2' hdl = Some ch'" "queue ch' = [m]" by auto
    have "creator_step env t hdl c ?e3 m = Some (Ok (c, e1', Some (cl, a)))"
      using creator_handles_set [OF m(1,2,3) rt m(4) dec, of c] key cr n rr(1) dst
      by (simp add: creator_step_def spawn_actor_def new_sp_def)
    with rr ne show ?thesis by blast
  qed
  with sn r car show ?thesis by (auto simp: fun_upd_def)
qed

section \<open>A concrete process\<close>

definition demo_dpu_fields :: "(string \<times> string) list" where
  "demo_dpu_fields = [(''dpu_id'', ''0''), (''swbus_port'', ''23606''), (''pa_ipv4'', ''18.0.0.1''),
     (''orchagent_zmq_port'', ''8100''), (''midplane_ipv4'', ''169.254.1.1'')]"

definition demo_dpu_source :: config_source where
  "demo_dpu_source = (demo_source ''10.0.0.1'' ''10.0.0.2'')
     \<lparr>cs_hget := (\<lambda>t key k. Ok (if t = ''DPU'' then map_of demo_dpu_fields k else demo_fields ''10.0.0.2'' t key k))\<rparr>"

definition demo_pe :: process_env where
  "demo_pe = \<lparr>pe_config = demo_dpu_source, pe_db = (\<lambda>n c. None), pe_subscribe = (\<lambda>t. None),
     pe_rehydrate = (\<lambda>t. []), pe_zmq_client = (\<lambda>z. True), pe_zmq_table = (\<lambda>t. True)\<rparr>"

lemma demo_dpu_source_reads:
  "cs_connect demo_dpu_source n = None" "cs_open demo_dpu_source t = None"
  "cs_keys demo_dpu_source ''DPU'' = Ok [''dpu0'']" "cs_keys demo_dpu_source ''REMOTE_DPU'' = Ok [''r0'']"
  by (simp_all add: demo_dpu_source_def demo_source_def)

lemma demo_dpu_texts:
  "parse_int U16 ''8100'' = Some 8100" "utf8_valid ''8100''" "utf8_valid ''18.0.0.1''" "utf8_valid ''169.254.1.1''"
  by code_simp+

lemma demo_dpu_entries:
  "from_table (cs_hget demo_dpu_source) dpu_entry_ty ''DPU'' ''dpu0'' =
     Ok [SNone, SSome (SInt U16 23606), SInt U32 0]"
  "from_table (cs_hget demo_dpu_source) dpu_ty ''DPU'' ''dpu0'' =
     Ok [SNone, SNone, SNone, SStr ''18.0.0.1'', SNone, SInt U32 0, SNone, SInt U16 8100, SInt U16 23606,
         SStr ''169.254.1.1'']"
  "from_table (cs_hget demo_dpu_source) remote_dpu_entry_ty ''REMOTE_DPU'' ''r0'' =
     Ok [SSome (SStr ''cluster''), SSome (SInt U16 23606), SInt U32 0, SSome (SStr ''10.0.0.2''), SNone]"
  "from_table (cs_hget demo_dpu_source) device_metadata_entry_ty ''DEVICE_METADATA'' ''localhost'' =
     Ok [SSome (SStr ''region-a''), SSome (SStr ''cluster-a''), SNone, SNone]"
  by (simp_all add: from_table_def table_field_def demo_dpu_source_def demo_fields_def demo_dpu_fields_def
      plain_field_def option_field_def dpu_ty_def
      dpu_entry_ty_def remote_dpu_entry_ty_def device_metadata_entry_ty_def parse_fv_def to_str_def
      fv_data_def demo_texts demo_dpu_texts)

lemma demo_dpu_loopback: "get_loopback_address demo_dpu_source 0 = Ok (Some ''10.0.0.1'', None)"
  by code_simp

lemma is_ok_iff: "is_ok r \<longleftrightarrow> (\<exists>x. r = Ok x)"
  by (cases r) auto

lemma is_ok_bind: "is_ok r \<Longrightarrow> (\<And>x. is_ok (f x)) \<Longrightarrow> is_ok (bind_exec r f)"
  by (cases r) auto

lemma demo_starts:
  "is_ok (spawn_zmq_producer_bridge demo_pe s8 e z t u h)" "is_ok (start_table_bridge demo_pe s8 e t u h)"
  by (simp_all add: spawn_zmq_producer_bridge_def start_table_bridge_def demo_pe_def db_for_table_def db_named_def)

lemma demo_starts_all:
  "is_ok (spawn_producer_bridges demo_pe s8 e d u)"
  "is_ok (start_actor_creator demo_pe s8 e name t create u h)"
  "is_ok (start_dpu_actor_creator demo_pe s8 e u h)"
  unfolding spawn_producer_bridges_def start_actor_creator_def start_dpu_actor_creator_def Let_def
  by (auto intro!: is_ok_bind demo_starts split: prod.splits)

lemma demo_starts_creators: "is_ok (start_actor_creators demo_pe s8 e u)"
  unfolding start_actor_creators_def by (auto intro!: is_ok_bind demo_starts_all split: prod.splits)

lemma demo_process_starts: "\<exists>p. hamgrd_main demo_pe 0 t0 = Ok p"
proof -
  have "swbus_config_from_db demo_dpu_source 0 = Ok (demo_config ''10.0.0.1'' ''10.0.0.2'')"
    by (simp add: demo_load_defs get_device_info_def device_metadata_entry_of_def demo_dpu_source_reads
        demo_dpu_entries demo_dpu_loopback demo_texts)
  moreover obtain sp where "get_swbusd_service_path (demo_config ''10.0.0.1'' ''10.0.0.2'') = Some sp"
    by (simp add: get_swbusd_service_path_def demo_config_def)
  moreover obtain d where "get_dpu_config_from_db demo_dpu_source 0 = Ok d"
    by (simp add: get_dpu_config_from_db_def demo_dpu_source_reads demo_dpu_entries dpu_of_def)
  moreover obtain e1 ps where "spawn_producer_bridges demo_pe 0
      (new_edge (sp\<lparr>service_type := ''hamgrd'', service_id := ''0''\<rparr>)) d t0 = Ok (e1, ps)"
    using demo_starts_all(1) by (metis is_ok_iff surj_pair)
  moreover obtain e2 sk where "new_simple_client e1 (sp\<lparr>service_type := ''hamgrd'', service_id := ''0''\<rparr>)
      True True t0 3 = (e2, sk)" by fastforce
  moreover obtain e3 x where "start_actor_creators demo_pe 0 e2 t0 = Ok (e3, x)"
    using demo_starts_creators by (metis is_ok_iff surj_pair)
  moreover have "pe_config demo_pe = demo_dpu_source" by (simp add: demo_pe_def)
  ultimately show ?thesis
    by (cases x) (simp add: hamgrd_main_def Let_def)
qed

theorem outside_message_to_unknown_actor_refused_witness:
  "\<exists>p m e e1 ch. hamgrd_main demo_pe 0 5 = Ok p \<and> e = fst (spawn_actor (p_edge p) ''dpu'' ''dpu0'' 6 13) \<and>
     edge_route_message e m Public = Some e1 \<and>
     handler_chans e1 (sc_handler (p_sink p)) = Some ch \<and> queue ch = [m] \<and> handler_chans e1 4 = handler_chans e 4"
proof -
  obtain p where p: "hamgrd_main demo_pe 0 5 = Ok p" using demo_process_starts by blast
  let ?e = "fst (spawn_actor (p_edge p) ''dpu'' ''dpu0'' 6 13)"
  let ?dst = "(base_sp (p_edge p))\<lparr>resource_type := ''dpu'', resource_id := ''dpu7''\<rparr>"
  let ?m = "new_message (new_header (demo_actor ''y'') ?dst 3) PingRequest"
  from hamgrd_main_edge [OF p] obtain sp where sp:
    "resource_type sp = []" "resource_id sp = []" "base_sp (p_edge p) = sp" "eroutes (p_edge p) = hamgrd_routes sp"
    "sc_handler (p_sink p) = 3" "handler_chans (p_edge p) 3 = Some (new_chan swbus_recv_queue_size)"
    by blast
  have c: "(''dpu'', cr_handler (fst (p_dpu p))) \<in> set (creator_handlers p)" by (simp add: creator_handlers_def)
  have st: "process_edge p ?e"
    unfolding spawn_actor_def new_sp_def by (rule registers [OF started_up]) simp_all
  have e: "map_of (eroutes ?e) ?dst = None" "handler_chans ?e 3 = Some (new_chan swbus_recv_queue_size)"
    using hamgrd_lookup(1) [OF sp(1,2), of "''dpu''" 4 "''dpu7''"] sp(4,6)
    by (simp_all add: spawn_actor_def new_simple_client_def Let_def add_handler_def route_map_insert_def map_of_update
        new_sp_def sp(3))
  then have "edge_route_message ?e ?m Public = Some (?e\<lparr>handler_chans := (handler_chans ?e)(3 \<mapsto>
      (new_chan swbus_recv_queue_size)\<lparr>queue := queue (new_chan swbus_recv_queue_size) @ [?m]\<rparr>)\<rparr>)"
    using outside_message_to_unknown_actor_refused [OF p st c, of "''dpu7''" ?m "new_header (demo_actor ''y'') ?dst 3"
        "demo_actor ''y''" PingRequest "new_chan swbus_recv_queue_size"] sp(5)
    by (simp add: new_message_def new_header_def new_chan_def swbus_recv_queue_size_def)
  with p sp(5) show ?thesis
    by (intro exI [of _ p] exI [of _ ?m]) (simp add: new_chan_def)
qed

definition demo_table_bridge :: consumer_bridge where
  "demo_table_bridge = snd (spawn_consumer_bridge (fst demo_creator) (common_bridge_sp_rt (fst demo_creator) dpu_tbl) 10 3 [])"

theorem table_update_creates_actor_witness:
  "\<exists>b1 e1 m e2 e3 cl e4 ch4.
    send_kfv (creator_bridge_cfg demo_codec_env (fst demo_creator) ''dpu'' dpu_tbl) demo_table_bridge (fst demo_creator)
      (demo_kfv ''dpu0'' []) = Some (Ok (b1, e1, Some m)) \<and>
    route_next_local e1 = Some e2 \<and>
    creator_step demo_codec_env 5 2 (snd demo_creator) (take_from e2 1) m = Some (Ok (snd demo_creator, e3, Some (cl, new_dpu_actor ''dpu0''))) \<and>
    route_next_local e3 = Some e4 \<and> handler_chans e4 2 = Some ch4 \<and> queue ch4 = [m]"
proof -
  let ?e = "fst demo_creator" and ?u = "demo_kfv ''dpu0'' []"
  have base: "resource_type (base_sp ?e) = []" "resource_id (base_sp ?e) = []"
    "eroutes ?e = [((base_sp ?e)\<lparr>resource_type := ''dpu'', resource_id := []\<rparr>, 1, Private)]"
    "handler_chans ?e 1 = Some (new_chan 10)"
    by (simp_all add: demo_creator_def new_creator_def new_edge_def new_sp_def Let_def add_private_handler_def
        route_map_insert_def demo_svc_def with_node_def)
  have r: "resolve (route_map_get (eroutes ?e)) ((base_sp ?e)\<lparr>resource_type := ''dpu'', resource_id := kfv_key ?u\<rparr>)
      Private = Some 1"
    by (simp add: resolve_def candidates_def route_map_get_def base(3) demo_kfv_def)
  have mk: "merge_kfv (cb_cache demo_table_bridge) ?u = ([''dpu0'' \<mapsto> []], ?u)"
    and src: "sc_source (cb_client demo_table_bridge) = common_bridge_sp_rt ?e dpu_tbl"
    by (simp_all add: demo_table_bridge_def spawn_consumer_bridge_def new_simple_client_def Let_def merge_kfv_def
        demo_kfv_def fv_extend_def)
  have ser: "j_kfv (env_serde demo_codec_env) ?u = Inr (JStr ''dpu0'')"
    "of_j_kfv (env_serde demo_codec_env) (JStr ''dpu0'') = Inr ?u"
    "deserialize (env_codec demo_codec_env) (serialize (env_codec demo_codec_env)
       \<lparr>am_key = table_name dpu_tbl, am_data = JStr ''dpu0''\<rparr>) = Inr \<lparr>am_key = table_name dpu_tbl, am_data = JStr ''dpu0''\<rparr>"
    by (simp_all add: demo_codec_env_def demo_env_def demo_serde_def demo_kfv_def dpu_tbl_def)
  have ch: "queue (new_chan 10) = []" "rx_open (new_chan 10)" "0 < cap (new_chan 10)"
    by (simp_all add: new_chan_def)
  have cr: "cr_create (snd demo_creator) (kfv_key ?u) = Ok (new_dpu_actor ''dpu0'')" "kfv_operation ?u = KSet"
    by (simp_all add: demo_creator_simps demo_kfv_def)
  from table_update_creates_actor [OF refl src mk cr(2) ser demo_creator_simps(2-4) r base(4) ch cr(1), of 5 2]
  show ?thesis by blast
qed

text \<open>Two slots that differ by a multiple of 256 use the same DPU databases.\<close>

theorem wide_slots_share_databases:
  "unat slot mod 256 = unat slot' mod 256 \<Longrightarrow>
     db_for_table pe (ucast (slot :: u32)) t = db_for_table pe (ucast (slot' :: u32)) t"
proof -
  assume "unat slot mod 256 = unat slot' mod 256"
  then have "(ucast slot :: byte) = ucast slot'"
    by (intro unsigned_word_eqI [where 'a = nat]) (simp add: unsigned_ucast_eq take_bit_eq_mod)
  then show ?thesis by simp
qed

end
