(* ===== verification/Hamgrd_Serde.thy ===== *)
theory Hamgrd_Serde
  imports Hamgrd_Main
begin

text \<open>
  How the structs of \<open>hamgrd\<close> are written and read (\<open>db_structs.rs\<close>, \<open>ha_actor_messages.rs\<close>): the names,
  types, defaults and attributes of their fields as struct types of \<open>Swss_Serde\<close>, and with them a value
  of the parameter \<open>serde\<close> of the actors. Rows of tables go through \<open>to_field_values\<close> and
  \<open>from_field_values\<close>; messages between actors are JSON objects with the same fields.

  \<open>StringWithSeparator<CommaSeparator>\<close> makes a list one text; \<open>timestamp_serialize\<close> and
  \<open>timestamp_deserialize\<close> make a time a text. What \<open>chrono\<close>, \<open>serde_json\<close> and \<open>swss_common\<close> do is the
  parameter \<open>serde_env\<close>: formatting and parsing of times, the JSON of a value, the JSON of a
  \<open>KeyOpFieldValues\<close>, and the texts of errors. \<open>se_now\<close> is the time of the call.

  The locale \<open>table_struct\<close> states when a record and its row determine each other; the tables that
  \<open>hamgrd\<close> writes are instances.
\<close>

section \<open>Texts of fields\<close>

record serde_env =
  se_now :: int
  se_format :: "int \<Rightarrow> string option"
  se_parse :: "string \<Rightarrow> string + int"
  se_error :: "serde_error \<Rightarrow> string"
  se_json :: "sval \<Rightarrow> json"
  se_of_json :: "sty \<Rightarrow> json \<Rightarrow> string + sval"
  se_kfv :: "kfv \<Rightarrow> string + json"
  se_of_kfv :: "json \<Rightarrow> string + kfv"

text \<open>\<open>StringWithSeparator::<CommaSeparator, String>\<close>; an empty text is an empty list.\<close>

definition csv :: "string list \<Rightarrow> sval" where
  "csv xs = SStr (join_with (CHR '','') xs)"

definition split_csv :: "string \<Rightarrow> string list" where
  "split_csv s = (if s = [] then [] else split_on (CHR '','') s)"

definition csv_ok :: "string list \<Rightarrow> bool" where
  "csv_ok xs \<longleftrightarrow> list_all (\<lambda>x. CHR '','' \<notin> set x) xs \<and> xs \<noteq> [[]]"

fun opt_sval :: "('a \<Rightarrow> sval) \<Rightarrow> 'a option \<Rightarrow> sval" where
  "opt_sval f None = SNone"
| "opt_sval f (Some x) = SSome (f x)"

fun as_opt :: "(sval \<Rightarrow> 'a) \<Rightarrow> sval \<Rightarrow> 'a option" where
  "as_opt f (SSome v) = Some (f v)"
| "as_opt f v = None"

fun as_i64 :: "sval \<Rightarrow> int" where
  "as_i64 (SInt I64 i) = i"
| "as_i64 v = 0"

fun as_bool :: "sval \<Rightarrow> bool" where
  "as_bool (SBool b) = b"
| "as_bool v = False"

definition as_csv :: "sval \<Rightarrow> string list" where
  "as_csv v = split_csv (as_str v)"

abbreviation u16_val :: "u16 \<Rightarrow> sval" where "u16_val w \<equiv> SInt U16 (uint w)"
abbreviation u32_val :: "u32 \<Rightarrow> sval" where "u32_val w \<equiv> SInt U32 (uint w)"
abbreviation i64_val :: "int \<Rightarrow> sval" where "i64_val i \<equiv> SInt I64 i"

text \<open>\<open>#[serde(rename_all = "lowercase")]\<close>\<close>

primrec pmon_name :: "dpu_pmon_state_type \<Rightarrow> string" where
  "pmon_name PmonUp = ''up''"
| "pmon_name PmonDown = ''down''"
| "pmon_name PmonUnknown = ''unknown''"

definition pmon_ty :: sty where
  "pmon_ty = TEnum [''up'', ''down'', ''unknown'']"

definition as_pmon :: "sval \<Rightarrow> dpu_pmon_state_type" where
  "as_pmon v = (if v = SUnitVariant ''up'' then PmonUp else if v = SUnitVariant ''down'' then PmonDown
     else PmonUnknown)"

definition default_field :: "string \<Rightarrow> sty \<Rightarrow> sval \<Rightarrow> field_ty" where
  "default_field n t d = \<lparr>f_name = n, f_ty = t, f_default = Some d, f_skip_none = False\<rparr>"

text \<open>
  A time is read as an optional text: a missing field and \<open>none\<close> are the time of the call, any other text
  must parse. It is written as a text unless it is out of the range of \<open>chrono\<close>.
\<close>

definition time_field :: "string \<Rightarrow> field_ty" where
  "time_field n = plain_field n (TOption TStr)"

definition timestamp_deserialize :: "serde_env \<Rightarrow> sval \<Rightarrow> string + int" where
  "timestamp_deserialize se v =
     (case as_opt as_str v of Some s \<Rightarrow> se_parse se s | None \<Rightarrow> Inr (se_now se))"

definition timestamp_serialize :: "serde_env \<Rightarrow> int \<Rightarrow> string + sval" where
  "timestamp_serialize se ts =
     (case se_format se ts of Some s \<Rightarrow> Inr (SSome (SStr s)) | None \<Rightarrow> Inl ''invalid timestamp'')"

fun all_sum :: "('e + 'a) list \<Rightarrow> 'e + 'a list" where
  "all_sum [] = Inr []"
| "all_sum (x # xs) =
     (case x of Inl e \<Rightarrow> Inl e | Inr y \<Rightarrow> (case all_sum xs of Inl e \<Rightarrow> Inl e | Inr ys \<Rightarrow> Inr (y # ys)))"

section \<open>Rows that are read\<close>

definition global_config_ty :: struct_ty where
  "global_config_ty = [plain_field ''cp_data_channel_port'' (TOption (TInt U16)),
     plain_field ''dp_channel_dst_port'' (TOption (TInt U16)),
     plain_field ''dp_channel_src_port_min'' (TOption (TInt U16)),
     plain_field ''dp_channel_src_port_max'' (TOption (TInt U16)),
     plain_field ''dp_channel_probe_interval_ms'' (TOption (TInt U32)),
     plain_field ''dp_channel_probe_fail_threshold'' (TOption (TInt U32)),
     plain_field ''dpu_bfd_probe_interval_in_ms'' (TOption (TInt U32)),
     plain_field ''dpu_bfd_probe_multiplier'' (TOption (TInt U32)),
     plain_field ''vnet_name'' (TOption TStr)]"

definition global_config_of :: "sval list \<Rightarrow> dash_ha_global_config" where
  "global_config_of vs = \<lparr>gc_cp_data_channel_port = as_opt as_u16 (vs ! 0),
     gc_dp_channel_dst_port = as_opt as_u16 (vs ! 1), gc_dp_channel_src_port_min = as_opt as_u16 (vs ! 2),
     gc_dp_channel_src_port_max = as_opt as_u16 (vs ! 3), gc_dp_channel_probe_interval_ms = as_opt as_u32 (vs ! 4),
     gc_dp_channel_probe_fail_threshold = as_opt as_u32 (vs ! 5),
     gc_dpu_bfd_probe_interval_in_ms = as_opt as_u32 (vs ! 6),
     gc_dpu_bfd_probe_multiplier = as_opt as_u32 (vs ! 7), gc_vnet_name = as_opt as_str (vs ! 8)\<rparr>"

definition remote_dpu_ty :: struct_ty where
  "remote_dpu_ty = [plain_field ''pa_ipv4'' TStr, option_field ''pa_ipv6'' TStr, plain_field ''npu_ipv4'' TStr,
     option_field ''npu_ipv6'' TStr, plain_field ''dpu_id'' (TInt U32), plain_field ''swbus_port'' (TInt U16)]"

definition remote_dpu_of :: "sval list \<Rightarrow> remote_dpu" where
  "remote_dpu_of vs = \<lparr>rd_pa_ipv4 = as_str (vs ! 0), rd_pa_ipv6 = as_opt as_str (vs ! 1),
     rd_npu_ipv4 = as_str (vs ! 2), rd_npu_ipv6 = as_opt as_str (vs ! 3), rd_dpu_id = as_u32 (vs ! 4),
     rd_swbus_port = as_u16 (vs ! 5)\<rparr>"

definition vdpu_ty :: struct_ty where
  "vdpu_ty = [plain_field ''main_dpu_ids'' TStr]"

definition vdpu_of :: "sval list \<Rightarrow> vdpu" where
  "vdpu_of vs = \<lparr>main_dpu_ids = as_csv (vs ! 0)\<rparr>"

definition dpu_state_ty :: struct_ty where
  "dpu_state_ty =
     [default_field ''dpu_midplane_link_state'' pmon_ty (SUnitVariant ''unknown''), time_field ''dpu_midplane_link_time'',
      default_field ''dpu_control_plane_state'' pmon_ty (SUnitVariant ''unknown''), time_field ''dpu_control_plane_time'',
      default_field ''dpu_data_plane_state'' pmon_ty (SUnitVariant ''unknown''), time_field ''dpu_data_plane_time'']"

definition dpu_state_of :: "serde_env \<Rightarrow> sval list \<Rightarrow> string + dpu_state" where
  "dpu_state_of se vs =
     (case all_sum [timestamp_deserialize se (vs ! 1), timestamp_deserialize se (vs ! 3),
        timestamp_deserialize se (vs ! 5)] of
        Inl e \<Rightarrow> Inl e
      | Inr ts \<Rightarrow> Inr \<lparr>ds_midplane_link_state = as_pmon (vs ! 0), ds_midplane_link_time = ts ! 0,
          ds_control_plane_state = as_pmon (vs ! 2), ds_control_plane_time = ts ! 1,
          ds_data_plane_state = as_pmon (vs ! 4), ds_data_plane_time = ts ! 2\<rparr>)"

definition bfd_probe_state_ty :: struct_ty where
  "bfd_probe_state_ty =
     [default_field ''v4_bfd_up_sessions'' TStr (SStr []), time_field ''v4_bfd_up_sessions_timestamp'',
      default_field ''v6_bfd_up_sessions'' TStr (SStr []), time_field ''v6_bfd_up_sessions_timestamp'']"

definition bfd_probe_state_of :: "serde_env \<Rightarrow> sval list \<Rightarrow> string + dash_bfd_probe_state" where
  "bfd_probe_state_of se vs =
     (case all_sum [timestamp_deserialize se (vs ! 1), timestamp_deserialize se (vs ! 3)] of
        Inl e \<Rightarrow> Inl e
      | Inr ts \<Rightarrow> Inr \<lparr>v4_bfd_up_sessions = as_csv (vs ! 0), v4_bfd_up_sessions_timestamp = ts ! 0,
          v6_bfd_up_sessions = as_csv (vs ! 2), v6_bfd_up_sessions_timestamp = ts ! 1\<rparr>)"

definition ha_set_config_ty :: struct_ty where
  "ha_set_config_ty = [plain_field ''version'' TStr, plain_field ''vip_v4'' TStr, option_field ''vip_v6'' TStr,
     option_field ''owner'' TStr, option_field ''scope'' TStr, plain_field ''vdpu_ids'' TStr,
     option_field ''pinned_vdpu_bfd_probe_states'' TStr, option_field ''preferred_vdpu_ids'' TStr,
     option_field ''preferred_standalone_vdpu_index'' (TInt U32)]"

definition ha_set_config_of :: "sval list \<Rightarrow> dash_ha_set_config" where
  "ha_set_config_of vs = \<lparr>hsc_version = as_str (vs ! 0), hsc_vip_v4 = as_str (vs ! 1),
     hsc_vip_v6 = as_opt as_str (vs ! 2), hsc_owner = as_opt as_str (vs ! 3), hsc_scope = as_opt as_str (vs ! 4),
     hsc_vdpu_ids = as_csv (vs ! 5), hsc_pinned_vdpu_bfd_probe_states = as_opt as_str (vs ! 6),
     hsc_preferred_vdpu_ids = as_opt as_csv (vs ! 7),
     hsc_preferred_standalone_vdpu_index = as_opt as_u32 (vs ! 8)\<rparr>"

definition ha_scope_config_ty :: struct_ty where
  "ha_scope_config_ty = [plain_field ''version'' (TInt U32), plain_field ''disable'' TBool,
     plain_field ''desired_ha_state'' TStr, option_field ''approved_pending_operation_ids'' TStr]"

definition ha_scope_config_of :: "sval list \<Rightarrow> dash_ha_scope_config" where
  "ha_scope_config_of vs = \<lparr>sc_version = as_u32 (vs ! 0), sc_disable = as_bool (vs ! 1),
     sc_desired_ha_state = as_str (vs ! 2), sc_approved_pending_operation_ids = as_opt as_csv (vs ! 3)\<rparr>"

definition dpu_scope_state_ty :: struct_ty where
  "dpu_scope_state_ty = [plain_field ''last_updated_time'' (TInt I64), plain_field ''ha_role'' TStr,
     plain_field ''ha_role_start_time'' (TInt I64), plain_field ''ha_term'' TStr,
     plain_field ''activate_role_pending'' TBool, plain_field ''flow_reconcile_pending'' TBool,
     plain_field ''brainsplit_recover_pending'' TBool]"

definition dpu_scope_state_of :: "sval list \<Rightarrow> dpu_dash_ha_scope_state" where
  "dpu_scope_state_of vs = \<lparr>dss_last_updated_time = as_i64 (vs ! 0), dss_ha_role = as_str (vs ! 1),
     dss_ha_role_start_time = as_i64 (vs ! 2), dss_ha_term = as_str (vs ! 3),
     dss_activate_role_pending = as_bool (vs ! 4), dss_flow_reconcile_pending = as_bool (vs ! 5),
     dss_brainsplit_recover_pending = as_bool (vs ! 6)\<rparr>"

section \<open>Rows that are written\<close>

definition bfd_session_ty :: struct_ty where
  "bfd_session_ty = [option_field ''tx_interval'' (TInt U32), option_field ''rx_interval'' (TInt U32),
     option_field ''multiplier'' (TInt U32), plain_field ''multihop'' TBool, plain_field ''shutdown'' TBool,
     plain_field ''local_addr'' TStr, option_field ''type'' TStr]"

definition bfd_session_vals :: "bfd_session \<Rightarrow> sval list" where
  "bfd_session_vals b = [opt_sval u32_val (bs_tx_interval b), opt_sval u32_val (bs_rx_interval b),
     opt_sval u32_val (bs_multiplier b), SBool (bs_multihop b), SBool (bs_shutdown b), SStr (bs_local_addr b),
     opt_sval SStr (bs_session_type b)]"

definition bfd_session_of_vals :: "sval list \<Rightarrow> bfd_session" where
  "bfd_session_of_vals vs = \<lparr>bs_tx_interval = as_opt as_u32 (vs ! 0), bs_rx_interval = as_opt as_u32 (vs ! 1),
     bs_multiplier = as_opt as_u32 (vs ! 2), bs_multihop = as_bool (vs ! 3), bs_shutdown = as_bool (vs ! 4),
     bs_local_addr = as_str (vs ! 5), bs_session_type = as_opt as_str (vs ! 6)\<rparr>"

definition ha_set_table_ty :: struct_ty where
  "ha_set_table_ty = [plain_field ''version'' TStr, plain_field ''vip_v4'' TStr, option_field ''vip_v6'' TStr,
     option_field ''owner'' TStr, option_field ''scope'' TStr, plain_field ''local_npu_ip'' TStr,
     plain_field ''local_ip'' TStr, plain_field ''peer_ip'' TStr, option_field ''cp_data_channel_port'' (TInt U16),
     option_field ''dp_channel_dst_port'' (TInt U16), option_field ''dp_channel_src_port_min'' (TInt U16),
     option_field ''dp_channel_src_port_max'' (TInt U16), option_field ''dp_channel_probe_interval_ms'' (TInt U32),
     option_field ''dp_channel_probe_fail_threshold'' (TInt U32)]"

definition ha_set_table_vals :: "dash_ha_set_table \<Rightarrow> sval list" where
  "ha_set_table_vals t = [SStr (hs_version t), SStr (hs_vip_v4 t), opt_sval SStr (hs_vip_v6 t),
     opt_sval SStr (hs_owner t), opt_sval SStr (hs_scope t), SStr (hs_local_npu_ip t), SStr (hs_local_ip t),
     SStr (hs_peer_ip t), opt_sval u16_val (hs_cp_data_channel_port t),
     opt_sval u16_val (hs_dp_channel_dst_port t), opt_sval u16_val (hs_dp_channel_src_port_min t),
     opt_sval u16_val (hs_dp_channel_src_port_max t), opt_sval u32_val (hs_dp_channel_probe_interval_ms t),
     opt_sval u32_val (hs_dp_channel_probe_fail_threshold t)]"

definition ha_set_table_of_vals :: "sval list \<Rightarrow> dash_ha_set_table" where
  "ha_set_table_of_vals vs = \<lparr>hs_version = as_str (vs ! 0), hs_vip_v4 = as_str (vs ! 1),
     hs_vip_v6 = as_opt as_str (vs ! 2), hs_owner = as_opt as_str (vs ! 3), hs_scope = as_opt as_str (vs ! 4),
     hs_local_npu_ip = as_str (vs ! 5), hs_local_ip = as_str (vs ! 6), hs_peer_ip = as_str (vs ! 7),
     hs_cp_data_channel_port = as_opt as_u16 (vs ! 8), hs_dp_channel_dst_port = as_opt as_u16 (vs ! 9),
     hs_dp_channel_src_port_min = as_opt as_u16 (vs ! 10), hs_dp_channel_src_port_max = as_opt as_u16 (vs ! 11),
     hs_dp_channel_probe_interval_ms = as_opt as_u32 (vs ! 12),
     hs_dp_channel_probe_fail_threshold = as_opt as_u32 (vs ! 13)\<rparr>"

definition vnet_route_ty :: struct_ty where
  "vnet_route_ty = [plain_field ''endpoint'' TStr, option_field ''endpoint_monitor'' TStr,
     option_field ''monitoring'' TStr, option_field ''primary'' TStr, option_field ''rx_monitor_timer'' (TInt U32),
     option_field ''tx_monitor_timer'' (TInt U32), option_field ''check_directly_connected'' TBool]"

definition vnet_route_vals :: "vnet_route_tunnel \<Rightarrow> sval list" where
  "vnet_route_vals r = [csv (vr_endpoint r), opt_sval csv (vr_endpoint_monitor r), opt_sval SStr (vr_monitoring r),
     opt_sval csv (vr_primary r), opt_sval u32_val (vr_rx_monitor_timer r),
     opt_sval u32_val (vr_tx_monitor_timer r), opt_sval SBool (vr_check_directly_connected r)]"

definition vnet_route_of_vals :: "sval list \<Rightarrow> vnet_route_tunnel" where
  "vnet_route_of_vals vs = \<lparr>vr_endpoint = as_csv (vs ! 0), vr_endpoint_monitor = as_opt as_csv (vs ! 1),
     vr_monitoring = as_opt as_str (vs ! 2), vr_primary = as_opt as_csv (vs ! 3),
     vr_rx_monitor_timer = as_opt as_u32 (vs ! 4), vr_tx_monitor_timer = as_opt as_u32 (vs ! 5),
     vr_check_directly_connected = as_opt as_bool (vs ! 6)\<rparr>"

definition ha_scope_table_ty :: struct_ty where
  "ha_scope_table_ty = [plain_field ''version'' (TInt U32), plain_field ''disable'' TBool,
     plain_field ''ha_role'' TStr, plain_field ''flow_reconcile_requested'' TBool,
     plain_field ''activate_role_requested'' TBool]"

definition ha_scope_table_vals :: "dash_ha_scope_table \<Rightarrow> sval list" where
  "ha_scope_table_vals t = [u32_val (st_version t), SBool (st_disable t), SStr (st_ha_role t),
     SBool (st_flow_reconcile_requested t), SBool (st_activate_role_requested t)]"

definition ha_scope_table_of_vals :: "sval list \<Rightarrow> dash_ha_scope_table" where
  "ha_scope_table_of_vals vs = \<lparr>st_version = as_u32 (vs ! 0), st_disable = as_bool (vs ! 1),
     st_ha_role = as_str (vs ! 2), st_flow_reconcile_requested = as_bool (vs ! 3),
     st_activate_role_requested = as_bool (vs ! 4)\<rparr>"

definition npu_scope_state_ty :: struct_ty where
  "npu_scope_state_ty = [plain_field ''creation_time_in_ms'' (TInt I64),
     plain_field ''last_heartbeat_time_in_ms'' (TInt I64), plain_field ''vip_v4'' TStr,
     option_field ''vip_v6'' TStr, plain_field ''local_ip'' TStr, plain_field ''peer_ip'' TStr,
     option_field ''local_ha_state'' TStr,
     option_field ''local_ha_state_last_updated_time_in_ms'' (TInt I64),
     option_field ''local_ha_state_last_updated_reason'' TStr,
     option_field ''local_target_asic_ha_state'' TStr, option_field ''local_acked_asic_ha_state'' TStr,
     option_field ''local_target_term'' TStr, option_field ''local_acked_term'' TStr,
     option_field ''peer_ha_state'' TStr, option_field ''peer_term'' TStr,
     plain_field ''local_vdpu_midplane_state'' pmon_ty,
     plain_field ''local_vdpu_midplane_state_last_updated_time_in_ms'' (TInt I64),
     plain_field ''local_vdpu_control_plane_state'' pmon_ty,
     plain_field ''local_vdpu_control_plane_state_last_updated_time_in_ms'' (TInt I64),
     plain_field ''local_vdpu_data_plane_state'' pmon_ty,
     plain_field ''local_vdpu_data_plane_state_last_updated_time_in_ms'' (TInt I64),
     plain_field ''local_vdpu_up_bfd_sessions_v4'' TStr,
     plain_field ''local_vdpu_up_bfd_sessions_v4_update_time_in_ms'' (TInt I64),
     plain_field ''local_vdpu_up_bfd_sessions_v6'' TStr,
     plain_field ''local_vdpu_up_bfd_sessions_v6_update_time_in_ms'' (TInt I64),
     option_field ''pending_operation_ids'' TStr, option_field ''pending_operation_types'' TStr,
     option_field ''pending_operation_list_last_updated_time_in_ms'' (TInt I64),
     option_field ''switchover_id'' TStr, option_field ''switchover_state'' TStr,
     option_field ''switchover_start_time_in_ms'' (TInt I64),
     option_field ''switchover_end_time_in_ms'' (TInt I64),
     option_field ''switchover_approved_time_in_ms'' (TInt I64),
     option_field ''flow_sync_session_id'' TStr, option_field ''flow_sync_session_state'' TStr,
     option_field ''flow_sync_session_start_time_in_ms'' (TInt I64),
     option_field ''flow_sync_session_target_server'' TStr]"

definition npu_scope_state_vals :: "npu_dash_ha_scope_state \<Rightarrow> sval list" where
  "npu_scope_state_vals n = [i64_val (ns_creation_time_in_ms n), i64_val (ns_last_heartbeat_time_in_ms n), SStr (ns_vip_v4 n),
     opt_sval SStr (ns_vip_v6 n), SStr (ns_local_ip n), SStr (ns_peer_ip n),
     opt_sval SStr (ns_local_ha_state n),
     opt_sval i64_val (ns_local_ha_state_last_updated_time_in_ms n),
     opt_sval SStr (ns_local_ha_state_last_updated_reason n),
     opt_sval SStr (ns_local_target_asic_ha_state n), opt_sval SStr (ns_local_acked_asic_ha_state n),
     opt_sval SStr (ns_local_target_term n), opt_sval SStr (ns_local_acked_term n),
     opt_sval SStr (ns_peer_ha_state n), opt_sval SStr (ns_peer_term n),
     SUnitVariant (pmon_name (ns_midplane_state n)), i64_val (ns_midplane_time n),
     SUnitVariant (pmon_name (ns_control_plane_state n)), i64_val (ns_control_plane_time n),
     SUnitVariant (pmon_name (ns_data_plane_state n)), i64_val (ns_data_plane_time n),
     csv (ns_up_bfd_sessions_v4 n), i64_val (ns_up_bfd_sessions_v4_time n),
     csv (ns_up_bfd_sessions_v6 n), i64_val (ns_up_bfd_sessions_v6_time n),
     opt_sval csv (ns_pending_operation_ids n), opt_sval csv (ns_pending_operation_types n),
     opt_sval i64_val (ns_pending_operation_list_time n), opt_sval SStr (ns_switchover_id n),
     opt_sval SStr (ns_switchover_state n), opt_sval i64_val (ns_switchover_start_time_in_ms n),
     opt_sval i64_val (ns_switchover_end_time_in_ms n),
     opt_sval i64_val (ns_switchover_approved_time_in_ms n), opt_sval SStr (ns_flow_sync_session_id n),
     opt_sval SStr (ns_flow_sync_session_state n),
     opt_sval i64_val (ns_flow_sync_session_start_time_in_ms n),
     opt_sval SStr (ns_flow_sync_session_target_server n)]"

definition npu_scope_state_of_vals :: "sval list \<Rightarrow> npu_dash_ha_scope_state" where
  "npu_scope_state_of_vals vs = \<lparr>ns_creation_time_in_ms = as_i64 (vs ! 0), ns_last_heartbeat_time_in_ms = as_i64 (vs ! 1),
     ns_vip_v4 = as_str (vs ! 2), ns_vip_v6 = as_opt as_str (vs ! 3), ns_local_ip = as_str (vs ! 4),
     ns_peer_ip = as_str (vs ! 5), ns_local_ha_state = as_opt as_str (vs ! 6),
     ns_local_ha_state_last_updated_time_in_ms = as_opt as_i64 (vs ! 7),
     ns_local_ha_state_last_updated_reason = as_opt as_str (vs ! 8),
     ns_local_target_asic_ha_state = as_opt as_str (vs ! 9),
     ns_local_acked_asic_ha_state = as_opt as_str (vs ! 10),
     ns_local_target_term = as_opt as_str (vs ! 11), ns_local_acked_term = as_opt as_str (vs ! 12),
     ns_peer_ha_state = as_opt as_str (vs ! 13), ns_peer_term = as_opt as_str (vs ! 14),
     ns_midplane_state = as_pmon (vs ! 15), ns_midplane_time = as_i64 (vs ! 16),
     ns_control_plane_state = as_pmon (vs ! 17), ns_control_plane_time = as_i64 (vs ! 18),
     ns_data_plane_state = as_pmon (vs ! 19), ns_data_plane_time = as_i64 (vs ! 20),
     ns_up_bfd_sessions_v4 = as_csv (vs ! 21), ns_up_bfd_sessions_v4_time = as_i64 (vs ! 22),
     ns_up_bfd_sessions_v6 = as_csv (vs ! 23), ns_up_bfd_sessions_v6_time = as_i64 (vs ! 24),
     ns_pending_operation_ids = as_opt as_csv (vs ! 25),
     ns_pending_operation_types = as_opt as_csv (vs ! 26),
     ns_pending_operation_list_time = as_opt as_i64 (vs ! 27),
     ns_switchover_id = as_opt as_str (vs ! 28), ns_switchover_state = as_opt as_str (vs ! 29),
     ns_switchover_start_time_in_ms = as_opt as_i64 (vs ! 30),
     ns_switchover_end_time_in_ms = as_opt as_i64 (vs ! 31),
     ns_switchover_approved_time_in_ms = as_opt as_i64 (vs ! 32),
     ns_flow_sync_session_id = as_opt as_str (vs ! 33),
     ns_flow_sync_session_state = as_opt as_str (vs ! 34),
     ns_flow_sync_session_start_time_in_ms = as_opt as_i64 (vs ! 35),
     ns_flow_sync_session_target_server = as_opt as_str (vs ! 36)\<rparr>"

section \<open>Messages between actors\<close>

text \<open>
  The derived code writes an object of the fields that are not left out and reads one by looking each field up,
  in whatever order the object has them. (It would read an array of the fields, too; nothing writes one.)
\<close>

fun sum_bind :: "'e + 'a \<Rightarrow> ('a \<Rightarrow> 'e + 'b) \<Rightarrow> 'e + 'b" where
  "sum_bind (Inl e) f = Inl e"
| "sum_bind (Inr x) f = f x"

definition json_fields :: "serde_env \<Rightarrow> struct_ty \<Rightarrow> sval list \<Rightarrow> (string \<times> json) list" where
  "json_fields se st vs = map (\<lambda>(k, v). (k, se_json se v)) (present_fields st vs)"

definition read_json_field :: "serde_env \<Rightarrow> (string \<times> json) list \<Rightarrow> field_ty \<Rightarrow> string + sval" where
  "read_json_field se ob f =
     (case map_of ob (f_name f) of
        Some j \<Rightarrow> se_of_json se (f_ty f) j
      | None \<Rightarrow> (case missing_field f of Ok v \<Rightarrow> Inr v | _ \<Rightarrow> Inl (se_error se (MissingField (f_name f)))))"

definition of_json_fields :: "serde_env \<Rightarrow> struct_ty \<Rightarrow> json \<Rightarrow> string + sval list" where
  "of_json_fields se st j =
     (case j of JObj ob \<Rightarrow> all_sum (map (read_json_field se ob) st) | _ \<Rightarrow> Inl (se_error se UnsupportedType))"

definition dpu_state_vals :: "serde_env \<Rightarrow> dpu_state \<Rightarrow> string + sval list" where
  "dpu_state_vals se s =
     all_sum [Inr (SUnitVariant (pmon_name (ds_midplane_link_state s))), timestamp_serialize se (ds_midplane_link_time s),
       Inr (SUnitVariant (pmon_name (ds_control_plane_state s))), timestamp_serialize se (ds_control_plane_time s),
       Inr (SUnitVariant (pmon_name (ds_data_plane_state s))), timestamp_serialize se (ds_data_plane_time s)]"

definition bfd_probe_state_vals :: "serde_env \<Rightarrow> dash_bfd_probe_state \<Rightarrow> string + sval list" where
  "bfd_probe_state_vals se b =
     all_sum [Inr (csv (v4_bfd_up_sessions b)), timestamp_serialize se (v4_bfd_up_sessions_timestamp b),
       Inr (csv (v6_bfd_up_sessions b)), timestamp_serialize se (v6_bfd_up_sessions_timestamp b)]"

definition json_dpu_state :: "serde_env \<Rightarrow> dpu_state \<Rightarrow> string + json" where
  "json_dpu_state se s = sum_bind (dpu_state_vals se s) (\<lambda>vs. Inr (JObj (json_fields se dpu_state_ty vs)))"

definition of_json_dpu_state :: "serde_env \<Rightarrow> json \<Rightarrow> string + dpu_state" where
  "of_json_dpu_state se j = sum_bind (of_json_fields se dpu_state_ty j) (dpu_state_of se)"

definition json_bfd_state :: "serde_env \<Rightarrow> dash_bfd_probe_state \<Rightarrow> string + json" where
  "json_bfd_state se b = sum_bind (bfd_probe_state_vals se b) (\<lambda>vs. Inr (JObj (json_fields se bfd_probe_state_ty vs)))"

definition of_json_bfd_state :: "serde_env \<Rightarrow> json \<Rightarrow> string + dash_bfd_probe_state" where
  "of_json_bfd_state se j = sum_bind (of_json_fields se bfd_probe_state_ty j) (bfd_probe_state_of se)"

text \<open>An optional struct inside a struct; \<open>skip_serializing_none\<close> leaves it out when there is none.\<close>

definition nested_json :: "string \<Rightarrow> ('a \<Rightarrow> string + json) \<Rightarrow> 'a option \<Rightarrow> string + (string \<times> json) list" where
  "nested_json k enc x =
     (case x of None \<Rightarrow> Inr [] | Some y \<Rightarrow> sum_bind (enc y) (\<lambda>j. Inr [(k, j)]))"

definition read_nested :: "string \<Rightarrow> (json \<Rightarrow> string + 'a) \<Rightarrow> json \<Rightarrow> string + 'a option" where
  "read_nested k dec j =
     (case j of
        JObj ob \<Rightarrow>
          (case map_of ob k of
             None \<Rightarrow> Inr None
           | Some JNull \<Rightarrow> Inr None
           | Some j' \<Rightarrow> sum_bind (dec j') (\<lambda>x. Inr (Some x)))
      | _ \<Rightarrow> Inr None)"

definition dpu_actor_state_ty :: struct_ty where
  "dpu_actor_state_ty = [plain_field ''remote_dpu'' TBool, plain_field ''is_managed'' TBool, plain_field ''dpu_name'' TStr,
     plain_field ''up'' TBool, option_field ''state'' TStr, plain_field ''npu_ipv4'' TStr, option_field ''npu_ipv6'' TStr,
     option_field ''vip_ipv4'' TStr, option_field ''vip_ipv6'' TStr, plain_field ''pa_ipv4'' TStr,
     option_field ''pa_ipv6'' TStr, plain_field ''dpu_id'' (TInt U32), option_field ''vdpu_id'' TStr,
     plain_field ''orchagent_zmq_port'' (TInt U16), plain_field ''swbus_port'' (TInt U16),
     option_field ''midplane_ipv4'' TStr]"

definition dpu_actor_state_vals :: "dpu_actor_state \<Rightarrow> sval list" where
  "dpu_actor_state_vals a = [SBool (da_remote_dpu a), SBool (da_is_managed a), SStr (da_dpu_name a), SBool (da_up a),
     opt_sval SStr (da_state a), SStr (da_npu_ipv4 a), opt_sval SStr (da_npu_ipv6 a), opt_sval SStr (da_vip_ipv4 a),
     opt_sval SStr (da_vip_ipv6 a), SStr (da_pa_ipv4 a), opt_sval SStr (da_pa_ipv6 a), u32_val (da_dpu_id a),
     opt_sval SStr (da_vdpu_id a), u16_val (da_orchagent_zmq_port a), u16_val (da_swbus_port a),
     opt_sval SStr (da_midplane_ipv4 a)]"

definition dpu_actor_state_of :: "sval list \<Rightarrow> dpu_state option \<Rightarrow> dash_bfd_probe_state option \<Rightarrow> dpu_actor_state" where
  "dpu_actor_state_of vs pmon bfd = \<lparr>da_remote_dpu = as_bool (vs ! 0), da_is_managed = as_bool (vs ! 1),
     da_dpu_name = as_str (vs ! 2), da_up = as_bool (vs ! 3), da_state = as_opt as_str (vs ! 4),
     da_npu_ipv4 = as_str (vs ! 5), da_npu_ipv6 = as_opt as_str (vs ! 6), da_vip_ipv4 = as_opt as_str (vs ! 7),
     da_vip_ipv6 = as_opt as_str (vs ! 8), da_pa_ipv4 = as_str (vs ! 9), da_pa_ipv6 = as_opt as_str (vs ! 10),
     da_dpu_id = as_u32 (vs ! 11), da_vdpu_id = as_opt as_str (vs ! 12), da_orchagent_zmq_port = as_u16 (vs ! 13),
     da_swbus_port = as_u16 (vs ! 14), da_midplane_ipv4 = as_opt as_str (vs ! 15), da_dpu_pmon_state = pmon,
     da_dpu_bfd_state = bfd\<rparr>"

definition json_dpu_actor_state :: "serde_env \<Rightarrow> dpu_actor_state \<Rightarrow> string + json" where
  "json_dpu_actor_state se a =
     sum_bind (nested_json ''dpu_pmon_state'' (json_dpu_state se) (da_dpu_pmon_state a)) (\<lambda>p.
     sum_bind (nested_json ''dpu_bfd_state'' (json_bfd_state se) (da_dpu_bfd_state a)) (\<lambda>b.
       Inr (JObj (json_fields se dpu_actor_state_ty (dpu_actor_state_vals a) @ p @ b))))"

definition of_json_dpu_actor_state :: "serde_env \<Rightarrow> json \<Rightarrow> string + dpu_actor_state" where
  "of_json_dpu_actor_state se j =
     sum_bind (of_json_fields se dpu_actor_state_ty j) (\<lambda>vs.
     sum_bind (read_nested ''dpu_pmon_state'' (of_json_dpu_state se) j) (\<lambda>p.
     sum_bind (read_nested ''dpu_bfd_state'' (of_json_bfd_state se) j) (\<lambda>b. Inr (dpu_actor_state_of vs p b))))"

definition up_ty :: struct_ty where
  "up_ty = [plain_field ''up'' TBool]"

text \<open>A required struct inside a struct.\<close>

definition read_required :: "serde_env \<Rightarrow> string \<Rightarrow> (json \<Rightarrow> string + 'a) \<Rightarrow> json \<Rightarrow> string + 'a" where
  "read_required se k dec j =
     (case j of
        JObj ob \<Rightarrow> (case map_of ob k of Some j' \<Rightarrow> dec j' | None \<Rightarrow> Inl (se_error se (MissingField k)))
      | _ \<Rightarrow> Inl (se_error se UnsupportedType))"

definition json_vdpu_actor_state :: "serde_env \<Rightarrow> vdpu_actor_state \<Rightarrow> string + json" where
  "json_vdpu_actor_state se v =
     sum_bind (json_dpu_actor_state se (va_dpu v)) (\<lambda>d.
       Inr (JObj (json_fields se up_ty [SBool (va_up v)] @ [(''dpu'', d)])))"

definition of_json_vdpu_actor_state :: "serde_env \<Rightarrow> json \<Rightarrow> string + vdpu_actor_state" where
  "of_json_vdpu_actor_state se j =
     sum_bind (of_json_fields se up_ty j) (\<lambda>vs.
     sum_bind (read_required se ''dpu'' (of_json_dpu_actor_state se) j) (\<lambda>d.
       Inr \<lparr>va_up = as_bool (vs ! 0), va_dpu = d\<rparr>))"

definition json_ha_set_actor_state :: "serde_env \<Rightarrow> ha_set_actor_state \<Rightarrow> string + json" where
  "json_ha_set_actor_state se h =
     Inr (JObj (json_fields se up_ty [SBool (ha_up h)] @
       [(''ha_set'', JObj (json_fields se ha_set_table_ty (ha_set_table_vals (ha_ha_set h))))]))"

definition of_json_ha_set_actor_state :: "serde_env \<Rightarrow> json \<Rightarrow> string + ha_set_actor_state" where
  "of_json_ha_set_actor_state se j =
     sum_bind (of_json_fields se up_ty j) (\<lambda>vs.
     sum_bind (read_required se ''ha_set'' (of_json_fields se ha_set_table_ty) j) (\<lambda>hs.
       Inr \<lparr>ha_up = as_bool (vs ! 0), ha_ha_set = ha_set_table_of_vals hs\<rparr>))"

definition registration_ty :: struct_ty where
  "registration_ty = [plain_field ''active'' TBool]"

section \<open>The serialisation of hamgrd\<close>

definition row_of :: "serde_env \<Rightarrow> struct_ty \<Rightarrow> sval list \<Rightarrow> string + field_values" where
  "row_of se st vs =
     (case to_field_values st vs of Ok f \<Rightarrow> Inr f | Err e \<Rightarrow> Inl (se_error se e) | Panic \<Rightarrow> Inl [])"

definition of_row :: "serde_env \<Rightarrow> struct_ty \<Rightarrow> (sval list \<Rightarrow> string + 'a) \<Rightarrow> field_values \<Rightarrow> string + 'a" where
  "of_row se st dec f =
     (case from_field_values st f of Ok vs \<Rightarrow> dec vs | Err e \<Rightarrow> Inl (se_error se e) | Panic \<Rightarrow> Inl [])"

definition hamgrd_serde :: "serde_env \<Rightarrow> serde" where
  "hamgrd_serde se = \<lparr>j_kfv = se_kfv se, of_j_kfv = se_of_kfv se,
     j_dpu_actor_state = json_dpu_actor_state se, of_j_dpu_actor_state = of_json_dpu_actor_state se,
     j_vdpu_actor_state = json_vdpu_actor_state se, of_j_vdpu_actor_state = of_json_vdpu_actor_state se,
     j_ha_set_actor_state = json_ha_set_actor_state se, of_j_ha_set_actor_state = of_json_ha_set_actor_state se,
     j_registration = (\<lambda>b. Inr (JObj (json_fields se registration_ty [SBool b]))),
     of_j_registration = (\<lambda>j. sum_bind (of_json_fields se registration_ty j) (\<lambda>vs. Inr (as_bool (vs ! 0)))),
     of_fv_global_config = of_row se global_config_ty (\<lambda>vs. Inr (global_config_of vs)),
     of_fv_dpu = of_row se dpu_ty (\<lambda>vs. Inr (dpu_of vs)),
     of_fv_remote_dpu = of_row se remote_dpu_ty (\<lambda>vs. Inr (remote_dpu_of vs)),
     of_fv_vdpu = of_row se vdpu_ty (\<lambda>vs. Inr (vdpu_of vs)),
     of_fv_dpu_state = of_row se dpu_state_ty (dpu_state_of se),
     of_fv_bfd_probe_state = of_row se bfd_probe_state_ty (bfd_probe_state_of se),
     of_fv_ha_set_config = of_row se ha_set_config_ty (\<lambda>vs. Inr (ha_set_config_of vs)),
     of_fv_ha_scope_config = of_row se ha_scope_config_ty (\<lambda>vs. Inr (ha_scope_config_of vs)),
     of_fv_dpu_scope_state = of_row se dpu_scope_state_ty (\<lambda>vs. Inr (dpu_scope_state_of vs)),
     of_fv_npu_scope_state = of_row se npu_scope_state_ty (\<lambda>vs. Inr (npu_scope_state_of_vals vs)),
     fv_bfd_session = (\<lambda>b. row_of se bfd_session_ty (bfd_session_vals b)),
     fv_ha_set_table = (\<lambda>t. row_of se ha_set_table_ty (ha_set_table_vals t)),
     fv_vnet_route = (\<lambda>r. row_of se vnet_route_ty (vnet_route_vals r)),
     fv_ha_scope_table = (\<lambda>t. row_of se ha_scope_table_ty (ha_scope_table_vals t)),
     fv_npu_scope_state = (\<lambda>n. row_of se npu_scope_state_ty (npu_scope_state_vals n))\<rparr>"

section \<open>A record and its row\<close>

text \<open>
  The contract between a record and the row it is written to. \<open>row_ok\<close> collects what must hold of the values: they
  are of the types of the fields, their texts can be told apart, and the lists have no commas inside.
\<close>

definition row_ok :: "struct_ty \<Rightarrow> sval list \<Rightarrow> string list list \<Rightarrow> bool" where
  "row_ok st vs texts \<longleftrightarrow>
     struct_has_type st vs \<and> list_all2 (\<lambda>f v. survives (f_ty f) v) st vs \<and> list_all csv_ok texts"

lemma split_csv_join [simp]: "csv_ok xs \<Longrightarrow> split_csv (join_with (CHR '','') xs) = xs"
  by (auto simp: split_csv_def csv_ok_def join_with_Nil_iff list_all_iff split_on_join)

lemma as_csv_csv [simp]: "csv_ok xs \<Longrightarrow> as_csv (csv xs) = xs"
  by (simp add: as_csv_def csv_def)

lemma as_opt_opt_sval [simp]: "as_opt f (opt_sval g x) = map_option (\<lambda>y. f (g y)) x"
  by (cases x) simp_all

lemma as_pmon_name [simp]: "as_pmon (SUnitVariant (pmon_name p)) = p"
  by (cases p) (simp_all add: as_pmon_def)

lemma map_option_as_csv: "list_all csv_ok (case x of None \<Rightarrow> [] | Some xs \<Rightarrow> [xs]) \<Longrightarrow>
  map_option (\<lambda>y. as_csv (csv y)) x = x"
  by (cases x) simp_all

locale table_struct =
  fixes st :: struct_ty and vals :: "'r \<Rightarrow> sval list" and of_vals :: "sval list \<Rightarrow> 'r"
    and texts :: "'r \<Rightarrow> string list list"
  assumes wf: "wf_struct st"
    and of_vals_vals: "list_all csv_ok (texts r) \<Longrightarrow> of_vals (vals r) = r"
begin

lemma write_read:
  assumes "row_ok st (vals r) (texts r)"
  shows "\<exists>f. row_of se st (vals r) = Inr f \<and>
    (\<forall>f'. mset f' = mset f \<longrightarrow> of_row se st (\<lambda>vs. Inr (of_vals vs)) f' = Inr r)"
proof -
  have ok: "struct_has_type st (vals r)" "list_all2 (\<lambda>f v. survives (f_ty f) v) st (vals r)"
    and inv: "of_vals (vals r) = r"
    using assms of_vals_vals by (simp_all add: row_ok_def)
  obtain f where f: "to_field_values st (vals r) = Ok f" "distinct (map fst f)" "from_field_values st f = Ok (vals r)"
    using struct_read_back [OF wf ok] by blast
  moreover have "from_field_values st f' = Ok (vals r)" if "mset f' = mset f" for f'
    using that f from_field_values_order [of st f f'] wf by (auto simp: wf_struct_def)
  ultimately show ?thesis using inv by (auto simp: row_of_def of_row_def)
qed

text \<open>No two records have the same row.\<close>

lemma row_injective:
  assumes "row_ok st (vals r) (texts r)" "row_ok st (vals q) (texts q)" "row_of se st (vals r) = row_of se st (vals q)"
  shows "r = q"
  using write_read [OF assms(1), of se] write_read [OF assms(2), of se] assms(3) by auto

end

definition npu_scope_state_texts :: "npu_dash_ha_scope_state \<Rightarrow> string list list" where
  "npu_scope_state_texts n = ns_up_bfd_sessions_v4 n # ns_up_bfd_sessions_v6 n #
     (case ns_pending_operation_ids n of None \<Rightarrow> [] | Some xs \<Rightarrow> [xs]) @
     (case ns_pending_operation_types n of None \<Rightarrow> [] | Some xs \<Rightarrow> [xs])"

definition vnet_route_texts :: "vnet_route_tunnel \<Rightarrow> string list list" where
  "vnet_route_texts r = vr_endpoint r #
     (case vr_endpoint_monitor r of None \<Rightarrow> [] | Some xs \<Rightarrow> [xs]) @
     (case vr_primary r of None \<Rightarrow> [] | Some xs \<Rightarrow> [xs])"

lemmas struct_wf_simps = wf_struct_def names_def plain_field_def option_field_def default_field_def time_field_def pmon_ty_def

lemma map_option_same [simp]: "map_option (\<lambda>y. y) x = x"
  by (cases x) simp_all

interpretation npu_row: table_struct npu_scope_state_ty npu_scope_state_vals npu_scope_state_of_vals npu_scope_state_texts
proof
  show "wf_struct npu_scope_state_ty"
    by (simp add: npu_scope_state_ty_def struct_wf_simps ascii_def)
  fix n :: npu_dash_ha_scope_state
  assume "list_all csv_ok (npu_scope_state_texts n)"
  then show "npu_scope_state_of_vals (npu_scope_state_vals n) = n"
    by (simp add: npu_scope_state_of_vals_def npu_scope_state_vals_def npu_scope_state_texts_def map_option_as_csv)
qed

interpretation bfd_row: table_struct bfd_session_ty bfd_session_vals bfd_session_of_vals "\<lambda>b. []"
  by unfold_locales
    (simp_all add: bfd_session_ty_def struct_wf_simps bfd_session_of_vals_def bfd_session_vals_def)

interpretation ha_set_row: table_struct ha_set_table_ty ha_set_table_vals ha_set_table_of_vals "\<lambda>t. []"
  by unfold_locales
    (simp_all add: ha_set_table_ty_def struct_wf_simps ha_set_table_of_vals_def ha_set_table_vals_def)

interpretation vnet_row: table_struct vnet_route_ty vnet_route_vals vnet_route_of_vals vnet_route_texts
  by unfold_locales
    (simp_all add: vnet_route_ty_def struct_wf_simps vnet_route_of_vals_def vnet_route_vals_def vnet_route_texts_def
      map_option_as_csv)

interpretation scope_row: table_struct ha_scope_table_ty ha_scope_table_vals ha_scope_table_of_vals "\<lambda>t. []"
  by unfold_locales
    (simp_all add: ha_scope_table_ty_def struct_wf_simps ha_scope_table_of_vals_def ha_scope_table_vals_def)

text \<open>With this serialisation the hypothesis of \<open>Hamgrd_HaScope\<close> about the published state holds.\<close>

lemma hamgrd_npu_roundtrip:
  assumes "row_ok npu_scope_state_ty (npu_scope_state_vals n) (npu_scope_state_texts n)"
    and "env_serde env = hamgrd_serde se"
  shows "npu_roundtrip env n"
proof -
  have "of_row se npu_scope_state_ty g [] \<noteq> Inr n" for g
    by (simp add: of_row_def from_field_values_def npu_scope_state_ty_def take_field_def missing_field_def plain_field_def)
  then show ?thesis
    using npu_row.write_read [OF assms(1), of se] by (auto simp: npu_roundtrip_def assms(2) hamgrd_serde_def)
qed

section \<open>An object and its fields\<close>

text \<open>What \<open>serde_json\<close> documents: a value of a plain type, or an option of one, is read back from its JSON.\<close>

definition flat_ty :: "sty \<Rightarrow> bool" where
  "flat_ty t \<longleftrightarrow> (case t of
      TBool \<Rightarrow> True | TInt _ \<Rightarrow> True | TStr \<Rightarrow> True | TEnum _ \<Rightarrow> True
    | TOption TBool \<Rightarrow> True | TOption (TInt _) \<Rightarrow> True | TOption TStr \<Rightarrow> True | _ \<Rightarrow> False)"

definition json_faithful :: "serde_env \<Rightarrow> bool" where
  "json_faithful se \<longleftrightarrow> (\<forall>t v. flat_ty t \<longrightarrow> has_type t v \<longrightarrow> se_of_json se t (se_json se v) = Inr v)"

definition flat_struct :: "struct_ty \<Rightarrow> bool" where
  "flat_struct st \<longleftrightarrow> wf_struct st \<and> list_all (\<lambda>f. flat_ty (f_ty f)) st"

lemma all_sum_Inr_iff: "all_sum (map g xs) = Inr ys \<longleftrightarrow> list_all2 (\<lambda>x y. g x = Inr y) xs ys"
proof (induction xs arbitrary: ys)
  case (Cons x xs)
  have "all_sum (map g (x # xs)) = Inr ys \<longleftrightarrow> (\<exists>y zs. g x = Inr y \<and> all_sum (map g xs) = Inr zs \<and> ys = y # zs)"
    by (auto split: sum.splits)
  then show ?case by (simp add: Cons.IH list_all2_Cons1) blast
qed auto

lemma json_field_at:
  assumes "distinct (names st)" "length vs = length st" "(f, v) \<in> set (zip st vs)" "f_name f \<notin> fst ` set extra"
  shows "map_of (json_fields se st vs @ extra) (f_name f) = (if skipped f v then None else Some (se_json se v))"
proof (cases "skipped f v")
  case True
  have "f_name f \<notin> fst ` set (present_fields st vs)"
    using True zip_name_unique [OF assms(1,3)] by (auto simp: present_fields_iff)
  then have "map_of (json_fields se st vs) (f_name f) = None"
    by (auto simp: json_fields_def map_of_eq_None_iff image_image split_beta)
  moreover have "map_of extra (f_name f) = None" using assms(4) by (simp add: map_of_eq_None_iff)
  ultimately show ?thesis using True by (simp add: map_add_None)
next
  case False
  have "distinct (map fst (json_fields se st vs))"
    using present_fields_mem [OF assms(1,2)] by (simp add: json_fields_def split_beta comp_def)
  moreover have "(f_name f, v) \<in> set (present_fields st vs)"
    using False assms(3) by (auto simp: present_fields_iff)
  then have "(f_name f, se_json se v) \<in> set (json_fields se st vs)"
    by (force simp: json_fields_def)
  ultimately have "map_of (json_fields se st vs) (f_name f) = Some (se_json se v)" by simp
  moreover have "map_of extra (f_name f) = None" using assms(4) by (simp add: map_of_eq_None_iff)
  ultimately show ?thesis using False by (simp add: map_add_def)
qed

lemma json_fields_read_back:
  assumes "json_faithful se" "flat_struct st" "struct_has_type st vs" "fst ` set extra \<inter> set (names st) = {}"
  shows "of_json_fields se st (JObj (json_fields se st vs @ extra)) = Inr vs"
proof -
  have st: "distinct (names st)" "length vs = length st"
    using assms(2,3) by (auto simp: flat_struct_def wf_struct_def struct_has_type_def dest: list_all2_lengthD)
  have "read_json_field se (json_fields se st vs @ extra) f = Inr v" if "(f, v) \<in> set (zip st vs)" for f v
  proof -
    have f: "f \<in> set st" "has_type (f_ty f) v" "flat_ty (f_ty f)"
      using that assms(2,3)
      by (auto simp: flat_struct_def struct_has_type_def list_all2_iff list_all_iff dest: set_zip_leftD)
    have "f_name f \<notin> fst ` set extra" using f(1) assms(4) by (auto simp: names_def)
    from json_field_at [OF st that this] show ?thesis
      using f assms(1,2) skipped_missing [of f v]
      by (auto simp: read_json_field_def json_faithful_def flat_struct_def wf_struct_def list_all_iff skipped_def
          split: exec.splits)
  qed
  then have "list_all2 (\<lambda>f v. read_json_field se (json_fields se st vs @ extra) f = Inr v) st vs"
    using st(2) by (auto simp: list_all2_iff)
  then show ?thesis by (simp add: of_json_fields_def all_sum_Inr_iff)
qed

lemmas json_fields_read_back0 = json_fields_read_back [where extra = "[]", simplified]

lemmas struct_flat_simps = flat_struct_def struct_wf_simps flat_ty_def ascii_def

lemma flat_structs:
  "flat_struct dpu_state_ty" "flat_struct bfd_probe_state_ty" "flat_struct dpu_actor_state_ty" "flat_struct up_ty"
  "flat_struct ha_set_table_ty" "flat_struct registration_ty"
  by (simp_all add: dpu_state_ty_def bfd_probe_state_ty_def dpu_actor_state_ty_def up_ty_def ha_set_table_ty_def
      registration_ty_def struct_flat_simps)

section \<open>Times in messages\<close>

text \<open>
  The format of times has no digits below the second. A time survives up to that: its text is read back as the time
  cut to whole seconds.
\<close>

definition time_ok :: "serde_env \<Rightarrow> int \<Rightarrow> bool" where
  "time_ok se t \<longleftrightarrow> (\<exists>s. se_format se t = Some s \<and> utf8_valid s \<and> se_parse se s = Inr (t - t mod 1000))"

definition whole_seconds_dpu_state :: "dpu_state \<Rightarrow> dpu_state" where
  "whole_seconds_dpu_state s = s\<lparr>ds_midplane_link_time := ds_midplane_link_time s - ds_midplane_link_time s mod 1000,
     ds_control_plane_time := ds_control_plane_time s - ds_control_plane_time s mod 1000,
     ds_data_plane_time := ds_data_plane_time s - ds_data_plane_time s mod 1000\<rparr>"

definition whole_seconds_bfd :: "dash_bfd_probe_state \<Rightarrow> dash_bfd_probe_state" where
  "whole_seconds_bfd b = b\<lparr>
     v4_bfd_up_sessions_timestamp := v4_bfd_up_sessions_timestamp b - v4_bfd_up_sessions_timestamp b mod 1000,
     v6_bfd_up_sessions_timestamp := v6_bfd_up_sessions_timestamp b - v6_bfd_up_sessions_timestamp b mod 1000\<rparr>"

definition dpu_state_ok :: "serde_env \<Rightarrow> dpu_state \<Rightarrow> bool" where
  "dpu_state_ok se s \<longleftrightarrow>
     time_ok se (ds_midplane_link_time s) \<and> time_ok se (ds_control_plane_time s) \<and> time_ok se (ds_data_plane_time s)"

definition bfd_state_ok :: "serde_env \<Rightarrow> dash_bfd_probe_state \<Rightarrow> bool" where
  "bfd_state_ok se b \<longleftrightarrow> time_ok se (v4_bfd_up_sessions_timestamp b) \<and> time_ok se (v6_bfd_up_sessions_timestamp b) \<and>
     csv_ok (v4_bfd_up_sessions b) \<and> csv_ok (v6_bfd_up_sessions b) \<and>
     utf8_valid (join_with (CHR '','') (v4_bfd_up_sessions b)) \<and>
     utf8_valid (join_with (CHR '','') (v6_bfd_up_sessions b))"

lemma time_written:
  assumes "time_ok se t"
  obtains s where "timestamp_serialize se t = Inr (SSome (SStr s))" "utf8_valid s"
    "timestamp_deserialize se (SSome (SStr s)) = Inr (t - t mod 1000)"
  using assms by (auto simp: time_ok_def timestamp_serialize_def timestamp_deserialize_def)

lemma has_type_pmon: "has_type pmon_ty (SUnitVariant (pmon_name p))"
  by (cases p) (simp_all add: pmon_ty_def)

lemma dpu_state_json_roundtrip:
  assumes "json_faithful se" "dpu_state_ok se s"
  shows "\<exists>ob. json_dpu_state se s = Inr (JObj ob) \<and> of_json_dpu_state se (JObj ob) = Inr (whole_seconds_dpu_state s)"
proof -
  obtain a where a: "timestamp_serialize se (ds_midplane_link_time s) = Inr (SSome (SStr a))" "utf8_valid a"
    "timestamp_deserialize se (SSome (SStr a)) = Inr (ds_midplane_link_time s - ds_midplane_link_time s mod 1000)"
    using assms(2) time_written by (auto simp: dpu_state_ok_def)
  obtain b where b: "timestamp_serialize se (ds_control_plane_time s) = Inr (SSome (SStr b))" "utf8_valid b"
    "timestamp_deserialize se (SSome (SStr b)) = Inr (ds_control_plane_time s - ds_control_plane_time s mod 1000)"
    using assms(2) time_written by (auto simp: dpu_state_ok_def)
  obtain c where c: "timestamp_serialize se (ds_data_plane_time s) = Inr (SSome (SStr c))" "utf8_valid c"
    "timestamp_deserialize se (SSome (SStr c)) = Inr (ds_data_plane_time s - ds_data_plane_time s mod 1000)"
    using assms(2) time_written by (auto simp: dpu_state_ok_def)
  let ?vs = "[SUnitVariant (pmon_name (ds_midplane_link_state s)), SSome (SStr a),
     SUnitVariant (pmon_name (ds_control_plane_state s)), SSome (SStr b),
     SUnitVariant (pmon_name (ds_data_plane_state s)), SSome (SStr c)]"
  have "struct_has_type dpu_state_ty ?vs"
    using a(2) b(2) c(2) by (simp add: struct_has_type_def dpu_state_ty_def default_field_def time_field_def
        plain_field_def has_type_pmon)
  from json_fields_read_back0 [OF assms(1) flat_structs(1) this] show ?thesis
    using a b c by (simp add: json_dpu_state_def dpu_state_vals_def of_json_dpu_state_def dpu_state_of_def
        whole_seconds_dpu_state_def)
qed

lemma bfd_state_json_roundtrip:
  assumes "json_faithful se" "bfd_state_ok se s"
  shows "\<exists>ob. json_bfd_state se s = Inr (JObj ob) \<and> of_json_bfd_state se (JObj ob) = Inr (whole_seconds_bfd s)"
proof -
  obtain a where a: "timestamp_serialize se (v4_bfd_up_sessions_timestamp s) = Inr (SSome (SStr a))" "utf8_valid a"
    "timestamp_deserialize se (SSome (SStr a)) =
       Inr (v4_bfd_up_sessions_timestamp s - v4_bfd_up_sessions_timestamp s mod 1000)"
    using assms(2) time_written by (auto simp: bfd_state_ok_def)
  obtain b where b: "timestamp_serialize se (v6_bfd_up_sessions_timestamp s) = Inr (SSome (SStr b))" "utf8_valid b"
    "timestamp_deserialize se (SSome (SStr b)) =
       Inr (v6_bfd_up_sessions_timestamp s - v6_bfd_up_sessions_timestamp s mod 1000)"
    using assms(2) time_written by (auto simp: bfd_state_ok_def)
  let ?vs = "[csv (v4_bfd_up_sessions s), SSome (SStr a), csv (v6_bfd_up_sessions s), SSome (SStr b)]"
  have "struct_has_type bfd_probe_state_ty ?vs"
    using a(2) b(2) assms(2) by (simp add: struct_has_type_def bfd_probe_state_ty_def default_field_def time_field_def
        plain_field_def csv_def bfd_state_ok_def)
  from json_fields_read_back0 [OF assms(1) flat_structs(2) this] show ?thesis
    using a b assms(2)
    by (simp add: json_bfd_state_def bfd_probe_state_vals_def of_json_bfd_state_def bfd_probe_state_of_def
        whole_seconds_bfd_def bfd_state_ok_def)
qed

definition whole_seconds :: "dpu_actor_state \<Rightarrow> dpu_actor_state" where
  "whole_seconds a = a\<lparr>da_dpu_pmon_state := map_option whole_seconds_dpu_state (da_dpu_pmon_state a),
     da_dpu_bfd_state := map_option whole_seconds_bfd (da_dpu_bfd_state a)\<rparr>"

definition dpu_report_ok :: "serde_env \<Rightarrow> dpu_actor_state \<Rightarrow> bool" where
  "dpu_report_ok se a \<longleftrightarrow> struct_has_type dpu_actor_state_ty (dpu_actor_state_vals a) \<and>
     pred_option (dpu_state_ok se) (da_dpu_pmon_state a) \<and> pred_option (bfd_state_ok se) (da_dpu_bfd_state a)"

text \<open>An optional struct inside an object, written and read.\<close>

lemma nested_roundtrip:
  assumes "pred_option (\<lambda>y. \<exists>o'. enc y = Inr (JObj o') \<and> dec (JObj o') = Inr (g y)) x"
  obtains p where "nested_json k enc x = Inr p" "fst ` set p \<subseteq> {k}"
    "\<And>ob. map_of ob k = map_of p k \<Longrightarrow> read_nested k dec (JObj ob) = Inr (map_option g x)"
proof (cases x)
  case None
  then show ?thesis
    by (intro that [of "[]"]) (simp_all add: nested_json_def read_nested_def)
next
  case (Some y)
  with assms obtain o' where o': "enc y = Inr (JObj o')" "dec (JObj o') = Inr (g y)" by auto
  show ?thesis
    by (rule that [of "[(k, JObj o')]"]) (use Some o' in \<open>simp_all add: nested_json_def read_nested_def\<close>)
qed

lemma json_fields_names: "fst ` set (json_fields se st vs) \<subseteq> set (names st)"
  by (auto simp: json_fields_def present_fields_def names_def dest: set_zip_leftD)

lemma not_a_field: "k \<notin> set (names st) \<Longrightarrow> map_of (json_fields se st vs) k = None"
  using json_fields_names by (fastforce simp: map_of_eq_None_iff)

lemma dpu_report_json_roundtrip:
  assumes "json_faithful se" "dpu_report_ok se a"
  shows "\<exists>ob. json_dpu_actor_state se a = Inr (JObj ob) \<and>
    of_json_dpu_actor_state se (JObj ob) = Inr (whole_seconds a)"
proof -
  let ?ob = "json_fields se dpu_actor_state_ty (dpu_actor_state_vals a)"
  have new: "''dpu_pmon_state'' \<notin> set (names dpu_actor_state_ty)" "''dpu_bfd_state'' \<notin> set (names dpu_actor_state_ty)"
    by (simp_all add: names_def dpu_actor_state_ty_def plain_field_def option_field_def)
  have pm: "pred_option (\<lambda>y. \<exists>o'. json_dpu_state se y = Inr (JObj o') \<and>
      of_json_dpu_state se (JObj o') = Inr (whole_seconds_dpu_state y)) (da_dpu_pmon_state a)"
    using assms dpu_state_json_roundtrip by (cases "da_dpu_pmon_state a") (auto simp: dpu_report_ok_def)
  obtain p where p: "nested_json ''dpu_pmon_state'' (json_dpu_state se) (da_dpu_pmon_state a) = Inr p"
    "fst ` set p \<subseteq> {''dpu_pmon_state''}"
    "\<And>ob. map_of ob ''dpu_pmon_state'' = map_of p ''dpu_pmon_state'' \<Longrightarrow>
      read_nested ''dpu_pmon_state'' (of_json_dpu_state se) (JObj ob)
        = Inr (map_option whole_seconds_dpu_state (da_dpu_pmon_state a))"
    using nested_roundtrip [OF pm] by metis
  have bf: "pred_option (\<lambda>y. \<exists>o'. json_bfd_state se y = Inr (JObj o') \<and>
      of_json_bfd_state se (JObj o') = Inr (whole_seconds_bfd y)) (da_dpu_bfd_state a)"
    using assms bfd_state_json_roundtrip by (cases "da_dpu_bfd_state a") (auto simp: dpu_report_ok_def)
  obtain b where b: "nested_json ''dpu_bfd_state'' (json_bfd_state se) (da_dpu_bfd_state a) = Inr b"
    "fst ` set b \<subseteq> {''dpu_bfd_state''}"
    "\<And>ob. map_of ob ''dpu_bfd_state'' = map_of b ''dpu_bfd_state'' \<Longrightarrow>
      read_nested ''dpu_bfd_state'' (of_json_bfd_state se) (JObj ob)
        = Inr (map_option whole_seconds_bfd (da_dpu_bfd_state a))"
    using nested_roundtrip [OF bf] by metis
  have other: "map_of b ''dpu_pmon_state'' = None" "map_of p ''dpu_bfd_state'' = None"
    using p(2) b(2) by (auto simp: map_of_eq_None_iff)
  have "fst ` set (p @ b) \<inter> set (names dpu_actor_state_ty) = {}" using p(2) b(2) new by auto
  from json_fields_read_back [OF assms(1) flat_structs(3) _ this] assms(2)
  have vs: "of_json_fields se dpu_actor_state_ty (JObj (?ob @ p @ b)) = Inr (dpu_actor_state_vals a)"
    by (simp add: dpu_report_ok_def)
  have "map_of (?ob @ p @ b) ''dpu_pmon_state'' = map_of p ''dpu_pmon_state''"
    "map_of (?ob @ p @ b) ''dpu_bfd_state'' = map_of b ''dpu_bfd_state''"
    using not_a_field [OF new(1)] not_a_field [OF new(2)] other
    by (simp_all add: map_add_def split: option.splits)
  with p b vs show ?thesis
    by (simp add: json_dpu_actor_state_def of_json_dpu_actor_state_def whole_seconds_def dpu_actor_state_of_def
        dpu_actor_state_vals_def)
qed

text \<open>
  (C16) A report of a vDPU is read by its receiver as it was sent, except that the times of the DPU state and of
  the BFD state are cut to whole seconds: the fields are counted in milliseconds, the text format of
  times has no digits below the second. Options that are \<open>None\<close> are left out of the message and read as \<open>None\<close>.
\<close>
theorem vdpu_report_arrives:
  assumes "json_faithful se" "dpu_report_ok se (va_dpu v)"
  shows "\<exists>j. j_vdpu_actor_state (hamgrd_serde se) v = Inr j \<and>
    of_j_vdpu_actor_state (hamgrd_serde se) j = Inr (v\<lparr>va_dpu := whole_seconds (va_dpu v)\<rparr>)"
proof -
  obtain ob where ob: "json_dpu_actor_state se (va_dpu v) = Inr (JObj ob)"
    "of_json_dpu_actor_state se (JObj ob) = Inr (whole_seconds (va_dpu v))"
    using dpu_report_json_roundtrip [OF assms] by blast
  have up: "struct_has_type up_ty [SBool (va_up v)]" "''dpu'' \<notin> set (names up_ty)"
    by (simp_all add: struct_has_type_def up_ty_def plain_field_def names_def)
  have "of_json_fields se up_ty (JObj (json_fields se up_ty [SBool (va_up v)] @ [(''dpu'', JObj ob)]))
      = Inr [SBool (va_up v)]"
    by (rule json_fields_read_back [OF assms(1) flat_structs(4) up(1)]) (use up(2) in simp)
  with ob not_a_field [OF up(2)] show ?thesis
    by (simp add: hamgrd_serde_def json_vdpu_actor_state_def of_json_vdpu_actor_state_def read_required_def map_add_def)
qed

text \<open>The messages without times are read as they were sent.\<close>

lemma ha_set_report_arrives:
  assumes "json_faithful se" "struct_has_type ha_set_table_ty (ha_set_table_vals (ha_ha_set h))"
  shows "\<exists>j. j_ha_set_actor_state (hamgrd_serde se) h = Inr j \<and> of_j_ha_set_actor_state (hamgrd_serde se) j = Inr h"
proof -
  have up: "struct_has_type up_ty [SBool (ha_up h)]" "''ha_set'' \<notin> set (names up_ty)"
    by (simp_all add: struct_has_type_def up_ty_def plain_field_def names_def)
  have "of_json_fields se up_ty (JObj (json_fields se up_ty [SBool (ha_up h)] @ [(''ha_set'', j)]))
      = Inr [SBool (ha_up h)]" for j
    by (rule json_fields_read_back [OF assms(1) flat_structs(4) up(1)]) (use up(2) in simp)
  with not_a_field [OF up(2)] json_fields_read_back0 [OF assms(1) flat_structs(5) assms(2)] ha_set_row.of_vals_vals
  show ?thesis
    by (simp add: hamgrd_serde_def json_ha_set_actor_state_def of_json_ha_set_actor_state_def read_required_def map_add_def)
qed

lemma registration_arrives:
  assumes "json_faithful se"
  shows "\<exists>j. j_registration (hamgrd_serde se) b = Inr j \<and> of_j_registration (hamgrd_serde se) j = Inr b"
proof -
  have "struct_has_type registration_ty [SBool b]"
    by (simp add: struct_has_type_def registration_ty_def plain_field_def)
  from json_fields_read_back0 [OF assms flat_structs(6) this] show ?thesis by (simp add: hamgrd_serde_def)
qed

section \<open>From the texts of rows to the state of a DPU\<close>

text \<open>
  How \<open>deserialize_enum\<close> reads the text of a state: the comparison with \<open>up\<close> ignores case and ends with
  the shorter of the two, so only the first two characters count, and the empty text and the letter \<open>u\<close> match too.
\<close>

definition text_means_up :: "string \<Rightarrow> bool" where
  "text_means_up t \<longleftrightarrow> map ascii_lower (take 2 t) \<in> {'''', ''u'', ''up''}"

definition time_text_ok :: "serde_env \<Rightarrow> field_values \<Rightarrow> string \<Rightarrow> bool" where
  "time_text_ok se f k \<longleftrightarrow>
     (\<forall>t. map_of f k = Some t \<longrightarrow> t = ''none'' \<or> (\<exists>i. se_parse se t = Inr i))"

definition row_utf8 :: "field_values \<Rightarrow> bool" where
  "row_utf8 f \<longleftrightarrow> distinct (map fst f) \<and> list_all (\<lambda>(k, t). utf8_valid t) f"

definition time_read :: "string option \<Rightarrow> sval" where
  "time_read t = (case t of None \<Rightarrow> SNone | Some s \<Rightarrow> if s = ''none'' then SNone else SSome (SStr s))"

lemma row_utf8_at: "row_utf8 f \<Longrightarrow> map_of f k = Some t \<Longrightarrow> utf8_valid t"
  by (auto simp: row_utf8_def list_all_iff dest: map_of_SomeD)

lemma pmon_variant:
  "deserialize_enum [''up'', ''down'', ''unknown''] (Some '''') = Ok (SUnitVariant ''up'')"
  by code_simp

lemma ascii_lower_letters: "ascii_lower (CHR ''u'') = CHR ''u''" "ascii_lower (CHR ''p'') = CHR ''p''"
  by code_simp+

lemma streq_up: "streq_case_insensitive t ''up'' \<longleftrightarrow> text_means_up t"
proof (cases t)
  case (Cons a ts)
  then show ?thesis
    by (cases ts) (auto simp: streq_case_insensitive_def text_means_up_def ascii_lower_letters)
qed (simp add: streq_case_insensitive_def text_means_up_def)

lemma pmon_read_up:
  assumes "utf8_valid t"
  shows "deserialize_enum [''up'', ''down'', ''unknown''] (Some t) = Ok (SUnitVariant ''up'') \<longleftrightarrow> text_means_up t"
  using assms streq_up [of t] streq_up [of "''up''"]
  by (auto simp: deserialize_enum_def to_str_def fv_data_def pick_variant_def Let_def text_means_up_def ascii_lower_letters)

lemma pmon_field_up:
  assumes "row_utf8 f"
  shows "field_read f (default_field k pmon_ty (SUnitVariant ''unknown'')) (SUnitVariant ''up'') \<longleftrightarrow>
    (\<exists>t. map_of f k = Some t \<and> text_means_up t)"
  using pmon_read_up row_utf8_at [OF assms, of k]
  by (auto simp: field_read_def default_field_def missing_field_def pmon_ty_def split: option.splits)

lemma time_field_read:
  "row_utf8 f \<Longrightarrow> field_read f (time_field k) (time_read (map_of f k))"
  by (cases "map_of f k")
    (auto simp: field_read_def time_field_def plain_field_def missing_field_def time_read_def to_str_def fv_data_def
      dest: row_utf8_at)

lemma field_read_unique: "field_read f k v \<Longrightarrow> field_read f k v' \<Longrightarrow> v = v'"
  by (simp add: field_read_def split: option.splits)

lemma time_field_iff:
  "row_utf8 f \<Longrightarrow> field_read f (time_field k) v \<longleftrightarrow> v = time_read (map_of f k)"
  using time_field_read field_read_unique by blast

lemma text_field_read:
  "row_utf8 f \<Longrightarrow>
   field_read f (default_field k TStr (SStr [])) (SStr (case map_of f k of None \<Rightarrow> [] | Some t \<Rightarrow> t))"
  by (cases "map_of f k")
    (auto simp: field_read_def default_field_def missing_field_def to_str_def fv_data_def dest: row_utf8_at)

lemma text_field_iff:
  "row_utf8 f \<Longrightarrow> field_read f (default_field k TStr (SStr [])) v \<longleftrightarrow>
     v = SStr (case map_of f k of None \<Rightarrow> [] | Some t \<Rightarrow> t)"
  using text_field_read field_read_unique by blast

lemma time_text_parses:
  "(\<exists>i. timestamp_deserialize se (time_read (map_of f k)) = Inr i) \<longleftrightarrow> time_text_ok se f k"
  by (auto simp: time_text_ok_def timestamp_deserialize_def time_read_def split: option.splits)

lemma as_pmon_up: "as_pmon v = PmonUp \<longleftrightarrow> v = SUnitVariant ''up''"
  by (simp add: as_pmon_def)

lemma all_sum_Inr: "(\<exists>ys. all_sum xs = Inr ys) \<longleftrightarrow> (\<forall>x \<in> set xs. \<exists>y. x = Inr y)"
  by (induction xs) (auto split: sum.splits)

lemma row_read:
  assumes "row_utf8 f" "flat_struct st"
  shows "from_field_values st f = Ok vs \<longleftrightarrow> list_all2 (field_read f) st vs"
proof -
  have "distinct (map fst f)" "distinct (names st)" "\<forall>(k, t) \<in> set f. utf8_valid t"
    using assms(1,2) by (auto simp: row_utf8_def flat_struct_def wf_struct_def list_all_iff)
  then show ?thesis by (auto simp: from_field_values_Ok_iff)
qed

lemma ex_list_all2:
  "(\<exists>vs. list_all2 P [] vs \<and> Q vs) \<longleftrightarrow> Q []"
  "(\<exists>vs. list_all2 P (x # xs) vs \<and> Q vs) \<longleftrightarrow> (\<exists>v. P x v \<and> (\<exists>vs. list_all2 P xs vs \<and> Q (v # vs)))"
  by (auto simp: list_all2_Cons1)

lemma dpu_state_row_up:
  assumes "row_utf8 f"
  shows "(\<exists>d. of_fv_dpu_state (hamgrd_serde se) f = Inr d \<and> ds_midplane_link_state d = PmonUp \<and>
      ds_control_plane_state d = PmonUp \<and> ds_data_plane_state d = PmonUp) \<longleftrightarrow>
    (\<forall>x \<in> {''dpu_midplane_link_state'', ''dpu_control_plane_state'', ''dpu_data_plane_state''}.
       \<exists>t. map_of f x = Some t \<and> text_means_up t) \<and>
    (\<forall>x \<in> {''dpu_midplane_link_time'', ''dpu_control_plane_time'', ''dpu_data_plane_time''}. time_text_ok se f x)"
    (is "?l \<longleftrightarrow> ?r")
proof -
  have "?l \<longleftrightarrow> (\<exists>vs. list_all2 (field_read f) dpu_state_ty vs \<and>
      (\<exists>d. dpu_state_of se vs = Inr d \<and> ds_midplane_link_state d = PmonUp \<and>
      ds_control_plane_state d = PmonUp \<and> ds_data_plane_state d = PmonUp))"
    by (auto simp: hamgrd_serde_def of_row_def row_read [OF assms flat_structs(1), symmetric] split: exec.splits)
  also have "\<dots> \<longleftrightarrow> (\<exists>vs. list_all2 (field_read f) dpu_state_ty vs \<and>
      (\<exists>ys. all_sum [timestamp_deserialize se (vs ! 1), timestamp_deserialize se (vs ! 3),
        timestamp_deserialize se (vs ! 5)] = Inr ys) \<and>
      vs ! 0 = SUnitVariant ''up'' \<and> vs ! 2 = SUnitVariant ''up'' \<and> vs ! 4 = SUnitVariant ''up'')"
    unfolding dpu_state_of_def by (rule arg_cong [where f = Ex]) (auto simp: fun_eq_iff as_pmon_up split: sum.splits)
  also have "\<dots> \<longleftrightarrow> ?r"
    unfolding all_sum_Inr dpu_state_ty_def ex_list_all2 time_field_iff [OF assms]
    by (auto simp: pmon_field_up [OF assms, symmetric] time_text_parses)
  finally show ?thesis .
qed

lemma bfd_row_up:
  assumes "row_utf8 f"
  shows "(\<exists>b. of_fv_bfd_probe_state (hamgrd_serde se) f = Inr b \<and>
      (v4_bfd_up_sessions b \<noteq> [] \<or> v6_bfd_up_sessions b \<noteq> [])) \<longleftrightarrow>
    (\<exists>x \<in> {''v4_bfd_up_sessions'', ''v6_bfd_up_sessions''}. \<exists>t. map_of f x = Some t \<and> t \<noteq> '''') \<and>
    (\<forall>x \<in> {''v4_bfd_up_sessions_timestamp'', ''v6_bfd_up_sessions_timestamp''}. time_text_ok se f x)"
    (is "?l \<longleftrightarrow> ?r")
proof -
  have "?l \<longleftrightarrow> (\<exists>vs. list_all2 (field_read f) bfd_probe_state_ty vs \<and>
      (\<exists>b. bfd_probe_state_of se vs = Inr b \<and> (v4_bfd_up_sessions b \<noteq> [] \<or> v6_bfd_up_sessions b \<noteq> [])))"
    by (auto simp: hamgrd_serde_def of_row_def row_read [OF assms flat_structs(2), symmetric] split: exec.splits)
  also have "\<dots> \<longleftrightarrow> (\<exists>vs. list_all2 (field_read f) bfd_probe_state_ty vs \<and>
      (\<exists>ys. all_sum [timestamp_deserialize se (vs ! 1), timestamp_deserialize se (vs ! 3)] = Inr ys) \<and>
      (as_str (vs ! 0) \<noteq> [] \<or> as_str (vs ! 2) \<noteq> []))"
    unfolding bfd_probe_state_of_def
    by (rule arg_cong [where f = Ex]) (auto simp: fun_eq_iff as_csv_def split_csv_def split: sum.splits)
  also have "\<dots> \<longleftrightarrow> ?r"
    unfolding all_sum_Inr bfd_probe_state_ty_def ex_list_all2 time_field_iff [OF assms] text_field_iff [OF assms]
    by (auto simp: time_text_parses split: option.splits)
  finally show ?thesis .
qed

text \<open>
  (C17) When an actor of a local DPU counts it as up, for any two rows of valid texts that it has received: exactly
  when all three state fields of its \<open>DPU_STATE\<close> row are there with a text that means up, its
  \<open>DASH_BFD_PROBE_STATE\<close> row has a text that is not empty in one of its two lists of sessions, and every time in
  the two rows is absent, the word \<open>none\<close> or a text that parses (one that does not makes the whole row
  unreadable). The text \<open>up\<close> means up, and so does every text the reader cannot tell from it: in any case,
  followed by anything, or cut off to one letter or none.
\<close>
theorem dpu_up_from_rows:
  assumes "env_serde env = hamgrd_serde se" "d_dpu (self s) = Some (LocalDpu d managed npu4 npu6)"
    and "read_msg (se_of_kfv se) ''DPU_STATE'' s = Ok k" "kfv_field_values k = f"
    and "read_msg (se_of_kfv se) ''DASH_BFD_PROBE_STATE'' s = Ok q" "kfv_field_values q = g"
    and "row_utf8 f" "row_utf8 g"
  shows "fst (calculate_dpu_state env s) \<longleftrightarrow>
    (\<forall>x \<in> {''dpu_midplane_link_state'', ''dpu_control_plane_state'', ''dpu_data_plane_state''}.
       \<exists>t. map_of f x = Some t \<and> map ascii_lower (take 2 t) \<in> {'''', ''u'', ''up''}) \<and>
    (\<exists>x \<in> {''v4_bfd_up_sessions'', ''v6_bfd_up_sessions''}. \<exists>t. map_of g x = Some t \<and> t \<noteq> '''') \<and>
    (\<forall>(row, x) \<in> {(f, ''dpu_midplane_link_time''), (f, ''dpu_control_plane_time''), (f, ''dpu_data_plane_time''),
         (g, ''v4_bfd_up_sessions_timestamp''), (g, ''v6_bfd_up_sessions_timestamp'')}.
       \<forall>t. map_of row x = Some t \<longrightarrow> t = ''none'' \<or> (\<exists>i. se_parse se t = Inr i))"
proof -
  have kf: "of_j_kfv (hamgrd_serde se) = se_of_kfv se" by (simp add: hamgrd_serde_def)
  have "get_dpu_state env s = of_sum (of_fv_dpu_state (hamgrd_serde se) f)"
    "get_bfd_probe_state env s = of_sum (of_fv_bfd_probe_state (hamgrd_serde se) g)"
    using assms(1,3-6) by (simp_all add: get_dpu_state_def get_bfd_probe_state_def read_fvs_def table_defs kf)
  then have "fst (calculate_dpu_state env s) \<longleftrightarrow>
      (\<exists>d. of_fv_dpu_state (hamgrd_serde se) f = Inr d \<and> ds_midplane_link_state d = PmonUp \<and>
        ds_control_plane_state d = PmonUp \<and> ds_data_plane_state d = PmonUp) \<and>
      (\<exists>b. of_fv_bfd_probe_state (hamgrd_serde se) g = Inr b \<and>
        (v4_bfd_up_sessions b \<noteq> [] \<or> v6_bfd_up_sessions b \<noteq> []))"
    using assms(2)
    by (cases "of_fv_dpu_state (hamgrd_serde se) f"; cases "of_fv_bfd_probe_state (hamgrd_serde se) g")
      (auto simp: calculate_dpu_state_def Let_def)
  then show ?thesis
    unfolding dpu_state_row_up [OF assms(7)] bfd_row_up [OF assms(8)] text_means_up_def time_text_ok_def
    by (simp only: ball_simps case_prod_conv simp_thms conj_ac)
qed

text \<open>
  An empty text in a state field is read as \<open>up\<close>, because a text that is cut off matches the first
  variant it is a prefix of: a row of three empty texts is the row of a DPU that is up.
\<close>

lemma empty_state_text_is_up:
  "of_fv_dpu_state (hamgrd_serde se)
     [(''dpu_midplane_link_state'', ''''), (''dpu_control_plane_state'', ''''), (''dpu_data_plane_state'', '''')] =
   Inr \<lparr>ds_midplane_link_state = PmonUp, ds_midplane_link_time = se_now se, ds_control_plane_state = PmonUp,
     ds_control_plane_time = se_now se, ds_data_plane_state = PmonUp, ds_data_plane_time = se_now se\<rparr>"
  by (simp add: hamgrd_serde_def of_row_def from_field_values_def dpu_state_ty_def default_field_def time_field_def
      plain_field_def pmon_ty_def pmon_variant take_field_def missing_field_def dpu_state_of_def
      timestamp_deserialize_def as_pmon_def)

lemma empty_row_is_default:
  "of_fv_dpu_state (hamgrd_serde se) [] = Inr (default_dpu_state (se_now se))"
  "of_fv_bfd_probe_state (hamgrd_serde se) [] = Inr (default_bfd_probe_state (se_now se))"
  by (simp_all add: hamgrd_serde_def of_row_def from_field_values_def dpu_state_ty_def bfd_probe_state_ty_def
      default_field_def time_field_def plain_field_def take_field_def missing_field_def dpu_state_of_def
      bfd_probe_state_of_def timestamp_deserialize_def as_pmon_def as_csv_def split_csv_def default_dpu_state_def
      default_bfd_probe_state_def)

section \<open>Rows the actors write\<close>

text \<open>
  The row of a BFD session that a DPU actor programs: multihop, not shut down, passive, from the address of the
  DPU, with the interval and the multiplier of the global configuration in decimal digits; what the configuration does
  not set is left out of the row.
\<close>
theorem bfd_session_row:
  "\<exists>f. fv_bfd_session (hamgrd_serde se) (bfd_session_of d cfg) = Inr f \<and>
    map_of f = map_of ([(''multihop'', ''true''), (''shutdown'', ''false''), (''local_addr'', dpu_pa_ipv4 d), (''type'', ''passive'')] @
      (case gc_dpu_bfd_probe_interval_in_ms cfg of None \<Rightarrow> []
       | Some i \<Rightarrow> [(''tx_interval'', show_nat (unat i)), (''rx_interval'', show_nat (unat i))]) @
      (case gc_dpu_bfd_probe_multiplier cfg of None \<Rightarrow> [] | Some m \<Rightarrow> [(''multiplier'', show_nat (unat m))]))"
proof -
  have int: "show_int (uint w) = show_nat (unat w)" for w :: u32
    by (simp add: show_int_def)
  show ?thesis
    by (cases "gc_dpu_bfd_probe_interval_in_ms cfg"; cases "gc_dpu_bfd_probe_multiplier cfg")
      (simp_all add: hamgrd_serde_def row_of_def to_field_values_def present_fields_def bfd_session_ty_def
        bfd_session_vals_def bfd_session_of_def plain_field_def option_field_def int fun_eq_iff)
qed

text \<open>
  The state of an HA scope that \<open>hamgrd\<close> publishes is read back from its row as it was written, in whatever order the
  hash yields the fields: all 37 fields, whenever the numbers fit, no optional text is the word \<open>none\<close>, and
  the lists of sessions and of operations have no commas in their elements.
\<close>
theorem published_state_read_back:
  assumes "row_ok npu_scope_state_ty (npu_scope_state_vals n) (npu_scope_state_texts n)"
  shows "\<exists>f. fv_npu_scope_state (hamgrd_serde se) n = Inr f \<and>
    (\<forall>f'. mset f' = mset f \<longrightarrow> of_fv_npu_scope_state (hamgrd_serde se) f' = Inr n)"
  using npu_row.write_read [OF assms, of se] by (simp add: hamgrd_serde_def)

text \<open>
  Outside that condition values are lost: an optional text that is the word \<open>none\<close> is written as that word and read as
  nothing.
\<close>

lemma none_text_is_lost:
  "\<exists>f. to_field_values vnet_route_ty (vnet_route_vals r) = Ok f \<and> map_of f ''monitoring'' = Some ''none'' \<and>
     deserialize_field_value (TOption TStr) (map_of f ''monitoring'') = Ok SNone"
  if "r = \<lparr>vr_endpoint = [''1.2.3.4''], vr_endpoint_monitor = None, vr_monitoring = Some ''none'', vr_primary = None,
    vr_rx_monitor_timer = None, vr_tx_monitor_timer = None, vr_check_directly_connected = None\<rparr>"
  using that by (simp add: to_field_values_def present_fields_def vnet_route_ty_def vnet_route_vals_def plain_field_def
      option_field_def csv_def)

section \<open>A concrete serialisation\<close>

fun demo_json :: "sval \<Rightarrow> json" where
  "demo_json (SBool b) = JBool b"
| "demo_json (SInt ty i) = JNum i"
| "demo_json (SStr s) = JStr s"
| "demo_json (SUnitVariant x) = JStr x"
| "demo_json (SSome v) = demo_json v"
| "demo_json v = JNull"

fun demo_of_json :: "sty \<Rightarrow> json \<Rightarrow> string + sval" where
  "demo_of_json TBool (JBool b) = Inr (SBool b)"
| "demo_of_json (TInt ty) (JNum i) = (if int_fits ty i then Inr (SInt ty i) else Inl ''range'')"
| "demo_of_json TStr (JStr s) = Inr (SStr s)"
| "demo_of_json (TEnum xs) (JStr x) = (if x \<in> set xs then Inr (SUnitVariant x) else Inl ''variant'')"
| "demo_of_json (TOption t) JNull = Inr SNone"
| "demo_of_json (TOption t) j = sum_bind (demo_of_json t j) (\<lambda>v. Inr (SSome v))"
| "demo_of_json t j = Inl ''type''"

definition demo_serde_env :: serde_env where
  "demo_serde_env = \<lparr>se_now = 0, se_format = (\<lambda>t. Some (show_int (t div 1000))),
     se_parse = (\<lambda>s. case parse_int I64 s of Some i \<Rightarrow> Inr (1000 * i) | None \<Rightarrow> Inl ''time''),
     se_error = (\<lambda>e. ''error''), se_json = demo_json, se_of_json = demo_of_json,
     se_kfv = (\<lambda>k. Inr (JStr (kfv_key k))),
     se_of_kfv = (\<lambda>j. case j of
        JObj [(key, JObj ob)] \<Rightarrow>
          Inr \<lparr>kfv_key = key, kfv_operation = KSet,
            kfv_field_values = map (\<lambda>(k, j). (k, case j of JStr s \<Rightarrow> s | _ \<Rightarrow> [])) ob\<rparr>
      | _ \<Rightarrow> Inl ''no kfv'')\<rparr>"

lemma demo_json_faithful: "json_faithful demo_serde_env"
proof -
  have "demo_of_json t (demo_json v) = Inr v" if "flat_ty t" "has_type t v" for t v
    using that
    by (cases "(t, v)" rule: has_type.cases)
      (auto simp: flat_ty_def split: sty.splits elim: has_type.elims)
  then show ?thesis by (simp add: json_faithful_def demo_serde_env_def)
qed

lemma demo_time_ok:
  assumes "int_fits I64 (t div 1000)"
  shows "time_ok demo_serde_env t"
  using assms parse_int_show_int [OF assms]
  by (simp add: time_ok_def demo_serde_env_def utf8_ascii minus_mod_eq_mult_div)

definition demo_vdpu_report :: vdpu_actor_state where
  "demo_vdpu_report = \<lparr>va_up = True, va_dpu = demo_dpu_report\<lparr>
     da_dpu_pmon_state := Some ((default_dpu_state 1500)\<lparr>ds_midplane_link_state := PmonUp\<rparr>),
     da_dpu_bfd_state := Some ((default_bfd_probe_state 2999)\<lparr>v4_bfd_up_sessions := [''10.0.0.1'', ''10.0.0.2'']\<rparr>)\<rparr>\<rparr>"

lemma demo_vdpu_report_ok: "dpu_report_ok demo_serde_env (va_dpu demo_vdpu_report)"
proof -
  have "struct_has_type dpu_actor_state_ty (dpu_actor_state_vals (va_dpu demo_vdpu_report))"
    by code_simp
  moreover have "dpu_state_ok demo_serde_env ((default_dpu_state 1500)\<lparr>ds_midplane_link_state := PmonUp\<rparr>)"
    by (simp add: dpu_state_ok_def default_dpu_state_def demo_time_ok int_fits_def)
  moreover have "bfd_state_ok demo_serde_env
      ((default_bfd_probe_state 2999)\<lparr>v4_bfd_up_sessions := [''10.0.0.1'', ''10.0.0.2'']\<rparr>)"
    by (simp add: bfd_state_ok_def default_bfd_probe_state_def demo_time_ok int_fits_def csv_ok_def utf8_ascii)
  ultimately show ?thesis by (simp add: dpu_report_ok_def demo_vdpu_report_def)
qed

theorem vdpu_report_arrives_witness:
  "\<exists>j. j_vdpu_actor_state (hamgrd_serde demo_serde_env) demo_vdpu_report = Inr j \<and>
    (\<exists>v'. of_j_vdpu_actor_state (hamgrd_serde demo_serde_env) j = Inr v' \<and> va_up v' \<and>
      da_dpu_bfd_state (va_dpu v') =
        Some ((default_bfd_probe_state 2000)\<lparr>v4_bfd_up_sessions := [''10.0.0.1'', ''10.0.0.2'']\<rparr>))"
  using vdpu_report_arrives [OF demo_json_faithful demo_vdpu_report_ok]
  by (auto simp: demo_vdpu_report_def whole_seconds_def whole_seconds_bfd_def default_bfd_probe_state_def)

theorem published_state_read_back_witness:
  "\<exists>f. fv_npu_scope_state (hamgrd_serde demo_serde_env) demo_npu1 = Inr f \<and>
    of_fv_npu_scope_state (hamgrd_serde demo_serde_env) (rev f) = Inr demo_npu1"
proof -
  have "row_ok npu_scope_state_ty (npu_scope_state_vals demo_npu1) (npu_scope_state_texts demo_npu1)"
    by code_simp
  from published_state_read_back [OF this, of demo_serde_env] show ?thesis by (metis mset_rev)
qed

definition demo_rows_env :: hamgrd_env where
  "demo_rows_env = demo_env\<lparr>env_serde := hamgrd_serde demo_serde_env\<rparr>"

definition demo_rows :: "dpu_actor hstate" where
  "demo_rows = demo_dpu_hstate\<lparr>tables := demo_tables
     [(''DPU_STATE'', JObj [(''DPU0'', JObj [(''dpu_midplane_link_state'', JStr ''up''),
         (''dpu_control_plane_state'', JStr ''up''), (''dpu_data_plane_state'', JStr ''up''),
         (''dpu_data_plane_time'', JStr ''17'')])]),
      (''DASH_BFD_PROBE_STATE'', JObj [(''dpu0'', JObj [(''v4_bfd_up_sessions'', JStr ''10.0.0.1,10.0.0.2'')])])]\<rparr>"

theorem dpu_up_from_rows_witness: "fst (calculate_dpu_state demo_rows_env demo_rows)"
proof -
  let ?f = "[(''dpu_midplane_link_state'', ''up''), (''dpu_control_plane_state'', ''up''), (''dpu_data_plane_state'', ''up''),
     (''dpu_data_plane_time'', ''17'')]"
  let ?g = "[(''v4_bfd_up_sessions'', ''10.0.0.1,10.0.0.2'')]"
  have r: "read_msg (se_of_kfv demo_serde_env) ''DPU_STATE'' demo_rows
      = Ok \<lparr>kfv_key = ''DPU0'', kfv_operation = KSet, kfv_field_values = ?f\<rparr>"
    "read_msg (se_of_kfv demo_serde_env) ''DASH_BFD_PROBE_STATE'' demo_rows
      = Ok \<lparr>kfv_key = ''dpu0'', kfv_operation = KSet, kfv_field_values = ?g\<rparr>"
    by (simp_all add: demo_rows_def demo_act_defs demo_serde_env_def)
  have d: "d_dpu (self demo_rows) = d_dpu (self demo_dpu_hstate)" by (simp add: demo_rows_def)
  have p: "parse_int I64 ''17'' = Some 17" by code_simp
  show ?thesis
    using dpu_up_from_rows [of demo_rows_env demo_serde_env demo_rows _ _ _ _ _ ?f _ ?g, OF _ _ r(1) _ r(2)] demo_dpu_self(1)
    by (simp add: demo_rows_env_def d row_utf8_def utf8_ascii ascii_lower_letters demo_serde_env_def p)
qed

end
