(* ===== verification/Swbus_Config_File.thy ===== *)
theory Swbus_Config_File
  imports Swbus_Config Swbus_Json
begin

text \<open>
  Configuration files of \<open>swbusd\<close>, and the tests of \<open>swbus-config\<close>. The derived code that reads a \<open>SwbusConfig\<close> from the
  value of a YAML document (\<open>json\<close> stands for such values, too), and \<open>populate_configdb_for_test\<close>, which writes a
  configuration database that is loaded again. The YAML parser and the parser of IPv6 addresses are parameters.
\<close>

section \<open>Reading a configuration file\<close>

text \<open>\<open>SocketAddr::from_str\<close>: an IPv4 address or an IPv6 address in brackets, a colon and a port.\<close>

definition parse_port :: "string \<Rightarrow> 16 word option" where
  "parse_port s =
     (if s = [] then None
      else case read_digits 0 s of Some n \<Rightarrow> if n < 65536 then Some (of_nat n) else None | None \<Rightarrow> None)"

definition socket_addr_of :: "(string \<Rightarrow> string option) \<Rightarrow> string \<Rightarrow> socket_addr option" where
  "socket_addr_of parse_ipv6 s =
     (let pieces = rev (split_on (CHR '':'') s); port = hd pieces; host = join_with (CHR '':'') (rev (tl pieces))
      in case parse_port port of
           None \<Rightarrow> None
         | Some p \<Rightarrow>
             (case parse_ipv4 host of
                Some ip \<Rightarrow> Some \<lparr>sock_ip = ip, sock_port = p\<rparr>
              | None \<Rightarrow>
                  if prefix ''['' host \<and> suffix '']'' host then
                    map_option (\<lambda>ip. \<lparr>sock_ip = ip, sock_port = p\<rparr>) (parse_ipv6 (butlast (tl host)))
                  else None))"

definition json_socket_addr :: "(string \<Rightarrow> string option) \<Rightarrow> json \<Rightarrow> socket_addr de" where
  "json_socket_addr parse_ipv6 j =
     bind_exec (json_str j) (\<lambda>s. case socket_addr_of parse_ipv6 s of Some a \<Rightarrow> Ok a | None \<Rightarrow> Err (DeVariant s))"

fun enum_value :: "(string \<times> 'a) list \<Rightarrow> json \<Rightarrow> 'a de" where
  "enum_value vs (JStr s) = (case map_of vs s of Some v \<Rightarrow> Ok v | None \<Rightarrow> Err (DeVariant s))"
| "enum_value vs j = Err DeType"

definition of_route_config_json :: "json \<Rightarrow> route_config de" where
  "of_route_config_json j =
     bind_exec (required ''key'' deserialize_service_path j) (\<lambda>k.
     bind_exec (required ''scope'' (enum_value [(''Client'', ScopeClient), (''Local'', ScopeLocal),
         (''Cluster'', ScopeCluster), (''Region'', ScopeRegion), (''Global'', ScopeGlobal)]) j) (\<lambda>sc.
       Ok \<lparr>rc_key = k, rc_scope = sc\<rparr>))"

definition of_peer_config_json :: "(string \<Rightarrow> string option) \<Rightarrow> json \<Rightarrow> peer_config de" where
  "of_peer_config_json parse_ipv6 j =
     bind_exec (required ''id'' deserialize_service_path j) (\<lambda>i.
     bind_exec (required ''endpoint'' (json_socket_addr parse_ipv6) j) (\<lambda>a.
     bind_exec (required ''conn_type'' (enum_value [(''Client'', ConnClient), (''Local'', ConnLocal),
         (''Cluster'', ConnCluster), (''Region'', ConnRegion), (''Global'', ConnGlobal)]) j) (\<lambda>ct.
       Ok \<lparr>pc_id = i, pc_endpoint = a, pc_conn_type = ct\<rparr>)))"

definition json_ip :: "(string \<Rightarrow> string option) \<Rightarrow> json \<Rightarrow> string de" where
  "json_ip parse j = bind_exec (json_str j) (\<lambda>s. case parse s of Some a \<Rightarrow> Ok a | None \<Rightarrow> Err (DeVariant s))"

definition of_swbus_config_json :: "(string \<Rightarrow> string option) \<Rightarrow> json \<Rightarrow> swbus_config de" where
  "of_swbus_config_json parse_ipv6 j =
     bind_exec (required ''endpoint'' (json_socket_addr parse_ipv6) j) (\<lambda>e.
     bind_exec (required ''routes'' (json_arr of_route_config_json) j) (\<lambda>rs.
     bind_exec (required ''peers'' (json_arr (of_peer_config_json parse_ipv6)) j) (\<lambda>ps.
     bind_exec (optional ''npu_ipv4'' (json_ip parse_ipv4) j) (\<lambda>v4.
     bind_exec (optional ''npu_ipv6'' (json_ip parse_ipv6) j) (\<lambda>v6.
       Ok \<lparr>cfg_endpoint = e, cfg_routes = rs, cfg_peers = ps, cfg_npu_ipv4 = v4, cfg_npu_ipv6 = v6\<rparr>)))))"

text \<open>The files of the tests: \<open>docs\<close> gives the value of the document in a file.\<close>

definition yaml_reader ::
    "(string \<Rightarrow> string option) \<Rightarrow> (string \<rightharpoonup> json) \<Rightarrow> string \<Rightarrow> (string + string) + swbus_config" where
  "yaml_reader parse_ipv6 docs file =
     (case docs file of
        None \<Rightarrow> Inl (Inl file)
      | Some j \<Rightarrow> (case of_swbus_config_json parse_ipv6 j of Ok c \<Rightarrow> Inr c | _ \<Rightarrow> Inl (Inr file)))"

definition yaml_route :: "string \<Rightarrow> json" where
  "yaml_route k = JObj [(''key'', JStr k), (''scope'', JStr ''Cluster'')]"

definition yaml_peer :: "string \<Rightarrow> string \<Rightarrow> json" where
  "yaml_peer i e = JObj [(''id'', JStr i), (''endpoint'', JStr e), (''conn_type'', JStr ''Cluster'')]"

definition parsed_path :: "string \<Rightarrow> service_path option" where
  "parsed_path s = (case (from_string s :: service_path result) of Ok p \<Rightarrow> Some p | _ \<Rightarrow> None)"

definition test_load_from_yaml :: "(string \<Rightarrow> string option) \<Rightarrow> bool" where
  "test_load_from_yaml parse_ipv6 \<longleftrightarrow>
     (let doc = JObj [(''endpoint'', JStr ''10.0.0.1:8000''),
            (''routes'', JArr [yaml_route ''region-a.cluster-a.10.0.0.1-dpu0'']),
            (''peers'', JArr [yaml_peer ''region-a.cluster-a.10.0.0.2-dpu0'' ''10.0.0.2:8000'',
               yaml_peer ''region-a.cluster-a.10.0.0.3-dpu0'' ''10.0.0.3:8000''])]
      in case swbus_config_from_yaml (yaml_reader parse_ipv6 [''test_config.yaml'' \<mapsto> doc]) ''test_config.yaml'' of
           Ok c \<Rightarrow>
             (case (cfg_routes c, cfg_peers c) of
                ([r], [p, q]) \<Rightarrow>
                  Some (rc_key r) = parsed_path ''region-a.cluster-a.10.0.0.1-dpu0'' \<and> rc_scope r = ScopeCluster \<and>
                  Some (pc_id p) = parsed_path ''region-a.cluster-a.10.0.0.2-dpu0'' \<and>
                  Some (pc_endpoint p) = socket_addr_of parse_ipv6 ''10.0.0.2:8000'' \<and> pc_conn_type p = ConnCluster \<and>
                  Some (pc_id q) = parsed_path ''region-a.cluster-a.10.0.0.3-dpu0'' \<and>
                  Some (pc_endpoint q) = socket_addr_of parse_ipv6 ''10.0.0.3:8000'' \<and> pc_conn_type q = ConnCluster
              | _ \<Rightarrow> False)
         | _ \<Rightarrow> False)"

lemma parse_ports [simp]:
  "parse_port ''8000'' = Some 8000" "parse_port ''23606'' = Some 23606" "parse_port ''23607'' = Some 23607"
proof -
  have "char_digit CHR ''0'' = Some 0" "char_digit CHR ''2'' = Some 2" "char_digit CHR ''3'' = Some 3"
    "char_digit CHR ''6'' = Some 6" "char_digit CHR ''7'' = Some 7" "char_digit CHR ''8'' = Some 8"
    by code_simp+
  then show "parse_port ''8000'' = Some 8000" "parse_port ''23606'' = Some 23606" "parse_port ''23607'' = Some 23607"
    by (simp_all add: parse_port_def)
qed

lemma ipv4_texts:
  "ipv4_text ''10.0.0.1''" "ipv4_text ''10.0.0.2''" "ipv4_text ''10.0.0.3''" "ipv4_text ''10.0.1.0''" "ipv4_text ''10.0.1.1''"
  "ipv4_text ''10.0.1.2''" "ipv4_text ''11.0.1.0''"
  by code_simp+

lemma yaml_addresses:
  "socket_addr_of v6 ''10.0.0.1:8000'' = Some \<lparr>sock_ip = ''10.0.0.1'', sock_port = 8000\<rparr>"
  "socket_addr_of v6 ''10.0.0.2:8000'' = Some \<lparr>sock_ip = ''10.0.0.2'', sock_port = 8000\<rparr>"
  "socket_addr_of v6 ''10.0.0.3:8000'' = Some \<lparr>sock_ip = ''10.0.0.3'', sock_port = 8000\<rparr>"
  by (simp_all add: socket_addr_of_def parse_ipv4_def ipv4_texts Let_def)

lemma test_load_from_yaml_passes: "test_load_from_yaml v6"
  by (simp add: test_load_from_yaml_def swbus_config_from_yaml_def yaml_reader_def of_swbus_config_json_def json_socket_addr_def
      yaml_addresses of_route_config_json_def of_peer_config_json_def yaml_route_def yaml_peer_def deserialize_service_path_def
      parsed_path_def from_string_def Let_def)

section \<open>A configuration database\<close>

text \<open>The tables of a database by name: entries by key, each a hash of texts.\<close>

type_synonym cfg_table = "(string \<times> (string \<times> string) list) list"

definition db_hset :: "cfg_table hset" where
  "db_hset t key k s = (None, AList.update key (AList.update k s (case map_of t key of Some f \<Rightarrow> f | None \<Rightarrow> [])) t)"

definition db_source :: "(string \<Rightarrow> string option) \<Rightarrow> (string \<Rightarrow> cfg_table) \<Rightarrow> config_source" where
  "db_source parse_ipv6 db = \<lparr>cs_connect = (\<lambda>n. None), cs_open = (\<lambda>t. None), cs_keys = (\<lambda>t. Ok (map fst (db t))),
     cs_hget = (\<lambda>t key k. Ok (Option.bind (map_of (db t) key) (\<lambda>f. map_of f k))), cs_ipv6 = parse_ipv6\<rparr>"

text \<open>\<open>to_table(&entry, &table, key).unwrap()\<close> and \<open>table.hset(key, "NULL", "NULL").unwrap()\<close>.\<close>

definition write_entry ::
    "string \<Rightarrow> struct_ty \<Rightarrow> sval list \<Rightarrow> string \<Rightarrow> (string \<Rightarrow> cfg_table) \<Rightarrow> (unit, string \<Rightarrow> cfg_table) exec" where
  "write_entry name st vs key db =
     (case to_table db_hset st vs (db name) key of (Ok _, t) \<Rightarrow> Ok (db(name := t)) | _ \<Rightarrow> Panic)"

definition write_null :: "string \<Rightarrow> string \<Rightarrow> (string \<Rightarrow> cfg_table) \<Rightarrow> string \<Rightarrow> cfg_table" where
  "write_null name key db = db(name := snd (db_hset (db name) key ''NULL'' ''NULL''))"

fun seq_exec :: "('a \<Rightarrow> ('e, 'a) exec) list \<Rightarrow> 'a \<Rightarrow> ('e, 'a) exec" where
  "seq_exec [] x = Ok x"
| "seq_exec (f # fs) x = bind_exec (f x) (seq_exec fs)"

definition test_dpu_entry :: "nat \<Rightarrow> (string \<Rightarrow> cfg_table) \<Rightarrow> (unit, string \<Rightarrow> cfg_table) exec" where
  "test_dpu_entry d = write_entry ''DPU'' dpu_entry_ty
     [SSome (SStr ''active''), SSome (SInt U16 (23606 + int d)), SInt U32 (int d)] (''dpu'' @ show_nat d)"

definition test_remote_dpu_entry :: "nat \<Rightarrow> nat \<Rightarrow> (string \<Rightarrow> cfg_table) \<Rightarrow> (unit, string \<Rightarrow> cfg_table) exec" where
  "test_remote_dpu_entry s d db =
     (let key = ''dpu'' @ show_nat s @ ''_'' @ show_nat d
      in bind_exec (write_entry ''REMOTE_DPU'' remote_dpu_entry_ty
           [SSome (SStr ''cluster''), SSome (SInt U16 (23606 + int d)), SInt U32 (int d),
            SSome (SStr (''10.0.1.'' @ show_nat s)), SSome (SStr (''2001:db8:1::'' @ show_nat s))] key db) (\<lambda>db1.
         if Option.bind (map_of (db1 ''REMOTE_DPU'') key) (\<lambda>f. map_of f ''type'') = Some ''cluster'' then Ok db1 else Panic))"

definition populate_configdb_for_test :: "(string \<Rightarrow> cfg_table) \<Rightarrow> (unit, string \<Rightarrow> cfg_table) exec" where
  "populate_configdb_for_test = seq_exec
     ([write_entry ''DEVICE_METADATA'' device_metadata_entry_ty
         [SSome (SStr ''region-a''), SSome (SStr ''cluster-a''), SSome (SStr ''SpineRouter''), SSome (SStr ''SmartSwitch'')]
         ''localhost'',
       Ok \<circ> write_null ''LOOPBACK_INTERFACE'' ''Loopback0|10.0.1.0/32'',
       Ok \<circ> write_null ''LOOPBACK_INTERFACE'' ''Loopback0|2001:db8:1::/128'',
       Ok \<circ> write_null ''LOOPBACK_INTERFACE'' ''Loopback1|11.0.1.0/32'',
       Ok \<circ> write_null ''LOOPBACK_INTERFACE'' ''Loopback1|2001:dd8:1::/128'']
      @ map test_dpu_entry [0..<2]
      @ concat (map (\<lambda>s. map (test_remote_dpu_entry s) [0..<2]) [1..<3]))"

definition cleanup_configdb_for_test :: "(string \<Rightarrow> cfg_table) \<Rightarrow> string \<Rightarrow> cfg_table" where
  "cleanup_configdb_for_test db =
     db(''DPU'' := fold AList.delete
       (map (\<lambda>d. ''dpu'' @ show_nat d) [0..<2]
        @ concat (map (\<lambda>s. map (\<lambda>d. ''dpu'' @ show_nat s @ ''_'' @ show_nat d) [0..<2]) [1..<3])) (db ''DPU''))"

lemma digit_chars:
  "digit_char 0 = CHR ''0''" "digit_char (Suc 0) = CHR ''1''" "digit_char 1 = CHR ''1''" "digit_char 2 = CHR ''2''"
  "digit_char (Suc (Suc 0)) = CHR ''2''" "digit_char 3 = CHR ''3''" "digit_char 6 = CHR ''6''" "digit_char 7 = CHR ''7''"
  by code_simp+

lemma show_numbers [simp]:
  "show_nat 0 = ''0''" "show_nat (Suc 0) = ''1''" "show_nat 1 = ''1''" "show_nat 2 = ''2''"
  "show_nat (Suc (Suc 0)) = ''2''" "show_nat 23606 = ''23606''" "show_nat 23607 = ''23607''"
  by (simp_all add: show_nat.simps digit_chars)

lemma written_numbers:
  "serialize_field_value (SInt U16 23606) = Ok ''23606''" "serialize_field_value (SInt U16 23607) = Ok ''23607''"
  "serialize_field_value (SInt U32 0) = Ok ''0''" "serialize_field_value (SInt U32 1) = Ok ''1''"
  by (simp_all add: show_int_def)

lemma alist_update_new:
  "map_of t k = None \<Longrightarrow> AList.update k v t = t @ [(k, v)]"
  "map_of t k = None \<Longrightarrow> AList.update k v (t @ [(k, u)]) = t @ [(k, v)]"
  by (induction t) (auto split: if_splits)

definition test_db :: "string \<Rightarrow> cfg_table" where
  "test_db = (\<lambda>_. [])
    (''DEVICE_METADATA'' := [(''localhost'', [(''region'', ''region-a''), (''cluster'', ''cluster-a''), (''type'', ''SpineRouter''),
       (''sub_type'', ''SmartSwitch'')])],
     ''LOOPBACK_INTERFACE'' := [(''Loopback0|10.0.1.0/32'', [(''NULL'', ''NULL'')]), (''Loopback0|2001:db8:1::/128'', [(''NULL'', ''NULL'')]),
       (''Loopback1|11.0.1.0/32'', [(''NULL'', ''NULL'')]), (''Loopback1|2001:dd8:1::/128'', [(''NULL'', ''NULL'')])],
     ''DPU'' := [(''dpu0'', [(''state'', ''active''), (''swbus_port'', ''23606''), (''dpu_id'', ''0'')]),
       (''dpu1'', [(''state'', ''active''), (''swbus_port'', ''23607''), (''dpu_id'', ''1'')])],
     ''REMOTE_DPU'' := map (\<lambda>(s, d, p). (''dpu'' @ s @ ''_'' @ d, [(''type'', ''cluster''), (''swbus_port'', p), (''dpu_id'', d),
         (''npu_ipv4'', ''10.0.1.'' @ s), (''npu_ipv6'', ''2001:db8:1::'' @ s)]))
       [(''1'', ''0'', ''23606''), (''1'', ''1'', ''23607''), (''2'', ''0'', ''23606''), (''2'', ''1'', ''23607'')])"

lemma test_dpu_written:
  "map_of (db ''DPU'') ''dpu0'' = None \<Longrightarrow> test_dpu_entry 0 db =
    Ok (db(''DPU'' := db ''DPU'' @ [(''dpu0'', [(''state'', ''active''), (''swbus_port'', ''23606''), (''dpu_id'', ''0'')])]))"
  "map_of (db ''DPU'') ''dpu1'' = None \<Longrightarrow> test_dpu_entry 1 db =
    Ok (db(''DPU'' := db ''DPU'' @ [(''dpu1'', [(''state'', ''active''), (''swbus_port'', ''23607''), (''dpu_id'', ''1'')])]))"
  by (simp_all add: test_dpu_entry_def write_entry_def to_table_def present_fields_def dpu_entry_ty_def plain_field_def
      db_hset_def alist_update_new map_add_def show_int_def)

lemma remote_entry_written:
  assumes "map_of (db ''REMOTE_DPU'') key = None"
  shows "write_entry ''REMOTE_DPU'' remote_dpu_entry_ty
    [SSome (SStr ''cluster''), SSome (SInt U16 (int p)), SInt U32 (int d), SSome (SStr v4addr), SSome (SStr v6addr)] key db =
    Ok (db(''REMOTE_DPU'' := db ''REMOTE_DPU'' @ [(key, [(''type'', ''cluster''),
      (''swbus_port'', show_nat p), (''dpu_id'', show_nat d), (''npu_ipv4'', v4addr), (''npu_ipv6'', v6addr)])]))"
  using assms
  by (simp add: write_entry_def to_table_def present_fields_def remote_dpu_entry_ty_def plain_field_def
      db_hset_def alist_update_new map_add_def show_int_def)

lemma test_remote_dpu_written:
  assumes "map_of (db ''REMOTE_DPU'') (''dpu'' @ show_nat s @ ''_'' @ show_nat d) = None"
  shows "test_remote_dpu_entry s d db =
    Ok (db(''REMOTE_DPU'' := db ''REMOTE_DPU'' @ [(''dpu'' @ show_nat s @ ''_'' @ show_nat d, [(''type'', ''cluster''),
      (''swbus_port'', show_nat (23606 + d)), (''dpu_id'', show_nat d),
      (''npu_ipv4'', ''10.0.1.'' @ show_nat s), (''npu_ipv6'', ''2001:db8:1::'' @ show_nat s)])]))"
proof -
  let ?key = "''dpu'' @ show_nat s @ ''_'' @ show_nat d"
  have p: "23606 + int d = int (23606 + d)" by simp
  note w = remote_entry_written [where db = db and key = ?key and p = "23606 + d" and d = d
      and v4addr = "''10.0.1.'' @ show_nat s" and v6addr = "''2001:db8:1::'' @ show_nat s", OF assms]
  show ?thesis
    unfolding test_remote_dpu_entry_def Let_def p w by (use assms in \<open>simp add: map_add_def\<close>)
qed

lemma populate_gives: "populate_configdb_for_test (\<lambda>_. []) = Ok test_db"
proof -
  let ?base = "(\<lambda>_. [])
    (''DEVICE_METADATA'' := [(''localhost'', [(''region'', ''region-a''), (''cluster'', ''cluster-a''), (''type'', ''SpineRouter''),
       (''sub_type'', ''SmartSwitch'')])])"
  have m: "write_entry ''DEVICE_METADATA'' device_metadata_entry_ty
      [SSome (SStr ''region-a''), SSome (SStr ''cluster-a''), SSome (SStr ''SpineRouter''), SSome (SStr ''SmartSwitch'')]
      ''localhost'' (\<lambda>_. []) = Ok ?base"
    by (simp add: write_entry_def to_table_def present_fields_def device_metadata_entry_ty_def plain_field_def db_hset_def)
  show ?thesis
    by (simp add: populate_configdb_for_test_def m write_null_def db_hset_def upt_rec test_dpu_written [simplified]
        test_remote_dpu_written test_db_def fun_upd_twist)
qed

text \<open>The expected configuration of the test, as a YAML document.\<close>

definition expected_yaml :: json where
  "expected_yaml = JObj [(''endpoint'', JStr ''10.0.1.0:23606''),
     (''routes'', JArr [yaml_route ''region-a.cluster-a.10.0.1.0-dpu0'', yaml_route ''region-a.cluster-a.2001:db8:1::-dpu0'']),
     (''peers'', JArr
       [yaml_peer ''region-a.cluster-a.10.0.1.0-dpu1'' ''10.0.1.0:23607'',
        yaml_peer ''region-a.cluster-a.2001:db8:1::-dpu1'' ''[2001:db8:1::]:23607'',
        yaml_peer ''region-a.cluster-a.10.0.1.1-dpu0'' ''10.0.1.1:23606'',
        yaml_peer ''region-a.cluster-a.2001:db8:1::1-dpu0'' ''[2001:db8:1::1]:23606'',
        yaml_peer ''region-a.cluster-a.10.0.1.1-dpu1'' ''10.0.1.1:23607'',
        yaml_peer ''region-a.cluster-a.2001:db8:1::1-dpu1'' ''[2001:db8:1::1]:23607'',
        yaml_peer ''region-a.cluster-a.10.0.1.2-dpu0'' ''10.0.1.2:23606'',
        yaml_peer ''region-a.cluster-a.2001:db8:1::2-dpu0'' ''[2001:db8:1::2]:23606'',
        yaml_peer ''region-a.cluster-a.10.0.1.2-dpu1'' ''10.0.1.2:23607'',
        yaml_peer ''region-a.cluster-a.2001:db8:1::2-dpu1'' ''[2001:db8:1::2]:23607''])]"

definition sorted_config :: "swbus_config \<Rightarrow> swbus_config" where
  "sorted_config c = c\<lparr>cfg_routes := sort_key (\<lambda>r. map str_key (sp_fields (rc_key r))) (cfg_routes c),
     cfg_peers := sort_key (\<lambda>p. map str_key (sp_fields (pc_id p))) (cfg_peers c)\<rparr>"

definition test_load_from_configdb :: "(string \<Rightarrow> string option) \<Rightarrow> bool" where
  "test_load_from_configdb parse_ipv6 \<longleftrightarrow>
     (case populate_configdb_for_test (\<lambda>_. []) of
        Ok db \<Rightarrow>
          (case (swbus_config_from_db (db_source parse_ipv6 db) 0,
                 swbus_config_from_yaml (yaml_reader parse_ipv6 [''test_config.yaml'' \<mapsto> expected_yaml]) ''test_config.yaml'') of
             (Ok c, Ok expected) \<Rightarrow>
               length (cfg_routes c) = 2 \<and> length (cfg_peers c) = 10 \<and>
               sorted_config c = sorted_config (expected\<lparr>cfg_npu_ipv4 := parse_ipv4 ''10.0.1.0'', cfg_npu_ipv6 := parse_ipv6 ''2001:db8:1::''\<rparr>)
           | _ \<Rightarrow> False)
      | _ \<Rightarrow> False)"

definition test_config :: swbus_config where
  "test_config =
     (let p = (\<lambda>ip d port. peer_of ''region-a'' ''cluster-a'' ip d port); r = (\<lambda>ip. \<lparr>rc_key = node_path ''region-a'' ''cluster-a'' ip 0, rc_scope = ScopeCluster\<rparr>)
      in \<lparr>cfg_endpoint = \<lparr>sock_ip = ''10.0.1.0'', sock_port = 23606\<rparr>, cfg_routes = [r ''10.0.1.0'', r ''2001:db8:1::''],
          cfg_peers = [p ''10.0.1.0'' 1 23607, p ''2001:db8:1::'' 1 23607, p ''10.0.1.1'' 0 23606, p ''2001:db8:1::1'' 0 23606,
            p ''10.0.1.1'' 1 23607, p ''2001:db8:1::1'' 1 23607, p ''10.0.1.2'' 0 23606, p ''2001:db8:1::2'' 0 23606,
            p ''10.0.1.2'' 1 23607, p ''2001:db8:1::2'' 1 23607],
          cfg_npu_ipv4 = Some ''10.0.1.0'', cfg_npu_ipv6 = Some ''2001:db8:1::''\<rparr>)"

lemma test_numbers:
  "parse_int U16 ''23606'' = Some 23606" "parse_int U16 ''23607'' = Some 23607" "parse_int U32 ''0'' = Some 0" "parse_int U32 ''1'' = Some 1"
  using parse_int_show_int [of U16 23606] parse_int_show_int [of U16 23607] parse_int_show_int [of U32 0] parse_int_show_int [of U32 1]
  by (simp_all add: show_int_def int_fits_def)

lemma test_utf8:
  "utf8_valid ''23606''" "utf8_valid ''23607''" "utf8_valid ''0''" "utf8_valid ''1''" "utf8_valid ''cluster''" "utf8_valid ''region-a''"
  "utf8_valid ''cluster-a''" "utf8_valid ''SpineRouter''" "utf8_valid ''SmartSwitch''" "utf8_valid ''active''" "utf8_valid ''10.0.1.1''"
  "utf8_valid ''10.0.1.2''" "utf8_valid ''2001:db8:1::1''" "utf8_valid ''2001:db8:1::2''"
  by (simp_all add: utf8_ascii)

lemma db_source_simps [simp]:
  "cs_connect (db_source v6 db) n = None" "cs_open (db_source v6 db) t = None" "cs_keys (db_source v6 db) t = Ok (map fst (db t))"
  "cs_hget (db_source v6 db) t key k = Ok (Option.bind (map_of (db t) key) (\<lambda>f. map_of f k))" "cs_ipv6 (db_source v6 db) = v6"
  by (simp_all add: db_source_def)

lemma test_db_entries:
  "from_table (cs_hget (db_source v6 test_db)) dpu_entry_ty ''DPU'' ''dpu0'' =
     Ok [SSome (SStr ''active''), SSome (SInt U16 23606), SInt U32 0]"
  "from_table (cs_hget (db_source v6 test_db)) dpu_entry_ty ''DPU'' ''dpu1'' =
     Ok [SSome (SStr ''active''), SSome (SInt U16 23607), SInt U32 1]"
  "from_table (cs_hget (db_source v6 test_db)) remote_dpu_entry_ty ''REMOTE_DPU'' ''dpu1_0'' =
     Ok [SSome (SStr ''cluster''), SSome (SInt U16 23606), SInt U32 0, SSome (SStr ''10.0.1.1''), SSome (SStr ''2001:db8:1::1'')]"
  "from_table (cs_hget (db_source v6 test_db)) remote_dpu_entry_ty ''REMOTE_DPU'' ''dpu1_1'' =
     Ok [SSome (SStr ''cluster''), SSome (SInt U16 23607), SInt U32 1, SSome (SStr ''10.0.1.1''), SSome (SStr ''2001:db8:1::1'')]"
  "from_table (cs_hget (db_source v6 test_db)) remote_dpu_entry_ty ''REMOTE_DPU'' ''dpu2_0'' =
     Ok [SSome (SStr ''cluster''), SSome (SInt U16 23606), SInt U32 0, SSome (SStr ''10.0.1.2''), SSome (SStr ''2001:db8:1::2'')]"
  "from_table (cs_hget (db_source v6 test_db)) remote_dpu_entry_ty ''REMOTE_DPU'' ''dpu2_1'' =
     Ok [SSome (SStr ''cluster''), SSome (SInt U16 23607), SInt U32 1, SSome (SStr ''10.0.1.2''), SSome (SStr ''2001:db8:1::2'')]"
  "from_table (cs_hget (db_source v6 test_db)) device_metadata_entry_ty ''DEVICE_METADATA'' ''localhost'' =
     Ok [SSome (SStr ''region-a''), SSome (SStr ''cluster-a''), SSome (SStr ''SpineRouter''), SSome (SStr ''SmartSwitch'')]"
  by (simp_all add: from_table_def table_field_def test_db_def plain_field_def
      dpu_entry_ty_def remote_dpu_entry_ty_def device_metadata_entry_ty_def parse_fv_def to_str_def
      fv_data_def test_numbers test_utf8)

lemma test_loopback:
  assumes "v6 ''2001:db8:1::'' = Some ''2001:db8:1::''"
  shows "get_loopback_address (db_source v6 test_db) 0 = Ok (Some ''10.0.1.0'', Some ''2001:db8:1::'')"
proof -
  have "\<not> ipv4_text ''2001:db8:1::''" by code_simp
  with assms show ?thesis
    by (simp add: get_loopback_address_def swss_err_def table_keys_def test_db_def remove_all.simps parse_ipv4_def
        ipv4_texts)
qed

lemma test_db_loads:
  assumes "v6 ''2001:db8:1::'' = Some ''2001:db8:1::''" "v6 ''2001:db8:1::1'' = Some ''2001:db8:1::1''"
    "v6 ''2001:db8:1::2'' = Some ''2001:db8:1::2''"
  shows "swbus_config_from_db (db_source v6 test_db) 0 = Ok test_config"
proof -
  have k: "map fst (test_db ''DPU'') = [''dpu0'', ''dpu1'']" "map fst (test_db ''REMOTE_DPU'') = [''dpu1_0'', ''dpu1_1'', ''dpu2_0'', ''dpu2_1'']"
    by (simp_all add: test_db_def)
  show ?thesis
    by (simp add: demo_load_defs get_device_info_def device_metadata_entry_of_def test_db_entries test_loopback assms k
        to_remote_dpu_def test_config_def ipv4_texts Let_def)
qed

lemma expected_addresses:
  assumes "v6 ''2001:db8:1::'' = Some ''2001:db8:1::''" "v6 ''2001:db8:1::1'' = Some ''2001:db8:1::1''"
    "v6 ''2001:db8:1::2'' = Some ''2001:db8:1::2''"
  shows "socket_addr_of v6 ''10.0.1.0:23606'' = Some \<lparr>sock_ip = ''10.0.1.0'', sock_port = 23606\<rparr>"
    "socket_addr_of v6 ''10.0.1.0:23607'' = Some \<lparr>sock_ip = ''10.0.1.0'', sock_port = 23607\<rparr>"
    "socket_addr_of v6 ''10.0.1.1:23606'' = Some \<lparr>sock_ip = ''10.0.1.1'', sock_port = 23606\<rparr>"
    "socket_addr_of v6 ''10.0.1.1:23607'' = Some \<lparr>sock_ip = ''10.0.1.1'', sock_port = 23607\<rparr>"
    "socket_addr_of v6 ''10.0.1.2:23606'' = Some \<lparr>sock_ip = ''10.0.1.2'', sock_port = 23606\<rparr>"
    "socket_addr_of v6 ''10.0.1.2:23607'' = Some \<lparr>sock_ip = ''10.0.1.2'', sock_port = 23607\<rparr>"
    "socket_addr_of v6 ''[2001:db8:1::]:23607'' = Some \<lparr>sock_ip = ''2001:db8:1::'', sock_port = 23607\<rparr>"
    "socket_addr_of v6 ''[2001:db8:1::1]:23606'' = Some \<lparr>sock_ip = ''2001:db8:1::1'', sock_port = 23606\<rparr>"
    "socket_addr_of v6 ''[2001:db8:1::1]:23607'' = Some \<lparr>sock_ip = ''2001:db8:1::1'', sock_port = 23607\<rparr>"
    "socket_addr_of v6 ''[2001:db8:1::2]:23606'' = Some \<lparr>sock_ip = ''2001:db8:1::2'', sock_port = 23606\<rparr>"
    "socket_addr_of v6 ''[2001:db8:1::2]:23607'' = Some \<lparr>sock_ip = ''2001:db8:1::2'', sock_port = 23607\<rparr>"
proof -
  have "\<not> ipv4_text ''[2001:db8:1::]''" "\<not> ipv4_text ''[2001:db8:1::1]''" "\<not> ipv4_text ''[2001:db8:1::2]''" by code_simp+
  note facts = this ipv4_texts assms
  show "socket_addr_of v6 ''10.0.1.0:23606'' = Some \<lparr>sock_ip = ''10.0.1.0'', sock_port = 23606\<rparr>"
    "socket_addr_of v6 ''10.0.1.0:23607'' = Some \<lparr>sock_ip = ''10.0.1.0'', sock_port = 23607\<rparr>"
    "socket_addr_of v6 ''10.0.1.1:23606'' = Some \<lparr>sock_ip = ''10.0.1.1'', sock_port = 23606\<rparr>"
    "socket_addr_of v6 ''10.0.1.1:23607'' = Some \<lparr>sock_ip = ''10.0.1.1'', sock_port = 23607\<rparr>"
    "socket_addr_of v6 ''10.0.1.2:23606'' = Some \<lparr>sock_ip = ''10.0.1.2'', sock_port = 23606\<rparr>"
    "socket_addr_of v6 ''10.0.1.2:23607'' = Some \<lparr>sock_ip = ''10.0.1.2'', sock_port = 23607\<rparr>"
    "socket_addr_of v6 ''[2001:db8:1::]:23607'' = Some \<lparr>sock_ip = ''2001:db8:1::'', sock_port = 23607\<rparr>"
    "socket_addr_of v6 ''[2001:db8:1::1]:23606'' = Some \<lparr>sock_ip = ''2001:db8:1::1'', sock_port = 23606\<rparr>"
    "socket_addr_of v6 ''[2001:db8:1::1]:23607'' = Some \<lparr>sock_ip = ''2001:db8:1::1'', sock_port = 23607\<rparr>"
    "socket_addr_of v6 ''[2001:db8:1::2]:23606'' = Some \<lparr>sock_ip = ''2001:db8:1::2'', sock_port = 23606\<rparr>"
    "socket_addr_of v6 ''[2001:db8:1::2]:23607'' = Some \<lparr>sock_ip = ''2001:db8:1::2'', sock_port = 23607\<rparr>"
    by (simp_all add: socket_addr_of_def parse_ipv4_def suffix_def facts Let_def)
qed

lemma expected_paths:
  "(from_string ''region-a.cluster-a.10.0.1.0-dpu0'' :: service_path de) = Ok (node_path ''region-a'' ''cluster-a'' ''10.0.1.0'' 0)"
  "(from_string ''region-a.cluster-a.2001:db8:1::-dpu0'' :: service_path de) = Ok (node_path ''region-a'' ''cluster-a'' ''2001:db8:1::'' 0)"
  "(from_string ''region-a.cluster-a.10.0.1.0-dpu1'' :: service_path de) = Ok (node_path ''region-a'' ''cluster-a'' ''10.0.1.0'' 1)"
  "(from_string ''region-a.cluster-a.2001:db8:1::-dpu1'' :: service_path de) = Ok (node_path ''region-a'' ''cluster-a'' ''2001:db8:1::'' 1)"
  "(from_string ''region-a.cluster-a.10.0.1.1-dpu0'' :: service_path de) = Ok (node_path ''region-a'' ''cluster-a'' ''10.0.1.1'' 0)"
  "(from_string ''region-a.cluster-a.2001:db8:1::1-dpu0'' :: service_path de) = Ok (node_path ''region-a'' ''cluster-a'' ''2001:db8:1::1'' 0)"
  "(from_string ''region-a.cluster-a.10.0.1.1-dpu1'' :: service_path de) = Ok (node_path ''region-a'' ''cluster-a'' ''10.0.1.1'' 1)"
  "(from_string ''region-a.cluster-a.2001:db8:1::1-dpu1'' :: service_path de) = Ok (node_path ''region-a'' ''cluster-a'' ''2001:db8:1::1'' 1)"
  "(from_string ''region-a.cluster-a.10.0.1.2-dpu0'' :: service_path de) = Ok (node_path ''region-a'' ''cluster-a'' ''10.0.1.2'' 0)"
  "(from_string ''region-a.cluster-a.2001:db8:1::2-dpu0'' :: service_path de) = Ok (node_path ''region-a'' ''cluster-a'' ''2001:db8:1::2'' 0)"
  "(from_string ''region-a.cluster-a.10.0.1.2-dpu1'' :: service_path de) = Ok (node_path ''region-a'' ''cluster-a'' ''10.0.1.2'' 1)"
  "(from_string ''region-a.cluster-a.2001:db8:1::2-dpu1'' :: service_path de) = Ok (node_path ''region-a'' ''cluster-a'' ''2001:db8:1::2'' 1)"
  by (simp_all add: from_string_def node_path_def node_name_def with_node_def Let_def eval_nat_numeral)

text \<open>
  The database that the test utilities write is loaded as the configuration that the test expects: the two own routes of
  slot 0, the other DPU of the chassis and the four remote ones as peers on both addresses, the same as the configuration
  file with these entries gives.
\<close>
theorem test_load_from_configdb_passes:
  assumes "parse_ipv6 ''2001:db8:1::'' = Some ''2001:db8:1::''" "parse_ipv6 ''2001:db8:1::1'' = Some ''2001:db8:1::1''"
    "parse_ipv6 ''2001:db8:1::2'' = Some ''2001:db8:1::2''"
  shows "test_load_from_configdb parse_ipv6"
proof -
  have "of_swbus_config_json parse_ipv6 expected_yaml = Ok (test_config\<lparr>cfg_npu_ipv4 := None, cfg_npu_ipv6 := None\<rparr>)"
    by (simp add: of_swbus_config_json_def expected_yaml_def json_socket_addr_def of_route_config_json_def of_peer_config_json_def
        yaml_route_def yaml_peer_def deserialize_service_path_def expected_paths expected_addresses [OF assms] test_config_def
        peer_of_def Let_def)
  moreover have "length (cfg_routes test_config) = 2" "length (cfg_peers test_config) = 10"
    "test_config\<lparr>cfg_npu_ipv4 := parse_ipv4 ''10.0.1.0'', cfg_npu_ipv6 := parse_ipv6 ''2001:db8:1::''\<rparr> = test_config"
    by (simp_all add: test_config_def parse_ipv4_def ipv4_texts assms Let_def)
  ultimately show ?thesis
    by (simp add: test_load_from_configdb_def populate_gives test_db_loads [OF assms] swbus_config_from_yaml_def
        yaml_reader_def Let_def)
qed

theorem test_load_from_configdb_passes_witness: "test_load_from_configdb Some"
  by (rule test_load_from_configdb_passes) simp_all

text \<open>The clean-up deletes the remote entries from the wrong table: they stay in \<open>REMOTE_DPU\<close>.\<close>

lemma cleanup_leaves_remote_dpus:
  "cleanup_configdb_for_test test_db ''DPU'' = []" "cleanup_configdb_for_test test_db ''REMOTE_DPU'' = test_db ''REMOTE_DPU''"
  by (simp_all add: cleanup_configdb_for_test_def test_db_def upt_rec)

end
