(* ===== verification/Hamgrd_Tests.thy ===== *)
theory Hamgrd_Tests
  imports Hamgrd_Serde Swbus_Config_File
begin

text \<open>
  The unit tests of \<open>hamgrd/src/db_structs.rs\<close> that read and write rows, run on the model. Each test is a definition with its
  assertions; what it assumes of the time format is a hypothesis of the run. \<open>se\<close> stands for \<open>chrono\<close> and \<open>serde_json\<close> and
  \<open>se_now\<close> for the time of the call, so that \<open>within a second of now\<close> is a bound on the difference to it.
\<close>

section \<open>DPU entries\<close>

definition test_deserialize_dpu :: "serde_env \<Rightarrow> bool" where
  "test_deserialize_dpu se \<longleftrightarrow>
     (case of_fv_dpu (hamgrd_serde se) [(''pa_ipv4'', ''1.2.3.4''), (''dpu_id'', ''1''), (''orchagent_zmq_port'', ''8100''),
         (''swbus_port'', ''23606''), (''midplane_ipv4'', ''127.0.0.1'')] of
        Inr d \<Rightarrow> dpu_pa_ipv4 d = ''1.2.3.4'' \<and> dpu_dpu_id d = 1
      | Inl _ \<Rightarrow> False)"

lemma dpu_numbers:
  "parse_int U16 ''8100'' = Some 8100" "parse_int U16 ''23612'' = Some 23612" "parse_int U16 ''23613'' = Some 23613"
  "parse_int U32 ''6'' = Some 6" "parse_int U32 ''7'' = Some 7"
proof -
  have d: "digit_char 4 = CHR ''4''" "digit_char 5 = CHR ''5''" "digit_char 8 = CHR ''8''" "digit_char 9 = CHR ''9''" by code_simp+
  have "show_nat 8100 = ''8100''" "show_nat 23612 = ''23612''" "show_nat 23613 = ''23613''" "show_nat 6 = ''6''" "show_nat 7 = ''7''"
    by (simp_all add: show_nat.simps digit_chars d)
  then show "parse_int U16 ''8100'' = Some 8100" "parse_int U16 ''23612'' = Some 23612" "parse_int U16 ''23613'' = Some 23613"
    "parse_int U32 ''6'' = Some 6" "parse_int U32 ''7'' = Some 7"
    using parse_int_show_int [of U16 8100] parse_int_show_int [of U16 23612] parse_int_show_int [of U16 23613]
      parse_int_show_int [of U32 6] parse_int_show_int [of U32 7]
    by (simp_all add: show_int_def int_fits_def)
qed

lemmas row_defs = from_field_values_def take_field_def missing_field_def option_field_def plain_field_def parse_fv_def to_str_def
  fv_data_def

lemma test_deserialize_dpu_passes: "test_deserialize_dpu se"
  by (simp add: test_deserialize_dpu_def hamgrd_serde_def of_row_def dpu_ty_def row_defs dpu_numbers test_numbers utf8_ascii dpu_of_def)

text \<open>The table that \<open>populate_configdb_for_test\<close> writes: the entries of the slots 6 and 7.\<close>

definition test_dpu_fvs :: "string \<Rightarrow> string \<Rightarrow> (string \<times> string) list" where
  "test_dpu_fvs d port = [(''pa_ipv4'', ''1.2.3.'' @ d), (''vip_ipv4'', ''4.5.6.'' @ d), (''dpu_id'', d),
     (''orchagent_zmq_port'', ''8100''), (''swbus_port'', port), (''midplane_ipv4'', ''169.254.1.'' @ d), (''vdpu_id'', ''vpdu'' @ d)]"

definition populate_dpu_table :: "string \<Rightarrow> cfg_table" where
  "populate_dpu_table = (\<lambda>_. [])(''DPU'' := map (\<lambda>d. (show_nat d, test_dpu_fvs (show_nat d) (show_nat (23606 + d)))) [6..<8])"

definition test_get_dpu_config_from_db :: "(string \<Rightarrow> string option) \<Rightarrow> bool" where
  "test_get_dpu_config_from_db parse_ipv6 \<longleftrightarrow>
     get_dpu_config_from_db (db_source parse_ipv6 populate_dpu_table) 6 =
       Ok \<lparr>dpu_state_field = None, dpu_vip_ipv4 = Some ''4.5.6.6'', dpu_vip_ipv6 = None, dpu_pa_ipv4 = ''1.2.3.6'', dpu_pa_ipv6 = None,
           dpu_dpu_id = 6, dpu_vdpu_id = Some ''vpdu6'', dpu_orchagent_zmq_port = 8100, dpu_swbus_port = 23612,
           dpu_midplane_ipv4 = ''169.254.1.6''\<rparr>"

lemma test_get_dpu_config_from_db_passes: "test_get_dpu_config_from_db v6"
proof -
  have d: "digit_char 4 = CHR ''4''" "digit_char 5 = CHR ''5''" "digit_char 8 = CHR ''8''" "digit_char 9 = CHR ''9''" by code_simp+
  have "show_nat 23612 = ''23612''" "show_nat 23613 = ''23613''" "show_nat 6 = ''6''" "show_nat 7 = ''7''"
    by (simp_all add: show_nat.simps digit_chars d)
  then have t: "populate_dpu_table ''DPU'' = [(''6'', test_dpu_fvs ''6'' ''23612''), (''7'', test_dpu_fvs ''7'' ''23613'')]"
    by (simp add: populate_dpu_table_def upt_rec)
  show ?thesis
    by (simp add: test_get_dpu_config_from_db_def get_dpu_config_from_db_def t from_table_def table_field_def dpu_ty_def test_dpu_fvs_def
        row_defs dpu_numbers utf8_ascii dpu_of_def)
qed

section \<open>Tunnel routes\<close>

definition test_serde_vnet_route_tunnel :: "serde_env \<Rightarrow> bool" where
  "test_serde_vnet_route_tunnel se \<longleftrightarrow>
     (case from_field_values vnet_route_ty [(''endpoint'', ''1.2.3.4,2.2.3.4''), (''endpoint_monitor'', ''1.2.3.5,2.2.3.5'')] of
        Ok vs \<Rightarrow>
          (let vnet = vnet_route_of_vals vs
           in vr_endpoint vnet = [''1.2.3.4'', ''2.2.3.4''] \<and> vr_endpoint_monitor vnet = Some [''1.2.3.5'', ''2.2.3.5''] \<and>
              vr_monitoring vnet = None \<and>
              (case fv_vnet_route (hamgrd_serde se) vnet of
                 Inr row \<Rightarrow> map_of row ''endpoint'' = Some ''1.2.3.4,2.2.3.4'' \<and>
                   map_of row ''endpoint_monitor'' = Some ''1.2.3.5,2.2.3.5'' \<and> map_of row ''monitoring'' = None
               | Inl _ \<Rightarrow> False))
      | _ \<Rightarrow> False)"

lemma test_serde_vnet_route_tunnel_passes: "test_serde_vnet_route_tunnel se"
  by (simp add: test_serde_vnet_route_tunnel_def vnet_route_ty_def row_defs utf8_ascii vnet_route_of_vals_def as_csv_def split_csv_def
      hamgrd_serde_def row_of_def to_field_values_def present_fields_def vnet_route_vals_def csv_def Let_def)

section \<open>States with times\<close>

definition time1 :: string where "time1 = ''Mon Jun 10 03:15:42 PM UTC 2024''"
definition time2 :: string where "time2 = ''Tue Jun 11 09:30:15 AM UTC 2024''"
definition time3 :: string where "time3 = ''Wed Jun 12 11:45:30 PM UTC 2024''"

definition near_now :: "serde_env \<Rightarrow> int \<Rightarrow> bool" where
  "near_now se t \<longleftrightarrow> \<bar>t - se_now se\<bar> < 1000"

definition test_deserialize_dpu_state :: "serde_env \<Rightarrow> bool" where
  "test_deserialize_dpu_state se \<longleftrightarrow>
     (case of_fv_dpu_state (hamgrd_serde se) [(''dpu_midplane_link_state'', ''up''), (''dpu_midplane_link_time'', time1),
         (''dpu_control_plane_state'', ''down''), (''dpu_control_plane_time'', time2),
         (''dpu_data_plane_state'', ''unknown''), (''dpu_data_plane_time'', time3)] of
        Inr d \<Rightarrow> ds_midplane_link_state d = PmonUp \<and> ds_control_plane_state d = PmonDown \<and> ds_data_plane_state d = PmonUnknown \<and>
          ds_midplane_link_time d > 0 \<and> ds_control_plane_time d > 0 \<and> ds_data_plane_time d > 0
      | Inl _ \<Rightarrow> False)"

definition test_dpu_state_default_values :: "serde_env \<Rightarrow> bool" where
  "test_dpu_state_default_values se \<longleftrightarrow>
     (case of_fv_dpu_state (hamgrd_serde se) [(''dpu_midplane_link_state'', ''up''), (''dpu_midplane_link_time'', time1)] of
        Inr d \<Rightarrow> ds_midplane_link_state d = PmonUp \<and> ds_control_plane_state d = PmonUnknown \<and> ds_data_plane_state d = PmonUnknown \<and>
          ds_midplane_link_time d > 0 \<and> near_now se (ds_control_plane_time d) \<and> near_now se (ds_data_plane_time d)
      | Inl _ \<Rightarrow> False)"

definition test_timestamp_roundtrip :: "serde_env \<Rightarrow> bool" where
  "test_timestamp_roundtrip se \<longleftrightarrow>
     (case timestamp_serialize se 1718053542000 of
        Inr v \<Rightarrow> timestamp_deserialize se v = Inr 1718053542000
      | Inl _ \<Rightarrow> False)"

definition test_deserialize_dash_bfd_probe_state :: "serde_env \<Rightarrow> bool" where
  "test_deserialize_dash_bfd_probe_state se \<longleftrightarrow>
     (case of_fv_bfd_probe_state (hamgrd_serde se) [(''v4_bfd_up_sessions'', ''10.0.1.1,10.0.1.2,10.0.1.3''),
         (''v4_bfd_up_sessions_timestamp'', time1), (''v6_bfd_up_sessions'', ''2001:db8::1,2001:db8::2''),
         (''v6_bfd_up_sessions_timestamp'', time2)] of
        Inr b \<Rightarrow> v4_bfd_up_sessions b = [''10.0.1.1'', ''10.0.1.2'', ''10.0.1.3''] \<and>
          v6_bfd_up_sessions b = [''2001:db8::1'', ''2001:db8::2''] \<and>
          v4_bfd_up_sessions_timestamp b > 0 \<and> v6_bfd_up_sessions_timestamp b > 0
      | Inl _ \<Rightarrow> False)"

definition test_dash_bfd_probe_state_empty_sessions :: "serde_env \<Rightarrow> bool" where
  "test_dash_bfd_probe_state_empty_sessions se \<longleftrightarrow>
     (case of_fv_bfd_probe_state (hamgrd_serde se) [(''v4_bfd_up_sessions'', ''''), (''v6_bfd_up_sessions'', '''')] of
        Inr b \<Rightarrow> v4_bfd_up_sessions b = [] \<and> v6_bfd_up_sessions b = [] \<and>
          near_now se (v4_bfd_up_sessions_timestamp b) \<and> near_now se (v6_bfd_up_sessions_timestamp b)
      | Inl _ \<Rightarrow> False)"

definition test_dash_bfd_probe_state_partial_data :: "serde_env \<Rightarrow> bool" where
  "test_dash_bfd_probe_state_partial_data se \<longleftrightarrow>
     (case of_fv_bfd_probe_state (hamgrd_serde se) [(''v4_bfd_up_sessions'', ''10.1.1.1,10.1.1.2''),
         (''v4_bfd_up_sessions_timestamp'', time1)] of
        Inr b \<Rightarrow> v4_bfd_up_sessions b = [''10.1.1.1'', ''10.1.1.2''] \<and> v6_bfd_up_sessions b = [] \<and>
          v4_bfd_up_sessions_timestamp b > 0 \<and> near_now se (v6_bfd_up_sessions_timestamp b)
      | Inl _ \<Rightarrow> False)"

lemma dpu_state_row:
  "from_field_values dpu_state_ty [(''dpu_midplane_link_state'', ''up''), (''dpu_midplane_link_time'', time1),
      (''dpu_control_plane_state'', ''down''), (''dpu_control_plane_time'', time2),
      (''dpu_data_plane_state'', ''unknown''), (''dpu_data_plane_time'', time3)]
    = Ok [SUnitVariant ''up'', SSome (SStr time1), SUnitVariant ''down'', SSome (SStr time2), SUnitVariant ''unknown'', SSome (SStr time3)]"
  "from_field_values dpu_state_ty [(''dpu_midplane_link_state'', ''up''), (''dpu_midplane_link_time'', time1)]
    = Ok [SUnitVariant ''up'', SSome (SStr time1), SUnitVariant ''unknown'', SNone, SUnitVariant ''unknown'', SNone]"
  by code_simp+

lemma bfd_state_row:
  "from_field_values bfd_probe_state_ty [(''v4_bfd_up_sessions'', ''10.0.1.1,10.0.1.2,10.0.1.3''),
      (''v4_bfd_up_sessions_timestamp'', time1), (''v6_bfd_up_sessions'', ''2001:db8::1,2001:db8::2''),
      (''v6_bfd_up_sessions_timestamp'', time2)]
    = Ok [SStr ''10.0.1.1,10.0.1.2,10.0.1.3'', SSome (SStr time1), SStr ''2001:db8::1,2001:db8::2'', SSome (SStr time2)]"
  "from_field_values bfd_probe_state_ty [(''v4_bfd_up_sessions'', ''''), (''v6_bfd_up_sessions'', '''')]
    = Ok [SStr '''', SNone, SStr '''', SNone]"
  "from_field_values bfd_probe_state_ty [(''v4_bfd_up_sessions'', ''10.1.1.1,10.1.1.2''), (''v4_bfd_up_sessions_timestamp'', time1)]
    = Ok [SStr ''10.1.1.1,10.1.1.2'', SSome (SStr time1), SStr '''', SNone]"
  by code_simp+

text \<open>
  The tests of the rows with times pass for every time format that reads the three texts of the tests as positive numbers and
  reads the time of the round trip back as it was written.
\<close>

theorem time_tests_pass:
  assumes "\<exists>t1 > 0. se_parse se time1 = Inr t1" "\<exists>t2 > 0. se_parse se time2 = Inr t2" "\<exists>t3 > 0. se_parse se time3 = Inr t3"
    and "\<exists>s. se_format se 1718053542000 = Some s \<and> se_parse se s = Inr 1718053542000"
  shows "test_deserialize_dpu_state se \<and> test_dpu_state_default_values se \<and> test_timestamp_roundtrip se \<and>
    test_deserialize_dash_bfd_probe_state se \<and> test_dash_bfd_probe_state_empty_sessions se \<and> test_dash_bfd_probe_state_partial_data se"
proof -
  note defs = hamgrd_serde_def of_row_def dpu_state_of_def bfd_probe_state_of_def timestamp_deserialize_def as_pmon_def as_csv_def
    split_csv_def near_now_def
  have "test_deserialize_dpu_state se" "test_dpu_state_default_values se"
    using assms(1-3) by (auto simp: test_deserialize_dpu_state_def test_dpu_state_default_values_def dpu_state_row defs)
  moreover have "test_deserialize_dash_bfd_probe_state se" "test_dash_bfd_probe_state_empty_sessions se"
    "test_dash_bfd_probe_state_partial_data se"
    using assms(1,2) by (auto simp: test_deserialize_dash_bfd_probe_state_def test_dash_bfd_probe_state_empty_sessions_def
        test_dash_bfd_probe_state_partial_data_def bfd_state_row defs)
  moreover have "test_timestamp_roundtrip se"
    using assms(4) by (auto simp: test_timestamp_roundtrip_def timestamp_serialize_def timestamp_deserialize_def)
  ultimately show ?thesis by blast
qed

definition test_serde_env :: serde_env where
  "test_serde_env = demo_serde_env\<lparr>se_format := (\<lambda>t. Some time1),
     se_parse := (\<lambda>s. if s = time1 then Inr 1718053542000 else if s = time2 then Inr 1718096215000
       else if s = time3 then Inr 1718231130000 else Inl s)\<rparr>"

lemma time_tests_pass_somewhere: "test_deserialize_dpu_state test_serde_env \<and> test_timestamp_roundtrip test_serde_env"
  using time_tests_pass [of test_serde_env] by (simp add: test_serde_env_def time1_def time2_def time3_def)

end
