(* ===== verification/Hamgrd_Runtime.thy ===== *)
theory Hamgrd_Runtime
  imports Hamgrd_Main
begin

text \<open>
  The runtime that hamgrd sets up before it starts bridges and actors: the edge runtime with its message router and
  the data of the process attached to it (\<open>swbus-edge/src/edge_runtime.rs\<close>, \<open>message_router.rs\<close>, \<open>RuntimeEnv\<close> in
  \<open>lib.rs\<close>), the process-wide actor runtime (\<open>swbus-actor/src/runtime.rs\<close>) and the getters the actors call
  (\<open>get_slot_id\<close>, \<open>get_npu_ipv4\<close>, \<open>get_npu_ipv6\<close> in \<open>hamgrd/src/main.rs\<close>). Every \<open>unwrap\<close>, \<open>expect\<close> and contract
  check of this code is a \<open>Panic\<close> of the model.
\<close>

section \<open>Starting the router\<close>

text \<open>
  The core client (its connect task is \<open>core_connect\<close> and \<open>connect_loop\<close>) and the router that owns it. \<open>start\<close> takes the two
  receivers and the client out of their fields: \<open>mr_task\<close> is the client the running task owns.
\<close>

record core_client =
  cc_uri :: string
  cc_sp :: service_path
  cc_connecting :: bool

record message_router =
  mr_client :: "core_client option"
  mr_local_rx :: bool
  mr_remote_rx :: bool
  mr_task :: "core_client option"

definition new_core_client :: "string \<Rightarrow> service_path \<Rightarrow> core_client" where
  "new_core_client uri sp = \<lparr>cc_uri = uri, cc_sp = sp, cc_connecting = False\<rparr>"

definition core_client_start :: "core_client \<Rightarrow> core_client outcome" where
  "core_client_start c = (if cc_connecting c then Panic else Ok (c\<lparr>cc_connecting := True\<rparr>))"

definition new_message_router :: "core_client \<Rightarrow> message_router" where
  "new_message_router c = \<lparr>mr_client = Some c, mr_local_rx = True, mr_remote_rx = True, mr_task = None\<rparr>"

definition message_router_start :: "message_router \<Rightarrow> message_router outcome" where
  "message_router_start r =
     (if mr_local_rx r \<and> mr_remote_rx r
      then case mr_client r of
             None \<Rightarrow> Panic
           | Some c \<Rightarrow>
               bind_exec (core_client_start c) (\<lambda>c1.
                 Ok \<lparr>mr_client = None, mr_local_rx = False, mr_remote_rx = False, mr_task = Some c1\<rparr>)
      else Panic)"

section \<open>The edge runtime and the data attached to it\<close>

record runtime_data =
  rt_dpu_id :: u32
  rt_npu_ipv4 :: "string option"
  rt_npu_ipv6 :: "string option"

text \<open>A boxed \<open>dyn RuntimeEnv\<close>: the process's own data, or a value of another type (by its name).\<close>

datatype runtime_env = IsRuntimeData runtime_data | IsOther string

record edge_runtime =
  er_uri :: string
  er_edge :: edge
  er_router :: message_router
  er_env :: "runtime_env option"

definition new_runtime_data :: "u32 \<Rightarrow> string option \<Rightarrow> string option \<Rightarrow> runtime_data" where
  "new_runtime_data slot v4 v6 = \<lparr>rt_dpu_id = slot, rt_npu_ipv4 = v4, rt_npu_ipv6 = v6\<rparr>"

definition new_edge_runtime :: "string \<Rightarrow> service_path \<Rightarrow> edge_runtime" where
  "new_edge_runtime uri sp =
     \<lparr>er_uri = uri, er_edge = new_edge sp, er_router = new_message_router (new_core_client uri sp), er_env = None\<rparr>"

definition edge_runtime_start :: "edge_runtime \<Rightarrow> edge_runtime outcome" where
  "edge_runtime_start er = bind_exec (message_router_start (er_router er)) (\<lambda>r. Ok (er\<lparr>er_router := r\<rparr>))"

definition set_runtime_env :: "edge_runtime \<Rightarrow> runtime_env \<Rightarrow> edge_runtime" where
  "set_runtime_env er v = (case er_env er of None \<Rightarrow> er\<lparr>er_env := Some v\<rparr> | Some _ \<Rightarrow> er)"

text \<open>The \<open>unwrap\<close> of the attached data and of its \<open>downcast_ref::<RuntimeData>\<close>, which the three getters share.\<close>

fun downcast_runtime_data :: "runtime_env option \<Rightarrow> runtime_data outcome" where
  "downcast_runtime_data (Some (IsRuntimeData d)) = Ok d"
| "downcast_runtime_data (Some (IsOther _)) = Panic"
| "downcast_runtime_data None = Panic"

definition get_slot_id :: "edge_runtime \<Rightarrow> u32 outcome" where
  "get_slot_id er = bind_exec (downcast_runtime_data (er_env er)) (\<lambda>d. Ok (rt_dpu_id d))"

definition get_npu_ipv4 :: "edge_runtime \<Rightarrow> string option outcome" where
  "get_npu_ipv4 er = bind_exec (downcast_runtime_data (er_env er)) (\<lambda>d. Ok (rt_npu_ipv4 d))"

definition get_npu_ipv6 :: "edge_runtime \<Rightarrow> string option outcome" where
  "get_npu_ipv6 er = bind_exec (downcast_runtime_data (er_env er)) (\<lambda>d. Ok (rt_npu_ipv6 d))"

section \<open>The global actor runtime\<close>

record actor_runtime =
  ar_swbus_edge :: edge_runtime

definition new_actor_runtime :: "edge_runtime \<Rightarrow> actor_runtime" where
  "new_actor_runtime er = \<lparr>ar_swbus_edge = er\<rparr>"

text \<open>\<open>GLOBAL_RUNTIME\<close> is the argument and the result of what reads and writes it.\<close>

definition set_global_runtime :: "actor_runtime \<Rightarrow> actor_runtime option \<Rightarrow> actor_runtime option" where
  "set_global_runtime rt g = Some rt"

definition set_global_runtime_if_unset :: "actor_runtime \<Rightarrow> actor_runtime option \<Rightarrow> actor_runtime option" where
  "set_global_runtime_if_unset rt g = (case g of None \<Rightarrow> Some rt | Some _ \<Rightarrow> g)"

text \<open>\<open>spawn\<close> of the crate; the edge behind the runtime is shared, so the new handler is seen through the global.\<close>

definition global_spawn ::
    "actor_runtime option \<Rightarrow> string \<Rightarrow> string \<Rightarrow> u64 \<Rightarrow> nat \<Rightarrow> (actor_runtime option \<times> simple_client) outcome" where
  "global_spawn g rt ri t hdl =
     (case g of
        None \<Rightarrow> Panic
      | Some r \<Rightarrow>
          (let er = ar_swbus_edge r; (e, c) = spawn_actor (er_edge er) rt ri t hdl
           in Ok (Some (r\<lparr>ar_swbus_edge := er\<lparr>er_edge := e\<rparr>\<rparr>), c)))"

section \<open>The setup of the process\<close>

text \<open>\<open>main\<close> from the construction of the runtime data to \<open>set_global_runtime\<close>.\<close>

definition setup_runtime :: "u32 \<Rightarrow> swbus_config \<Rightarrow> service_path \<Rightarrow> actor_runtime option outcome" where
  "setup_runtime slot c sp =
     (let d = new_runtime_data slot (cfg_npu_ipv4 c) (cfg_npu_ipv6 c);
          er = set_runtime_env (new_edge_runtime (''http://'' @ show_socket_addr (cfg_endpoint c)) sp) (IsRuntimeData d)
      in bind_exec (unwrap_exec (edge_runtime_start er)) (\<lambda>er1. Ok (set_global_runtime (new_actor_runtime er1) None)))"

text \<open>
  What the rest of the process does to the global: actors are spawned, a test or a library may try to set the runtime
  again or to attach other data, and handlers and channels of the shared edge change (\<open>edge_moves\<close>).
\<close>

inductive global_step :: "actor_runtime option \<Rightarrow> actor_runtime option \<Rightarrow> bool" where
  step_spawn: "global_spawn g rt ri t hdl = Ok (g', c) \<Longrightarrow> global_step g g'"
| step_if_unset: "global_step g (set_global_runtime_if_unset rt g)"
| step_env: "global_step (Some r) (Some (r\<lparr>ar_swbus_edge := set_runtime_env (ar_swbus_edge r) v\<rparr>))"
| edge_moves: "base_sp e = base_sp (er_edge (ar_swbus_edge r)) \<Longrightarrow>
    global_step (Some r) (Some (r\<lparr>ar_swbus_edge := (ar_swbus_edge r)\<lparr>er_edge := e\<rparr>\<rparr>))"

definition global_inv :: "u32 \<Rightarrow> swbus_config \<Rightarrow> service_path \<Rightarrow> actor_runtime option \<Rightarrow> bool" where
  "global_inv slot c sp g \<longleftrightarrow>
     (\<exists>r. g = Some r \<and>
        er_env (ar_swbus_edge r) = Some (IsRuntimeData (new_runtime_data slot (cfg_npu_ipv4 c) (cfg_npu_ipv6 c))) \<and>
        base_sp (er_edge (ar_swbus_edge r)) = sp)"

lemma router_starts_once:
  assumes "message_router_start r = Ok r'"
  shows "message_router_start r' = Panic"
  using assms
  by (auto simp: message_router_start_def bind_exec_Ok_iff split: if_splits option.splits)

lemma setup_runtime_Ok:
  "\<exists>g. setup_runtime slot c sp = Ok g \<and> global_inv slot c sp g"
  by (simp add: setup_runtime_def Let_def edge_runtime_start_def set_runtime_env_def new_edge_runtime_def new_message_router_def
      message_router_start_def core_client_start_def new_core_client_def set_global_runtime_def global_inv_def new_actor_runtime_def
      new_edge_def)

lemma spawn_actor_base [simp]: "base_sp (fst (spawn_actor e rt ri t hdl)) = base_sp e"
  using new_simple_client_edge [OF prod.collapse [symmetric], of e "new_sp e rt ri" True False t hdl]
  by (simp add: spawn_actor_def)

lemma global_inv_step:
  assumes "global_step g g'" "global_inv slot c sp g"
  shows "global_inv slot c sp g'"
  using assms
proof (induction rule: global_step.induct)
  case (step_spawn g rt ri t hdl g' cl)
  then show ?case
    using spawn_actor_base
    by (auto simp: global_inv_def global_spawn_def Let_def split: prod.splits) (metis fst_conv spawn_actor_base)
qed (auto simp: global_inv_def set_global_runtime_if_unset_def set_runtime_env_def)

lemma global_inv_steps: "global_step\<^sup>*\<^sup>* g g' \<Longrightarrow> global_inv slot c sp g \<Longrightarrow> global_inv slot c sp g'"
  by (induction rule: rtranclp_induct) (simp_all add: global_inv_step)

section \<open>Properties\<close>

lemma hamgrd_main_env:
  assumes "hamgrd_main pe slot t0 = Ok p"
  shows "\<exists>c. swbus_config_from_db (pe_config pe) slot = Ok c \<and> p_env p = (slot, cfg_npu_ipv4 c, cfg_npu_ipv6 c)"
proof -
  from assms obtain c sp0 where
    c: "swbus_config_from_db (pe_config pe) slot = Ok c" "get_swbusd_service_path c = Some sp0"
    by (auto simp: hamgrd_main_def Let_def split: exec.splits option.splits)
  with assms have "p_env p = (slot, cfg_npu_ipv4 c, cfg_npu_ipv6 c)"
    by (auto simp: hamgrd_main_def Let_def bind_exec_Ok_iff case_prod_beta simp del: split_paired_Ex)
  with c show ?thesis by blast
qed

text \<open>
  The runtime data of a started process stays what \<open>main\<close> attached: the setup of the runtime never fails, and after any
  number of spawned actors, further attempts to attach data or to set the global runtime, and moves of the edge, no
  getter panics, the three getters return the slot of the command line and the addresses of the configuration, and an
  actor can be spawned at the path of its kind and id below the process's own path.
\<close>

theorem runtime_data_stays:
  assumes "hamgrd_main pe slot t0 = Ok p"
  shows "\<exists>c g. swbus_config_from_db (pe_config pe) slot = Ok c \<and> setup_runtime slot c (base_sp (p_edge p)) = Ok g \<and>
    (\<forall>g'. global_step\<^sup>*\<^sup>* g g' \<longrightarrow>
       (\<exists>r v4 v6. g' = Some r \<and> p_env p = (slot, v4, v6) \<and> get_slot_id (ar_swbus_edge r) = Ok slot \<and>
          get_npu_ipv4 (ar_swbus_edge r) = Ok v4 \<and> get_npu_ipv6 (ar_swbus_edge r) = Ok v6 \<and>
          (\<forall>rt ri t hdl. \<exists>g2 cl. global_spawn g' rt ri t hdl = Ok (g2, cl) \<and>
             sc_source cl = (base_sp (p_edge p))\<lparr>resource_type := rt, resource_id := ri\<rparr>)))"
proof -
  obtain c where c: "swbus_config_from_db (pe_config pe) slot = Ok c" "p_env p = (slot, cfg_npu_ipv4 c, cfg_npu_ipv6 c)"
    using hamgrd_main_env [OF assms] by blast
  let ?sp = "base_sp (p_edge p)"
  obtain g where g: "setup_runtime slot c ?sp = Ok g" "global_inv slot c ?sp g" using setup_runtime_Ok by blast
  have "\<exists>r v4 v6. g' = Some r \<and> p_env p = (slot, v4, v6) \<and> get_slot_id (ar_swbus_edge r) = Ok slot \<and>
      get_npu_ipv4 (ar_swbus_edge r) = Ok v4 \<and> get_npu_ipv6 (ar_swbus_edge r) = Ok v6 \<and>
      (\<forall>rt ri t hdl. \<exists>g2 cl. global_spawn g' rt ri t hdl = Ok (g2, cl) \<and>
         sc_source cl = ?sp\<lparr>resource_type := rt, resource_id := ri\<rparr>)"
    if steps: "global_step\<^sup>*\<^sup>* g g'" for g'
  proof -
    obtain r where r: "g' = Some r" "base_sp (er_edge (ar_swbus_edge r)) = ?sp"
      "er_env (ar_swbus_edge r) = Some (IsRuntimeData (new_runtime_data slot (cfg_npu_ipv4 c) (cfg_npu_ipv6 c)))"
      using global_inv_steps [OF steps g(2)] by (auto simp: global_inv_def)
    have "sc_source (snd (spawn_actor e rt ri t hdl)) = new_sp e rt ri" for e rt ri t hdl
      using new_simple_client_edge [OF prod.collapse [symmetric], of e "new_sp e rt ri" True False t hdl]
      by (simp add: spawn_actor_def)
    with r c show ?thesis
      by (simp add: get_slot_id_def get_npu_ipv4_def get_npu_ipv6_def new_runtime_data_def global_spawn_def Let_def new_sp_def
          split: prod.split) (metis snd_conv)
  qed
  with c g show ?thesis by blast
qed

theorem runtime_data_stays_witness:
  "\<exists>p c g g' r cl. hamgrd_main demo_pe 0 5 = Ok p \<and> setup_runtime 0 c (base_sp (p_edge p)) = Ok g \<and>
     global_spawn g ''dpu'' ''dpu0'' 5 20 = Ok (g', cl) \<and> g' = Some r \<and> get_slot_id (ar_swbus_edge r) = Ok 0"
proof -
  obtain p where p: "hamgrd_main demo_pe 0 5 = Ok p" using demo_process_starts by blast
  obtain c g where g: "setup_runtime 0 c (base_sp (p_edge p)) = Ok g"
    and a: "\<And>g'. global_step\<^sup>*\<^sup>* g g' \<Longrightarrow> \<exists>r. g' = Some r \<and> get_slot_id (ar_swbus_edge r) = Ok 0 \<and>
      (\<forall>rt ri t hdl. \<exists>g2 cl. global_spawn g' rt ri t hdl = Ok (g2, cl))"
    using runtime_data_stays [OF p] by metis
  obtain g' cl where s: "global_spawn g ''dpu'' ''dpu0'' 5 20 = Ok (g', cl)" using a [of g] by blast
  have "global_step\<^sup>*\<^sup>* g g'" using step_spawn [OF s] by blast
  with a p g s show ?thesis by blast
qed

text \<open>A runtime with no data, or data of another type, makes every getter panic; the data set first is kept.\<close>

lemma getters_panic:
  "get_slot_id (new_edge_runtime uri sp) = Panic"
  "get_slot_id (set_runtime_env (new_edge_runtime uri sp) (IsOther n)) = Panic"
  "set_runtime_env (set_runtime_env (new_edge_runtime uri sp) v) w = set_runtime_env (new_edge_runtime uri sp) v"
  by (simp_all add: get_slot_id_def new_edge_runtime_def set_runtime_env_def)

end
