(* ===== verification/Swbus_Cli.thy ===== *)
theory Swbus_Cli
  imports Swbus_Config Swbus_Actor
begin

text \<open>
  \<open>crates/swbus-cli\<close>: the command line tool that pings a service, traces the way to it and shows
  the routes of the bus daemon and the state of an actor. A command registers a handler at its own
  edge runtime, sends a request and reads the responses from the handler's channel.

  Time is counted in milliseconds. \<open>cr_inbox\<close> is what the channel of the handler yields, each
  message with the time it arrives, and \<open>cr_closed\<close> the time its senders are gone. \<open>idle\<close> is what
  the other tasks of the runtime do to it while a command waits. The lines of the log are the
  arguments of the \<open>info!\<close> calls; the layout of tables by the crate \<open>tabled\<close> is left out.
\<close>

section \<open>Waiting for a response\<close>

record response_result =
  rr_code :: swbus_error_code
  rr_text :: string
  rr_msg :: "swbus_message option"

definition from_code :: "int \<Rightarrow> string \<Rightarrow> swbus_message option \<Rightarrow> response_result" where
  "from_code code txt m =
     \<lparr>rr_code = (case code_of_num code of Some c \<Rightarrow> c | None \<Rightarrow> Fail), rr_text = txt, rr_msg = m\<rparr>"

type_synonym inbox = "(nat \<times> swbus_message) list"

definition timed_out :: response_result where
  "timed_out = from_code (code_num Timeout) ''request timeout'' None"

text \<open>The time of the return and the messages left in the channel come with the result.\<close>

fun wait_for_response ::
    "u64 \<Rightarrow> nat \<Rightarrow> nat \<Rightarrow> nat option \<Rightarrow> nat \<Rightarrow> inbox \<Rightarrow> response_result \<times> nat \<times> inbox" where
  "wait_for_response rid T start closed now [] =
     (if now - start < T then
        (case closed of
           Some t \<Rightarrow>
             if max now t \<le> now + T then (from_code (code_num Fail) ''channel broken'' None, max now t, [])
             else (timed_out, now + T, [])
         | None \<Rightarrow> (timed_out, now + T, []))
      else (timed_out, now, []))"
| "wait_for_response rid T start closed now ((t, m) # rest) =
     (if now - start < T then
        if max now t \<le> now + T then
          (case body m of
             Some (Response r) \<Rightarrow>
               if request_id r \<noteq> rid then wait_for_response rid T start closed (max now t) rest
               else (from_code (error_code r) (error_message r) (Some m), max now t, rest)
           | _ \<Rightarrow> wait_for_response rid T start closed (max now t) rest)
        else (timed_out, now + T, (t, m) # rest)
      else (timed_out, now, (t, m) # rest))"

section \<open>Commands\<close>

record route_display =
  rd_service_path :: string
  rd_hop_count :: u32
  rd_nh_id :: string
  rd_nh_scope :: string
  rd_nh_service_path :: string

type_synonym key_values = "(string \<times> string) list"

datatype cli_line =
    PingStart string
  | PingReply nat u32 nat
  | PingTimeout nat
  | PingFailed nat string string string
  | TraceStart string u32
  | Hop nat string nat byte
  | HopTimeout nat
  | HopFailed nat string string string
  | RouteTable "route_display list"
  | IncomingTable "(string \<times> key_values) list"
  | InternalTable "(string \<times> key_values \<times> key_values) list"
  | SentTable "(string \<times> key_values) list"
  | QueuedTable "key_values list"
  | UnexpectedResponse request_response
  | InvalidResponse
  | RequestTimeout
  | RequestFailed string string
  | NotConnected

record cli_run =
  cr_edge :: edge
  cr_ids :: message_id_generator
  cr_now :: nat
  cr_inbox :: inbox
  cr_closed :: "nat option"
  cr_lines :: "cli_line list"

text \<open>\<open>as_str_name()\<close> of an error code without the prefix \<open>SWBUS_ERROR_CODE_\<close>.\<close>

fun code_str :: "swbus_error_code \<Rightarrow> string" where
  "code_str UnknownError = ''UNKNOWN_ERROR''"
| "code_str CodeOk = ''OK''"
| "code_str ConnectionErrorMin = ''CONNECTION_ERROR_MIN''"
| "code_str ConnectionErr = ''CONNECTION_ERROR''"
| "code_str Timeout = ''TIMEOUT''"
| "code_str ConnectionErrorMax = ''CONNECTION_ERROR_MAX''"
| "code_str InputErrorMin = ''INPUT_ERROR_MIN''"
| "code_str InvalidArgs = ''INVALID_ARGS''"
| "code_str InvalidDestination = ''INVALID_DESTINATION''"
| "code_str InvalidSource = ''INVALID_SOURCE''"
| "code_str InvalidHeader = ''INVALID_HEADER''"
| "code_str InvalidPayload = ''INVALID_PAYLOAD''"
| "code_str InputErrorMax = ''INPUT_ERROR_MAX''"
| "code_str RouteErrorMin = ''ROUTE_ERROR_MIN''"
| "code_str NoRoute = ''NO_ROUTE''"
| "code_str QueueFull = ''QUEUE_FULL''"
| "code_str Unreachable = ''UNREACHABLE''"
| "code_str ServiceNotFound = ''SERVICE_NOT_FOUND''"
| "code_str ResourceNotFound = ''RESOURCE_NOT_FOUND''"
| "code_str RouteErrorMax = ''ROUTE_ERROR_MAX''"
| "code_str InternalErrorMin = ''INTERNAL_ERROR_MIN''"
| "code_str Fail = ''FAIL''"
| "code_str InternalErrorMax = ''INTERNAL_ERROR_MAX''"

type_synonym cli_result = "(unit, cli_run) exec option"

definition log_line :: "cli_line \<Rightarrow> cli_run \<Rightarrow> cli_run" where
  "log_line l r = r\<lparr>cr_lines := cr_lines r @ [l]\<rparr>"

text \<open>\<open>ctx.runtime.send(msg).await.unwrap()\<close>; \<open>None\<close> while the router's queue has no room.\<close>

definition send_unwrap :: "cli_run \<Rightarrow> swbus_message \<Rightarrow> cli_result" where
  "send_unwrap r m =
     (case edge_send (cr_edge r) m of
        None \<Rightarrow> None
      | Some (e, Ok _) \<Rightarrow> Some (Ok (r\<lparr>cr_edge := e\<rparr>))
      | Some (e, _) \<Rightarrow> Some Panic)"

definition await_response :: "u64 \<Rightarrow> u32 \<Rightarrow> cli_run \<Rightarrow> response_result \<times> cli_run" where
  "await_response rid secs r =
     (case wait_for_response rid (1000 * unat secs) (cr_now r) (cr_closed r) (cr_now r) (cr_inbox r) of
        (res, now, rest) \<Rightarrow> (res, r\<lparr>cr_now := now, cr_inbox := rest\<rparr>))"

text \<open>The path of the sender of a response that \<open>msg.header.unwrap().source.unwrap()\<close> reads.\<close>

definition source_of :: "swbus_message \<Rightarrow> (unit, service_path) exec" where
  "source_of m =
     (case header m of
        Some hd1 \<Rightarrow> (case source hd1 of Some sp \<Rightarrow> Ok sp | None \<Rightarrow> Panic)
      | None \<Rightarrow> Panic)"

definition cli_sp :: "service_path \<Rightarrow> string \<Rightarrow> service_path" where
  "cli_sp sp name = sp\<lparr>resource_type := name, resource_id := ''0''\<rparr>"

text \<open>The channel of the handler \<open>hdl\<close> has room for one message.\<close>

definition open_handler :: "nat \<Rightarrow> service_path \<Rightarrow> cli_run \<Rightarrow> cli_run" where
  "open_handler hdl sp r =
     (let e = cr_edge r
      in r\<lparr>cr_edge := add_handler (e\<lparr>handler_chans := (handler_chans e)(hdl \<mapsto> new_chan 1)\<rparr>) sp hdl\<rparr>)"

subsection \<open>Ping\<close>

record ping_cmd =
  ping_count :: u32
  ping_timeout :: u32
  ping_interval :: u32
  ping_dest :: service_path

definition ping_line :: "nat \<Rightarrow> nat \<Rightarrow> response_result \<Rightarrow> (unit, cli_line) exec" where
  "ping_line i elapsed res =
     (case rr_code res of
        CodeOk \<Rightarrow>
          (case rr_msg res of
             Some m \<Rightarrow> (case header m of Some hd1 \<Rightarrow> Ok (PingReply i (ttl hd1) elapsed) | None \<Rightarrow> Panic)
           | None \<Rightarrow> Panic)
      | Timeout \<Rightarrow> Ok (PingTimeout i)
      | c \<Rightarrow>
          bind_exec (case rr_msg res of
              Some m \<Rightarrow> bind_exec (source_of m) (\<lambda>sp. Ok (to_longest_path sp @ '' => ''))
            | None \<Rightarrow> Ok [])
            (\<lambda>src. Ok (PingFailed i src (code_str c) (rr_text res))))"

definition ping_turn :: "(edge \<Rightarrow> edge) \<Rightarrow> ping_cmd \<Rightarrow> service_path \<Rightarrow> nat \<Rightarrow> cli_run \<Rightarrow> cli_result" where
  "ping_turn idle cmd src i r =
     (case generate (cr_ids r) of (rid, ids) \<Rightarrow>
       (let start = cr_now r;
            r0 = r\<lparr>cr_ids := ids\<rparr>
        in case send_unwrap r0 (new_message (new_header src (ping_dest cmd) rid) PingRequest) of
             Some (Ok r1) \<Rightarrow>
               (case await_response rid (ping_timeout cmd) r1 of (res, r2) \<Rightarrow>
                 Some (bind_exec (ping_line i (cr_now r2 - start) res) (\<lambda>l.
                   Ok ((log_line l r2)\<lparr>cr_now := cr_now r2 + 1000 * unat (ping_interval cmd),
                         cr_edge := idle (cr_edge r2)\<rparr>))))
           | x \<Rightarrow> x))"

fun ping_loop :: "(edge \<Rightarrow> edge) \<Rightarrow> ping_cmd \<Rightarrow> service_path \<Rightarrow> nat \<Rightarrow> nat \<Rightarrow> cli_run \<Rightarrow> cli_result" where
  "ping_loop idle cmd src 0 i r = Some (Ok r)"
| "ping_loop idle cmd src (Suc n) i r =
     (case ping_turn idle cmd src i r of
        Some (Ok r1) \<Rightarrow> ping_loop idle cmd src n (Suc i) r1
      | x \<Rightarrow> x)"

definition ping_handle :: "(edge \<Rightarrow> edge) \<Rightarrow> ping_cmd \<Rightarrow> nat \<Rightarrow> service_path \<Rightarrow> cli_run \<Rightarrow> cli_result" where
  "ping_handle idle cmd hdl sp r =
     (let src = cli_sp sp ''ping''
      in ping_loop idle cmd src (unat (ping_count cmd)) 0
           (log_line (PingStart (to_longest_path (ping_dest cmd))) (open_handler hdl src r)))"

subsection \<open>Trace route\<close>

record trace_route_cmd =
  trace_timeout :: u32
  trace_max_hop :: u32
  trace_dest :: service_path

text \<open>The line for one response, and whether the destination has answered.\<close>

definition trace_line :: "trace_route_cmd \<Rightarrow> nat \<Rightarrow> nat \<Rightarrow> response_result \<Rightarrow> (unit, cli_line \<times> bool) exec" where
  "trace_line cmd i elapsed res =
     (case rr_code res of
        CodeOk \<Rightarrow>
          (case rr_msg res of
             Some m \<Rightarrow>
               (case header m of
                  Some hd1 \<Rightarrow>
                    (case source hd1 of
                       Some sp \<Rightarrow>
                         Ok (Hop (i + 1) (to_longest_path sp) elapsed (ucast (64 - ttl hd1)), sp = trace_dest cmd)
                     | None \<Rightarrow> Panic)
                | None \<Rightarrow> Panic)
           | None \<Rightarrow> Panic)
      | Timeout \<Rightarrow> Ok (HopTimeout (i + 1), False)
      | c \<Rightarrow>
          bind_exec (case rr_msg res of
              Some m \<Rightarrow> bind_exec (source_of m) (\<lambda>sp. Ok (to_longest_path sp))
            | None \<Rightarrow> Ok [])
            (\<lambda>src. Ok (HopFailed (i + 1) src (code_str c) (rr_text res), False)))"

fun trace_loop :: "trace_route_cmd \<Rightarrow> u64 \<Rightarrow> nat \<Rightarrow> nat \<Rightarrow> nat \<Rightarrow> cli_run \<Rightarrow> (unit, cli_run) exec" where
  "trace_loop cmd rid start 0 i r = Ok r"
| "trace_loop cmd rid start (Suc n) i r =
     (case await_response rid (trace_timeout cmd) r of (res, r1) \<Rightarrow>
       bind_exec (trace_line cmd i (cr_now r1 - start) res) (\<lambda>(l, found).
         if found then Ok (log_line l r1) else trace_loop cmd rid start n (Suc i) (log_line l r1)))"

definition trace_route_handle :: "trace_route_cmd \<Rightarrow> nat \<Rightarrow> service_path \<Rightarrow> cli_run \<Rightarrow> cli_result" where
  "trace_route_handle cmd hdl sp r =
     (let src = cli_sp sp ''traceroute'';
          r0 = log_line (TraceStart (to_longest_path (trace_dest cmd)) (trace_max_hop cmd)) (open_handler hdl src r)
      in case generate (cr_ids r0) of (rid, ids) \<Rightarrow>
        (case send_unwrap (r0\<lparr>cr_ids := ids\<rparr>)
            (new_message ((new_header src (trace_dest cmd) rid)\<lparr>ttl := trace_max_hop cmd\<rparr>) TraceRouteRequest) of
           Some (Ok r1) \<Rightarrow> Some (trace_loop cmd rid (cr_now r1) (unat (trace_max_hop cmd)) 0 r1)
         | x \<Rightarrow> x))"

subsection \<open>Show: the routes of the bus daemon\<close>

definition scope_name :: "nat \<Rightarrow> string option" where
  "scope_name n = map_of [(0, ''ROUTE_SCOPE_CLIENT''), (1, ''ROUTE_SCOPE_LOCAL''), (2, ''ROUTE_SCOPE_CLUSTER''),
     (3, ''ROUTE_SCOPE_REGION''), (4, ''ROUTE_SCOPE_GLOBAL'')] n"

definition route_row :: "route_query_result_entry \<Rightarrow> (unit, route_display) exec" where
  "route_row x =
     (case (rq_service_path x, scope_name (nh_scope x), nh_service_path x) of
        (Some sp, Some scope, Some nsp) \<Rightarrow>
          Ok \<lparr>rd_service_path = to_longest_path sp, rd_hop_count = rq_hop_count x, rd_nh_id = nh_id x,
              rd_nh_scope = scope, rd_nh_service_path = to_longest_path nsp\<rparr>
      | _ \<Rightarrow> Panic)"

definition show_route_request :: "service_path \<Rightarrow> service_path \<Rightarrow> u64 \<Rightarrow> swbus_message" where
  "show_route_request sp src rid =
     new_message (new_header src (to_swbusd_service_path sp) rid) (ManagementRequest 0 [])"

definition show_route_response :: "request_response \<Rightarrow> (unit, cli_line list) exec" where
  "show_route_response resp =
     (case resp_body resp of
        Some (RouteQueryResult es) \<Rightarrow> bind_exec (traverse route_row es) (\<lambda>rows. Ok [RouteTable rows])
      | _ \<Rightarrow> Ok [UnexpectedResponse resp])"

subsection \<open>Show: the state of an actor\<close>

text \<open>
  \<open>ActorStateDump\<close> and \<open>dump_state\<close>. The functions of the environment: \<open>to_string_pretty\<close> of a JSON
  value and of a header, the local time of a number of seconds (\<open>None\<close> out of range), reading a
  dump from its JSON text, \<open>to_string_lossy\<close> and the wall clock in nanoseconds.
\<close>

record actor_dump =
  ad_incoming :: "(string \<times> incoming_entry) list"
  ad_internal :: "(string \<times> internal_entry) list"
  ad_queued :: "unacked_message list"
  ad_sent :: "(string \<times> sent_entry) list"

definition dump_state :: "actor_state \<Rightarrow> actor_dump" where
  "dump_state st =
     \<lparr>ad_incoming = incoming st, ad_internal = internal st, ad_queued = queued_messages st,
      ad_sent = sent_messages st\<rparr>"

record cli_env =
  ce_pretty :: "json \<Rightarrow> string option"
  ce_pretty_header :: "swbus_message_header \<Rightarrow> string option"
  ce_time :: "nat \<Rightarrow> string option"
  ce_dump_of :: "string \<Rightarrow> (string, actor_dump) exec"
  ce_lossy :: "string \<Rightarrow> string"
  ce_wall :: nat

definition unwrap_inv :: "string option \<Rightarrow> string" where
  "unwrap_inv s = (case s of Some x \<Rightarrow> x | None \<Rightarrow> ''INV'')"

definition unix_secs_to_string :: "cli_env \<Rightarrow> nat \<Rightarrow> string" where
  "unix_secs_to_string env t = unwrap_inv (ce_time env t)"

definition show_bool :: "bool \<Rightarrow> string" where
  "show_bool b = (if b then ''true'' else ''false'')"

definition incoming_display :: "cli_env \<Rightarrow> string \<times> incoming_entry \<Rightarrow> string \<times> key_values" where
  "incoming_display env ke =
     (case ke of (key, x) \<Rightarrow>
       (key,
        [(''source'', to_longest_path (in_source x)),
         (''request-id'', show_nat (unat (in_request_id x))),
         (''version'', show_nat (unat (in_version x))),
         (''message/key'', am_key (in_msg x)),
         (''message/value'', unwrap_inv (ce_pretty env (am_data (in_msg x)))),
         (''created-time'', unix_secs_to_string env (in_created_time x)),
         (''last-updated-time'', unix_secs_to_string env (in_last_updated_time x)),
         (''response'', in_response x),
         (''acked'', show_bool (in_acked x))]))"

definition queued_display :: "cli_env \<Rightarrow> unacked_message \<Rightarrow> key_values" where
  "queued_display env x =
     [(''actor-message/key'', am_key (um_actor_message x)),
      (''actor-message/value'', unwrap_inv (ce_pretty env (am_data (um_actor_message x)))),
      (''swbus-message/header'',
         case header (um_swbus_message x) of Some hd1 \<Rightarrow> unwrap_inv (ce_pretty_header env hd1) | None \<Rightarrow> []),
      (''time-elapsed'', show_nat ((ce_wall env - um_time_sent x) div 10 ^ 9))]"

definition sent_display :: "cli_env \<Rightarrow> string \<times> sent_entry \<Rightarrow> string \<times> key_values" where
  "sent_display env ke =
     (case ke of (key, x) \<Rightarrow>
       (key,
        [(''response_source'', case se_response_source x of Some sp \<Rightarrow> to_longest_path sp | None \<Rightarrow> []),
         (''id'', show_nat (unat (se_id x))),
         (''version'', show_nat (unat (se_version x))),
         (''message/key'', am_key (se_msg x)),
         (''message/value'', unwrap_inv (ce_pretty env (am_data (se_msg x)))),
         (''created-time'', unix_secs_to_string env (se_created_time x)),
         (''last-updated-time'', unix_secs_to_string env (se_last_updated_time x)),
         (''last-sent-time'', unix_secs_to_string env (se_last_sent_time x)),
         (''response'', case se_response x of Some s \<Rightarrow> s | None \<Rightarrow> []),
         (''acked'', show_bool (se_acked x))]))"

definition internal_display :: "cli_env \<Rightarrow> string \<times> internal_entry \<Rightarrow> string \<times> key_values \<times> key_values" where
  "internal_display env ke =
     (case ke of (key, x) \<Rightarrow>
       (key,
        [(''table'', swss_table_name x),
         (''key'', swss_key x),
         (''mutated'', show_bool (mutated x)),
         (''last-updated-time'',
            case int_last_updated_time x of Some t \<Rightarrow> unix_secs_to_string env t | None \<Rightarrow> [])],
        map (\<lambda>(k, v). (k, ce_lossy env v)) (backup_fvs x)))"

definition show_actor_request :: "service_path \<Rightarrow> service_path \<Rightarrow> service_path \<Rightarrow> u64 \<Rightarrow> swbus_message" where
  "show_actor_request actor_path sp src rid =
     new_message (new_header src (sp_join (to_swbusd_service_path sp) actor_path) rid) (ManagementRequest 1 [])"

definition show_actor_response :: "cli_env \<Rightarrow> request_response \<Rightarrow> (unit, cli_line list) exec" where
  "show_actor_response env resp =
     (case resp_body resp of
        Some (ManagementQueryResult value1) \<Rightarrow>
          (case ce_dump_of env value1 of
             Ok d \<Rightarrow>
               Ok ([IncomingTable (map (incoming_display env) (ad_incoming d)),
                    InternalTable (map (internal_display env) (ad_internal d)),
                    SentTable (map (sent_display env) (ad_sent d))] @
                   (if ad_queued d \<noteq> [] then [QueuedTable (map (queued_display env) (ad_queued d))] else []))
           | _ \<Rightarrow> Panic)
      | _ \<Rightarrow> Ok [UnexpectedResponse resp])"

subsection \<open>Show: request and response\<close>

datatype show_cmd = ShowSwbusdRoute | ShowHamgrdActor service_path

definition create_request :: "show_cmd \<Rightarrow> service_path \<Rightarrow> service_path \<Rightarrow> u64 \<Rightarrow> swbus_message" where
  "create_request cmd sp src rid =
     (case cmd of
        ShowSwbusdRoute \<Rightarrow> show_route_request sp src rid
      | ShowHamgrdActor path \<Rightarrow> show_actor_request path sp src rid)"

definition process_response :: "cli_env \<Rightarrow> show_cmd \<Rightarrow> request_response \<Rightarrow> (unit, cli_line list) exec" where
  "process_response env cmd resp =
     (case cmd of
        ShowSwbusdRoute \<Rightarrow> show_route_response resp
      | ShowHamgrdActor path \<Rightarrow> show_actor_response env resp)"

definition show_lines :: "cli_env \<Rightarrow> show_cmd \<Rightarrow> response_result \<Rightarrow> (unit, cli_line list) exec" where
  "show_lines env cmd res =
     (case rr_code res of
        CodeOk \<Rightarrow>
          (case Option.bind (rr_msg res) body of
             Some (Response resp) \<Rightarrow> process_response env cmd resp
           | Some _ \<Rightarrow> Ok [InvalidResponse]
           | None \<Rightarrow> Panic)
      | Timeout \<Rightarrow> Ok [RequestTimeout]
      | c \<Rightarrow> Ok [RequestFailed (''SWBUS_ERROR_CODE_'' @ code_str c) (rr_text res)])"

definition show_handle :: "cli_env \<Rightarrow> show_cmd \<Rightarrow> nat \<Rightarrow> service_path \<Rightarrow> cli_run \<Rightarrow> cli_result" where
  "show_handle env cmd hdl sp r =
     (let src = cli_sp sp ''show'';
          r0 = open_handler hdl src r
      in case generate (cr_ids r0) of (rid, ids) \<Rightarrow>
        (case send_unwrap (r0\<lparr>cr_ids := ids\<rparr>) (create_request cmd sp src rid) of
           Some (Ok r1) \<Rightarrow>
             (case await_response rid 10 r1 of (res, r2) \<Rightarrow>
               Some (bind_exec (show_lines env cmd res) (\<lambda>ls. Ok (r2\<lparr>cr_lines := cr_lines r2 @ ls\<rparr>))))
         | x \<Rightarrow> x))"

section \<open>The command line\<close>

datatype cli_sub_cmd = PingCmd ping_cmd | TraceRouteCmd trace_route_cmd | ShowCmd show_cmd

text \<open>
  \<open>get_swbus_config\<close>: the file, or the slot in the environment variable \<open>DEV\<close> behind its first three
  bytes. The errors are the texts of their contexts.
\<close>

definition get_swbus_config ::
    "config_source \<Rightarrow> (string \<Rightarrow> (string + string) + swbus_config) \<Rightarrow> string option \<Rightarrow> string option
       \<Rightarrow> swbus_config outcome" where
  "get_swbus_config cs read_yaml dev file =
     (case file of
        Some f \<Rightarrow>
          (case swbus_config_from_yaml read_yaml f of
             Ok c \<Rightarrow> Ok c
           | Err e \<Rightarrow> Err (''Failed to read swbusd config from file '' @ f)
           | Panic \<Rightarrow> Panic)
      | None \<Rightarrow>
          (case dev of
             None \<Rightarrow> Err ''Environment DEV is not found''
           | Some d \<Rightarrow>
               if length d < 3 \<or> (3 < length d \<and> cont_byte (of_char (d ! 3))) then Panic
               else (case parse_int U32 (drop 3 d) of
                   None \<Rightarrow> Err ''Invalid slot id''
                 | Some slot \<Rightarrow>
                     (case swbus_config_from_db cs (word_of_int slot) of
                        Ok c \<Rightarrow> Ok c
                      | Err e \<Rightarrow> Err ''Failed to get swbusd config from db''
                      | Panic \<Rightarrow> Panic))))"

text \<open>
  \<open>main\<close> up to the creation of the runtime, and the command; when the daemon is not reached within ten seconds,
  and without a cluster route (\<open>Ok None\<close>), nothing is run. The inbox and the runtime of the command
  are those of the running process.
\<close>

definition cli_start ::
    "config_source \<Rightarrow> (string \<Rightarrow> (string + string) + swbus_config) \<Rightarrow> string option \<Rightarrow> string option
       \<Rightarrow> string \<Rightarrow> (edge \<times> service_path) option outcome" where
  "cli_start cs read_yaml dev file uuid =
     (case get_swbus_config cs read_yaml dev file of
        Ok c \<Rightarrow>
          (case get_swbusd_service_path c of
             None \<Rightarrow> Ok None
           | Some sp0 \<Rightarrow>
               (let sp = sp0\<lparr>service_type := ''swbus-cli'', service_id := uuid\<rparr> in Ok (Some (new_edge sp, sp))))
      | _ \<Rightarrow> Panic)"

definition cli_command ::
    "cli_env \<Rightarrow> (edge \<Rightarrow> edge) \<Rightarrow> cli_sub_cmd \<Rightarrow> nat \<Rightarrow> service_path \<Rightarrow> cli_run \<Rightarrow> cli_result" where
  "cli_command env idle cmd hdl sp r =
     (if \<not> swbusd_connected (cr_edge r) then Some (Ok (log_line NotConnected r))
      else (case cmd of
          PingCmd c \<Rightarrow> ping_handle idle c hdl sp r
        | ShowCmd c \<Rightarrow> show_handle env c hdl sp r
        | TraceRouteCmd c \<Rightarrow> trace_route_handle c hdl sp r))"

section \<open>How long a command waits\<close>

definition answers :: "u64 \<Rightarrow> swbus_message \<Rightarrow> bool" where
  "answers rid m = (case body m of Some (Response r) \<Rightarrow> request_id r = rid | _ \<Rightarrow> False)"

lemma answers_iff: "answers rid m \<longleftrightarrow> (\<exists>r. body m = Some (Response r) \<and> request_id r = rid)"
  by (auto simp: answers_def split: option.splits body.splits)

lemma wait_skips:
  "\<not> answers rid m \<Longrightarrow> wait_for_response rid T start closed now ((t, m) # rest) =
     (if now - start < T then
        if max now t \<le> now + T then wait_for_response rid T start closed (max now t) rest
        else (timed_out, now + T, (t, m) # rest)
      else (timed_out, now, (t, m) # rest))"
  by (auto simp: answers_def split: option.splits body.splits)

lemma wait_takes:
  "body m = Some (Response r) \<Longrightarrow> request_id r = rid \<Longrightarrow> wait_for_response rid T start closed now ((t, m) # rest) =
     (if now - start < T then
        if max now t \<le> now + T then (from_code (error_code r) (error_message r) (Some m), max now t, rest)
        else (timed_out, now + T, (t, m) # rest)
      else (timed_out, now, (t, m) # rest))"
  by simp

declare wait_for_response.simps(2) [simp del]

lemma wait_reaches:
  assumes "\<forall>(u, x) \<in> set pre. u \<le> t \<and> \<not> answers rid x" "body m = Some (Response r)" "request_id r = rid"
    "t < start + T" "start \<le> now" "now < start + T"
  shows "wait_for_response rid T start closed now (pre @ (t, m) # rest) =
    (from_code (error_code r) (error_message r) (Some m), max now t, rest)"
  using assms
proof (induction pre arbitrary: now)
  case (Cons ux pre)
  obtain u x where "ux = (u, x)" by (cases ux)
  with Cons.prems Cons.IH [of "max now u"] show ?case by (auto simp: wait_skips max_def)
qed (auto simp: wait_takes)

definition bounded_result :: "u64 \<Rightarrow> nat \<Rightarrow> inbox \<Rightarrow> response_result \<times> nat \<times> inbox \<Rightarrow> bool" where
  "bounded_result rid limit msgs x =
     (case x of (res, t, rest) \<Rightarrow>
       t \<le> limit \<and> set rest \<subseteq> set msgs \<and>
       (case rr_msg res of
          Some m \<Rightarrow> \<exists>u r. (u, m) \<in> set msgs \<and> body m = Some (Response r) \<and> request_id r = rid \<and>
            res = from_code (error_code r) (error_message r) (Some m)
        | None \<Rightarrow> rr_code res \<in> {Timeout, Fail}))"

lemma from_code_simps [simp]:
  "rr_msg (from_code c s m) = m" "rr_text (from_code c s m) = s"
  "rr_code (from_code 901 s m) = Fail" "rr_code timed_out = Timeout" "rr_msg timed_out = None"
  by (simp_all add: from_code_def timed_out_def code_of_num_def all_codes_def)

lemma bounded_result_mono:
  "bounded_result rid L msgs x \<Longrightarrow> set msgs \<subseteq> set msgs' \<Longrightarrow> bounded_result rid L msgs' x"
  by (auto simp: bounded_result_def split: prod.splits option.splits)

lemma wait_bounded:
  "start \<le> now \<Longrightarrow> now \<le> start + 2 * T \<Longrightarrow>
     bounded_result rid (start + 2 * T) msgs (wait_for_response rid T start closed now msgs)"
proof (induction msgs arbitrary: now)
  case Nil
  then show ?case by (auto simp: bounded_result_def split: option.splits)
next
  case (Cons um msgs)
  obtain u m where um: "um = (u, m)" by (cases um)
  show ?case
  proof (cases "answers rid m")
    case True
    then obtain r where "body m = Some (Response r)" "request_id r = rid" by (auto simp: answers_iff)
    with Cons.prems um show ?thesis by (auto simp: wait_takes bounded_result_def)
  next
    case False
    then have "bounded_result rid (start + 2 * T) msgs (wait_for_response rid T start closed (max now u) msgs)"
      if "now - start < T" "max now u \<le> now + T"
      using Cons.prems Cons.IH [of "max now u"] that by auto
    with False Cons.prems um show ?thesis
      by (auto simp: wait_skips intro: bounded_result_mono) (auto simp: bounded_result_def)
  qed
qed

text \<open>
  Waiting for a response: a response with the id of the request that arrives before the timeout is
  returned when it arrives, whatever other messages came before it, and the messages behind it stay
  in the channel. In every case the call is back after at most twice the timeout, and what it
  returns is a response to this request or says \<open>Timeout\<close> or \<open>Fail\<close>.
\<close>

theorem response_in_time_is_found:
  assumes "\<forall>(u, x) \<in> set pre. u \<le> t \<and> \<not> answers rid x" "body m = Some (Response r)" "request_id r = rid"
    and "t < start + T" "0 < T"
  shows "wait_for_response rid T start closed start (pre @ (t, m) # rest) =
      (from_code (error_code r) (error_message r) (Some m), max start t, rest) \<and>
    bounded_result rid (start + 2 * T) msgs (wait_for_response rid T start closed start msgs)"
  using wait_reaches [OF assms(1-4), of start] assms(5) wait_bounded by simp

definition reply_to :: "u64 \<Rightarrow> swbus_message" where
  "reply_to rid = new_message (new_header (demo_svc ''n2'' ''y'') (demo_svc ''n1'' ''x'') 9) (Response (response_ok rid))"

theorem response_in_time_is_found_witness:
  "wait_for_response 7 1000 0 None 0 [(400, reply_to 3), (900, reply_to 7)] =
     (from_code 1 [] (Some (reply_to 7)), 900, [])"
  using response_in_time_is_found [of "[(400, reply_to 3)]" 900 7 "reply_to 7" "response_ok 7" 0 1000 None "[]"]
  by (simp add: reply_to_def new_message_def response_ok_def answers_def)

text \<open>The limit is nearly reached: a message to someone else starts a whole new timeout.\<close>

lemma timeout_nearly_doubled: "wait_for_response 7 1000 0 None 0 [(999, reply_to 3)] = (timed_out, 1999, [])"
  by (simp add: wait_skips reply_to_def new_message_def response_ok_def answers_def)

section \<open>Ping\<close>

definition room :: "edge \<Rightarrow> bool" where
  "room e \<longleftrightarrow> rx_open (local_msgs e) \<and> length (queue (local_msgs e)) < cap (local_msgs e)"

definition addressed :: "inbox \<Rightarrow> bool" where
  "addressed msgs \<longleftrightarrow> (\<forall>(t, m) \<in> set msgs. \<exists>hd1. header m = Some hd1 \<and> source hd1 \<noteq> None)"

lemma send_unwrap_room:
  "room (cr_edge r) \<Longrightarrow> send_unwrap r m = Some (Ok (r\<lparr>cr_edge := (cr_edge r)\<lparr>local_msgs :=
     (local_msgs (cr_edge r))\<lparr>queue := queue (local_msgs (cr_edge r)) @ [m]\<rparr>\<rparr>\<rparr>))"
  by (simp add: send_unwrap_def edge_send_def send_async_cases room_def)

text \<open>What a line may say about the request with number \<open>k\<close> and id \<open>rid\<close>.\<close>

definition reports :: "inbox \<Rightarrow> u64 \<Rightarrow> nat \<Rightarrow> cli_line \<Rightarrow> bool" where
  "reports msgs rid k l =
     (case l of
        PingReply i t el \<Rightarrow> i = k \<and>
          (\<exists>u m r hd1. (u, m) \<in> set msgs \<and> body m = Some (Response r) \<and> request_id r = rid \<and>
             error_code r = code_num CodeOk \<and> header m = Some hd1 \<and> ttl hd1 = t)
      | PingTimeout i \<Rightarrow> i = k
      | PingFailed i src c s \<Rightarrow> i = k
      | _ \<Rightarrow> False)"

lemma code_of_num_CodeOk: "code_of_num n = Some CodeOk \<longleftrightarrow> n = code_num CodeOk"
  by (auto simp: code_of_num_def all_codes_def split: if_splits)

lemma from_code_CodeOk: "rr_code (from_code n s m) = CodeOk \<longleftrightarrow> n = code_num CodeOk"
  using code_of_num_CodeOk [of n] by (cases "code_of_num n") (auto simp: from_code_def)

lemma ping_line_reports:
  assumes "bounded_result rid L msgs (res, t, rest)" "addressed msgs"
  shows "\<exists>l. ping_line i el res = Ok l \<and> reports msgs rid i l"
proof (cases "rr_msg res")
  case None
  with assms(1) have "rr_code res = Timeout \<or> rr_code res = Fail" by (simp add: bounded_result_def)
  with None show ?thesis by (auto simp: ping_line_def reports_def)
next
  case (Some m)
  with assms(1) obtain u r where m: "(u, m) \<in> set msgs" "body m = Some (Response r)" "request_id r = rid"
    "res = from_code (error_code r) (error_message r) (Some m)"
    by (auto simp: bounded_result_def)
  with assms(2) obtain hd1 sp where hd1: "header m = Some hd1" "source hd1 = Some sp"
    by (fastforce simp: addressed_def)
  show ?thesis
  proof (cases "rr_code res = CodeOk")
    case True
    with m have "error_code r = code_num CodeOk" by (simp only: from_code_CodeOk)
    with True m hd1 show ?thesis by (auto simp: ping_line_def reports_def)
  next
    case False
    with Some hd1 show ?thesis
      by (cases "rr_code res") (auto simp: ping_line_def reports_def source_of_def)
  qed
qed

lemma ping_turn_reports:
  assumes "room (cr_edge r)" "addressed (cr_inbox r)"
  shows "\<exists>r1 l. ping_turn idle cmd src i r = Some (Ok r1) \<and> cr_lines r1 = cr_lines r @ [l] \<and>
    reports (cr_inbox r) (next_id (cr_ids r)) i l \<and> set (cr_inbox r1) \<subseteq> set (cr_inbox r) \<and>
    next_id (cr_ids r1) = next_id (cr_ids r) + 1 \<and> (\<exists>e. cr_edge r1 = idle e) \<and>
    cr_now r1 \<le> cr_now r + 1000 * (2 * unat (ping_timeout cmd) + unat (ping_interval cmd))"
proof -
  define rid where "rid = next_id (cr_ids r)"
  obtain res t rest where w: "wait_for_response rid (1000 * unat (ping_timeout cmd)) (cr_now r) (cr_closed r)
      (cr_now r) (cr_inbox r) = (res, t, rest)"
    by (metis prod_cases3)
  have b: "bounded_result rid (cr_now r + 2 * (1000 * unat (ping_timeout cmd))) (cr_inbox r) (res, t, rest)"
    unfolding w [symmetric] by (rule wait_bounded) simp_all
  obtain l where l: "ping_line i (t - cr_now r) res = Ok l" "reports (cr_inbox r) rid i l"
    using ping_line_reports [OF b assms(2)] by blast
  from b have "t \<le> cr_now r + 2 * (1000 * unat (ping_timeout cmd))" "set rest \<subseteq> set (cr_inbox r)"
    by (simp_all add: bounded_result_def)
  with w l assms(1) show ?thesis
    by (auto simp: ping_turn_def generate_def send_unwrap_room await_response_def log_line_def rid_def)
qed

lemma reports_mono: "reports msgs rid k l \<Longrightarrow> set msgs \<subseteq> set msgs' \<Longrightarrow> reports msgs' rid k l"
  by (auto simp: reports_def split: cli_line.splits)

text \<open>
  (C27) Ping accounts for every request: when the other tasks keep room in the router's queue and every
  message has a header and a source, the command ends without a panic and writes exactly one line
  for each request, in the order of the requests; a line that reports a reply rests on a response
  with the id of its own request and the code \<open>Ok\<close>, never on a late one to another request. The
  whole run takes at most two timeouts and one interval for each request.
\<close>

theorem ping_reports_each_request:
  assumes "\<forall>e. room (idle e)" "room (cr_edge r)" "addressed (cr_inbox r)"
  shows "\<exists>r1 ls. ping_loop idle cmd src n i r = Some (Ok r1) \<and> cr_lines r1 = cr_lines r @ ls \<and>
    length ls = n \<and> (\<forall>j < n. reports (cr_inbox r) (next_id (cr_ids r) + of_nat j) (i + j) (ls ! j)) \<and>
    cr_now r1 \<le> cr_now r + n * (1000 * (2 * unat (ping_timeout cmd) + unat (ping_interval cmd)))"
  using assms(2,3)
proof (induction n arbitrary: i r)
  case (Suc n)
  obtain r1 l where t: "ping_turn idle cmd src i r = Some (Ok r1)" "cr_lines r1 = cr_lines r @ [l]"
    "reports (cr_inbox r) (next_id (cr_ids r)) i l" "set (cr_inbox r1) \<subseteq> set (cr_inbox r)"
    "next_id (cr_ids r1) = next_id (cr_ids r) + 1" "\<exists>e. cr_edge r1 = idle e"
    "cr_now r1 \<le> cr_now r + 1000 * (2 * unat (ping_timeout cmd) + unat (ping_interval cmd))"
    using ping_turn_reports [OF Suc.prems] by blast
  have "room (cr_edge r1)" "addressed (cr_inbox r1)"
    using assms(1) t(4,6) Suc.prems(2) by (auto simp: addressed_def)
  from Suc.IH [OF this, of "Suc i"] obtain r2 ls where r2:
    "ping_loop idle cmd src n (Suc i) r1 = Some (Ok r2)" "cr_lines r2 = cr_lines r1 @ ls" "length ls = n"
    "\<forall>j < n. reports (cr_inbox r1) (next_id (cr_ids r1) + of_nat j) (Suc i + j) (ls ! j)"
    "cr_now r2 \<le> cr_now r1 + n * (1000 * (2 * unat (ping_timeout cmd) + unat (ping_interval cmd)))"
    by auto
  have "reports (cr_inbox r) (next_id (cr_ids r) + of_nat j) (i + j) ((l # ls) ! j)" if "j < Suc n" for j
    using that t(3) r2(4) reports_mono [OF _ t(4)] by (cases j) (auto simp: t(5) add.assoc)
  with t(1,2,7) r2 show ?case by (intro exI [of _ r2] exI [of _ "l # ls"]) auto
qed auto

definition ping_demo :: ping_cmd where
  "ping_demo = \<lparr>ping_count = 2, ping_timeout = 1, ping_interval = 1, ping_dest = demo_svc ''n2'' ''y''\<rparr>"

definition run_demo :: "inbox \<Rightarrow> cli_run" where
  "run_demo msgs = \<lparr>cr_edge = new_edge (demo_svc ''n1'' ''cli''), cr_ids = new_id_generator 7, cr_now = 0,
     cr_inbox = msgs, cr_closed = None, cr_lines = []\<rparr>"

theorem ping_reports_each_request_witness:
  "\<exists>r1 l0 l1. ping_loop (\<lambda>_. new_edge sample_sp) ping_demo (demo_svc ''n1'' ''cli'') 2 0
       (run_demo [(400, reply_to 7), (1500, reply_to 8)]) = Some (Ok r1) \<and>
     cr_lines r1 = [l0, l1] \<and> reports [(400, reply_to 7), (1500, reply_to 8)] 8 1 l1 \<and> cr_now r1 \<le> 6000"
proof -
  have "\<forall>e :: edge. room (new_edge sample_sp)" "room (cr_edge (run_demo msgs))" for msgs
    by (simp_all add: room_def new_edge_def new_chan_def swbus_recv_queue_size_def run_demo_def)
  moreover have "addressed [(400, reply_to 7), (1500, reply_to 8)]"
    by (simp add: addressed_def reply_to_def new_message_def new_header_def)
  ultimately obtain r1 ls where "ping_loop (\<lambda>_. new_edge sample_sp) ping_demo (demo_svc ''n1'' ''cli'') 2 0
      (run_demo [(400, reply_to 7), (1500, reply_to 8)]) = Some (Ok r1)" "cr_lines r1 = ls" "length ls = 2"
    "\<forall>j < 2. reports [(400, reply_to 7), (1500, reply_to 8)] (7 + of_nat j) j (ls ! j)" "cr_now r1 \<le> 6000"
    using ping_reports_each_request [of "\<lambda>_. new_edge sample_sp"
        "run_demo [(400, reply_to 7), (1500, reply_to 8)]" ping_demo "demo_svc ''n1'' ''cli''" 2 0]
    by (auto simp: run_demo_def ping_demo_def new_id_generator_def)
  then show ?thesis by (auto simp: numeral_2_eq_2 length_Suc_conv)
qed

section \<open>Show routes\<close>

text \<open>The row of an entry of the route table.\<close>

definition shows_route :: "string \<times> next_hop \<Rightarrow> route_display \<Rightarrow> bool" where
  "shows_route knh row \<longleftrightarrow>
     (\<exists>sp ci. (from_string (fst knh) :: service_path result) = Ok sp \<and> nh_conn_info (snd knh) = Some ci \<and>
        rd_service_path row = to_longest_path sp \<and> rd_hop_count row = hop_count (snd knh) \<and>
        rd_nh_id row = conn_id ci \<and> rd_nh_service_path row = to_longest_path (remote_service_path ci))"

lemma scope_name_conn_type: "\<exists>s. scope_name (conn_type_num ct) = Some s"
  by (cases ct) (simp_all add: scope_name_def)

lemma export_entry_row:
  assumes "export_entry knh = Ok x"
  shows "\<exists>row. route_row x = Ok row \<and> shows_route knh row"
proof -
  obtain sp ci where "(from_string (fst knh) :: service_path result) = Ok sp" "nh_conn_info (snd knh) = Some ci"
    "x = \<lparr>rq_service_path = Some sp, rq_hop_count = hop_count (snd knh), nh_id = conn_id ci,
      nh_service_path = Some (remote_service_path ci), nh_scope = conn_type_num (connection_type ci)\<rparr>"
    using assms by (auto simp: export_entry_def split: exec.splits option.splits)
  then show ?thesis
    using scope_name_conn_type [of "connection_type ci"] by (auto simp: route_row_def shows_route_def)
qed

lemma export_entries_rows:
  "export_entries knhs = Ok es \<Longrightarrow> \<exists>rows. traverse route_row es = Ok rows \<and> list_all2 shows_route knhs rows"
proof (induction knhs arbitrary: es)
  case (Cons knh knhs)
  then obtain x xs where "export_entry knh = Ok x" "export_entries knhs = Ok xs" "es = x # xs"
    by (auto simp: bind_exec_Ok_iff)
  with Cons.IH [of xs] export_entry_row [of knh x] show ?case by fastforce
qed auto

lemma export_routes_Ok:
  assumes "\<forall>(k, nh) \<in> set (routes s). nh_type nh = NhRemote \<longrightarrow> nh_conn_info nh \<noteq> None"
  shows "\<exists>es. export_routes s None = Ok es"
proof -
  have "\<exists>es. export_entries knhs = Ok es"
    if "set knhs \<subseteq> set (filter (export_filter None) (routes s))" for knhs
    using that
  proof (induction knhs)
    case (Cons knh knhs)
    obtain k nh where knh: "knh = (k, nh)" by (cases knh)
    with Cons.prems assms have "export_filter None (k, nh)" "nh_type nh = NhRemote \<longrightarrow> nh_conn_info nh \<noteq> None"
      by auto
    then have "\<exists>x. export_entry (k, nh) = Ok x"
      by (auto simp: export_filter_def export_entry_def split: exec.splits if_splits option.splits)
    with Cons knh show ?case by auto
  qed simp
  then show ?thesis by (simp add: export_routes_def)
qed

lemma export_filter_None: "export_filter None (k, nh) \<longleftrightarrow> nh_type nh = NhRemote"
  by (simp add: export_filter_def from_string_def Let_def)

lemma management_answer:
  assumes "find_route (routes s) (stage_keys dest) = Some nl" "nh_type nl = NhLocal" "service_type dest = []"
    and "find_route (routes s) (stage_keys src) = Some nh" "nh_type nh = NhRemote" "conn_proxy nh = Some c"
    and "chans s c = Some ch" "rx_open ch" "length (queue ch) < cap ch" "export_routes s None = Ok es"
  shows "\<exists>s' i. process_data_message s (new_message (new_header src dest rid) (ManagementRequest 0 [])) =
      Some (s', Ok ()) \<and>
    map_option queue (chans s' c) = Some (queue ch @ [new_message ((new_header dest src i)\<lparr>ttl := 63\<rparr>)
      (Response ((response_ok rid)\<lparr>resp_body := Some (RouteQueryResult es)\<rparr>))])"
proof -
  let ?req = "new_message (new_header src dest rid) (ManagementRequest 0 [])"
  obtain i s1 where g: "generate_message_id s = (i, s1)" by fastforce
  then have s1: "routes s1 = routes s" "chans s1 = chans s"
    by (auto simp: generate_message_id_def generate_def Let_def)
  let ?m = "new_message (new_header dest src i) (Response ((response_ok rid)\<lparr>resp_body := Some (RouteQueryResult es)\<rparr>))"
  have q: "queue_message nl s ?req = (s1, Ok (Some ?m))"
    using assms(2,3,10) g
    by (simp add: queue_message_def process_local_message_def process_mgmt_request_def respond_def as_response_def
        management_request_type_of_def new_message_def new_header_def new_response_def)
  have m: "header ?m = Some (new_header dest src i)" by (simp add: new_message_def)
  have r: "route_message s1 ?m = Some (s1\<lparr>chans := (chans s1)(c \<mapsto> ch\<lparr>queue := queue ch @
      [?m\<lparr>header := Some ((new_header dest src i)\<lparr>ttl := ttl (new_header dest src i) - 1\<rparr>)\<rparr>]\<rparr>)\<rparr>, Ok ())"
    by (rule route_forward_step [OF m]) (use assms s1 in \<open>simp_all add: new_header_def\<close>)
  have "route_message s ?req = Some (s1\<lparr>chans := (chans s1)(c \<mapsto> ch\<lparr>queue := queue ch @
      [?m\<lparr>header := Some ((new_header dest src i)\<lparr>ttl := 63\<rparr>)\<rparr>]\<rparr>)\<rparr>, Ok ())"
    using assms(1) q r
    by (subst route_message.simps) (simp add: new_message_def new_header_def)
  then show ?thesis
    by (auto simp: process_data_message_def validate_message_common_def new_message_def new_header_def)
qed

lemma show_handle_answered:
  assumes "room (cr_edge r)" "cr_inbox r = (t, m) # rest" "t < cr_now r + 10000"
    and "body m = Some (Response resp)" "request_id resp = next_id (cr_ids r)" "error_code resp = code_num CodeOk"
    and "process_response env cmd resp = Ok ls"
  shows "\<exists>r1. show_handle env cmd hdl sp r = Some (Ok r1) \<and> cr_lines r1 = cr_lines r @ ls \<and>
    queue (local_msgs (cr_edge r1)) =
      queue (local_msgs (cr_edge r)) @ [create_request cmd sp (cli_sp sp ''show'') (next_id (cr_ids r))]"
proof -
  have ok: "rr_code (from_code (error_code resp) s x) = CodeOk" for s x
    using assms(6) by (simp only: from_code_CodeOk)
  have "room (cr_edge (open_handler hdl p r))" for p
    using assms(1) by (simp add: room_def open_handler_def add_handler_def Let_def)
  moreover have "local_msgs (cr_edge (open_handler hdl p r)) = local_msgs (cr_edge r)" for p
    by (simp add: open_handler_def add_handler_def Let_def)
  ultimately show ?thesis
    using assms ok
    by (simp add: show_handle_def Let_def generate_def send_unwrap_room await_response_def wait_takes
        show_lines_def open_handler_def)
qed

text \<open>
  (C20) \<open>show swbusd route\<close> shows the route table of the daemon. The tool puts one request in the queue of its
  message router. A daemon that takes this request in, has the path of the tool under a route with room in
  its connection and knows the connection of every remote next hop, puts exactly one message \<open>m\<close>, the
  answer, in the queue of that connection; and when \<open>m\<close> is the next message the tool receives, within ten seconds,
  the command prints one table. It has exactly one row for each entry of the route table with a remote next hop, in
  the order of the table: its path, its hop count, and the id and the path of the next hop. These are the entries of other
  nodes and those of the local services, the tool itself included; only the routes of the daemon itself are left out.
\<close>

theorem show_routes_displays_table:
  assumes "find_route (routes s) (stage_keys (to_swbusd_service_path sp)) = Some nl" "nh_type nl = NhLocal"
    and "find_route (routes s) (stage_keys (cli_sp sp ''show'')) = Some nh" "nh_type nh = NhRemote"
    and "conn_proxy nh = Some c" "chans s c = Some ch" "rx_open ch" "length (queue ch) < cap ch"
    and "\<forall>(k, x) \<in> set (routes s). nh_type x = NhRemote \<longrightarrow> nh_conn_info x \<noteq> None"
    and "room (cr_edge r)" "t < cr_now r + 10000"
  shows "\<exists>s' m rows r1.
    queue (local_msgs (cr_edge r1)) = queue (local_msgs (cr_edge r)) @
      [create_request ShowSwbusdRoute sp (cli_sp sp ''show'') (next_id (cr_ids r))] \<and>
    process_data_message s (create_request ShowSwbusdRoute sp (cli_sp sp ''show'') (next_id (cr_ids r))) =
      Some (s', Ok ()) \<and>
    map_option queue (chans s' c) = Some (queue ch @ [m]) \<and>
    list_all2 shows_route (filter (\<lambda>(k, x). nh_type x = NhRemote) (routes s)) rows \<and>
    show_handle env ShowSwbusdRoute hdl sp (r\<lparr>cr_inbox := (t, m) # rest\<rparr>) = Some (Ok r1) \<and>
    cr_lines r1 = cr_lines r @ [RouteTable rows]"
proof -
  obtain es where es: "export_routes s None = Ok es" using export_routes_Ok [OF assms(9)] by blast
  have rem: "filter (export_filter None) (routes s) = filter (\<lambda>(k, x). nh_type x = NhRemote) (routes s)"
    by (rule filter_cong) (auto simp: export_filter_None)
  obtain rows where rows: "traverse route_row es = Ok rows"
    "list_all2 shows_route (filter (export_filter None) (routes s)) rows"
    using export_entries_rows es unfolding export_routes_def by blast
  obtain s' i where s': "process_data_message s (create_request ShowSwbusdRoute sp (cli_sp sp ''show'')
      (next_id (cr_ids r))) = Some (s', Ok ())"
    "map_option queue (chans s' c) = Some (queue ch @ [new_message
      ((new_header (to_swbusd_service_path sp) (cli_sp sp ''show'') i)\<lparr>ttl := 63\<rparr>)
      (Response ((response_ok (next_id (cr_ids r)))\<lparr>resp_body := Some (RouteQueryResult es)\<rparr>))])"
    using management_answer [OF assms(1,2) _ assms(3-8) es, of "next_id (cr_ids r)"]
    unfolding create_request_def show_route_request_def by (auto simp: to_swbusd_service_path_def)
  let ?m = "new_message ((new_header (to_swbusd_service_path sp) (cli_sp sp ''show'') i)\<lparr>ttl := 63\<rparr>)
      (Response ((response_ok (next_id (cr_ids r)))\<lparr>resp_body := Some (RouteQueryResult es)\<rparr>))"
  have "\<exists>r1. show_handle env ShowSwbusdRoute hdl sp (r\<lparr>cr_inbox := (t, ?m) # rest\<rparr>) = Some (Ok r1) \<and>
      cr_lines r1 = cr_lines (r\<lparr>cr_inbox := (t, ?m) # rest\<rparr>) @ [RouteTable rows] \<and>
      queue (local_msgs (cr_edge r1)) = queue (local_msgs (cr_edge (r\<lparr>cr_inbox := (t, ?m) # rest\<rparr>))) @
        [create_request ShowSwbusdRoute sp (cli_sp sp ''show'') (next_id (cr_ids (r\<lparr>cr_inbox := (t, ?m) # rest\<rparr>)))]"
    by (rule show_handle_answered [where t = t and m = ?m and rest = rest and
          resp = "(response_ok (next_id (cr_ids r)))\<lparr>resp_body := Some (RouteQueryResult es)\<rparr>"])
      (use assms(10,11) rows in
        \<open>simp_all add: new_message_def response_ok_def process_response_def show_route_response_def\<close>)
  with s' rows(2) rem show ?thesis by auto
qed

section \<open>Show the state of an actor\<close>

text \<open>
  \<open>show hamgrd actor\<close> shows the tables of the actor: the driver answers the request with the dump
  of its state without changing a table, and when the answer is back within ten seconds and its text
  reads back as the dump, the command prints one row for each entry of the incoming, the internal and
  the sent table.
\<close>

theorem show_actor_displays_state:
  assumes "queued_messages (dstate d) = []" "ce_dump_of env (dump (dstate d)) = Ok (dump_state (dstate d))"
    and "room (cr_edge r)" "t < cr_now r + 10000"
  shows "\<exists>d' m r1.
    handle_management_request dump d (next_id (cr_ids r)) (cli_sp sp ''show'') HamgrdGetActorState = Ok d' \<and>
    wire (dstate d') = wire (dstate d) @ [m] \<and> dump_state (dstate d') = dump_state (dstate d) \<and>
    Option.bind (header m) destination = Some (cli_sp sp ''show'') \<and>
    show_handle env (ShowHamgrdActor path) hdl sp (r\<lparr>cr_inbox := (t, m) # rest\<rparr>) = Some (Ok r1) \<and>
    cr_lines r1 = cr_lines r @
      [IncomingTable (map (incoming_display env) (incoming (dstate d))),
       InternalTable (map (internal_display env) (internal (dstate d))),
       SentTable (map (sent_display env) (sent_messages (dstate d)))]"
proof -
  define m where "m = new_message (new_header (sc_source (client (dstate d))) (cli_sp sp ''show'')
      (fst (client_generate (client (dstate d)))))
    (Response \<lparr>request_id = next_id (cr_ids r), error_code = code_num CodeOk, error_message = [],
      resp_body = Some (ManagementQueryResult (dump (dstate d)))\<rparr>)"
  have "\<exists>r1. show_handle env (ShowHamgrdActor path) hdl sp (r\<lparr>cr_inbox := (t, m) # rest\<rparr>) = Some (Ok r1) \<and>
    cr_lines r1 = cr_lines (r\<lparr>cr_inbox := (t, m) # rest\<rparr>) @
      [IncomingTable (map (incoming_display env) (incoming (dstate d))),
       InternalTable (map (internal_display env) (internal (dstate d))),
       SentTable (map (sent_display env) (sent_messages (dstate d)))] \<and>
    queue (local_msgs (cr_edge r1)) = queue (local_msgs (cr_edge (r\<lparr>cr_inbox := (t, m) # rest\<rparr>))) @
      [create_request (ShowHamgrdActor path) sp (cli_sp sp ''show'') (next_id (cr_ids (r\<lparr>cr_inbox := (t, m) # rest\<rparr>)))]"
    by (rule show_handle_answered [where t = t and m = m and rest = rest and
          resp = "\<lparr>request_id = next_id (cr_ids r), error_code = code_num CodeOk,
          error_message = [], resp_body = Some (ManagementQueryResult (dump (dstate d)))\<rparr>"])
      (use assms in
        \<open>simp_all add: m_def new_message_def process_response_def show_actor_response_def dump_state_def\<close>)
  moreover have "\<exists>d'. handle_management_request dump d (next_id (cr_ids r)) (cli_sp sp ''show'')
      HamgrdGetActorState = Ok d' \<and> wire (dstate d') = wire (dstate d) @ [m] \<and>
      dump_state (dstate d') = dump_state (dstate d)"
    by (simp add: handle_management_request_def client_send_def outgoing_message_to_swbus_message_def
        send_raw_def m_def dump_state_def Let_def split: prod.split)
  moreover have "Option.bind (header m) destination = Some (cli_sp sp ''show'')"
    by (simp add: m_def new_message_def new_header_def)
  ultimately show ?thesis by auto
qed

text \<open>The daemon of node \<open>n1\<close> with a peer and with the connection of the tool on channel 8.\<close>

definition cli_conn :: conn_info where
  "cli_conn = new_server ConnLocal \<lparr>sock_ip = ''127.0.0.1'', sock_port = 4000\<rparr> (demo_svc ''n1'' ''cli'')"

definition cli_mux :: mux where
  "cli_mux =
     \<lparr>routes = [(''a.b.n1'', new_local), (''a.b.n2'', new_remote demo_conn 7 1),
        (''a.b.n1/cli/0'', new_remote cli_conn 8 1)],
      id_generator = new_id_generator 100,
      my_routes = [\<lparr>rc_key = demo_sp ''n1'', rc_scope = ScopeCluster\<rparr>],
      chans = [7 \<mapsto> new_chan 16, 8 \<mapsto> new_chan 16]\<rparr>"

lemma cli_mux_routes:
  "find_route (routes cli_mux) (stage_keys (to_swbusd_service_path (demo_svc ''n1'' ''cli''))) = Some new_local"
  "find_route (routes cli_mux) (stage_keys (cli_sp (demo_svc ''n1'' ''cli'') ''show'')) =
     Some (new_remote cli_conn 8 1)"
  by (simp_all add: cli_mux_def stage_keys_def to_swbusd_service_path_def demo_svc_def with_node_def cli_sp_def
      to_service_prefix_def to_node_prefix_def)

lemma cli_mux_exported:
  "filter (\<lambda>(k, x). nh_type x = NhRemote) (routes cli_mux) =
     [(''a.b.n2'', new_remote demo_conn 7 1), (''a.b.n1/cli/0'', new_remote cli_conn 8 1)]"
  "(from_string ''a.b.n2'' :: service_path result) = Ok (demo_sp ''n2'')"
  by (simp_all add: cli_mux_def export_filter_def new_local_def new_remote_def from_string_def resize_def eval_nat_numeral
      demo_sp_def with_node_def)

definition demo_env :: cli_env where
  "demo_env = \<lparr>ce_pretty = (\<lambda>_. None), ce_pretty_header = (\<lambda>_. None), ce_time = (\<lambda>_. None),
     ce_dump_of = (\<lambda>_. Ok (dump_state demo_state)), ce_lossy = id, ce_wall = 0\<rparr>"

theorem show_routes_displays_table_witness:
  "\<exists>s' m row0 row1 r1.
    process_data_message cli_mux (create_request ShowSwbusdRoute (demo_svc ''n1'' ''cli'')
      (cli_sp (demo_svc ''n1'' ''cli'') ''show'') 7) = Some (s', Ok ()) \<and>
    map_option queue (chans s' 8) = Some [m] \<and> rd_service_path row0 = ''a.b.n2'' \<and>
    show_handle demo_env ShowSwbusdRoute 3 (demo_svc ''n1'' ''cli'') (run_demo [(25, m)]) = Some (Ok r1) \<and>
    cr_lines r1 = [RouteTable [row0, row1]]"
proof -
  have "chans cli_mux 8 = Some (new_chan 16)" "rx_open (new_chan 16)" "length (queue (new_chan 16)) < cap (new_chan 16)"
    "\<forall>(k, x) \<in> set (routes cli_mux). nh_type x = NhRemote \<longrightarrow> nh_conn_info x \<noteq> None"
    "room (cr_edge (run_demo []))" "25 < cr_now (run_demo []) + 10000"
    by (simp_all add: cli_mux_def new_chan_def new_local_def new_remote_def run_demo_def room_def new_edge_def
        swbus_recv_queue_size_def)
  from show_routes_displays_table [OF cli_mux_routes(1) _ cli_mux_routes(2) _ _ this, of demo_env 3 "[]"]
  obtain s' m rows r1 where r1: "process_data_message cli_mux (create_request ShowSwbusdRoute (demo_svc ''n1'' ''cli'')
      (cli_sp (demo_svc ''n1'' ''cli'') ''show'') 7) = Some (s', Ok ())"
    "map_option queue (chans s' 8) = Some [m]" "cr_lines r1 = [RouteTable rows]"
    "list_all2 shows_route (filter (\<lambda>(k, x). nh_type x = NhRemote) (routes cli_mux)) rows"
    "show_handle demo_env ShowSwbusdRoute 3 (demo_svc ''n1'' ''cli'') (run_demo [(25, m)]) = Some (Ok r1)"
    by (auto simp: new_local_def new_remote_def new_chan_def run_demo_def new_id_generator_def)
  then obtain row0 row1 where rows: "rows = [row0, row1]" "shows_route (''a.b.n2'', new_remote demo_conn 7 1) row0"
    by (auto simp: cli_mux_exported list_all2_Cons1)
  then have "rd_service_path row0 = ''a.b.n2''"
    using cli_mux_exported(2) by (auto simp: shows_route_def to_longest_path_def demo_sp_def with_node_def)
  with r1 rows show ?thesis by blast
qed

theorem show_actor_displays_state_witness:
  "\<exists>d' m r1.
    handle_management_request (\<lambda>_. ''dump'') \<lparr>actor = (), dstate = demo_state, stopped = False\<rparr> 7
      (cli_sp (demo_svc ''n1'' ''cli'') ''show'') HamgrdGetActorState = Ok d' \<and>
    show_handle demo_env (ShowHamgrdActor (demo_svc ''n1'' ''hamgrd'')) 3 (demo_svc ''n1'' ''cli'') (run_demo [(25, m)]) = Some (Ok r1) \<and>
    cr_lines r1 = [IncomingTable [], InternalTable [], SentTable []]"
proof -
  have "room (cr_edge (run_demo []))" "25 < cr_now (run_demo []) + 10000"
    by (simp_all add: new_chan_def run_demo_def room_def new_edge_def swbus_recv_queue_size_def)
  from show_actor_displays_state [where d = "\<lparr>actor = (), dstate = demo_state, stopped = False\<rparr>"
      and dump = "\<lambda>_. ''dump''" and env = demo_env
      and sp = "demo_svc ''n1'' ''cli''" and path = "demo_svc ''n1'' ''hamgrd''" and hdl = 3 and rest = "[]",
      OF _ _ this]
  show ?thesis by (auto simp: run_demo_def new_id_generator_def demo_env_def)
qed

section \<open>Trace route\<close>

definition hop_reports :: "inbox \<Rightarrow> u64 \<Rightarrow> nat \<Rightarrow> cli_line \<Rightarrow> bool" where
  "hop_reports msgs rid k l =
     (case l of
        Hop i src el hops \<Rightarrow> i = k \<and>
          (\<exists>u m r hd1 sp. (u, m) \<in> set msgs \<and> body m = Some (Response r) \<and> request_id r = rid \<and>
             error_code r = code_num CodeOk \<and> header m = Some hd1 \<and> source hd1 = Some sp \<and>
             src = to_longest_path sp \<and> hops = ucast (64 - ttl hd1))
      | HopTimeout i \<Rightarrow> i = k
      | HopFailed i src c s \<Rightarrow> i = k
      | _ \<Rightarrow> False)"

lemma hop_reports_mono: "hop_reports msgs rid k l \<Longrightarrow> set msgs \<subseteq> set msgs' \<Longrightarrow> hop_reports msgs' rid k l"
  by (auto simp: hop_reports_def split: cli_line.splits) blast

lemma trace_line_reports:
  assumes "bounded_result rid L msgs (res, t, rest)" "addressed msgs"
  shows "\<exists>l found. trace_line cmd i el res = Ok (l, found) \<and> hop_reports msgs rid (i + 1) l \<and>
    (found \<longrightarrow> (\<exists>hops. l = Hop (i + 1) (to_longest_path (trace_dest cmd)) el hops))"
proof (cases "rr_msg res")
  case None
  with assms(1) have "rr_code res = Timeout \<or> rr_code res = Fail" by (simp add: bounded_result_def)
  with None show ?thesis by (auto simp: trace_line_def hop_reports_def)
next
  case (Some m)
  with assms(1) obtain u r where m: "(u, m) \<in> set msgs" "body m = Some (Response r)" "request_id r = rid"
    "res = from_code (error_code r) (error_message r) (Some m)"
    by (auto simp: bounded_result_def)
  with assms(2) obtain hd1 sp where hd1: "header m = Some hd1" "source hd1 = Some sp"
    by (fastforce simp: addressed_def)
  show ?thesis
  proof (cases "rr_code res = CodeOk")
    case True
    with m have "error_code r = code_num CodeOk" by (simp only: from_code_CodeOk)
    with True m hd1 show ?thesis by (auto simp: trace_line_def hop_reports_def intro!: exI [of _ u] exI [of _ m])
  next
    case False
    with Some hd1 show ?thesis
      by (cases "rr_code res") (auto simp: trace_line_def hop_reports_def source_of_def)
  qed
qed

text \<open>
  Trace route: when every message has a header and a source, the command ends without a panic
  after at most \<open>max_hop\<close> lines, numbered from 1, each about a response to its one request or a
  timeout; it stops early only behind a line that shows the answer of the destination itself, and
  it never waits longer than two timeouts for each line.
\<close>

theorem trace_route_stops_at_destination:
  assumes "addressed (cr_inbox r)"
  shows "\<exists>r1 ls. trace_loop cmd rid start n i r = Ok r1 \<and> cr_lines r1 = cr_lines r @ ls \<and> length ls \<le> n \<and>
    (\<forall>j < length ls. hop_reports (cr_inbox r) rid (i + j + 1) (ls ! j)) \<and>
    (length ls < n \<longrightarrow>
      (\<exists>k el hops. ls \<noteq> [] \<and> last ls = Hop k (to_longest_path (trace_dest cmd)) el hops)) \<and>
    cr_now r1 \<le> cr_now r + n * (2000 * unat (trace_timeout cmd))"
  using assms
proof (induction n arbitrary: i r)
  case (Suc n)
  obtain res t rest where w: "wait_for_response rid (1000 * unat (trace_timeout cmd)) (cr_now r) (cr_closed r)
      (cr_now r) (cr_inbox r) = (res, t, rest)"
    by (metis prod_cases3)
  have b: "bounded_result rid (cr_now r + 2 * (1000 * unat (trace_timeout cmd))) (cr_inbox r) (res, t, rest)"
    unfolding w [symmetric] by (rule wait_bounded) simp_all
  then have t: "t \<le> cr_now r + 2000 * unat (trace_timeout cmd)" and sub: "set rest \<subseteq> set (cr_inbox r)"
    by (simp_all add: bounded_result_def)
  obtain l found where l: "trace_line cmd i (t - start) res = Ok (l, found)"
    "hop_reports (cr_inbox r) rid (i + 1) l"
    "found \<longrightarrow> (\<exists>hops. l = Hop (i + 1) (to_longest_path (trace_dest cmd)) (t - start) hops)"
    using trace_line_reports [OF b Suc.prems] by blast
  define r1 where "r1 = log_line l (r\<lparr>cr_now := t, cr_inbox := rest\<rparr>)"
  have r1: "cr_lines r1 = cr_lines r @ [l]" "cr_now r1 = t" "cr_inbox r1 = rest"
    by (simp_all add: r1_def log_line_def)
  have step: "trace_loop cmd rid start (Suc n) i r = (if found then Ok r1 else trace_loop cmd rid start n (Suc i) r1)"
    using w l(1) by (simp add: await_response_def r1_def)
  show ?case
  proof (cases found)
    case True
    with step l r1 t show ?thesis by (intro exI [of _ r1] exI [of _ "[l]"]) auto
  next
    case False
    have "addressed (cr_inbox r1)" using Suc.prems sub by (auto simp: addressed_def r1)
    from Suc.IH [OF this, of "Suc i"] obtain r2 ls where r2: "trace_loop cmd rid start n (Suc i) r1 = Ok r2"
      "cr_lines r2 = cr_lines r1 @ ls" "length ls \<le> n"
      "\<forall>j < length ls. hop_reports rest rid (Suc i + j + 1) (ls ! j)"
      "length ls < n \<longrightarrow> (\<exists>k el hops. ls \<noteq> [] \<and> last ls = Hop k (to_longest_path (trace_dest cmd)) el hops)"
      "cr_now r2 \<le> t + n * (2000 * unat (trace_timeout cmd))"
      by (auto simp: r1)
    have "hop_reports (cr_inbox r) rid (i + j + 1) ((l # ls) ! j)" if "j < length (l # ls)" for j
      using that l(2) r2(4) hop_reports_mono [OF _ sub] by (cases j) auto
    with False step r1(1) r2 t show ?thesis by (intro exI [of _ r2] exI [of _ "l # ls"]) auto
  qed
qed auto

theorem trace_route_stops_at_destination_witness:
  "\<exists>r1 ls. trace_loop \<lparr>trace_timeout = 1, trace_max_hop = 10, trace_dest = demo_svc ''n2'' ''y''\<rparr> 7 0 10 0
       (run_demo [(20, reply_to 7)]) = Ok r1 \<and> cr_lines r1 = ls \<and> length ls \<le> 10 \<and> cr_now r1 \<le> 20000"
proof -
  have "addressed (cr_inbox (run_demo [(20, reply_to 7)]))"
    by (simp add: addressed_def reply_to_def new_message_def new_header_def run_demo_def)
  from trace_route_stops_at_destination [OF this, of
      "\<lparr>trace_timeout = 1, trace_max_hop = 10, trace_dest = demo_svc ''n2'' ''y''\<rparr>" 7 0 10 0]
  show ?thesis by (auto simp: run_demo_def)
qed

end
