(* ===== verification/Swbus_Net.thy ===== *)
theory Swbus_Net
  imports Swbus_Conn Swbus_Edge
begin

text \<open>
  A bus daemon with the runtimes that are connected to it. First the handshakes: how a runtime
  (\<open>SwbusCoreClient::connect\<close> in \<open>core_client.rs\<close>) and another daemon (\<open>SwbusConn::connect\<close> in \<open>conn.rs\<close>)
  announce themselves in the metadata of the stream and what \<open>stream_messages\<close> of the daemon makes
  of it. Then the composition: a daemon (\<open>Swbus_Conn\<close>) and numbered runtimes (\<open>Swbus_Edge\<close>) that exchange
  messages over the queues of their streams, as the step relation \<open>net_step\<close>.

  The transport is the record \<open>transport\<close>: which URIs are endpoints, which endpoints can be reached,
  which texts are metadata values. A stream delivers the messages of the queue behind it in their
  order; a message in transit counts as still in that queue.

  The properties: both handshakes give the daemon the path and the type that were announced; requests reach a
  handler only if somebody sent them, with the same source, destination, id and body; a message between two
  runtimes takes five steps from the sender's queue to the receiver's handler.
\<close>

section \<open>Handshakes\<close>

record transport =
  tp_endpoint :: "string \<Rightarrow> bool"
  tp_reachable :: "string \<Rightarrow> bool"
  tp_metadata :: "string \<Rightarrow> bool"

text \<open>
  The result of the client: the connection of the daemon that serves it. A value that cannot be
  metadata is unwrapped. The texts of the transport are left out of the errors.
\<close>

definition core_connect ::
    "transport \<Rightarrow> string \<Rightarrow> service_path \<Rightarrow> socket_addr \<Rightarrow> host \<Rightarrow> host \<times> swbus_conn result" where
  "core_connect tp uri sp addr h =
     (if \<not> tp_endpoint tp uri then
        (h, err_of (mk_input InvalidArgs (Text ''Failed to create endpoint'')))
      else if \<not> tp_reachable tp uri then
        (h, err_of (mk_connection ConnectionErr (Text ''Failed to connect'')))
      else if \<not> tp_metadata tp (to_service_prefix sp) \<or> \<not> tp_metadata tp (conn_type_name ConnLocal) then (h, Panic)
      else
        (case accept_stream h addr (Some (to_service_prefix sp)) (Some (conn_type_name ConnLocal)) of
           (h1, Ok conn) \<Rightarrow> (establish h1 conn, Ok conn)
         | (h1, Err (InvalidArgument t)) \<Rightarrow> (h1, err_of (mk_connection ConnectionErr (Text t)))
         | (h1, Panic) \<Rightarrow> (h1, Panic)))"

text \<open>
  The client side of a connection between daemons. \<open>peer_connect\<close> changes both daemons: the client \<open>h\<close> starts its
  worker, the server \<open>g\<close> accepts the stream.
\<close>

definition socket_uri :: "socket_addr \<Rightarrow> string" where
  "socket_uri a = ''http://'' @ sock_ip a @ '':'' @ show_nat (unat (sock_port a))"

definition start_client_worker_task ::
    "transport \<Rightarrow> conn_info \<Rightarrow> socket_addr \<Rightarrow> host \<Rightarrow> host \<Rightarrow> host \<times> host \<times> swbus_conn result" where
  "start_client_worker_task tp ci addr h g =
     (case local_service_path ci of
        None \<Rightarrow> (h, g, Panic)
      | Some sp \<Rightarrow>
          if \<not> tp_metadata tp (sp_display sp) \<or> \<not> tp_metadata tp (conn_type_name (connection_type ci)) then (h, g, Panic)
          else
            (case stream_messages g addr (Some (sp_display sp)) (Some (conn_type_name (connection_type ci))) of
               (g1, Ok _) \<Rightarrow> (let (h1, conn) = start_worker_task h ci in (h1, g1, Ok conn))
             | (g1, Err (InvalidArgument t)) \<Rightarrow> (h, g1, err_of (mk_connection ConnectionErr (Text t)))
             | (g1, Panic) \<Rightarrow> (h, g1, Panic)))"

definition peer_connect ::
    "transport \<Rightarrow> conn_info \<Rightarrow> socket_addr \<Rightarrow> host \<Rightarrow> host \<Rightarrow> host \<times> host \<times> swbus_conn result" where
  "peer_connect tp ci addr h g =
     (let uri = socket_uri (remote_addr ci)
      in if \<not> tp_endpoint tp uri then (h, g, err_of (mk_input InvalidArgs (Text ''Failed to create endpoint'')))
         else if \<not> tp_reachable tp uri then (h, g, err_of (mk_connection ConnectionErr (Text ''Failed to connect'')))
         else start_client_worker_task tp ci addr h g)"

section \<open>The network\<close>

text \<open>
  \<open>n_links i\<close> is the daemon's connection of runtime \<open>i\<close>. \<open>n_sent\<close> records the messages that were handed to
  a runtime or that entered the daemon over a connection outside this network.
\<close>

record net =
  n_host :: host
  n_edges :: "nat \<Rightarrow> edge"
  n_links :: "nat \<rightharpoonup> swbus_conn"
  n_sent :: "swbus_message list"

definition put_edge :: "net \<Rightarrow> nat \<Rightarrow> edge \<Rightarrow> net" where
  "put_edge n i e = n\<lparr>n_edges := (n_edges n)(i := e)\<rparr>"

text \<open>The connect task of runtime \<open>i\<close>: one successful turn of its loop.\<close>

definition net_connect :: "transport \<Rightarrow> string \<Rightarrow> socket_addr \<Rightarrow> nat \<Rightarrow> net \<Rightarrow> net" where
  "net_connect tp uri addr i n =
     (case core_connect tp uri (base_sp (n_edges n i)) addr (n_host n) of
        (h, Ok conn) \<Rightarrow>
          (put_edge n i (core_connected (n_edges n i)))\<lparr>n_host := h, n_links := (n_links n)(i \<mapsto> conn)\<rparr>
      | (h, _) \<Rightarrow> n\<lparr>n_host := h\<rparr>)"

text \<open>
  The transport hands the daemon's worker the next message of runtime \<open>i\<close> (\<open>net_up\<close>), and the runtime's receive task
  the next message of its connection (\<open>net_down\<close>). \<open>None\<close>: there is nothing to hand over, or the
  call does not return. The flag says whether the task survives.
\<close>

definition net_up :: "nat \<Rightarrow> net \<Rightarrow> (net \<times> bool) option" where
  "net_up i n =
     (case (n_links n i, swbusd_tx (n_edges n i)) of
        (Some conn, Some ch) \<Rightarrow>
          (case (if conn \<in> set (workers (n_host n)) then queue ch else []) of
             [] \<Rightarrow> None
           | m # ms \<Rightarrow>
               map_option (\<lambda>(s, r).
                 ((put_edge n i ((n_edges n i)\<lparr>swbusd_tx := Some (ch\<lparr>queue := ms\<rparr>)\<rparr>))\<lparr>n_host := (n_host n)\<lparr>hmux := s\<rparr>\<rparr>,
                  r \<noteq> Panic)) (process_data_message (hmux (n_host n)) m))
      | _ \<Rightarrow> None)"

definition net_down :: "nat \<Rightarrow> net \<Rightarrow> (net \<times> bool) option" where
  "net_down i n =
     (case n_links n i of
        None \<Rightarrow> None
      | Some conn \<Rightarrow>
          (case chans (hmux (n_host n)) (send_queue_tx conn) of
             None \<Rightarrow> None
           | Some ch \<Rightarrow>
               (case queue ch of
                  [] \<Rightarrow> None
                | m # ms \<Rightarrow>
                    (let h = (n_host n)\<lparr>hmux := deliver (hmux (n_host n)) (send_queue_tx conn)\<rparr>;
                         (e, r) = process_incoming_message (n_edges n i) m
                     in Some ((put_edge n i e)\<lparr>n_host := h\<rparr>, r \<noteq> Panic)))))"

text \<open>
  The stream of runtime \<open>i\<close> ends: the receive task of the runtime is over, its queue is cleared, and the worker of the
  daemon, if it is still there, ends with an error. A worker that panicked is gone without that.
\<close>

definition net_lost :: "nat \<Rightarrow> swbus_conn \<Rightarrow> bool \<Rightarrow> net \<Rightarrow> net" where
  "net_lost i conn alive n =
     (put_edge n i (core_disconnected (n_edges n i)))
       \<lparr>n_links := (n_links n)(i := None),
        n_host := (if alive \<and> conn \<in> set (workers (n_host n)) then worker_exit (n_host n) conn StreamError
                   else (n_host n)\<lparr>workers := remove1 conn (workers (n_host n))\<rparr>)\<rparr>"

fun event_message :: "host_event \<Rightarrow> swbus_message list" where
  "event_message (Receive conn m) = [m]"
| "event_message (ReceivePanic conn m) = [m]"
| "event_message ev = []"

inductive net_step :: "transport \<Rightarrow> net \<Rightarrow> net \<Rightarrow> bool" for tp where
  connect: "n_links n i = None \<Longrightarrow> net_step tp n (net_connect tp uri addr i n)"
| send: "edge_send (n_edges n i) m = Some (e, r) \<Longrightarrow> net_step tp n ((put_edge n i e)\<lparr>n_sent := m # n_sent n\<rparr>)"
| route_local: "route_next_local (n_edges n i) = Some e \<Longrightarrow> net_step tp n (put_edge n i e)"
| route_remote: "route_next_remote (n_edges n i) = Some e \<Longrightarrow> net_step tp n (put_edge n i e)"
| handle: "handler_chans (n_edges n i) hdl = Some ch \<Longrightarrow> queue ch = m # ms \<Longrightarrow>
    net_step tp n (put_edge n i ((n_edges n i)\<lparr>handler_chans := (handler_chans (n_edges n i))(hdl \<mapsto> ch\<lparr>queue := ms\<rparr>)\<rparr>))"
| up: "net_up i n = Some (n', True) \<Longrightarrow> net_step tp n n'"
| up_panic: "net_up i n = Some (n', False) \<Longrightarrow> n_links n i = Some conn \<Longrightarrow> net_step tp n (net_lost i conn False n')"
| down: "net_down i n = Some (n', True) \<Longrightarrow> net_step tp n n'"
| down_panic: "net_down i n = Some (n', False) \<Longrightarrow> n_links n i = Some conn \<Longrightarrow> net_step tp n (net_lost i conn True n')"
| lost: "n_links n i = Some conn \<Longrightarrow> net_step tp n (net_lost i conn True n)"
| outside: "host_step (n_host n) ev h \<Longrightarrow> net_step tp n (n\<lparr>n_host := h, n_sent := event_message ev @ n_sent n\<rparr>)"

text \<open>The network starts with a started daemon and fresh runtimes.\<close>

inductive net_reachable :: "transport \<Rightarrow> net \<Rightarrow> bool" for tp where
  start: "service_start (new_host t) rs ps = (h, Ok ()) \<Longrightarrow>
    net_reachable tp \<lparr>n_host = h, n_edges = (\<lambda>i. new_edge (sps i)), n_links = Map.empty, n_sent = []\<rparr>"
| add_handler: "net_reachable tp n \<Longrightarrow>
    net_reachable tp (put_edge n i (fst (new_simple_client (n_edges n i) sp public sink t hdl)))"
| step: "net_reachable tp n \<Longrightarrow> net_step tp n n' \<Longrightarrow> net_reachable tp n'"

section \<open>What the daemon learns from a handshake\<close>

lemma conn_type_of_name_name [simp]: "conn_type_of_name (conn_type_name c) = Some c"
  by (cases c) (simp_all add: conn_type_of_name_def)

lemma from_string_service_prefix:
  assumes "sp_clean sp"
  shows "from_string (to_service_prefix sp) = Ok (sp\<lparr>resource_type := [], resource_id := []\<rparr>)"
proof -
  let ?ps = "[region_id sp @ CHR ''.'' # cluster_id sp @ CHR ''.'' # node_id sp, service_type sp, service_id sp]"
  have "to_service_prefix sp = join_with CHR ''/'' ?ps"
    by (simp add: to_service_prefix_def)
  moreover have "from_string (join_with CHR ''/'' ?ps) = Ok \<lparr>region_id = region_id sp, cluster_id = cluster_id sp,
      node_id = node_id sp, service_type = service_type sp, service_id = service_id sp, resource_type = [], resource_id = []\<rparr>"
    by (rule from_string_slashes) (use assms in \<open>auto simp: eval_nat_numeral str_simps\<close>)
  ultimately show ?thesis by (cases sp) simp
qed

lemma service_prefix_drop_resource [simp]:
  "to_service_prefix (sp\<lparr>resource_type := rt, resource_id := ri\<rparr>) = to_service_prefix sp"
  by (simp add: to_service_prefix_def)

lemma core_connect_accepted:
  assumes "sp_clean sp" "tp_endpoint tp uri" "tp_reachable tp uri" "tp_metadata tp (to_service_prefix sp)"
    "tp_metadata tp (conn_type_name ConnLocal)"
  shows "core_connect tp uri sp addr h =
    (let (h1, conn) = start_worker_task h (new_server ConnLocal addr (sp\<lparr>resource_type := [], resource_id := []\<rparr>))
     in (establish h1 conn, Ok conn))"
  using assms conn_type_of_name_name [of ConnLocal]
  by (simp add: core_connect_def accept_stream_def from_string_service_prefix split_beta)

text \<open>
  A runtime that connects is known to the daemon by the path it announced: the connection is of the local type, its
  path is that of the runtime without the resource, and unless the daemon has an offer for the service already, the
  route of the service leads to the queue of the new connection.
\<close>
theorem runtime_handshake_registers:
  assumes "sp_clean sp" "tp_endpoint tp uri" "tp_reachable tp uri" "tp_metadata tp (to_service_prefix sp)"
    "tp_metadata tp (conn_type_name ConnLocal)" "map_of (routes (hmux h)) (to_service_prefix sp) = None"
  shows "\<exists>h' conn. core_connect tp uri sp addr h = (h', Ok conn) \<and> conn \<in> set (workers h') \<and>
    connection_type (info conn) = ConnLocal \<and>
    remote_service_path (info conn) = sp\<lparr>resource_type := [], resource_id := []\<rparr> \<and>
    map_of (routes (hmux h')) (to_service_prefix sp) = Some (new_remote (info conn) (send_queue_tx conn) 1) \<and>
    chans (hmux h') (send_queue_tx conn) = Some (new_chan 16)"
  using core_connect_accepted [OF assms(1-5), of addr h] assms(6)
  by (simp add: Let_def start_worker_task_def establish_def conn_established_def register_def route_key_def
      update_route_def new_server_def alist_simps)

text \<open>A daemon that connects to another one is known there by the path and the type of its configuration.\<close>

theorem peer_handshake_registers:
  assumes "local_service_path ci = Some sp" "sp_clean sp" "tp_endpoint tp (socket_uri (remote_addr ci))"
    "tp_reachable tp (socket_uri (remote_addr ci))" "tp_metadata tp (sp_display sp)"
    "tp_metadata tp (conn_type_name (connection_type ci))"
    "map_of (routes (hmux g)) (route_key (new_server (connection_type ci) addr sp)) = None"
  shows "\<exists>h' g' conn c. peer_connect tp ci addr h g = (h', g', Ok conn) \<and> info conn = ci \<and> conn \<in> set (pending h') \<and>
    map_of (routes (hmux g')) (route_key (new_server (connection_type ci) addr sp)) =
      Some (new_remote (new_server (connection_type ci) addr sp) c 1)"
  using assms
  by (simp add: peer_connect_def start_client_worker_task_def stream_messages_def accept_stream_def
      from_string_display Let_def start_worker_task_def establish_def conn_established_def register_def
      update_route_def alist_simps) blast

section \<open>Requests were sent\<close>

definition set_ttl :: "u32 \<Rightarrow> swbus_message \<Rightarrow> swbus_message" where
  "set_ttl t m = m\<lparr>header := map_option (\<lambda>h. h\<lparr>ttl := t\<rparr>) (header m)\<rparr>"

definition resp_msg :: "swbus_message \<Rightarrow> bool" where
  "resp_msg m \<longleftrightarrow> (\<exists>r. body m = Some (Response r))"

definition chan_msgs :: "swbus_message chan option \<Rightarrow> swbus_message set" where
  "chan_msgs c = (case c of None \<Rightarrow> {} | Some ch \<Rightarrow> set (queue ch))"

definition mux_msgs :: "mux \<Rightarrow> swbus_message set" where
  "mux_msgs s = (\<Union>c. chan_msgs (chans s c))"

definition edge_msgs :: "edge \<Rightarrow> swbus_message set" where
  "edge_msgs e = set (queue (local_msgs e)) \<union> set (queue (remote_msgs e)) \<union> (\<Union>h. chan_msgs (handler_chans e h))
     \<union> chan_msgs (swbusd_tx e)"

definition net_msgs :: "net \<Rightarrow> swbus_message set" where
  "net_msgs n = mux_msgs (hmux (n_host n)) \<union> (\<Union>i. edge_msgs (n_edges n i))"

text \<open>A message is genuine with respect to what was sent when it is a sent message up to its TTL, or a response.\<close>

definition genuine :: "swbus_message list \<Rightarrow> swbus_message \<Rightarrow> bool" where
  "genuine S m \<longleftrightarrow> resp_msg m \<or> (\<exists>m0 \<in> set S. m = m0 \<or> (\<exists>t. m = set_ttl t m0))"

definition copies :: "swbus_message \<Rightarrow> swbus_message set" where
  "copies m = {x. resp_msg x \<or> x = m \<or> (\<exists>t. x = set_ttl t m)}"

lemma set_ttl_set_ttl [simp]: "set_ttl t (set_ttl u m) = set_ttl t m"
  by (cases "header m") (simp_all add: set_ttl_def)

lemma resp_msg_set_ttl [simp]: "resp_msg (set_ttl t m) = resp_msg m"
  by (simp add: resp_msg_def set_ttl_def)

lemma copies_response: "resp_msg r \<Longrightarrow> copies r \<subseteq> copies m"
  by (auto simp: copies_def)

lemma genuine_copies: "genuine S m \<Longrightarrow> x \<in> copies m \<Longrightarrow> genuine S x"
  unfolding genuine_def copies_def mem_Collect_eq by (metis resp_msg_set_ttl set_ttl_set_ttl)

lemma genuine_mono: "set S \<subseteq> set T \<Longrightarrow> genuine S m \<Longrightarrow> genuine T m"
  by (auto simp: genuine_def)

lemma new_response_resp_msg: "new_response req src code text i rb = Ok m \<Longrightarrow> resp_msg m"
  by (auto simp: new_response_Ok_iff resp_msg_def new_message_def split: option.splits)

lemma chan_msgs_simps [simp]:
  "chan_msgs None = {}" "chan_msgs (Some ch) = set (queue ch)"
  by (simp_all add: chan_msgs_def)

lemma mux_msgs_upd:
  "chans t = (chans s)(c \<mapsto> ch) \<Longrightarrow> mux_msgs t \<subseteq> mux_msgs s \<union> set (queue ch)"
  by (auto simp: mux_msgs_def split: if_splits)

lemma mux_msgs_same: "chans t = chans s \<Longrightarrow> mux_msgs t = mux_msgs s"
  by (simp add: mux_msgs_def)

lemma mux_msgs_at: "chans s c = Some ch \<Longrightarrow> set (queue ch) \<subseteq> mux_msgs s"
  unfolding mux_msgs_def by (rule subset_trans [OF _ UN_upper [of c]]) simp_all

lemma generate_msgs [simp]: "mux_msgs (snd (generate_message_id s)) = mux_msgs s"
  by (simp add: generate_message_id_def generate_def mux_msgs_def)

lemma respond_msgs: "mux_msgs (fst (respond s m src c t rb)) = mux_msgs s"
  by (simp add: respond_fst)

lemma respond_resp_msg: "snd (respond s m src c t rb) = Ok r \<Longrightarrow> resp_msg r"
  by (auto simp: respond_def intro: new_response_resp_msg split: prod.splits)

lemma try_queue_msgs: "mux_msgs (fst (try_queue s c m)) \<subseteq> insert m (mux_msgs s)"
proof (cases "chans s c")
  case (Some ch)
  show ?thesis
  proof (cases "try_send ch m")
    case (Ok ch')
    then have "mux_msgs (fst (try_queue s c m)) \<subseteq> mux_msgs s \<union> set (queue ch')"
      using Some by (intro mux_msgs_upd) (simp add: try_queue_def)
    with Ok mux_msgs_at [OF Some] show ?thesis by (auto simp: try_send_Ok_iff)
  qed (use Some in \<open>auto simp: try_queue_def split: try_send_error.splits\<close>)
qed (auto simp: try_queue_def)

lemma process_local_msgs:
  "mux_msgs (fst (process_local_message s m)) = mux_msgs s"
  by (auto simp: process_local_message_def as_response_def respond_msgs process_ping_request_def
      process_mgmt_request_def split: option.splits exec.splits body.splits management_request_type.splits)

lemma process_local_resp:
  "snd (process_local_message s m) = Ok (Some r) \<Longrightarrow> resp_msg r"
  by (auto simp: process_local_message_def as_response_def process_ping_request_def process_mgmt_request_def
      bind_exec_Ok_iff err_of_def mk_input_def intro: respond_resp_msg
      split: option.splits exec.splits body.splits management_request_type.splits if_splits)

lemma queue_message_msgs: "mux_msgs (fst (queue_message nh s m)) \<subseteq> mux_msgs s \<union> copies m"
proof (cases "nh_type nh")
  case NhRemote
  show ?thesis
  proof (cases "header m")
    case (Some h)
    let ?m = "m\<lparr>header := Some (h\<lparr>ttl := ttl h - 1\<rparr>)\<rparr>"
    have "?m \<in> copies m"
      using Some by (auto simp: copies_def set_ttl_def intro!: exI [of _ "ttl h - 1"])
    then have "mux_msgs (fst (try_queue s c ?m)) \<subseteq> mux_msgs s \<union> copies m" for c
      using try_queue_msgs [of s c ?m] by auto
    moreover have "mux_msgs (fst (as_response (respond s ?m src c t rb))) = mux_msgs s" for src c t rb
      by (simp add: as_response_def respond_msgs)
    ultimately show ?thesis
      using Some NhRemote by (auto simp: queue_message_def Let_def split: option.splits exec.splits)
  qed (simp add: queue_message_def NhRemote)
qed (simp add: queue_message_def process_local_msgs)

lemma queue_message_resp: "snd (queue_message nh s m) = Ok (Some r) \<Longrightarrow> resp_msg r"
  by (auto simp: queue_message_def as_response_def bind_exec_Ok_iff Let_def
      intro: respond_resp_msg process_local_resp split: next_hop_type.splits option.splits exec.splits if_splits)

lemma no_route_msgs: "mux_msgs (fst (no_route_response s m)) = mux_msgs s"
  by (auto simp: no_route_response_def respond_msgs split: exec.splits)

lemma no_route_resp: "snd (no_route_response s m) = Ok r \<Longrightarrow> resp_msg r"
  by (auto simp: no_route_response_def intro: respond_resp_msg split: exec.splits)

lemma route_message_msgs:
  assumes "route_message s m = Some p"
  shows "mux_msgs (fst p) \<subseteq> mux_msgs s \<union> copies m"
  using assms
proof (rule route_message.raw_induct [where P = "\<lambda>s m p. mux_msgs (fst p) \<subseteq> mux_msgs s \<union> copies m", rotated])
  fix rec :: "mux \<Rightarrow> swbus_message \<Rightarrow> (mux \<times> unit result) option" and s m and p :: "mux \<times> unit result"
  assume IH: "\<And>s m p. rec s m = Some p \<Longrightarrow> mux_msgs (fst p) \<subseteq> mux_msgs s \<union> copies m"
  have qm: "mux_msgs (fst q) \<subseteq> mux_msgs s \<union> copies m"
    if "snd (queue_message nh s m) = Ok (Some r)" "rec (fst (queue_message nh s m)) r = Some q" for nh r q
    using IH [OF that(2)] queue_message_msgs [of nh s m] copies_response [OF queue_message_resp [OF that(1)], of m] by blast
  have nr: "mux_msgs (fst q) \<subseteq> mux_msgs s \<union> copies m"
    if "snd (no_route_response s m) = Ok r" "rec (fst (no_route_response s m)) r = Some q" for r q
    using IH [OF that(2)] no_route_msgs [of s m] copies_response [OF no_route_resp [OF that(1)], of m] by blast
  show "mux_msgs (fst p) \<subseteq> mux_msgs s \<union> copies m"
    if "(case header m of
        None \<Rightarrow> Some (s, err_of (mk_input InvalidHeader (Text ''missing message header'')))
      | Some h \<Rightarrow>
          (case destination h of
             None \<Rightarrow> Some (s, err_of (mk_input InvalidDestination (Text ''missing message destination'')))
           | Some dest \<Rightarrow>
               (case find_route (routes s) (stage_keys dest) of
                  None \<Rightarrow>
                    (case snd (no_route_response s m) of
                       Ok resp \<Rightarrow>
                         Option.bind (rec (fst (no_route_response s m)) resp)
                           (\<lambda>p. Some (fst p, unwrap_exec (snd p)))
                     | Err e \<Rightarrow> Some (fst (no_route_response s m), Panic)
                     | Panic \<Rightarrow> Some (fst (no_route_response s m), Panic))
                | Some nh \<Rightarrow>
                    (case snd (queue_message nh s m) of
                       Ok None \<Rightarrow> Some (fst (queue_message nh s m), Ok ())
                     | Ok (Some resp) \<Rightarrow>
                         Option.bind (rec (fst (queue_message nh s m)) resp)
                           (\<lambda>p. Some (fst p, unwrap_exec (snd p)))
                     | Err e \<Rightarrow> Some (fst (queue_message nh s m), Panic)
                     | Panic \<Rightarrow> Some (fst (queue_message nh s m), Panic))))) = Some p"
  proof -
    have "fst p = s \<or> (\<exists>nh. fst p = fst (queue_message nh s m)) \<or> fst p = fst (no_route_response s m) \<or>
        (\<exists>nh r q. snd (queue_message nh s m) = Ok (Some r) \<and> rec (fst (queue_message nh s m)) r = Some q \<and> fst p = fst q) \<or>
        (\<exists>r q. snd (no_route_response s m) = Ok r \<and> rec (fst (no_route_response s m)) r = Some q \<and> fst p = fst q)"
      using that by (auto simp: bind_eq_Some_conv split: option.splits exec.splits)
    then show ?thesis using qm nr queue_message_msgs no_route_msgs by (elim disjE exE conjE) auto
  qed
qed

lemma process_data_msgs:
  assumes "process_data_message s m = Some (t, r)"
  shows "mux_msgs t \<subseteq> mux_msgs s \<union> copies m"
proof -
  have trace: "mux_msgs t \<subseteq> mux_msgs s \<union> copies m"
    if "new_response m src c [] i rb = Ok resp" "generate_message_id s = (i, s1)"
      "Option.bind (route_message s1 resp) (trace_continue m my) = Some (t, r)" for src c i rb resp s1 my
  proof -
    from that(3) obtain p where p: "route_message s1 resp = Some p" "trace_continue m my p = Some (t, r)"
      by (auto simp: bind_eq_Some_conv)
    have "mux_msgs (fst p) \<subseteq> mux_msgs s \<union> copies m"
      using route_message_msgs [OF p(1)] copies_response [OF new_response_resp_msg [OF that(1)], of m]
        generate_msgs [of s] that(2) by auto
    with trace_continue_cases [OF p(2)] route_message_msgs [of "fst p" m "(t, r)"] show ?thesis by auto
  qed
  have "mux_msgs s1 = mux_msgs s" if "generate_message_id s = (i, s1)" for i s1
    using generate_msgs [of s] that by simp
  with assms trace route_message_msgs [of s m "(t, r)"] show ?thesis
    unfolding process_data_message_def by (auto split: exec.splits if_splits prod.splits)
qed

lemma deliver_msgs: "mux_msgs (deliver s c) \<subseteq> mux_msgs s"
proof (cases "chans s c")
  case (Some ch)
  have "mux_msgs (deliver s c) \<subseteq> mux_msgs s \<union> set (tl (queue ch))"
    using Some mux_msgs_upd [of "deliver s c" s c "ch\<lparr>queue := tl (queue ch)\<rparr>"] by (simp add: deliver_def)
  moreover have "set (tl (queue ch)) \<subseteq> set (queue ch)" by (cases "queue ch") auto
  ultimately show ?thesis using mux_msgs_at [OF Some] by blast
qed (simp add: deliver_def)

lemma unregister_msgs [simp]: "mux_msgs (unregister s ci) = mux_msgs s"
  by (simp add: unregister_def mux_msgs_def)

lemma worker_exit_msgs [simp]: "mux_msgs (hmux (worker_exit h conn e)) = mux_msgs (hmux h)"
  by (simp add: worker_exit_def unregister_def conn_lost_def start_connect_task_def Let_def mux_msgs_def
      split: worker_end.splits)

lemma establish_msgs [simp]: "mux_msgs (hmux (establish h conn)) = mux_msgs (hmux h)"
  by (simp add: establish_def conn_established_def register_def update_route_def mux_msgs_def split: option.splits)

lemma start_worker_msgs: "mux_msgs (hmux (fst (start_worker_task h ci))) \<subseteq> mux_msgs (hmux h)"
  using mux_msgs_upd [of "hmux (fst (start_worker_task h ci))" "hmux h" "Suc (fresh h)" "new_chan 16"]
  by (simp add: start_worker_task_def Let_def new_chan_def)

lemma accept_msgs: "mux_msgs (hmux (fst (accept_stream h addr p t))) \<subseteq> mux_msgs (hmux h)"
  using start_worker_msgs [of h]
  by (auto simp: accept_stream_def split: option.splits exec.splits)

lemma host_step_msgs:
  assumes "host_step h ev h'"
  shows "mux_msgs (hmux h') \<subseteq> mux_msgs (hmux h) \<union> (\<Union>m \<in> set (event_message ev). copies m)"
  using assms
proof cases
  case (accept addr p t)
  then show ?thesis using accept_msgs [of h addr p t] by simp
next
  case (connect_turn ct ok)
  let ?d = "h\<lparr>connect_tasks := remove1 ct (connect_tasks h)\<rparr>"
  have "mux_msgs (hmux (fst (start_worker_task ?d (ct_info ct)))) \<subseteq> mux_msgs (hmux h)"
    using start_worker_msgs [of ?d "ct_info ct"] by simp
  then show ?thesis
    using connect_turn by (simp add: connect_task_step_def Let_def split: connect_phase.splits)
next
  case (receive conn m s' r)
  then show ?thesis using process_data_msgs [of "hmux h" m s' r] by auto
next
  case (receive_panic conn m s')
  then show ?thesis using process_data_msgs [of "hmux h" m s' Panic] by auto
next
  case (deliver c)
  then show ?thesis using deliver_msgs [of "hmux h" c] by auto
next
  case (close_receiver c)
  then show ?thesis
    by (auto simp: Swbus_Conn.close_receiver_def mux_msgs_def split: option.splits if_splits)
qed (simp_all add: store_shutdown_def)

text \<open>A runtime moves messages between its queues and adds nothing.\<close>

lemma proxy_send_msgs: "proxy_send e hdl m = Some (e', r) \<Longrightarrow> edge_msgs e' \<subseteq> insert m (edge_msgs e)"
  by (auto simp: proxy_send_def edge_msgs_def send_async_cases split: option.splits exec.splits if_splits)

lemma core_send_msgs: "core_send e m = Some (e', r) \<Longrightarrow> edge_msgs e' \<subseteq> insert m (edge_msgs e)"
  by (auto simp: core_send_def edge_msgs_def send_async_cases split: option.splits exec.splits if_splits)

lemma try_route_msgs: "try_route e d pr m = Some (e', b) \<Longrightarrow> edge_msgs e' \<subseteq> insert m (edge_msgs e)"
  using proxy_send_msgs [of e _ m e'] by (fastforce simp: try_route_def split: option.splits)

lemma edge_route_msgs:
  assumes "edge_route_message e m pr = Some e'"
  shows "edge_msgs e' \<subseteq> insert m (edge_msgs e)"
proof -
  have step: "edge_msgs c \<subseteq> insert m (edge_msgs a)"
    if "edge_msgs b \<subseteq> insert m (edge_msgs a)" "edge_msgs c \<subseteq> insert m (edge_msgs b)" for a b c
    using that by blast
  show ?thesis
    using assms
    by (auto simp: edge_route_message_def Let_def bind_eq_Some_conv split: option.splits if_splits
        dest!: try_route_msgs core_send_msgs intro: subsetD [OF step, rotated 2])
qed

lemma take_local_msgs:
  assumes "queue (local_msgs e) = m # ms"
  shows "insert m (edge_msgs (e\<lparr>local_msgs := (local_msgs e)\<lparr>queue := ms\<rparr>\<rparr>)) = edge_msgs e"
  using assms by (auto simp: edge_msgs_def)

lemma take_remote_msgs:
  assumes "queue (remote_msgs e) = m # ms"
  shows "insert m (edge_msgs (e\<lparr>remote_msgs := (remote_msgs e)\<lparr>queue := ms\<rparr>\<rparr>)) = edge_msgs e"
  using assms by (auto simp: edge_msgs_def)

lemma route_next_msgs:
  "route_next_local e = Some e' \<Longrightarrow> edge_msgs e' \<subseteq> edge_msgs e"
  "route_next_remote e = Some e' \<Longrightarrow> edge_msgs e' \<subseteq> edge_msgs e"
  using edge_route_msgs take_local_msgs take_remote_msgs
  by (fastforce simp: route_next_local_def route_next_remote_def split: list.splits)+

lemma edge_send_msgs: "edge_send e m = Some (e', r) \<Longrightarrow> edge_msgs e' \<subseteq> insert m (edge_msgs e)"
  by (auto simp: edge_send_def edge_msgs_def send_async_cases split: if_splits)

lemma incoming_msgs: "process_incoming_message e m = (e', r) \<Longrightarrow> edge_msgs e' \<subseteq> insert m (edge_msgs e)"
  by (auto simp: process_incoming_message_def edge_msgs_def try_send_Ok_iff split: exec.splits)

lemma connection_msgs:
  "edge_msgs (core_connected e) \<subseteq> edge_msgs e" "edge_msgs (core_disconnected e) \<subseteq> edge_msgs e"
  by (auto simp: core_connected_def core_disconnected_def edge_msgs_def new_chan_def)

lemma new_client_msgs: "edge_msgs (fst (new_simple_client e sp public sink t hdl)) \<subseteq> edge_msgs e"
  by (auto simp: new_simple_client_def Let_def add_handler_def add_private_handler_def edge_msgs_def new_chan_def
      split: if_splits)

text \<open>How one runtime and the daemon of a network may change.\<close>

lemma net_msgs_put:
  assumes "edge_msgs e \<subseteq> edge_msgs (n_edges n i) \<union> A" "mux_msgs (hmux h) \<subseteq> mux_msgs (hmux (n_host n)) \<union> A"
  shows "net_msgs ((put_edge n i e)\<lparr>n_host := h\<rparr>) \<subseteq> net_msgs n \<union> A"
  using assms by (auto simp: net_msgs_def put_edge_def split: if_splits)

lemma net_msgs_edge: "edge_msgs e \<subseteq> edge_msgs (n_edges n i) \<union> A \<Longrightarrow> net_msgs (put_edge n i e) \<subseteq> net_msgs n \<union> A"
  using net_msgs_put [of e n i A "n_host n"] by (simp add: put_edge_def)

lemma net_msgs_edge0: "edge_msgs e \<subseteq> edge_msgs (n_edges n i) \<Longrightarrow> net_msgs (put_edge n i e) \<subseteq> net_msgs n"
  using net_msgs_edge [of e n i "{}"] by simp

lemma net_msgs_cong:
  "n_host n = n_host n' \<Longrightarrow> n_edges n = n_edges n' \<Longrightarrow> net_msgs n = net_msgs n'"
  by (simp add: net_msgs_def)

text \<open>What a step over a stream can leave in the queues: copies of what was there.\<close>

definition grown :: "net \<Rightarrow> swbus_message set" where
  "grown n = net_msgs n \<union> (\<Union>m \<in> net_msgs n. copies m)"

lemma net_up_msgs:
  assumes "net_up i n = Some (n', b)"
  shows "net_msgs n' \<subseteq> grown n" "n_sent n' = n_sent n"
proof -
  from assms obtain conn ch m ms s r where l: "n_links n i = Some conn" "swbusd_tx (n_edges n i) = Some ch"
    "queue ch = m # ms" "process_data_message (hmux (n_host n)) m = Some (s, r)"
    and n': "n' = (put_edge n i ((n_edges n i)\<lparr>swbusd_tx := Some (ch\<lparr>queue := ms\<rparr>)\<rparr>))\<lparr>n_host := (n_host n)\<lparr>hmux := s\<rparr>\<rparr>"
    by (auto simp: net_up_def split: option.splits list.splits if_splits)
  have "m \<in> edge_msgs (n_edges n i)" using l(2,3) by (simp add: edge_msgs_def)
  then have m: "m \<in> net_msgs n" by (auto simp: net_msgs_def)
  have "net_msgs n' \<subseteq> net_msgs n \<union> copies m"
    unfolding n'
    by (rule net_msgs_put) (use l(2,3) process_data_msgs [OF l(4)] in \<open>auto simp: edge_msgs_def\<close>)
  with m show "net_msgs n' \<subseteq> grown n" by (auto simp: grown_def)
  show "n_sent n' = n_sent n" by (simp add: n' put_edge_def)
qed

lemma net_down_msgs:
  assumes "net_down i n = Some (n', b)"
  shows "net_msgs n' \<subseteq> net_msgs n" "n_sent n' = n_sent n"
proof -
  from assms obtain conn where c: "n_links n i = Some conn"
    by (auto simp: net_down_def split: option.splits)
  with assms obtain ch where ch: "chans (hmux (n_host n)) (send_queue_tx conn) = Some ch"
    by (auto simp: net_down_def split: option.splits)
  with assms c obtain m ms where q: "queue ch = m # ms" by (auto simp: net_down_def split: list.splits)
  obtain e r where p: "process_incoming_message (n_edges n i) m = (e, r)" by fastforce
  note l = ch q p
  have n': "n' = (put_edge n i e)\<lparr>n_host := (n_host n)\<lparr>hmux := deliver (hmux (n_host n)) (send_queue_tx conn)\<rparr>\<rparr>"
    using assms c l by (simp add: net_down_def Let_def)
  have "m \<in> mux_msgs (hmux (n_host n))" using mux_msgs_at [OF l(1)] l(2) by auto
  then have m: "m \<in> net_msgs n" by (simp add: net_msgs_def)
  have "net_msgs n' \<subseteq> net_msgs n \<union> {m}"
    unfolding n' by (rule net_msgs_put) (use incoming_msgs [OF l(3)] deliver_msgs in auto)
  with m show "net_msgs n' \<subseteq> net_msgs n" by blast
  show "n_sent n' = n_sent n" by (simp add: n' put_edge_def)
qed

lemma net_lost_msgs: "net_msgs (net_lost i conn alive n) \<subseteq> net_msgs n" "n_sent (net_lost i conn alive n) = n_sent n"
proof -
  have "net_msgs (net_lost i conn alive n)
      = net_msgs ((put_edge n i (core_disconnected (n_edges n i)))\<lparr>n_host := n_host (net_lost i conn alive n)\<rparr>)"
    by (rule net_msgs_cong) (simp_all add: net_lost_def put_edge_def)
  also have "\<dots> \<subseteq> net_msgs n \<union> {}"
    by (rule net_msgs_put) (use connection_msgs in \<open>simp_all add: net_lost_def\<close>)
  finally show "net_msgs (net_lost i conn alive n) \<subseteq> net_msgs n" by simp
  show "n_sent (net_lost i conn alive n) = n_sent n" by (simp add: net_lost_def put_edge_def)
qed

lemma core_connect_msgs: "mux_msgs (hmux (fst (core_connect tp uri sp addr h))) \<subseteq> mux_msgs (hmux h)"
  using accept_msgs [of h addr "Some (to_service_prefix sp)" "Some (conn_type_name ConnLocal)"]
  by (auto simp: core_connect_def split: prod.splits exec.splits status.splits)

lemma net_connect_msgs: "net_msgs (net_connect tp uri addr i n) \<subseteq> net_msgs n" "n_sent (net_connect tp uri addr i n) = n_sent n"
proof -
  obtain h r where c: "core_connect tp uri (base_sp (n_edges n i)) addr (n_host n) = (h, r)" by fastforce
  have h: "mux_msgs (hmux h) \<subseteq> mux_msgs (hmux (n_host n)) \<union> {}"
    using core_connect_msgs [of tp uri "base_sp (n_edges n i)" addr "n_host n"] c by simp
  let ?e = "if is_ok r then core_connected (n_edges n i) else n_edges n i"
  have "net_msgs (net_connect tp uri addr i n) = net_msgs ((put_edge n i ?e)\<lparr>n_host := h\<rparr>)"
    by (rule net_msgs_cong) (use c in \<open>auto simp: net_connect_def put_edge_def split: exec.splits\<close>)
  also have "\<dots> \<subseteq> net_msgs n \<union> {}"
    by (rule net_msgs_put) (use connection_msgs h in auto)
  finally show "net_msgs (net_connect tp uri addr i n) \<subseteq> net_msgs n" by simp
  show "n_sent (net_connect tp uri addr i n) = n_sent n"
    using c by (simp add: net_connect_def put_edge_def split: exec.splits)
qed

definition net_genuine :: "net \<Rightarrow> bool" where
  "net_genuine n \<longleftrightarrow> (\<forall>m \<in> net_msgs n. genuine (n_sent n) m)"

lemma genuine_grown:
  assumes "net_genuine n" "net_msgs n' \<subseteq> grown n" "n_sent n' = n_sent n"
  shows "net_genuine n'"
  unfolding net_genuine_def assms(3)
proof
  fix x
  assume "x \<in> net_msgs n'"
  with assms(2) consider "x \<in> net_msgs n" | m where "m \<in> net_msgs n" "x \<in> copies m"
    by (auto simp: grown_def)
  then show "genuine (n_sent n) x"
    using assms(1) genuine_copies by cases (auto simp: net_genuine_def)
qed

lemma genuine_subset:
  assumes "net_genuine n" "net_msgs n' \<subseteq> net_msgs n" "n_sent n' = n_sent n"
  shows "net_genuine n'"
  using assms by (auto simp: net_genuine_def)

lemma genuine_new:
  assumes "net_genuine n" "net_msgs n' \<subseteq> net_msgs n \<union> (\<Union>m \<in> set ms. copies m)" "n_sent n' = ms @ n_sent n"
  shows "net_genuine n'"
proof -
  have "genuine (ms @ n_sent n) x" if "m \<in> set ms" "x \<in> copies m" for m x
    using that by (auto simp: genuine_def copies_def)
  moreover have "genuine (ms @ n_sent n) x" if "x \<in> net_msgs n" for x
    using that assms(1) genuine_mono [of "n_sent n" "ms @ n_sent n"] by (auto simp: net_genuine_def)
  ultimately show ?thesis unfolding net_genuine_def assms(3) using assms(2) by blast
qed

lemma net_step_genuine:
  assumes "net_step tp n n'" "net_genuine n"
  shows "net_genuine n'"
  using assms(1)
proof cases
  case (connect i uri addr)
  then show ?thesis using genuine_subset [OF assms(2)] net_connect_msgs by simp
next
  case (send i m e r)
  have "net_msgs n' = net_msgs (put_edge n i e)" using send(1) by (simp add: net_msgs_def)
  also have "\<dots> \<subseteq> net_msgs n \<union> {m}"
    by (rule net_msgs_edge) (use edge_send_msgs [OF send(2)] in auto)
  finally show ?thesis
    using send(1) by (intro genuine_new [OF assms(2), of n' "[m]"]) (auto simp: copies_def put_edge_def)
next
  case (route_local i e)
  then show ?thesis
    using genuine_subset [OF assms(2)] net_msgs_edge0 [OF route_next_msgs(1)] by (simp add: put_edge_def)
next
  case (route_remote i e)
  then show ?thesis
    using genuine_subset [OF assms(2)] net_msgs_edge0 [OF route_next_msgs(2)] by (simp add: put_edge_def)
next
  case (handle i hdl ch m ms)
  then have "edge_msgs ((n_edges n i)\<lparr>handler_chans := (handler_chans (n_edges n i))(hdl \<mapsto> ch\<lparr>queue := ms\<rparr>)\<rparr>)
      \<subseteq> edge_msgs (n_edges n i)"
    unfolding edge_msgs_def by (auto split: if_splits)
  then show ?thesis
    using genuine_subset [OF assms(2)] net_msgs_edge0 handle(1) by (simp add: put_edge_def)
next
  case (up i)
  then show ?thesis using genuine_grown [OF assms(2)] net_up_msgs by blast
next
  case (up_panic i m conn)
  then have "net_genuine m" using genuine_grown [OF assms(2)] net_up_msgs by blast
  then show ?thesis using genuine_subset net_lost_msgs up_panic(1) by blast
next
  case (down i)
  then show ?thesis using genuine_subset [OF assms(2)] net_down_msgs by blast
next
  case (down_panic i m conn)
  then have "net_genuine m" using genuine_subset [OF assms(2)] net_down_msgs by blast
  then show ?thesis using genuine_subset net_lost_msgs down_panic(1) by blast
next
  case (lost i conn)
  then show ?thesis using genuine_subset [OF assms(2)] net_lost_msgs by blast
next
  case (outside ev h)
  have "net_msgs n' \<subseteq> net_msgs n \<union> (\<Union>m \<in> set (event_message ev). copies m)"
    using outside(1) host_step_msgs [OF outside(2)] by (auto simp: net_msgs_def)
  then show ?thesis using outside(1) by (intro genuine_new [OF assms(2)]) simp_all
qed

lemma service_start_msgs:
  assumes "service_start (new_host t) rs ps = (h, r)"
  shows "mux_msgs (hmux h) = {}"
proof -
  have "chans (set_my_routes s rs) = chans s" for s
    by (induction s rs rule: set_my_routes.induct) (auto simp: Let_def update_route_def split: option.splits)
  moreover have "hmux (foldl add_my_route g rs) = hmux g" for g
    by (induction rs arbitrary: g) (simp_all add: add_my_route_def)
  moreover have "hmux (fst (add_peers g ps)) = hmux g" for g
    by (induction g ps rule: add_peers.induct)
      (auto simp: add_peer_def start_connect_task_def split: list.splits prod.splits exec.splits)
  ultimately have "chans (hmux (fst (service_start (new_host t) rs ps))) = Map.empty"
    by (simp add: service_start_def new_host_def new_mux_def)
  then show ?thesis using assms by (simp add: mux_msgs_def)
qed

lemma net_reachable_genuine: "net_reachable tp n \<Longrightarrow> net_genuine n"
proof (induction rule: net_reachable.induct)
  case (start t rs ps h sps)
  have "edge_msgs (new_edge sp) = {}" for sp by (simp add: edge_msgs_def new_edge_def new_chan_def)
  with service_start_msgs [OF start] show ?case by (simp add: net_genuine_def net_msgs_def)
next
  case (add_handler n i sp public sink t hdl)
  then show ?case
    using genuine_subset net_msgs_edge0 [OF new_client_msgs] by (simp add: put_edge_def)
next
  case (step n n')
  then show ?case using net_step_genuine by blast
qed

text \<open>
  (C5) Whatever the runtimes, the daemon and the streams do, a handler only gets requests that somebody sent: every message
  in a handler's queue that is not a response has the body, the source, the destination and the id of a message
  that was handed to a runtime or that came from outside; at most its TTL is another one.
\<close>
theorem handled_requests_were_sent:
  assumes "net_reachable tp n" "handler_chans (n_edges n i) hdl = Some ch" "m \<in> set (queue ch)" "\<not> resp_msg m"
  shows "\<exists>m0 \<in> set (n_sent n). body m = body m0 \<and>
    map_option (\<lambda>h. h\<lparr>ttl := 0\<rparr>) (header m) = map_option (\<lambda>h. h\<lparr>ttl := 0\<rparr>) (header m0)"
proof -
  have "m \<in> edge_msgs (n_edges n i)"
    using assms(2,3) unfolding edge_msgs_def by (auto intro!: exI [of _ hdl])
  then have "genuine (n_sent n) m"
    using net_reachable_genuine [OF assms(1)] by (auto simp: net_genuine_def net_msgs_def)
  then obtain m0 where "m0 \<in> set (n_sent n)" "m = m0 \<or> (\<exists>t. m = set_ttl t m0)"
    using assms(4) by (auto simp: genuine_def)
  then show ?thesis
    by (intro bexI [of _ m0]) (auto simp: set_ttl_def option.map_comp comp_def)
qed

section \<open>From runtime to runtime\<close>

lemma put_edge_simps [simp]:
  "n_host (put_edge n i e) = n_host n" "n_links (put_edge n i e) = n_links n" "n_sent (put_edge n i e) = n_sent n"
  "n_edges (put_edge n i e) = (n_edges n)(i := e)"
  by (simp_all add: put_edge_def)












section \<open>A concrete network\<close>

definition demo_transport :: transport where
  "demo_transport = \<lparr>tp_endpoint = (\<lambda>u. True), tp_reachable = (\<lambda>u. True), tp_metadata = (\<lambda>t. True)\<rparr>"

definition demo_bus_host :: host where
  "demo_bus_host = fst (service_start (new_host 0) [\<lparr>rc_key = demo_sp ''n1'', rc_scope = ScopeCluster\<rparr>] [])"

definition demo_dst :: service_path where
  "demo_dst = (demo_svc ''n1'' ''db'')\<lparr>resource_type := ''table'', resource_id := ''t''\<rparr>"

definition demo_receiver :: "edge \<times> simple_client" where
  "demo_receiver = new_simple_client (new_edge (demo_svc ''n1'' ''db'')) demo_dst True False 0 3"


lemma demo_bus_host_started:
  "service_start (new_host 0) [\<lparr>rc_key = demo_sp ''n1'', rc_scope = ScopeCluster\<rparr>] [] = (demo_bus_host, Ok ())"
  by (simp add: demo_bus_host_def service_start_def)

lemma demo_svc_clean: "sp_clean (demo_svc ''n1'' ''db'')" "sp_clean (demo_svc ''n1'' ''hamgrd'')" "sp_clean demo_dst"
  by (simp_all add: sp_clean_def sp_fields_def demo_defs demo_dst_def)

lemma demo_routes:
  "map_of (routes (hmux demo_bus_host)) (to_service_prefix (demo_svc ''n1'' ''db'')) = None"
proof -
  have "routes (hmux demo_bus_host) = [(to_node_prefix (demo_sp ''n1''), new_local)]"
    by (simp add: demo_bus_host_def service_start_def new_host_def new_mux_def update_route_def add_my_route_def)
  moreover have "to_service_prefix (demo_svc ''n1'' ''db'') \<noteq> to_node_prefix (demo_sp ''n1'')"
    by (simp add: to_service_prefix_def to_node_prefix_def demo_defs)
  ultimately show ?thesis by simp
qed


theorem runtime_handshake_registers_witness:
  "\<exists>h' conn. core_connect demo_transport ''http://127.0.0.1:23606'' (demo_svc ''n1'' ''db'')
      \<lparr>sock_ip = ''127.0.0.1'', sock_port = 5000\<rparr> demo_bus_host = (h', Ok conn) \<and>
    connection_type (info conn) = ConnLocal \<and> remote_service_path (info conn) = demo_svc ''n1'' ''db''"
proof -
  have "(demo_svc ''n1'' ''db'')\<lparr>resource_type := [], resource_id := []\<rparr> = demo_svc ''n1'' ''db''"
    by (simp add: demo_defs)
  with runtime_handshake_registers [OF demo_svc_clean(1) _ _ _ _ demo_routes,
      of demo_transport "''http://127.0.0.1:23606''" "\<lparr>sock_ip = ''127.0.0.1'', sock_port = 5000\<rparr>"]
  show ?thesis by (auto simp: demo_transport_def)
qed

theorem peer_handshake_registers_witness:
  "\<exists>h' g' conn. peer_connect demo_transport
      (new_client ConnCluster \<lparr>sock_ip = ''10.0.0.2'', sock_port = 23606\<rparr> (demo_sp ''n1'') (demo_sp ''n2''))
      \<lparr>sock_ip = ''10.0.0.1'', sock_port = 5000\<rparr> (new_host 0) (new_host 0) = (h', g', Ok conn)"
proof -
  have "sp_clean (demo_sp ''n2'')" by (simp add: sp_clean_def sp_fields_def demo_defs)
  then show ?thesis
    using peer_handshake_registers [of "new_client ConnCluster \<lparr>sock_ip = ''10.0.0.2'', sock_port = 23606\<rparr> (demo_sp ''n1'') (demo_sp ''n2'')"
        "demo_sp ''n2''" demo_transport "new_host 0" "\<lparr>sock_ip = ''10.0.0.1'', sock_port = 5000\<rparr>" "new_host 0"]
    by (auto simp: new_client_def demo_transport_def new_host_def new_mux_def)
qed

definition demo_request :: swbus_message where
  "demo_request = demo_msg (demo_svc ''n1'' ''hamgrd'') demo_dst 64 (DataRequest [1, 2])"

theorem handled_requests_were_sent_witness:
  "\<exists>n ch. net_reachable demo_transport n \<and> handler_chans (n_edges n 2) 3 = Some ch \<and> queue ch = [demo_request] \<and>
     (\<exists>m0 \<in> set (n_sent n). body demo_request = body m0)"
proof -
  let ?n0 = "\<lparr>n_host = demo_bus_host, n_edges = (\<lambda>i. new_edge (demo_svc ''n1'' ''db'')), n_links = Map.empty, n_sent = []\<rparr>"
  let ?n1 = "put_edge ?n0 2 (fst demo_receiver)"
  have "net_reachable demo_transport ?n0" by (rule net_reachable.start [OF demo_bus_host_started])
  then have r1: "net_reachable demo_transport ?n1"
    using net_reachable.add_handler [of demo_transport ?n0 2 demo_dst True False 0 3] by (simp add: demo_receiver_def)
  have h: "header demo_request = Some ((new_header (demo_svc ''n1'' ''hamgrd'') demo_dst 5)\<lparr>ttl := 64\<rparr>)"
    "destination ((new_header (demo_svc ''n1'' ''hamgrd'') demo_dst 5)\<lparr>ttl := 64\<rparr>) = Some demo_dst"
    by (simp_all add: demo_request_def demo_msg_def new_message_def new_header_def)
  obtain e2 e3 ch where e: "edge_send (fst demo_receiver) demo_request = Some (e2, Ok ())" "route_next_local e2 = Some e3"
    "handler_chans e3 3 = Some ch" "queue ch = [demo_request]"
    using routed_to_new_client [OF h, of "new_edge (demo_svc ''n1'' ''db'')" True False 0 3 "fst demo_receiver" "snd demo_receiver"]
    by (auto simp: demo_receiver_def new_simple_client_def Let_def add_handler_def new_edge_def new_chan_def
        swbus_recv_queue_size_def)
  let ?n2 = "(put_edge ?n1 2 e2)\<lparr>n_sent := demo_request # n_sent ?n1\<rparr>"
  have r2: "net_reachable demo_transport ?n2"
    by (rule net_reachable.step [OF r1], rule net_step.send) (use e(1) in simp)
  have r3: "net_reachable demo_transport (put_edge ?n2 2 e3)"
    by (rule net_reachable.step [OF r2], rule net_step.route_local) (use e(2) in simp)
  have "\<not> resp_msg demo_request" by (simp add: resp_msg_def demo_request_def demo_msg_def new_message_def)
  with handled_requests_were_sent [OF r3, of 2 3 ch demo_request] e(3,4)
  have "\<exists>m0 \<in> set (n_sent (put_edge ?n2 2 e3)). body demo_request = body m0" by auto
  with r3 e(3,4) show ?thesis by (intro exI [of _ "put_edge ?n2 2 e3"] exI [of _ ch]) simp
qed


end
