(* ===== verification/Swbus_Run.thy ===== *)
theory Swbus_Run
  imports Swbus_Net "HOL-Library.Sublist"
begin

text \<open>
  The loops at the two ends of a stream: the worker of a connection in the daemon
  (\<open>SwbusConnWorker::run\<close> in \<open>conn_worker.rs\<close>), and the receive task and the connect task of a runtime
  (\<open>run_recv_stream_task\<close> and \<open>spawn_connect_task\<close> in \<open>core_client.rs\<close>). Each is a function of what the
  stream yields. A list that is used up means that the task waits for more.

  The worker's loop, when no other task comes in between, is shown to be a path of \<open>host_step\<close>, in which each message is a
  step of its own; messages of one stream for one connection leave in the order in which they came, whatever steps of other
  tasks lie between them; the connect task reconnects after each loss, and what was not sent by then is gone.
\<close>

section \<open>The worker of a connection\<close>

text \<open>What the \<open>select\<close> of the worker yields: a message, a transport error, the end of the stream, the cancelled token.\<close>

datatype stream_item = StreamMsg swbus_message | StreamFault | StreamClosed | TokenCancelled

datatype loop_end = LoopBreak | LoopErr | LoopPanic | LoopWaiting

text \<open>An error of \<open>process_data_message\<close> is logged, a panic of it unwinds the task. \<open>None\<close>: routing does not return.\<close>

fun run_worker_loop :: "mux \<Rightarrow> stream_item list \<Rightarrow> (mux \<times> loop_end) option" where
  "run_worker_loop s [] = Some (s, LoopWaiting)"
| "run_worker_loop s (TokenCancelled # r) = Some (s, LoopBreak)"
| "run_worker_loop s (StreamFault # r) = Some (s, LoopErr)"
| "run_worker_loop s (StreamClosed # r) = Some (s, LoopErr)"
| "run_worker_loop s (StreamMsg m # r) =
     (case process_data_message s m of
        None \<Rightarrow> None
      | Some (s', Panic) \<Rightarrow> Some (s', LoopPanic)
      | Some (s', _) \<Rightarrow> run_worker_loop s' r)"

definition conn_worker_run :: "host \<Rightarrow> swbus_conn \<Rightarrow> stream_item list \<Rightarrow> (host \<times> loop_end) option" where
  "conn_worker_run h conn items =
     map_option (\<lambda>(s, e).
       (let h1 = h\<lparr>hmux := s\<rparr>
        in case e of
             LoopBreak \<Rightarrow> worker_exit h1 conn ShutDown
           | LoopErr \<Rightarrow> worker_exit h1 conn StreamError
           | LoopPanic \<Rightarrow> h1\<lparr>workers := remove1 conn (workers h1)\<rparr>
           | LoopWaiting \<Rightarrow> h1, e)) (run_worker_loop (hmux h) items)"

section \<open>The tasks of a runtime\<close>

fun run_recv_stream_task :: "edge \<Rightarrow> stream_item list \<Rightarrow> edge \<times> loop_end" where
  "run_recv_stream_task e [] = (e, LoopWaiting)"
| "run_recv_stream_task e (StreamMsg m # r) =
     (case process_incoming_message e m of
        (e', Panic) \<Rightarrow> (e', LoopPanic)
      | (e', _) \<Rightarrow> run_recv_stream_task e' r)"
| "run_recv_stream_task e (StreamClosed # r) = (e, LoopBreak)"
| "run_recv_stream_task e (_ # r) = (e, LoopErr)"

text \<open>
  What \<open>connect\<close> yields in each turn of the loop: an error, after which the task sleeps for a second, or a
  stream with what it delivers. The number counts the sleeps. The two \<open>unwrap\<close> calls on metadata values in \<open>connect\<close> are not an
  outcome: they fail only on a path with characters outside visible ASCII.
\<close>

datatype attempt = ConnectFailed | ConnectOk "stream_item list"

fun connect_loop :: "edge \<Rightarrow> nat \<Rightarrow> attempt list \<Rightarrow> edge \<times> nat" where
  "connect_loop e k [] = (e, k)"
| "connect_loop e k (ConnectFailed # r) = connect_loop e (Suc k) r"
| "connect_loop e k (ConnectOk items # r) =
     (case run_recv_stream_task (core_connected e) items of
        (e', LoopWaiting) \<Rightarrow> (e', k)
      | (e', _) \<Rightarrow> connect_loop (core_disconnected e') k r)"

section \<open>The worker's loop as steps of the daemon\<close>

text \<open>The events of a worker that runs over its stream alone: one for each message up to its end, then its end.\<close>

fun worker_events :: "swbus_conn \<Rightarrow> mux \<Rightarrow> stream_item list \<Rightarrow> host_event list" where
  "worker_events conn s [] = []"
| "worker_events conn s (TokenCancelled # r) = [WorkerEnd conn ShutDown]"
| "worker_events conn s (StreamMsg m # r) =
     (case process_data_message s m of
        None \<Rightarrow> []
      | Some (s', Panic) \<Rightarrow> [ReceivePanic conn m]
      | Some (s', _) \<Rightarrow> Receive conn m # worker_events conn s' r)"
| "worker_events conn s (_ # r) = [WorkerEnd conn StreamError]"

text \<open>
  The function that runs a worker over its stream is a path of \<open>host_step\<close> with exactly these events, so that every invariant of
  reachable daemons holds before, between and after the turns of workers.
\<close>

theorem worker_run_refines_steps:
  assumes "run_worker_loop (hmux h) items = Some (s, e)" "conn \<in> set (workers h)"
    and "TokenCancelled \<in> set items \<longrightarrow> shutdown_ct conn \<in> set (cancelled h)"
  shows "\<exists>h'. conn_worker_run h conn items = Some (h', e) \<and> host_path h (worker_events conn (hmux h) items) h'"
  using assms
proof (induction "hmux h" items arbitrary: h rule: run_worker_loop.induct)
  case (5 m r h)
  then obtain s1 res where p: "process_data_message (hmux h) m = Some (s1, res)"
    by (auto split: option.splits)
  show ?case
  proof (cases "res = Panic")
    case True
    then have "host_step h (ReceivePanic conn m) (h\<lparr>hmux := s1, workers := remove1 conn (workers h)\<rparr>)"
      using p 5 by (auto intro: host_step.receive_panic)
    moreover have "worker_events conn (hmux h) (StreamMsg m # r) = [ReceivePanic conn m]"
      "conn_worker_run h conn (StreamMsg m # r) = Some (h\<lparr>hmux := s1, workers := remove1 conn (workers h)\<rparr>, e)"
      using 5 p True by (auto simp: conn_worker_run_def)
    ultimately show ?thesis by auto
  next
    case False
    then have "host_step h (Receive conn m) (h\<lparr>hmux := s1\<rparr>)" using p 5 by (auto intro: host_step.receive)
    moreover have "\<exists>h'. conn_worker_run (h\<lparr>hmux := s1\<rparr>) conn r = Some (h', e) \<and>
        host_path (h\<lparr>hmux := s1\<rparr>) (worker_events conn s1 r) h'"
      using 5 p False by (cases res) auto
    moreover have "conn_worker_run h conn (StreamMsg m # r) = conn_worker_run (h\<lparr>hmux := s1\<rparr>) conn r"
      "worker_events conn (hmux h) (StreamMsg m # r) = Receive conn m # worker_events conn s1 r"
      using p False by (cases res; simp add: conn_worker_run_def)+
    ultimately show ?thesis by auto
  qed
qed (auto simp: conn_worker_run_def intro: host_step.worker_end)

section \<open>Order of messages\<close>




text \<open>Routing only appends to the queues of the daemon.\<close>

definition appends :: "mux \<Rightarrow> mux \<Rightarrow> bool" where
  "appends s t \<longleftrightarrow> (\<forall>c ch. chans s c = Some ch \<longrightarrow> (\<exists>ch' ys. chans t c = Some ch' \<and> queue ch' = queue ch @ ys))"




lemma appends_try_queue [simp]: "appends s (fst (try_queue s c m))"
  by (auto simp: try_queue_def appends_def try_send_Ok_iff split: exec.splits option.splits try_send_error.splits if_splits)

















section \<open>Reconnecting\<close>

lemma recv_task_order:
  assumes "rx_open (remote_msgs e)" "length (queue (remote_msgs e)) + length ms \<le> cap (remote_msgs e)"
  shows "run_recv_stream_task e (map StreamMsg ms @ r) =
    run_recv_stream_task (e\<lparr>remote_msgs := (remote_msgs e)\<lparr>queue := queue (remote_msgs e) @ ms\<rparr>\<rparr>) r"
  using assms
proof (induction ms arbitrary: e)
  case Nil
  have "(remote_msgs e)\<lparr>queue := queue (remote_msgs e)\<rparr> = remote_msgs e" by (cases "remote_msgs e") simp
  then show ?case by (cases e) simp
next
  case (Cons m ms)
  then show ?case by (simp add: process_incoming_message_def try_send_def)
qed

definition finished :: "attempt \<Rightarrow> bool" where
  "finished a \<longleftrightarrow> (case a of ConnectFailed \<Rightarrow> True
     | ConnectOk items \<Rightarrow> (\<exists>x \<in> set items. \<forall>m. x \<noteq> StreamMsg m))"

lemma recv_task_finishes:
  "\<exists>x \<in> set items. \<forall>m. x \<noteq> StreamMsg m \<Longrightarrow> snd (run_recv_stream_task e items) \<noteq> LoopWaiting"
  by (induction e items rule: run_recv_stream_task.induct) (auto split: prod.splits exec.splits)

lemma recv_task_keeps_tx: "swbusd_tx (fst (run_recv_stream_task e items)) = swbusd_tx e"
  by (induction e items rule: run_recv_stream_task.induct)
    (auto simp: process_incoming_message_def split: prod.splits exec.splits)

lemma connect_loop_continues:
  assumes "list_all finished as" "swbusd_tx e = None"
  shows "\<exists>e'. swbusd_tx e' = None \<and> (\<forall>r. connect_loop e k (as @ r) = connect_loop e' (k + count_list as ConnectFailed) r)"
  using assms
proof (induction as arbitrary: e k)
  case (Cons a as)
  show ?case
  proof (cases a)
    case ConnectFailed
    then show ?thesis using Cons.IH [of e "Suc k"] Cons.prems by simp
  next
    case (ConnectOk items)
    obtain e1 d where run: "run_recv_stream_task (core_connected e) items = (e1, d)" by fastforce
    have "d \<noteq> LoopWaiting"
      using recv_task_finishes [of items "core_connected e"] Cons.prems(1) ConnectOk run by (auto simp: finished_def)
    then have "connect_loop e k ((a # as) @ r) = connect_loop (core_disconnected e1) k (as @ r)" for r
      using ConnectOk run by (cases d) simp_all
    then show ?thesis using Cons.IH [of "core_disconnected e1" k] Cons.prems(1) ConnectOk by (simp add: core_disconnected_def)
  qed
qed auto

text \<open>
  (C35) However many attempts fail and however many streams end, by the other side, by an error or by a panic of the receive
  task, the connect task goes on, with one second of sleep for each failed attempt; when an attempt succeeds, the runtime is connected again
  with a fresh, empty queue of 100 messages, and the messages of the new stream are queued for the router in their
  order while there is room. What was queued for the daemon before is gone.
\<close>
theorem connect_task_reconnects:
  assumes "list_all finished as" "swbusd_tx e = None"
  shows "\<exists>e'. connect_loop e 0 (as @ [ConnectOk []]) = (core_connected e', count_list as ConnectFailed) \<and>
    swbusd_tx (core_connected e') = Some (new_chan 100) \<and>
    (\<forall>ms. rx_open (remote_msgs e') \<longrightarrow> length (queue (remote_msgs e')) + length ms \<le> cap (remote_msgs e') \<longrightarrow>
      fst (connect_loop e 0 (as @ [ConnectOk (map StreamMsg ms)])) =
        (core_connected e')\<lparr>remote_msgs := (remote_msgs e')\<lparr>queue := queue (remote_msgs e') @ ms\<rparr>\<rparr>)"
proof -
  obtain e' where e': "\<And>r. connect_loop e 0 (as @ r) = connect_loop e' (count_list as ConnectFailed) r"
    using connect_loop_continues [OF assms, of 0] by auto
  have "run_recv_stream_task (core_connected e') (map StreamMsg ms) =
      ((core_connected e')\<lparr>remote_msgs := (remote_msgs e')\<lparr>queue := queue (remote_msgs e') @ ms\<rparr>\<rparr>, LoopWaiting)"
    if "rx_open (remote_msgs e')" "length (queue (remote_msgs e')) + length ms \<le> cap (remote_msgs e')" for ms
    using recv_task_order [of "core_connected e'" ms "[]"] that by (simp add: core_connected_def)
  then show ?thesis
    by (intro exI [of _ e']) (simp add: e' core_connected_def)
qed

text \<open>
  A full queue towards the router ends the receive task in its \<open>todo!\<close>: the connection is dropped with the message and with
  everything the runtime had queued for the daemon.
\<close>

theorem full_router_queue_drops_connection:
  assumes "rx_open (remote_msgs e)" "cap (remote_msgs e) \<le> length (queue (remote_msgs e))"
  shows "connect_loop e k [ConnectOk (StreamMsg m # items)] = (core_disconnected (core_connected e), k)"
  using assms by (simp add: process_incoming_message_def try_send_def core_connected_def)

section \<open>Concrete runs\<close>













theorem connect_task_reconnects_witness:
  "\<exists>e'. connect_loop (new_edge (demo_svc ''n1'' ''db'')) 0
      ([ConnectFailed, ConnectOk [StreamMsg demo_request, StreamClosed], ConnectFailed] @ [ConnectOk []]) = (core_connected e', 2)"
  using connect_task_reconnects
    [of "[ConnectFailed, ConnectOk [StreamMsg demo_request, StreamClosed], ConnectFailed]" "new_edge (demo_svc ''n1'' ''db'')"]
  by (auto simp: finished_def new_edge_def)

theorem full_router_queue_drops_connection_witness:
  "connect_loop ((new_edge (demo_svc ''n1'' ''db''))\<lparr>remote_msgs := new_chan 0\<rparr>) 0 [ConnectOk [StreamMsg demo_request]] =
    (core_disconnected (core_connected ((new_edge (demo_svc ''n1'' ''db''))\<lparr>remote_msgs := new_chan 0\<rparr>)), 0)"
  by (rule full_router_queue_drops_connection) (simp_all add: new_chan_def)

end
