(* ===== verification/Swbus_Tests.thy ===== *)
theory Swbus_Tests
  imports Swbus_Run Swbus_Json
begin

text \<open>
  The unit tests of \<open>swbus-proto\<close> and \<open>swbus-core\<close>, run on the model. Each test is a definition with the name of the
  test and the conjunction of its assertions as its value; the lemma after it is the run. A clock is an argument where
  the test makes a generator of message ids, and where a test leaves the order of two events to the scheduler, it is run
  for each order. Messages that a test gives as JSON text are given as JSON values.
\<close>

section \<open>Service paths and messages\<close>

text \<open>\<open>ServicePath::from_string(s).unwrap()\<close>; \<open>from_string\<close> always returns a path.\<close>

definition parsed :: "string \<Rightarrow> service_path" where
  "parsed s = (case (from_string s :: service_path result) of Ok p \<Rightarrow> p | _ \<Rightarrow> with_region [] [] [] [] [])"

definition service_path_can_be_converted_to_string :: bool where
  "service_path_can_be_converted_to_string \<longleftrightarrow>
     sp_display (with_node ''region'' ''cluster'' ''node'' ''service_type'' ''service_id'' ''resource_type'' ''resource_id'')
       = ''region.cluster.node/service_type/service_id/resource_type/resource_id'' \<and>
     sp_display (with_cluster ''region'' ''cluster'' ''service_type'' ''service_id'' ''resource_type'' ''resource_id'')
       = ''region.cluster/service_type/service_id/resource_type/resource_id'' \<and>
     sp_display (with_region ''region'' ''service_type'' ''service_id'' ''resource_type'' ''resource_id'')
       = ''region/service_type/service_id/resource_type/resource_id''"

lemma service_path_can_be_converted_to_string_passes: service_path_can_be_converted_to_string
  by code_simp

definition service_path_join :: bool where
  "service_path_join \<longleftrightarrow>
     (let sp = parsed ''region.cluster.node/stype/sid/rtype/rid''
      in sp_join sp (parsed ''other-region.cluster.node/stype/sid/rtype/rid'')
           = parsed ''other-region.cluster.node/stype/sid/rtype/rid'' \<and>
         sp_join sp (parsed ''/other-stype/sid'') = parsed ''region.cluster.node/other-stype/sid'' \<and>
         sp_join sp (parsed '''') = sp)"

lemma service_path_join_passes: service_path_join
  by code_simp

definition test_service_path_to_and_from_string :: bool where
  "test_service_path_to_and_from_string \<longleftrightarrow>
     (let sp1 = with_node ''region-a'' ''cluster-a'' ''1.1.1.1-dpu0'' [] [] [] [];
          sp2 = with_region [] ''hamgrd'' ''0'' [] []
      in to_longest_path sp1 = ''region-a.cluster-a.1.1.1.1-dpu0'' \<and> parsed (to_longest_path sp1) = sp1 \<and>
         to_longest_path sp2 = ''/hamgrd/0'' \<and> parsed (to_longest_path sp2) = sp2)"

lemma test_service_path_to_and_from_string_passes: test_service_path_to_and_from_string
  by code_simp

definition test_to_swbusd_service_path :: bool where
  "test_to_swbusd_service_path \<longleftrightarrow>
     to_swbusd_service_path (with_node ''region-a'' ''cluster-a'' ''1.1.1.1-dpu0'' ''cli'' ''0'' ''ping'' ''0'')
       = with_node ''region-a'' ''cluster-a'' ''1.1.1.1-dpu0'' [] [] [] []"

lemma test_to_swbusd_service_path_passes: test_to_swbusd_service_path
  by code_simp

definition create_mock_service_path :: service_path where
  "create_mock_service_path =
     with_node ''region'' ''cluster'' ''node'' ''service_type'' ''service_id'' ''resource_type'' ''resource_id''"

definition create_mock_message_id :: "u64 \<Rightarrow> u64" where
  "create_mock_message_id t = fst (generate (new_id_generator t))"

definition create_mock_swbus_message_header :: "u64 \<Rightarrow> swbus_message_header" where
  "create_mock_swbus_message_header t =
     new_header (create_mock_service_path\<lparr>resource_id := ''source_resource_id''\<rparr>)
       (create_mock_service_path\<lparr>resource_id := ''destination_resource_id''\<rparr>) (create_mock_message_id t)"

definition test_swbus_message_new_response :: "u64 \<Rightarrow> u64 \<Rightarrow> bool" where
  "test_swbus_message_new_response t u \<longleftrightarrow>
     (let h = create_mock_swbus_message_header t
      in case new_response (new_message h PingRequest) None CodeOk [] (create_mock_message_id u) None of
           Ok response \<Rightarrow>
             (case (header response, body response) of
                (Some rh, Some (Response r)) \<Rightarrow>
                  version rh = 1 \<and> flag rh = 0 \<and> ttl rh = 64 \<and> source rh = destination h \<and> destination rh = source h \<and>
                  request_id r = msg_id h
              | _ \<Rightarrow> False)
         | _ \<Rightarrow> False)"

lemma test_swbus_message_new_response_passes: "test_swbus_message_new_response t u"
  by (simp add: test_swbus_message_new_response_def create_mock_swbus_message_header_def new_response_def new_message_def
      new_header_def response_ok_def Let_def)

section \<open>Connections\<close>

definition local_addr :: socket_addr where
  "local_addr = \<lparr>sock_ip = ''127.0.0.1'', sock_port = 8080\<rparr>"

definition new_client_conn_info_should_succeed :: bool where
  "new_client_conn_info_should_succeed \<longleftrightarrow>
     (let remote = parsed ''region-a.cluster-a.10.0.0.1-dpu0''; loc = parsed ''region-a.cluster-a.10.0.0.2-dpu0'';
          ci = new_client ConnCluster local_addr remote loc
      in conn_id ci = ''swbs-to://127.0.0.1:8080'' \<and> conn_mode ci = ModeClient \<and> remote_addr ci = local_addr \<and>
         connection_type ci = ConnCluster \<and> remote_service_path ci = remote \<and> local_service_path ci = Some loc)"

lemma show_8080 [simp]: "show_nat 8080 = ''8080''"
proof -
  have "digit_char 8 = CHR ''8''" "digit_char 0 = CHR ''0''" by code_simp+
  then show ?thesis by (simp add: show_nat.simps)
qed

lemma new_client_conn_info_should_succeed_passes: new_client_conn_info_should_succeed
  by (simp add: new_client_conn_info_should_succeed_def new_client_def local_addr_def Let_def)

definition new_server_conn_info_should_succeed :: bool where
  "new_server_conn_info_should_succeed \<longleftrightarrow>
     (let remote = parsed ''region-a.cluster-a.10.0.0.1-dpu0''; ci = new_server ConnRegion local_addr remote
      in conn_id ci = ''swbs-from://127.0.0.1:8080'' \<and> conn_mode ci = ModeServer \<and> remote_addr ci = local_addr \<and>
         connection_type ci = ConnRegion \<and> remote_service_path ci = remote \<and> local_service_path ci = None)"

lemma new_server_conn_info_should_succeed_passes: new_server_conn_info_should_succeed
  by (simp add: new_server_conn_info_should_succeed_def new_server_def local_addr_def Let_def)

definition empty_message :: swbus_message where
  "empty_message = \<lparr>header = None, body = None\<rparr>"

text \<open>A queue of one message, numbered 0.\<close>

definition one_queue :: "u64 \<Rightarrow> mux" where
  "one_queue t = (new_mux t)\<lparr>chans := [0 \<mapsto> new_chan 1]\<rparr>"

definition conn_proxy_can_queue_message :: "u64 \<Rightarrow> bool" where
  "conn_proxy_can_queue_message t \<longleftrightarrow>
     (case try_queue (one_queue t) 0 empty_message of
        (s, Ok _) \<Rightarrow> map_option queue (chans s 0) = Some [empty_message]
      | _ \<Rightarrow> False)"

lemma conn_proxy_can_queue_message_passes: "conn_proxy_can_queue_message t"
  by (simp add: conn_proxy_can_queue_message_def one_queue_def try_queue_def try_send_def new_chan_def)

definition conn_proxy_should_fail_when_queue_full :: "u64 \<Rightarrow> bool" where
  "conn_proxy_should_fail_when_queue_full t \<longleftrightarrow>
     (case try_queue (one_queue t) 0 empty_message of
        (s, Ok _) \<Rightarrow> (case snd (try_queue s 0 empty_message) of Err (RouteError code _) \<Rightarrow> code = QueueFull | _ \<Rightarrow> False)
      | _ \<Rightarrow> False)"

lemma conn_proxy_should_fail_when_queue_full_passes: "conn_proxy_should_fail_when_queue_full t"
  by (simp add: conn_proxy_should_fail_when_queue_full_def one_queue_def try_queue_def try_send_def new_chan_def mk_route_def
      err_of_def)

section \<open>The connection store\<close>

definition dpu_route :: "string \<Rightarrow> route_config" where
  "dpu_route s = \<lparr>rc_key = parsed s, rc_scope = ScopeCluster\<rparr>"

definition tracks :: "host \<Rightarrow> string \<Rightarrow> (conn_tracker \<Rightarrow> bool) \<Rightarrow> bool" where
  "tracks h i P \<longleftrightarrow> list_ex (\<lambda>(ci, tr). conn_id ci = i \<and> P tr) (connections h)"

fun is_task :: "conn_tracker \<Rightarrow> bool" where
  "is_task (TrackTask t) = True"
| "is_task (TrackConn c) = False"

definition test_add_peer :: "u64 \<Rightarrow> bool" where
  "test_add_peer t \<longleftrightarrow>
     (let h = add_my_route (new_host t) (dpu_route ''region-a.cluster-a.10.0.0.1-dpu0'')
      in case add_peer h \<lparr>pc_id = parsed ''region-a.cluster-a.10.0.0.2-dpu0'', pc_endpoint = local_addr, pc_conn_type = ConnLocal\<rparr> of
           (h1, Ok _) \<Rightarrow> tracks h1 ''swbs-to://127.0.0.1:8080'' is_task
         | _ \<Rightarrow> False)"

lemma test_add_peer_passes: "test_add_peer t"
  by (simp add: test_add_peer_def add_my_route_def add_peer_def start_connect_task_def new_host_def tracks_def
      new_client_def local_addr_def)

definition test_add_my_route :: "u64 \<Rightarrow> bool" where
  "test_add_my_route t \<longleftrightarrow>
     dpu_route ''region-a.cluster-a.10.0.0.1-dpu0''
       \<in> set (cs_my_routes (add_my_route (new_host t) (dpu_route ''region-a.cluster-a.10.0.0.1-dpu0'')))"

lemma test_add_my_route_passes: "test_add_my_route t"
  by (simp add: test_add_my_route_def add_my_route_def)

definition test_client :: conn_info where
  "test_client = new_client ConnCluster local_addr (parsed ''regiona.clustera.10.0.0.2-dpu0'')
     (parsed ''regiona.clustera.10.0.0.1-dpu0'')"

definition test_conn_lost :: "u64 \<Rightarrow> bool" where
  "test_conn_lost t \<longleftrightarrow>
     (let h = add_my_route (new_host t) (dpu_route ''region-a.cluster-a.10.0.0.1-dpu0'')
      in tracks (conn_lost h test_client) ''swbs-to://127.0.0.1:8080'' is_task)"

lemma test_conn_lost_passes: "test_conn_lost t"
  by (simp add: test_conn_lost_def add_my_route_def conn_lost_def start_connect_task_def new_host_def tracks_def
      test_client_def new_client_def local_addr_def)

definition test_conn_established :: "u64 \<Rightarrow> bool" where
  "test_conn_established t \<longleftrightarrow>
     (let h = add_my_route (new_host t) (dpu_route ''region-a.cluster-a.10.0.0.1-dpu0'');
          conn = \<lparr>info = test_client, shutdown_ct = 0, send_queue_tx = 1\<rparr>
      in tracks (conn_established h conn) (conn_id test_client) (\<lambda>tr. \<not> is_task tr))"

lemma test_conn_established_passes: "test_conn_established t"
  by (simp add: test_conn_established_def add_my_route_def conn_established_def new_host_def tracks_def)

section \<open>Next hops\<close>

definition test_new_remote :: bool where
  "test_new_remote \<longleftrightarrow>
     (let nh = new_remote test_client 0 5
      in nh_type nh = NhRemote \<and> nh_conn_info nh = Some test_client \<and> hop_count nh = 5)"

lemma test_new_remote_passes: test_new_remote
  by (simp add: test_new_remote_def new_remote_def)

definition test_new_local :: bool where
  "test_new_local \<longleftrightarrow>
     nh_type new_local = NhLocal \<and> nh_conn_info new_local = None \<and> conn_proxy new_local = None \<and> hop_count new_local = 0"

lemma test_new_local_passes: test_new_local
  by (simp add: test_new_local_def new_local_def)

definition test_queue_message_drop :: "u64 \<Rightarrow> bool" where
  "test_queue_message_drop t \<longleftrightarrow>
     snd (queue_message new_local (new_mux t)
       \<lparr>header = Some (new_header (parsed ''region-a.cluster-a.10.0.0.1-dpu0'') (parsed ''region-a.cluster-a.10.0.0.2-dpu0'') 1),
        body = None\<rparr>) = Ok None"

text \<open>The requests of the tests: a ping from \<open>10.0.0.1-dpu0\<close>, given as JSON.\<close>

definition ping_json :: "int \<Rightarrow> string \<Rightarrow> json" where
  "ping_json k dest = JObj
     [(''header'', JObj [(''version'', JNum 1), (''id'', JNum 0), (''flag'', JNum 0), (''ttl'', JNum k),
        (''source'', JStr ''region-a.cluster-a.10.0.0.1-dpu0/testsvc/0/ping/0''), (''destination'', JStr dest)]),
      (''body'', JObj [(''PingRequest'', JObj [])])]"

definition ping_message :: "u32 \<Rightarrow> string \<Rightarrow> swbus_message" where
  "ping_message k dest = \<lparr>header = Some \<lparr>version = 1, msg_id = 0, flag = 0, ttl = k,
     source = Some (parsed ''region-a.cluster-a.10.0.0.1-dpu0/testsvc/0/ping/0''), destination = Some (parsed dest)\<rparr>,
     body = Some PingRequest\<rparr>"

lemma ping_json_read:
  "0 \<le> i \<Longrightarrow> i < 4294967296 \<Longrightarrow> of_message_json (ping_json i d) = Ok (ping_message (word_of_int i) d)"
  by (simp add: of_message_json_def ping_json_def of_header_json_def deserialize_service_path_opt_def ping_message_def
      parsed_def from_string_def Let_def)

lemma parsed_paths [simp]:
  "parsed ''region-a.cluster-a.10.0.0.1-dpu0'' = with_node ''region-a'' ''cluster-a'' ''10.0.0.1-dpu0'' [] [] [] []"
  "parsed ''region-a.cluster-a.10.0.0.2-dpu0'' = with_node ''region-a'' ''cluster-a'' ''10.0.0.2-dpu0'' [] [] [] []"
  "parsed ''region-a.cluster-a.10.0.0.3-dpu0'' = with_node ''region-a'' ''cluster-a'' ''10.0.0.3-dpu0'' [] [] [] []"
  "parsed ''region-a.cluster-b.10.0.0.1-dpu0'' = with_node ''region-a'' ''cluster-b'' ''10.0.0.1-dpu0'' [] [] [] []"
  "parsed ''region-a.cluster-b'' = with_cluster ''region-a'' ''cluster-b'' [] [] [] []"
  "parsed ''region-a.cluster-a.10.0.0.1-dpu0/testsvc/0/ping/0''
    = with_node ''region-a'' ''cluster-a'' ''10.0.0.1-dpu0'' ''testsvc'' ''0'' ''ping'' ''0''"
  "parsed ''region-a.cluster-a.10.0.0.2-dpu0/local-mgmt/0''
    = with_node ''region-a'' ''cluster-a'' ''10.0.0.2-dpu0'' ''local-mgmt'' ''0'' [] []"
  "parsed ''region-a.cluster-a.10.0.0.3-dpu0/local-mgmt/0''
    = with_node ''region-a'' ''cluster-a'' ''10.0.0.3-dpu0'' ''local-mgmt'' ''0'' [] []"
  by code_simp+

lemma test_queue_message_drop_passes: "test_queue_message_drop t"
  by (simp add: test_queue_message_drop_def queue_message_def new_local_def process_local_message_def new_header_def
      with_node_def)

definition own_mux :: "u64 \<Rightarrow> mux" where
  "own_mux t = set_my_routes (new_mux t) [dpu_route ''region-a.cluster-a.10.0.0.2-dpu0'']"

lemmas answer_defs = as_response_def respond_def generate_message_id_def generate_def new_response_def response_ok_def
  infra_error_def new_message_def new_header_def get_my_service_path_def

lemma own_mux_eq:
  "own_mux t = \<lparr>routes = [(''region-a.cluster-a.10.0.0.2-dpu0'', new_local)], id_generator = \<lparr>next_id = t\<rparr>,
     my_routes = [dpu_route ''region-a.cluster-a.10.0.0.2-dpu0''], chans = Map.empty\<rparr>"
  by (simp add: own_mux_def dpu_route_def update_route_def to_node_prefix_def new_mux_def new_id_generator_def with_node_def)

definition test_queue_message_local_ping :: "u64 \<Rightarrow> bool" where
  "test_queue_message_local_ping t \<longleftrightarrow>
     (case of_message_json (ping_json 63 ''region-a.cluster-a.10.0.0.2-dpu0/local-mgmt/0'') of
        Ok request \<Rightarrow>
          (case snd (queue_message new_local (own_mux t) request) of
             Ok (Some response) \<Rightarrow>
               map_option destination (header response)
                 = Some (Some (parsed ''region-a.cluster-a.10.0.0.1-dpu0/testsvc/0/ping/0''))
           | _ \<Rightarrow> False)
      | _ \<Rightarrow> False)"

lemma test_queue_message_local_ping_passes: "test_queue_message_local_ping t"
  by (simp add: test_queue_message_local_ping_def ping_json_read queue_message_def new_local_def process_local_message_def
      ping_message_def with_node_def own_mux_eq answer_defs)

text \<open>The answer in that test is not the answer to a ping: the destination names a service of the node, which the daemon does not have.\<close>

lemma local_ping_test_gets_no_route:
  "\<exists>s response r. queue_message new_local (own_mux t) (ping_message 63 ''region-a.cluster-a.10.0.0.2-dpu0/local-mgmt/0'')
    = (s, Ok (Some response)) \<and> body response = Some (Response r) \<and> error_code r = code_num NoRoute"
  by (simp add: queue_message_def new_local_def process_local_message_def ping_message_def with_node_def own_mux_eq answer_defs)

definition test_queue_message_remote_ttl_expired :: "u64 \<Rightarrow> bool" where
  "test_queue_message_remote_ttl_expired t \<longleftrightarrow>
     (case of_message_json (ping_json 1 ''region-a.cluster-a.10.0.0.3-dpu0/local-mgmt/0'') of
        Ok request \<Rightarrow>
          (case snd (queue_message (new_remote test_client 0 5) (own_mux t) request) of
             Ok (Some response) \<Rightarrow>
               (case body response of
                  Some (Response r) \<Rightarrow> error_code r = code_num Unreachable \<and> error_message r = ''TTL expired''
                | _ \<Rightarrow> False)
           | _ \<Rightarrow> False)
      | _ \<Rightarrow> False)"

lemma test_queue_message_remote_ttl_expired_passes: "test_queue_message_remote_ttl_expired t"
  by (simp add: test_queue_message_remote_ttl_expired_def ping_json_read queue_message_def new_remote_def ping_message_def
      own_mux_eq answer_defs dpu_route_def)

section \<open>The multiplexer\<close>

definition test_set_my_routes :: "u64 \<Rightarrow> bool" where
  "test_set_my_routes t \<longleftrightarrow>
     (let r = dpu_route ''region-a.cluster-a.10.0.0.1-dpu0''; s = set_my_routes (new_mux t) [r]
      in r \<in> set (my_routes s) \<and> map_option nh_type (map_of (routes s) (to_node_prefix (rc_key r))) = Some NhLocal)"

lemma test_set_my_routes_passes: "test_set_my_routes t"
  by (simp add: test_set_my_routes_def dpu_route_def update_route_def new_mux_def new_local_def)

text \<open>\<open>c\<close> numbers the queue whose receiver the helper returns.\<close>

definition add_route :: "mux \<Rightarrow> string \<Rightarrow> u32 \<Rightarrow> string \<Rightarrow> connection_type \<Rightarrow> nat \<Rightarrow> mux" where
  "add_route s k hops nh_sp ct c =
     update_route (s\<lparr>chans := (chans s)(c \<mapsto> new_chan 16)\<rparr>) k
       (new_remote (new_client ct local_addr (parsed nh_sp) (parsed ''regiona.clustera.10.0.0.1-dpu0'')) c hops)"

definition route_message_and_compare :: "mux \<Rightarrow> nat \<Rightarrow> json \<Rightarrow> json \<Rightarrow> bool" where
  "route_message_and_compare s rx request expected \<longleftrightarrow>
     (case (of_message_json request, of_message_json expected) of
        (Ok request_msg, Ok expected_msg) \<Rightarrow>
          (case route_message s request_msg of
             Some (s', Ok _) \<Rightarrow>
               (case map_option queue (chans s' rx) of
                  Some (m # _) \<Rightarrow> of_message_json (message_json m) = Ok expected_msg
                | _ \<Rightarrow> False)
           | _ \<Rightarrow> False)
      | _ \<Rightarrow> False)"

text \<open>Routes to \<open>10.0.0.1-dpu0\<close> and \<open>10.0.0.3-dpu0\<close>, with the queues 1 and 3. \<open>let _ = add_route(..)\<close> drops the receiver at once.\<close>

definition test_mux :: "u64 \<Rightarrow> mux" where
  "test_mux t =
     add_route (add_route (own_mux t) ''region-a.cluster-a.10.0.0.1-dpu0'' 1 ''region-a.cluster-a.10.0.0.1-dpu0'' ConnCluster 1)
       ''region-a.cluster-a.10.0.0.3-dpu0'' 1 ''region-a.cluster-a.10.0.0.3-dpu0'' ConnCluster 3"

definition test_route_message :: "u64 \<Rightarrow> bool" where
  "test_route_message t \<longleftrightarrow>
     route_message_and_compare (close_receiver (test_mux t) 1) 3
       (ping_json 63 ''region-a.cluster-a.10.0.0.3-dpu0/local-mgmt/0'') (ping_json 62 ''region-a.cluster-a.10.0.0.3-dpu0/local-mgmt/0'')"

definition error_json :: "int \<Rightarrow> string \<Rightarrow> json" where
  "error_json code t = JObj
     [(''header'', JObj [(''version'', JNum 1), (''id'', JNum 0), (''flag'', JNum 0), (''ttl'', JNum 63),
        (''source'', JStr ''region-a.cluster-a.10.0.0.2-dpu0''),
        (''destination'', JStr ''region-a.cluster-a.10.0.0.1-dpu0/testsvc/0/ping/0'')]),
      (''body'', JObj [(''Response'', JObj [(''request_id'', JNum 0), (''error_code'', JNum code), (''error_message'', JStr t),
        (''response_body'', JNull)])])]"

definition test_route_message_unreachable :: "u64 \<Rightarrow> bool" where
  "test_route_message_unreachable t \<longleftrightarrow>
     route_message_and_compare (close_receiver (test_mux t) 3) 1
       (ping_json 1 ''region-a.cluster-a.10.0.0.3-dpu0/local-mgmt/0'') (error_json 303 ''TTL expired'')"

definition test_route_message_noroute :: "u64 \<Rightarrow> bool" where
  "test_route_message_noroute t \<longleftrightarrow>
     route_message_and_compare
       (add_route (own_mux t) ''region-a.cluster-a.10.0.0.1-dpu0'' 1 ''region-a.cluster-a.10.0.0.1-dpu0'' ConnCluster 1) 1
       (ping_json 63 ''region-a.cluster-a.10.0.0.3-dpu0/local-mgmt/0'') (error_json 301 ''Route not found'')"

definition test_route_message_isolated :: "u64 \<Rightarrow> bool" where
  "test_route_message_isolated t \<longleftrightarrow>
     (case of_message_json (ping_json 63 ''region-a.cluster-a.10.0.0.3-dpu0/local-mgmt/0'') of
        Ok request_msg \<Rightarrow> (case route_message (own_mux t) request_msg of Some (_, Ok _) \<Rightarrow> True | _ \<Rightarrow> False)
      | _ \<Rightarrow> False)"

lemmas path_defs = stage_keys_def to_service_prefix_def to_node_prefix_def to_cluster_prefix_def to_regional_prefix_def
  with_node_def

lemma ping_written: "of_message_json (message_json (ping_message w ''region-a.cluster-a.10.0.0.3-dpu0/local-mgmt/0''))
    = Ok (ping_message w ''region-a.cluster-a.10.0.0.3-dpu0/local-mgmt/0'')"
  using message_read [of "ping_message w ''region-a.cluster-a.10.0.0.3-dpu0/local-mgmt/0''"]
  by (simp add: ping_message_def paths_of_def header_paths_def path_readable_def sp_clean_def sp_fields_def sp_gapless_def
      with_node_def reads_as_def normal_form_def)

lemma test_route_message_passes: "test_route_message t"
proof -
  have "route_message (close_receiver (test_mux t) 1) (ping_message 63 ''region-a.cluster-a.10.0.0.3-dpu0/local-mgmt/0'')
    = Some ((close_receiver (test_mux t) 1)\<lparr>chans := (chans (close_receiver (test_mux t) 1))
        (3 \<mapsto> (new_chan 16)\<lparr>queue := [ping_message 62 ''region-a.cluster-a.10.0.0.3-dpu0/local-mgmt/0'']\<rparr>)\<rparr>, Ok ())"
    by (subst route_message.simps)
      (simp add: test_mux_def add_route_def own_mux_eq update_route_def close_receiver_def new_chan_def ping_message_def
        path_defs queue_message_def new_remote_def try_queue_def try_send_def)
  then show ?thesis
    by (simp add: test_route_message_def route_message_and_compare_def ping_json_read ping_written)
qed

text \<open>The answer that \<open>10.0.0.2-dpu0\<close> sends, with its id, and what reading \<open>error_json\<close> gives.\<close>

definition error_message_of :: "u64 \<Rightarrow> u32 \<Rightarrow> int \<Rightarrow> string \<Rightarrow> swbus_message" where
  "error_message_of i k code t = \<lparr>header = Some \<lparr>version = 1, msg_id = i, flag = 0, ttl = k,
     source = Some (parsed ''region-a.cluster-a.10.0.0.2-dpu0''),
     destination = Some (parsed ''region-a.cluster-a.10.0.0.1-dpu0/testsvc/0/ping/0'')\<rparr>,
     body = Some (Response \<lparr>request_id = 0, error_code = code, error_message = t, resp_body = None\<rparr>)\<rparr>"

lemma error_json_read: "i32 code \<Longrightarrow> of_message_json (error_json code e) = Ok (error_message_of 0 63 code e)"
  by (simp add: of_message_json_def error_json_def of_header_json_def deserialize_service_path_opt_def error_message_of_def
      of_response_json_def parsed_def from_string_def Let_def i32_def del: parsed_paths)

lemma error_written:
  "i32 code \<Longrightarrow> of_message_json (message_json (error_message_of i 63 code e)) = Ok (error_message_of 0 63 code e)"
  using message_read [of "error_message_of i 63 code e"]
  by (simp add: error_message_of_def paths_of_def header_paths_def path_readable_def sp_clean_def sp_fields_def sp_gapless_def
      with_node_def reads_as_def normal_form_def)

lemma route_error_answer:
  assumes "map_of (routes s) ''region-a.cluster-a.10.0.0.1-dpu0/testsvc/0'' = None"
    "map_of (routes s) ''region-a.cluster-a.10.0.0.1-dpu0'' = Some (new_remote ci 1 hops)" "chans s 1 = Some (new_chan 16)"
  shows "route_message s (error_message_of i 64 code e)
    = Some (s\<lparr>chans := (chans s)(1 \<mapsto> (new_chan 16)\<lparr>queue := [error_message_of i 63 code e]\<rparr>)\<rparr>, Ok ())"
  by (subst route_message.simps)
    (use assms in \<open>simp add: error_message_of_def path_defs queue_message_def new_remote_def try_queue_def try_send_def new_chan_def\<close>)

lemma test_route_message_unreachable_passes: "test_route_message_unreachable t"
proof -
  let ?s = "close_receiver (test_mux t) 3"
  have "route_message ?s (ping_message 1 ''region-a.cluster-a.10.0.0.3-dpu0/local-mgmt/0'')
    = Option.bind (route_message (snd (generate_message_id ?s)) (error_message_of t 64 303 ''TTL expired''))
        (\<lambda>p. Some (fst p, unwrap_exec (snd p)))"
    by (subst route_message.simps)
      (simp add: test_mux_def add_route_def own_mux_eq update_route_def close_receiver_def new_chan_def ping_message_def
        path_defs queue_message_def new_remote_def answer_defs dpu_route_def error_message_of_def)
  also have "route_message (snd (generate_message_id ?s)) (error_message_of t 64 303 ''TTL expired'')
    = Some ((snd (generate_message_id ?s))\<lparr>chans := (chans (snd (generate_message_id ?s)))
        (1 \<mapsto> (new_chan 16)\<lparr>queue := [error_message_of t 63 303 ''TTL expired'']\<rparr>)\<rparr>, Ok ())"
    by (rule route_error_answer)
      (simp_all add: test_mux_def add_route_def own_mux_eq update_route_def close_receiver_def generate_message_id_def generate_def)
  finally show ?thesis
    by (simp add: test_route_message_unreachable_def route_message_and_compare_def ping_json_read error_json_read error_written
        i32_def)
qed

lemma test_route_message_noroute_passes: "test_route_message_noroute t"
proof -
  let ?s = "add_route (own_mux t) ''region-a.cluster-a.10.0.0.1-dpu0'' 1 ''region-a.cluster-a.10.0.0.1-dpu0'' ConnCluster 1"
  have "route_message ?s (ping_message 63 ''region-a.cluster-a.10.0.0.3-dpu0/local-mgmt/0'')
    = Option.bind (route_message (snd (generate_message_id ?s)) (error_message_of t 64 301 ''Route not found''))
        (\<lambda>p. Some (fst p, unwrap_exec (snd p)))"
    by (subst route_message.simps)
      (simp add: add_route_def own_mux_eq update_route_def ping_message_def
        path_defs no_route_response_def answer_defs dpu_route_def error_message_of_def)
  also have "route_message (snd (generate_message_id ?s)) (error_message_of t 64 301 ''Route not found'')
    = Some ((snd (generate_message_id ?s))\<lparr>chans := (chans (snd (generate_message_id ?s)))
        (1 \<mapsto> (new_chan 16)\<lparr>queue := [error_message_of t 63 301 ''Route not found'']\<rparr>)\<rparr>, Ok ())"
    by (rule route_error_answer)
      (simp_all add: add_route_def own_mux_eq update_route_def generate_message_id_def generate_def)
  finally show ?thesis
    by (simp add: test_route_message_noroute_def route_message_and_compare_def ping_json_read error_json_read error_written
        i32_def)
qed

text \<open>
  Without any route, the answer cannot be routed either; the answer to the answer is for this node, which drops it.
\<close>

lemma test_route_message_isolated_passes: "test_route_message_isolated t"
proof -
  let ?s1 = "snd (generate_message_id (own_mux t))"
  let ?s2 = "snd (generate_message_id ?s1)"
  let ?own = "parsed ''region-a.cluster-a.10.0.0.2-dpu0''"
  let ?m = "\<lparr>header = Some (new_header ?own ?own (t + 1)),
    body = Some (Response \<lparr>request_id = t, error_code = 301, error_message = ''Route not found'', resp_body = None\<rparr>)\<rparr>"
  have "route_message (own_mux t) (ping_message 63 ''region-a.cluster-a.10.0.0.3-dpu0/local-mgmt/0'')
    = Option.bind (route_message ?s1 (error_message_of t 64 301 ''Route not found'')) (\<lambda>p. Some (fst p, unwrap_exec (snd p)))"
    by (subst route_message.simps)
      (simp add: own_mux_eq ping_message_def path_defs no_route_response_def answer_defs dpu_route_def error_message_of_def)
  also have "route_message ?s1 (error_message_of t 64 301 ''Route not found'')
    = Option.bind (route_message ?s2 ?m) (\<lambda>p. Some (fst p, unwrap_exec (snd p)))"
    by (subst route_message.simps)
      (simp add: own_mux_eq path_defs no_route_response_def answer_defs dpu_route_def error_message_of_def)
  also have "route_message ?s2 ?m = Some (?s2, Ok ())"
    by (subst route_message.simps)
      (simp add: own_mux_eq path_defs answer_defs new_local_def queue_message_def process_local_message_def)
  finally show ?thesis by (simp add: test_route_message_isolated_def ping_json_read)
qed

definition exported :: "mux \<Rightarrow> route_scope \<Rightarrow> route_query_result_entry list de" where
  "exported s sc =
     (case export_routes s (Some sc) of Ok es \<Rightarrow> of_route_result_json (route_result_json es) | _ \<Rightarrow> Panic)"

definition test_export_routes :: "u64 \<Rightarrow> bool" where
  "test_export_routes t \<longleftrightarrow>
     (let s = add_route (add_route (own_mux t) ''region-a.cluster-a.10.0.0.1-dpu0'' 1 ''region-a.cluster-a.10.0.0.1-dpu0'' ConnCluster 1)
            ''region-a.cluster-b'' 1 ''region-a.cluster-b.10.0.0.1-dpu0'' ConnRegion 3;
          entry1 = \<lparr>rq_service_path = Some (parsed ''region-a.cluster-a.10.0.0.1-dpu0''), rq_hop_count = 1, nh_id = [],
            nh_service_path = Some (parsed ''region-a.cluster-a.10.0.0.1-dpu0''), nh_scope = scope_num ScopeCluster\<rparr>;
          entry2 = \<lparr>rq_service_path = Some (parsed ''region-a.cluster-b''), rq_hop_count = 1, nh_id = [],
            nh_service_path = Some (parsed ''region-a.cluster-b.10.0.0.1-dpu0''), nh_scope = scope_num ScopeRegion\<rparr>
      in exported s ScopeCluster = Ok [entry1, entry2] \<and> exported s ScopeRegion = Ok [entry2])"

lemma from_string_parsed: "(from_string s :: service_path result) = Ok (parsed s)"
  by (simp add: parsed_def from_string_def Let_def)

lemma test_export_routes_passes: "test_export_routes t"
proof -
  let ?s = "add_route (add_route (own_mux t) ''region-a.cluster-a.10.0.0.1-dpu0'' 1 ''region-a.cluster-a.10.0.0.1-dpu0'' ConnCluster 1)
            ''region-a.cluster-b'' 1 ''region-a.cluster-b.10.0.0.1-dpu0'' ConnRegion 3"
  let ?id = "''swbs-to://127.0.0.1:8080''"
  let ?e1 = "\<lparr>rq_service_path = Some (parsed ''region-a.cluster-a.10.0.0.1-dpu0''), rq_hop_count = 1, nh_id = ?id,
            nh_service_path = Some (parsed ''region-a.cluster-a.10.0.0.1-dpu0''), nh_scope = scope_num ScopeCluster\<rparr>"
  let ?e2 = "\<lparr>rq_service_path = Some (parsed ''region-a.cluster-b''), rq_hop_count = 1, nh_id = ?id,
            nh_service_path = Some (parsed ''region-a.cluster-b.10.0.0.1-dpu0''), nh_scope = scope_num ScopeRegion\<rparr>"
  have x: "export_routes ?s (Some ScopeCluster) = Ok [?e1, ?e2]" "export_routes ?s (Some ScopeRegion) = Ok [?e2]"
    by (simp_all add: export_routes_def export_filter_def export_entry_def add_route_def own_mux_eq update_route_def local_addr_def
        new_remote_def new_client_def new_local_def from_string_parsed sp_route_scope_def less_eq_route_scope_def
        with_node_def with_cluster_def)
  have "str_le ''cluster-a'' ''cluster-b''" by code_simp
  then have st: "sorted_entries [?e1, ?e2] = [?e1, ?e2]" "sorted_entries [?e2] = [?e2]"
    by (simp_all add: sorted_entries_def entry_le_def sp_opt_le_def sp_fields_def with_node_def with_cluster_def)
  have r: "of_route_result_json (route_result_json [?e1, ?e2]) = Ok (map normal_entry (sorted_entries [?e1, ?e2]))"
    "of_route_result_json (route_result_json [?e2]) = Ok (map normal_entry (sorted_entries [?e2]))"
    using route_result_read [of "[?e1, ?e2]"] route_result_read [of "[?e2]"]
    by (simp_all add: entry_paths_def path_readable_def sp_clean_def sp_fields_def sp_gapless_def i32_def
        with_node_def with_cluster_def reads_as_def)
  show ?thesis
    unfolding test_export_routes_def exported_def Let_def x exec.case r st by (simp add: normal_entry_def)
qed

section \<open>The connection worker\<close>

text \<open>
  The worker runs on the stream of the test until its token is cancelled or the stream ends, whichever is first. The
  awaited result is \<open>Ok\<close> unless the task panics.
\<close>

definition worker_joins :: "mux \<Rightarrow> stream_item list \<Rightarrow> bool" where
  "worker_joins s items \<longleftrightarrow>
     (case conn_worker_run ((new_host 0)\<lparr>hmux := s\<rparr>) \<lparr>info = test_client, shutdown_ct = 0, send_queue_tx = 1\<rparr> items of
        Some (_, e) \<Rightarrow> e \<in> {LoopBreak, LoopErr}
      | None \<Rightarrow> False)"

definition conn_worker_can_be_shutdown :: "u64 \<Rightarrow> bool" where
  "conn_worker_can_be_shutdown t \<longleftrightarrow> list_all (worker_joins (new_mux t)) [[TokenCancelled], [StreamClosed]]"

lemma conn_worker_can_be_shutdown_passes: "conn_worker_can_be_shutdown t"
  by (simp add: conn_worker_can_be_shutdown_def worker_joins_def conn_worker_run_def)

definition first_mux :: "u64 \<Rightarrow> mux" where
  "first_mux t = set_my_routes (new_mux t) [dpu_route ''region-a.cluster-a.10.0.0.1-dpu0'']"

lemma first_mux_eq:
  "first_mux t = \<lparr>routes = [(''region-a.cluster-a.10.0.0.1-dpu0'', new_local)], id_generator = \<lparr>next_id = t\<rparr>,
     my_routes = [dpu_route ''region-a.cluster-a.10.0.0.1-dpu0''], chans = Map.empty\<rparr>"
  by (simp add: first_mux_def dpu_route_def update_route_def to_node_prefix_def new_mux_def new_id_generator_def with_node_def)

definition conn_worker_can_process_data_message :: "u64 \<Rightarrow> bool" where
  "conn_worker_can_process_data_message t \<longleftrightarrow>
     (let ping_msg = \<lparr>header = Some (new_header (parsed ''region-a.cluster-a.10.0.0.1-dpu0'')
            (parsed ''region-a.cluster-a.10.0.0.2-dpu0'') 1), body = Some PingRequest\<rparr>
      in list_all (worker_joins (first_mux t)) [[TokenCancelled], [StreamMsg ping_msg, TokenCancelled], [StreamMsg ping_msg, StreamClosed]])"

lemma conn_worker_can_process_data_message_passes: "conn_worker_can_process_data_message t"
proof -
  let ?own = "parsed ''region-a.cluster-a.10.0.0.1-dpu0''"
  let ?s = "first_mux t"
  let ?s1 = "snd (generate_message_id ?s)"
  let ?ping = "\<lparr>header = Some (new_header ?own (parsed ''region-a.cluster-a.10.0.0.2-dpu0'') 1), body = Some PingRequest\<rparr>"
  let ?m = "\<lparr>header = Some (new_header ?own ?own t),
    body = Some (Response \<lparr>request_id = 1, error_code = 301, error_message = ''Route not found'', resp_body = None\<rparr>)\<rparr>"
  have "route_message ?s ?ping = Option.bind (route_message ?s1 ?m) (\<lambda>p. Some (fst p, unwrap_exec (snd p)))"
    by (subst route_message.simps) (simp add: first_mux_eq path_defs no_route_response_def answer_defs dpu_route_def)
  also have "route_message ?s1 ?m = Some (?s1, Ok ())"
    by (subst route_message.simps)
      (simp add: first_mux_eq path_defs answer_defs new_local_def queue_message_def process_local_message_def)
  finally have "process_data_message ?s ?ping = Some (?s1, Ok ())"
    by (simp add: process_data_message_def validate_message_common_def new_header_def)
  then show ?thesis
    by (simp add: conn_worker_can_process_data_message_def worker_joins_def conn_worker_run_def)
qed

definition test_worker_invalid_message :: bool where
  "test_worker_invalid_message \<longleftrightarrow>
     (let sp1 = Some (parsed ''regiona.clustera.10.0.0.1-dpu0''); sp2 = Some (parsed ''regiona.clustera.10.0.0.2-dpu0'');
          hdr = (\<lambda>v src dst. Some \<lparr>version = v, msg_id = 1, flag = 0, ttl = 64, source = src, destination = dst\<rparr>);
          refused = (\<lambda>h b. \<exists>e. validate_message_common \<lparr>header = h, body = b\<rparr> = Err e)
      in refused None (Some TraceRouteRequest) \<and> refused (hdr 0 sp1 sp2) (Some TraceRouteRequest) \<and>
         refused (hdr 1 None sp2) (Some TraceRouteRequest) \<and> refused (hdr 1 sp2 None) (Some TraceRouteRequest) \<and>
         refused (hdr 1 sp1 sp2) None)"

lemma test_worker_invalid_message_passes: test_worker_invalid_message
  by (simp add: test_worker_invalid_message_def validate_message_common_def mk_input_def err_of_def)

end
