(* ===== verification/Swbus_Client_Tests.thy ===== *)
theory Swbus_Client_Tests
  imports Swbus_Cli Swbus_Config_File Swbus_Tests
begin

text \<open>
  Unit tests on the client side of the bus, run on the model: routing to the handlers of an edge runtime
  (\<open>swbus-edge/src/edge_runtime.rs\<close>), the incoming table of an actor (\<open>swbus-actor/src/state/incoming.rs\<close>) and the waiting
  for responses and the configuration of the command line tool (\<open>swbus-cli/src/main.rs\<close>).
\<close>

section \<open>Handlers of an edge runtime\<close>

definition swbusd_config_key :: service_path where
  "swbusd_config_key = parsed ''region-a.cluster-a.10.0.1.0-dpu0''"

definition make_a_handler :: "edge \<Rightarrow> string \<Rightarrow> nat \<Rightarrow> edge \<times> service_path" where
  "make_a_handler e s hdl =
     (let sp = parsed s
      in (add_handler (e\<lparr>handler_chans := (handler_chans e)(hdl \<mapsto> new_chan 16)\<rparr>) sp hdl, sp))"

definition recv_from :: "edge \<Rightarrow> nat \<Rightarrow> (edge \<times> swbus_message) option" where
  "recv_from e hdl =
     (case handler_chans e hdl of
        Some ch \<Rightarrow>
          (case queue ch of
             m # ms \<Rightarrow> Some (e\<lparr>handler_chans := (handler_chans e)(hdl \<mapsto> ch\<lparr>queue := ms\<rparr>)\<rparr>, m)
           | [] \<Rightarrow> None)
      | None \<Rightarrow> None)"

definition self_message :: "service_path \<Rightarrow> swbus_message" where
  "self_message sp = \<lparr>header = Some \<lparr>version = 0, msg_id = 0, flag = 0, ttl = 0, source = Some sp, destination = Some sp\<rparr>, body = None\<rparr>"

fun make_handlers :: "edge \<Rightarrow> string list \<Rightarrow> nat \<Rightarrow> edge \<times> (service_path \<times> nat) list" where
  "make_handlers e [] hdl = (e, [])"
| "make_handlers e (s # ss) hdl =
     (let (e1, sp) = make_a_handler e s hdl; (e2, hs) = make_handlers e1 ss (Suc hdl) in (e2, (sp, hdl) # hs))"

text \<open>The loop over the handlers: the message is sent, routed by the task of the runtime, and received by its handler.\<close>

fun each_receives :: "edge \<Rightarrow> (service_path \<times> nat) list \<Rightarrow> bool" where
  "each_receives e [] = True"
| "each_receives e ((sp, hdl) # hs) =
     (case edge_send e (self_message sp) of
        Some (e1, Ok u) \<Rightarrow>
          (case Option.bind (route_next_local e1) (\<lambda>e2. recv_from e2 hdl) of
             Some (e3, m) \<Rightarrow> Option.bind (header m) destination = Some sp \<and> each_receives e3 hs
           | None \<Rightarrow> False)
      | _ \<Rightarrow> False)"

definition test_routing_to_handler :: bool where
  "test_routing_to_handler \<longleftrightarrow>
     (let base = to_longest_path (to_swbusd_service_path swbusd_config_key);
          sp = swbusd_config_key\<lparr>service_type := ''swbus-edge'', service_id := ''test''\<rparr>;
          (e, hs) = make_handlers (new_edge sp) (map (\<lambda>s. base @ s)
            [''/swbus-edge/test/r/1'', ''/swbus-edge/test/r'', ''/swbus-edge/test'', ''/swbus-edge'', []]) 0
      in each_receives e hs)"

text \<open>What one turn does for a handler with room: nothing but the delivery, so that the runtime is as before afterwards.\<close>

lemma receives_own:
  assumes "handler_chans e hdl = Some ch" "rx_open ch" "queue ch = []" "cap ch > 0" "map_of (eroutes e) sp = Some (hdl, Public)"
    and "rx_open (local_msgs e)" "queue (local_msgs e) = []" "cap (local_msgs e) > 0"
  shows "each_receives e ((sp, hdl) # hs) = each_receives e hs"
proof -
  let ?m = "self_message sp"
  let ?e1 = "e\<lparr>local_msgs := (local_msgs e)\<lparr>queue := [?m]\<rparr>\<rparr>"
  have lm: "(local_msgs e)\<lparr>queue := []\<rparr> = local_msgs e" using assms(7) by (cases "local_msgs e") simp
  have ch: "ch\<lparr>queue := []\<rparr> = ch" using assms(3) by (cases ch) simp
  have 1: "edge_send e ?m = Some (?e1, Ok ())" using assms(6-8) by (simp add: edge_send_def send_async_cases)
  have "route_next_local ?e1 = edge_route_message e ?m Private" by (simp add: route_next_local_def lm)
  also have "\<dots> = Some (e\<lparr>handler_chans := (handler_chans e)(hdl \<mapsto> ch\<lparr>queue := [?m]\<rparr>)\<rparr>)"
    using assms(1-5)
    by (simp add: edge_route_message_def self_message_def try_route_def route_map_get_def proxy_send_def send_async_cases)
  finally have 2: "Option.bind (route_next_local ?e1) (\<lambda>e2. recv_from e2 hdl) = Some (e, ?m)"
    using assms(1) ch by (simp add: recv_from_def fun_upd_idem)
  have "Option.bind (header ?m) destination = Some sp" by (simp add: self_message_def)
  then show ?thesis by (simp add: 1 2)
qed

lemma make_a_handler_edge:
  assumes "make_a_handler e s n = (e1, sp)"
  shows "sp = parsed s" "local_msgs e1 = local_msgs e" "handler_chans e1 = (handler_chans e)(n \<mapsto> new_chan 16)"
    "map_of (eroutes e1) = (map_of (eroutes e))(sp \<mapsto> (n, Public))"
  using assms by (auto simp: make_a_handler_def add_handler_def route_map_insert_def Let_def update_conv)

lemma make_handlers_keeps:
  assumes "make_handlers e ss n = (e', hs)"
  shows "local_msgs e' = local_msgs e \<and> (\<forall>h < n. handler_chans e' h = handler_chans e h) \<and>
    (\<forall>sp. sp \<notin> parsed ` set ss \<longrightarrow> map_of (eroutes e') sp = map_of (eroutes e) sp)"
  using assms
proof (induction e ss n arbitrary: e' hs rule: make_handlers.induct)
  case (2 e s ss n)
  obtain e1 sp where e1: "make_a_handler e s n = (e1, sp)" by fastforce
  obtain hs1 where hs1: "make_handlers e1 ss (Suc n) = (e', hs1)" using 2(2) e1 by (auto split: prod.splits)
  from 2(1) [OF e1 [symmetric] refl hs1] make_a_handler_edge [OF e1] show ?case by (simp add: less_SucI)
qed simp

lemma make_handlers_routes:
  assumes "make_handlers e ss n = (e', hs)" "distinct (map parsed ss)" "(sp, h) \<in> set hs"
  shows "map_of (eroutes e') sp = Some (h, Public) \<and> handler_chans e' h = Some (new_chan 16)"
  using assms
proof (induction e ss n arbitrary: e' hs rule: make_handlers.induct)
  case (2 e s ss n)
  obtain e1 q where e1: "make_a_handler e s n = (e1, q)" by fastforce
  obtain hs1 where hs1: "make_handlers e1 ss (Suc n) = (e', hs1)" "hs = (q, n) # hs1"
    using 2(2) e1 by (auto split: prod.splits)
  note e1s = make_a_handler_edge [OF e1]
  show ?case
  proof (cases "(sp, h) \<in> set hs1")
    case True
    with 2(1) [OF e1 [symmetric] refl hs1(1)] 2(3) show ?thesis by simp
  next
    case False
    then have "sp = q" "h = n" "q \<notin> parsed ` set ss" using 2(3,4) hs1(2) e1s(1) by auto
    with make_handlers_keeps [OF hs1(1)] e1s show ?thesis by simp
  qed
qed simp

lemma test_routing_to_handler_passes: "test_routing_to_handler"
proof -
  let ?ss = "[''region-a.cluster-a.10.0.1.0-dpu0/swbus-edge/test/r/1'', ''region-a.cluster-a.10.0.1.0-dpu0/swbus-edge/test/r'',
    ''region-a.cluster-a.10.0.1.0-dpu0/swbus-edge/test'', ''region-a.cluster-a.10.0.1.0-dpu0/swbus-edge'', ''region-a.cluster-a.10.0.1.0-dpu0'']"
  let ?sp = "swbusd_config_key\<lparr>service_type := ''swbus-edge'', service_id := ''test''\<rparr>"
  have base: "to_longest_path (to_swbusd_service_path swbusd_config_key) = ''region-a.cluster-a.10.0.1.0-dpu0''"
    by code_simp
  have d: "distinct (map parsed ?ss)" by code_simp
  obtain e hs where m: "make_handlers (new_edge ?sp) ?ss 0 = (e, hs)" by fastforce
  have "each_receives e hs'" if "set hs' \<subseteq> set hs" for hs'
    using that
  proof (induction hs')
    case (Cons p hs')
    obtain sp h where p: "p = (sp, h)" by fastforce
    have "map_of (eroutes e) sp = Some (h, Public)" "handler_chans e h = Some (new_chan 16)"
      using make_handlers_routes [OF m d] Cons(2) p by auto
    moreover have "local_msgs e = new_chan swbus_recv_queue_size" using make_handlers_keeps [OF m] by (simp add: new_edge_def)
    ultimately show ?case
      using Cons p receives_own [of e h "new_chan 16" sp hs'] by (simp add: new_chan_def swbus_recv_queue_size_def)
  qed simp
  moreover have "map (\<lambda>s. ''region-a.cluster-a.10.0.1.0-dpu0'' @ s)
      [''/swbus-edge/test/r/1'', ''/swbus-edge/test/r'', ''/swbus-edge/test'', ''/swbus-edge'', []] = ?ss" by simp
  ultimately show ?thesis unfolding test_routing_to_handler_def base Let_def by (simp only: m) simp
qed

section \<open>The incoming table of an actor\<close>

definition test_incoming_table :: "nat \<Rightarrow> u64 \<Rightarrow> bool" where
  "test_incoming_table t0 t \<longleftrightarrow>
     (let e = new_edge (parsed ''unknown.unknown.unknown/hamgrd/0'');
          c = snd (new_simple_client e (parsed ''unknown.unknown.unknown/hamgrd/0/test/0'') True False t 0);
          msg1 = \<lparr>am_key = ''actor_registration-source/0'', am_data = JNum 1\<rparr>;
          msg2 = \<lparr>am_key = ''actor_registration-source/1'', am_data = JNum 2\<rparr>;
          src = parsed ''unknown.unknown.unknown/hamgrd/0/source/0'';
          st = incoming_insert (incoming_insert (new_state t0 c) msg1 src 0) msg2 src 1
      in incoming_get st ''actor_registration-source/0'' = Ok msg1 \<and> incoming_get st ''actor_registration-source/1'' = Ok msg2 \<and>
         bind_exec (get_entry st ''actor_registration-source/0'') (\<lambda>e. Ok (in_msg e)) = Ok msg1 \<and>
         bind_exec (get_entry st ''actor_registration-source/1'') (\<lambda>e. Ok (in_msg e)) = Ok msg2 \<and>
         length (get_by_prefix st ''actor_registration-'') = 2)"

lemma test_incoming_table_passes: "test_incoming_table t0 t"
proof -
  have "starts_with ''actor_registration-source/0'' ''actor_registration-''" "starts_with ''actor_registration-source/1'' ''actor_registration-''"
    by code_simp+
  then show ?thesis
    by (simp add: test_incoming_table_def Let_def incoming_insert_def new_state_def incoming_get_def get_entry_def new_incoming_entry_def
        get_by_prefix_def)
qed

section \<open>Waiting for a response\<close>

definition ok_message :: "u64 \<Rightarrow> swbus_message" where
  "ok_message rid = \<lparr>header = None, body = Some (Response (response_ok rid))\<rparr>"

definition test_response_result_from_code :: bool where
  "test_response_result_from_code \<longleftrightarrow>
     (let r = from_code (code_num CodeOk) ''Success'' (Some (ok_message 1))
      in rr_code r = CodeOk \<and> rr_msg r = Some (ok_message 1))"

text \<open>The channel is open unless the test drops its sender; \<open>now\<close> is the time of the call, in milliseconds.\<close>

definition test_wait_for_response_success :: "nat \<Rightarrow> bool" where
  "test_wait_for_response_success now \<longleftrightarrow>
     rr_code (fst (wait_for_response 1 5000 now None now [(now, ok_message 1)])) = CodeOk"

definition test_wait_for_response_timeout :: "nat \<Rightarrow> bool" where
  "test_wait_for_response_timeout now \<longleftrightarrow>
     (let r = fst (wait_for_response 1000 1000 now None now [(now, ok_message 1)])
      in rr_code r = Timeout \<and> rr_text r = ''request timeout'')"

definition test_wait_for_response_channel_broken :: "nat \<Rightarrow> bool" where
  "test_wait_for_response_channel_broken now \<longleftrightarrow>
     (let r = fst (wait_for_response 1 5000 now (Some now) now [])
      in rr_code r = Fail \<and> rr_text r = ''channel broken'')"

lemma codes_of_num: "code_of_num (code_num CodeOk) = Some CodeOk" "code_of_num (code_num Timeout) = Some Timeout"
  "code_of_num (code_num Fail) = Some Fail"
  by code_simp+

lemma wait_for_response_tests_pass:
  "test_response_result_from_code" "test_wait_for_response_success now" "test_wait_for_response_timeout now"
  "test_wait_for_response_channel_broken now"
  by (simp_all add: test_response_result_from_code_def test_wait_for_response_success_def test_wait_for_response_timeout_def
      test_wait_for_response_channel_broken_def from_code_def timed_out_def codes_of_num codes_of_num [simplified] ok_message_def response_ok_def
      wait_for_response.simps Let_def)

section \<open>The configuration of the command line tool\<close>

definition test_get_swbus_config :: "(string \<Rightarrow> string option) \<Rightarrow> bool" where
  "test_get_swbus_config parse_ipv6 \<longleftrightarrow>
     (case populate_configdb_for_test (\<lambda>_. []) of
        Ok db \<Rightarrow>
          (case get_swbus_config (db_source parse_ipv6 db) (\<lambda>f. Inl (Inl f)) (Some (''dpu'' @ show_nat 1)) None of
             Ok c \<Rightarrow>
               cfg_endpoint c = \<lparr>sock_ip = ''10.0.1.0'', sock_port = 23606 + 1\<rparr> \<and>
               list_ex (\<lambda>r. rc_scope r = ScopeCluster \<and>
                 rc_key r = with_node ''region-a'' ''cluster-a'' (''10.0.1.0-dpu'' @ show_nat 1) [] [] [] []) (cfg_routes c)
           | _ \<Rightarrow> False)
      | _ \<Rightarrow> False)"

lemma slot_db_loads:
  assumes "v6 ''2001:db8:1::'' = Some ''2001:db8:1::''" "v6 ''2001:db8:1::1'' = Some ''2001:db8:1::1''"
    "v6 ''2001:db8:1::2'' = Some ''2001:db8:1::2''"
  shows "\<exists>c. swbus_config_from_db (db_source v6 test_db) 1 = Ok c \<and> cfg_endpoint c = \<lparr>sock_ip = ''10.0.1.0'', sock_port = 23607\<rparr> \<and>
    \<lparr>rc_key = node_path ''region-a'' ''cluster-a'' ''10.0.1.0'' 1, rc_scope = ScopeCluster\<rparr> \<in> set (cfg_routes c)"
proof -
  have k: "map fst (test_db ''DPU'') = [''dpu0'', ''dpu1'']" "map fst (test_db ''REMOTE_DPU'') = [''dpu1_0'', ''dpu1_1'', ''dpu2_0'', ''dpu2_1'']"
    by (simp_all add: test_db_def)
  have "get_loopback_address (db_source v6 test_db) 0 = Ok (Some ''10.0.1.0'', Some ''2001:db8:1::'')"
    using assms(1) by (rule test_loopback)
  then show ?thesis
    by (simp add: demo_load_defs get_device_info_def device_metadata_entry_of_def test_db_entries assms k
        to_remote_dpu_def ipv4_texts Let_def)
qed

lemma test_get_swbus_config_passes:
  assumes "v6 ''2001:db8:1::'' = Some ''2001:db8:1::''" "v6 ''2001:db8:1::1'' = Some ''2001:db8:1::1''"
    "v6 ''2001:db8:1::2'' = Some ''2001:db8:1::2''"
  shows "test_get_swbus_config v6"
proof -
  obtain c where c: "swbus_config_from_db (db_source v6 test_db) 1 = Ok c"
    "cfg_endpoint c = \<lparr>sock_ip = ''10.0.1.0'', sock_port = 23607\<rparr>"
    "\<lparr>rc_key = node_path ''region-a'' ''cluster-a'' ''10.0.1.0'' 1, rc_scope = ScopeCluster\<rparr> \<in> set (cfg_routes c)"
    using slot_db_loads [OF assms] by blast
  have one: "show_nat 1 = ''1''" by code_simp
  have "get_swbus_config (db_source v6 test_db) (\<lambda>f. Inl (Inl f)) (Some ''dpu1'') None = Ok c"
    by (simp add: get_swbus_config_def cont_byte_def test_numbers c)
  moreover have "node_path ''region-a'' ''cluster-a'' ''10.0.1.0'' 1 = with_node ''region-a'' ''cluster-a'' ''10.0.1.0-dpu1'' [] [] [] []"
    by (simp add: node_path_def node_name_def one)
  ultimately show ?thesis
    using c by (force simp: test_get_swbus_config_def populate_gives one list_ex_iff)
qed

end
