(* ===== verification/Swss_Serde_Tests.thy ===== *)
theory Swss_Serde_Tests
  imports Swss_Serde
begin

text \<open>
  The unit tests of \<open>swss-serde\<close> (\<open>src/test.rs\<close>) on the model: each is a definition with the assertions of the test, for
  every text that \<open>random_string\<close> may give, and a lemma that it holds. The round trips follow from \<open>survives_iff\<close>,
  \<open>struct_read_back\<close> and \<open>table_write_read\<close>; the tests only have to say which values they use.
\<close>

section \<open>The types of the tests\<close>

definition e_ty :: sty where
  "e_ty = TEnum [''VariantA'', ''VariantB'']"

definition plain :: "string \<Rightarrow> sty \<Rightarrow> field_ty" where
  "plain n t = \<lparr>f_name = n, f_ty = t, f_default = None, f_skip_none = False\<rparr>"

definition with_default :: "string \<Rightarrow> sty \<Rightarrow> sval \<Rightarrow> field_ty" where
  "with_default n t d = \<lparr>f_name = n, f_ty = t, f_default = Some d, f_skip_none = False\<rparr>"

definition s_ty :: struct_ty where
  "s_ty = [plain ''a'' (TInt I32), plain ''b'' TStr, plain ''c'' (TSeq e_ty), plain ''d'' (TOption (TInt I32)),
     plain ''e'' (TOption (TInt I32))]"

definition d_ty :: struct_ty where
  "d_ty = [with_default ''x'' (TInt I32) (SInt I32 0), with_default ''y'' TStr (SStr []), with_default ''z'' (TSeq e_ty) (SSeq [])]"

definition va :: sval where "va = SUnitVariant ''VariantA''"
definition vb :: sval where "vb = SUnitVariant ''VariantB''"

section \<open>Round trips\<close>

text \<open>The three \<open>round_trip!\<close> macros.\<close>

definition round_trip_struct :: "struct_ty \<Rightarrow> sval list \<Rightarrow> bool" where
  "round_trip_struct st vs \<longleftrightarrow> (case to_field_values st vs of Ok row \<Rightarrow> from_field_values st row = Ok vs | _ \<Rightarrow> False)"

definition round_trip_table :: "'t hset \<Rightarrow> 't hget \<Rightarrow> 't \<Rightarrow> struct_ty \<Rightarrow> sval list \<Rightarrow> bool" where
  "round_trip_table hset hget t st vs \<longleftrightarrow>
     (case to_table hset st vs t ''mykey'' of (Ok u, t') \<Rightarrow> from_table hget st t' ''mykey'' = Ok vs | _ \<Rightarrow> False)"

definition round_trip_value :: "sty \<Rightarrow> sval \<Rightarrow> bool" where
  "round_trip_value t v \<longleftrightarrow>
     (case serialize_field_value v of Ok s \<Rightarrow> deserialize_field_value t (Some s) = Ok v | _ \<Rightarrow> False)"

definition test_s :: "string \<Rightarrow> sval list" where
  "test_s b = [SInt I32 5, SStr b, SSeq [va, vb, va], SSome (SInt I32 32131), SNone]"

definition test_d :: "string \<Rightarrow> sval list" where
  "test_d y = [SInt I32 5, SStr y, SSeq [va, vb, va]]"

definition field_values_test :: "string \<Rightarrow> bool" where
  "field_values_test b \<longleftrightarrow>
     round_trip_struct s_ty (test_s b) \<and>
     round_trip_struct s_ty [SInt I32 (int_max I32), SStr [], SSeq [], SNone, SSome (SInt I32 (int_min I32))]"

definition table_test :: "string \<Rightarrow> 't hset \<Rightarrow> 't hget \<Rightarrow> 't \<Rightarrow> bool" where
  "table_test b hset hget t \<longleftrightarrow>
     round_trip_table hset hget t s_ty
       [SInt I32 (int_max I32), SStr b, SSeq [va, va, vb, va], SSome (SInt I32 (int_min I32)), SNone]"

definition field_value_test :: bool where
  "field_value_test \<longleftrightarrow>
     list_all (\<lambda>(t, v). round_trip_value t v)
       [(TInt I32, SInt I32 123456789), (TInt I64, SInt I64 (int_max I64)), (TInt I64, SInt I64 (int_min I64)),
        (TStr, SStr ''hello!''), (e_ty, va), (e_ty, vb), (TSeq e_ty, SSeq []), (TSeq e_ty, SSeq [va, va, vb]),
        (TOption (TInt I32), SSome (SInt I32 123)), (TOption (TInt I32), SSome (SInt I32 (int_min I32))),
        (TOption (TInt I32), SSome (SInt I32 (int_max I32))), (TOption (TInt I32), SNone)]"

lemma round_trip_valueI:
  assumes "wf_ty t" "has_type t v" "survives t v"
  shows "round_trip_value t v"
proof -
  obtain s where s: "serialize_field_value v = Ok s" using serialize_well_typed [OF assms(2)] by blast
  with survives_iff [OF assms(1,2) s] assms(3) show ?thesis by (simp add: round_trip_value_def)
qed

lemma round_trip_structI:
  assumes "wf_struct st" "struct_has_type st vs" "list_all2 (\<lambda>f v. survives (f_ty f) v) st vs"
  shows "round_trip_struct st vs"
  using struct_read_back [OF assms] by (auto simp: round_trip_struct_def)

lemma number_text_not_none [simp]: "show_int i \<noteq> ''none''"
proof
  assume "show_int i = ''none''"
  then have "CHR ''e'' \<in> set (show_nat (nat (- i))) \<union> set (show_nat (nat i))"
    by (auto simp: show_int_def split: if_splits)
  then obtain d where "d < 10" "CHR ''e'' = digit_char d" using show_nat_digits by blast
  moreover have "char_digit CHR ''e'' = None" by code_simp
  ultimately show False using char_digit_digit_char [of d] by simp
qed

lemma variants_ok [simp]:
  "wf_ty e_ty" "has_type e_ty va" "has_type e_ty vb" "survives e_ty va" "survives e_ty vb"
  "serialize_field_value va = Ok ''varianta''" "serialize_field_value vb = Ok ''variantb''"
  by (simp add: e_ty_def) code_simp+

lemma test_types_wf [simp]: "wf_struct s_ty" "wf_struct d_ty"
  by (simp_all add: wf_struct_def s_ty_def d_ty_def plain_def with_default_def names_def)

lemmas test_types = s_ty_def d_ty_def plain_def with_default_def struct_has_type_def int_fits_def

lemma field_values_test_passes: "utf8_valid b \<Longrightarrow> field_values_test b"
  unfolding field_values_test_def
  by (intro conjI round_trip_structI [OF test_types_wf(1)]) (simp_all add: test_types test_s_def utf8_ascii)

lemma field_value_test_passes: "field_value_test"
  by (simp add: field_value_test_def) (intro conjI round_trip_valueI; simp add: int_fits_def utf8_ascii)

lemma to_table_written:
  assumes "\<And>t key k x. fst (hset t key k x) = None" "struct_has_type st vs"
  shows "\<exists>t'. to_table hset st vs t key = (Ok (), t')"
proof -
  have "\<exists>u'. table_fields hset kvs u key = (Ok (), u')" if "\<forall>kv \<in> set kvs. \<exists>x. serialize_field_value (snd kv) = Ok x" for kvs u
    using that
  proof (induction kvs arbitrary: u)
    case (Cons kv kvs)
    then obtain x where x: "serialize_field_value (snd kv) = Ok x" by auto
    obtain u1 where "hset u key (fst kv) x = (None, u1)" using assms(1) by (metis prod.collapse)
    with x Cons show ?case by (cases kv) auto
  qed simp
  moreover have "\<exists>x. serialize_field_value v = Ok x" if "(k, v) \<in> set (present_fields st vs)" for k v
    using that assms(2) serialize_well_typed by (fastforce simp: present_fields_def struct_has_type_def list_all2_iff)
  ultimately show ?thesis by (fastforce simp: to_table_def)
qed

lemma table_test_passes:
  assumes "utf8_valid b" "hash_laws hset hget" "\<And>t key k x. fst (hset t key k x) = None"
    and "\<And>k. hget t ''mykey'' k = Ok None"
  shows "table_test b hset hget t"
proof -
  let ?vs = "[SInt I32 (int_max I32), SStr b, SSeq [va, va, vb, va], SSome (SInt I32 (int_min I32)), SNone]"
  have v: "struct_has_type s_ty ?vs" "list_all2 (\<lambda>f v. survives (f_ty f) v) s_ty ?vs"
    using assms(1) by (simp_all add: test_types)
  obtain t' where t': "to_table hset s_ty ?vs t ''mykey'' = (Ok (), t')" using to_table_written [of hset, OF assms(3) v(1)] by blast
  from table_write_read [OF assms(2) test_types_wf(1) v t'] assms(4) t' show ?thesis
    by (simp add: table_test_def round_trip_table_def)
qed

section \<open>Missing, further and default fields\<close>

definition field_values_with_default :: bool where
  "field_values_with_default \<longleftrightarrow> from_field_values d_ty [] = Ok [SInt I32 0, SStr [], SSeq []]"

definition field_values_union :: "string \<Rightarrow> string \<Rightarrow> bool" where
  "field_values_union b y \<longleftrightarrow>
     (case (to_field_values s_ty (test_s b), to_field_values d_ty (test_d y)) of
        (Ok fs, Ok fd) \<Rightarrow>
          (let row = foldl (\<lambda>r (k, v). AList.update k v r) fs fd
           in from_field_values s_ty row = Ok (test_s b) \<and> from_field_values d_ty row = Ok (test_d y))
      | _ \<Rightarrow> False)"

definition field_values_subset :: "string \<Rightarrow> bool" where
  "field_values_subset b \<longleftrightarrow>
     (case to_field_values s_ty (test_s b) of
        Ok row \<Rightarrow> from_field_values s_ty (AList.update ''g'' ''VariantA'' (AList.update ''f'' ''123'' row)) = Ok (test_s b)
      | _ \<Rightarrow> False)"

definition xyz_ty :: struct_ty where
  "xyz_ty = map (\<lambda>n. plain n (TOption (TInt I32))) [''x'', ''y'', ''z'']"

definition missing_field_is_none :: "'t hget \<Rightarrow> 't \<Rightarrow> bool" where
  "missing_field_is_none hget t \<longleftrightarrow>
     deserialize_field_value (TOption (TInt I32)) None = Ok SNone \<and>
     from_field_values xyz_ty [] = Ok [SNone, SNone, SNone] \<and>
     from_table hget xyz_ty t ''emptykey'' = Ok [SNone, SNone, SNone]"

definition option_values :: bool where
  "option_values \<longleftrightarrow>
     serialize_field_value (SSome (SInt I32 123)) = Ok ''123'' \<and> serialize_field_value SNone = Ok ''none'' \<and>
     deserialize_field_value (TOption (TInt I32)) (Some ''123'') = Ok (SSome (SInt I32 123)) \<and>
     deserialize_field_value (TOption (TInt I32)) (Some ''none'') = Ok SNone \<and>
     deserialize_field_value (TOption (TInt I32)) None = Ok SNone"

definition enums_are_case_insensitive :: bool where
  "enums_are_case_insensitive \<longleftrightarrow>
     serialize_field_value va = Ok ''varianta'' \<and> serialize_field_value vb = Ok ''variantb'' \<and>
     deserialize_field_value e_ty (Some ''VARIANTA'') = Ok va \<and>
     deserialize_field_value e_ty (Some ''VARIANTB'') = Ok vb \<and>
     deserialize_field_value e_ty (Some ''VaRiAnTb'') = Ok vb"

lemma serde_unit_tests_pass:
  "field_values_with_default" "option_values" "enums_are_case_insensitive"
  by code_simp+

lemma missing_field_is_none_passes:
  assumes "\<And>k. hget t ''emptykey'' k = Ok None"
  shows "missing_field_is_none hget t"
  by (simp add: missing_field_is_none_def xyz_ty_def plain_def from_field_values_def take_field_def missing_field_def
      from_table_def table_field_def assms)

text \<open>The rows the tests write, and what reading a row with further fields gives.\<close>

lemma test_rows:
  "to_field_values s_ty (test_s b) =
     Ok [(''a'', ''5''), (''b'', b), (''c'', ''varianta,variantb,varianta''), (''d'', ''32131''), (''e'', ''none'')]"
  "to_field_values d_ty (test_d y) = Ok [(''x'', ''5''), (''y'', y), (''z'', ''varianta,variantb,varianta'')]"
proof -
  have digits: "digit_char 1 = CHR ''1''" "digit_char (Suc 0) = CHR ''1''" "digit_char 2 = CHR ''2''" "digit_char 3 = CHR ''3''" "digit_char 5 = CHR ''5''"
    by code_simp+
  have "show_nat 5 = ''5''" "show_nat 32131 = ''32131''" by (simp_all add: show_nat.simps digits)
  then show "to_field_values s_ty (test_s b) =
      Ok [(''a'', ''5''), (''b'', b), (''c'', ''varianta,variantb,varianta''), (''d'', ''32131''), (''e'', ''none'')]"
    "to_field_values d_ty (test_d y) = Ok [(''x'', ''5''), (''y'', y), (''z'', ''varianta,variantb,varianta'')]"
    by (simp_all add: to_field_values_def present_fields_def test_types test_s_def test_d_def show_int_def seq_end_def)
qed

lemma further_fields:
  assumes "wf_struct st" "struct_has_type st vs" "list_all2 (\<lambda>f v. survives (f_ty f) v) st vs" "to_field_values st vs = Ok row"
    and "distinct (map fst row2)" "set row \<subseteq> set row2" "\<forall>(k, x) \<in> set row2. (k, x) \<in> set row \<or> k \<notin> set (names st) \<and> utf8_valid x"
  shows "from_field_values st row2 = Ok vs"
proof -
  obtain row' where r: "to_field_values st vs = Ok row'" "distinct (map fst row')" "from_field_values st row' = Ok vs"
    using struct_read_back [OF assms(1-3)] by blast
  then have row: "row' = row" using assms(4) by simp
  have d: "distinct (names st)" using assms(1) by (simp add: wf_struct_def)
  have m: "map_of row2 (f_name f) = map_of row (f_name f)" if "f \<in> set st" for f
  proof (cases "map_of row (f_name f)")
    case None
    then have "(f_name f, x) \<notin> set row2" for x
      using assms(7) that by (force simp: map_of_eq_None_iff names_def)
    then show ?thesis using None by (metis map_of_SomeD option.exhaust)
  next
    case (Some x)
    then show ?thesis using assms(5,6) map_of_SomeD [OF Some] by auto
  qed
  have "\<forall>(k, x) \<in> set row. k \<in> set (names st) \<or> utf8_valid x" "list_all2 (field_read row) st vs"
    using r from_field_values_Ok_iff [OF r(2) d] by (auto simp: row)
  moreover from this(2) have "list_all2 (field_read row2) st vs"
    by (subst list_all2_eq_on [where Q = "field_read row"]) (auto simp: field_read_def m)
  ultimately show ?thesis using assms(7) from_field_values_Ok_iff [OF assms(5) d] by blast
qed

lemma test_values:
  "utf8_valid b \<Longrightarrow> struct_has_type s_ty (test_s b)" "utf8_valid y \<Longrightarrow> struct_has_type d_ty (test_d y)"
  "list_all2 (\<lambda>f v. survives (f_ty f) v) s_ty (test_s b)" "list_all2 (\<lambda>f v. survives (f_ty f) v) d_ty (test_d y)"
  "names s_ty = [''a'', ''b'', ''c'', ''d'', ''e'']" "names d_ty = [''x'', ''y'', ''z'']"
  by (simp_all add: test_s_def test_d_def test_types names_def)

lemma field_values_subset_passes:
  assumes "utf8_valid b"
  shows "field_values_subset b"
  unfolding field_values_subset_def test_rows exec.case
  by (rule further_fields [OF test_types_wf(1) test_values(1) [OF assms] test_values(3) test_rows(1)])
    (simp_all add: test_values(5) utf8_ascii)

lemma field_values_union_passes:
  assumes "utf8_valid b" "utf8_valid y"
  shows "field_values_union b y"
proof -
  let ?row = "[(''a'', ''5''), (''b'', b), (''c'', ''varianta,variantb,varianta''), (''d'', ''32131''), (''e'', ''none''),
    (''x'', ''5''), (''y'', y), (''z'', ''varianta,variantb,varianta'')]"
  have "from_field_values s_ty ?row = Ok (test_s b)"
    by (rule further_fields [OF test_types_wf(1) test_values(1) [OF assms(1)] test_values(3) test_rows(1)])
      (simp_all add: test_values(5) utf8_ascii assms)
  moreover have "from_field_values d_ty ?row = Ok (test_d y)"
    by (rule further_fields [OF test_types_wf(2) test_values(2) [OF assms(2)] test_values(4) test_rows(2)])
      (simp_all add: test_values(6) utf8_ascii assms)
  ultimately show ?thesis by (simp add: field_values_union_def test_rows)
qed

end
