(* ===== verification/Container.thy ===== *)
theory Container
  imports Swss_Serde
begin

text \<open>
  \<open>crates/container\<close>: the command that starts, stops, kills and waits for the container of a
  feature, run either by the local Docker daemon or by Kubernetes. The redis connections, the
  Docker daemon, the clock and the configuration file are parameters (\<open>ctr_sys\<close>) over a world
  \<open>'w\<close> that every call may change; \<open>sys_sleep\<close> lets the other processes act.

  A command returns its outcome and the world it leaves, also when it fails. \<open>wait\<close> may poll
  forever and is a partial function. The lemmas say what each command does to the running
  containers and the labels when the system answers, that \<open>kill\<close> panics on every feature with a
  local owner, that no command changes the state that a later command reads, and when \<open>wait\<close>
  ends.
\<close>

section \<open>The system\<close>

datatype ctr_error = JSONParse | JSONData string | Docker string | IO string | Swsscommon string | UTF8

datatype ctr_db = ConfigDb | StateDb

text \<open>A parsed JSON document: objects, numbers that fit \<open>u64\<close>, and everything else.\<close>

datatype cfg_json = JObject "(string \<times> cfg_json) list" | JU64 u64 | JOther

text \<open>
  \<open>sys_config_file\<close> is opening, reading and parsing \<open>/etc/sonic/remote_ctr.config.json\<close>;
  \<open>sys_inspect\<close> the environment of the container, when it has a configuration that names one;
  \<open>sys_order\<close> the order in which a hash map yields its entries; \<open>sys_docker_wait\<close> is \<open>None\<close> when
  the container never stops.
\<close>

record 'w ctr_sys =
  sys_connect :: "ctr_db \<Rightarrow> bool"
  sys_ctrmgrd :: bool
  sys_hgetall :: "ctr_db \<Rightarrow> string \<Rightarrow> 'w \<Rightarrow> (string, (string \<times> string) list) exec"
  sys_hset :: "string \<Rightarrow> string \<Rightarrow> string \<Rightarrow> 'w \<Rightarrow> string option \<times> 'w"
  sys_docker_connect :: "'w \<Rightarrow> string option"
  sys_docker_start :: "string \<Rightarrow> 'w \<Rightarrow> string option \<times> 'w"
  sys_docker_stop :: "string \<Rightarrow> int option \<Rightarrow> 'w \<Rightarrow> string option \<times> 'w"
  sys_docker_kill :: "string \<Rightarrow> string \<Rightarrow> 'w \<Rightarrow> string option \<times> 'w"
  sys_docker_wait :: "string \<Rightarrow> string \<Rightarrow> 'w \<Rightarrow> (string option \<times> 'w) option"
  sys_inspect :: "string \<Rightarrow> 'w \<Rightarrow> (string, string list option option) exec"
  sys_config_file :: "'w \<Rightarrow> (ctr_error, cfg_json) exec"
  sys_now :: "'w \<Rightarrow> string"
  sys_sleep :: "u32 \<Rightarrow> 'w \<Rightarrow> 'w"
  sys_order :: "(string \<times> string) list \<Rightarrow> (string \<times> string) list"

text \<open>A step of a command, and its composition by \<open>?\<close> and \<open>;\<close>.\<close>

type_synonym ('w, 'a) act = "'w \<Rightarrow> (ctr_error, 'a) exec \<times> 'w"

definition ret_act :: "(ctr_error, 'a) exec \<Rightarrow> ('w, 'a) act" where
  "ret_act r w = (r, w)"

definition bind_act :: "('w, 'a) act \<Rightarrow> ('a \<Rightarrow> ('w, 'b) act) \<Rightarrow> ('w, 'b) act" where
  "bind_act m f w =
     (case m w of (Ok a, w1) \<Rightarrow> f a w1 | (Err e, w1) \<Rightarrow> (Err e, w1) | (Panic, w1) \<Rightarrow> (Panic, w1))"

definition call_act :: "(string \<Rightarrow> ctr_error) \<Rightarrow> ('w \<Rightarrow> string option \<times> 'w) \<Rightarrow> ('w, unit) act" where
  "call_act err f w = (case f w of (None, w1) \<Rightarrow> (Ok (), w1) | (Some e, w1) \<Rightarrow> (Err (err e), w1))"

definition docker_connect :: "'w ctr_sys \<Rightarrow> ('w, unit) act" where
  "docker_connect sys = call_act Docker (\<lambda>w. (sys_docker_connect sys w, w))"

section \<open>The container of a feature\<close>

record container =
  feature :: string
  remote_ctr_enabled :: bool

definition initialize_connection :: "'w ctr_sys \<Rightarrow> (ctr_error, bool) exec" where
  "initialize_connection sys =
     (if sys_connect sys ConfigDb \<and> sys_connect sys StateDb then Ok (sys_ctrmgrd sys) else Panic)"

definition new_container :: "'w ctr_sys \<Rightarrow> string \<Rightarrow> (ctr_error, container) exec" where
  "new_container sys f =
     bind_exec (initialize_connection sys) (\<lambda>remote. Ok \<lparr>feature = f, remote_ctr_enabled = remote\<rparr>)"

definition get_config_data :: "'w ctr_sys \<Rightarrow> string \<Rightarrow> 'w \<Rightarrow> (ctr_error, cfg_json) exec" where
  "get_config_data sys field w =
     bind_exec (sys_config_file sys w) (\<lambda>data.
       case data of
         JObject kvs \<Rightarrow>
           (case map_of kvs field of
              Some v \<Rightarrow> Ok v
            | None \<Rightarrow> Err (JSONData (''field '' @ field @ '' not found'')))
       | _ \<Rightarrow> Err (JSONData ''config file isn't an object at the top level''))"

text \<open>The fields with their default values, overwritten by what the database has.\<close>

definition read_field :: "(string \<times> string) list \<Rightarrow> string \<times> string \<Rightarrow> (ctr_error, string \<times> string) exec" where
  "read_field data fd =
     (case map_of data (fst fd) of
        None \<Rightarrow> Ok fd
      | Some v \<Rightarrow> if utf8_valid v then Ok (fst fd, v) else Err UTF8)"

definition read_data ::
    "'w ctr_sys \<Rightarrow> ctr_db \<Rightarrow> string \<Rightarrow> (string \<times> string) list \<Rightarrow> ('w, (string \<times> string) list) act" where
  "read_data sys db key fs w =
     (let table_name = (if key = ''SERVER'' then ''KUBERNETES_MASTER'' else ''FEATURE'')
      in (case sys_hgetall sys db (table_name @ ''|'' @ key) w of
            Ok data \<Rightarrow> (traverse (read_field data) fs, w)
          | Err e \<Rightarrow> (Err (Swsscommon e), w)
          | Panic \<Rightarrow> (Panic, w)))"

definition read_config :: "'w ctr_sys \<Rightarrow> container \<Rightarrow> ('w, (string \<times> string) list) act" where
  "read_config sys c = read_data sys ConfigDb (feature c)
     [(''set_owner'', ''local''), (''no_fallback_to_local'', ''False''), (''state'', ''disabled'')]"

definition read_state :: "'w ctr_sys \<Rightarrow> container \<Rightarrow> ('w, (string \<times> string) list) act" where
  "read_state sys c = read_data sys StateDb (feature c)
     [(''current_owner'', ''local''), (''remote_state'', ''none''), (''container_id'', '''')]"

definition read_server_state :: "'w ctr_sys \<Rightarrow> ('w, (string \<times> string) list) act" where
  "read_server_state sys = read_data sys StateDb ''SERVER'' [(''connected'', ''false''), (''update_time'', '''')]"

text \<open>\<open>fields.get(k).unwrap()\<close>\<close>

definition get_field :: "(string \<times> string) list \<Rightarrow> string \<Rightarrow> (ctr_error, string) exec" where
  "get_field fs k = (case map_of fs k of Some v \<Rightarrow> Ok v | None \<Rightarrow> Panic)"

definition set_label :: "'w ctr_sys \<Rightarrow> container \<Rightarrow> bool \<Rightarrow> ('w, unit) act" where
  "set_label sys c create =
     (if remote_ctr_enabled c then
        call_act Swsscommon (sys_hset sys ''KUBE_LABELS'' (''SET|'' @ feature c @ ''_enabled'')
          (if create then ''true'' else ''false''))
      else ret_act (Ok ()))"

text \<open>The errors of the single writes are dropped.\<close>

definition update_data :: "'w ctr_sys \<Rightarrow> container \<Rightarrow> (string \<times> string) list \<Rightarrow> 'w \<Rightarrow> 'w" where
  "update_data sys c data w =
     (if remote_ctr_enabled c then
        foldl (\<lambda>w (k, v). snd (sys_hset sys ''FEATURE'' (feature c @ ''|'' @ k) v w)) w (sys_order sys data)
      else w)"

definition upd_act :: "'w ctr_sys \<Rightarrow> container \<Rightarrow> (string \<times> string) list \<Rightarrow> ('w, unit) act" where
  "upd_act sys c data w = (Ok (), update_data sys c data w)"

definition container_version :: "'w ctr_sys \<Rightarrow> container \<Rightarrow> ('w, string option) act" where
  "container_version sys c w =
     (case sys_inspect sys (feature c) w of
        Ok (Some (Some envs)) \<Rightarrow>
          (Ok (map_option (\<lambda>env. split_on (CHR ''='') env ! 1)
             (find (\<lambda>env. starts_with env ''IMAGE_VERSION='') envs)), w)
      | Ok _ \<Rightarrow> (Ok None, w)
      | _ \<Rightarrow> (Panic, w))"

definition id_field :: "container \<Rightarrow> (string \<times> string) list \<Rightarrow> (ctr_error, string) exec" where
  "id_field c data =
     (case map_of data ''container_id'' of
        None \<Rightarrow> Ok (feature c)
      | Some v \<Rightarrow> if utf8_valid v then Ok v else Panic)"

definition container_id :: "'w ctr_sys \<Rightarrow> container \<Rightarrow> ('w, string) act" where
  "container_id sys c w =
     (case sys_hgetall sys StateDb (''FEATURE|'' @ feature c) w of
        Ok data \<Rightarrow>
          (case map_of data ''current_owner'' of
             Some ow \<Rightarrow>
               if \<not> utf8_valid ow then (Panic, w)
               else if ow = ''local'' then (Ok (feature c), w)
               else (id_field c data, w)
           | None \<Rightarrow> (id_field c data, w))
      | _ \<Rightarrow> (Panic, w))"

section \<open>The commands\<close>

datatype start_flag = StartLocal | StartKube

text \<open>Who is to run the feature, from its configuration, its state and the state of the server.\<close>

definition start_flags ::
    "(string \<times> string) list \<Rightarrow> (string \<times> string) list \<Rightarrow> (string \<times> string) list
       \<Rightarrow> (ctr_error, start_flag set) exec" where
  "start_flags cfg st srv =
     bind_exec (get_field cfg ''set_owner'') (\<lambda>ow.
       if ow = ''local'' then Ok {StartLocal}
       else bind_exec (get_field cfg ''no_fallback_to_local'') (\<lambda>nf.
         if nf \<noteq> ''False'' then Ok {StartKube}
         else bind_exec (get_field st ''remote_state'') (\<lambda>rs.
           if rs = ''none'' then Ok {StartKube, StartLocal}
           else bind_exec (get_field srv ''connected'') (\<lambda>con.
             if con = ''false'' then Ok {StartKube, StartLocal} else Ok {StartKube}))))"

definition start_data :: "container \<Rightarrow> string \<Rightarrow> start_flag set \<Rightarrow> (string \<times> string) list" where
  "start_data c now flags =
     (let d = [(''system_state'', ''up''), (''update_time'', now)];
          d = (if flags = {StartKube, StartLocal} then AList.update ''remote_state'' ''none'' d else d);
          d = (if StartLocal \<in> flags then
                 AList.update ''container_id'' (feature c) (AList.update ''current_owner'' ''local'' d) else d)
      in if flags = {StartLocal} then AList.update ''remote_state'' ''none'' d else d)"

definition start :: "'w ctr_sys \<Rightarrow> container \<Rightarrow> ('w, unit) act" where
  "start sys c =
     bind_act (read_config sys c) (\<lambda>cfg.
     bind_act (read_state sys c) (\<lambda>st.
     bind_act (read_server_state sys) (\<lambda>srv.
     bind_act (\<lambda>w. (Ok (sys_now sys w), w)) (\<lambda>now.
     bind_act (ret_act (start_flags cfg st srv)) (\<lambda>flags.
     bind_act (if flags = {StartLocal} then set_label sys c False else ret_act (Ok ())) (\<lambda>_.
     bind_act (upd_act sys c (start_data c now flags)) (\<lambda>_.
     bind_act (if StartLocal \<in> flags then
                 bind_act (docker_connect sys) (\<lambda>_. call_act Docker (sys_docker_start sys (feature c)))
               else ret_act (Ok ())) (\<lambda>_.
     if StartKube \<in> flags then set_label sys c True else ret_act (Ok ())))))))))"

definition stop_data :: "string \<Rightarrow> string \<Rightarrow> (string \<times> string) list" where
  "stop_data now remote_state =
     (let d = [(''current_owner'', ''none''), (''system_state'', ''down''), (''container_id'', ''''),
               (''update_time'', now)]
      in if remote_state = ''running'' then AList.update ''remote_state'' ''stopped'' d else d)"

definition stop :: "'w ctr_sys \<Rightarrow> container \<Rightarrow> int option \<Rightarrow> ('w, unit) act" where
  "stop sys c timeout =
     bind_act (read_config sys c) (\<lambda>cfg.
     bind_act (read_state sys c) (\<lambda>st.
     bind_act (container_id sys c) (\<lambda>docker_id.
     bind_act (ret_act (get_field cfg ''set_owner'')) (\<lambda>ow.
     bind_act (docker_connect sys) (\<lambda>_.
     bind_act (if ow \<noteq> ''local'' then set_label sys c False else ret_act (Ok ())) (\<lambda>_.
     bind_act (if docker_id \<noteq> [] then call_act Docker (sys_docker_stop sys (feature c) timeout)
               else ret_act (Ok ())) (\<lambda>_.
     bind_act (\<lambda>w. (Ok (sys_now sys w), w)) (\<lambda>now.
     bind_act (ret_act (get_field st ''remote_state'')) (\<lambda>rs.
     upd_act sys c (stop_data now rs))))))))))"

definition kill :: "'w ctr_sys \<Rightarrow> container \<Rightarrow> ('w, unit) act" where
  "kill sys c =
     bind_act (read_config sys c) (\<lambda>cfg.
     bind_act (read_state sys c) (\<lambda>st.
     bind_act (container_id sys c) (\<lambda>docker_id.
     bind_act (ret_act (get_field cfg ''set_owner'')) (\<lambda>ow.
     bind_act (if ow \<noteq> ''local'' then ret_act (Ok True)
               else bind_act (ret_act (get_field st ''current_owner'')) (\<lambda>cur. ret_act (Ok (cur \<noteq> ''local'')))) (\<lambda>remove_label.
     bind_act (if remove_label then set_label sys c False else ret_act (Ok ())) (\<lambda>_.
     bind_act (if ow = ''local'' then
                 bind_act (ret_act (get_field st ''state'')) (\<lambda>cur.
                   ret_act (Ok (cur = ''enabled'' \<or> cur = ''always_enabled'')))
               else ret_act (Ok True)) (\<lambda>enabled.
     if \<not> enabled then ret_act (Ok ())
     else bind_act (docker_connect sys) (\<lambda>_.
       if docker_id \<noteq> [] then call_act Docker (sys_docker_kill sys (feature c) ''SIGINT'')
       else ret_act (Ok ())))))))))"

section \<open>Waiting\<close>

definition pend_seconds :: "'w ctr_sys \<Rightarrow> 'w \<Rightarrow> u32" where
  "pend_seconds sys w =
     (case get_config_data sys ''revert_to_local_on_wait_seconds'' w of
        Ok (JU64 v) \<Rightarrow> ucast v
      | _ \<Rightarrow> 300)"

text \<open>One turn of the loop after its sleep: the new container id.\<close>

definition poll_once :: "'w ctr_sys \<Rightarrow> container \<Rightarrow> ('w, string) act" where
  "poll_once sys c =
     bind_act (read_state sys c) (\<lambda>st.
     bind_act (ret_act (get_field st ''container_id'')) (\<lambda>docker_id.
     bind_act (ret_act (get_field st ''remote_state'')) (\<lambda>rs.
     bind_act (if rs = ''pending'' then upd_act sys c [(''remote_state'', ''ready'')] else ret_act (Ok ())) (\<lambda>_.
     ret_act (Ok docker_id)))))"

partial_function (option) wait_poll ::
    "'w ctr_sys \<Rightarrow> container \<Rightarrow> bool \<Rightarrow> u32 \<Rightarrow> string \<Rightarrow> 'w \<Rightarrow> ((ctr_error, string) exec \<times> 'w) option" where
  "wait_poll sys c fallback pend docker_id w =
     (if docker_id \<noteq> [] \<or> fallback \<and> pend < 2 then Some (Ok docker_id, w)
      else
        (case poll_once sys c (sys_sleep sys 2 w) of
           (Ok docker_id1, w1) \<Rightarrow> wait_poll sys c fallback (if fallback then pend - 2 else pend) docker_id1 w1
         | (Err e, w1) \<Rightarrow> Some (Err e, w1)
         | (Panic, w1) \<Rightarrow> Some (Panic, w1)))"

text \<open>Everything before the loop: whether the fallback is allowed, the seconds left and the id.\<close>

definition wait_begin :: "'w ctr_sys \<Rightarrow> container \<Rightarrow> ('w, bool \<times> u32 \<times> string) act" where
  "wait_begin sys c =
     bind_act (read_config sys c) (\<lambda>cfg.
     bind_act (container_id sys c) (\<lambda>docker_id.
     bind_act (docker_connect sys) (\<lambda>_.
     bind_act (if docker_id = feature c then
                 bind_act (container_version sys c) (\<lambda>version.
                   case version of
                     Some v \<Rightarrow> upd_act sys c [(''container_stable_version'', v)]
                   | None \<Rightarrow> ret_act (Ok ()))
               else ret_act (Ok ())) (\<lambda>_.
     if docker_id = [] then
       bind_act (ret_act (get_field cfg ''no_fallback_to_local'')) (\<lambda>nf w.
         (Ok (nf = ''False'', if nf = ''False'' then pend_seconds sys w else 0, docker_id), w))
     else ret_act (Ok (False, 0, docker_id))))))"

definition wait_container :: "'w ctr_sys \<Rightarrow> container \<Rightarrow> 'w \<Rightarrow> ((ctr_error, unit) exec \<times> 'w) option" where
  "wait_container sys c w =
     (case wait_begin sys c w of
        (Ok (fallback, pend, docker_id), w1) \<Rightarrow>
          (case wait_poll sys c fallback pend docker_id w1 of
             Some (Ok _, w2) \<Rightarrow>
               map_option (\<lambda>(r, w3). (case r of None \<Rightarrow> Ok () | Some e \<Rightarrow> Err (Docker e), w3))
                 (sys_docker_wait sys (feature c) ''not-running'' w2)
           | Some (Err e, w2) \<Rightarrow> Some (Err e, w2)
           | Some (Panic, w2) \<Rightarrow> Some (Panic, w2)
           | None \<Rightarrow> None)
      | (Err e, w1) \<Rightarrow> Some (Err e, w1)
      | (Panic, w1) \<Rightarrow> Some (Panic, w1))"

section \<open>The command line\<close>

datatype action = Start | Stop | Kill | Wait | Id

text \<open>The last component is what \<open>id\<close> prints.\<close>

definition container_main ::
    "'w ctr_sys \<Rightarrow> action \<Rightarrow> string \<Rightarrow> int option \<Rightarrow> 'w \<Rightarrow> ((ctr_error, string option) exec \<times> 'w) option" where
  "container_main sys a name timeout w =
     (case new_container sys name of
        Ok c \<Rightarrow>
          (case a of
             Start \<Rightarrow> Some (bind_act (start sys c) (\<lambda>_. ret_act (Ok None)) w)
           | Wait \<Rightarrow> map_option (\<lambda>(r, w1). (bind_exec r (\<lambda>_. Ok None), w1)) (wait_container sys c w)
           | Stop \<Rightarrow> Some (bind_act (stop sys c timeout) (\<lambda>_. ret_act (Ok None)) w)
           | Kill \<Rightarrow> Some (bind_act (kill sys c) (\<lambda>_. ret_act (Ok None)) w)
           | Id \<Rightarrow> Some (bind_act (container_id sys c) (\<lambda>i. ret_act (Ok (Some i))) w))
      | Err e \<Rightarrow> Some (Err e, w)
      | Panic \<Rightarrow> Some (Panic, w))"

section \<open>When the loop of wait ends\<close>

text \<open>The first \<open>n\<close> polls, up to the first that finds an id or fails.\<close>

fun polls :: "'w ctr_sys \<Rightarrow> container \<Rightarrow> nat \<Rightarrow> 'w \<Rightarrow> (ctr_error, string) exec \<times> 'w" where
  "polls sys c 0 w = (Ok [], w)"
| "polls sys c (Suc n) w =
     (case poll_once sys c (sys_sleep sys 2 w) of (Ok [], w1) \<Rightarrow> polls sys c n w1 | r \<Rightarrow> r)"

lemma wait_poll_found [simp]: "docker_id \<noteq> [] \<Longrightarrow> wait_poll sys c fb pend docker_id w = Some (Ok docker_id, w)"
  by (subst wait_poll.simps) simp

lemma unat_two_less: "\<not> pend < 2 \<Longrightarrow> unat (pend - 2 :: u32) = unat pend - 2 \<and> 2 \<le> unat pend"
  by (simp add: word_less_nat_alt unat_sub word_le_nat_alt)

lemma wait_poll_fallback: "wait_poll sys c True pend [] w = Some (polls sys c (unat pend div 2) w)"
proof (induction "unat pend" arbitrary: pend w rule: less_induct)
  case less
  show ?case
  proof (cases "pend < 2")
    case True
    then have "unat pend div 2 = 0" by (simp add: word_less_nat_alt)
    with True show ?thesis by (subst wait_poll.simps) simp
  next
    case False
    obtain n where n: "unat pend div 2 = Suc n" "unat (pend - 2) div 2 = n"
      using unat_two_less [OF False] by (cases "unat pend div 2") auto
    have IH: "wait_poll sys c True (pend - 2) [] w1 = Some (polls sys c n w1)" for w1
      using less [of "pend - 2"] unat_two_less [OF False] n(2) by simp
    obtain r w1 where p: "poll_once sys c (sys_sleep sys 2 w) = (r, w1)" by fastforce
    show ?thesis
    proof (cases r)
      case (Ok i)
      with False p n(1) IH show ?thesis by (subst wait_poll.simps, cases i) simp_all
    qed (use False p n(1) in \<open>subst wait_poll.simps, simp\<close>)+
  qed
qed

lemma wait_poll_finds:
  "fst (polls sys c n w) \<noteq> Ok [] \<Longrightarrow> wait_poll sys c False pend [] w = Some (polls sys c n w)"
proof (induction n arbitrary: w)
  case (Suc n)
  obtain r w1 where p: "poll_once sys c (sys_sleep sys 2 w) = (r, w1)" by fastforce
  show ?case
  proof (cases r)
    case (Ok i)
    with p Suc show ?thesis by (subst wait_poll.simps, cases i) simp_all
  qed (use p in \<open>subst wait_poll.simps, simp\<close>)+
qed simp

lemma wait_poll_found_by:
  "wait_poll sys c fb pend docker_id w = Some r \<Longrightarrow>
     \<not> fb \<longrightarrow> (if docker_id = [] then \<exists>n. polls sys c n w = r \<and> fst r \<noteq> Ok [] else r = (Ok docker_id, w))"
proof (induction sys c fb pend docker_id w r rule: wait_poll.raw_induct [rotated, consumes 1, case_names rec])
  case (rec wp sys c fb pend docker_id w r)
  obtain q w1 where p: "poll_once sys c (sys_sleep sys 2 w) = (q, w1)" by fastforce
  have "\<exists>n. polls sys c n w = r \<and> fst r \<noteq> Ok []" if "\<not> fb" "docker_id = []"
  proof (cases q)
    case (Ok i)
    with rec(2) p that have "wp sys c fb pend i w1 = Some r" by simp
    from rec(1) [OF this] that(1)
    have r: "if i = [] then \<exists>n. polls sys c n w1 = r \<and> fst r \<noteq> Ok [] else r = (Ok i, w1)" by simp
    show ?thesis
    proof (cases i)
      case Nil
      with r obtain n where "polls sys c n w1 = r" "fst r \<noteq> Ok []" by auto
      with Nil p Ok show ?thesis by (intro exI [of _ "Suc n"]) simp
    qed (use r p Ok in \<open>simp add: exI [of _ "Suc 0"]\<close>)
  qed (use rec(2) p that in \<open>auto intro!: exI [of _ "Suc 0"]\<close>)
  with rec(2) show ?case by (auto split: if_splits)
qed

text \<open>
  (C26) When the polling loop of \<open>wait\<close> ends. With the fallback allowed it makes at most half as many
  polls as there are seconds to wait and then goes on, so it always ends. Without the fallback it
  ends exactly when some poll finds a container id or fails, and returns that poll's result; if no
  poll ever does, it never returns.
\<close>

theorem wait_ends:
  "wait_poll sys c True pend [] w = Some (polls sys c (unat pend div 2) w) \<and>
   (wait_poll sys c False pend [] w = Some r \<longleftrightarrow> (\<exists>n. polls sys c n w = r \<and> fst r \<noteq> Ok [])) \<and>
   (wait_poll sys c False pend [] w = None \<longleftrightarrow> (\<forall>n. fst (polls sys c n w) = Ok []))"
proof (intro conjI)
  show "wait_poll sys c True pend [] w = Some (polls sys c (unat pend div 2) w)"
    by (rule wait_poll_fallback)
  show iff: "wait_poll sys c False pend [] w = Some r \<longleftrightarrow> (\<exists>n. polls sys c n w = r \<and> fst r \<noteq> Ok [])" for r
    using wait_poll_found_by [of sys c False pend "[]" w r] wait_poll_finds [of sys c _ w pend] by auto
  show "wait_poll sys c False pend [] w = None \<longleftrightarrow> (\<forall>n. fst (polls sys c n w) = Ok [])"
    using iff by (metis not_None_eq)
qed

section \<open>A system that answers\<close>

text \<open>
  \<open>view w db key field\<close> is what redis holds and \<open>running w\<close> the containers that Docker runs. A
  healthy system answers every call: \<open>hgetall\<close> returns the fields of the hash \<open>key\<close>, \<open>hset\<close> writes
  one field of one hash of the state database, Docker starts and stops what it is told to.
\<close>

type_synonym 'w db_view = "'w \<Rightarrow> ctr_db \<Rightarrow> string \<Rightarrow> string \<rightharpoonup> string"

definition hset_view :: "(ctr_db \<Rightarrow> string \<Rightarrow> string \<rightharpoonup> string) \<Rightarrow> string \<Rightarrow> string \<Rightarrow> string
    \<Rightarrow> (ctr_db \<Rightarrow> string \<Rightarrow> string \<rightharpoonup> string)" where
  "hset_view v k f x = v(StateDb := (v StateDb)(k := (v StateDb k)(f \<mapsto> x)))"

definition healthy :: "'w ctr_sys \<Rightarrow> 'w db_view \<Rightarrow> ('w \<Rightarrow> string set) \<Rightarrow> bool" where
  "healthy sys view running \<longleftrightarrow>
     (\<forall>db key w. \<exists>data. sys_hgetall sys db key w = Ok data \<and> map_of data = view w db key) \<and>
     (\<forall>k f x w. \<exists>w1. sys_hset sys k f x w = (None, w1) \<and> view w1 = hset_view (view w) k f x \<and>
        running w1 = running w) \<and>
     (\<forall>w. sys_docker_connect sys w = None) \<and>
     (\<forall>f w. \<exists>w1. sys_docker_start sys f w = (None, w1) \<and> view w1 = view w \<and>
        running w1 = insert f (running w)) \<and>
     (\<forall>f t w. \<exists>w1. sys_docker_stop sys f t w = (None, w1) \<and> view w1 = view w \<and>
        running w1 = running w - {f}) \<and>
     (\<forall>f sig w. \<exists>w1. sys_docker_kill sys f sig w = (None, w1) \<and> view w1 = view w) \<and>
     (\<forall>xs. mset (sys_order sys xs) = mset xs)"

definition readable :: "'w db_view \<Rightarrow> 'w \<Rightarrow> bool" where
  "readable view w \<longleftrightarrow> (\<forall>db key f x. view w db key f = Some x \<longrightarrow> utf8_valid x)"

definition db_field :: "'w db_view \<Rightarrow> 'w \<Rightarrow> ctr_db \<Rightarrow> string \<Rightarrow> string \<Rightarrow> string \<Rightarrow> string" where
  "db_field view w db key f d = (case view w db key f of Some x \<Rightarrow> x | None \<Rightarrow> d)"

abbreviation feature_key :: "container \<Rightarrow> string" where
  "feature_key c \<equiv> (if feature c = ''SERVER'' then ''KUBERNETES_MASTER'' else ''FEATURE'') @ ''|'' @ feature c"

named_theorems act_simps \<open>steps of the container commands\<close>

lemma bind_act_Ok [act_simps]: "m w = (Ok a, w1) \<Longrightarrow> bind_act m f w = f a w1"
  by (simp add: bind_act_def)

lemma bind_act_Panic [act_simps]: "m w = (Panic, w1) \<Longrightarrow> bind_act m f w = (Panic, w1)"
  by (simp add: bind_act_def)

lemma bind_ret_act [act_simps]:
  "bind_act (ret_act (Ok a)) f = f a" "bind_act (ret_act Panic) f w = (Panic, w)"
  by (simp_all add: bind_act_def ret_act_def fun_eq_iff)

lemma bind_upd_act [act_simps]: "bind_act (upd_act sys c d) f w = f () (update_data sys c d w)"
  by (simp add: bind_act_def upd_act_def)

lemma bind_now [act_simps]: "bind_act (\<lambda>w. (Ok (g w), w)) f w = f (g w) w"
  by (simp add: bind_act_def)

lemma read_field_view:
  assumes "map_of data = v" "\<forall>f x. v f = Some x \<longrightarrow> utf8_valid x"
  shows "read_field data (f, d) = Ok (f, case v f of Some x \<Rightarrow> x | None \<Rightarrow> d)"
  using assms by (auto simp: read_field_def split: option.splits)

lemma read_data_healthy:
  assumes "healthy sys view running" "readable view w"
  shows "read_data sys db key fs w =
    (Ok (map (\<lambda>(f, d). (f, db_field view w db
      ((if key = ''SERVER'' then ''KUBERNETES_MASTER'' else ''FEATURE'') @ ''|'' @ key) f d)) fs), w)"
proof -
  let ?k = "(if key = ''SERVER'' then ''KUBERNETES_MASTER'' else ''FEATURE'') @ ''|'' @ key"
  obtain data where d: "sys_hgetall sys db ?k w = Ok data" "map_of data = view w db ?k"
    using assms(1) unfolding healthy_def by meson
  have "traverse (read_field data) fs = Ok (map (\<lambda>(f, d). (f, db_field view w db ?k f d)) fs)"
    unfolding traverse_Ok_iff list_all2_map2 db_field_def
    using read_field_view [OF d(2)] assms(2) by (auto simp: readable_def list_all2_same split: option.splits)
  with d(1) show ?thesis by (simp add: read_data_def del: append_Cons)
qed

lemma bind_reads:
  assumes "healthy sys view running" "readable view w"
  shows "bind_act (read_config sys c) f w =
      f [(''set_owner'', db_field view w ConfigDb (feature_key c) ''set_owner'' ''local''),
         (''no_fallback_to_local'', db_field view w ConfigDb (feature_key c) ''no_fallback_to_local'' ''False''),
         (''state'', db_field view w ConfigDb (feature_key c) ''state'' ''disabled'')] w"
    "bind_act (read_state sys c) f w =
      f [(''current_owner'', db_field view w StateDb (feature_key c) ''current_owner'' ''local''),
         (''remote_state'', db_field view w StateDb (feature_key c) ''remote_state'' ''none''),
         (''container_id'', db_field view w StateDb (feature_key c) ''container_id'' [])] w"
    "bind_act (read_server_state sys) g w =
      g [(''connected'', db_field view w StateDb ''KUBERNETES_MASTER|SERVER'' ''connected'' ''false''),
         (''update_time'', db_field view w StateDb ''KUBERNETES_MASTER|SERVER'' ''update_time'' [])] w"
  by (simp_all add: bind_act_def read_config_def read_state_def read_server_state_def
      read_data_healthy [OF assms])

lemma get_field_Cons [act_simps]:
  "get_field ((k, v) # fs) k' = (if k = k' then Ok v else get_field fs k')" "get_field [] k' = Panic"
  by (auto simp: get_field_def)

lemma set_label_healthy:
  assumes "healthy sys view running"
  shows "\<exists>w1. set_label sys c b w = (Ok (), w1) \<and> running w1 = running w \<and>
    view w1 = (if remote_ctr_enabled c then
      hset_view (view w) ''KUBE_LABELS'' (''SET|'' @ feature c @ ''_enabled'') (if b then ''true'' else ''false'')
      else view w)"
proof -
  obtain w1 where "sys_hset sys ''KUBE_LABELS'' (''SET|'' @ feature c @ ''_enabled'')
      (if b then ''true'' else ''false'') w = (None, w1) \<and>
    view w1 = hset_view (view w) ''KUBE_LABELS'' (''SET|'' @ feature c @ ''_enabled'')
      (if b then ''true'' else ''false'') \<and> running w1 = running w"
    using assms unfolding healthy_def by meson
  then show ?thesis by (simp add: set_label_def call_act_def ret_act_def)
qed

lemma docker_connect_healthy: "healthy sys view running \<Longrightarrow> docker_connect sys w = (Ok (), w)"
  by (simp add: docker_connect_def call_act_def healthy_def)

lemma writes_healthy:
  assumes "healthy sys view running"
  shows "let w1 = foldl (\<lambda>w (k, x). snd (sys_hset sys t (p @ k) x w)) w xs
    in running w1 = running w \<and> (\<forall>db k. (db, k) \<noteq> (StateDb, t) \<longrightarrow> view w1 db k = view w db k) \<and>
       (\<forall>k. view w1 StateDb t (p @ k) =
          (case map_of (rev xs) k of Some x \<Rightarrow> Some x | None \<Rightarrow> view w StateDb t (p @ k)))"
proof (induction xs arbitrary: w)
  case (Cons kx xs)
  obtain k x where kx: "kx = (k, x)" by (cases kx)
  obtain w1 where w1: "sys_hset sys t (p @ k) x w = (None, w1)"
    "view w1 = hset_view (view w) t (p @ k) x" "running w1 = running w"
    using assms unfolding healthy_def by meson
  show ?case
    using Cons [of w1] w1 kx
    by (auto simp: Let_def hset_view_def map_add_def map_of_append split: option.splits)
qed simp

lemma update_data_healthy:
  assumes "healthy sys view running" "distinct (map fst data)"
  shows "running (update_data sys c data w) = running w"
    "(db, k) \<noteq> (StateDb, ''FEATURE'') \<Longrightarrow> view (update_data sys c data w) db k = view w db k"
    "remote_ctr_enabled c \<Longrightarrow> map_of data f = Some x \<Longrightarrow>
       view (update_data sys c data w) StateDb ''FEATURE'' (feature c @ ''|'' @ f) = Some x"
proof -
  note ws = writes_healthy [OF assms(1), of "''FEATURE''" "feature c @ ''|''" w "sys_order sys data"]
  have m: "mset (sys_order sys data) = mset data" using assms(1) by (simp add: healthy_def)
  have "mset (map fst (sys_order sys data)) = mset (map fst data)" using m by simp
  then have "distinct (map fst (sys_order sys data))"
    using assms(2) mset_eq_imp_distinct_iff by blast
  moreover have "set (sys_order sys data) = set data" using m by (rule mset_eq_setD)
  ultimately have r: "map_of (rev (sys_order sys data)) = map_of data"
    using assms(2) by (intro map_of_inject_set [THEN iffD2]) (simp_all add: rev_map [symmetric])
  show "running (update_data sys c data w) = running w"
    using ws by (auto simp: update_data_def Let_def)
  show "(db, k) \<noteq> (StateDb, ''FEATURE'') \<Longrightarrow> view (update_data sys c data w) db k = view w db k"
    using ws by (auto simp: update_data_def Let_def)
  show "remote_ctr_enabled c \<Longrightarrow> map_of data f = Some x \<Longrightarrow>
       view (update_data sys c data w) StateDb ''FEATURE'' (feature c @ ''|'' @ f) = Some x"
    using ws by (auto simp: update_data_def Let_def r)
qed

section \<open>What the commands do\<close>

text \<open>Kubernetes runs the feature; and the local Docker does, instead of it or until it answers.\<close>

definition wants_kube :: "'w db_view \<Rightarrow> 'w \<Rightarrow> container \<Rightarrow> bool" where
  "wants_kube view w c \<longleftrightarrow> db_field view w ConfigDb (feature_key c) ''set_owner'' ''local'' \<noteq> ''local''"

definition runs_locally :: "'w db_view \<Rightarrow> 'w \<Rightarrow> container \<Rightarrow> bool" where
  "runs_locally view w c \<longleftrightarrow>
     \<not> wants_kube view w c \<or>
     db_field view w ConfigDb (feature_key c) ''no_fallback_to_local'' ''False'' = ''False'' \<and>
     (db_field view w StateDb (feature_key c) ''remote_state'' ''none'' = ''none'' \<or>
      db_field view w StateDb ''KUBERNETES_MASTER|SERVER'' ''connected'' ''false'' = ''false'')"

lemma start_flags_spec:
  "start_flags
     [(''set_owner'', ow), (''no_fallback_to_local'', nf), (''state'', s)]
     [(''current_owner'', co), (''remote_state'', rs), (''container_id'', ci)]
     [(''connected'', con), (''update_time'', ut)] =
   Ok ((if ow \<noteq> ''local'' then {StartKube} else {}) \<union>
       (if ow = ''local'' \<or> nf = ''False'' \<and> (rs = ''none'' \<or> con = ''false'') then {StartLocal} else {}))"
  by (auto simp: start_flags_def act_simps)

lemma distinct_start_data: "distinct (map fst (start_data c now flags))"
  by (simp add: start_data_def Let_def)

lemma start_data_fields:
  "map_of (start_data c now flags) ''system_state'' = Some ''up''"
  "StartLocal \<in> flags \<Longrightarrow> map_of (start_data c now flags) ''current_owner'' = Some ''local''"
  "StartLocal \<in> flags \<Longrightarrow> map_of (start_data c now flags) ''container_id'' = Some (feature c)"
  by (simp_all add: start_data_def Let_def map_of_update del: AList.update.simps)

lemma label_view: "hset_view v t f x StateDb t f = Some x"
  by (simp add: hset_view_def)

lemma label_view_other: "(db, k) \<noteq> (StateDb, t) \<Longrightarrow> hset_view v t f x db k = v db k"
  by (auto simp: hset_view_def)

abbreviation label_field :: "container \<Rightarrow> string" where
  "label_field c \<equiv> ''SET|'' @ feature c @ ''_enabled''"

lemma label_if_healthy:
  assumes "healthy sys view running"
  shows "\<exists>w1. (if P then set_label sys c b else ret_act (Ok ())) w = (Ok (), w1) \<and> running w1 = running w \<and>
    (\<forall>db k. (db, k) \<noteq> (StateDb, ''KUBE_LABELS'') \<longrightarrow> view w1 db k = view w db k) \<and>
    (remote_ctr_enabled c \<longrightarrow> view w1 StateDb ''KUBE_LABELS'' (label_field c) =
       (if P then Some (if b then ''true'' else ''false'')
        else view w StateDb ''KUBE_LABELS'' (label_field c))) \<and>
    (\<not> remote_ctr_enabled c \<longrightarrow> view w1 = view w)"
proof (cases P)
  case True
  obtain w1 where "set_label sys c b w = (Ok (), w1)" "running w1 = running w"
    "view w1 = (if remote_ctr_enabled c then
      hset_view (view w) ''KUBE_LABELS'' (label_field c) (if b then ''true'' else ''false'') else view w)"
    using set_label_healthy [OF assms, of c b w] by blast
  with True show ?thesis by (intro exI [of _ w1]) (simp add: label_view label_view_other)
qed (simp add: ret_act_def)

lemma local_start_healthy:
  assumes "healthy sys view running"
  shows "\<exists>w1. (if P then bind_act (docker_connect sys) (\<lambda>_. call_act Docker (sys_docker_start sys f))
      else ret_act (Ok ())) w = (Ok (), w1) \<and>
    view w1 = view w \<and> running w1 = (if P then insert f (running w) else running w)"
proof -
  obtain w1 where "sys_docker_start sys f w = (None, w1)" "view w1 = view w" "running w1 = insert f (running w)"
    using assms unfolding healthy_def by meson
  then show ?thesis
    by (simp add: bind_act_Ok [where m = "docker_connect sys", OF docker_connect_healthy [OF assms]]
        call_act_def ret_act_def)
qed

text \<open>
  (C19) Who starts a feature: on a system whose calls succeed, \<open>start\<close> succeeds; the local Docker runs the
  feature afterwards when its owner is local, or when the fallback is allowed and Kubernetes has no
  state for it or its server is not connected, and otherwise no container is started. Where the daemon
  \<open>ctrmgrd\<close> is installed, the label tells Kubernetes to run the feature exactly when the configured owner is not
  local, and the state that is written says that the feature is up and, when it was started locally, who
  owns it. Where it is not installed neither label nor state is written: the databases are as before, also for a
  feature that Kubernetes owns.
\<close>

theorem start_places_feature:
  assumes "healthy sys view running" "readable view w"
  shows "\<exists>w1. start sys c w = (Ok (), w1) \<and>
    running w1 = (if runs_locally view w c then insert (feature c) (running w) else running w) \<and>
    (if remote_ctr_enabled c then
      view w1 StateDb ''KUBE_LABELS'' (''SET|'' @ feature c @ ''_enabled'') =
        Some (if wants_kube view w c then ''true'' else ''false'') \<and>
      view w1 StateDb ''FEATURE'' (feature c @ ''|system_state'') = Some ''up'' \<and>
      (runs_locally view w c \<longrightarrow>
        view w1 StateDb ''FEATURE'' (feature c @ ''|current_owner'') = Some ''local'')
     else view w1 = view w)"
proof -
  let ?kube = "wants_kube view w c" and ?loc = "runs_locally view w c"
  define flags where "flags = (if ?kube then {StartKube} else {}) \<union> (if ?loc then {StartLocal} else {})"
  define d where "d = start_data c (sys_now sys w) flags"
  have fl: "(StartLocal \<in> flags) = ?loc" "(StartKube \<in> flags) = ?kube" "(flags = {StartLocal}) = (\<not> ?kube)"
    by (auto simp: flags_def runs_locally_def)
  have st: "start sys c w =
    bind_act (if \<not> ?kube then set_label sys c False else ret_act (Ok ())) (\<lambda>_.
     bind_act (upd_act sys c d) (\<lambda>_.
     bind_act (if ?loc then
                 bind_act (docker_connect sys) (\<lambda>_. call_act Docker (sys_docker_start sys (feature c)))
               else ret_act (Ok ())) (\<lambda>_.
     if ?kube then set_label sys c True else ret_act (Ok ())))) w"
    using fl
    by (simp add: start_def bind_reads [OF assms] start_flags_spec act_simps d_def flags_def
        wants_kube_def runs_locally_def)
  obtain w1 where w1: "(if \<not> ?kube then set_label sys c False else ret_act (Ok ())) w = (Ok (), w1)"
    "running w1 = running w"
    "remote_ctr_enabled c \<longrightarrow> view w1 StateDb ''KUBE_LABELS'' (label_field c) =
       (if \<not> ?kube then Some ''false'' else view w StateDb ''KUBE_LABELS'' (label_field c))"
    "\<not> remote_ctr_enabled c \<longrightarrow> view w1 = view w"
    using label_if_healthy [OF assms(1), of "\<not> ?kube" c False w, unfolded if_False] by blast
  define w2 where "w2 = update_data sys c d w1"
  note u = update_data_healthy [OF assms(1), where data = d and c = c and w = w1, folded w2_def]
  obtain w3 where w3: "(if ?loc then
        bind_act (docker_connect sys) (\<lambda>_. call_act Docker (sys_docker_start sys (feature c)))
      else ret_act (Ok ())) w2 = (Ok (), w3)"
    "view w3 = view w2" "running w3 = (if ?loc then insert (feature c) (running w2) else running w2)"
    using local_start_healthy [OF assms(1), of ?loc "feature c" w2] by auto
  obtain w4 where w4: "(if ?kube then set_label sys c True else ret_act (Ok ())) w3 = (Ok (), w4)"
    "running w4 = running w3" "view w4 StateDb ''FEATURE'' = view w3 StateDb ''FEATURE''"
    "remote_ctr_enabled c \<longrightarrow> view w4 StateDb ''KUBE_LABELS'' (label_field c) =
       (if ?kube then Some ''true'' else view w3 StateDb ''KUBE_LABELS'' (label_field c))"
    "\<not> remote_ctr_enabled c \<longrightarrow> view w4 = view w3"
    using label_if_healthy [OF assms(1), of ?kube c True w3, unfolded if_True]
    by (elim exE conjE, intro that) (assumption | simp add: fun_eq_iff)+
  have "start sys c w = (Ok (), w4)"
    using w1(1) w3(1) w4(1) by (simp add: st bind_act_Ok act_simps w2_def)
  moreover have "distinct (map fst d)" by (simp add: d_def distinct_start_data)
  moreover have "\<not> remote_ctr_enabled c \<longrightarrow> view w4 = view w"
    using w1(4) w3(2) w4(5) by (simp add: w2_def update_data_def)
  ultimately show ?thesis
    using w1(2,3) w3(2,3) w4(2,3,4) u start_data_fields [where c = c and now = "sys_now sys w" and flags = flags] fl
    by (auto simp: d_def)
qed

lemma container_id_healthy:
  assumes "healthy sys view running" "readable view w"
  shows "bind_act (container_id sys c) f w =
    f (if view w StateDb (''FEATURE|'' @ feature c) ''current_owner'' = Some ''local'' then feature c
       else db_field view w StateDb (''FEATURE|'' @ feature c) ''container_id'' (feature c)) w"
proof -
  obtain data where "sys_hgetall sys StateDb (''FEATURE|'' @ feature c) w = Ok data"
    "map_of data = view w StateDb (''FEATURE|'' @ feature c)"
    using assms(1) unfolding healthy_def by meson
  with assms(2) show ?thesis
    by (auto simp: bind_act_def container_id_def id_field_def db_field_def readable_def split: option.splits)
qed

text \<open>
  A defect: \<open>kill\<close> looks up the field \<open>state\<close> among the fields read from the state database,
  which never has it, so for every feature whose owner is local the command panics and kills
  nothing. For every other feature it takes the label back and, unless the container id is empty,
  ends with the SIGINT to the container.
\<close>

theorem kill_panics_for_local_owner:
  assumes "healthy sys view running" "readable view w"
  shows "if wants_kube view w c then
      \<exists>w1 w2. kill sys c w = (Ok (), w2) \<and> running w1 = running w \<and>
        (remote_ctr_enabled c \<longrightarrow> view w1 StateDb ''KUBE_LABELS'' (label_field c) = Some ''false'') \<and>
        (if fst (container_id sys c w) = Ok [] then w2 = w1
         else sys_docker_kill sys (feature c) ''SIGINT'' w1 = (None, w2))
    else fst (kill sys c w) = Panic \<and> running (snd (kill sys c w)) = running w"
proof -
  note cid = container_id_healthy [OF assms]
  obtain i where i: "container_id sys c w = (Ok i, w)"
    using cid [of c "\<lambda>i w. (Ok i, w)"] by (auto simp: bind_act_def split: prod.splits exec.splits)
  show ?thesis
  proof (cases "wants_kube view w c")
    case True
    obtain w1 where w1: "set_label sys c False w = (Ok (), w1)" "running w1 = running w"
      "remote_ctr_enabled c \<longrightarrow> view w1 StateDb ''KUBE_LABELS'' (label_field c) = Some ''false''"
      using label_if_healthy [OF assms(1), of True c False w] by auto
    obtain w2 where w2: "sys_docker_kill sys (feature c) ''SIGINT'' w1 = (None, w2)"
      using assms(1) unfolding healthy_def by meson
    have "kill sys c w = (if i \<noteq> [] then (Ok (), w2) else (Ok (), w1))"
      using True w1(1) w2
      by (simp add: kill_def bind_reads [OF assms] bind_act_Ok [where m = "container_id sys c", OF i]
          wants_kube_def act_simps bind_act_Ok [where m = "docker_connect sys", OF docker_connect_healthy [OF assms(1)]]
          call_act_def) (simp add: ret_act_def)
    with True w1(2,3) w2 i show ?thesis by auto
  next
    case False
    obtain w1 where "(if db_field view w StateDb (feature_key c) ''current_owner'' ''local'' \<noteq> ''local''
        then set_label sys c False else ret_act (Ok ())) w = (Ok (), w1)" "running w1 = running w"
      using label_if_healthy [OF assms(1),
          of "db_field view w StateDb (feature_key c) ''current_owner'' ''local'' \<noteq> ''local''" c False w] by auto
    then have "kill sys c w = (Panic, w1)" "running w1 = running w"
      using False
      by (simp_all add: kill_def bind_reads [OF assms] bind_act_Ok [where m = "container_id sys c", OF i]
          wants_kube_def act_simps)
    with False show ?thesis by simp
  qed
qed

section \<open>What the commands do not do\<close>

text \<open>A step that leaves the state hashes of the features as they are, under their names as read.\<close>

definition keeps :: "'w db_view \<Rightarrow> ('w, 'a) act \<Rightarrow> bool" where
  "keeps view m \<longleftrightarrow> (\<forall>w f. view (snd (m w)) StateDb (''FEATURE|'' @ f) = view w StateDb (''FEATURE|'' @ f))"

lemma keepsD: "keeps view m \<Longrightarrow> m w = (r, w1) \<Longrightarrow> view w1 StateDb (''FEATURE|'' @ f) = view w StateDb (''FEATURE|'' @ f)"
  unfolding keeps_def by (metis snd_conv)

named_theorems keeps_intros \<open>steps that keep the state of the features\<close>

lemma keeps_bind [keeps_intros]:
  assumes "keeps view m" "\<And>a. keeps view (f a)"
  shows "keeps view (bind_act m f)"
  using assms by (auto simp: keeps_def bind_act_def split: prod.splits exec.splits) (metis snd_conv)+

lemma keeps_if [keeps_intros]: "keeps view m \<Longrightarrow> keeps view m' \<Longrightarrow> keeps view (if b then m else m')"
  by simp

lemma keeps_same [keeps_intros]:
  "keeps view (ret_act r)" "keeps view (\<lambda>w. (g w, w))" "keeps view (docker_connect sys)"
  "keeps view (read_config sys c)" "keeps view (read_state sys c)" "keeps view (read_server_state sys)"
  "keeps view (container_id sys c)"
  by (auto simp: keeps_def ret_act_def docker_connect_def call_act_def read_config_def read_state_def
      read_server_state_def read_data_def Let_def container_id_def split: exec.splits option.splits)

lemma keeps_label [keeps_intros]:
  assumes "healthy sys view running"
  shows "keeps view (set_label sys c b)"
proof -
  have "view (snd (set_label sys c b w)) StateDb (''FEATURE|'' @ f) = view w StateDb (''FEATURE|'' @ f)" for w f
    using set_label_healthy [OF assms, of c b w] by (auto simp: hset_view_def)
  then show ?thesis by (simp add: keeps_def)
qed

lemma keeps_upd [keeps_intros]:
  assumes "healthy sys view running"
  shows "keeps view (upd_act sys c data)"
  using writes_healthy [OF assms, of "''FEATURE''" "feature c @ ''|''" _ "sys_order sys data"]
  by (auto simp: keeps_def upd_act_def update_data_def Let_def)

lemma keeps_docker [keeps_intros]:
  assumes "healthy sys view running"
  shows "keeps view (call_act Docker (sys_docker_start sys f))"
    "keeps view (call_act Docker (sys_docker_stop sys f t))"
    "keeps view (call_act Docker (sys_docker_kill sys f sig))"
proof -
  have "view (snd (sys_docker_start sys f w)) = view w" "view (snd (sys_docker_stop sys f t w)) = view w"
    "view (snd (sys_docker_kill sys f sig w)) = view w" for w
    using assms unfolding healthy_def by (metis snd_conv)+
  then show "keeps view (call_act Docker (sys_docker_start sys f))"
    "keeps view (call_act Docker (sys_docker_stop sys f t))"
    "keeps view (call_act Docker (sys_docker_kill sys f sig))"
    by (auto simp: keeps_def call_act_def split: prod.splits option.splits) (metis snd_conv)+
qed

lemma keeps_commands:
  assumes "healthy sys view running"
  shows "keeps view (start sys c)" "keeps view (stop sys c t)" "keeps view (kill sys c)"
  unfolding start_def stop_def kill_def 
  by (intro keeps_bind keeps_if keeps_same keeps_label [OF assms] keeps_upd [OF assms] keeps_docker [OF assms];
      fail)+

lemma container_id_view:
  assumes "healthy sys view running"
    "view w1 StateDb (''FEATURE|'' @ feature c) = view w StateDb (''FEATURE|'' @ feature c)"
  shows "fst (container_id sys c w1) = fst (container_id sys c w)"
proof -
  have "\<exists>data. sys_hgetall sys StateDb (''FEATURE|'' @ feature c) w = Ok data \<and>
      map_of data = view w StateDb (''FEATURE|'' @ feature c)" for w
    using assms(1) unfolding healthy_def by meson
  then obtain d d1 where "sys_hgetall sys StateDb (''FEATURE|'' @ feature c) w = Ok d"
    "sys_hgetall sys StateDb (''FEATURE|'' @ feature c) w1 = Ok d1" "map_of d1 = map_of d"
    using assms(2) by metis
  then show ?thesis by (simp add: container_id_def id_field_def split: option.splits)
qed

text \<open>
  A defect: the state is written into the hash \<open>FEATURE\<close> under the field \<open>name|field\<close> and read
  from the field of the hash \<open>FEATURE|name\<close>. So starting, stopping or killing a feature, with
  whatever result, never changes the container id that is reported afterwards.
\<close>

theorem commands_keep_reported_id:
  assumes "healthy sys view running" "a \<noteq> Wait" "container_main sys a name t w = Some (r, w1)"
  shows "map_option fst (container_main sys Id name t1 w1) = map_option fst (container_main sys Id name t1 w)"
proof (cases "new_container sys name")
  case (Ok c)
  then have c: "feature c = name" by (auto simp: new_container_def bind_exec_Ok_iff)
  note k = keepsD [OF keeps_bind [OF _ keeps_same(1)]]
  have "view w1 StateDb (''FEATURE|'' @ name) = view w StateDb (''FEATURE|'' @ name)"
    using assms(2,3) Ok unfolding container_main_def
    by (cases a) (simp_all del: append_Cons,
        (erule k [OF keeps_commands(1) [OF assms(1)]] k [OF keeps_commands(2) [OF assms(1)]]
          k [OF keeps_commands(3) [OF assms(1)]] k [OF keeps_same(7)])+)
  then have "fst (container_id sys c w1) = fst (container_id sys c w)"
    by (intro container_id_view [OF assms(1)]) (simp add: c)
  with Ok show ?thesis
    by (auto simp: container_main_def bind_act_def ret_act_def split: prod.splits exec.splits)
qed (use assms(3) in \<open>simp_all add: container_main_def\<close>)

section \<open>A system in memory\<close>

record mem_world =
  mw_db :: "ctr_db \<Rightarrow> string \<Rightarrow> (string \<times> string) list"
  mw_running :: "string set"

definition mem_view :: "mem_world db_view" where
  "mem_view w db k = map_of (mw_db w db k)"

definition mem_sys :: "mem_world ctr_sys" where
  "mem_sys =
     \<lparr>sys_connect = (\<lambda>_. True), sys_ctrmgrd = True,
      sys_hgetall = (\<lambda>db k w. Ok (mw_db w db k)),
      sys_hset = (\<lambda>k f x w. (None,
        w\<lparr>mw_db := (mw_db w)(StateDb := (mw_db w StateDb)(k := AList.update f x (mw_db w StateDb k)))\<rparr>)),
      sys_docker_connect = (\<lambda>_. None),
      sys_docker_start = (\<lambda>f w. (None, w\<lparr>mw_running := insert f (mw_running w)\<rparr>)),
      sys_docker_stop = (\<lambda>f _ w. (None, w\<lparr>mw_running := mw_running w - {f}\<rparr>)),
      sys_docker_kill = (\<lambda>f _ w. (None, w\<lparr>mw_running := mw_running w - {f}\<rparr>)),
      sys_docker_wait = (\<lambda>_ _ w. Some (None, w)),
      sys_inspect = (\<lambda>_ _. Ok None), sys_config_file = (\<lambda>_. Err JSONParse),
      sys_now = (\<lambda>_. ''2024-01-01 00:00:00''), sys_sleep = (\<lambda>_ w. w), sys_order = (\<lambda>xs. xs)\<rparr>"

lemma mem_sys_healthy: "healthy mem_sys mem_view mw_running"
  by (auto simp: healthy_def mem_sys_def mem_view_def hset_view_def fun_eq_iff map_of_update)

text \<open>The feature \<open>dhcp_relay\<close> is configured for Kubernetes, \<open>bgp\<close> for the local Docker.\<close>

definition mem_world0 :: mem_world where
  "mem_world0 =
     \<lparr>mw_db = (\<lambda>db k.
        if db = ConfigDb \<and> k = ''FEATURE|dhcp_relay'' then [(''set_owner'', ''kube'')]
        else if db = StateDb \<and> k = ''FEATURE|dhcp_relay'' then
          [(''current_owner'', ''kube''), (''container_id'', ''c1'')]
        else []),
      mw_running = {}\<rparr>"

lemma mem_world0_readable: "readable mem_view mem_world0"
  by (auto simp: readable_def mem_view_def mem_world0_def utf8_valid_def split: if_splits)

abbreviation dhcp_relay :: container where
  "dhcp_relay \<equiv> \<lparr>feature = ''dhcp_relay'', remote_ctr_enabled = True\<rparr>"

theorem start_places_feature_witness:
  "\<exists>w1. start mem_sys dhcp_relay mem_world0 = (Ok (), w1) \<and> mw_running w1 = {''dhcp_relay''} \<and>
     mem_view w1 StateDb ''KUBE_LABELS'' ''SET|dhcp_relay_enabled'' = Some ''true''"
  using start_places_feature [OF mem_sys_healthy mem_world0_readable, of dhcp_relay]
  by (auto simp: runs_locally_def wants_kube_def db_field_def mem_view_def mem_world0_def)

theorem kill_panics_for_local_owner_witness:
  "fst (kill mem_sys \<lparr>feature = ''bgp'', remote_ctr_enabled = True\<rparr> mem_world0) = Panic"
  using kill_panics_for_local_owner [OF mem_sys_healthy mem_world0_readable,
      of "\<lparr>feature = ''bgp'', remote_ctr_enabled = True\<rparr>"]
  by (simp add: wants_kube_def db_field_def mem_view_def mem_world0_def)

theorem commands_keep_reported_id_witness:
  "\<exists>w1. container_main mem_sys Stop ''dhcp_relay'' None mem_world0 = Some (Ok None, w1) \<and>
     mem_view w1 StateDb ''FEATURE'' ''dhcp_relay|container_id'' = Some [] \<and>
     map_option fst (container_main mem_sys Id ''dhcp_relay'' None w1) = Some (Ok (Some ''c1''))"
proof -
  obtain r w1 where w1: "container_main mem_sys Stop ''dhcp_relay'' None mem_world0 = Some (r, w1)"
    "r = Ok None" "mem_view w1 StateDb ''FEATURE'' ''dhcp_relay|container_id'' = Some []"
    by (simp add: mem_sys_def mem_world0_def container_main_def new_container_def initialize_connection_def
        stop_def act_simps bind_act_def read_config_def read_state_def read_data_def read_field_def
        container_id_def id_field_def utf8_valid_def docker_connect_def call_act_def set_label_def ret_act_def
        upd_act_def update_data_def stop_data_def mem_view_def)
  have "map_option fst (container_main mem_sys Id ''dhcp_relay'' None mem_world0) = Some (Ok (Some ''c1''))"
    by (simp add: mem_sys_def mem_world0_def container_main_def new_container_def initialize_connection_def
        bind_act_def container_id_def id_field_def utf8_valid_def ret_act_def)
  with w1 commands_keep_reported_id [OF mem_sys_healthy _ w1(1), of None] show ?thesis by auto
qed

end
