(* ===== verification/Sonicdb_Derive.thy ===== *)
theory Sonicdb_Derive
  imports Hamgrd_Base
begin

text \<open>
  \<open>crates/sonicdb-derive\<close>: the derive macro that reads the attribute \<open>sonicdb\<close> of a struct and
  generates its implementation of \<open>SonicDbTable\<close>. The parser of Rust attributes is \<open>syn\<close>; an
  attribute arrives as its path and, for \<open>sonicdb\<close>, as the list of nested items. The four constants
  of the generated implementation are a \<open>sonic_table\<close>. A panic of the macro is a compile error with
  its text; errors of \<open>parse_nested_meta\<close> are unwrapped and end the same way.
\<close>

section \<open>Attributes\<close>

text \<open>
  What follows the path of a nested item: nothing, \<open>=\<close> and a string literal, or \<open>=\<close> and anything
  else, at which \<open>value()\<close> or \<open>parse::<LitStr>()\<close> fails.
\<close>

datatype meta_value = NoValue | LitStr string | OtherValue

type_synonym nested_meta = "string \<times> meta_value"

datatype attribute = SonicdbAttr "nested_meta list" | OtherAttr string

text \<open>
  \<open>SynError\<close>: the error of \<open>syn\<close> when the value is missing or is not a string literal; \<open>MetaError\<close>: an
  error the closure makes itself; \<open>DerivePanic\<close>: a panic of the macro.
\<close>

datatype derive_error = SynError | MetaError string | DerivePanic string

record derive_vars =
  dv_table_name :: string
  dv_key_separator :: char
  dv_db_name :: string
  dv_is_dpu :: bool

definition derive_init :: derive_vars where
  "derive_init = \<lparr>dv_table_name = '''', dv_key_separator = CHR ''a'', dv_db_name = '''', dv_is_dpu = False\<rparr>"

fun lit_str :: "meta_value \<Rightarrow> derive_error + string" where
  "lit_str (LitStr s) = Inr s"
| "lit_str NoValue = Inl SynError"
| "lit_str OtherValue = Inl SynError"

definition parse_is_dpu :: "string \<Rightarrow> bool option" where
  "parse_is_dpu s =
     (if s \<in> {''true'', ''True'', ''1''} then Some True
      else if s \<in> {''false'', ''False'', ''0''} then Some False
      else None)"

section \<open>The macro\<close>

text \<open>A separator is one character of a \<open>string\<close>, which has 8 bits; the macro also takes other single characters.\<close>

definition nested_meta_step :: "derive_vars \<Rightarrow> nested_meta \<Rightarrow> derive_error + derive_vars" where
  "nested_meta_step v m =
     (case m of (path, val) \<Rightarrow>
        if path = ''table_name'' then
          (case lit_str val of Inl e \<Rightarrow> Inl e | Inr s \<Rightarrow> Inr (v\<lparr>dv_table_name := s\<rparr>))
        else if path = ''key_separator'' then
          (case lit_str val of
             Inl e \<Rightarrow> Inl e
           | Inr s \<Rightarrow>
               (case s of
                  [c] \<Rightarrow> Inr (v\<lparr>dv_key_separator := c\<rparr>)
                | _ \<Rightarrow> Inl (MetaError ''key_separator must be a single character'')))
        else if path = ''db_name'' then
          (case lit_str val of Inl e \<Rightarrow> Inl e | Inr s \<Rightarrow> Inr (v\<lparr>dv_db_name := s\<rparr>))
        else if path = ''is_dpu'' then
          (case lit_str val of
             Inl e \<Rightarrow> Inl e
           | Inr s \<Rightarrow>
               (case parse_is_dpu s of
                  Some b \<Rightarrow> Inr (v\<lparr>dv_is_dpu := b\<rparr>)
                | None \<Rightarrow> Inl (MetaError ''is_dpu must be a boolean (true/false)'')))
        else Inl (MetaError ''unknown attribute''))"

fun parse_nested_meta :: "derive_vars \<Rightarrow> nested_meta list \<Rightarrow> derive_error + derive_vars" where
  "parse_nested_meta v [] = Inr v"
| "parse_nested_meta v (m # ms) =
     (case nested_meta_step v m of Inl e \<Rightarrow> Inl e | Inr v' \<Rightarrow> parse_nested_meta v' ms)"

fun read_attrs :: "derive_vars \<Rightarrow> attribute list \<Rightarrow> derive_error + derive_vars" where
  "read_attrs v [] = Inr v"
| "read_attrs v (SonicdbAttr ms # as) =
     (case parse_nested_meta v ms of Inl e \<Rightarrow> Inl e | Inr v' \<Rightarrow> read_attrs v' as)"
| "read_attrs v (OtherAttr p # as) = read_attrs v as"

definition serde_sonicdb_derive :: "attribute list \<Rightarrow> derive_error + sonic_table" where
  "serde_sonicdb_derive as =
     (case read_attrs derive_init as of
        Inl e \<Rightarrow> Inl e
      | Inr v \<Rightarrow>
          if dv_table_name v = '''' then Inl (DerivePanic ''Missing table_name attribute'')
          else if dv_db_name v = '''' then Inl (DerivePanic ''Missing db_name attribute'')
          else if dv_key_separator v = CHR ''a'' then Inl (DerivePanic ''Missing key_separator attribute'')
          else Inr \<lparr>table_name = dv_table_name v, key_separator = [dv_key_separator v],
                    db_name = dv_db_name v, is_dpu = dv_is_dpu v\<rparr>)"

section \<open>What the macro accepts\<close>

text \<open>
  A specification without the order of evaluation: the items of all \<open>sonicdb\<close> attributes are well
  formed, and the last item of each name gives the value.
\<close>

fun sonicdb_items :: "attribute list \<Rightarrow> nested_meta list" where
  "sonicdb_items [] = []"
| "sonicdb_items (SonicdbAttr ms # as) = ms @ sonicdb_items as"
| "sonicdb_items (OtherAttr p # as) = sonicdb_items as"

fun item_ok :: "nested_meta \<Rightarrow> bool" where
  "item_ok (p, LitStr s) =
     (p = ''table_name'' \<or> p = ''db_name'' \<or> (p = ''key_separator'' \<and> length s = 1) \<or>
      (p = ''is_dpu'' \<and> parse_is_dpu s \<noteq> None))"
| "item_ok (p, v) = False"

definition last_item :: "string \<Rightarrow> string \<Rightarrow> nested_meta list \<Rightarrow> string" where
  "last_item p d ms =
     (case map_of (rev ms) p of Some (LitStr s) \<Rightarrow> s | _ \<Rightarrow> d)"

definition vars_of_items :: "derive_vars \<Rightarrow> nested_meta list \<Rightarrow> derive_vars" where
  "vars_of_items v ms =
     \<lparr>dv_table_name = last_item ''table_name'' (dv_table_name v) ms,
      dv_key_separator = hd (last_item ''key_separator'' [dv_key_separator v] ms),
      dv_db_name = last_item ''db_name'' (dv_db_name v) ms,
      dv_is_dpu = (case parse_is_dpu (last_item ''is_dpu'' (if dv_is_dpu v then ''true'' else ''false'') ms) of
                     Some b \<Rightarrow> b | None \<Rightarrow> dv_is_dpu v)\<rparr>"

lemma last_item_Nil [simp]: "last_item p d [] = d"
  by (simp add: last_item_def)

lemma last_item_Cons_other: "p \<noteq> q \<Longrightarrow> last_item p d ((q, val) # ms) = last_item p d ms"
  by (auto simp: last_item_def map_add_def split: option.splits meta_value.splits)

lemma last_item_Cons_same:
  "last_item p d ((p, LitStr s) # ms) = last_item p s ms" if "\<forall>m \<in> set ms. item_ok m"
proof -
  have "\<exists>t. val = LitStr t" if "map_of (rev ms) p = Some val" for val
    using that \<open>\<forall>m \<in> set ms. item_ok m\<close> map_of_SomeD [OF that] by (cases val) auto
  then show ?thesis
    by (auto simp: last_item_def map_add_def split: option.splits meta_value.splits)
qed

lemma parse_is_dpu_text [simp]: "parse_is_dpu ''true'' = Some True" "parse_is_dpu ''false'' = Some False"
  by (simp_all add: parse_is_dpu_def)

lemma last_item_one [simp]: "last_item p d [(q, LitStr s)] = (if p = q then s else d)"
  by (simp add: last_item_def)

lemma split_list1: obtains "xs = []" | x where "xs = [x]" | x y ys where "xs = x # y # ys"
  by (cases xs; cases "tl xs") auto

lemma nested_meta_step_spec:
  "nested_meta_step v m = Inr v' \<longleftrightarrow> item_ok m \<and> v' = vars_of_items v [m]"
proof (cases m)
  case (Pair p val)
  show ?thesis
  proof (cases val)
    case (LitStr s)
    consider "p = ''table_name''" | "p = ''db_name''" | "p = ''key_separator''" | "p = ''is_dpu''"
      | "p \<notin> {''table_name'', ''db_name'', ''key_separator'', ''is_dpu''}" by blast
    then show ?thesis
    proof cases
      case 3
      then show ?thesis
        by (cases s rule: split_list1) (auto simp: Pair LitStr nested_meta_step_def vars_of_items_def)
    next
      case 4
      then show ?thesis
        by (cases "parse_is_dpu s") (auto simp: Pair LitStr nested_meta_step_def vars_of_items_def)
    qed (auto simp: Pair LitStr nested_meta_step_def vars_of_items_def)
  qed (simp_all add: Pair nested_meta_step_def)
qed

lemma vars_of_items_Cons:
  assumes "item_ok m" "\<forall>m \<in> set ms. item_ok m"
  shows "vars_of_items (vars_of_items v [m]) ms = vars_of_items v (m # ms)"
proof -
  obtain p s where m: "m = (p, LitStr s)"
    using assms(1) by (cases m rule: item_ok.cases) auto
  from assms(1) consider "p = ''table_name''" | "p = ''db_name''"
    | c where "p = ''key_separator''" "s = [c]" | b where "p = ''is_dpu''" "parse_is_dpu s = Some b"
    by (auto simp: m length_Suc_conv)
  then show ?thesis
  proof cases
    case (4 b)
    have same: "parse_is_dpu (last_item ''is_dpu'' (if b then ''true'' else ''false'') ms) =
        parse_is_dpu (last_item ''is_dpu'' s ms)"
      using 4 by (auto simp: last_item_def split: option.splits meta_value.splits)
    have some: "parse_is_dpu (last_item ''is_dpu'' s ms) \<noteq> None"
      using 4 assms(2) map_of_SomeD [of "rev ms" "''is_dpu''"]
      by (fastforce simp: last_item_def split: option.splits meta_value.splits)
    show ?thesis
      using 4 assms(2) same some
      by (auto simp: m vars_of_items_def last_item_Cons_other last_item_Cons_same split: option.splits)
  qed (auto simp: m vars_of_items_def last_item_Cons_other last_item_Cons_same assms(2) split: option.splits)
qed

lemma parse_nested_meta_spec:
  "parse_nested_meta v ms = Inr v' \<longleftrightarrow> (\<forall>m \<in> set ms. item_ok m) \<and> v' = vars_of_items v ms"
proof (induction ms arbitrary: v)
  case Nil
  show ?case by (auto simp: vars_of_items_def)
next
  case (Cons m ms)
  have "parse_nested_meta v (m # ms) = Inr v' \<longleftrightarrow>
      item_ok m \<and> parse_nested_meta (vars_of_items v [m]) ms = Inr v'"
    using nested_meta_step_spec [of v m] by (cases "item_ok m"; cases "nested_meta_step v m") (simp_all, metis+)
  then show ?case
    by (auto simp: Cons.IH vars_of_items_Cons)
qed

lemma parse_nested_meta_append:
  "parse_nested_meta v (ms @ ns) =
     (case parse_nested_meta v ms of Inl e \<Rightarrow> Inl e | Inr v' \<Rightarrow> parse_nested_meta v' ns)"
  by (induction ms arbitrary: v) (auto split: sum.splits)

lemma read_attrs_items: "read_attrs v as = parse_nested_meta v (sonicdb_items as)"
  by (induction v as rule: read_attrs.induct) (auto simp: parse_nested_meta_append split: sum.splits)

text \<open>
  (C37) The macro generates an implementation exactly when every item of the \<open>sonicdb\<close> attributes is well
  formed, a table name and a database name are given and are not empty, and a separator is given that is not the letter
  \<open>a\<close>, which stands for a missing one. The last item of each name decides, and a table is one of
  the switch unless \<open>is_dpu\<close> says otherwise.
\<close>
theorem derive_accepts_iff:
  "serde_sonicdb_derive as = Inr t \<longleftrightarrow>
     (let ms = sonicdb_items as in
      (\<forall>m \<in> set ms. item_ok m) \<and>
      last_item ''table_name'' '''' ms \<noteq> '''' \<and> last_item ''db_name'' '''' ms \<noteq> '''' \<and>
      last_item ''key_separator'' ''a'' ms \<noteq> ''a'' \<and>
      t = \<lparr>table_name = last_item ''table_name'' '''' ms,
           key_separator = last_item ''key_separator'' ''a'' ms,
           db_name = last_item ''db_name'' '''' ms,
           is_dpu = (parse_is_dpu (last_item ''is_dpu'' ''false'' ms) = Some True)\<rparr>)"
proof (cases "\<forall>m \<in> set (sonicdb_items as). item_ok m")
  case True
  define ms where "ms = sonicdb_items as"
  have ok: "item_ok (p, x)" if "map_of (rev ms) p = Some x" for p x
    using map_of_SomeD [OF that] True by (auto simp: ms_def)
  obtain c where c: "last_item ''key_separator'' ''a'' ms = [c]"
  proof (cases "map_of (rev ms) ''key_separator''")
    case (Some x)
    then show ?thesis
      using ok [OF Some] that by (cases x) (auto simp: last_item_def length_Suc_conv)
  qed (auto simp: last_item_def that)
  have "parse_nested_meta derive_init ms = Inr (vars_of_items derive_init ms)"
    using True parse_nested_meta_spec by (simp add: ms_def)
  moreover obtain b where "parse_is_dpu (last_item ''is_dpu'' ''false'' ms) = Some b"
  proof (cases "map_of (rev ms) ''is_dpu''")
    case (Some x)
    then show ?thesis
      using ok [OF Some] that by (cases x) (auto simp: last_item_def)
  next
    case None
    then have "parse_is_dpu (last_item ''is_dpu'' ''false'' ms) = Some False"
      by (simp add: last_item_def parse_is_dpu_def)
    then show ?thesis by (rule that)
  qed
  ultimately show ?thesis
    using True c
    by (auto simp: serde_sonicdb_derive_def read_attrs_items ms_def [symmetric] vars_of_items_def
        derive_init_def Let_def)
next
  case False
  then have "parse_nested_meta derive_init (sonicdb_items as) \<noteq> Inr v" for v
    using parse_nested_meta_spec by blast
  with False show ?thesis
    by (auto simp: serde_sonicdb_derive_def read_attrs_items Let_def split: sum.splits)
qed

theorem derive_accepts_iff_witness:
  "serde_sonicdb_derive [OtherAttr ''derive'', SonicdbAttr [(''table_name'', LitStr ''T''), (''key_separator'', LitStr ''|''),
     (''db_name'', LitStr ''D''), (''is_dpu'', LitStr ''1''), (''table_name'', LitStr ''U'')]] =
   Inr \<lparr>table_name = ''U'', key_separator = ''|'', db_name = ''D'', is_dpu = True\<rparr>"
  using derive_accepts_iff [of "[OtherAttr ''derive'', SonicdbAttr [(''table_name'', LitStr ''T''), (''key_separator'', LitStr ''|''),
     (''db_name'', LitStr ''D''), (''is_dpu'', LitStr ''1''), (''table_name'', LitStr ''U'')]]"
     "\<lparr>table_name = ''U'', key_separator = ''|'', db_name = ''D'', is_dpu = True\<rparr>"]
  by (simp add: last_item_def parse_is_dpu_def)

text \<open>A separator \<open>a\<close> is refused as if it were not there.\<close>

lemma separator_a_refused:
  "serde_sonicdb_derive [SonicdbAttr [(''table_name'', LitStr ''T''), (''key_separator'', LitStr ''a''),
     (''db_name'', LitStr ''D'')]] = Inl (DerivePanic ''Missing key_separator attribute'')"
  by (simp add: serde_sonicdb_derive_def derive_init_def nested_meta_step_def)

section \<open>The tables of hamgrd\<close>

definition sonicdb_attr :: "string \<Rightarrow> string \<Rightarrow> string \<Rightarrow> string option \<Rightarrow> attribute" where
  "sonicdb_attr tbl sep db dpu =
     SonicdbAttr ([(''table_name'', LitStr tbl), (''key_separator'', LitStr sep), (''db_name'', LitStr db)] @
       (case dpu of None \<Rightarrow> [] | Some b \<Rightarrow> [(''is_dpu'', LitStr b)]))"

lemmas derive_simps = sonicdb_attr_def serde_sonicdb_derive_def derive_init_def nested_meta_step_def
  parse_is_dpu_def

text \<open>The tables of \<open>Hamgrd_Base\<close> are what the macro makes of the attributes in \<open>db_structs.rs\<close>.\<close>

lemma hamgrd_tables_derived:
  "serde_sonicdb_derive [sonicdb_attr ''DASH_HA_GLOBAL_CONFIG'' ''|'' ''CONFIG_DB'' None] = Inr dash_ha_global_config_tbl"
  "serde_sonicdb_derive [sonicdb_attr ''DPU'' ''|'' ''CONFIG_DB'' None] = Inr dpu_tbl"
  "serde_sonicdb_derive [sonicdb_attr ''REMOTE_DPU'' ''|'' ''CONFIG_DB'' None] = Inr remote_dpu_tbl"
  "serde_sonicdb_derive [sonicdb_attr ''VDPU'' ''|'' ''CONFIG_DB'' None] = Inr vdpu_tbl"
  "serde_sonicdb_derive [sonicdb_attr ''BFD_SESSION_TABLE'' '':'' ''DPU_APPL_DB'' (Some ''true'')] = Inr bfd_session_tbl"
  "serde_sonicdb_derive [sonicdb_attr ''DPU_STATE'' ''|'' ''CHASSIS_STATE_DB'' None] = Inr dpu_state_tbl"
  "serde_sonicdb_derive [sonicdb_attr ''DASH_BFD_PROBE_STATE'' ''|'' ''DPU_STATE_DB'' (Some ''true'')] = Inr dash_bfd_probe_state_tbl"
  "serde_sonicdb_derive [sonicdb_attr ''DASH_HA_SET_CONFIG_TABLE'' '':'' ''APPL_DB'' None] = Inr dash_ha_set_config_tbl"
  "serde_sonicdb_derive [sonicdb_attr ''DASH_HA_SET_TABLE'' '':'' ''DPU_APPL_DB'' (Some ''true'')] = Inr dash_ha_set_tbl"
  "serde_sonicdb_derive [sonicdb_attr ''VNET_ROUTE_TUNNEL_TABLE'' '':'' ''APPL_DB'' None] = Inr vnet_route_tunnel_tbl"
  "serde_sonicdb_derive [sonicdb_attr ''DASH_HA_SCOPE_CONFIG_TABLE'' '':'' ''APPL_DB'' None] = Inr dash_ha_scope_config_tbl"
  "serde_sonicdb_derive [sonicdb_attr ''DASH_HA_SCOPE_TABLE'' '':'' ''DPU_APPL_DB'' (Some ''true'')] = Inr dash_ha_scope_tbl"
  "serde_sonicdb_derive [sonicdb_attr ''DASH_HA_SCOPE_STATE'' ''|'' ''DPU_STATE_DB'' (Some ''true'')] = Inr dpu_dash_ha_scope_state_tbl"
  "serde_sonicdb_derive [sonicdb_attr ''DASH_HA_SCOPE_STATE'' ''|'' ''STATE_DB'' None] = Inr npu_dash_ha_scope_state_tbl"
  by (simp_all add: derive_simps table_defs)

end
