(* ===== verification/Sonic_Common.thy ===== *)
theory Sonic_Common
  imports Prelude
begin

text \<open>
  \<open>crates/sonic-common\<close>: the start of logging in the daemons (\<open>log.rs\<close>) with its dynamic level, the
  logger of tests, the panic hook (\<open>panic.rs\<close>), and the logger of the command line tool
  (\<open>init_logger\<close> in \<open>swbus-cli/src/main.rs\<close>), which is built from the same layers.

  The global subscriber of \<open>tracing\<close> is a list of layers, each a writer with a filter. The model is the
  build for Linux. The parameters (\<open>log_lib\<close>): whether it is a debug build, whether a syslog writer
  can be made, the result of linking to the logger of SWSS with the levels it reports meanwhile, and
  which levels an \<open>EnvFilter\<close> text lets through. The texts of events are not part of the model, only
  their levels and where they are written.
\<close>

section \<open>Levels and layers\<close>

datatype level = OFF | ERROR | WARN | INFO | DEBUG | TRACE

primrec verbosity :: "level \<Rightarrow> nat" where
  "verbosity OFF = 0"
| "verbosity ERROR = 1"
| "verbosity WARN = 2"
| "verbosity INFO = 3"
| "verbosity DEBUG = 4"
| "verbosity TRACE = 5"

instantiation level :: linorder
begin

definition less_eq_level :: "level \<Rightarrow> level \<Rightarrow> bool" where
  "less_eq_level a b = (verbosity a \<le> verbosity b)"

definition less_level :: "level \<Rightarrow> level \<Rightarrow> bool" where
  "less_level a b = (verbosity a < verbosity b)"

instance
proof
  fix a b :: level
  show "a \<le> b \<Longrightarrow> b \<le> a \<Longrightarrow> a = b"
    by (cases a; cases b) (simp_all add: less_eq_level_def)
qed (auto simp: less_eq_level_def less_level_def)

end

datatype writer = Syslog string | Stdout | Stderr

datatype layer_filter = MaxLevel level | Reload | EnvFilter string

record log_lib =
  ll_debug_assertions :: bool
  ll_syslog :: "string \<Rightarrow> bool"
  ll_link :: "string \<Rightarrow> string + string list"
  ll_env_filter :: "string \<Rightarrow> level \<Rightarrow> bool"

record log_sys =
  env_vars :: "string \<rightharpoonup> string"
  reload_level :: "level option"
  subscriber :: "(writer \<times> layer_filter) list option"
  log_for_test_init :: bool

text \<open>The writers that record an event of level \<open>l\<close>.\<close>

fun layer_enabled :: "log_lib \<Rightarrow> log_sys \<Rightarrow> level \<Rightarrow> layer_filter \<Rightarrow> bool" where
  "layer_enabled lib s l (MaxLevel m) = (l \<le> m)"
| "layer_enabled lib s l Reload = (\<exists>m. reload_level s = Some m \<and> l \<le> m)"
| "layer_enabled lib s l (EnvFilter t) = ll_env_filter lib t l"

definition written_to :: "log_lib \<Rightarrow> log_sys \<Rightarrow> level \<Rightarrow> writer list" where
  "written_to lib s l =
     (case subscriber s of
        None \<Rightarrow> []
      | Some layers \<Rightarrow> map fst (filter (\<lambda>(w, f). layer_enabled lib s l f) layers))"

section \<open>The dynamic level\<close>

definition swss_level :: "string \<Rightarrow> level" where
  "swss_level t =
     (if t = ''ALERT'' then WARN
      else if t = ''NOTICE'' then INFO
      else if t = ''INFO'' then INFO
      else if t = ''DEBUG'' then DEBUG
      else ERROR)"

text \<open>\<open>modify\<close> fails when the layer of the handle is gone, and the result is unwrapped.\<close>

definition on_log_level_change :: "string \<Rightarrow> log_sys \<Rightarrow> (string, log_sys) exec" where
  "on_log_level_change t s =
     (case reload_level s of
        None \<Rightarrow> Panic
      | Some _ \<Rightarrow> Ok (s\<lparr>reload_level := Some (swss_level t)\<rparr>))"

text \<open>The levels of the events a change of the output emits; the output stays.\<close>

definition on_log_output_change :: "string \<Rightarrow> level list" where
  "on_log_output_change out = (if out \<noteq> ''SYSLOG'' then [INFO] else [])"

section \<open>Start of logging\<close>

definition ascii_upper :: "char \<Rightarrow> char" where
  "ascii_upper c =
     (let n = of_char c :: nat in if 97 \<le> n \<and> n \<le> 122 then char_of (n - 32) else c)"

definition default_log_level :: "log_lib \<Rightarrow> string" where
  "default_log_level lib = (if ll_debug_assertions lib then ''debug'' else ''info'')"

definition log_level_env_var :: "string \<Rightarrow> string" where
  "log_level_env_var program_name = map ascii_upper program_name @ ''_LOG_LEVEL''"

text \<open>
  A syslog identity is a C string: it must not contain the character 0. \<open>Syslog::new\<close> yields nothing
  when there is already a syslog writer.
\<close>

definition new_file_subscriber :: "log_lib \<Rightarrow> string \<Rightarrow> (string, writer) exec" where
  "new_file_subscriber lib program_name =
     (if CHR 0x00 \<in> set program_name then Err (''Unable to create syslog identity: '' @ program_name)
      else if ll_syslog lib program_name then Ok (Syslog program_name)
      else Err ''Unable to create syslog writer.'')"

text \<open>\<open>SubscriberInitExt::init\<close> panics when there is a global subscriber.\<close>

definition registry_init :: "(writer \<times> layer_filter) list \<Rightarrow> log_sys \<Rightarrow> (string, log_sys) exec" where
  "registry_init layers s =
     (case subscriber s of
        None \<Rightarrow> Ok (s\<lparr>subscriber := Some layers\<rparr>)
      | Some _ \<Rightarrow> Panic)"

definition rust_log :: "log_lib \<Rightarrow> string \<Rightarrow> log_sys \<Rightarrow> string \<times> bool" where
  "rust_log lib program_name s =
     (case env_vars s ''RUST_LOG'' of
        Some v \<Rightarrow> (v, True)
      | None \<Rightarrow>
          (case env_vars s (log_level_env_var program_name) of
             Some v \<Rightarrow> (v, True)
           | None \<Rightarrow> (default_log_level lib, False)))"

definition log_init :: "log_lib \<Rightarrow> string \<Rightarrow> bool \<Rightarrow> log_sys \<Rightarrow> (string, log_sys) exec" where
  "log_init lib program_name link_swsscommon_logger s =
     (let (v, log_env_set) = rust_log lib program_name s;
          s1 = s\<lparr>env_vars := (env_vars s)(''RUST_LOG'' \<mapsto> v)\<rparr>
      in bind_exec (new_file_subscriber lib program_name) (\<lambda>w.
           if link_swsscommon_logger \<and> \<not> log_env_set then
             (case ll_link lib program_name of
                Inr levels \<Rightarrow>
                  registry_init [(w, Reload)]
                    (s1\<lparr>reload_level := Some (fold (\<lambda>t _. swss_level t) levels INFO)\<rparr>)
              | Inl e \<Rightarrow> registry_init [(w, EnvFilter v)] s1)
           else registry_init [(w, EnvFilter v)] s1))"

section \<open>Loggers of tests and of the command line tool\<close>

definition trace_enabled :: "log_sys \<Rightarrow> bool" where
  "trace_enabled s =
     (case env_vars s ''ENABLE_TRACE'' of
        None \<Rightarrow> False
      | Some v \<Rightarrow> v = ''1'' \<or> map ascii_upper v = ''TRUE'')"

definition init_logger_for_test :: "log_sys \<Rightarrow> (string, log_sys) exec" where
  "init_logger_for_test s =
     (if \<not> trace_enabled s then Ok s
      else if log_for_test_init s then Ok s
      else registry_init [(Stdout, MaxLevel DEBUG), (Stderr, MaxLevel ERROR)] (s\<lparr>log_for_test_init := True\<rparr>))"

definition init_logger :: "bool \<Rightarrow> log_sys \<Rightarrow> (string, log_sys) exec" where
  "init_logger debug s =
     registry_init [(Stdout, MaxLevel (if debug then DEBUG else INFO)), (Stderr, MaxLevel ERROR)] s"

section \<open>The panic hook\<close>

text \<open>
  What happens when a thread of the process panics. Without the hook the thread unwinds. The hook
  reports and ends the process; a panic inside the hook aborts it.
\<close>

datatype panic_action = LogReport | PrintReport | WriteDump | PrintDumpPath | UnwindThread | ExitProcess nat | AbortProcess

record panic_lib =
  pl_debug_assertions :: bool
  pl_install_eyre :: bool
  pl_print_msg :: bool

record panic_sys =
  ps_env :: "string \<rightharpoonup> string"
  ps_hook :: "string option"

definition panic_init :: "panic_lib \<Rightarrow> string \<Rightarrow> panic_sys \<Rightarrow> (string, panic_sys) exec" where
  "panic_init lib program_name s =
     (if pl_install_eyre lib
      then Ok (s\<lparr>ps_env := (ps_env s)(''RUST_BACKTRACE'' \<mapsto> ''full''), ps_hook := Some program_name\<rparr>)
      else Err ''Unable to install color-eyre panic hook'')"

definition report_panic_as_dump :: "panic_lib \<Rightarrow> panic_action list" where
  "report_panic_as_dump lib = [WriteDump, if pl_print_msg lib then PrintDumpPath else AbortProcess]"

definition run_panic_hook :: "panic_lib \<Rightarrow> panic_sys \<Rightarrow> panic_action list" where
  "run_panic_hook lib s =
     (case ps_hook s of
        None \<Rightarrow> [UnwindThread]
      | Some _ \<Rightarrow>
          LogReport #
          (if pl_debug_assertions lib then [ExitProcess 1]
           else PrintReport #
             (let d = report_panic_as_dump lib in if AbortProcess \<in> set d then d else d @ [ExitProcess 1])))"

section \<open>Which events are recorded\<close>

text \<open>The levels the logger of SWSS reports while and after it is linked.\<close>

fun change_levels :: "string list \<Rightarrow> log_sys \<Rightarrow> (string, log_sys) exec" where
  "change_levels [] s = Ok s"
| "change_levels (t # ts) s = bind_exec (on_log_level_change t s) (change_levels ts)"

lemma change_levels_linked:
  "reload_level s = Some m \<Longrightarrow>
   change_levels ts s = Ok (s\<lparr>reload_level := Some (fold (\<lambda>t _. swss_level t) ts m)\<rparr>)"
  by (induction ts arbitrary: s m) (simp_all add: on_log_level_change_def)

lemma fold_last: "fold (\<lambda>t _. f t) ts m = (if ts = [] then m else f (last ts))"
  by (induction ts arbitrary: m) auto

lemma log_init_linked:
  assumes "env_vars s ''RUST_LOG'' = None" "env_vars s (log_level_env_var p) = None"
    and "CHR 0x00 \<notin> set p" "ll_syslog lib p" "subscriber s = None" "ll_link lib p = Inr levels"
  shows "log_init lib p True s =
    Ok (s\<lparr>env_vars := (env_vars s)(''RUST_LOG'' \<mapsto> default_log_level lib),
          reload_level := Some (fold (\<lambda>t _. swss_level t) levels INFO),
          subscriber := Some [(Syslog p, Reload)]\<rparr>)"
  using assms
  by (simp add: log_init_def rust_log_def new_file_subscriber_def registry_init_def)

text \<open>
  (C38) A daemon whose environment sets no log level and that is linked to the logger of SWSS starts, no change of level fails, and
  the last level \<open>x\<close> the logger reported decides what goes to the syslog under the name of the program (\<open>INFO\<close> before the first
  report): errors always, warnings for \<open>ALERT\<close>, \<open>NOTICE\<close>, \<open>INFO\<close> and \<open>DEBUG\<close>, informational events for \<open>NOTICE\<close>, \<open>INFO\<close> and
  \<open>DEBUG\<close>, debug events for \<open>DEBUG\<close>, and trace events never. This is not the order of severity of the documentation of \<open>init\<close>: for
  \<open>WARN\<close> warnings are dropped, for the more severe \<open>ALERT\<close> they are recorded.
\<close>
theorem linked_logger_follows_config:
  assumes "env_vars s ''RUST_LOG'' = None" "env_vars s (log_level_env_var p) = None"
    and "CHR 0x00 \<notin> set p" "ll_syslog lib p" "subscriber s = None" "ll_link lib p = Inr levels"
    and "x = (if levels @ ts = [] then ''INFO'' else last (levels @ ts))" "l \<noteq> OFF"
  shows "\<exists>s'. bind_exec (log_init lib p True s) (change_levels ts) = Ok s' \<and>
    written_to lib s' l =
      (if l = ERROR \<or> l = WARN \<and> x \<in> {''ALERT'', ''NOTICE'', ''INFO'', ''DEBUG''} \<or>
          l = INFO \<and> x \<in> {''NOTICE'', ''INFO'', ''DEBUG''} \<or> l = DEBUG \<and> x = ''DEBUG''
       then [Syslog p] else [])"
proof -
  have "fold (\<lambda>t _. swss_level t) ts (fold (\<lambda>t _. swss_level t) levels INFO) = swss_level x"
    using assms(7) by (auto simp: fold_last swss_level_def)
  moreover have "l \<le> swss_level x \<longleftrightarrow> l = ERROR \<or> l = WARN \<and> x \<in> {''ALERT'', ''NOTICE'', ''INFO'', ''DEBUG''} \<or>
      l = INFO \<and> x \<in> {''NOTICE'', ''INFO'', ''DEBUG''} \<or> l = DEBUG \<and> x = ''DEBUG''"
    using assms(8) by (cases l) (auto simp: swss_level_def less_eq_level_def)
  ultimately show ?thesis
    by (simp add: log_init_linked [OF assms(1-6)] change_levels_linked written_to_def)
qed

definition demo_log_lib :: log_lib where
  "demo_log_lib = \<lparr>ll_debug_assertions = False, ll_syslog = (\<lambda>_. True), ll_link = (\<lambda>_. Inr [''NOTICE'']),
     ll_env_filter = (\<lambda>_ _. True)\<rparr>"

definition demo_log_sys :: log_sys where
  "demo_log_sys = \<lparr>env_vars = Map.empty, reload_level = None, subscriber = None, log_for_test_init = False\<rparr>"

theorem linked_logger_follows_config_witness:
  "(\<exists>s'. bind_exec (log_init demo_log_lib ''hamgrd'' True demo_log_sys) (change_levels [''DEBUG'']) = Ok s' \<and>
     written_to demo_log_lib s' INFO = [Syslog ''hamgrd'']) \<and>
   (\<exists>s'. bind_exec (log_init demo_log_lib ''hamgrd'' True demo_log_sys) (change_levels [''WARN'']) = Ok s' \<and>
     written_to demo_log_lib s' WARN = [])"
  using linked_logger_follows_config
    [of demo_log_sys "''hamgrd''" demo_log_lib "[''NOTICE'']" "''DEBUG''" "[''DEBUG'']" INFO]
    linked_logger_follows_config
    [of demo_log_sys "''hamgrd''" demo_log_lib "[''NOTICE'']" "''WARN''" "[''WARN'']" WARN]
  by (simp add: demo_log_lib_def demo_log_sys_def)

text \<open>
  The levels in the order of severity of the documentation of \<open>init\<close>, which the level handler receives in
  capitals.
\<close>

definition documented_levels :: "string list" where
  "documented_levels = [''EMERG'', ''ALERT'', ''CRIT'', ''ERROR'', ''WARN'', ''NOTICE'', ''INFO'', ''DEBUG'']"

text \<open>
  The handler does not follow that order: at the level \<open>WARN\<close> a warning is not recorded, at the more severe level
  \<open>ALERT\<close> it is. Both are counted from the position in \<open>documented_levels\<close>.
\<close>

lemma warnings_recorded_at:
  "filter (\<lambda>t. WARN \<le> swss_level t) documented_levels = [''ALERT'', ''NOTICE'', ''INFO'', ''DEBUG'']"
  by (simp add: documented_levels_def swss_level_def less_eq_level_def)

text \<open>
  Without a link the text in the environment decides: \<open>RUST_LOG\<close> first, then the variable of the
  program, then the default of the build. The link is not even tried when one of the two
  variables is set.
\<close>
theorem log_level_from_environment:
  assumes "CHR 0x00 \<notin> set p" "ll_syslog lib p" "subscriber s = None"
    and "link \<Longrightarrow> env_vars s ''RUST_LOG'' = None \<Longrightarrow> env_vars s (log_level_env_var p) = None \<Longrightarrow>
      (\<exists>e. ll_link lib p = Inl e)"
  defines "v \<equiv> case env_vars s ''RUST_LOG'' of Some v \<Rightarrow> v | None \<Rightarrow>
      (case env_vars s (log_level_env_var p) of Some v \<Rightarrow> v | None \<Rightarrow> default_log_level lib)"
  shows "\<exists>s'. log_init lib p link s = Ok s' \<and> env_vars s' ''RUST_LOG'' = Some v \<and>
    written_to lib s' l = (if ll_env_filter lib v l then [Syslog p] else [])"
proof -
  have "log_init lib p link s =
      Ok (s\<lparr>env_vars := (env_vars s)(''RUST_LOG'' \<mapsto> v), subscriber := Some [(Syslog p, EnvFilter v)]\<rparr>)"
    using assms(1-4)
    by (auto simp: v_def log_init_def rust_log_def new_file_subscriber_def registry_init_def Let_def
        split: option.splits)
  then show ?thesis by (simp add: written_to_def)
qed

theorem log_level_from_environment_witness:
  "\<exists>s'. log_init demo_log_lib ''swbusd'' True (demo_log_sys\<lparr>env_vars := [''SWBUSD_LOG_LEVEL'' \<mapsto> ''warn'']\<rparr>) = Ok s' \<and>
     env_vars s' ''RUST_LOG'' = Some ''warn''"
proof -
  have "log_level_env_var ''swbusd'' = ''SWBUSD_LOG_LEVEL''"
    by code_simp
  then show ?thesis
    using log_level_from_environment
      [of "''swbusd''" demo_log_lib "demo_log_sys\<lparr>env_vars := [''SWBUSD_LOG_LEVEL'' \<mapsto> ''warn'']\<rparr>" True INFO]
    by (auto simp: demo_log_lib_def demo_log_sys_def)
qed

text \<open>Tests call their initialiser any number of times; only the first call installs a subscriber.\<close>

lemma init_logger_for_test_idempotent:
  "init_logger_for_test s = Ok s' \<Longrightarrow> init_logger_for_test s' = Ok s'"
  by (auto simp: init_logger_for_test_def trace_enabled_def registry_init_def split: if_splits option.splits)

text \<open>
  The comments of the two layers promise the standard output to informational and lower events; an error is written
  to both.
\<close>

lemma cli_error_written_twice:
  "init_logger debug s = Ok s' \<Longrightarrow> written_to lib s' ERROR = [Stdout, Stderr]"
  by (auto simp: init_logger_def registry_init_def written_to_def less_eq_level_def split: option.splits)

text \<open>Once the hook is installed, a panic of any thread ends the process.\<close>

lemma panic_ends_process:
  "panic_init lib p s = Ok s' \<Longrightarrow>
   last (run_panic_hook lib s') = (if pl_debug_assertions lib \<or> pl_print_msg lib then ExitProcess 1 else AbortProcess)"
  by (auto simp: panic_init_def run_panic_hook_def report_panic_as_dump_def split: if_splits)

end
