(* ===== verification/Spec2Isabelle.thy ===== *)
theory Spec2Isabelle
  imports Hamgrd_Dpu_Scripts Hamgrd_Tests Hamgrd_Runtime Swbus_Client_Tests Swss_Serde_Tests Container Sonicdb_Derive Sonic_Common
begin

text \<open>
  \<^bold>\<open>The high availability services of SONiC DASH.\<close>

  The repository holds the services that keep data processing units (DPUs) of a SONiC switch
  highly available, written in Rust as crates under \<open>src/crates\<close>. They talk to each other over
  a switch bus. This development models the bus, the actor framework on top of it, the manager
  \<open>hamgrd\<close> with its actors, the bridges between databases and bus, and the tools around them,
  and proves what makes each of them correct.

  \<^bold>\<open>The parts and how they interact.\<close>

  \<^item> A bus daemon \<open>swbusd\<close> (\<open>swbusd\<close>, \<open>swbus-core\<close>, configured by \<open>swbus-config\<close>) accepts
    connections of peers and clients, keeps a table of routes and passes messages on by the service
    path of their destination.
  \<^item> A process on the bus has an edge runtime (\<open>swbus-edge\<close>): a router that hands a message to a
    handler of the process or to the daemon, the client of the daemon, and simple clients, which
    answer requests on behalf of their owner.
  \<^item> An actor (\<open>swbus-actor\<close>) is a callback driven by messages. Its driver keeps three tables
    (what was received, rows of databases, what was sent), commits them when the callback succeeds,
    rolls them back when it fails and resends messages until they are acknowledged.
  \<^item> \<open>hamgrd\<close> runs four kinds of actors. Creators start an actor for each row of a configuration
    table; DPU actors report to vDPU actors, these to HA set actors, these to HA scope actors.
  \<^item> \<open>swss-common-bridge\<close> turns changes of tables into messages and messages into changes of
    tables; \<open>swss-serde\<close> is the format of their rows.
  \<^item> \<open>sonicdb-derive\<close> is the macro that gives a struct the name, the separator and the database of its table;
    \<open>sonic-common\<close> starts logging and the panic hook of the processes.
  \<^item> \<open>swbus-cli\<close> asks daemons and actors for their state; \<open>container\<close> starts and stops the
    containers of features.

  \<^bold>\<open>Which theory models what.\<close> Each definition has the name of the function or type it translates;
  a suffix or a prefix is added where a name is taken.

  \<^descr> \<^verbatim>\<open>Prelude\<close> Machine integers, the outcome \<open>res\<close> of a function that returns or panics, the string
    routines of the Rust library, decimal numbers, association lists as maps, bounded channels.
  \<^descr> \<^verbatim>\<open>Swbus_Proto\<close> \<open>swbus-proto/src\<close>: service paths (text form, routing prefixes, scopes), messages,
    error codes and their contracts, message ids. For which paths text form and parser are inverse;
    ids of a generator are distinct (locale \<open>id_source\<close>).
  \<^descr> \<^verbatim>\<open>Swbus_Json\<close> Messages as JSON values, as \<open>swbus-proto/build.rs\<close> has them derived, the adaptors of \<open>swbus.rs\<close> and
    \<open>normalize_msg\<close>: what is written is read back, except for a missing path.
  \<^descr> \<^verbatim>\<open>Swbus_Mux\<close> \<open>swbus-core/src/mux/{multiplexer,nexthop,conn_proxy,conn_info}.rs\<close>: route table
    (locale \<open>route_table\<close>: the best offer per key is kept), next hops, \<open>route_message\<close> with its
    recursion. The lemmas characterise which route is taken, when routing returns at all and what a
    hop changes in a message.
  \<^descr> \<^verbatim>\<open>Swbus_Conn\<close> \<open>swbus-core/src/mux/{conn,conn_store,conn_worker,service}.rs\<close>: the state of a
    daemon as one record and its tasks as the step relation \<open>host_step\<close>; an invariant of all
    reachable states by rule induction, loss and restoration of connections, trace route. The start of the daemon
    is \<open>service_run\<close>, which fails when the endpoint cannot be listened on.
  \<^descr> \<^verbatim>\<open>Swbus_Edge\<close> \<open>swbus-edge/src\<close>: route map with private handlers (locale \<open>handler_map\<close>), edge
    runtime, core client, simple client.
  \<^descr> \<^verbatim>\<open>Swbus_Net\<close> The handshakes of \<open>core_client.rs\<close> and \<open>conn.rs\<close>, and a daemon with its runtimes as the step relation
    \<open>net_step\<close>: requests that are handled were sent, a message between two runtimes arrives.
  \<^descr> \<^verbatim>\<open>Swbus_Run\<close> The loops of \<open>conn_worker.rs\<close> and \<open>core_client.rs\<close> as functions of what their streams yield; the
    run of a worker is a path of \<open>host_step\<close> given by what it receives, the messages that a worker passes on keep their order
    however the tasks of the daemon interleave, the connect task reconnects.
  \<^descr> \<^verbatim>\<open>Swbus_Actor\<close> \<open>swbus-actor/src\<close>: actor messages, the tables, the driver. What a callback may do to
    the tables is the inductive \<open>api_reach\<close>; the locale \<open>bus_actor\<close> states what the driver needs of
    an actor and proves once what each driver then guarantees. It is interpreted by all four actors.
  \<^descr> \<^verbatim>\<open>Hamgrd_Base\<close> \<open>hamgrd/src/{db_structs,ha_actor_messages}.rs\<close>: tables, rows, actor messages.
  \<^descr> \<^verbatim>\<open>Hamgrd_Act\<close> The callbacks of actors as state transformers with outcomes; the locale \<open>act_frame\<close>
    lifts a relation on states over them.
  \<^descr> \<^verbatim>\<open>Hamgrd_Dpu\<close>, \<^verbatim>\<open>Hamgrd_VDpu\<close>, \<^verbatim>\<open>Hamgrd_HaSet\<close>, \<^verbatim>\<open>Hamgrd_HaScope\<close>
    \<open>hamgrd/src/actors/{dpu,vdpu,ha_set,ha_scope}.rs\<close>: every handler of the four actors; what is
    reported and programmed when, and that a failed request leaves no trace.
  \<^descr> \<^verbatim>\<open>Hamgrd_Spec\<close>, \<^verbatim>\<open>Hamgrd_Dpu_Spec\<close> An abstract specification of an actor: a promise is a function from its data
    and the latest message under each key to the messages that leave. In the locale \<open>promising_actor\<close> the driver with all its
    queues and tables refines it; the promises of the vDPU and of the DPU actor are written out and shown to be kept.
  \<^descr> \<^verbatim>\<open>Hamgrd_Creator\<close>, \<^verbatim>\<open>Hamgrd_Main\<close> \<open>hamgrd/src/{actors,main}.rs\<close>: creators, the start of the
    process, which handlers exist afterwards, that a new row starts its actor and that messages from outside to an actor
    that does not exist go to the sink.
  \<^descr> \<^verbatim>\<open>Hamgrd_Runtime\<close> The runtime of the process (\<open>edge_runtime.rs\<close>, \<open>message_router.rs\<close>, \<open>swbus-actor/src/runtime.rs\<close>, the getters
    of \<open>main.rs\<close>): its data stays what \<open>main\<close> attached, no getter and no spawn panics.
  \<^descr> \<^verbatim>\<open>Hamgrd_Serde\<close> The fields of the structs of \<open>db_structs.rs\<close> and \<open>ha_actor_messages.rs\<close> with their serde attributes:
    how rows and messages are written and read (locale \<open>table_struct\<close>: a record and its row determine each other).
  \<^descr> \<^verbatim>\<open>Sonicdb_Derive\<close> \<open>sonicdb-derive/src/lib.rs\<close>: which attributes the macro accepts and the functions it generates.
  \<^descr> \<^verbatim>\<open>Swss_Serde\<close> \<open>swss-serde/src\<close>: the data model of serde, field values, structs, tables; exactly what
    is read, round trips and where they fail.
  \<^descr> \<^verbatim>\<open>Swss_Bridge\<close> \<open>swss-common-bridge/src\<close>: the cache of a table (locale \<open>cached_table\<close>), consumer
    bridges as a step relation with the rehydration from the database, producer bridges.
  \<^descr> \<^verbatim>\<open>Swbus_Config\<close> \<open>swbus-config/src/lib.rs\<close> and \<open>swbusd/src/main.rs\<close>: routes and peers read from the
    configuration database, the start of the daemon with them.
  \<^descr> \<^verbatim>\<open>Swbus_Config_File\<close> The configuration as the values of a YAML document, the database of the test utilities.
  \<^descr> \<^verbatim>\<open>Container\<close> \<open>container/src\<close>: start, stop, kill, wait and id of the container of a feature.
  \<^descr> \<^verbatim>\<open>Swbus_Cli\<close> \<open>swbus-cli/src\<close>: ping, trace route, show routes, show actor.
  \<^descr> \<^verbatim>\<open>Sonic_Common\<close> \<open>sonic-common/src\<close> and the logger of \<open>swbus-cli\<close>: which events are recorded where, what a panic does.
  \<^descr> \<^verbatim>\<open>Swbus_Tests\<close>, \<^verbatim>\<open>Swbus_Client_Tests\<close>, \<^verbatim>\<open>Hamgrd_Tests\<close>, \<^verbatim>\<open>Swss_Serde_Tests\<close> Unit tests of the repository as
    definitions on the model, each with a lemma that it passes: the model agrees with the code where the code
    says itself what it expects.
  \<^descr> \<^verbatim>\<open>Hamgrd_Scripts\<close>, \<^verbatim>\<open>Hamgrd_Dpu_Scripts\<close> The harness of \<open>hamgrd/src/actors/test.rs\<close> and the tests of the vDPU and DPU actors:
    a script that succeeds on the promise of an actor succeeds on its driver, and these scripts do.

  \<^bold>\<open>Errors, panics and waiting.\<close> A Rust function that may return \<open>Err\<close> returns a value of a sum type;
  where it may also panic (\<open>unwrap\<close>, an assertion, an index out of range), the outcome type has a
  constructor for the panic. Tasks of tokio are interleaved by the choice of the next step: one task runs
  from one await to the next. A bounded queue that is full is a branch of its own. Some panics cannot happen or are left out, and the
  text at the definition says so: sends to a router that never ends, \<open>Table::set\<close> of a database that answers, metadata made of a service
  path in ASCII, fields of tracing events that are only evaluated when debug tracing is on. \<open>conn_worker_run\<close> and \<open>connect_loop\<close>
  follow one task alone; the theorems on several tasks are about \<open>host_step\<close> and \<open>net_step\<close>.

  \<^bold>\<open>Loops that may not end.\<close> \<open>route_message\<close> answers a message it cannot route with a message it
  routes again, and \<open>wait_poll\<close> of \<^verbatim>\<open>Container\<close> polls until a container exits. Both are partial
  functions whose value is \<open>None\<close> when they do not return; theorems state exactly when the first returns and
  under which condition the second does. No other function takes fuel: the remaining loops of the code
  are recursions over the data they consume, or one step per event.

  \<^bold>\<open>What is outside the repository\<close> is a parameter: the codec of \<open>serde_json\<close> (\<open>codec\<close>, \<open>json_text\<close>), the
  serialisation of rows in \<open>hamgrd\<close> (\<open>serde\<close>, which \<^verbatim>\<open>Hamgrd_Serde\<close> builds from the times and JSON values of \<open>serde_env\<close>),
  what can be reached over gRPC (\<open>transport\<close>), the loggers and hooks (\<open>log_lib\<close>, \<open>panic_lib\<close>), the environment of its actors with UUIDs, the order of hash
  maps and time (\<open>hamgrd_env\<close>), the databases (\<open>config_source\<close>, \<open>process_env\<close>, the table operations of
  \<^verbatim>\<open>Swss_Serde\<close> and \<^verbatim>\<open>Swss_Bridge\<close>), docker and the databases of \<^verbatim>\<open>Container\<close> (\<open>ctr_sys\<close>), what arrives
  when at the command line tool (\<open>cli_env\<close>). What a theorem needs of them are hypotheses of the theorem,
  and its witness gives a concrete instance.

  \<^bold>\<open>Not modelled.\<close> The gRPC transport and the prost encoding (generated code), which appear as streams of
  messages that may end; the scheduling of tokio beyond the order of steps, also that tasks on two threads change a shared map between
  two lookups of one step; the order of hash maps other than that of \<open>hamgrd_env\<close>, for which entries are visited in the order of
  insertion; characters of more than 8 bits; the text of log messages and
  of most error messages; floating point numbers of \<open>swss-serde\<close> (formatted by the standard library);
  the layout of printed tables; the tests that start daemons over TCP or search the text of a JSON document, and those of the HA set and HA scope
  actors.
\<close>

end
